(* ===== verification/Prelude.thy ===== *)
theory Prelude
  imports Complex_Main "HOL-Library.AList" "HOL-Library.Char_ord" "HOL-Library.List_Lexorder"
    "HOL-Library.Product_Lexorder"
begin

text \<open>
  Shared vocabulary of the development: results that may be errors, Python dictionaries,
  Python strings, and the generic lemmas on them that the components use.

  \<^item> A computation that may raise is a value of a sum type, \<open>Inl\<close> the error and \<open>Inr\<close> the
    result; \<open>bindE\<close> runs one computation after another and \<open>foldE\<close> is a \<open>for\<close> loop whose body
    may raise (the first exception leaves the loop).
  \<^item> A dictionary is an association list in insertion order. \<open>AList.update\<close> overwrites in place
    or appends at the end and \<open>AList.delete\<close> removes a key, which is what assignment and
    \<open>pop\<close> do to a Python dictionary; \<open>map_of\<close> is the lookup.
  \<^item> A string is the list of its bytes in UTF-8. The order on strings is the lexicographic order
    of the bytes, which is Python's order by code points. Case folding and white space are those
    of ASCII.
\<close>

named_theorems res_simps \<open>evaluation of results\<close>
named_theorems dict_simps \<open>lookup after update and delete\<close>

subsection \<open>Results\<close>

definition bindE :: "'e + 'a \<Rightarrow> ('a \<Rightarrow> 'e + 'b) \<Rightarrow> 'e + 'b" where
  "bindE m f = (case m of Inl e \<Rightarrow> Inl e | Inr x \<Rightarrow> f x)"

lemma bindE_Inl [simp, res_simps]: "bindE (Inl e) f = Inl e"
  by (simp add: bindE_def)

lemma bindE_Inr [simp, res_simps]: "bindE (Inr x) f = f x"
  by (simp add: bindE_def)

lemma bindE_eq_Inr: "bindE m f = Inr y \<longleftrightarrow> (\<exists>x. m = Inr x \<and> f x = Inr y)"
  by (cases m) auto

lemma bindE_assoc: "bindE (bindE m f) g = bindE m (\<lambda>x. bindE (f x) g)"
  by (cases m) auto

lemma bindE_cong [fundef_cong]:
  "m = m' \<Longrightarrow> (\<And>x. m' = Inr x \<Longrightarrow> f x = f' x) \<Longrightarrow> bindE m f = bindE m' f'"
  by (cases m') auto

primrec foldE :: "('a \<Rightarrow> 's \<Rightarrow> 'e + 's) \<Rightarrow> 'a list \<Rightarrow> 's \<Rightarrow> 'e + 's" where
  "foldE f [] s = Inr s"
| "foldE f (x # xs) s = bindE (f x s) (foldE f xs)"

lemma foldE_append: "foldE f (xs @ ys) s = bindE (foldE f xs s) (foldE f ys)"
proof (induction xs arbitrary: s)
  case (Cons x xs)
  then show ?case by (cases "f x s") auto
qed simp

lemma foldE_inv:
  assumes "foldE f xs s = Inr t" and "P s"
    and "\<And>x u v. x \<in> set xs \<Longrightarrow> P u \<Longrightarrow> f x u = Inr v \<Longrightarrow> P v"
  shows "P t"
  using assms
proof (induction xs arbitrary: s)
  case (Cons x xs)
  then obtain u where u: "f x s = Inr u" "foldE f xs u = Inr t"
    by (auto simp: bindE_eq_Inr)
  have "P u" using Cons.prems(3) [of x s u] Cons.prems(2) u(1) by simp
  then show ?case using u(2) Cons.IH [of u] Cons.prems(3) by (meson list.set_intros(2))
qed simp

primrec mapE :: "('a \<Rightarrow> 'e + 'b) \<Rightarrow> 'a list \<Rightarrow> 'e + 'b list" where
  "mapE f [] = Inr []"
| "mapE f (x # xs) = bindE (f x) (\<lambda>y. bindE (mapE f xs) (\<lambda>ys. Inr (y # ys)))"

lemma mapE_length: "mapE f xs = Inr ys \<Longrightarrow> length ys = length xs"
  by (induction xs arbitrary: ys) (auto simp: bindE_eq_Inr)

lemma mapE_total:
  "(\<And>x. x \<in> set xs \<Longrightarrow> f x = Inr (g x)) \<Longrightarrow> mapE f xs = Inr (map g xs)"
  by (induction xs) auto

text \<open>\<open>yields P m\<close>: the result of \<open>m\<close>, when it has one, satisfies \<open>P\<close>.\<close>

named_theorems yield_intros \<open>introduction rules for the result of a computation\<close>

definition yields :: "('a \<Rightarrow> bool) \<Rightarrow> 'e + 'a \<Rightarrow> bool" where
  "yields P m \<longleftrightarrow> (case m of Inl e \<Rightarrow> True | Inr x \<Rightarrow> P x)"

lemma yields_Inl [simp, yield_intros]: "yields P (Inl e)"
  by (simp add: yields_def)

lemma yields_Inr [yield_intros]: "P x \<Longrightarrow> yields P (Inr x)"
  by (simp add: yields_def)

lemma yields_Inr_iff [simp]: "yields P (Inr x) = P x"
  by (simp add: yields_def)

lemma yieldsD: "yields P m \<Longrightarrow> m = Inr x \<Longrightarrow> P x"
  by (simp add: yields_def)

lemma yieldsI: "(\<And>x. m = Inr x \<Longrightarrow> P x) \<Longrightarrow> yields P m"
  by (simp add: yields_def split: sum.split)

lemma yields_bind [yield_intros]:
  "(\<And>x. m = Inr x \<Longrightarrow> yields P (f x)) \<Longrightarrow> yields P (bindE m f)"
  by (cases m) simp_all

lemma yields_if [yield_intros]:
  "(b \<Longrightarrow> yields P x) \<Longrightarrow> (\<not> b \<Longrightarrow> yields P y) \<Longrightarrow> yields P (if b then x else y)"
  by simp

lemma yields_option [yield_intros]:
  "(z = None \<Longrightarrow> yields P x) \<Longrightarrow> (\<And>k. z = Some k \<Longrightarrow> yields P (f k)) \<Longrightarrow>
   yields P (case z of None \<Rightarrow> x | Some k \<Rightarrow> f k)"
  by (cases z) simp_all

lemma yields_sum [yield_intros]:
  "(\<And>e. m = Inl e \<Longrightarrow> yields P (f e)) \<Longrightarrow> (\<And>x. m = Inr x \<Longrightarrow> yields P (g x)) \<Longrightarrow>
   yields P (case m of Inl e \<Rightarrow> f e | Inr x \<Rightarrow> g x)"
  by (cases m) simp_all

lemma yields_mono: "yields P m \<Longrightarrow> (\<And>x. P x \<Longrightarrow> Q x) \<Longrightarrow> yields Q m"
  by (cases m) simp_all

text \<open>A loop that may run out of fuel.\<close>

primrec foldO :: "('a \<Rightarrow> 's \<Rightarrow> 's option) \<Rightarrow> 'a list \<Rightarrow> 's \<Rightarrow> 's option" where
  "foldO f [] s = Some s"
| "foldO f (x # xs) s = (case f x s of None \<Rightarrow> None | Some s' \<Rightarrow> foldO f xs s')"

lemma foldO_append:
  "foldO f (xs @ ys) s = (case foldO f xs s of None \<Rightarrow> None | Some t \<Rightarrow> foldO f ys t)"
  by (induction xs arbitrary: s) (auto split: option.splits)

lemma foldO_inv:
  assumes "foldO f xs s = Some t" and "P s"
    and "\<And>x u v. x \<in> set xs \<Longrightarrow> P u \<Longrightarrow> f x u = Some v \<Longrightarrow> P v"
  shows "P t"
  using assms
proof (induction xs arbitrary: s)
  case (Cons x xs)
  then obtain u where u: "f x s = Some u" "foldO f xs u = Some t"
    by (auto split: option.splits)
  have "P u" using Cons.prems(3) [of x s u] Cons.prems(2) u(1) by simp
  then show ?case using u(2) Cons.IH [of u] Cons.prems(3) by (meson list.set_intros(2))
qed simp

lemma foldO_total:
  assumes "P s" and "\<And>x u. x \<in> set xs \<Longrightarrow> P u \<Longrightarrow> \<exists>v. f x u = Some v \<and> P v"
  shows "\<exists>t. foldO f xs s = Some t \<and> P t"
  using assms
proof (induction xs arbitrary: s)
  case (Cons x xs)
  then obtain u where "f x s = Some u" "P u"
    by (meson list.set_intros(1))
  moreover have "\<exists>t. foldO f xs u = Some t \<and> P t"
    using Cons.IH [of u] Cons.prems(2) \<open>P u\<close> by simp
  ultimately show ?case by simp
qed simp

subsection \<open>Dictionaries\<close>

type_synonym 'v dict = "(string \<times> 'v) list"

abbreviation dict_wf :: "'v dict \<Rightarrow> bool" where
  "dict_wf d \<equiv> distinct (map fst d)"

abbreviation has_key :: "string \<Rightarrow> 'v dict \<Rightarrow> bool" where
  "has_key k d \<equiv> map_of d k \<noteq> None"

lemma map_of_update [simp, dict_simps]: "map_of (AList.update k v d) = (map_of d)(k \<mapsto> v)"
  by (rule update_conv')

lemma map_of_delete [simp, dict_simps]: "map_of (AList.delete k d) = (map_of d)(k := None)"
  by (rule delete_conv')

lemma dict_wf_update [simp]: "dict_wf d \<Longrightarrow> dict_wf (AList.update k v d)"
  by (rule distinct_update)

lemma dict_wf_delete [simp]: "dict_wf d \<Longrightarrow> dict_wf (AList.delete k d)"
  by (rule distinct_delete)

text \<open>\<open>{k: d[k] for k in sorted(d)}\<close>: the same entries, in the order of their keys.\<close>

definition sort_dict :: "'v dict \<Rightarrow> 'v dict" where
  "sort_dict d = sort_key fst d"

lemma set_sort_dict [simp]: "set (sort_dict d) = set d"
  by (simp add: sort_dict_def)

lemma dict_wf_sort_dict [simp]: "dict_wf (sort_dict d) = dict_wf d"
  by (simp add: sort_dict_def distinct_map)

lemma map_of_sort_dict: "dict_wf d \<Longrightarrow> map_of (sort_dict d) = map_of d"
  by (rule map_of_inject_set [THEN iffD2]) auto

lemma sort_dict_keys_sorted: "sorted (map fst (sort_dict d))"
  by (simp add: sort_dict_def)

subsection \<open>Sorted lists of the elements of a set\<close>

text \<open>\<open>sorted(set(xs))\<close>.\<close>

definition sorted_set :: "'a::linorder list \<Rightarrow> 'a list" where
  "sorted_set xs = sort (remdups xs)"

lemma set_sorted_set [simp]: "set (sorted_set xs) = set xs"
  by (simp add: sorted_set_def)

lemma distinct_sorted_set [simp]: "distinct (sorted_set xs)"
  by (simp add: sorted_set_def)

lemma sorted_sorted_set [simp]: "sorted (sorted_set xs)"
  by (simp add: sorted_set_def)

lemma sorted_set_cong: "set xs = set ys \<Longrightarrow> sorted_set xs = sorted_set ys"
  by (rule sorted_distinct_set_unique) simp_all

lemma sorted_set_id: "sorted xs \<Longrightarrow> distinct xs \<Longrightarrow> sorted_set xs = xs"
  by (rule sorted_distinct_set_unique) simp_all

lemma sorted_set_Nil [simp]: "sorted_set xs = [] \<longleftrightarrow> xs = []"
  by (metis set_empty set_sorted_set)

subsection \<open>Strings\<close>

definition is_space :: "char \<Rightarrow> bool" where
  "is_space c = (let n = (of_char c :: nat) in 9 \<le> n \<and> n \<le> 13 \<or> 28 \<le> n \<and> n \<le> 32)"

definition strip :: "string \<Rightarrow> string" where
  "strip s = rev (dropWhile is_space (rev (dropWhile is_space s)))"

definition ascii_lower :: "char \<Rightarrow> char" where
  "ascii_lower c = (let n = (of_char c :: nat) in if 65 \<le> n \<and> n \<le> 90 then char_of (n + 32) else c)"

definition ascii_upper :: "char \<Rightarrow> char" where
  "ascii_upper c = (let n = (of_char c :: nat) in if 97 \<le> n \<and> n \<le> 122 then char_of (n - 32) else c)"

text \<open>\<open>str.lower\<close>, \<open>str.casefold\<close> and \<open>str.upper\<close> on ASCII text.\<close>

definition lower :: "string \<Rightarrow> string" where "lower = map ascii_lower"

definition casefold :: "string \<Rightarrow> string" where "casefold = map ascii_lower"

definition upper :: "string \<Rightarrow> string" where "upper = map ascii_upper"

text \<open>\<open>needle in s\<close> for strings.\<close>

fun starts_with :: "string \<Rightarrow> string \<Rightarrow> bool" where
  "starts_with [] s = True"
| "starts_with (x # xs) [] = False"
| "starts_with (x # xs) (y # ys) = (x = y \<and> starts_with xs ys)"

fun contains :: "string \<Rightarrow> string \<Rightarrow> bool" where
  "contains p [] = (p = [])"
| "contains p (y # ys) = (starts_with p (y # ys) \<or> contains p ys)"

lemma starts_with_iff: "starts_with p s \<longleftrightarrow> (\<exists>r. s = p @ r)"
  by (induction p s rule: starts_with.induct) auto

lemma contains_iff: "contains p s \<longleftrightarrow> (\<exists>l r. s = l @ p @ r)"
proof (induction s)
  case (Cons y ys)
  show ?case
  proof
    assume "contains p (y # ys)"
    then consider "starts_with p (y # ys)" | "contains p ys" by auto
    then show "\<exists>l r. y # ys = l @ p @ r"
    proof cases
      case 1
      then show ?thesis by (metis append_Nil starts_with_iff)
    next
      case 2
      with Cons.IH show ?thesis by (metis append_Cons)
    qed
  next
    assume "\<exists>l r. y # ys = l @ p @ r"
    then obtain l r where lr: "y # ys = l @ p @ r" by blast
    show "contains p (y # ys)"
    proof (cases l)
      case Nil
      with lr have "starts_with p (y # ys)" by (simp add: starts_with_iff)
      then show ?thesis by simp
    next
      case (Cons z l')
      with lr have "ys = l' @ p @ r" by simp
      with Cons.IH show ?thesis by auto
    qed
  qed
qed auto

lemma dropWhile_blank: "dropWhile P xs = [] \<longleftrightarrow> (\<forall>x \<in> set xs. P x)"
  by (induction xs) auto

lemma strip_Nil_iff: "strip s = [] \<longleftrightarrow> (\<forall>c \<in> set s. is_space c)"
proof -
  have "strip s = [] \<longleftrightarrow> (\<forall>c \<in> set (dropWhile is_space s). is_space c)"
    by (simp add: strip_def dropWhile_blank)
  also have "\<dots> \<longleftrightarrow> dropWhile is_space s = []"
  proof
    assume a: "\<forall>c \<in> set (dropWhile is_space s). is_space c"
    show "dropWhile is_space s = []"
    proof (rule ccontr)
      assume "dropWhile is_space s \<noteq> []"
      then show False using a hd_dropWhile [of is_space s] by simp
    qed
  qed (auto dest: set_dropWhileD)
  finally show ?thesis by (simp add: dropWhile_blank)
qed

text \<open>The number of characters of a text given by its bytes: continuation bytes do not count.\<close>

definition char_count :: "string \<Rightarrow> nat" where
  "char_count s = length (filter (\<lambda>c. (of_char c :: nat) < 128 \<or> 192 \<le> (of_char c :: nat)) s)"

definition is_digit :: "char \<Rightarrow> bool" where
  "is_digit c = (let n = (of_char c :: nat) in 48 \<le> n \<and> n \<le> 57)"

definition is_lower :: "char \<Rightarrow> bool" where
  "is_lower c = (let n = (of_char c :: nat) in 97 \<le> n \<and> n \<le> 122)"

definition is_upper :: "char \<Rightarrow> bool" where
  "is_upper c = (let n = (of_char c :: nat) in 65 \<le> n \<and> n \<le> 90)"

definition is_alnum :: "char \<Rightarrow> bool" where
  "is_alnum c = (is_digit c \<or> is_lower c \<or> is_upper c)"

definition is_hex :: "char \<Rightarrow> bool" where
  "is_hex c = (is_digit c \<or> (let n = (of_char c :: nat) in 97 \<le> n \<and> n \<le> 102))"

text \<open>Decimal notation of an integer.\<close>

fun nat_str :: "nat \<Rightarrow> string" where
  "nat_str n = (if n < 10 then [char_of (48 + n)] else nat_str (n div 10) @ [char_of (48 + n mod 10)])"

declare nat_str.simps [simp del]

definition int_str :: "int \<Rightarrow> string" where
  "int_str i = (if i < 0 then ''-'' @ nat_str (nat (- i)) else nat_str (nat i))"

end
