(* ===== verification/Py_Json.thy ===== *)
theory Py_Json
  imports Prelude
begin

text \<open>
  JSON values as Python sees them, POWER Canonical JSON v1 (\<open>core/canonical_json.py\<close>), and the
  exceptions of the project state engine.

  The record \<open>pyrt\<close> gathers the functions of the Python runtime and of pydantic that the code
  calls and that the repository does not define: SHA-256, the text of a float and of a container,
  and the reading of numbers from text. Every definition takes it as an argument and every
  theorem holds for all of them, unless it says otherwise.
\<close>

subsection \<open>Values\<close>

text \<open>
  A finite double other than \<open>-0.0\<close> is the rational number it denotes.
\<close>

datatype pyfloat = Fin rat | NegZero | PInf | NInf | NaN

datatype json =
    JNull
  | JBool bool
  | JInt int
  | JFloat pyfloat
  | JStr string
  | JList "json list"
  | JObj "(string \<times> json) list"

type_synonym payload = "json dict"

record pyrt =
  sha256_hex :: "string \<Rightarrow> string"
  float_repr :: "pyfloat \<Rightarrow> string"
  float_of_str :: "string \<Rightarrow> pyfloat option"
  int_of_str :: "string \<Rightarrow> int option"
  lax_int_of_str :: "string \<Rightarrow> int option"
  lax_float_of_str :: "string \<Rightarrow> pyfloat option"
  py_repr :: "json \<Rightarrow> string"

fun truthy :: "json \<Rightarrow> bool" where
  "truthy JNull = False"
| "truthy (JBool b) = b"
| "truthy (JInt i) = (i \<noteq> 0)"
| "truthy (JFloat f) = (f \<noteq> Fin 0 \<and> f \<noteq> NegZero)"
| "truthy (JStr s) = (s \<noteq> [])"
| "truthy (JList xs) = (xs \<noteq> [])"
| "truthy (JObj d) = (d \<noteq> [])"

text \<open>\<open>a or b\<close>, \<open>d.get(k)\<close>, \<open>d.get(k, v)\<close>.\<close>

definition py_or :: "json \<Rightarrow> json \<Rightarrow> json" where
  "py_or a b = (if truthy a then a else b)"

definition jget :: "payload \<Rightarrow> string \<Rightarrow> json" where
  "jget d k = (case map_of d k of None \<Rightarrow> JNull | Some v \<Rightarrow> v)"

definition jget_or :: "payload \<Rightarrow> string \<Rightarrow> json \<Rightarrow> json" where
  "jget_or d k v = (case map_of d k of None \<Rightarrow> v | Some w \<Rightarrow> w)"

lemma jget_Nil [simp]: "jget [] k = JNull"
  by (simp add: jget_def)

lemma jget_update [simp, dict_simps]:
  "jget (AList.update k v d) k' = (if k = k' then v else jget d k')"
  by (simp add: jget_def)

lemma truthy_py_or [simp]: "truthy (py_or a b) \<longleftrightarrow> truthy a \<or> truthy b"
  by (simp add: py_or_def)

text \<open>\<open>isinstance(v, str) and v.strip()\<close>, and the stripped text.\<close>

definition nonblank :: "json \<Rightarrow> bool" where
  "nonblank j = (case j of JStr s \<Rightarrow> strip s \<noteq> [] | _ \<Rightarrow> False)"

definition jstr :: "json \<Rightarrow> string" where
  "jstr j = (case j of JStr s \<Rightarrow> s | _ \<Rightarrow> [])"

definition is_jstr :: "json \<Rightarrow> bool" where
  "is_jstr j = (case j of JStr _ \<Rightarrow> True | _ \<Rightarrow> False)"

lemma nonblank_JStr [simp]: "nonblank (JStr s) \<longleftrightarrow> strip s \<noteq> []"
  by (simp add: nonblank_def)

lemma jstr_JStr [simp]: "jstr (JStr s) = s"
  by (simp add: jstr_def)

lemma nonblankE: "nonblank j \<Longrightarrow> (\<And>s. j = JStr s \<Longrightarrow> strip s \<noteq> [] \<Longrightarrow> P) \<Longrightarrow> P"
  by (auto simp: nonblank_def split: json.splits)

text \<open>\<open>str(v)\<close>, and whether \<open>str(v).strip()\<close> has text left: it does for every value but a string.\<close>

definition py_str :: "pyrt \<Rightarrow> json \<Rightarrow> string" where
  "py_str rt j = (case j of
       JNull \<Rightarrow> ''None''
     | JBool b \<Rightarrow> (if b then ''True'' else ''False'')
     | JInt i \<Rightarrow> int_str i
     | JFloat f \<Rightarrow> float_repr rt f
     | JStr s \<Rightarrow> s
     | _ \<Rightarrow> py_repr rt j)"

definition str_nonblank :: "json \<Rightarrow> bool" where
  "str_nonblank j = (case j of JStr s \<Rightarrow> strip s \<noteq> [] | _ \<Rightarrow> True)"

subsection \<open>Exceptions\<close>

text \<open>
  The exceptions of the state engine (\<open>core/state_models.py\<close>). \<open>StateEngineIntegrityError\<close> carries
  the check that failed, \<open>IllegalStateTransitionError\<close> the reason codes of the governance engine.
  \<open>PyError\<close> stands for a \<open>TypeError\<close>, \<open>ValueError\<close> or pydantic \<open>ValidationError\<close> that a built-in or a
  model constructor raises.
\<close>

datatype integrity_fault =
    EmptyStream | InitialStateProject | RulesDigestMismatch | RulesDigestEmpty
  | TaskViewDigest | DecisionViewDigest
  | CrossProject | SequenceGap | BrokenChain | BadFirstSequence
  | PayloadDigestMismatch | EventHashMismatch
  | UntrustedProvenance | UntrustedGovernance
  | EvalBoundary | EvalSource | EvalInvalid | EvalType | EvalPhase | EvalBinding | EvalRules
  | EvalSourcePhase | EvalEvidence | EvalAccountable | EvalUnassociatedTask | EvalTaskDigest
  | EvalUnassociatedDecision | EvalDecisionDigest | EvalNoTasks | EvalApproval | EvalReceipt
  | OverrideBoundary | TailGap | TailHash

datatype pse_error =
    IllegalTransition "string list"
  | IntegrityError integrity_fault
  | SnapshotIntegrity
  | UnexplainableField
  | PyError

subsection \<open>Iteration\<close>

text \<open>\<open>for x in v\<close>: lists, the characters of a string, the keys of a dictionary.\<close>

definition py_iter :: "json \<Rightarrow> pse_error + json list" where
  "py_iter j = (case j of
       JList xs \<Rightarrow> Inr xs
     | JStr s \<Rightarrow> Inr (map (\<lambda>c. JStr [c]) s)
     | JObj d \<Rightarrow> Inr (map (JStr \<circ> fst) d)
     | _ \<Rightarrow> Inl PyError)"

text \<open>
  The elements of an iterable that ends in a field of type \<open>list[str]\<close>: an element that is not a
  string makes \<open>sorted\<close>, the hash of a set element or the field's validation raise.
\<close>

definition str_elements :: "json \<Rightarrow> pse_error + string list" where
  "str_elements j =
     bindE (py_iter j) (\<lambda>xs. if list_all is_jstr xs then Inr (map jstr xs) else Inl PyError)"

lemma map_jstr_JStr [simp]: "map (jstr \<circ> JStr) xs = xs"
  by (induction xs) auto

lemma list_all_is_jstr [simp]: "list_all is_jstr (map JStr xs)"
  by (induction xs) (auto simp: is_jstr_def)

lemma str_elements_strs [simp]: "str_elements (JList (map JStr xs)) = Inr xs"
  by (simp add: str_elements_def py_iter_def)

lemma str_elements_empty [simp]: "str_elements (JList []) = Inr []"
  by (simp add: str_elements_def py_iter_def)

subsection \<open>Canonical JSON\<close>

text \<open>\<open>_check_floats\<close>: every float of the value is finite.\<close>

fun check_floats :: "json \<Rightarrow> bool"
and check_floats_list :: "json list \<Rightarrow> bool"
and check_floats_items :: "(string \<times> json) list \<Rightarrow> bool" where
  "check_floats (JFloat f) = (f \<notin> {NaN, PInf, NInf})"
| "check_floats (JList xs) = check_floats_list xs"
| "check_floats (JObj d) = check_floats_items d"
| "check_floats _ = True"
| "check_floats_list [] = True"
| "check_floats_list (x # xs) = (check_floats x \<and> check_floats_list xs)"
| "check_floats_items [] = True"
| "check_floats_items ((k, v) # d) = (check_floats v \<and> check_floats_items d)"

text \<open>\<open>sort_keys=True\<close>, at every level.\<close>

fun sort_keys :: "json \<Rightarrow> json"
and sort_keys_list :: "json list \<Rightarrow> json list"
and sort_keys_items :: "(string \<times> json) list \<Rightarrow> (string \<times> json) list" where
  "sort_keys (JList xs) = JList (sort_keys_list xs)"
| "sort_keys (JObj d) = JObj (sort_dict (sort_keys_items d))"
| "sort_keys j = j"
| "sort_keys_list [] = []"
| "sort_keys_list (x # xs) = sort_keys x # sort_keys_list xs"
| "sort_keys_items [] = []"
| "sort_keys_items ((k, v) # d) = (k, sort_keys v) # sort_keys_items d"

definition hex_digit :: "nat \<Rightarrow> char" where
  "hex_digit n = (if n < 10 then char_of (48 + n) else char_of (87 + n))"

definition escape_char :: "char \<Rightarrow> string" where
  "escape_char c =
     (let n = (of_char c :: nat) in
      if n = 34 then [CHR 0x5C, CHR 0x22]
      else if n = 92 then [CHR 0x5C, CHR 0x5C]
      else if n = 10 then [CHR 0x5C, CHR ''n'']
      else if n = 13 then [CHR 0x5C, CHR ''r'']
      else if n = 9 then [CHR 0x5C, CHR ''t'']
      else if n = 8 then [CHR 0x5C, CHR ''b'']
      else if n = 12 then [CHR 0x5C, CHR ''f'']
      else if n < 32 then [CHR 0x5C, CHR ''u'', CHR ''0'', CHR ''0'', hex_digit (n div 16), hex_digit (n mod 16)]
      else [c])"

definition quote :: "string \<Rightarrow> string" where
  "quote s = [CHR 0x22] @ concat (map escape_char s) @ [CHR 0x22]"

text \<open>\<open>json.dumps(\<dots>, ensure_ascii=False, separators=(",", ":"))\<close>.\<close>

fun dumps :: "pyrt \<Rightarrow> json \<Rightarrow> string"
and dumps_list :: "pyrt \<Rightarrow> json list \<Rightarrow> string"
and dumps_items :: "pyrt \<Rightarrow> (string \<times> json) list \<Rightarrow> string" where
  "dumps rt JNull = ''null''"
| "dumps rt (JBool b) = (if b then ''true'' else ''false'')"
| "dumps rt (JInt i) = int_str i"
| "dumps rt (JFloat f) = float_repr rt f"
| "dumps rt (JStr s) = quote s"
| "dumps rt (JList xs) = ''['' @ dumps_list rt xs @ '']''"
| "dumps rt (JObj d) = ''{'' @ dumps_items rt d @ ''}''"
| "dumps_list rt [] = []"
| "dumps_list rt (x # xs) = dumps rt x @ (if xs = [] then [] else '','' @ dumps_list rt xs)"
| "dumps_items rt [] = []"
| "dumps_items rt ((k, v) # d) =
     quote k @ '':'' @ dumps rt v @ (if d = [] then [] else '','' @ dumps_items rt d)"

definition canonical_json_dumps :: "pyrt \<Rightarrow> json \<Rightarrow> pse_error + string" where
  "canonical_json_dumps rt j =
     (if check_floats j then Inr (dumps rt (sort_keys j)) else Inl PyError)"

definition canonical_digest :: "pyrt \<Rightarrow> json \<Rightarrow> pse_error + string" where
  "canonical_digest rt j = bindE (canonical_json_dumps rt j) (\<lambda>s. Inr (sha256_hex rt s))"

definition compute_payload_digest :: "pyrt \<Rightarrow> payload \<Rightarrow> pse_error + string" where
  "compute_payload_digest rt p = canonical_digest rt (JObj p)"

definition compute_event_hash :: "pyrt \<Rightarrow> payload \<Rightarrow> pse_error + string" where
  "compute_event_hash rt ev = canonical_digest rt (JObj (filter (\<lambda>(k, v). k \<noteq> ''event_hash'') ev))"

subsection \<open>Facts about the canonical form\<close>

lemma sort_dict_unique:
  assumes "dict_wf d" "dict_wf e" "set d = set e"
  shows "sort_dict d = sort_dict e"
proof -
  have "sort_key fst d = sort_key fst e"
  proof (rule map_sorted_distinct_set_unique [where f = fst])
    show "inj_on fst (set (sort_key fst d) \<union> set (sort_key fst e))"
      using assms by (simp add: distinct_map)
    show "distinct (map fst (sort_key fst d))" "distinct (map fst (sort_key fst e))"
      using assms dict_wf_sort_dict [of d] dict_wf_sort_dict [of e] by (simp_all add: sort_dict_def)
    show "set (sort_key fst d) = set (sort_key fst e)" using assms by simp
  qed simp_all
  then show ?thesis by (simp add: sort_dict_def)
qed

lemma sort_keys_items_map: "sort_keys_items d = map (\<lambda>(k, v). (k, sort_keys v)) d"
  by (induction d) auto

lemma check_floats_items_all: "check_floats_items d \<longleftrightarrow> (\<forall>(k, v) \<in> set d. check_floats v)"
  by (induction d) auto

lemma fst_sort_keys_items [simp]: "map fst (sort_keys_items d) = map fst d"
  by (induction d) auto

lemma canonical_digest_insertion_order:
  assumes "dict_wf d" "dict_wf e" "map_of d = map_of e"
  shows "canonical_digest rt (JObj d) = canonical_digest rt (JObj e)"
proof -
  have set: "set d = set e"
    using assms by (metis map_of_inject_set)
  have "set (sort_keys_items d) = set (sort_keys_items e)"
    using set by (simp add: sort_keys_items_map)
  then have "sort_dict (sort_keys_items d) = sort_dict (sort_keys_items e)"
    using assms(1,2) by (intro sort_dict_unique) simp_all
  moreover have "check_floats_items d = check_floats_items e"
    using set by (simp add: check_floats_items_all)
  ultimately show ?thesis
    by (simp add: canonical_digest_def canonical_json_dumps_def)
qed

end
