(* ===== verification/Project_Event.thy ===== *)
theory Project_Event
  imports Py_Json
begin

text \<open>
  The canonical ledger event and the append command of the project state engine
  (\<open>core/project_models.py\<close>): the identifier grammars, the field constraints, the cross-subsystem
  saga payloads and their normalisation, and the digests over them (\<open>core/canonical_json.py\<close>).

  The grammars are predicates on strings. Python's \<open>re.match\<close> lets \<open>$\<close> match before a final line
  feed, pydantic's patterns do not: \<open>py_dollar\<close> is that difference.
\<close>

subsection \<open>Identifier grammars\<close>

definition py_dollar :: "(string \<Rightarrow> bool) \<Rightarrow> string \<Rightarrow> bool" where
  "py_dollar P s = (P s \<or> (s \<noteq> [] \<and> last s = CHR 0x0A \<and> P (butlast s)))"

definition id_char :: "char \<Rightarrow> bool" where
  "id_char c = (is_alnum c \<or> c \<in> set ''._-'')"

definition re_project_id :: "string \<Rightarrow> bool" where
  "re_project_id s =
     (take 4 s = ''prj_'' \<and>
      (case drop 4 s of
         [] \<Rightarrow> False
       | c # r \<Rightarrow> (is_lower c \<or> is_digit c) \<and> 2 \<le> length r \<and> length r \<le> 63 \<and>
           list_all (\<lambda>x. is_lower x \<or> is_digit x \<or> x \<in> set ''_-'') r))"

definition re_event_id :: "string \<Rightarrow> bool" where
  "re_event_id s =
     (take 4 s = ''evt_'' \<and>
      (case drop 4 s of [] \<Rightarrow> False
       | c # r \<Rightarrow> is_alnum c \<and> length r \<le> 127 \<and> list_all id_char r))"

definition re_hash :: "string \<Rightarrow> bool" where
  "re_hash s = (length s = 64 \<and> list_all is_hex s)"

definition re_prev_hash :: "string \<Rightarrow> bool" where
  "re_prev_hash s = (s = [] \<or> re_hash s)"

fun match_shape :: "string \<Rightarrow> string \<Rightarrow> string option" where
  "match_shape [] s = Some s"
| "match_shape (p # ps) [] = None"
| "match_shape (p # ps) (c # s) =
     (if (if p = CHR ''9'' then is_digit c else c = p) then match_shape ps s else None)"

definition re_timestamp :: "string \<Rightarrow> bool" where
  "re_timestamp s = (case match_shape ''9999-99-99T99:99:99'' s of
       None \<Rightarrow> False
     | Some r \<Rightarrow>
         (let q = (case r of c # ds \<Rightarrow>
                     if c = CHR ''.'' \<and> takeWhile is_digit ds \<noteq> [] then dropWhile is_digit ds else r
                   | [] \<Rightarrow> r)
          in q = ''Z'' \<or> q = ''+00:00''))"

definition validate_project_id :: "string \<Rightarrow> bool" where
  "validate_project_id s =
     (\<not> contains ''..'' s \<and> CHR ''/'' \<notin> set s \<and> CHR 0x5C \<notin> set s \<and> py_dollar re_project_id s)"

definition validate_event_id :: "string \<Rightarrow> bool" where
  "validate_event_id s = py_dollar re_event_id s"

definition generate_deterministic_event_id :: "pyrt \<Rightarrow> string \<Rightarrow> string \<Rightarrow> string" where
  "generate_deterministic_event_id rt pid key =
     ''evt_'' @ take 24 (sha256_hex rt (pid @ '':'' @ key))"

subsection \<open>Event types\<close>

definition PROJECT_EVENT_TYPES :: "string list" where
  "PROJECT_EVENT_TYPES =
    [''project.created'', ''project.updated'', ''project.renamed'', ''project.relocated'',
     ''project.phase.proposed'', ''project.phase.changed'', ''project.archived'',
     ''project.reopened'', ''session.started'', ''session.ended'',
     ''task.association.requested'', ''task.associated'', ''task.disassociated'',
     ''task.association.failed'', ''task.lifecycle.observed'',
     ''decision.association.requested'', ''decision.associated'', ''decision.disassociated'',
     ''decision.association.failed'', ''decision.lifecycle.observed'',
     ''risk.opened'', ''risk.updated'', ''risk.closed'',
     ''assumption.created'', ''assumption.updated'', ''assumption.invalidated'',
     ''assumption.confirmed'', ''issue.opened'', ''issue.updated'', ''issue.resolved'',
     ''issue.closed'', ''dependency.created'', ''dependency.updated'', ''dependency.resolved'',
     ''raci.assigned'', ''raci.revoked'', ''dor.evaluated'', ''dod.evaluated'',
     ''gate.overridden'', ''artifact.created'', ''artifact.updated'',
     ''observation.recorded'', ''lesson.recorded'', ''evidence.attached'']"

subsection \<open>The event and the command\<close>

record project_event =
  ev_event_id :: string
  ev_schema_version :: string
  ev_project_id :: string
  ev_sequence :: int
  ev_timestamp :: string
  ev_actor :: string
  ev_source :: string
  ev_session_id :: "string option"
  ev_event_type :: string
  ev_payload :: payload
  ev_payload_digest :: string
  ev_prev_event_hash :: string
  ev_event_hash :: string
  ev_artifact_refs :: "string list"
  ev_evidence_refs :: "string list"
  ev_correlation_id :: "string option"
  ev_causation_id :: "string option"
  ev_idempotency_key :: "string option"

record append_command =
  ac_project_id :: string
  ac_event_type :: string
  ac_payload :: payload
  ac_actor :: string
  ac_source :: string
  ac_session_id :: "string option"
  ac_artifact_refs :: "string list"
  ac_evidence_refs :: "string list"
  ac_correlation_id :: "string option"
  ac_causation_id :: "string option"
  ac_idempotency_key :: "string option"
  ac_event_id :: "string option"
  ac_timestamp :: "string option"

definition jopt :: "string option \<Rightarrow> json" where
  "jopt x = (case x of None \<Rightarrow> JNull | Some s \<Rightarrow> JStr s)"

definition jstrs :: "string list \<Rightarrow> json" where
  "jstrs xs = JList (map JStr xs)"

text \<open>\<open>model_dump()\<close>.\<close>

definition event_dump :: "project_event \<Rightarrow> payload" where
  "event_dump e =
    [(''event_id'', JStr (ev_event_id e)), (''schema_version'', JStr (ev_schema_version e)),
     (''project_id'', JStr (ev_project_id e)), (''sequence'', JInt (ev_sequence e)),
     (''timestamp'', JStr (ev_timestamp e)), (''actor'', JStr (ev_actor e)),
     (''source'', JStr (ev_source e)), (''session_id'', jopt (ev_session_id e)),
     (''event_type'', JStr (ev_event_type e)), (''payload'', JObj (ev_payload e)),
     (''payload_digest'', JStr (ev_payload_digest e)),
     (''prev_event_hash'', JStr (ev_prev_event_hash e)),
     (''event_hash'', JStr (ev_event_hash e)),
     (''artifact_refs'', jstrs (ev_artifact_refs e)),
     (''evidence_refs'', jstrs (ev_evidence_refs e)),
     (''correlation_id'', jopt (ev_correlation_id e)),
     (''causation_id'', jopt (ev_causation_id e)),
     (''idempotency_key'', jopt (ev_idempotency_key e))]"

definition event_hash_of :: "pyrt \<Rightarrow> project_event \<Rightarrow> pse_error + string" where
  "event_hash_of rt e = compute_event_hash rt (event_dump e)"

subsection \<open>Saga payloads\<close>

text \<open>
  The six payload classes of the association saga, as lists of fields. \<open>validate_saga\<close> is
  \<open>model_validate\<close> followed by \<open>model_dump\<close>: unknown keys are refused, missing fields get their
  defaults, and the result lists every field of the class in order.
\<close>

datatype saga_field = FProjectId | FStr nat nat | FRelation string | FOptStr nat | FIntGe1 int

definition saga_fields :: "string \<Rightarrow> (string \<times> saga_field) list option" where
  "saga_fields et =
    (let corr = [(''correlation_id'', FOptStr 128), (''idempotency_key'', FOptStr 128)];
         retry = [(''attempt'', FIntGe1 1), (''max_attempts'', FIntGe1 3)];
         task = [(''project_id'', FProjectId), (''task_id'', FStr 1 128),
                 (''relation'', FRelation ''contributes_to'')];
         dec = [(''project_id'', FProjectId), (''decision_id'', FStr 1 128),
                (''relation'', FRelation ''governs'')];
         reason = [(''reason'', FStr 1 512)]
     in if et = ''task.association.requested'' then Some (task @ corr @ retry)
        else if et = ''task.associated'' then Some (task @ corr)
        else if et = ''task.association.failed'' then Some (task @ reason @ corr)
        else if et = ''decision.association.requested'' then Some (dec @ corr @ retry)
        else if et = ''decision.associated'' then Some (dec @ corr)
        else if et = ''decision.association.failed'' then Some (dec @ reason @ corr)
        else None)"

text \<open>pydantic's reading of an \<open>int\<close> field.\<close>

definition lax_int :: "pyrt \<Rightarrow> json \<Rightarrow> int option" where
  "lax_int rt j = (case j of
       JInt i \<Rightarrow> Some i
     | JBool b \<Rightarrow> Some (if b then 1 else 0)
     | JFloat (Fin q) \<Rightarrow> (if of_int \<lfloor>q\<rfloor> = q then Some \<lfloor>q\<rfloor> else None)
     | JFloat NegZero \<Rightarrow> Some 0
     | JStr s \<Rightarrow> lax_int_of_str rt s
     | _ \<Rightarrow> None)"

definition saga_value :: "pyrt \<Rightarrow> saga_field \<Rightarrow> json option \<Rightarrow> json option" where
  "saga_value rt f v = (case f of
       FProjectId \<Rightarrow> (case v of Some (JStr s) \<Rightarrow> if re_project_id s then Some (JStr s) else None | _ \<Rightarrow> None)
     | FStr lo hi \<Rightarrow> (case v of Some (JStr s) \<Rightarrow>
           if lo \<le> char_count s \<and> char_count s \<le> hi then Some (JStr s) else None | _ \<Rightarrow> None)
     | FRelation d \<Rightarrow> (case v of None \<Rightarrow> Some (JStr d) | Some (JStr s) \<Rightarrow> Some (JStr s) | _ \<Rightarrow> None)
     | FOptStr hi \<Rightarrow> (case v of None \<Rightarrow> Some JNull | Some JNull \<Rightarrow> Some JNull
         | Some (JStr s) \<Rightarrow> if char_count s \<le> hi then Some (JStr s) else None | _ \<Rightarrow> None)
     | FIntGe1 d \<Rightarrow> (case v of None \<Rightarrow> Some (JInt d)
         | Some j \<Rightarrow> (case lax_int rt j of Some i \<Rightarrow> if 1 \<le> i then Some (JInt i) else None | None \<Rightarrow> None)))"

definition validate_saga :: "pyrt \<Rightarrow> (string \<times> saga_field) list \<Rightarrow> payload \<Rightarrow> pse_error + payload" where
  "validate_saga rt fs p =
     (if \<not> (\<forall>(k, v) \<in> set p. k \<in> set (map fst fs)) then Inl PyError
      else mapE (\<lambda>(k, f). case saga_value rt f (map_of p k) of
                   None \<Rightarrow> Inl PyError | Some v \<Rightarrow> Inr (k, v)) fs)"

text \<open>
  \<open>validate_saga_payload\<close>: the payload of a saga event is completed from the envelope and
  normalised; other payloads are kept.
\<close>

definition saga_payload ::
  "pyrt \<Rightarrow> string \<Rightarrow> string \<Rightarrow> string option \<Rightarrow> string option \<Rightarrow> payload \<Rightarrow> pse_error + payload" where
  "saga_payload rt et pid corr idem p =
     (case saga_fields et of
        None \<Rightarrow> Inr p
      | Some fs \<Rightarrow>
          if p = [] then Inl PyError
          else
            let p1 = (if has_key ''project_id'' p then p else AList.update ''project_id'' (JStr pid) p);
                p2 = (case corr of Some c \<Rightarrow>
                        if \<not> has_key ''correlation_id'' p1 \<and> c \<noteq> []
                        then AList.update ''correlation_id'' (JStr c) p1 else p1 | None \<Rightarrow> p1);
                p3 = (case idem of Some c \<Rightarrow>
                        if \<not> has_key ''idempotency_key'' p2 \<and> c \<noteq> []
                        then AList.update ''idempotency_key'' (JStr c) p2 else p2 | None \<Rightarrow> p2)
            in validate_saga rt fs p3)"

definition opt_len :: "nat \<Rightarrow> string option \<Rightarrow> bool" where
  "opt_len n x = (case x of None \<Rightarrow> True | Some s \<Rightarrow> char_count s \<le> n)"

definition len_between :: "nat \<Rightarrow> nat \<Rightarrow> string \<Rightarrow> bool" where
  "len_between lo hi s = (lo \<le> char_count s \<and> char_count s \<le> hi)"

text \<open>\<open>ProjectEvent.model_validate\<close> on an envelope whose fields have the declared types.\<close>

definition validate_event :: "pyrt \<Rightarrow> project_event \<Rightarrow> pse_error + project_event" where
  "validate_event rt e =
     (if re_event_id (ev_event_id e) \<and> length (ev_event_id e) \<le> 132 \<and> validate_event_id (ev_event_id e)
         \<and> ev_schema_version e = ''power.project-event.v1''
         \<and> re_project_id (ev_project_id e) \<and> length (ev_project_id e) \<le> 68
         \<and> validate_project_id (ev_project_id e)
         \<and> 1 \<le> ev_sequence e \<and> re_timestamp (ev_timestamp e)
         \<and> len_between 1 128 (ev_actor e) \<and> len_between 1 64 (ev_source e)
         \<and> opt_len 128 (ev_session_id e)
         \<and> ev_event_type e \<in> set PROJECT_EVENT_TYPES
         \<and> re_hash (ev_payload_digest e) \<and> re_prev_hash (ev_prev_event_hash e) \<and> re_hash (ev_event_hash e)
         \<and> opt_len 128 (ev_correlation_id e) \<and> opt_len 128 (ev_causation_id e)
         \<and> opt_len 128 (ev_idempotency_key e)
      then bindE (saga_payload rt (ev_event_type e) (ev_project_id e) (ev_correlation_id e)
                    (ev_idempotency_key e) (ev_payload e))
             (\<lambda>p. Inr (e\<lparr>ev_payload := p\<rparr>))
      else Inl PyError)"

text \<open>\<open>AppendCommand.model_validate\<close>.\<close>

definition validate_command :: "pyrt \<Rightarrow> append_command \<Rightarrow> pse_error + append_command" where
  "validate_command rt c =
     (if re_project_id (ac_project_id c) \<and> length (ac_project_id c) \<le> 68
         \<and> validate_project_id (ac_project_id c)
         \<and> ac_event_type c \<in> set PROJECT_EVENT_TYPES
         \<and> len_between 1 128 (ac_actor c) \<and> len_between 1 64 (ac_source c)
         \<and> opt_len 128 (ac_session_id c) \<and> opt_len 128 (ac_correlation_id c)
         \<and> opt_len 128 (ac_causation_id c) \<and> opt_len 128 (ac_idempotency_key c)
         \<and> (case ac_event_id c of None \<Rightarrow> True
            | Some i \<Rightarrow> re_event_id i \<and> length i \<le> 132 \<and> validate_event_id i)
         \<and> (case ac_timestamp c of None \<Rightarrow> True | Some t \<Rightarrow> re_timestamp t)
      then bindE (saga_payload rt (ac_event_type c) (ac_project_id c) (ac_correlation_id c)
                    (ac_idempotency_key c) (ac_payload c))
             (\<lambda>p. Inr (c\<lparr>ac_payload := p\<rparr>))
      else Inl PyError)"

definition compute_command_fingerprint ::
  "pyrt \<Rightarrow> string \<Rightarrow> string \<Rightarrow> payload \<Rightarrow> string list \<Rightarrow> string list \<Rightarrow> string \<Rightarrow>
   string option \<Rightarrow> string option \<Rightarrow> string option \<Rightarrow> pse_error + string" where
  "compute_command_fingerprint rt actor et p arts evs source session corr caus =
     (let s = (\<lambda>x. JStr (case x of None \<Rightarrow> [] | Some t \<Rightarrow> t))
      in canonical_digest rt (JObj
           [(''actor'', JStr actor), (''artifact_refs'', jstrs (sort arts)),
            (''causation_id'', s caus), (''correlation_id'', s corr), (''event_type'', JStr et),
            (''evidence_refs'', jstrs (sort evs)), (''payload'', JObj p),
            (''session_id'', s session), (''source'', JStr source)]))"

subsection \<open>Facts\<close>

lemma jget_saga_result:
  assumes "validate_saga rt fs p = Inr q" "map_of fs k = Some f" "distinct (map fst fs)"
  shows "\<exists>v. saga_value rt f (map_of p k) = Some v \<and> map_of q k = Some v"
proof -
  let ?g = "\<lambda>(k, f). case saga_value rt f (map_of p k) of None \<Rightarrow> Inl PyError | Some v \<Rightarrow> Inr (k, v)"
  from assms(1) have "mapE ?g fs = Inr q" by (auto simp: validate_saga_def split: if_splits)
  then show ?thesis using assms(2,3)
  proof (induction fs arbitrary: q)
    case (Cons kf fs)
    obtain k' f' where kf: "kf = (k', f')" by force
    from Cons.prems(1) obtain v qs where
      v: "saga_value rt f' (map_of p k') = Some v" "q = (k', v) # qs" "mapE ?g fs = Inr qs"
      by (auto simp: kf bindE_eq_Inr split: option.splits)
    show ?case
    proof (cases "k = k'")
      case True
      then show ?thesis using v Cons.prems(2,3) by (auto simp: kf)
    next
      case False
      then show ?thesis using v Cons.IH [OF v(3)] Cons.prems(2,3) by (simp add: kf)
    qed
  qed simp
qed

lemma keys_saga_result: "validate_saga rt fs p = Inr q \<Longrightarrow> map fst q = map fst fs"
proof -
  let ?g = "\<lambda>(k, f). case saga_value rt f (map_of p k) of None \<Rightarrow> Inl PyError | Some v \<Rightarrow> Inr (k, v)"
  have "mapE ?g fs = Inr q \<Longrightarrow> map fst q = map fst fs" for fs
    by (induction fs arbitrary: q) (auto simp: bindE_eq_Inr split: option.splits)
  then show "validate_saga rt fs p = Inr q \<Longrightarrow> map fst q = map fst fs"
    by (auto simp: validate_saga_def split: if_splits)
qed

lemma saga_fields_distinct: "saga_fields et = Some fs \<Longrightarrow> distinct (map fst fs)"
  by (auto simp: saga_fields_def Let_def split: if_splits)

lemma saga_fields_envelope:
  "saga_fields et = Some fs \<Longrightarrow>
     fs \<noteq> [] \<and> {''project_id'', ''correlation_id'', ''idempotency_key''} \<subseteq> set (map fst fs)"
  by (auto simp: saga_fields_def Let_def split: if_splits)

definition field_ok :: "saga_field \<Rightarrow> bool" where
  "field_ok f = (case f of FIntGe1 d \<Rightarrow> 1 \<le> d | _ \<Rightarrow> True)"

lemma saga_fields_ok: "saga_fields et = Some fs \<Longrightarrow> (k, f) \<in> set fs \<Longrightarrow> field_ok f"
  by (auto simp: saga_fields_def Let_def field_ok_def split: if_splits)

lemma saga_value_idem:
  "field_ok f \<Longrightarrow> saga_value rt f v = Some w \<Longrightarrow> saga_value rt f (Some w) = Some w"
  by (cases f) (auto simp: saga_value_def lax_int_def field_ok_def split: option.splits json.splits if_splits)

lemma mapE_self:
  "(\<And>k f. (k, f) \<in> set fs \<Longrightarrow> g (k, f) = Inr (k, the (map_of q k))) \<Longrightarrow> map fst q = map fst fs \<Longrightarrow>
     distinct (map fst q) \<Longrightarrow> mapE g fs = Inr q"
proof (induction fs arbitrary: q)
  case (Cons kf fs)
  obtain k f where kf: "kf = (k, f)" by force
  obtain v r where q: "q = (k, v) # r" using Cons.prems(2) by (cases q) (auto simp: kf)
  have "mapE g fs = Inr r"
  proof (rule Cons.IH)
    fix k' f' assume m: "(k', f') \<in> set fs"
    then have "k' \<in> set (map fst fs)" by force
    then have "k' \<noteq> k" using Cons.prems(2,3) by (auto simp: q kf)
    then show "g (k', f') = Inr (k', the (map_of r k'))"
      using Cons.prems(1) [of k' f'] m by (simp add: q)
  qed (use Cons.prems(2,3) q kf in auto)
  then show ?case using Cons.prems(1) [of k f] by (simp add: kf q)
qed simp

lemma validate_saga_idem:
  assumes "validate_saga rt fs p = Inr q" "distinct (map fst fs)"
    and ok: "\<And>k f. (k, f) \<in> set fs \<Longrightarrow> field_ok f"
  shows "validate_saga rt fs q = Inr q"
proof -
  let ?g = "\<lambda>(k, f). case saga_value rt f (map_of q k) of None \<Rightarrow> Inl PyError | Some v \<Rightarrow> Inr (k, v)"
  have keys: "map fst q = map fst fs" using keys_saga_result [OF assms(1)] .
  have "?g (k, f) = Inr (k, the (map_of q k))" if "(k, f) \<in> set fs" for k f
  proof -
    have "map_of fs k = Some f" using that assms(2) by simp
    then show ?thesis
      using jget_saga_result [OF assms(1) _ assms(2)] ok [OF that]
      by (fastforce dest: saga_value_idem)
  qed
  then have "mapE ?g fs = Inr q"
    using mapE_self [of fs ?g q] keys assms(2) by simp
  moreover have "\<forall>(k, v) \<in> set q. k \<in> set (map fst fs)"
    by (auto simp flip: keys intro: rev_image_eqI)
  ultimately show ?thesis by (simp add: validate_saga_def)
qed

lemma saga_payload_idem:
  assumes "saga_payload rt et pid corr idem p = Inr q"
  shows "saga_payload rt et pid corr idem q = Inr q"
proof (cases "saga_fields et")
  case None
  then show ?thesis using assms by (simp add: saga_payload_def)
next
  case (Some fs)
  then obtain r where r: "validate_saga rt fs r = Inr q"
    using assms by (auto simp: saga_payload_def Let_def split: if_splits)
  have "set (map fst q) = set (map fst fs)" using keys_saga_result [OF r] by simp
  then have "has_key ''project_id'' q" "has_key ''correlation_id'' q" "has_key ''idempotency_key'' q"
    and "q \<noteq> []"
    using saga_fields_envelope [OF Some] by (auto simp: map_of_eq_None_iff)
  moreover have "validate_saga rt fs q = Inr q"
    by (rule validate_saga_idem [OF r saga_fields_distinct [OF Some] saga_fields_ok [OF Some]])
  ultimately show ?thesis using Some by (simp add: saga_payload_def split: option.split)
qed

end
