(* ===== verification/Semantic_Entities.thy ===== *)
theory Semantic_Entities
  imports Project_Event
begin

text \<open>
  The RAID entities of the project state (\<open>core/semantic_models.py\<close>): provenance, risks,
  assumptions, issues and dependencies. Each class is a record, its field constraints and
  validators are a predicate \<open>\<dots>_ok\<close>, the constructor is \<open>mk_\<dots>\<close>, which raises when the predicate
  fails, and \<open>\<dots>_json\<close> is \<open>model_dump\<close>.
\<close>

subsection \<open>Reading fields of a payload\<close>

text \<open>
  \<open>payload.get(k, d)\<close> passed to a \<open>str\<close> field, to an optional one, and a key of the payload copied
  over the current value of a field.
\<close>

definition str_fld :: "payload \<Rightarrow> string \<Rightarrow> string \<Rightarrow> pse_error + string" where
  "str_fld p k d = (case map_of p k of None \<Rightarrow> Inr d | Some (JStr s) \<Rightarrow> Inr s | _ \<Rightarrow> Inl PyError)"

definition opt_fld :: "payload \<Rightarrow> string \<Rightarrow> string option \<Rightarrow> pse_error + string option" where
  "opt_fld p k d = (case map_of p k of
       None \<Rightarrow> Inr d | Some JNull \<Rightarrow> Inr None | Some (JStr s) \<Rightarrow> Inr (Some s) | _ \<Rightarrow> Inl PyError)"

definition sorted_strs :: "json \<Rightarrow> pse_error + string list" where
  "sorted_strs j = bindE (str_elements j) (\<lambda>xs. Inr (sort xs))"

text \<open>The built-ins \<open>int\<close> and \<open>float\<close>.\<close>

definition rat_trunc :: "rat \<Rightarrow> int" where
  "rat_trunc q = (if 0 \<le> q then \<lfloor>q\<rfloor> else \<lceil>q\<rceil>)"

definition py_int :: "pyrt \<Rightarrow> json \<Rightarrow> pse_error + int" where
  "py_int rt j = (case j of
       JInt i \<Rightarrow> Inr i
     | JBool b \<Rightarrow> Inr (if b then 1 else 0)
     | JFloat (Fin q) \<Rightarrow> Inr (rat_trunc q)
     | JFloat NegZero \<Rightarrow> Inr 0
     | JStr s \<Rightarrow> (case int_of_str rt s of Some i \<Rightarrow> Inr i | None \<Rightarrow> Inl PyError)
     | _ \<Rightarrow> Inl PyError)"

definition py_float :: "pyrt \<Rightarrow> json \<Rightarrow> pse_error + pyfloat" where
  "py_float rt j = (case j of
       JInt i \<Rightarrow> Inr (Fin (of_int i))
     | JBool b \<Rightarrow> Inr (Fin (if b then 1 else 0))
     | JFloat f \<Rightarrow> Inr f
     | JStr s \<Rightarrow> (case float_of_str rt s of Some f \<Rightarrow> Inr f | None \<Rightarrow> Inl PyError)
     | _ \<Rightarrow> Inl PyError)"

definition unit_interval :: "pyfloat \<Rightarrow> bool" where
  "unit_interval f = (case f of Fin q \<Rightarrow> 0 \<le> q \<and> q \<le> 1 | NegZero \<Rightarrow> True | _ \<Rightarrow> False)"

definition re_entity_id :: "string \<Rightarrow> string \<Rightarrow> bool" where
  "re_entity_id pre s =
     (take 4 s = pre \<and> 2 \<le> length (drop 4 s) \<and> length (drop 4 s) \<le> 64 \<and> list_all id_char (drop 4 s))"

definition jfloat_opt :: "pyfloat option \<Rightarrow> json" where
  "jfloat_opt x = (case x of None \<Rightarrow> JNull | Some f \<Rightarrow> JFloat f)"

subsection \<open>Provenance\<close>

record provenance =
  pv_source_event_ids :: "string list"
  pv_primary_source_event_id :: "string option"
  pv_actor :: string
  pv_timestamp :: string
  pv_source_type :: string
  pv_correlation_id :: "string option"
  pv_evidence_refs :: "string list"
  pv_confidence :: "pyfloat option"
  pv_verification_status :: "string option"
  pv_valid_from :: "string option"
  pv_valid_to :: "string option"
  pv_supersedes :: "string option"
  pv_invalidates :: "string option"

definition provenance_ok :: "provenance \<Rightarrow> bool" where
  "provenance_ok v =
     (pv_source_event_ids v \<noteq> [] \<and> list_all validate_event_id (pv_source_event_ids v)
      \<and> distinct (pv_source_event_ids v)
      \<and> (case pv_primary_source_event_id v of None \<Rightarrow> True | Some i \<Rightarrow> re_event_id i)
      \<and> len_between 1 128 (pv_actor v)
      \<and> pv_source_type v \<in> {''event_replay'', ''direct_mutation'', ''reconciliation'',
                            ''agent_inference'', ''human_entry'', ''automated_test''}
      \<and> opt_len 128 (pv_correlation_id v)
      \<and> list_all (\<lambda>r. char_count r \<le> 512) (pv_evidence_refs v)
      \<and> (case pv_confidence v of None \<Rightarrow> True | Some f \<Rightarrow> unit_interval f)
      \<and> (case pv_verification_status v of None \<Rightarrow> True
         | Some s \<Rightarrow> s \<in> {''unverified'', ''verified'', ''refuted'', ''quarantined''})
      \<and> opt_len 128 (pv_supersedes v) \<and> opt_len 128 (pv_invalidates v))"

definition provenance_json :: "provenance \<Rightarrow> json" where
  "provenance_json v = JObj
    [(''source_event_ids'', jstrs (pv_source_event_ids v)),
     (''primary_source_event_id'', jopt (pv_primary_source_event_id v)),
     (''actor'', JStr (pv_actor v)), (''timestamp'', JStr (pv_timestamp v)),
     (''source_type'', JStr (pv_source_type v)), (''correlation_id'', jopt (pv_correlation_id v)),
     (''evidence_refs'', jstrs (pv_evidence_refs v)),
     (''confidence'', jfloat_opt (pv_confidence v)),
     (''verification_status'', jopt (pv_verification_status v)),
     (''valid_from'', jopt (pv_valid_from v)), (''valid_to'', jopt (pv_valid_to v)),
     (''supersedes'', jopt (pv_supersedes v)), (''invalidates'', jopt (pv_invalidates v))]"

subsection \<open>Risk\<close>

record risk =
  rk_risk_id :: string
  rk_project_id :: string
  rk_title :: string
  rk_description :: string
  rk_probability :: string
  rk_impact :: string
  rk_mitigation_plan :: string
  rk_owner :: string
  rk_status :: string
  rk_related_task_ids :: "string list"
  rk_provenance :: provenance
  rk_created_at :: string
  rk_updated_at :: string

definition risk_ok :: "risk \<Rightarrow> bool" where
  "risk_ok r =
     (re_entity_id ''rsk_'' (rk_risk_id r)
      \<and> re_project_id (rk_project_id r) \<and> validate_project_id (rk_project_id r)
      \<and> len_between 1 256 (rk_title r) \<and> char_count (rk_description r) \<le> 4096
      \<and> rk_probability r \<in> {''low'', ''medium'', ''high''}
      \<and> rk_impact r \<in> {''low'', ''medium'', ''high'', ''critical''}
      \<and> char_count (rk_mitigation_plan r) \<le> 4096 \<and> len_between 1 128 (rk_owner r)
      \<and> rk_status r \<in> {''identified'', ''mitigated'', ''materialized'', ''retired''}
      \<and> provenance_ok (rk_provenance r))"

definition mk_risk :: "risk \<Rightarrow> pse_error + risk" where
  "mk_risk r = (if risk_ok r then Inr r else Inl PyError)"

definition risk_json :: "risk \<Rightarrow> json" where
  "risk_json r = JObj
    [(''risk_id'', JStr (rk_risk_id r)), (''project_id'', JStr (rk_project_id r)),
     (''title'', JStr (rk_title r)), (''description'', JStr (rk_description r)),
     (''probability'', JStr (rk_probability r)), (''impact'', JStr (rk_impact r)),
     (''mitigation_plan'', JStr (rk_mitigation_plan r)), (''owner'', JStr (rk_owner r)),
     (''status'', JStr (rk_status r)), (''related_task_ids'', jstrs (rk_related_task_ids r)),
     (''provenance'', provenance_json (rk_provenance r)),
     (''created_at'', JStr (rk_created_at r)), (''updated_at'', JStr (rk_updated_at r))]"

subsection \<open>Assumption\<close>

record assumption =
  as_assumption_id :: string
  as_project_id :: string
  as_statement :: string
  as_rationale :: string
  as_confidence :: pyfloat
  as_status :: string
  as_validated_at :: "string option"
  as_invalidated_by :: "string option"
  as_provenance :: provenance
  as_created_at :: string

definition assumption_ok :: "assumption \<Rightarrow> bool" where
  "assumption_ok a =
     (re_entity_id ''asm_'' (as_assumption_id a)
      \<and> re_project_id (as_project_id a) \<and> validate_project_id (as_project_id a)
      \<and> len_between 1 1024 (as_statement a) \<and> char_count (as_rationale a) \<le> 4096
      \<and> unit_interval (as_confidence a)
      \<and> as_status a \<in> {''valid'', ''invalidated'', ''confirmed''}
      \<and> opt_len 128 (as_invalidated_by a) \<and> provenance_ok (as_provenance a))"

definition mk_assumption :: "assumption \<Rightarrow> pse_error + assumption" where
  "mk_assumption a = (if assumption_ok a then Inr a else Inl PyError)"

definition assumption_json :: "assumption \<Rightarrow> json" where
  "assumption_json a = JObj
    [(''assumption_id'', JStr (as_assumption_id a)), (''project_id'', JStr (as_project_id a)),
     (''statement'', JStr (as_statement a)), (''rationale'', JStr (as_rationale a)),
     (''confidence'', JFloat (as_confidence a)), (''status'', JStr (as_status a)),
     (''validated_at'', jopt (as_validated_at a)), (''invalidated_by'', jopt (as_invalidated_by a)),
     (''provenance'', provenance_json (as_provenance a)), (''created_at'', JStr (as_created_at a))]"

subsection \<open>Issue\<close>

record issue =
  is_issue_id :: string
  is_project_id :: string
  is_title :: string
  is_description :: string
  is_severity :: string
  is_status :: string
  is_blocking_task_ids :: "string list"
  is_resolution :: "string option"
  is_provenance :: provenance
  is_created_at :: string
  is_resolved_at :: "string option"

definition issue_ok :: "issue \<Rightarrow> bool" where
  "issue_ok i =
     (re_entity_id ''iss_'' (is_issue_id i)
      \<and> re_project_id (is_project_id i) \<and> validate_project_id (is_project_id i)
      \<and> len_between 1 256 (is_title i) \<and> char_count (is_description i) \<le> 4096
      \<and> is_severity i \<in> {''minor'', ''major'', ''critical'', ''blocker''}
      \<and> is_status i \<in> {''open'', ''investigating'', ''resolved'', ''closed''}
      \<and> opt_len 4096 (is_resolution i) \<and> provenance_ok (is_provenance i))"

definition mk_issue :: "issue \<Rightarrow> pse_error + issue" where
  "mk_issue i = (if issue_ok i then Inr i else Inl PyError)"

definition issue_json :: "issue \<Rightarrow> json" where
  "issue_json i = JObj
    [(''issue_id'', JStr (is_issue_id i)), (''project_id'', JStr (is_project_id i)),
     (''title'', JStr (is_title i)), (''description'', JStr (is_description i)),
     (''severity'', JStr (is_severity i)), (''status'', JStr (is_status i)),
     (''blocking_task_ids'', jstrs (is_blocking_task_ids i)), (''resolution'', jopt (is_resolution i)),
     (''provenance'', provenance_json (is_provenance i)), (''created_at'', JStr (is_created_at i)),
     (''resolved_at'', jopt (is_resolved_at i))]"

subsection \<open>Dependency\<close>

record dependency =
  dp_dependency_id :: string
  dp_project_id :: string
  dp_source_id :: string
  dp_target_id :: string
  dp_target_type :: string
  dp_dependency_kind :: string
  dp_status :: string
  dp_external_ref :: "string option"
  dp_provenance :: provenance
  dp_created_at :: string

definition dependency_ok :: "dependency \<Rightarrow> bool" where
  "dependency_ok d =
     (re_entity_id ''dep_'' (dp_dependency_id d)
      \<and> re_project_id (dp_project_id d) \<and> validate_project_id (dp_project_id d)
      \<and> len_between 1 128 (dp_source_id d) \<and> len_between 1 128 (dp_target_id d)
      \<and> dp_target_type d \<in> {''task'', ''decision'', ''artifact'', ''project'', ''external''}
      \<and> dp_dependency_kind d \<in> {''blocks'', ''blocked_by'', ''relates_to'', ''requires''}
      \<and> dp_status d \<in> {''pending'', ''satisfied'', ''broken''}
      \<and> opt_len 512 (dp_external_ref d) \<and> provenance_ok (dp_provenance d))"

definition mk_dependency :: "dependency \<Rightarrow> pse_error + dependency" where
  "mk_dependency d = (if dependency_ok d then Inr d else Inl PyError)"

definition dependency_json :: "dependency \<Rightarrow> json" where
  "dependency_json d = JObj
    [(''dependency_id'', JStr (dp_dependency_id d)), (''project_id'', JStr (dp_project_id d)),
     (''source_id'', JStr (dp_source_id d)), (''target_id'', JStr (dp_target_id d)),
     (''target_type'', JStr (dp_target_type d)), (''dependency_kind'', JStr (dp_dependency_kind d)),
     (''status'', JStr (dp_status d)), (''external_ref'', jopt (dp_external_ref d)),
     (''provenance'', provenance_json (dp_provenance d)), (''created_at'', JStr (dp_created_at d))]"

text \<open>
  The provenance that the reducer gives to an entity it creates from one event, and the one of an
  entity that a later event changes.
\<close>

definition replay_provenance :: "project_event \<Rightarrow> provenance" where
  "replay_provenance e =
    \<lparr>pv_source_event_ids = [ev_event_id e], pv_primary_source_event_id = None,
     pv_actor = ev_actor e, pv_timestamp = ev_timestamp e, pv_source_type = ''event_replay'',
     pv_correlation_id = None, pv_evidence_refs = [], pv_confidence = None,
     pv_verification_status = Some ''verified'', pv_valid_from = None, pv_valid_to = None,
     pv_supersedes = None, pv_invalidates = None\<rparr>"

definition add_source_event :: "project_event \<Rightarrow> provenance \<Rightarrow> provenance" where
  "add_source_event e v =
     v\<lparr>pv_source_event_ids := sorted_set (ev_event_id e # pv_source_event_ids v)\<rparr>"

lemma mk_risk_Inr: "mk_risk r = Inr r' \<longleftrightarrow> risk_ok r \<and> r' = r"
  by (auto simp: mk_risk_def)

lemma mk_assumption_Inr: "mk_assumption r = Inr r' \<longleftrightarrow> assumption_ok r \<and> r' = r"
  by (auto simp: mk_assumption_def)

lemma mk_issue_Inr: "mk_issue r = Inr r' \<longleftrightarrow> issue_ok r \<and> r' = r"
  by (auto simp: mk_issue_def)

lemma mk_dependency_Inr: "mk_dependency r = Inr r' \<longleftrightarrow> dependency_ok r \<and> r' = r"
  by (auto simp: mk_dependency_def)

end
