(* ===== verification/State_Model.thy ===== *)
theory State_Model
  imports Semantic_Entities
begin

text \<open>
  The schemas of the project state engine (\<open>core/state_models.py\<close>): the phases, the views of task
  and decision authority with their digests, the historical governance evaluation, the project
  state with its canonical form and revision, and the sealed snapshot.
\<close>

subsection \<open>Enumerations\<close>

datatype project_phase = DISCOVERY | PLANNING | EXECUTION | MONITORING | CLOSING | CLOSED

instantiation project_phase :: enum
begin

definition enum_project_phase :: "project_phase list" where
  "enum_project_phase = [DISCOVERY, PLANNING, EXECUTION, MONITORING, CLOSING, CLOSED]"

definition enum_all_project_phase :: "(project_phase \<Rightarrow> bool) \<Rightarrow> bool" where
  "enum_all_project_phase P = list_all P enum_class.enum"

definition enum_ex_project_phase :: "(project_phase \<Rightarrow> bool) \<Rightarrow> bool" where
  "enum_ex_project_phase P = list_ex P enum_class.enum"

instance
proof
  have U: "s \<in> set (enum_class.enum :: project_phase list)" for s
    by (cases s) (simp_all add: enum_project_phase_def)
  show "(UNIV :: project_phase set) = set enum_class.enum" using U by blast
  show "distinct (enum_class.enum :: project_phase list)" by (simp add: enum_project_phase_def)
  show "enum_class.enum_all P = Ball UNIV P" for P :: "project_phase \<Rightarrow> bool"
    using U by (auto simp: enum_all_project_phase_def list_all_iff)
  show "enum_class.enum_ex P = Bex UNIV P" for P :: "project_phase \<Rightarrow> bool"
    using U by (auto simp: enum_ex_project_phase_def list_ex_iff)
qed

end

fun phase_str :: "project_phase \<Rightarrow> string" where
  "phase_str DISCOVERY = ''DISCOVERY''"
| "phase_str PLANNING = ''PLANNING''"
| "phase_str EXECUTION = ''EXECUTION''"
| "phase_str MONITORING = ''MONITORING''"
| "phase_str CLOSING = ''CLOSING''"
| "phase_str CLOSED = ''CLOSED''"

text \<open>\<open>ProjectPhase(s)\<close>.\<close>

definition phase_of_str :: "string \<Rightarrow> project_phase option" where
  "phase_of_str s = List.find (\<lambda>p. phase_str p = s) enum_class.enum"

lemma phase_of_str_phase_str [simp]: "phase_of_str (phase_str p) = Some p"
  by (cases p) (simp_all add: phase_of_str_def enum_project_phase_def)

lemma phase_str_inj: "phase_str p = phase_str q \<longleftrightarrow> p = q"
  by (metis option.inject phase_of_str_phase_str)

lemma phase_of_str_Some: "phase_of_str s = Some p \<Longrightarrow> s = phase_str p"
  by (auto simp: phase_of_str_def find_Some_iff)

datatype readiness_status = RS_READY | RS_BLOCKED_DEPENDENCY | RS_BLOCKED_DOR | RS_REQUIRES_EVIDENCE
  | RS_REQUIRES_APPROVAL | RS_CIRCULAR_DEPENDENCY | RS_TERMINAL | RS_IN_PROGRESS

datatype governance_decision = ALLOW | DENY | REQUIRE_APPROVAL | REQUIRE_EVIDENCE

definition STATE_SCHEMA_VERSION :: string where
  "STATE_SCHEMA_VERSION = ''power.project-state.v1''"

definition GOVERNANCE_RULES_VERSION :: string where
  "GOVERNANCE_RULES_VERSION = ''1.0.0''"

text \<open>\<open>core/decision_models.py\<close>: the statuses of a decision.\<close>

definition CANONICAL_DECISION_STATUSES :: "string list" where
  "CANONICAL_DECISION_STATUSES = [''pending'', ''approved'', ''rejected'', ''expired'']"

definition RESOLVED_DECISION_STATUSES :: "string list" where
  "RESOLVED_DECISION_STATUSES = [''approved'', ''rejected'', ''expired'']"

subsection \<open>Authority views\<close>

text \<open>
  The digest of a value without floats, on which \<open>canonical_json_bytes\<close> cannot raise.
\<close>

definition digest_of :: "pyrt \<Rightarrow> json \<Rightarrow> string" where
  "digest_of rt j = sha256_hex rt (dumps rt (sort_keys j))"

lemma canonical_digest_floatless: "check_floats j \<Longrightarrow> canonical_digest rt j = Inr (digest_of rt j)"
  by (simp add: canonical_digest_def canonical_json_dumps_def digest_of_def)

record task_view =
  tv_task_id :: string
  tv_state :: string
  tv_revision :: int
  tv_digest :: string
  tv_source_identity :: string
  tv_dependencies :: "string list"
  tv_open_gates :: "string list"
  tv_receipt_ids :: "string list"

definition task_view_digest ::
  "pyrt \<Rightarrow> string \<Rightarrow> string \<Rightarrow> int \<Rightarrow> string list \<Rightarrow> string list \<Rightarrow> string list \<Rightarrow> string" where
  "task_view_digest rt tid st rvn deps gates receipts =
     digest_of rt (JObj [(''dependencies'', jstrs (sort deps)), (''open_gates'', jstrs (sort gates)),
       (''receipt_ids'', jstrs (sort receipts)), (''revision'', JInt rvn), (''state'', JStr st),
       (''task_id'', JStr tid)])"

text \<open>The digest recomputed from the fields of a view.\<close>

definition task_view_expected :: "pyrt \<Rightarrow> task_view \<Rightarrow> string" where
  "task_view_expected rt v =
     task_view_digest rt (tv_task_id v) (tv_state v) (tv_revision v) (tv_dependencies v)
       (tv_open_gates v) (tv_receipt_ids v)"

definition task_view_ok :: "task_view \<Rightarrow> bool" where
  "task_view_ok v =
     (len_between 1 128 (tv_task_id v) \<and> len_between 1 64 (tv_state v) \<and> 1 \<le> tv_revision v
      \<and> re_hash (tv_digest v) \<and> len_between 1 128 (tv_source_identity v))"

definition mk_task_view :: "task_view \<Rightarrow> pse_error + task_view" where
  "mk_task_view v = (if task_view_ok v then Inr v else Inl PyError)"

definition task_view_json :: "task_view \<Rightarrow> json" where
  "task_view_json v = JObj
    [(''task_id'', JStr (tv_task_id v)), (''state'', JStr (tv_state v)),
     (''revision'', JInt (tv_revision v)), (''digest'', JStr (tv_digest v)),
     (''source_identity'', JStr (tv_source_identity v)),
     (''dependencies'', jstrs (tv_dependencies v)), (''open_gates'', jstrs (tv_open_gates v)),
     (''receipt_ids'', jstrs (tv_receipt_ids v))]"

record decision_view =
  dv_decision_id :: string
  dv_status :: string
  dv_task_id :: "string option"
  dv_task_revision :: int
  dv_revision :: int
  dv_digest :: string
  dv_source_identity :: string
  dv_receipt_id :: "string option"

definition decision_view_digest ::
  "pyrt \<Rightarrow> string \<Rightarrow> string \<Rightarrow> string option \<Rightarrow> int \<Rightarrow> int \<Rightarrow> string option \<Rightarrow> string" where
  "decision_view_digest rt did st tid trev rvn rid =
     (let s = (\<lambda>x. JStr (case x of None \<Rightarrow> [] | Some t \<Rightarrow> t))
      in digest_of rt (JObj [(''decision_id'', JStr did), (''receipt_id'', s rid),
           (''revision'', JInt rvn), (''status'', JStr st), (''task_id'', s tid),
           (''task_revision'', JInt trev)]))"

definition decision_view_expected :: "pyrt \<Rightarrow> decision_view \<Rightarrow> string" where
  "decision_view_expected rt v =
     decision_view_digest rt (dv_decision_id v) (dv_status v) (dv_task_id v) (dv_task_revision v)
       (dv_revision v) (dv_receipt_id v)"

definition decision_view_ok :: "decision_view \<Rightarrow> bool" where
  "decision_view_ok v =
     (len_between 1 128 (dv_decision_id v) \<and> dv_status v \<in> set CANONICAL_DECISION_STATUSES
      \<and> opt_len 128 (dv_task_id v) \<and> 1 \<le> dv_task_revision v \<and> 1 \<le> dv_revision v
      \<and> re_hash (dv_digest v) \<and> len_between 1 128 (dv_source_identity v)
      \<and> opt_len 128 (dv_receipt_id v))"

definition mk_decision_view :: "decision_view \<Rightarrow> pse_error + decision_view" where
  "mk_decision_view v = (if decision_view_ok v then Inr v else Inl PyError)"

definition decision_view_json :: "decision_view \<Rightarrow> json" where
  "decision_view_json v = JObj
    [(''decision_id'', JStr (dv_decision_id v)), (''status'', JStr (dv_status v)),
     (''task_id'', jopt (dv_task_id v)), (''task_revision'', JInt (dv_task_revision v)),
     (''revision'', JInt (dv_revision v)), (''digest'', JStr (dv_digest v)),
     (''source_identity'', JStr (dv_source_identity v)), (''receipt_id'', jopt (dv_receipt_id v))]"

subsection \<open>Phase transition records\<close>

record phase_record =
  pr_from_phase :: project_phase
  pr_to_phase :: project_phase
  pr_name :: string
  pr_timestamp :: string
  pr_actor :: string
  pr_event_id :: string
  pr_is_rollback :: bool
  pr_reason :: "string option"
  pr_gate :: "string option"
  pr_evidence_refs :: "string list"
  pr_approval_refs :: "string list"

definition mk_phase_record :: "phase_record \<Rightarrow> pse_error + phase_record" where
  "mk_phase_record r =
     (if len_between 1 128 (pr_name r) \<and> len_between 1 128 (pr_actor r)
         \<and> re_event_id (pr_event_id r) \<and> validate_event_id (pr_event_id r)
         \<and> opt_len 4096 (pr_reason r) \<and> opt_len 128 (pr_gate r)
      then Inr r else Inl PyError)"

definition phase_record_json :: "phase_record \<Rightarrow> json" where
  "phase_record_json r = JObj
    [(''from_phase'', JStr (phase_str (pr_from_phase r))),
     (''to_phase'', JStr (phase_str (pr_to_phase r))), (''name'', JStr (pr_name r)),
     (''timestamp'', JStr (pr_timestamp r)), (''actor'', JStr (pr_actor r)),
     (''event_id'', JStr (pr_event_id r)), (''is_rollback'', JBool (pr_is_rollback r)),
     (''reason'', jopt (pr_reason r)), (''gate'', jopt (pr_gate r)),
     (''evidence_refs'', jstrs (pr_evidence_refs r)),
     (''approval_refs'', jstrs (pr_approval_refs r))]"

subsection \<open>Reading a model from JSON\<close>

text \<open>Fields of a model read from a JSON object, and \<open>extra="forbid"\<close>.\<close>

definition rd_str :: "payload \<Rightarrow> string \<Rightarrow> pse_error + string" where
  "rd_str d k = (case map_of d k of Some (JStr s) \<Rightarrow> Inr s | _ \<Rightarrow> Inl PyError)"

definition rd_int :: "pyrt \<Rightarrow> payload \<Rightarrow> string \<Rightarrow> int \<Rightarrow> pse_error + int" where
  "rd_int rt d k dflt = (case map_of d k of None \<Rightarrow> Inr dflt
     | Some j \<Rightarrow> (case lax_int rt j of Some i \<Rightarrow> Inr i | None \<Rightarrow> Inl PyError))"

definition rd_strs :: "payload \<Rightarrow> string \<Rightarrow> pse_error + string list" where
  "rd_strs d k = (case map_of d k of None \<Rightarrow> Inr []
     | Some (JList xs) \<Rightarrow> str_elements (JList xs) | _ \<Rightarrow> Inl PyError)"

definition rd_phase :: "payload \<Rightarrow> string \<Rightarrow> pse_error + project_phase" where
  "rd_phase d k = bindE (rd_str d k)
     (\<lambda>s. case phase_of_str s of Some p \<Rightarrow> Inr p | None \<Rightarrow> Inl PyError)"

definition rd_list :: "(json \<Rightarrow> pse_error + 'a) \<Rightarrow> payload \<Rightarrow> string \<Rightarrow> pse_error + 'a list" where
  "rd_list f d k = (case map_of d k of None \<Rightarrow> Inr []
     | Some (JList xs) \<Rightarrow> mapE f xs | _ \<Rightarrow> Inl PyError)"

definition only_keys :: "string list \<Rightarrow> payload \<Rightarrow> bool" where
  "only_keys ks d = list_all (\<lambda>(k, v). k \<in> set ks) d"

definition validate_task_view :: "pyrt \<Rightarrow> json \<Rightarrow> pse_error + task_view" where
  "validate_task_view rt j = (case j of
       JObj d \<Rightarrow>
         if \<not> only_keys [''task_id'', ''state'', ''revision'', ''digest'', ''source_identity'',
                ''dependencies'', ''open_gates'', ''receipt_ids''] d then Inl PyError
         else bindE (rd_str d ''task_id'') (\<lambda>tid. bindE (rd_str d ''state'') (\<lambda>st.
              bindE (rd_int rt d ''revision'' 1) (\<lambda>rev. bindE (rd_str d ''digest'') (\<lambda>dig.
              bindE (str_fld d ''source_identity'' ''TaskStore:v2'') (\<lambda>src.
              bindE (rd_strs d ''dependencies'') (\<lambda>deps. bindE (rd_strs d ''open_gates'') (\<lambda>gates.
              bindE (rd_strs d ''receipt_ids'') (\<lambda>rcs.
                mk_task_view \<lparr>tv_task_id = tid, tv_state = st, tv_revision = rev, tv_digest = dig,
                  tv_source_identity = src, tv_dependencies = deps, tv_open_gates = gates,
                  tv_receipt_ids = rcs\<rparr>))))))))
     | _ \<Rightarrow> Inl PyError)"

definition validate_decision_view :: "pyrt \<Rightarrow> json \<Rightarrow> pse_error + decision_view" where
  "validate_decision_view rt j = (case j of
       JObj d \<Rightarrow>
         if \<not> only_keys [''decision_id'', ''status'', ''task_id'', ''task_revision'', ''revision'',
                ''digest'', ''source_identity'', ''receipt_id''] d then Inl PyError
         else bindE (rd_str d ''decision_id'') (\<lambda>did. bindE (rd_str d ''status'') (\<lambda>st.
              bindE (opt_fld d ''task_id'' None) (\<lambda>tid. bindE (rd_int rt d ''task_revision'' 1) (\<lambda>trev.
              bindE (rd_int rt d ''revision'' 1) (\<lambda>rev. bindE (rd_str d ''digest'') (\<lambda>dig.
              bindE (str_fld d ''source_identity'' ''DecisionService:v1'') (\<lambda>src.
              bindE (opt_fld d ''receipt_id'' None) (\<lambda>rid.
                mk_decision_view \<lparr>dv_decision_id = did, dv_status = st, dv_task_id = tid,
                  dv_task_revision = trev, dv_revision = rev, dv_digest = dig,
                  dv_source_identity = src, dv_receipt_id = rid\<rparr>))))))))
     | _ \<Rightarrow> Inl PyError)"

subsection \<open>Historical governance evaluations\<close>

record hist_eval =
  he_evaluation_type :: string
  he_result :: string
  he_evaluated_from_phase :: project_phase
  he_evaluated_phase :: project_phase
  he_evaluation_event_id :: string
  he_task_views :: "task_view list"
  he_decision_views :: "decision_view list"
  he_approved_decision_ids :: "string list"
  he_verified_task_receipts :: "string list"
  he_required_evidence_refs :: "string list"
  he_accountable_actor :: "string option"
  he_rules_version :: string
  he_rules_digest :: string

text \<open>\<open>HistoricalGovernanceEvaluation.validate_bindings\<close>.\<close>

definition validate_bindings :: "hist_eval \<Rightarrow> bool" where
  "validate_bindings h =
     (list_all (\<lambda>v. dv_status v \<in> set CANONICAL_DECISION_STATUSES) (he_decision_views h)
      \<and> set (he_approved_decision_ids h) \<subseteq> set (map dv_decision_id (he_decision_views h))
      \<and> list_all (\<lambda>v. dv_decision_id v \<in> set (he_approved_decision_ids h) \<longrightarrow>
            dv_status v \<in> set RESOLVED_DECISION_STATUSES \<and> dv_status v = ''approved'')
          (he_decision_views h)
      \<and> set (he_verified_task_receipts h) \<subseteq> set (concat (map tv_receipt_ids (he_task_views h)))
      \<and> distinct (map tv_task_id (he_task_views h))
      \<and> distinct (map dv_decision_id (he_decision_views h)))"

definition hist_eval_ok :: "hist_eval \<Rightarrow> bool" where
  "hist_eval_ok h =
     (he_evaluation_type h \<in> {''dor'', ''dod''} \<and> he_result h \<in> {''passed'', ''failed''}
      \<and> re_event_id (he_evaluation_event_id h) \<and> opt_len 128 (he_accountable_actor h)
      \<and> len_between 1 64 (he_rules_version h) \<and> re_hash (he_rules_digest h)
      \<and> validate_bindings h)"

definition validate_hist_eval :: "pyrt \<Rightarrow> payload \<Rightarrow> pse_error + hist_eval" where
  "validate_hist_eval rt d =
     (if \<not> only_keys [''evaluation_type'', ''result'', ''evaluated_from_phase'', ''evaluated_phase'',
           ''evaluation_event_id'', ''task_views'', ''decision_views'', ''approved_decision_ids'',
           ''verified_task_receipts'', ''required_evidence_refs'', ''accountable_actor'',
           ''rules_version'', ''rules_digest''] d then Inl PyError
      else bindE (rd_str d ''evaluation_type'') (\<lambda>ty. bindE (rd_str d ''result'') (\<lambda>res.
           bindE (rd_phase d ''evaluated_from_phase'') (\<lambda>fp. bindE (rd_phase d ''evaluated_phase'') (\<lambda>tp.
           bindE (rd_str d ''evaluation_event_id'') (\<lambda>eid.
           bindE (rd_list (validate_task_view rt) d ''task_views'') (\<lambda>tvs.
           bindE (rd_list (validate_decision_view rt) d ''decision_views'') (\<lambda>dvs.
           bindE (rd_strs d ''approved_decision_ids'') (\<lambda>app.
           bindE (rd_strs d ''verified_task_receipts'') (\<lambda>rcs.
           bindE (rd_strs d ''required_evidence_refs'') (\<lambda>evs.
           bindE (opt_fld d ''accountable_actor'' None) (\<lambda>acc.
           bindE (str_fld d ''rules_version'' GOVERNANCE_RULES_VERSION) (\<lambda>rv.
           bindE (rd_str d ''rules_digest'') (\<lambda>rd.
             let h = \<lparr>he_evaluation_type = ty, he_result = res, he_evaluated_from_phase = fp,
                 he_evaluated_phase = tp, he_evaluation_event_id = eid, he_task_views = tvs,
                 he_decision_views = dvs, he_approved_decision_ids = app,
                 he_verified_task_receipts = rcs, he_required_evidence_refs = evs,
                 he_accountable_actor = acc, he_rules_version = rv, he_rules_digest = rd\<rparr>
             in if hist_eval_ok h then Inr h else Inl PyError))))))))))))))"

lemma validate_hist_eval_ok: "validate_hist_eval rt d = Inr h \<Longrightarrow> hist_eval_ok h"
  by (auto simp: validate_hist_eval_def bindE_eq_Inr Let_def split: if_splits)

subsection \<open>Governance outcomes\<close>

record readiness_eval =
  re_task_id :: string
  re_status :: readiness_status
  re_reason_codes :: "string list"
  re_blocking_dependencies :: "string list"
  re_missing_evidence :: "string list"
  re_missing_approvals :: "string list"
  re_cycle_path :: "string list"

record dor_eval =
  dor_passed :: bool
  dor_reason_codes :: "string list"
  dor_missing_evidence :: "string list"
  dor_missing_approvals :: "string list"
  dor_blocking_dependencies :: "string list"
  dor_failed_preconditions :: "string list"

record dod_eval =
  dod_passed :: bool
  dod_reason_codes :: "string list"
  dod_missing_evidence :: "string list"
  dod_missing_approvals :: "string list"
  dod_failed_conditions :: "string list"

record gov_eval =
  ge_decision :: governance_decision
  ge_reason_codes :: "string list"
  ge_policy_version :: string
  ge_relevant_event_ids :: "string list"
  ge_required_evidence_refs :: "string list"

end
