(* ===== verification/Project_State.thy ===== *)
theory Project_State
  imports State_Model
begin

text \<open>
  The project state (\<open>ProjectState\<close> in \<open>core/state_models.py\<close>), its canonical JSON form, the state
  revision, and the sealed snapshot with its integrity check.
\<close>

subsection \<open>The state\<close>

record project_state =
  st_project_id :: string
  st_current_phase :: project_phase
  st_owner :: "string option"
  st_phase_history :: "phase_record list"
  st_active_tasks :: "string list"
  st_ready_tasks :: "string list"
  st_blocked_tasks :: "string list"
  st_open_risks :: "string list"
  st_open_issues :: "string list"
  st_active_assumptions :: "string list"
  st_active_dependencies :: "string list"
  st_valid_decisions :: "string list"
  st_superseded_decisions :: "string list"
  st_recent_changes :: "string list"
  st_health_flags :: "string list"
  st_required_approvals :: "string list"
  st_state_revision :: string
  st_schema_version :: string
  st_rules_version :: string
  st_rules_digest :: string
  st_last_event_sequence :: int
  st_last_event_hash :: string
  st_raci :: "string list dict"
  st_evidence_kinds :: "string dict"
  st_attached_evidence :: "string list"
  st_tasks :: "task_view dict"
  st_decisions :: "decision_view dict"
  st_hist_approved :: "int dict"
  st_hist_receipts :: "int dict"
  st_hist_evaluations :: "string list"
  st_hist_gates :: "int dict"
  st_hist_origins :: "string dict"
  st_risks :: "risk dict"
  st_issues :: "issue dict"
  st_assumptions :: "assumption dict"
  st_dependencies :: "dependency dict"
  st_overridden_gates :: "string list"
  st_contributing_events :: "string list"

definition jdict :: "('a \<Rightarrow> json) \<Rightarrow> 'a dict \<Rightarrow> json" where
  "jdict f d = JObj (map (\<lambda>(k, v). (k, f v)) d)"

text \<open>\<open>to_canonical_dict\<close>, that is \<open>model_dump\<close>.\<close>

definition state_dump :: "project_state \<Rightarrow> payload" where
  "state_dump s =
    [(''project_id'', JStr (st_project_id s)), (''current_phase'', JStr (phase_str (st_current_phase s))),
     (''owner'', jopt (st_owner s)), (''phase_history'', JList (map phase_record_json (st_phase_history s))),
     (''active_tasks'', jstrs (st_active_tasks s)), (''ready_tasks'', jstrs (st_ready_tasks s)),
     (''blocked_tasks'', jstrs (st_blocked_tasks s)), (''open_risks'', jstrs (st_open_risks s)),
     (''open_issues'', jstrs (st_open_issues s)),
     (''active_assumptions'', jstrs (st_active_assumptions s)),
     (''active_dependencies'', jstrs (st_active_dependencies s)),
     (''valid_decisions'', jstrs (st_valid_decisions s)),
     (''superseded_decisions'', jstrs (st_superseded_decisions s)),
     (''recent_changes'', jstrs (st_recent_changes s)), (''health_flags'', jstrs (st_health_flags s)),
     (''required_approvals'', jstrs (st_required_approvals s)),
     (''state_revision'', JStr (st_state_revision s)), (''schema_version'', JStr (st_schema_version s)),
     (''rules_version'', JStr (st_rules_version s)), (''rules_digest'', JStr (st_rules_digest s)),
     (''last_event_sequence'', JInt (st_last_event_sequence s)),
     (''last_event_hash'', JStr (st_last_event_hash s)), (''raci'', jdict jstrs (st_raci s)),
     (''evidence_kinds'', jdict JStr (st_evidence_kinds s)),
     (''attached_evidence'', jstrs (st_attached_evidence s)),
     (''tasks'', jdict task_view_json (st_tasks s)),
     (''decisions'', jdict decision_view_json (st_decisions s)),
     (''historical_approved_decisions'', jdict JInt (st_hist_approved s)),
     (''historical_task_receipts'', jdict JInt (st_hist_receipts s)),
     (''historical_evaluations'', jstrs (st_hist_evaluations s)),
     (''historical_gate_evaluations'', jdict JInt (st_hist_gates s)),
     (''historical_gate_origins'', jdict JStr (st_hist_origins s)),
     (''risks'', jdict risk_json (st_risks s)), (''issues'', jdict issue_json (st_issues s)),
     (''assumptions'', jdict assumption_json (st_assumptions s)),
     (''dependencies'', jdict dependency_json (st_dependencies s)),
     (''overridden_gates'', jstrs (st_overridden_gates s)),
     (''contributing_events'', jstrs (st_contributing_events s))]"

definition compute_state_revision :: "pyrt \<Rightarrow> payload \<Rightarrow> pse_error + string" where
  "compute_state_revision rt d =
     canonical_digest rt (JObj (filter (\<lambda>(k, v). k \<noteq> ''state_revision'') d))"

text \<open>The state of an empty replay, with the checks of the \<open>ProjectState\<close> constructor.\<close>

definition initial_project_state ::
  "string \<Rightarrow> string \<Rightarrow> string \<Rightarrow> pse_error + project_state" where
  "initial_project_state pid rules_version rules_digest =
     (if re_project_id pid \<and> length pid \<le> 68 \<and> validate_project_id pid
         \<and> (rules_digest = [] \<or> re_hash rules_digest)
      then Inr \<lparr>st_project_id = pid, st_current_phase = DISCOVERY, st_owner = None,
        st_phase_history = [], st_active_tasks = [], st_ready_tasks = [], st_blocked_tasks = [],
        st_open_risks = [], st_open_issues = [], st_active_assumptions = [],
        st_active_dependencies = [], st_valid_decisions = [], st_superseded_decisions = [],
        st_recent_changes = [], st_health_flags = [], st_required_approvals = [],
        st_state_revision = replicate 64 CHR ''0'', st_schema_version = STATE_SCHEMA_VERSION,
        st_rules_version = rules_version, st_rules_digest = rules_digest,
        st_last_event_sequence = 0, st_last_event_hash = [], st_raci = [], st_evidence_kinds = [],
        st_attached_evidence = [], st_tasks = [], st_decisions = [], st_hist_approved = [],
        st_hist_receipts = [], st_hist_evaluations = [], st_hist_gates = [], st_hist_origins = [],
        st_risks = [], st_issues = [], st_assumptions = [], st_dependencies = [],
        st_overridden_gates = [], st_contributing_events = []\<rparr>
      else Inl PyError)"

lemma state_dump_revision_irrelevant:
  "filter (\<lambda>(k, v). k \<noteq> ''state_revision'') (state_dump (s\<lparr>st_state_revision := r\<rparr>)) =
   filter (\<lambda>(k, v). k \<noteq> ''state_revision'') (state_dump s)"
  by (simp add: state_dump_def)

lemma compute_state_revision_irrelevant:
  "compute_state_revision rt (state_dump (s\<lparr>st_state_revision := r\<rparr>)) =
   compute_state_revision rt (state_dump s)"
  unfolding compute_state_revision_def state_dump_revision_irrelevant by (rule refl)

subsection \<open>Snapshots\<close>

record snapshot =
  sn_schema_version :: string
  sn_rules_version :: string
  sn_project_id :: string
  sn_last_event_sequence :: int
  sn_last_event_hash :: string
  sn_state_revision :: string
  sn_state :: project_state
  sn_snapshot_digest :: string

definition snapshot_dump :: "snapshot \<Rightarrow> payload" where
  "snapshot_dump n =
    [(''schema_version'', JStr (sn_schema_version n)), (''rules_version'', JStr (sn_rules_version n)),
     (''project_id'', JStr (sn_project_id n)),
     (''last_event_sequence'', JInt (sn_last_event_sequence n)),
     (''last_event_hash'', JStr (sn_last_event_hash n)),
     (''state_revision'', JStr (sn_state_revision n)), (''state'', JObj (state_dump (sn_state n))),
     (''snapshot_digest'', JStr (sn_snapshot_digest n))]"

definition compute_snapshot_digest :: "pyrt \<Rightarrow> payload \<Rightarrow> pse_error + string" where
  "compute_snapshot_digest rt d =
     canonical_digest rt (JObj (filter (\<lambda>(k, v). k \<noteq> ''snapshot_digest'') d))"

definition snapshot_ok :: "snapshot \<Rightarrow> bool" where
  "snapshot_ok n =
     (sn_schema_version n = STATE_SCHEMA_VERSION \<and> re_project_id (sn_project_id n)
      \<and> validate_project_id (sn_project_id n) \<and> 0 \<le> sn_last_event_sequence n
      \<and> re_prev_hash (sn_last_event_hash n) \<and> re_hash (sn_state_revision n)
      \<and> re_hash (sn_snapshot_digest n))"

text \<open>\<open>ProjectStateSnapshot.create\<close> and \<open>verify_integrity\<close>.\<close>

definition create_snapshot :: "pyrt \<Rightarrow> project_state \<Rightarrow> pse_error + snapshot" where
  "create_snapshot rt s =
     bindE (compute_state_revision rt (state_dump s)) (\<lambda>rev.
       if rev \<noteq> st_state_revision s then Inl SnapshotIntegrity
       else
         let n = \<lparr>sn_schema_version = STATE_SCHEMA_VERSION, sn_rules_version = st_rules_version s,
               sn_project_id = st_project_id s, sn_last_event_sequence = st_last_event_sequence s,
               sn_last_event_hash = st_last_event_hash s, sn_state_revision = st_state_revision s,
               sn_state = s, sn_snapshot_digest = []\<rparr>
         in bindE (compute_snapshot_digest rt (snapshot_dump n)) (\<lambda>dig.
              let m = n\<lparr>sn_snapshot_digest := dig\<rparr>
              in if snapshot_ok m then Inr m else Inl PyError))"

definition verify_integrity :: "pyrt \<Rightarrow> snapshot \<Rightarrow> pse_error + bool" where
  "verify_integrity rt n =
     (let s = sn_state n in
      if sn_project_id n \<noteq> st_project_id s then Inr False
      else if sn_last_event_sequence n \<noteq> st_last_event_sequence s then Inr False
      else if sn_last_event_hash n \<noteq> st_last_event_hash s then Inr False
      else if sn_state_revision n \<noteq> st_state_revision s then Inr False
      else bindE (compute_state_revision rt (state_dump s)) (\<lambda>rev.
        if rev \<noteq> sn_state_revision n then Inr False
        else bindE (compute_snapshot_digest rt (snapshot_dump n)) (\<lambda>dig.
          Inr (dig = sn_snapshot_digest n))))"

lemma compute_snapshot_digest_irrelevant:
  "compute_snapshot_digest rt (snapshot_dump (n\<lparr>sn_snapshot_digest := x\<rparr>)) =
   compute_snapshot_digest rt (snapshot_dump n)"
  by (simp add: compute_snapshot_digest_def snapshot_dump_def)

text \<open>What a sealed snapshot holds.\<close>

lemma create_snapshotD:
  assumes "create_snapshot rt s = Inr n"
  shows "sn_state n = s" "sn_rules_version n = st_rules_version s"
    "sn_schema_version n = STATE_SCHEMA_VERSION" "sn_project_id n = st_project_id s"
    "sn_last_event_sequence n = st_last_event_sequence s"
    "sn_last_event_hash n = st_last_event_hash s" "sn_state_revision n = st_state_revision s"
    "compute_state_revision rt (state_dump s) = Inr (st_state_revision s)"
    "compute_snapshot_digest rt (snapshot_dump n) = Inr (sn_snapshot_digest n)"
  using assms
  by (auto simp: create_snapshot_def bindE_eq_Inr Let_def compute_snapshot_digest_def
      snapshot_dump_def split: if_splits)

lemma create_snapshot_verifies:
  "create_snapshot rt s = Inr n \<Longrightarrow> verify_integrity rt n = Inr True"
  by (simp add: verify_integrity_def create_snapshotD Let_def)

end
