(* ===== verification/Task_Model.thy ===== *)
theory Task_Model
  imports Py_Json
begin

text \<open>
  The task state machine of \<open>core/task_models.py\<close>: the eleven states, the table of allowed
  transitions, the checks of \<open>PowerTask\<close> on a transition, and the lifecycles the table permits.
\<close>

datatype task_state =
  Backlog | Ready | Submitted | Working | InputRequired | AuthRequired | Blocked
  | Completed | Failed | Canceled | Rejected

instantiation task_state :: enum
begin

definition enum_task_state :: "task_state list" where
  "enum_task_state = [Backlog, Ready, Submitted, Working, InputRequired, AuthRequired, Blocked,
     Completed, Failed, Canceled, Rejected]"

definition enum_all_task_state :: "(task_state \<Rightarrow> bool) \<Rightarrow> bool" where
  "enum_all_task_state P = list_all P enum_class.enum"

definition enum_ex_task_state :: "(task_state \<Rightarrow> bool) \<Rightarrow> bool" where
  "enum_ex_task_state P = list_ex P enum_class.enum"

instance
proof
  have U: "s \<in> set (enum_class.enum :: task_state list)" for s
    by (cases s) (simp_all add: enum_task_state_def)
  show "(UNIV :: task_state set) = set enum_class.enum" using U by blast
  show "distinct (enum_class.enum :: task_state list)" by (simp add: enum_task_state_def)
  show "enum_class.enum_all P = Ball UNIV P" for P :: "task_state \<Rightarrow> bool"
    using U by (auto simp: enum_all_task_state_def list_all_iff)
  show "enum_class.enum_ex P = Bex UNIV P" for P :: "task_state \<Rightarrow> bool"
    using U by (auto simp: enum_ex_task_state_def list_ex_iff)
qed

end

fun task_state_str :: "task_state \<Rightarrow> string" where
  "task_state_str Backlog = ''backlog''"
| "task_state_str Ready = ''ready''"
| "task_state_str Submitted = ''submitted''"
| "task_state_str Working = ''working''"
| "task_state_str InputRequired = ''input-required''"
| "task_state_str AuthRequired = ''auth-required''"
| "task_state_str Blocked = ''blocked''"
| "task_state_str Completed = ''completed''"
| "task_state_str Failed = ''failed''"
| "task_state_str Canceled = ''canceled''"
| "task_state_str Rejected = ''rejected''"

lemma task_state_str_inj: "task_state_str a = task_state_str b \<longleftrightarrow> a = b"
  by (cases a; cases b) simp_all

text \<open>\<open>TERMINAL_STATES\<close>, on the states and on their text.\<close>

definition TERMINAL_STATES :: "task_state list" where
  "TERMINAL_STATES = [Completed, Failed, Canceled, Rejected]"

definition terminal_str :: "string \<Rightarrow> bool" where
  "terminal_str s = (s \<in> {''completed'', ''failed'', ''canceled'', ''rejected''})"

lemma terminal_str_iff: "terminal_str (task_state_str s) \<longleftrightarrow> s \<in> set TERMINAL_STATES"
  by (cases s) (simp_all add: terminal_str_def TERMINAL_STATES_def)

fun VALID_TRANSITIONS :: "task_state \<Rightarrow> task_state list" where
  "VALID_TRANSITIONS Backlog = [Ready, Submitted, Working, Canceled]"
| "VALID_TRANSITIONS Ready =
     [Backlog, Working, InputRequired, AuthRequired, Blocked, Canceled, Rejected]"
| "VALID_TRANSITIONS Submitted =
     [Backlog, Ready, Working, InputRequired, AuthRequired, Blocked, Canceled, Rejected]"
| "VALID_TRANSITIONS Working =
     [Ready, Completed, Failed, Blocked, InputRequired, AuthRequired, Canceled]"
| "VALID_TRANSITIONS InputRequired = [Working, Ready, Canceled, Failed]"
| "VALID_TRANSITIONS AuthRequired = [Working, Ready, Canceled, Failed, Rejected]"
| "VALID_TRANSITIONS Blocked = [Ready, Working, Canceled, Failed]"
| "VALID_TRANSITIONS Completed = []"
| "VALID_TRANSITIONS Failed = []"
| "VALID_TRANSITIONS Canceled = []"
| "VALID_TRANSITIONS Rejected = []"

datatype transition_error = TerminalTask | IllegalState | MissingReceipt

definition is_terminal :: "task_state \<Rightarrow> bool" where
  "is_terminal s = (s \<in> set TERMINAL_STATES)"

definition can_transition_to :: "task_state \<Rightarrow> task_state \<Rightarrow> bool" where
  "can_transition_to s t = (if s = t then True else t \<in> set (VALID_TRANSITIONS s))"

text \<open>
  \<open>PowerTask.validate_transition\<close>: the receipt argument is a string or \<open>None\<close>, and an empty
  string counts as missing.
\<close>

definition validate_transition ::
  "task_state \<Rightarrow> string list \<Rightarrow> task_state \<Rightarrow> string option \<Rightarrow> transition_error + unit" where
  "validate_transition s receipt_ids t receipt =
     (if is_terminal s \<and> t \<noteq> s then Inl TerminalTask
      else if \<not> can_transition_to s t then Inl IllegalState
      else if t = Completed \<and> receipt \<in> {None, Some []} \<and> receipt_ids = [] then Inl MissingReceipt
      else Inr ())"

subsection \<open>Lifecycles\<close>

inductive task_step :: "task_state \<Rightarrow> task_state \<Rightarrow> bool" where
  move: "t \<in> set (VALID_TRANSITIONS s) \<Longrightarrow> task_step s t"

inductive_simps task_step_iff: "task_step s t"

lemma terminal_no_step: "is_terminal s \<Longrightarrow> \<not> task_step s t"
  by (cases s) (auto simp: task_step_iff is_terminal_def TERMINAL_STATES_def)

lemma validate_transition_ok_iff:
  "validate_transition s rs t r = Inr () \<longleftrightarrow>
     (s = t \<or> task_step s t) \<and> (t = Completed \<longrightarrow> r \<notin> {None, Some []} \<or> rs \<noteq> [])"
  by (cases s; cases t)
    (auto simp: validate_transition_def can_transition_to_def is_terminal_def TERMINAL_STATES_def
      task_step_iff)

text \<open>A task that is completed was being worked on: \<open>working\<close> is the only way in.\<close>

lemma completed_only_from_working: "task_step s Completed \<Longrightarrow> s = Working"
  by (cases s) (auto simp: task_step_iff)

text \<open>Every live state can still be closed: cancelling is a single step away.\<close>

lemma live_can_cancel: "\<not> is_terminal s \<Longrightarrow> task_step s Canceled"
  by (cases s) (auto simp: task_step_iff is_terminal_def TERMINAL_STATES_def)

end
