(* ===== verification/Dependency_Cycles.thy ===== *)
theory Dependency_Cycles
  imports State_Model
begin

text \<open>
  \<open>detect_dependency_cycles\<close> of \<open>core/governance_engine.py\<close>: the adjacency of the task dependency
  graph and the depth-first search for directed cycles.

  The recursion of the search is bounded by a fuel; \<open>dfs_total\<close> shows that the number of tasks is
  always enough. \<open>detect_sound\<close> and \<open>detect_complete\<close> say what the search finds: every reported
  list is a cycle of the graph, and no list is reported exactly when the graph is acyclic.
\<close>

subsection \<open>Adjacency\<close>

type_synonym adjacency = "string list dict"

definition adj_add :: "string \<Rightarrow> string \<Rightarrow> adjacency \<Rightarrow> adjacency" where
  "adj_add u v adj = (case map_of adj u of
       None \<Rightarrow> adj
     | Some vs \<Rightarrow> AList.update u (if v \<in> set vs then vs else vs @ [v]) adj)"

definition add_task_edges :: "string \<times> task_view \<Rightarrow> adjacency \<Rightarrow> adjacency" where
  "add_task_edges tv adj = (case tv of (tid, v) \<Rightarrow>
     fold (\<lambda>dep a. if has_key dep a then adj_add tid dep a else a) (tv_dependencies v) adj)"

definition add_explicit_edge :: "dependency \<Rightarrow> adjacency \<Rightarrow> adjacency" where
  "add_explicit_edge d adj =
     (let src = dp_source_id d; tgt = dp_target_id d; kind = dp_dependency_kind d in
      if src \<noteq> [] \<and> tgt \<noteq> [] \<and> has_key src adj \<and> has_key tgt adj
      then (if kind \<in> {''blocks'', ''requires''} then adj_add tgt src adj
            else if kind = ''blocked_by'' then adj_add src tgt adj
            else adj)
      else adj)"

definition build_adjacency :: "task_view dict \<Rightarrow> dependency list \<Rightarrow> adjacency" where
  "build_adjacency tasks deps =
     fold add_explicit_edge deps (fold add_task_edges tasks (map (\<lambda>(tid, v). (tid, [])) tasks))"

definition neighbors :: "adjacency \<Rightarrow> string \<Rightarrow> string list" where
  "neighbors adj u = (case map_of adj u of None \<Rightarrow> [] | Some vs \<Rightarrow> sorted_set vs)"

subsection \<open>The search\<close>

text \<open>The visited nodes, the recursion stack and the cycles found so far.\<close>

type_synonym dfs_state = "string list \<times> string list \<times> string list list"

definition index_of :: "string \<Rightarrow> string list \<Rightarrow> nat" where
  "index_of x xs = length (takeWhile (\<lambda>y. y \<noteq> x) xs)"

definition normalize_cycle :: "string list \<Rightarrow> string list" where
  "normalize_cycle inner =
     (let i = index_of (Min (set inner)) inner
      in drop i inner @ take i inner @ [inner ! i])"

definition add_cycle :: "string list \<Rightarrow> string \<Rightarrow> string list list \<Rightarrow> string list list" where
  "add_cycle stack nb cycles =
     (let c = normalize_cycle (drop (index_of nb stack) stack)
      in if c \<in> set cycles then cycles else cycles @ [c])"

text \<open>The body of the loop over the neighbours, with the recursive call as a parameter.\<close>

fun dfs_visit :: "(string \<Rightarrow> dfs_state \<Rightarrow> dfs_state option) \<Rightarrow> string \<Rightarrow> dfs_state \<Rightarrow> dfs_state option" where
  "dfs_visit rec nb (visited, stack, cycles) =
     (if nb \<in> set stack then Some (visited, stack, add_cycle stack nb cycles)
      else if nb \<notin> set visited then rec nb (visited, stack, cycles)
      else Some (visited, stack, cycles))"

fun dfs_push :: "string \<Rightarrow> dfs_state \<Rightarrow> dfs_state" where
  "dfs_push node (visited, stack, cycles) = (node # visited, stack @ [node], cycles)"

fun dfs_pop :: "dfs_state \<Rightarrow> dfs_state" where
  "dfs_pop (visited, stack, cycles) = (visited, butlast stack, cycles)"

primrec dfs :: "nat \<Rightarrow> adjacency \<Rightarrow> string \<Rightarrow> dfs_state \<Rightarrow> dfs_state option" where
  "dfs 0 adj node st = None"
| "dfs (Suc n) adj node st =
     map_option dfs_pop (foldO (dfs_visit (dfs n adj)) (neighbors adj node) (dfs_push node st))"

definition dfs_roots :: "nat \<Rightarrow> adjacency \<Rightarrow> string list \<Rightarrow> dfs_state \<Rightarrow> dfs_state option" where
  "dfs_roots n adj roots st =
     foldO (\<lambda>r st. if r \<notin> set (fst st) then dfs n adj r st else Some st) roots st"

definition find_cycles :: "adjacency \<Rightarrow> string list list option" where
  "find_cycles adj =
     map_option (\<lambda>(v, s, c). sort_key (\<lambda>c. (length c, c)) c)
       (dfs_roots (length adj) adj (sorted_set (map fst adj)) ([], [], []))"

definition detect_dependency_cycles :: "task_view dict \<Rightarrow> dependency list \<Rightarrow> string list list" where
  "detect_dependency_cycles tasks deps =
     (case find_cycles (build_adjacency tasks deps) of None \<Rightarrow> [] | Some c \<Rightarrow> c)"

subsection \<open>The graph\<close>

definition edges :: "adjacency \<Rightarrow> (string \<times> string) set" where
  "edges adj = {(u, v). v \<in> set (neighbors adj u)}"

definition adj_wf :: "adjacency \<Rightarrow> bool" where
  "adj_wf adj \<longleftrightarrow> dict_wf adj \<and> edges adj \<subseteq> fst ` set adj \<times> fst ` set adj"

lemma has_key_iff: "has_key k d \<longleftrightarrow> k \<in> fst ` set d"
  by (auto simp: map_of_eq_None_iff)

lemma keys_adj_add [simp]: "map fst (adj_add u v adj) = map fst adj"
proof (cases "map_of adj u")
  case (Some vs)
  then have "u \<in> fst ` set adj" by (force dest: map_of_SomeD)
  then show ?thesis using Some by (simp add: adj_add_def update_keys)
qed (simp add: adj_add_def)

lemma edges_adj_add:
  "has_key u adj \<Longrightarrow> edges (adj_add u v adj) = insert (u, v) (edges adj)"
  by (auto simp: edges_def neighbors_def adj_add_def split: option.splits if_splits)

lemma keys_add_task_edges [simp]: "map fst (add_task_edges tv adj) = map fst adj"
proof -
  obtain tid v where tv: "tv = (tid, v)" by force
  have "map fst (fold (\<lambda>dep a. if has_key dep a then adj_add tid dep a else a) ds a) = map fst a" for ds a
    by (induction ds arbitrary: a) auto
  then show ?thesis by (simp add: add_task_edges_def tv)
qed

lemma keys_add_explicit_edge [simp]: "map fst (add_explicit_edge d adj) = map fst adj"
  by (simp add: add_explicit_edge_def Let_def)

lemma keys_fold_task [simp]: "map fst (fold add_task_edges ts adj) = map fst adj"
  by (induction ts arbitrary: adj) auto

lemma keys_fold_explicit [simp]: "map fst (fold add_explicit_edge ds adj) = map fst adj"
  by (induction ds arbitrary: adj) auto

lemma keys_build_adjacency: "map fst (build_adjacency tasks deps) = map fst tasks"
  by (simp add: build_adjacency_def comp_def case_prod_beta)

lemma image_keys: "map fst a = map fst b \<Longrightarrow> fst ` set a = fst ` set b"
  by (metis list.set_map)

lemma adj_wf_adj_add:
  "adj_wf adj \<Longrightarrow> has_key u adj \<Longrightarrow> has_key v adj \<Longrightarrow> adj_wf (adj_add u v adj)"
  using image_keys [OF keys_adj_add, of u v adj]
  unfolding adj_wf_def keys_adj_add by (simp add: edges_adj_add) (force dest: map_of_SomeD)

lemma adj_wf_add_task_edges:
  assumes "adj_wf adj" "has_key (fst tv) adj"
  shows "adj_wf (add_task_edges tv adj)"
proof -
  obtain tid v where tv: "tv = (tid, v)" by force
  have "adj_wf a \<Longrightarrow> has_key tid a \<Longrightarrow>
      adj_wf (fold (\<lambda>dep a. if has_key dep a then adj_add tid dep a else a) ds a)" for ds a
  proof (induction ds arbitrary: a)
    case (Cons d ds)
    show ?case
    proof (cases "has_key d a")
      case True
      have "has_key tid (adj_add tid d a)"
        using Cons.prems(2) image_keys [OF keys_adj_add, of tid d a] unfolding has_key_iff by blast
      then show ?thesis
        using Cons.IH [of "adj_add tid d a"] adj_wf_adj_add [OF Cons.prems(1,2) True] True by simp
    next
      case False
      then show ?thesis using Cons by simp
    qed
  qed simp
  then show ?thesis using assms by (simp add: add_task_edges_def tv)
qed

lemma adj_wf_add_explicit_edge: "adj_wf adj \<Longrightarrow> adj_wf (add_explicit_edge d adj)"
  by (auto simp: add_explicit_edge_def Let_def intro: adj_wf_adj_add)

lemma adj_wf_build:
  assumes "dict_wf tasks"
  shows "adj_wf (build_adjacency tasks deps)"
proof -
  let ?init = "map (\<lambda>(tid, v). (tid, [])) tasks :: adjacency"
  have init: "adj_wf ?init"
  proof -
    have "vs = []" if "map_of ?init u = Some vs" for u vs
      using map_of_SomeD [OF that] by auto
    then have "neighbors ?init u = []" for u
      by (fastforce simp: neighbors_def split: option.split)
    then show ?thesis
      using assms by (simp add: adj_wf_def edges_def comp_def case_prod_beta)
  qed
  have task: "adj_wf a \<Longrightarrow> fst ` set ts \<subseteq> fst ` set a \<Longrightarrow> adj_wf (fold add_task_edges ts a)" for ts a
  proof (induction ts arbitrary: a)
    case (Cons t ts)
    have "has_key (fst t) a" using Cons.prems(2) unfolding has_key_iff by simp
    then have "adj_wf (add_task_edges t a)" by (rule adj_wf_add_task_edges [OF Cons.prems(1)])
    then show ?case
      using Cons.IH [of "add_task_edges t a"] Cons.prems(2) image_keys [OF keys_add_task_edges, of t a]
      by simp
  qed simp
  have expl: "adj_wf a \<Longrightarrow> adj_wf (fold add_explicit_edge ds a)" for ds a
    by (induction ds arbitrary: a) (auto intro: adj_wf_add_explicit_edge)
  have "fst ` set tasks \<subseteq> fst ` set ?init" by force
  then show ?thesis unfolding build_adjacency_def by (intro expl task init)
qed

subsection \<open>Enough fuel\<close>

lemma card_unvisited_less:
  assumes "x \<in> fst ` set adj" "x \<notin> set v" "set v \<subseteq> set w" "x \<in> set w"
  shows "card (fst ` set adj - set w) < card (fst ` set adj - set v)"
  by (rule psubset_card_mono) (use assms in auto)

lemma visited_dfs_push [simp]: "set (fst (dfs_push node st)) = insert node (set (fst st))"
  by (cases st) simp

lemma visited_dfs_pop [simp]: "fst (dfs_pop st) = fst st"
  by (cases st) simp

lemma dfs_visit_total:
  assumes "nb \<notin> set (fst st) \<Longrightarrow> \<exists>st'. rec nb st = Some st' \<and> set (fst st) \<subseteq> set (fst st')"
  shows "\<exists>st'. dfs_visit rec nb st = Some st' \<and> set (fst st) \<subseteq> set (fst st')"
  using assms by (cases st) auto

lemma dfs_total:
  assumes "adj_wf adj" "node \<in> fst ` set adj" "node \<notin> set (fst st)"
    and "card (fst ` set adj - set (fst st)) \<le> n"
  shows "\<exists>st'. dfs n adj node st = Some st' \<and> set (fst st) \<subseteq> set (fst st')"
  using assms(2-4)
proof (induction n arbitrary: node st)
  case 0
  then have "fst ` set adj \<subseteq> set (fst st)" by simp
  then show ?case using 0 by blast
next
  case (Suc n)
  let ?P = "\<lambda>t. insert node (set (fst st)) \<subseteq> set (fst t)"
  have "\<exists>t. foldO (dfs_visit (dfs n adj)) (neighbors adj node) (dfs_push node st) = Some t \<and> ?P t"
  proof (rule foldO_total)
    fix nb and t :: dfs_state assume nb: "nb \<in> set (neighbors adj node)" and P: "?P t"
    have "(node, nb) \<in> edges adj" using nb by (simp add: edges_def)
    then have key: "nb \<in> fst ` set adj" using assms(1) by (auto simp: adj_wf_def)
    have "card (fst ` set adj - set (fst t)) < card (fst ` set adj - set (fst st))"
      by (rule card_unvisited_less [OF Suc.prems(1,2)]) (use P in auto)
    then have card: "card (fst ` set adj - set (fst t)) \<le> n" using Suc.prems(3) by simp
    obtain u where "dfs_visit (dfs n adj) nb t = Some u" "set (fst t) \<subseteq> set (fst u)"
      using dfs_visit_total [of nb t "dfs n adj", OF Suc.IH [OF key _ card]] by blast
    with P show "\<exists>u. dfs_visit (dfs n adj) nb t = Some u \<and> ?P u" by blast
  qed simp
  then show ?case by auto
qed

lemma dfs_roots_total:
  assumes "adj_wf adj" "set roots \<subseteq> fst ` set adj" "length adj \<le> n"
  shows "\<exists>t. dfs_roots n adj roots ([], [], []) = Some t"
proof -
  have card: "card (fst ` set adj - set v) \<le> n" for v :: "string list"
  proof -
    have "card (fst ` set adj - set v) \<le> card (fst ` set adj)" by (intro card_mono) auto
    also have "\<dots> \<le> length adj" by (metis card_length length_map list.set_map)
    finally show ?thesis using assms(3) by simp
  qed
  have "\<exists>t. dfs_roots n adj roots ([], [], []) = Some t \<and> True"
    unfolding dfs_roots_def
  proof (rule foldO_total)
    fix r and t :: dfs_state assume "r \<in> set roots"
    then have "r \<in> fst ` set adj" using assms(2) by blast
    then show "\<exists>u. (if r \<notin> set (fst t) then dfs n adj r t else Some t) = Some u \<and> True"
      using dfs_total [OF assms(1) _ _ card, of r t] by metis
  qed simp
  then show ?thesis by simp
qed

lemma find_cycles_total: "adj_wf adj \<Longrightarrow> \<exists>c. find_cycles adj = Some c"
  using dfs_roots_total [of adj "sorted_set (map fst adj)" "length adj"]
  by (fastforce simp: find_cycles_def)

subsection \<open>Soundness: a reported list is a cycle\<close>

definition is_cycle :: "adjacency \<Rightarrow> string list \<Rightarrow> bool" where
  "is_cycle adj c \<longleftrightarrow>
     2 \<le> length c \<and> hd c = last c \<and> successively (\<lambda>u v. (u, v) \<in> edges adj) c"

lemma successively_drop: "successively P xs \<Longrightarrow> successively P (drop n xs)"
  by (metis append_take_drop_id successively_append_iff)

lemma index_of_less: "x \<in> set xs \<Longrightarrow> index_of x xs < length xs \<and> xs ! index_of x xs = x"
proof (induction xs)
  case (Cons y ys)
  then show ?case by (cases "y = x") (auto simp: index_of_def)
qed simp

lemma rotate_cycle:
  assumes "successively P (xs @ [hd xs])" "xs \<noteq> []" "i < length xs"
  shows "successively P (drop i xs @ take i xs @ [xs ! i])"
proof (cases i)
  case 0
  then show ?thesis using assms by (simp add: hd_conv_nth)
next
  case (Suc j)
  have xs: "xs = take i xs @ drop i xs" by simp
  have ne: "take i xs \<noteq> []" "drop i xs \<noteq> []" using assms Suc by auto
  have hd: "hd (drop i xs) = xs ! i" "hd (take i xs) = hd xs"
    using assms Suc by (simp_all add: hd_drop_conv_nth)
  have "successively P ((take i xs @ drop i xs) @ [hd xs])" using assms(1) by simp
  then have "successively P (take i xs)" "successively P (drop i xs)"
    "P (last (take i xs)) (hd (drop i xs))" "P (last (drop i xs)) (hd xs)"
    using ne unfolding successively_append_iff by auto
  then show ?thesis using ne hd by (auto simp: successively_append_iff)
qed

lemma normalize_cycle_is_cycle:
  assumes "successively (\<lambda>u v. (u, v) \<in> edges adj) (xs @ [hd xs])" "xs \<noteq> []"
  shows "is_cycle adj (normalize_cycle xs)"
proof -
  let ?i = "index_of (Min (set xs)) xs"
  have "Min (set xs) \<in> set xs" using assms(2) by (intro Min_in) auto
  then have i: "?i < length xs" using index_of_less by blast
  have hd: "hd (normalize_cycle xs) = xs ! ?i" "last (normalize_cycle xs) = xs ! ?i"
    using i by (simp_all add: normalize_cycle_def Let_def hd_append hd_drop_conv_nth)
  have "2 \<le> length (normalize_cycle xs)" using i by (simp add: normalize_cycle_def Let_def)
  moreover have "successively (\<lambda>u v. (u, v) \<in> edges adj) (normalize_cycle xs)"
    using rotate_cycle [OF assms i] by (simp add: normalize_cycle_def Let_def)
  ultimately show ?thesis using hd by (simp add: is_cycle_def)
qed

text \<open>What the search keeps: the stack is a path, and the cycles found are cycles.\<close>

fun path_state :: "adjacency \<Rightarrow> dfs_state \<Rightarrow> bool" where
  "path_state adj (v, s, c) \<longleftrightarrow>
     successively (\<lambda>u v. (u, v) \<in> edges adj) s \<and> (\<forall>x \<in> set c. is_cycle adj x)"

abbreviation stack_of :: "dfs_state \<Rightarrow> string list" where
  "stack_of st \<equiv> fst (snd st)"

abbreviation cycles_of :: "dfs_state \<Rightarrow> string list list" where
  "cycles_of st \<equiv> snd (snd st)"

lemma path_state_add_cycle:
  assumes "path_state adj (v, s, c)" "nb \<in> set s" "(last s, nb) \<in> edges adj"
  shows "path_state adj (v, s, add_cycle s nb c)"
proof -
  let ?i = "index_of nb s" and ?inner = "drop (index_of nb s) s"
  have i: "?i < length s" "s ! ?i = nb" using index_of_less [OF assms(2)] by auto
  then have ne: "?inner \<noteq> []" and hd: "hd ?inner = nb" by (auto simp: hd_drop_conv_nth)
  have "successively (\<lambda>u v. (u, v) \<in> edges adj) ?inner"
    using assms(1) by (simp add: successively_drop)
  moreover have "(last ?inner, nb) \<in> edges adj" using assms(3) i by simp
  ultimately have "successively (\<lambda>u v. (u, v) \<in> edges adj) (?inner @ [hd ?inner])"
    using ne hd by (simp add: successively_append_iff)
  from normalize_cycle_is_cycle [OF this ne] assms(1) show ?thesis
    by (auto simp: add_cycle_def Let_def)
qed

lemma dfs_path_state:
  assumes "dfs n adj node st = Some st'" "path_state adj st"
    and "stack_of st = [] \<or> (last (stack_of st), node) \<in> edges adj"
  shows "path_state adj st' \<and> stack_of st' = stack_of st"
  using assms
proof (induction n arbitrary: node st st')
  case (Suc n)
  obtain v s c where st: "st = (v, s, c)" by (cases st)
  obtain t where t: "foldO (dfs_visit (dfs n adj)) (neighbors adj node) (dfs_push node st) = Some t"
    "st' = dfs_pop t" using Suc.prems(1) by auto
  let ?P = "\<lambda>t. path_state adj t \<and> stack_of t = s @ [node]"
  have "?P t"
  proof (rule foldO_inv [OF t(1)])
    show "?P (dfs_push node st)"
      using Suc.prems(2,3) by (auto simp: st successively_append_iff)
  next
    fix nb x y
    assume nb: "nb \<in> set (neighbors adj node)" and P: "?P x" and y: "dfs_visit (dfs n adj) nb x = Some y"
    obtain w r d where x: "x = (w, r, d)" by (cases x)
    have edge: "(last r, nb) \<in> edges adj" using nb P by (simp add: x edges_def)
    show "?P y"
    proof (cases "nb \<in> set r")
      case True
      then show ?thesis using y P path_state_add_cycle [OF _ True edge] by (auto simp: x)
    next
      case False
      then show ?thesis using y P Suc.IH [of nb x y] edge by (auto simp: x split: if_splits)
    qed
  qed
  then show ?case by (cases t) (auto simp: t(2) st successively_append_iff)
qed simp

lemma dfs_roots_path_state:
  assumes "dfs_roots n adj roots ([], [], []) = Some t"
  shows "path_state adj t \<and> stack_of t = []"
  using assms unfolding dfs_roots_def
proof (rule foldO_inv)
  fix r u v
  assume P: "path_state adj u \<and> stack_of u = []"
    and v: "(if r \<notin> set (fst u) then dfs n adj r u else Some u) = Some v"
  show "path_state adj v \<and> stack_of v = []"
    using dfs_path_state [of n adj r u v] P v by (cases "r \<in> set (fst u)") simp_all
qed simp

lemma detect_sound:
  assumes "c \<in> set (detect_dependency_cycles tasks deps)"
  shows "is_cycle (build_adjacency tasks deps) c"
proof -
  let ?adj = "build_adjacency tasks deps"
  obtain t where "dfs_roots (length ?adj) ?adj (sorted_set (map fst ?adj)) ([], [], []) = Some t"
    "c \<in> set (cycles_of t)"
    using assms
    by (cases "dfs_roots (length ?adj) ?adj (sorted_set (map fst ?adj)) ([], [], [])")
      (auto simp: detect_dependency_cycles_def find_cycles_def)
  then show ?thesis using dfs_roots_path_state by (cases t) fastforce
qed

subsection \<open>Completeness: a graph with a cycle has one reported\<close>

lemma acyclic_insert_source:
  assumes "acyclic (E \<inter> D \<times> D)" "E `` D \<subseteq> D" "n \<notin> D" "E `` {n} \<subseteq> D"
  shows "acyclic (E \<inter> insert n D \<times> insert n D)"
proof -
  let ?R = "E \<inter> insert n D \<times> insert n D"
  have stays: "(x, y) \<in> ?R\<^sup>+ \<Longrightarrow> x \<in> D \<Longrightarrow> (x, y) \<in> (E \<inter> D \<times> D)\<^sup>+ \<and> y \<in> D" for x y
  proof (induction rule: trancl_induct)
    case (base y)
    then show ?case using assms(2) by blast
  next
    case (step y z)
    then show ?case using assms(2) by (blast intro: trancl_into_trancl)
  qed
  have "(x, x) \<notin> ?R\<^sup>+" for x
  proof
    assume c: "(x, x) \<in> ?R\<^sup>+"
    show False
    proof (cases "x \<in> D")
      case True
      then show False using stays [OF c] assms(1) by (auto simp: acyclic_def)
    next
      case False
      from c have "x = n" using False by (auto elim: tranclE)
      from tranclD [OF c] obtain y where "(x, y) \<in> ?R" "(y, x) \<in> ?R\<^sup>*" by blast
      then have "y \<in> D" using \<open>x = n\<close> assms(4) by blast
      then show False using \<open>(y, x) \<in> ?R\<^sup>*\<close> stays [of y x] False by (auto simp: rtrancl_eq_or_trancl)
    qed
  qed
  then show ?thesis by (simp add: acyclic_def)
qed

text \<open>
  The finished nodes are those visited and no longer on the stack. As long as no cycle has been
  found they are closed under the edges and the graph on them is acyclic.
\<close>

definition finished :: "dfs_state \<Rightarrow> string set" where
  "finished st = set (fst st) - set (stack_of st)"

definition search_inv :: "adjacency \<Rightarrow> dfs_state \<Rightarrow> bool" where
  "search_inv adj st \<longleftrightarrow>
     set (stack_of st) \<subseteq> set (fst st) \<and> distinct (stack_of st) \<and>
     (cycles_of st = [] \<longrightarrow>
        edges adj `` finished st \<subseteq> finished st \<and>
        acyclic (edges adj \<inter> finished st \<times> finished st))"

text \<open>How far a call has come: the visited nodes only grow and no cycle is forgotten.\<close>

definition extends :: "dfs_state \<Rightarrow> dfs_state \<Rightarrow> bool" where
  "extends st st' \<longleftrightarrow>
     set (fst st) \<subseteq> set (fst st') \<and> stack_of st' = stack_of st \<and>
     (cycles_of st' = [] \<longrightarrow> cycles_of st = [])"

lemma extends_refl [simp]: "extends st st"
  by (simp add: extends_def)

lemma extends_trans: "extends a b \<Longrightarrow> extends b c \<Longrightarrow> extends a c"
  by (auto simp: extends_def)

lemma extends_finished: "extends a b \<Longrightarrow> finished a \<subseteq> finished b"
  by (auto simp: extends_def finished_def)

lemma add_cycle_nonempty: "add_cycle s nb c \<noteq> []"
  by (auto simp: add_cycle_def Let_def)

text \<open>The loop over the neighbours, given what the recursive call does.\<close>

lemma dfs_visit_step:
  assumes "\<And>y. nb \<notin> set (fst x) \<Longrightarrow> rec nb x = Some y \<Longrightarrow>
      extends x y \<and> search_inv adj y \<and> nb \<in> set (fst y)"
    and "search_inv adj x" "dfs_visit rec nb x = Some y"
  shows "extends x y \<and> search_inv adj y \<and> (cycles_of y = [] \<longrightarrow> nb \<in> finished y)"
proof -
  obtain v s c where x: "x = (v, s, c)" by (cases x)
  consider "nb \<in> set s" | "nb \<notin> set s" "nb \<notin> set v" | "nb \<notin> set s" "nb \<in> set v" by blast
  then show ?thesis
  proof cases
    case 1
    then have "y = (v, s, add_cycle s nb c)" using assms(3) by (simp add: x)
    then show ?thesis
      using assms(2) by (auto simp: x extends_def search_inv_def finished_def add_cycle_nonempty)
  next
    case 2
    then have "rec nb x = Some y" using assms(3) by (simp add: x)
    then show ?thesis using assms(1) [of y] 2 by (auto simp: x extends_def finished_def)
  next
    case 3
    then have "y = x" using assms(3) by (simp add: x)
    then show ?thesis using assms(2) 3 by (auto simp: x finished_def)
  qed
qed

lemma search_inv_push:
  assumes "search_inv adj st" "node \<notin> set (fst st)"
  shows "search_inv adj (dfs_push node st) \<and> finished (dfs_push node st) = finished st"
proof -
  obtain v s c where st: "st = (v, s, c)" by (cases st)
  have fin: "finished (dfs_push node st) = finished st"
    using assms(2) by (auto simp: st finished_def)
  then show ?thesis using assms by (auto simp: st search_inv_def)
qed

lemma search_inv_pop:
  assumes "search_inv adj t" "stack_of t = s @ [node]"
    and "cycles_of t = [] \<Longrightarrow> edges adj `` {node} \<subseteq> finished t"
  shows "search_inv adj (dfs_pop t)"
proof -
  obtain v s' c where t: "t = (v, s @ [node], c)" using assms(2) by (cases t) auto
  have node: "node \<notin> set s" "node \<in> set v" using assms(1) by (auto simp: t search_inv_def)
  then have fin: "finished (dfs_pop t) = insert node (finished t)" "node \<notin> finished t"
    by (auto simp: t finished_def)
  have "acyclic (edges adj \<inter> insert node (finished t) \<times> insert node (finished t))" if "c = []"
    using assms(1,3) that fin(2) by (intro acyclic_insert_source) (auto simp: t search_inv_def)
  then show ?thesis
    using assms(1,3) fin(1) by (fastforce simp: t search_inv_def)
qed

lemma dfs_search_inv:
  assumes "dfs n adj node st = Some st'" "search_inv adj st" "node \<notin> set (fst st)"
  shows "extends st st' \<and> search_inv adj st' \<and> node \<in> set (fst st')"
  using assms
proof (induction n arbitrary: node st st')
  case (Suc n)
  let ?p = "dfs_push node st"
  obtain t where t: "foldO (dfs_visit (dfs n adj)) (neighbors adj node) ?p = Some t"
    "st' = dfs_pop t" using Suc.prems(1) by auto
  have "search_inv adj ?p" using search_inv_push [OF Suc.prems(2,3)] by simp
  have loop: "foldO (dfs_visit (dfs n adj)) ns x = Some y \<Longrightarrow> search_inv adj x \<Longrightarrow>
      extends x y \<and> search_inv adj y \<and> (cycles_of y = [] \<longrightarrow> set ns \<subseteq> finished y)" for ns x y
  proof (induction ns arbitrary: x)
    case (Cons nb ns)
    then obtain z where z: "dfs_visit (dfs n adj) nb x = Some z"
      "foldO (dfs_visit (dfs n adj)) ns z = Some y" by (auto split: option.splits)
    have step: "extends x z \<and> search_inv adj z \<and> (cycles_of z = [] \<longrightarrow> nb \<in> finished z)"
      by (rule dfs_visit_step [OF _ Cons.prems(2) z(1)]) (use Suc.IH Cons.prems(2) in blast)
    with Cons.IH [OF z(2)] have rest: "extends z y" "search_inv adj y"
      "cycles_of y = [] \<longrightarrow> set ns \<subseteq> finished y" by auto
    have "cycles_of y = [] \<longrightarrow> nb \<in> finished y"
      using step extends_finished [OF rest(1)] rest(1) by (auto simp: extends_def)
    moreover have "extends x y" using step extends_trans [OF _ rest(1)] by blast
    ultimately show ?case using rest by simp
  qed simp
  from loop [OF t(1) \<open>search_inv adj ?p\<close>]
  have t': "extends ?p t" "search_inv adj t" "cycles_of t = [] \<longrightarrow> set (neighbors adj node) \<subseteq> finished t"
    by auto
  obtain v s c where st: "st = (v, s, c)" by (cases st)
  have stack: "stack_of t = s @ [node]" using t'(1) by (simp add: st extends_def)
  have "search_inv adj st'"
    unfolding t(2) by (rule search_inv_pop [OF t'(2) stack]) (use t'(3) in \<open>auto simp: edges_def\<close>)
  then show ?case
    using t'(1) stack by (cases t) (auto simp: t(2) st extends_def)
qed simp

lemma find_cycles_complete:
  assumes "adj_wf adj" "find_cycles adj = Some []"
  shows "acyclic (edges adj)"
proof -
  obtain t where t: "dfs_roots (length adj) adj (sorted_set (map fst adj)) ([], [], []) = Some t"
    "cycles_of t = []"
    using assms(2) by (auto simp: find_cycles_def split: prod.splits)
      (metis length_0_conv length_sort)
  let ?I = "\<lambda>x. search_inv adj x \<and> stack_of x = []"
  have loop: "foldO (\<lambda>r st. if r \<notin> set (fst st) then dfs (length adj) adj r st else Some st) rs x = Some y \<Longrightarrow>
      ?I x \<Longrightarrow> ?I y \<and> set rs \<union> set (fst x) \<subseteq> set (fst y)" for rs x y
  proof (induction rs arbitrary: x)
    case (Cons r rs)
    then obtain z where z: "(if r \<notin> set (fst x) then dfs (length adj) adj r x else Some x) = Some z"
      "foldO (\<lambda>r st. if r \<notin> set (fst st) then dfs (length adj) adj r st else Some st) rs z = Some y"
      by (auto split: option.splits)
    have "?I z \<and> insert r (set (fst x)) \<subseteq> set (fst z)"
      using z(1) Cons.prems(2) dfs_search_inv [of "length adj" adj r x z]
      by (auto simp: extends_def split: if_splits)
    with Cons.IH [OF z(2)] show ?case by auto
  qed simp
  have "?I ([], [], [])" by (simp add: search_inv_def finished_def acyclic_def)
  with loop t(1) have I: "?I t" "fst ` set adj \<subseteq> set (fst t)"
    unfolding dfs_roots_def by fastforce+
  then have "edges adj \<inter> finished t \<times> finished t = edges adj"
    using assms(1) by (auto simp: adj_wf_def finished_def)
  then show ?thesis using I(1) t(2) by (simp add: search_inv_def)
qed

lemma cycle_not_acyclic: "is_cycle adj c \<Longrightarrow> \<not> acyclic (edges adj)"
proof -
  have path: "successively (\<lambda>u v. (u, v) \<in> E) xs \<Longrightarrow> 2 \<le> length xs \<Longrightarrow> (hd xs, last xs) \<in> E\<^sup>+" for E and xs :: "string list"
  proof (induction xs rule: induct_list012)
    case (3 x y zs)
    then show ?case by (cases zs) (auto intro: trancl_into_trancl2)
  qed auto
  assume "is_cycle adj c"
  then have "(hd c, hd c) \<in> (edges adj)\<^sup>+" using path [of "edges adj" c] by (simp add: is_cycle_def)
  then show ?thesis by (auto simp: acyclic_def)
qed

lemma detect_complete:
  assumes "dict_wf tasks"
  shows "detect_dependency_cycles tasks deps = [] \<longleftrightarrow> acyclic (edges (build_adjacency tasks deps))"
proof
  have wf: "adj_wf (build_adjacency tasks deps)" by (rule adj_wf_build [OF assms])
  assume "detect_dependency_cycles tasks deps = []"
  then show "acyclic (edges (build_adjacency tasks deps))"
    using find_cycles_total [OF wf] find_cycles_complete [OF wf]
    by (auto simp: detect_dependency_cycles_def)
next
  assume a: "acyclic (edges (build_adjacency tasks deps))"
  show "detect_dependency_cycles tasks deps = []"
  proof (rule ccontr)
    assume "detect_dependency_cycles tasks deps \<noteq> []"
    then obtain c where "c \<in> set (detect_dependency_cycles tasks deps)"
      by (meson last_in_set)
    then show False using detect_sound cycle_not_acyclic a by blast
  qed
qed

end
