(* ===== verification/Governance_Rules.thy ===== *)
theory Governance_Rules
  imports Project_State Task_Model Dependency_Cycles
begin

text \<open>
  The rules of \<open>core/governance_engine.py\<close>: the table of the seventeen legal phase transitions, the
  governance manifest with its digest, the authority context, and the test for untrusted events.
\<close>

subsection \<open>The lifecycle table\<close>

record transition_spec =
  ts_from_phase :: project_phase
  ts_to_phase :: project_phase
  ts_name :: string
  ts_preconditions :: "string list"
  ts_required_gate :: "string option"
  ts_approval_required :: bool
  ts_evidence_required :: bool
  ts_is_rollback :: bool

definition tspec ::
  "project_phase \<Rightarrow> project_phase \<Rightarrow> string \<Rightarrow> string list \<Rightarrow> string option \<Rightarrow> bool \<Rightarrow> bool \<Rightarrow> bool \<Rightarrow>
   (project_phase \<times> project_phase) \<times> transition_spec" where
  "tspec f t n pre gate app ev rb =
     ((f, t), \<lparr>ts_from_phase = f, ts_to_phase = t, ts_name = n, ts_preconditions = pre,
        ts_required_gate = gate, ts_approval_required = app, ts_evidence_required = ev,
        ts_is_rollback = rb\<rparr>)"

definition LEGAL_TRANSITIONS :: "((project_phase \<times> project_phase) \<times> transition_spec) list" where
  "LEGAL_TRANSITIONS =
    [tspec DISCOVERY PLANNING ''advance_to_planning'' [''charter_present'', ''owner_assigned'']
       (Some ''dor_discovery_to_planning'') False True False,
     tspec DISCOVERY CLOSED ''cancel_during_discovery'' [''cancellation_reason_provided'']
       None True True False,
     tspec PLANNING EXECUTION ''start_execution''
       [''dor_passed_or_overridden'', ''raci_accountable_assigned'', ''initial_tasks_registered'']
       (Some ''dor_planning_to_execution'') True True False,
     tspec PLANNING DISCOVERY ''revert_to_discovery'' [''reversion_justification_recorded'']
       None True True True,
     tspec PLANNING CLOSED ''cancel_during_planning'' [''cancellation_reason_provided'']
       None True True False,
     tspec EXECUTION MONITORING ''enter_monitoring'' [] None False False False,
     tspec EXECUTION PLANNING ''replanning_from_execution'' [''replanning_justification_recorded'']
       None True True True,
     tspec EXECUTION CLOSING ''begin_closing'' [''all_tasks_terminal'', ''no_blocking_issues'']
       (Some ''dod_execution_to_closing'') False True False,
     tspec EXECUTION CLOSED ''abort_execution'' [''termination_reason_recorded'']
       None True True False,
     tspec MONITORING EXECUTION ''resume_active_execution'' [] None False False False,
     tspec MONITORING PLANNING ''replanning_from_monitoring'' [''replanning_justification_recorded'']
       None True True True,
     tspec MONITORING CLOSING ''conclude_from_monitoring'' [''all_tasks_terminal'', ''no_blocking_issues'']
       (Some ''dod_execution_to_closing'') False True False,
     tspec MONITORING CLOSED ''terminate_from_monitoring'' [''termination_reason_recorded'']
       None True True False,
     tspec CLOSING EXECUTION ''reject_closing_to_execution'' [''closing_failure_reason_recorded'']
       None False True True,
     tspec CLOSING CLOSED ''finalize_close''
       [''dod_passed_or_overridden'', ''all_tasks_terminal'', ''all_decisions_resolved'',
        ''all_issues_resolved_or_waived'']
       (Some ''dod_final_closing'') True True False,
     tspec CLOSED PLANNING ''reopen_to_planning''
       [''reopen_justification_recorded'', ''accountable_approval''] None True True True,
     tspec CLOSED EXECUTION ''reopen_to_execution''
       [''reopen_justification_recorded'', ''accountable_approval''] None True True True]"

abbreviation legal_spec :: "project_phase \<Rightarrow> project_phase \<Rightarrow> transition_spec option" where
  "legal_spec f t \<equiv> map_of LEGAL_TRANSITIONS (f, t)"

definition AUTHORIZED_OVERRIDE_ROLES :: "string list" where
  "AUTHORIZED_OVERRIDE_ROLES = [''admin'', ''architect'', ''lead'', ''accountable'']"

subsection \<open>The rules manifest\<close>

definition spec_json :: "transition_spec \<Rightarrow> json" where
  "spec_json t = JObj
    [(''name'', JStr (ts_name t)), (''from_phase'', JStr (phase_str (ts_from_phase t))),
     (''to_phase'', JStr (phase_str (ts_to_phase t))),
     (''preconditions'', jstrs (sort (ts_preconditions t))),
     (''required_gate'', jopt (ts_required_gate t)),
     (''approval_required'', JBool (ts_approval_required t)),
     (''evidence_required'', JBool (ts_evidence_required t)),
     (''is_rollback'', JBool (ts_is_rollback t))]"

definition health_rule :: "string \<Rightarrow> string \<Rightarrow> json" where
  "health_rule c s = JObj [(''condition'', JStr c), (''severity'', JStr s)]"

definition build_rules_manifest :: payload where
  "build_rules_manifest =
    [(''schema_version'', JStr ''power.governance-rules.v1''),
     (''rules_version'', JStr GOVERNANCE_RULES_VERSION),
     (''name'', JStr ''POWER Project State Engine Governance Rules v1''),
     (''description'', JStr ''Deterministic declarative governance and quality gate rules for POWER 3.8 PSE Phase 4.''),
     (''fsm'', JObj
       [(''states'', jstrs (map phase_str enum_class.enum)),
        (''transitions_count'', JInt (int (length LEGAL_TRANSITIONS))),
        (''transitions'', JList (map spec_json (sort_key
            (\<lambda>t. (phase_str (ts_from_phase t), phase_str (ts_to_phase t))) (map snd LEGAL_TRANSITIONS))))]),
     (''dor_rules'', JObj
       [(''require_initial_tasks'', JBool True), (''require_no_circular_dependencies'', JBool True),
        (''blocking_issue_severities'', jstrs [''blocker'', ''critical''])]),
     (''dod_rules'', JObj
       [(''require_all_tasks_terminal'', JBool True), (''require_all_decisions_resolved'', JBool True),
        (''require_no_blocking_issues'', JBool True),
        (''require_canonical_completion_evidence'', JBool True),
        (''untrusted_model_statements_strictly_disallowed'', JBool True)]),
     (''override_policy'', JObj
       [(''authorized_roles'', jstrs (sort AUTHORIZED_OVERRIDE_ROLES)), (''require_reason'', JBool True),
        (''require_evidence'', JBool True), (''allow_model_override'', JBool False)]),
     (''health_rules'', JObj
       [(''BLOCKING_ISSUES_PRESENT'',
          health_rule ''open_issues contains severity in [blocker, critical]'' ''CRITICAL''),
        (''HIGH_RISKS_OPEN'',
          health_rule ''open_risks contains impact in [critical, high] with status == identified'' ''HIGH''),
        (''CIRCULAR_DEPENDENCY_DETECTED'',
          health_rule ''directed cycle detected in task or project dependency graph'' ''CRITICAL''),
        (''BLOCKED_TASKS_PRESENT'', health_rule ''count(blocked_tasks) > 0'' ''MEDIUM''),
        (''UNRESOLVED_GOVERNANCE_REQUIREMENTS'', health_rule ''count(required_approvals) > 0'' ''HIGH'')]),
     (''temporal_authority'', JObj
       [(''historical_source'', JStr ''canonical PSE evaluation evidence at or before event sequence''),
        (''current_overlay_source'', JStr ''current TaskStore and DecisionService snapshots''),
        (''future_authority_is_invalid'', JBool True)])]"

text \<open>
  \<open>normalize_rules_manifest\<close>. The lists it sorts hold strings in every manifest of the repository;
  a list of other values is refused here, where Python would try to compare them.
\<close>

definition normalize_transition :: "json \<Rightarrow> pse_error + payload" where
  "normalize_transition j = (case j of
       JObj t \<Rightarrow> (case jget_or t ''preconditions'' (JList []) of
           JList ps \<Rightarrow> bindE (sorted_strs (JList ps)) (\<lambda>q. Inr (AList.update ''preconditions'' (jstrs q) t))
         | _ \<Rightarrow> Inl PyError)
     | _ \<Rightarrow> Inl PyError)"

definition transition_key :: "payload \<Rightarrow> pse_error + string \<times> string" where
  "transition_key t = bindE (rd_str t ''from_phase'') (\<lambda>a. bindE (rd_str t ''to_phase'') (\<lambda>b. Inr (a, b)))"

definition sort_transitions :: "payload list \<Rightarrow> pse_error + payload list" where
  "sort_transitions ts = bindE (mapE transition_key ts)
     (\<lambda>ks. Inr (map snd (sort_key fst (zip ks ts))))"

definition normalize_override :: "payload \<Rightarrow> pse_error + payload" where
  "normalize_override m = (case jget m ''override_policy'' of
       JObj p \<Rightarrow> (case jget p ''authorized_roles'' of
           JList rs \<Rightarrow> bindE (sorted_strs (JList rs)) (\<lambda>q.
             Inr (AList.update ''override_policy'' (JObj (AList.update ''authorized_roles'' (jstrs q) p)) m))
         | _ \<Rightarrow> Inl PyError)
     | _ \<Rightarrow> (case jget m ''override_roles'' of
           JList rs \<Rightarrow> bindE (sorted_strs (JList rs)) (\<lambda>q.
             Inr (AList.update ''override_policy''
                    (JObj [(''authorized_roles'', jstrs q), (''require_reason'', JBool True),
                       (''require_evidence'', JBool True), (''allow_model_override'', JBool False)])
                    (AList.delete ''override_roles'' m)))
         | _ \<Rightarrow> Inl PyError))"

definition normalize_rules_manifest :: "payload \<Rightarrow> pse_error + payload" where
  "normalize_rules_manifest m = (case jget m ''fsm'' of
       JObj f \<Rightarrow> (case jget f ''transitions'' of
           JList ts \<Rightarrow> bindE (mapE normalize_transition ts) (\<lambda>us.
             bindE (py_iter (jget_or f ''states'' (JList []))) (\<lambda>states.
             bindE (sort_transitions us) (\<lambda>vs.
               normalize_override (AList.update ''fsm''
                 (JObj (AList.update ''transitions'' (JList (map JObj vs))
                   (AList.update ''transitions_count'' (JInt (int (length us)))
                     (AList.update ''states'' (JList states) f)))) m))))
         | _ \<Rightarrow> Inl PyError)
     | _ \<Rightarrow> Inl PyError)"

definition compute_rules_digest :: "pyrt \<Rightarrow> payload \<Rightarrow> pse_error + string" where
  "compute_rules_digest rt m = bindE (normalize_rules_manifest m) (\<lambda>n. canonical_digest rt (JObj n))"

text \<open>\<open>RULES_DIGEST\<close>; \<open>rules_digest_defined\<close> below shows that the manifest always has one.\<close>

definition RULES_DIGEST :: "pyrt \<Rightarrow> string" where
  "RULES_DIGEST rt = (case compute_rules_digest rt build_rules_manifest of Inr d \<Rightarrow> d | Inl _ \<Rightarrow> [])"

subsection \<open>Authority and trust\<close>

record authority_context =
  au_attached_evidence :: "string set"
  au_approved_decision_ids :: "string set"
  au_raci :: "string list dict"
  au_accountable_actor :: "string option"
  au_verified_task_receipts :: "string set"
  au_permit_accountable_approval :: bool
  au_historical :: bool
  au_charter_evidence_refs :: "string set"
  au_cardinality_valid :: bool

definition is_untrusted_actor :: "string \<Rightarrow> bool" where
  "is_untrusted_actor a =
     (casefold (strip a) \<in> {''model'', ''llm'', ''ai_agent_unverified'', ''agent:model''})"

definition is_untrusted_event :: "project_event option \<Rightarrow> bool" where
  "is_untrusted_event eo = (case eo of
       None \<Rightarrow> False
     | Some e \<Rightarrow>
         ev_source e \<in> {''model_extraction'', ''agent_inference'', ''untrusted''}
         \<or> is_untrusted_actor (ev_actor e)
         \<or> jget (ev_payload e) ''verification_status''
             \<in> {JStr ''proposed'', JStr ''unverified'', JStr ''quarantined''}
         \<or> jget (ev_payload e) ''source_type'' = JStr ''agent_inference'')"

subsection \<open>Facts\<close>

lemma legal_spec_Some:
  "legal_spec f t = Some spec \<Longrightarrow> ts_from_phase spec = f \<and> ts_to_phase spec = t"
  by (auto simp: LEGAL_TRANSITIONS_def tspec_def split: if_splits)

lemma LEGAL_TRANSITIONS_distinct: "distinct (map fst LEGAL_TRANSITIONS)"
  by (simp add: LEGAL_TRANSITIONS_def tspec_def)

lemma legal_closed_final: "legal_spec CLOSED t = Some spec \<Longrightarrow> t \<in> {PLANNING, EXECUTION}"
  by (auto simp: LEGAL_TRANSITIONS_def tspec_def split: if_splits)

text \<open>The phases as a relation, and how a project can move through them.\<close>

inductive phase_step :: "project_phase \<Rightarrow> project_phase \<Rightarrow> bool" where
  legal: "legal_spec p q \<noteq> None \<Longrightarrow> phase_step p q"

inductive_simps phase_step_iff: "phase_step p q"

lemma phase_step_neq: "phase_step p q \<Longrightarrow> p \<noteq> q"
  by (auto simp: phase_step_iff LEGAL_TRANSITIONS_def tspec_def split: if_splits)

lemma phase_step_into_closing: "phase_step p CLOSING \<Longrightarrow> p \<in> {EXECUTION, MONITORING}"
  by (auto simp: phase_step_iff LEGAL_TRANSITIONS_def tspec_def split: if_splits)

lemma phase_step_into_execution:
  "phase_step p EXECUTION \<Longrightarrow> p \<in> {PLANNING, MONITORING, CLOSING, CLOSED}"
  by (auto simp: phase_step_iff LEGAL_TRANSITIONS_def tspec_def split: if_splits)

lemma normalize_build_rules_manifest:
  "normalize_rules_manifest build_rules_manifest = Inr build_rules_manifest"
  by code_simp

lemma check_floats_build_rules_manifest: "check_floats (JObj build_rules_manifest)"
  by code_simp

lemma rules_digest_defined:
  "compute_rules_digest rt build_rules_manifest = Inr (RULES_DIGEST rt)"
  by (simp add: RULES_DIGEST_def compute_rules_digest_def normalize_build_rules_manifest
      canonical_digest_floatless [OF check_floats_build_rules_manifest])

lemma rules_digest_eq: "RULES_DIGEST rt = digest_of rt (JObj build_rules_manifest)"
  by (simp add: RULES_DIGEST_def compute_rules_digest_def normalize_build_rules_manifest
      canonical_digest_floatless [OF check_floats_build_rules_manifest])

end
