(* ===== verification/Governance_Engine.thy ===== *)
theory Governance_Engine
  imports Governance_Rules
begin

text \<open>
  The policy engine of \<open>core/governance_engine.py\<close>: the quality gates (Definition of Ready and
  Definition of Done), the preconditions, the approval rule, the evaluation of a phase transition
  and of a gate override, task readiness and the health flags.

  The argument \<open>au\<close> is the authority context, \<open>None\<close> for the non-authoritative replay. Of
  \<open>GovernanceEvaluation\<close> the model keeps the fields the engine writes; the other two lists of the
  class are empty in every result.
\<close>

subsection \<open>Quality gates\<close>

definition blocking_issue :: "project_state \<Rightarrow> string \<Rightarrow> bool" where
  "blocking_issue s iid = (case map_of (st_issues s) iid of
       None \<Rightarrow> False | Some i \<Rightarrow> is_severity i \<in> {''blocker'', ''critical''})"

definition evaluate_dor :: "project_state \<Rightarrow> project_phase \<Rightarrow> dor_eval" where
  "evaluate_dor s target =
     (if ''dor_planning_to_execution'' \<in> set (st_overridden_gates s)
      then \<lparr>dor_passed = True, dor_reason_codes = [''DOR_OVERRIDDEN''], dor_missing_evidence = [],
             dor_missing_approvals = [], dor_blocking_dependencies = [], dor_failed_preconditions = []\<rparr>
      else
        let no_tasks = (target = EXECUTION \<and> st_tasks s = []);
            cyclic = (detect_dependency_cycles (st_tasks s) [] \<noteq> []);
            blockers = filter (blocking_issue s) (sort (st_open_issues s));
            failed = (if no_tasks then [''INITIAL_TASKS_NOT_REGISTERED''] else [])
              @ (if cyclic then [''CIRCULAR_DEPENDENCY_DETECTED''] else []);
            codes = (if no_tasks then [''BLOCKED_DOR_NO_TASKS''] else [])
              @ (if cyclic then [''BLOCKED_DOR_CYCLE''] else [])
              @ map (\<lambda>_. ''BLOCKED_DOR_HIGH_SEVERITY_ISSUE'') blockers
        in \<lparr>dor_passed = (failed = [] \<and> codes = []), dor_reason_codes = sorted_set codes,
            dor_missing_evidence = [], dor_missing_approvals = [],
            dor_blocking_dependencies = sorted_set (map (\<lambda>i. ''issue:'' @ i) blockers),
            dor_failed_preconditions = sorted_set failed\<rparr>)"

text \<open>The evidence test of \<open>evaluate_dod\<close>.\<close>

definition dod_evidence_present ::
  "project_state \<Rightarrow> project_event option \<Rightarrow> authority_context option \<Rightarrow> bool" where
  "dod_evidence_present s eo au = (case au of
       Some a \<Rightarrow>
         (let refs = (case eo of None \<Rightarrow> []
            | Some e \<Rightarrow> ev_evidence_refs e @
                (case jget (ev_payload e) ''evidence_refs'' of
                   JList xs \<Rightarrow> map jstr (filter is_jstr xs) | _ \<Rightarrow> []))
          in refs \<noteq> [] \<and> (\<forall>r \<in> set refs. r \<in> au_attached_evidence a)
             \<or> (\<exists>(tid, t) \<in> set (st_tasks s). \<exists>rid \<in> set (tv_receipt_ids t).
                  rid \<in> au_verified_task_receipts a))
     | None \<Rightarrow>
         (case eo of None \<Rightarrow> False
          | Some e \<Rightarrow> ev_evidence_refs e \<noteq> [] \<or> truthy (jget (ev_payload e) ''evidence_refs''))
         \<or> (\<exists>(tid, t) \<in> set (st_tasks s). tv_receipt_ids t \<noteq> []))"

definition evaluate_dod ::
  "project_state \<Rightarrow> project_phase \<Rightarrow> project_event option \<Rightarrow> authority_context option \<Rightarrow> dod_eval" where
  "evaluate_dod s target eo au =
     (if ''dod_execution_to_closing'' \<in> set (st_overridden_gates s)
         \<or> ''dod_final_closing'' \<in> set (st_overridden_gates s)
      then \<lparr>dod_passed = True, dod_reason_codes = [''DOD_OVERRIDDEN''], dod_missing_evidence = [],
             dod_missing_approvals = [], dod_failed_conditions = []\<rparr>
      else
        let untrusted = is_untrusted_event eo;
            non_terminal = map fst (filter (\<lambda>(tid, t). \<not> terminal_str (tv_state t)) (sort_dict (st_tasks s)));
            blocking = filter (blocking_issue s) (sort (st_open_issues s));
            pending = map fst (filter (\<lambda>(did, d). dv_status d = ''pending'') (sort_dict (st_decisions s)));
            invalid = map fst (filter (\<lambda>(did, d). dv_status d \<notin> set RESOLVED_DECISION_STATUSES
                \<and> dv_status d \<noteq> ''pending'') (sort_dict (st_decisions s)));
            no_evidence = (\<not> dod_evidence_present s eo au \<and> \<not> untrusted);
            evidence = (if untrusted then [''CANONICAL_COMPLETION_EVIDENCE_REQUIRED''] else [])
              @ (if no_evidence then [''COMPLETION_EVIDENCE_REQUIRED''] else []);
            approvals = map (\<lambda>d. ''PENDING_DECISION:'' @ d) pending;
            failed = map (\<lambda>t. ''TASK_NOT_TERMINAL:'' @ t) non_terminal
              @ map (\<lambda>i. ''UNRESOLVED_ISSUE:'' @ i) blocking
              @ map (\<lambda>d. ''UNKNOWN_DECISION_STATUS:'' @ d) invalid;
            codes = (if untrusted then [''UNTRUSTED_MODEL_DOD_CLAIM_REJECTED''] else [])
              @ (if non_terminal \<noteq> [] then [''DOD_ACTIVE_TASKS_REMAIN''] else [])
              @ (if blocking \<noteq> [] then [''DOD_UNRESOLVED_BLOCKING_ISSUES''] else [])
              @ (if pending \<noteq> [] then [''DOD_PENDING_DECISIONS_REMAIN''] else [])
              @ (if invalid \<noteq> [] then [''DOD_UNRESOLVED_DECISION_STATUS''] else [])
              @ (if no_evidence then [''DOD_MISSING_EVIDENCE''] else [])
        in \<lparr>dod_passed = (failed = [] \<and> evidence = [] \<and> approvals = []),
            dod_reason_codes = sorted_set codes, dod_missing_evidence = sorted_set evidence,
            dod_missing_approvals = sorted_set approvals, dod_failed_conditions = sorted_set failed\<rparr>)"

subsection \<open>Approvals and preconditions\<close>

definition transition_reason :: "payload \<Rightarrow> json" where
  "transition_reason p =
     py_or (jget p ''reason'') (py_or (jget p ''justification'') (py_or (jget p ''reopen_justification'')
       (py_or (jget p ''replanning_justification'') (jget p ''closing_failure_reason''))))"

text \<open>\<open>payload.get("accountable_approval") or payload.get("approved_by")\<close>, compared with the actor.\<close>

definition claims_accountable :: "payload \<Rightarrow> authority_context \<Rightarrow> bool" where
  "claims_accountable p a =
     (case py_or (jget p ''accountable_approval'') (jget p ''approved_by'') of
        JStr c \<Rightarrow> (case au_accountable_actor a of None \<Rightarrow> False | Some x \<Rightarrow> strip c = x)
      | _ \<Rightarrow> False)"

definition approval_claims :: "payload \<Rightarrow> string list" where
  "approval_claims p =
     (if nonblank (jget p ''approval_ref'') then [strip (jstr (jget p ''approval_ref''))] else [])
     @ (case jget p ''approval_refs'' of JList xs \<Rightarrow> map jstr (filter nonblank xs) | _ \<Rightarrow> [])"

definition resolve_canonical_approval ::
  "payload \<Rightarrow> project_state \<Rightarrow> authority_context \<Rightarrow> transition_spec \<Rightarrow> bool" where
  "resolve_canonical_approval p s a spec =
     (let refs = approval_claims p;
          live = map fst (filter (\<lambda>(did, d). dv_status d = ''approved'') (st_decisions s))
      in if \<exists>r \<in> set refs. r \<in> au_approved_decision_ids a then True
         else if \<exists>r \<in> set refs. r \<in> set live \<and> r \<in> au_approved_decision_ids a then True
         else if ''accountable_approval'' \<in> set (ts_preconditions spec) \<or> ts_approval_required spec
              then claims_accountable p a \<and> ''accountable_approval'' \<in> set (ts_preconditions spec)
              else False)"

definition has_reason_text :: "payload \<Rightarrow> bool" where
  "has_reason_text p = list_ex (\<lambda>k. nonblank (jget p k))
     [''reason'', ''justification'', ''reopen_justification'', ''replanning_justification'',
      ''closing_failure_reason'', ''cancellation_reason'', ''termination_reason'',
      ''reversion_justification'']"

definition reason_preconditions :: "string list" where
  "reason_preconditions =
    [''cancellation_reason_provided'', ''termination_reason_recorded'',
     ''reversion_justification_recorded'', ''replanning_justification_recorded'',
     ''reopen_justification_recorded'', ''closing_failure_reason_recorded'']"

definition all_tasks_terminal :: "project_state \<Rightarrow> bool" where
  "all_tasks_terminal s = ((\<forall>(tid, t) \<in> set (st_tasks s). terminal_str (tv_state t)) \<and> st_tasks s \<noteq> [])"

definition evaluate_precondition ::
  "string \<Rightarrow> project_state \<Rightarrow> project_event \<Rightarrow> authority_context \<Rightarrow> bool" where
  "evaluate_precondition c s e a =
     (if c = ''charter_present'' then
        (if au_historical a
         then au_charter_evidence_refs a \<noteq> {} \<and> au_charter_evidence_refs a \<subseteq> au_attached_evidence a
         else \<exists>r \<in> au_attached_evidence a. contains ''charter'' (lower r))
      else if c = ''owner_assigned'' then
        (if au_historical a
         then (case st_owner s of None \<Rightarrow> False | Some x \<Rightarrow> strip x \<noteq> [])
         else au_accountable_actor a \<noteq> None
              \<or> (\<exists>(role, actors) \<in> set (au_raci a). casefold (strip role) = ''owner'' \<and> actors \<noteq> []))
      else if c \<in> set reason_preconditions then has_reason_text (ev_payload e)
      else if c = ''dor_passed_or_overridden'' then
        (if ''dor_planning_to_execution'' \<in> set (st_overridden_gates s) then True
         else dor_passed (evaluate_dor s EXECUTION))
      else if c = ''raci_accountable_assigned'' then
        au_cardinality_valid a \<and> au_accountable_actor a \<noteq> None
      else if c = ''initial_tasks_registered'' then st_tasks s \<noteq> []
      else if c = ''all_tasks_terminal'' then all_tasks_terminal s
      else if c = ''no_blocking_issues'' then \<not> list_ex (blocking_issue s) (st_open_issues s)
      else if c = ''dod_passed_or_overridden'' then
        (if ''dod_execution_to_closing'' \<in> set (st_overridden_gates s)
            \<or> ''dod_final_closing'' \<in> set (st_overridden_gates s) then True
         else dod_passed (evaluate_dod s CLOSED (Some e) (Some a)))
      else if c = ''all_decisions_resolved'' then
        (\<forall>(did, d) \<in> set (st_decisions s). dv_status d \<in> set RESOLVED_DECISION_STATUSES)
      else if c = ''all_issues_resolved_or_waived'' then st_open_issues s = []
      else if c = ''accountable_approval'' then claims_accountable (ev_payload e) a
      else False)"

subsection \<open>Transitions\<close>

definition verdict ::
  "string \<Rightarrow> project_event \<Rightarrow> governance_decision \<Rightarrow> string list \<Rightarrow> string list \<Rightarrow> gov_eval" where
  "verdict pv e d codes refs =
     \<lparr>ge_decision = d, ge_reason_codes = codes, ge_policy_version = pv,
      ge_relevant_event_ids = [ev_event_id e], ge_required_evidence_refs = refs\<rparr>"

text \<open>
  The references of an event that are not canonically attached. The list ends in a field of
  strings, so that any other element raises.
\<close>

definition unresolved_refs :: "json \<Rightarrow> authority_context \<Rightarrow> pse_error + string list" where
  "unresolved_refs j a = bindE (str_elements j) (\<lambda>rs. Inr (filter (\<lambda>r. r \<notin> au_attached_evidence a) rs))"

definition transition_evidence :: "project_event \<Rightarrow> json" where
  "transition_evidence e =
     py_or (jstrs (ev_evidence_refs e)) (py_or (jget (ev_payload e) ''evidence_refs'')
       (JList (if has_key ''evidence_ref'' (ev_payload e) then [jget (ev_payload e) ''evidence_ref''] else [])))"

definition check_evidence ::
  "string \<Rightarrow> project_event \<Rightarrow> transition_spec \<Rightarrow> authority_context option \<Rightarrow>
   pse_error + gov_eval option" where
  "check_evidence pv e spec au =
     (if \<not> ts_evidence_required spec then Inr None
      else if \<not> truthy (transition_evidence e)
      then Inr (Some (verdict pv e REQUIRE_EVIDENCE [''MISSING_REQUIRED_EVIDENCE''] []))
      else case au of None \<Rightarrow> Inr None
        | Some a \<Rightarrow> bindE (unresolved_refs (transition_evidence e) a) (\<lambda>us.
            Inr (if us = [] then None
                 else Some (verdict pv e REQUIRE_EVIDENCE [''EVIDENCE_REF_NOT_CANONICALLY_ATTACHED'']
                              (sorted_set us)))))"

definition has_approval ::
  "project_state \<Rightarrow> project_event \<Rightarrow> transition_spec \<Rightarrow> authority_context option \<Rightarrow> bool" where
  "has_approval s e spec au = (case au of
       Some a \<Rightarrow> resolve_canonical_approval (ev_payload e) s a spec
     | None \<Rightarrow> list_ex (\<lambda>k. truthy (jget (ev_payload e) k))
                 [''approval_ref'', ''approval_refs'', ''approved_by'', ''accountable_approval'']
               \<or> (\<exists>(did, d) \<in> set (st_decisions s). dv_status d = ''approved''))"

definition check_approval ::
  "string \<Rightarrow> project_state \<Rightarrow> project_event \<Rightarrow> transition_spec \<Rightarrow> authority_context option \<Rightarrow> gov_eval option" where
  "check_approval pv s e spec au =
     (if ts_approval_required spec \<and> \<not> has_approval s e spec au
      then Some (verdict pv e REQUIRE_APPROVAL [''MISSING_REQUIRED_APPROVAL''] []) else None)"

definition check_preconditions ::
  "string \<Rightarrow> project_state \<Rightarrow> project_event \<Rightarrow> transition_spec \<Rightarrow> authority_context option \<Rightarrow> gov_eval option" where
  "check_preconditions pv s e spec au = (case au of
       None \<Rightarrow> None
     | Some a \<Rightarrow> map_option (\<lambda>c. verdict pv e DENY [''PRECONDITION_FAILED:'' @ c] [])
                 (List.find (\<lambda>c. \<not> evaluate_precondition c s e a) (ts_preconditions spec)))"

text \<open>\<open>Inl\<close> the denial, \<open>Inr\<close> the reason codes collected so far.\<close>

definition check_gate ::
  "string \<Rightarrow> project_state \<Rightarrow> project_phase \<Rightarrow> project_event \<Rightarrow> transition_spec \<Rightarrow>
   authority_context option \<Rightarrow> gov_eval + string list" where
  "check_gate pv s tp e spec au = (case ts_required_gate spec of
       None \<Rightarrow> Inr []
     | Some g \<Rightarrow>
         if g = [] then Inr []
         else if g \<in> set (st_overridden_gates s) then Inr [''GATE_OVERRIDDEN:'' @ g]
         else if contains ''dor'' g then
           (let d = evaluate_dor s tp in
            if dor_passed d then Inr []
            else Inl (verdict pv e DENY (sort (if dor_reason_codes d = [] then [''DOR_QUALITY_GATE_FAILED'']
                                              else dor_reason_codes d)) []))
         else if contains ''dod'' g then
           (let d = evaluate_dod s tp (Some e) au in
            if dod_passed d then Inr []
            else Inl (verdict pv e DENY (sort (if dod_reason_codes d = [] then [''DOD_QUALITY_GATE_FAILED'']
                                              else dod_reason_codes d)) []))
         else Inr [])"

definition evaluate_transition ::
  "string \<Rightarrow> project_state \<Rightarrow> project_phase \<Rightarrow> project_event \<Rightarrow> authority_context option \<Rightarrow>
   pse_error + gov_eval" where
  "evaluate_transition pv s tp e au =
     (let deny = (\<lambda>c. Inr (verdict pv e DENY [c] [])); r = transition_reason (ev_payload e) in
      if is_untrusted_event (Some e) then deny ''UNTRUSTED_MODEL_TRANSITION_PROHIBITED''
      else if st_current_phase s = CLOSED \<and> ev_event_type e \<noteq> ''project.reopened''
      then deny ''CLOSED_PROJECT_REQUIRES_EXPLICIT_REOPEN''
      else case legal_spec (st_current_phase s) tp of
        None \<Rightarrow> deny ''ILLEGAL_LIFECYCLE_TRANSITION''
      | Some spec \<Rightarrow>
          if (case au of None \<Rightarrow> False | Some a \<Rightarrow> \<not> au_cardinality_valid a)
          then deny ''RACI_ACCOUNTABLE_CARDINALITY_VIOLATION''
          else if ts_is_rollback spec \<and> (\<not> truthy r \<or> \<not> str_nonblank r)
          then deny ''MISSING_TRANSITION_REASON''
          else bindE (check_evidence pv e spec au) (\<lambda>v1. case v1 of
              Some v \<Rightarrow> Inr v
            | None \<Rightarrow> (case check_approval pv s e spec au of
                Some v \<Rightarrow> Inr v
              | None \<Rightarrow> (case check_preconditions pv s e spec au of
                  Some v \<Rightarrow> Inr v
                | None \<Rightarrow> (case check_gate pv s tp e spec au of
                    Inl v \<Rightarrow> Inr v
                  | Inr codes \<Rightarrow> Inr (verdict pv e ALLOW (sort (codes @ [''TRANSITION_ALLOWED''])) []))))))"

subsection \<open>Gate overrides\<close>

definition authorized_actors :: "authority_context \<Rightarrow> string list" where
  "authorized_actors a =
     concat (map snd (filter (\<lambda>(role, actors). casefold (strip role) \<in> set AUTHORIZED_OVERRIDE_ROLES)
       (au_raci a)))"

definition override_reason :: "payload \<Rightarrow> json" where
  "override_reason p = py_or (jget_or p ''reason'' (JStr [])) (jget_or p ''justification'' (JStr []))"

text \<open>The historical checks of the authoritative branch; \<open>None\<close> when they pass.\<close>

definition override_history ::
  "string \<Rightarrow> project_event \<Rightarrow> authority_context \<Rightarrow> pse_error + gov_eval option" where
  "override_history pv e a =
     (if \<not> au_historical a then Inr None
      else if \<not> au_cardinality_valid a
      then Inr (Some (verdict pv e DENY [''RACI_ACCOUNTABLE_CARDINALITY_VIOLATION''] []))
      else if au_accountable_actor a = None
      then Inr (Some (verdict pv e DENY [''RACI_ACCOUNTABLE_REQUIRED_FOR_OVERRIDE''] []))
      else case py_or (jstrs (ev_evidence_refs e)) (py_or (jget (ev_payload e) ''evidence_refs'') (JList [])) of
        JList xs \<Rightarrow>
          if xs = [] then Inr (Some (verdict pv e REQUIRE_EVIDENCE [''MISSING_OVERRIDE_EVIDENCE''] []))
          else bindE (unresolved_refs (JList xs) a) (\<lambda>us.
            Inr (if us = [] then None
                 else Some (verdict pv e REQUIRE_EVIDENCE [''OVERRIDE_EVIDENCE_NOT_CANONICAL''] (sorted_set us))))
      | _ \<Rightarrow> Inr (Some (verdict pv e REQUIRE_EVIDENCE [''MISSING_OVERRIDE_EVIDENCE''] [])))"

definition override_authority ::
  "string \<Rightarrow> project_event \<Rightarrow> authority_context \<Rightarrow> gov_eval" where
  "override_authority pv e a =
     (let p = ev_payload e;
          by = py_or (jget p ''overridden_by'') (JStr (ev_actor e));
          ap = jget p ''approved_by'';
          r = override_reason p;
          deny = (\<lambda>c. verdict pv e DENY [c] [])
      in if \<not> nonblank by then deny ''MISSING_OVERRIDE_ACTOR''
         else if \<not> truthy r \<or> \<not> str_nonblank r then deny ''MISSING_OVERRIDE_REASON''
         else if \<not> nonblank ap then deny ''MISSING_OVERRIDE_APPROVAL''
         else if strip (jstr by) \<notin> set (authorized_actors a) then deny ''UNAUTHORIZED_OVERRIDE_ACTOR''
         else if strip (jstr ap) = (case au_accountable_actor a of None \<Rightarrow> [] | Some x \<Rightarrow> x)
              \<or> strip (jstr ap) \<in> au_approved_decision_ids a
         then verdict pv e ALLOW [''GATE_OVERRIDE_AUTHORIZED''] []
         else deny ''OVERRIDE_APPROVAL_NOT_CANONICAL'')"

definition evaluate_gate_override ::
  "string \<Rightarrow> project_event \<Rightarrow> authority_context option \<Rightarrow> pse_error + gov_eval" where
  "evaluate_gate_override pv e au =
     (let p = ev_payload e; deny = (\<lambda>c. Inr (verdict pv e DENY [c] []));
          role = jget_or p ''role'' (JStr []); r = override_reason p
      in if is_untrusted_event (Some e) then deny ''UNTRUSTED_MODEL_OVERRIDE_PROHIBITED''
         else if \<not> truthy (py_or (jget p ''gate'') (jget p ''gate_name'')) then deny ''MISSING_OVERRIDE_GATE_NAME''
         else case au of
           Some a \<Rightarrow> bindE (override_history pv e a) (\<lambda>v. case v of
               Some w \<Rightarrow> Inr w | None \<Rightarrow> Inr (override_authority pv e a))
         | None \<Rightarrow>
             (case role of JList _ \<Rightarrow> Inl PyError | JObj _ \<Rightarrow> Inl PyError
              | _ \<Rightarrow>
                if role \<notin> JStr ` set AUTHORIZED_OVERRIDE_ROLES \<and> ev_actor e \<notin> set AUTHORIZED_OVERRIDE_ROLES
                then deny ''UNAUTHORIZED_OVERRIDE_ACTOR''
                else if \<not> truthy r \<or> \<not> str_nonblank r then deny ''MISSING_OVERRIDE_REASON''
                else Inr (verdict pv e ALLOW [''GATE_OVERRIDE_AUTHORIZED''] [])))"

subsection \<open>Task readiness and health\<close>

definition blocking_dependencies :: "task_view \<Rightarrow> project_state \<Rightarrow> string list" where
  "blocking_dependencies t s =
     filter (\<lambda>d. case map_of (st_tasks s) d of None \<Rightarrow> False | Some u \<Rightarrow> \<not> terminal_str (tv_state u))
       (sort (tv_dependencies t))
     @ map dp_target_id (filter (\<lambda>d.
          dp_source_id d = tv_task_id t \<and> dp_dependency_kind d \<in> {''blocked_by'', ''requires''}
          \<and> dp_status d \<noteq> ''satisfied''
          \<and> (case map_of (st_tasks s) (dp_target_id d) of None \<Rightarrow> True
             | Some u \<Rightarrow> \<not> terminal_str (tv_state u))) (map snd (st_dependencies s)))"

definition readiness ::
  "string \<Rightarrow> readiness_status \<Rightarrow> string \<Rightarrow> string list \<Rightarrow> string list \<Rightarrow> string list \<Rightarrow> readiness_eval" where
  "readiness tid st code deps apps path =
     \<lparr>re_task_id = tid, re_status = st, re_reason_codes = [code], re_blocking_dependencies = deps,
      re_missing_evidence = [], re_missing_approvals = apps, re_cycle_path = path\<rparr>"

definition evaluate_task_readiness ::
  "task_view \<Rightarrow> project_state \<Rightarrow> string list \<Rightarrow> readiness_eval" where
  "evaluate_task_readiness t s cycle_tasks =
     (let tid = tv_task_id t; deps = blocking_dependencies t s in
      if terminal_str (tv_state t) then readiness tid RS_TERMINAL ''TASK_TERMINAL'' [] [] []
      else if tid \<in> set cycle_tasks
      then readiness tid RS_CIRCULAR_DEPENDENCY ''CIRCULAR_DEPENDENCY'' [] [] (sorted_set cycle_tasks)
      else if tv_state t \<in> {''working'', ''input-required'', ''auth-required''}
      then readiness tid RS_IN_PROGRESS
             (''TASK_STATE_'' @ map (\<lambda>c. if c = CHR ''-'' then CHR ''_'' else c) (upper (tv_state t))) [] [] []
      else if deps \<noteq> []
      then readiness tid RS_BLOCKED_DEPENDENCY ''BLOCKED_BY_DEPENDENCY'' (sorted_set deps) [] []
      else if tv_open_gates t \<noteq> []
      then readiness tid RS_REQUIRES_APPROVAL ''OPEN_GATES_REMAIN'' [] (sort (tv_open_gates t)) []
      else readiness tid RS_READY ''READY'' [] [] [])"

definition high_risk :: "project_state \<Rightarrow> string \<Rightarrow> bool" where
  "high_risk s rid = (case map_of (st_risks s) rid of None \<Rightarrow> False
     | Some r \<Rightarrow> rk_impact r \<in> {''critical'', ''high''} \<and> rk_status r = ''identified'')"

definition evaluate_health_flags :: "project_state \<Rightarrow> string list list \<Rightarrow> string list" where
  "evaluate_health_flags s cycles = sorted_set
     ((if list_ex (blocking_issue s) (st_open_issues s) then [''BLOCKING_ISSUES_PRESENT''] else [])
      @ (if list_ex (high_risk s) (st_open_risks s) then [''HIGH_RISKS_OPEN''] else [])
      @ (if cycles \<noteq> [] then [''CIRCULAR_DEPENDENCY_DETECTED''] else [])
      @ (if st_blocked_tasks s \<noteq> [] then [''BLOCKED_TASKS_PRESENT''] else [])
      @ (if st_required_approvals s \<noteq> [] then [''UNRESOLVED_GOVERNANCE_REQUIREMENTS''] else []))"

end
