(* ===== verification/Interfaces.thy ===== *)
theory Interfaces
  imports Prelude
begin

text \<open>
  The contracts between the components, as locales. Each is interpreted on the model's own
  definitions in the theory of the component that provides it.

  \<^item> \<open>event_sourced\<close>: a state built from a hash-chained stream of events, one step per event.
  \<^item> \<open>raid_register\<close>: a dictionary of entities with the list of those that are open.
\<close>

subsection \<open>Hash-chained event streams\<close>

locale event_sourced =
  fixes step :: "'e \<Rightarrow> 's \<Rightarrow> 'x + 's"
    and seq_of :: "'e \<Rightarrow> int"
    and prev_of :: "'e \<Rightarrow> string"
    and hash_of :: "'e \<Rightarrow> string"
    and id_of :: "'e \<Rightarrow> string"
    and last_seq :: "'s \<Rightarrow> int"
    and head_hash :: "'s \<Rightarrow> string"
    and applied :: "'s \<Rightarrow> string list"
  assumes step_records: "step e s = Inr t \<Longrightarrow>
      last_seq t = seq_of e \<and> head_hash t = hash_of e \<and> applied t = applied s @ [id_of e]"
    and step_links: "step e s = Inr t \<Longrightarrow> 0 < last_seq s \<Longrightarrow>
      seq_of e = last_seq s + 1 \<and> prev_of e = head_hash s"
    and step_starts: "step e s = Inr t \<Longrightarrow> \<not> 0 < last_seq s \<Longrightarrow> seq_of e = 1"
begin

lemma run_applied: "foldE step es s = Inr t \<Longrightarrow> applied t = applied s @ map id_of es"
proof (induction es arbitrary: s)
  case (Cons e es)
  then obtain u where "step e s = Inr u" "foldE step es u = Inr t" by (auto simp: bindE_eq_Inr)
  then show ?case using Cons.IH [of u] step_records [of e s u] by simp
qed simp

lemma run_snocE:
  assumes "foldE step (es @ [e]) s = Inr t"
  obtains u where "foldE step es s = Inr u" "step e u = Inr t"
proof -
  have "bindE (foldE step es s) (foldE step [e]) = Inr t" using assms by (simp add: foldE_append)
  then obtain u where "foldE step es s = Inr u" "foldE step [e] u = Inr t"
    unfolding bindE_eq_Inr by blast
  then show thesis using that by (auto simp: bindE_eq_Inr)
qed

text \<open>The stream that was accepted is numbered without a gap, and each event names its predecessor.\<close>

lemma run_position: "foldE step es s = Inr t \<Longrightarrow> 0 \<le> last_seq s \<Longrightarrow> last_seq t = last_seq s + int (length es)"
proof (induction es arbitrary: t rule: rev_induct)
  case (snoc e es)
  then obtain u where u: "foldE step es s = Inr u" "step e u = Inr t" by (elim run_snocE)
  have "last_seq u = last_seq s + int (length es)" using snoc u by simp
  moreover have "last_seq t = last_seq u + 1" if "0 \<le> last_seq u"
    using step_records [OF u(2)] step_links [OF u(2)] step_starts [OF u(2)] that
    by (cases "last_seq u = 0") auto
  ultimately show ?case using snoc.prems by simp
qed simp

lemma run_sequence:
  assumes "foldE step es s = Inr t" "0 \<le> last_seq s" "i < length es"
  shows "seq_of (es ! i) = last_seq s + 1 + int i"
proof -
  have "foldE step (take (Suc i) es @ drop (Suc i) es) s = Inr t" using assms(1) by simp
  then obtain u where "foldE step (take (Suc i) es) s = Inr u"
    unfolding foldE_append bindE_eq_Inr by blast
  then have run: "foldE step (take i es @ [es ! i]) s = Inr u"
    using assms(3) by (simp add: take_Suc_conv_app_nth)
  then obtain v where "foldE step (take i es) s = Inr v" "step (es ! i) v = Inr u" by (elim run_snocE)
  then show ?thesis
    using run_position [OF run assms(2)] assms(3) step_records [of "es ! i" v u] by simp
qed

lemma run_head:
  assumes "foldE step (es @ [e]) s = Inr t"
  shows "last_seq t = seq_of e" "head_hash t = hash_of e"
  using assms step_records by (auto elim!: run_snocE)

lemma run_chain:
  assumes "foldE step es s = Inr t" "0 \<le> last_seq s" "Suc i < length es"
  shows "prev_of (es ! Suc i) = hash_of (es ! i)"
proof -
  have "foldE step (take (Suc (Suc i)) es @ drop (Suc (Suc i)) es) s = Inr t" using assms(1) by simp
  then obtain u where "foldE step (take (Suc (Suc i)) es) s = Inr u"
    unfolding foldE_append bindE_eq_Inr by blast
  then have "foldE step ((take i es @ [es ! i]) @ [es ! Suc i]) s = Inr u"
    using assms(3) by (simp add: take_Suc_conv_app_nth)
  then obtain v where v: "foldE step (take i es @ [es ! i]) s = Inr v" "step (es ! Suc i) v = Inr u"
    by (rule run_snocE)
  have "0 < last_seq v" using run_position [OF v(1) assms(2)] assms(2) by simp
  then show ?thesis using step_links [OF v(2)] run_head [OF v(1)] by simp
qed

text \<open>
  Where hashes do not collide, the head of a stream determines the whole stream: a replay that
  ends at the same head and the same position has replayed the same events, up to what the hash
  leaves open. \<open>f\<close> is the part of an event that its hash determines; the link to the predecessor
  belongs to it.
\<close>

lemma head_determines_stream:
  assumes "foldE step es s = Inr t" "foldE step es' s' = Inr t'"
    and "0 \<le> last_seq s" "0 \<le> last_seq s'"
    and "length es = length es'" "head_hash t = head_hash t'"
    and link: "\<And>e e'. f e = f e' \<Longrightarrow> prev_of e = prev_of e'"
    and "\<And>e e'. e \<in> set es \<Longrightarrow> e' \<in> set es' \<Longrightarrow> hash_of e = hash_of e' \<Longrightarrow> f e = f e'"
  shows "map f es = map f es'"
  using assms(1-6,8)
proof (induction es arbitrary: es' t t' rule: rev_induct)
  case (snoc e es)
  then obtain e' fs where es': "es' = fs @ [e']" by (metis append_is_Nil_conv list.size(3) length_0_conv not_Cons_self rev_exhaust)
  obtain u where u: "foldE step es s = Inr u" "step e u = Inr t" using snoc.prems(1) by (elim run_snocE)
  obtain u' where u': "foldE step fs s' = Inr u'" "step e' u' = Inr t'"
    using snoc.prems(2) unfolding es' by (elim run_snocE)
  have ee: "f e = f e'" using snoc.prems(6,7) step_records [OF u(2)] step_records [OF u'(2)] es' by simp
  have len: "length es = length fs" using snoc.prems(5) es' by simp
  have "map f es = map f fs"
  proof (cases "es = []")
    case False
    then have "0 < last_seq u" "0 < last_seq u'"
      using run_position [OF u(1) snoc.prems(3)] run_position [OF u'(1) snoc.prems(4)] len snoc.prems(3,4)
      by (cases es; cases fs; simp)+
    then have "head_hash u = head_hash u'"
      using step_links [OF u(2)] step_links [OF u'(2)] link [OF ee] by simp
    then show ?thesis
      using snoc.IH [OF u(1) u'(1) snoc.prems(3,4) len] snoc.prems(7) es' by simp
  qed (use len in simp)
  then show ?case using ee es' by simp
qed simp

end

subsection \<open>Registers of open entities\<close>

text \<open>\<open>if x not in xs: xs.append(x)\<close>; \<open>if x in xs: xs.remove(x)\<close> is \<open>remove1\<close>.\<close>

definition list_add :: "'a \<Rightarrow> 'a list \<Rightarrow> 'a list" where
  "list_add x xs = (if x \<in> set xs then xs else xs @ [x])"

lemma set_list_add [simp]: "set (list_add x xs) = insert x (set xs)"
  by (auto simp: list_add_def)

lemma distinct_list_add [simp]: "distinct (list_add x xs) = distinct xs"
  by (auto simp: list_add_def)

text \<open>
  The ways an event may move a register: it stays, an entity is opened (and listed when it is
  live), a known entity is changed, or an identifier without an entity is dropped from the list.
\<close>

inductive reg_move :: "('a \<Rightarrow> bool) \<Rightarrow> ('a \<Rightarrow> bool) \<Rightarrow>
    'a dict \<times> string list \<Rightarrow> 'a dict \<times> string list \<Rightarrow> bool" for live dead where
  stay: "reg_move live dead r r"
| open_entity: "l' = (if live x then list_add k l else l) \<Longrightarrow>
    reg_move live dead (d, l) (AList.update k x d, l')"
| change: "map_of d k = Some y \<Longrightarrow>
    l' = (if dead x then remove1 k l else if live x then list_add k l else l) \<Longrightarrow>
    reg_move live dead (d, l) (AList.update k x d, l')"
| drop: "map_of d k = None \<Longrightarrow> reg_move live dead (d, l) (d, remove1 k l)"

text \<open>Every live entity is listed, once, and every listed identifier has an entity.\<close>

definition reg_ok :: "('a \<Rightarrow> bool) \<Rightarrow> 'a dict \<Rightarrow> string list \<Rightarrow> bool" where
  "reg_ok live d l \<longleftrightarrow> dict_wf d \<and> distinct l \<and> set l \<subseteq> fst ` set d
     \<and> (\<forall>k x. map_of d k = Some x \<longrightarrow> live x \<longrightarrow> k \<in> set l)"

lemma keys_update: "fst ` set (AList.update k x d) = insert k (fst ` set d)"
  using dom_update [of k x d] by (simp add: dom_map_of_conv_image_fst)

lemma reg_move_ok:
  assumes "reg_move live dead (d, l) (d', l')" "reg_ok live d l" "\<And>x. live x \<Longrightarrow> \<not> dead x"
  shows "reg_ok live d' l'"
  using assms(1)
proof cases
  case stay
  then show ?thesis using assms(2) by simp
next
  case (open_entity x k)
  then show ?thesis using assms(2) by (auto simp: reg_ok_def keys_update)
next
  case (change k y x)
  then have "k \<in> fst ` set d" by (metis image_eqI fst_conv map_of_SomeD)
  then show ?thesis
    using change assms(2,3) by (auto simp: reg_ok_def keys_update set_remove1_eq)
next
  case (drop k)
  then have "k \<notin> fst ` set d" by (simp add: map_of_eq_None_iff)
  then have "k \<notin> set l" using assms(2) by (auto simp: reg_ok_def)
  then show ?thesis using drop assms(2) by (simp add: remove1_idem)
qed

locale raid_register =
  fixes step :: "'e \<Rightarrow> 's \<Rightarrow> 'x + 's"
    and items :: "'s \<Rightarrow> 'a dict"
    and listed :: "'s \<Rightarrow> string list"
    and live dead :: "'a \<Rightarrow> bool"
  assumes step_moves: "step e s = Inr t \<Longrightarrow> reg_move live dead (items s, listed s) (items t, listed t)"
    and live_not_dead: "live x \<Longrightarrow> \<not> dead x"
begin

lemma run_ok:
  assumes "foldE step es s = Inr t" "reg_ok live (items s) (listed s)"
  shows "reg_ok live (items t) (listed t)"
  using foldE_inv [OF assms(1), of "\<lambda>u. reg_ok live (items u) (listed u)"] assms(2)
    reg_move_ok [OF step_moves] live_not_dead by blast

lemma run_listed:
  assumes "foldE step es s = Inr t" "reg_ok live (items s) (listed s)"
    and "map_of (items t) k = Some x" "live x"
  shows "k \<in> set (listed t)"
  using run_ok [OF assms(1,2)] assms(3,4) by (auto simp: reg_ok_def)

end

end
