(* ===== verification/Raid_Registers.thy ===== *)
theory Raid_Registers
  imports Governance_Engine Interfaces
begin

text \<open>
  The RAID handlers of \<open>core/state_reducer.py\<close>: risks, assumptions, issues and dependencies. Each
  of the four registers is a dictionary of entities and a list of the identifiers that are open.

  An event from an untrusted source or without an identifier changes nothing. A created entity
  needs an identifier that is a string; an update looks the identifier up, which raises for a
  list or a dictionary and finds nothing for any other value that is not a string.
\<close>

subsection \<open>Identifiers\<close>

definition raid_ignored :: "project_event \<Rightarrow> string \<Rightarrow> bool" where
  "raid_ignored e k = (\<not> truthy (jget (ev_payload e) k) \<or> is_untrusted_event (Some e))"

text \<open>A payload value used as a dictionary key: \<open>None\<close> for a key no entity has.\<close>

definition lookup_key :: "json \<Rightarrow> pse_error + string option" where
  "lookup_key j = (case j of
       JStr s \<Rightarrow> Inr (Some s) | JList _ \<Rightarrow> Inl PyError | JObj _ \<Rightarrow> Inl PyError | _ \<Rightarrow> Inr None)"

definition create_key :: "json \<Rightarrow> pse_error + string" where
  "create_key j = (case j of JStr s \<Rightarrow> Inr s | _ \<Rightarrow> Inl PyError)"

subsection \<open>Risks\<close>

definition handle_risk_opened :: "project_event \<Rightarrow> project_state \<Rightarrow> pse_error + project_state" where
  "handle_risk_opened e s =
     (let p = ev_payload e in
      if raid_ignored e ''risk_id'' then Inr s
      else bindE (create_key (jget p ''risk_id'')) (\<lambda>rid.
        bindE (str_fld p ''title'' (''Risk '' @ rid)) (\<lambda>title.
        bindE (str_fld p ''description'' []) (\<lambda>desc.
        bindE (str_fld p ''probability'' ''medium'') (\<lambda>prob.
        bindE (str_fld p ''impact'' ''medium'') (\<lambda>impact.
        bindE (str_fld p ''mitigation_plan'' []) (\<lambda>plan.
        bindE (str_fld p ''owner'' (ev_actor e)) (\<lambda>owner.
        bindE (str_fld p ''status'' ''identified'') (\<lambda>status.
        bindE (sorted_strs (jget_or p ''related_task_ids'' (JList []))) (\<lambda>related.
        bindE (mk_risk \<lparr>rk_risk_id = rid, rk_project_id = st_project_id s, rk_title = title,
                 rk_description = desc, rk_probability = prob, rk_impact = impact,
                 rk_mitigation_plan = plan, rk_owner = owner, rk_status = status,
                 rk_related_task_ids = related, rk_provenance = replay_provenance e,
                 rk_created_at = ev_timestamp e, rk_updated_at = ev_timestamp e\<rparr>) (\<lambda>r.
          Inr (s\<lparr>st_risks := AList.update rid r (st_risks s),
                 st_open_risks := (if rk_status r = ''identified''
                   then list_add rid (st_open_risks s) else st_open_risks s)\<rparr>))))))))))))"

definition handle_risk_updated :: "project_event \<Rightarrow> project_state \<Rightarrow> pse_error + project_state" where
  "handle_risk_updated e s =
     (let p = ev_payload e in
      if raid_ignored e ''risk_id'' then Inr s
      else bindE (lookup_key (jget p ''risk_id'')) (\<lambda>ko. case ko of None \<Rightarrow> Inr s | Some rid \<Rightarrow>
        (case map_of (st_risks s) rid of None \<Rightarrow> Inr s | Some r0 \<Rightarrow>
        bindE (str_fld p ''title'' (rk_title r0)) (\<lambda>title.
        bindE (str_fld p ''description'' (rk_description r0)) (\<lambda>desc.
        bindE (str_fld p ''probability'' (rk_probability r0)) (\<lambda>prob.
        bindE (str_fld p ''impact'' (rk_impact r0)) (\<lambda>impact.
        bindE (str_fld p ''mitigation_plan'' (rk_mitigation_plan r0)) (\<lambda>plan.
        bindE (str_fld p ''owner'' (rk_owner r0)) (\<lambda>owner.
        bindE (str_fld p ''status'' (rk_status r0)) (\<lambda>status.
        bindE (mk_risk (r0\<lparr>rk_title := title, rk_description := desc, rk_probability := prob,
                 rk_impact := impact, rk_mitigation_plan := plan, rk_owner := owner,
                 rk_status := status, rk_updated_at := ev_timestamp e,
                 rk_provenance := add_source_event e (rk_provenance r0)\<rparr>)) (\<lambda>r.
          Inr (s\<lparr>st_risks := AList.update rid r (st_risks s),
                 st_open_risks :=
                   (if rk_status r \<in> {''mitigated'', ''retired'', ''closed''}
                    then remove1 rid (st_open_risks s)
                    else if rk_status r = ''identified'' then list_add rid (st_open_risks s)
                    else st_open_risks s)\<rparr>))))))))))))"

definition handle_risk_closed :: "project_event \<Rightarrow> project_state \<Rightarrow> pse_error + project_state" where
  "handle_risk_closed e s =
     (if raid_ignored e ''risk_id'' then Inr s
      else bindE (lookup_key (jget (ev_payload e) ''risk_id'')) (\<lambda>ko. case ko of None \<Rightarrow> Inr s | Some rid \<Rightarrow>
        (case map_of (st_risks s) rid of
           None \<Rightarrow> Inr (s\<lparr>st_open_risks := remove1 rid (st_open_risks s)\<rparr>)
         | Some r0 \<Rightarrow>
             bindE (mk_risk (r0\<lparr>rk_status := ''retired'', rk_updated_at := ev_timestamp e,
                      rk_provenance := add_source_event e (rk_provenance r0)\<rparr>)) (\<lambda>r.
               Inr (s\<lparr>st_risks := AList.update rid r (st_risks s),
                      st_open_risks := remove1 rid (st_open_risks s)\<rparr>)))))"

subsection \<open>Assumptions\<close>

definition handle_assumption_created :: "pyrt \<Rightarrow> project_event \<Rightarrow> project_state \<Rightarrow> pse_error + project_state" where
  "handle_assumption_created rt e s =
     (let p = ev_payload e in
      if raid_ignored e ''assumption_id'' then Inr s
      else bindE (create_key (jget p ''assumption_id'')) (\<lambda>aid.
        bindE (str_fld p ''statement'' []) (\<lambda>statement.
        bindE (str_fld p ''rationale'' []) (\<lambda>rationale.
        bindE (py_float rt (jget_or p ''confidence'' (JFloat (Fin 1)))) (\<lambda>confidence.
        bindE (str_fld p ''status'' ''valid'') (\<lambda>status.
        bindE (mk_assumption \<lparr>as_assumption_id = aid, as_project_id = st_project_id s,
                 as_statement = statement, as_rationale = rationale, as_confidence = confidence,
                 as_status = status, as_validated_at = None, as_invalidated_by = None,
                 as_provenance = replay_provenance e, as_created_at = ev_timestamp e\<rparr>) (\<lambda>a.
          Inr (s\<lparr>st_assumptions := AList.update aid a (st_assumptions s),
                 st_active_assumptions := (if as_status a \<in> {''valid'', ''confirmed''}
                   then list_add aid (st_active_assumptions s) else st_active_assumptions s)\<rparr>))))))))"

definition handle_assumption_updated :: "pyrt \<Rightarrow> project_event \<Rightarrow> project_state \<Rightarrow> pse_error + project_state" where
  "handle_assumption_updated rt e s =
     (let p = ev_payload e; confirmed = (ev_event_type e = ''assumption.confirmed'') in
      if raid_ignored e ''assumption_id'' then Inr s
      else bindE (lookup_key (jget p ''assumption_id'')) (\<lambda>ko. case ko of None \<Rightarrow> Inr s | Some aid \<Rightarrow>
        (case map_of (st_assumptions s) aid of None \<Rightarrow> Inr s | Some a0 \<Rightarrow>
        bindE (if confirmed then Inr ''confirmed'' else str_fld p ''status'' (as_status a0)) (\<lambda>status.
        bindE (if has_key ''confidence'' p then py_float rt (jget p ''confidence'')
               else Inr (as_confidence a0)) (\<lambda>confidence.
        bindE (mk_assumption (a0\<lparr>as_status := status, as_confidence := confidence,
                 as_validated_at := (if confirmed then Some (ev_timestamp e) else as_validated_at a0),
                 as_provenance := add_source_event e (as_provenance a0)\<rparr>)) (\<lambda>a.
          Inr (s\<lparr>st_assumptions := AList.update aid a (st_assumptions s),
                 st_active_assumptions :=
                   (if as_status a = ''invalidated'' then remove1 aid (st_active_assumptions s)
                    else list_add aid (st_active_assumptions s))\<rparr>)))))))"

definition handle_assumption_invalidated :: "project_event \<Rightarrow> project_state \<Rightarrow> pse_error + project_state" where
  "handle_assumption_invalidated e s =
     (if raid_ignored e ''assumption_id'' then Inr s
      else bindE (lookup_key (jget (ev_payload e) ''assumption_id'')) (\<lambda>ko. case ko of None \<Rightarrow> Inr s | Some aid \<Rightarrow>
        (case map_of (st_assumptions s) aid of
           None \<Rightarrow> Inr (s\<lparr>st_active_assumptions := remove1 aid (st_active_assumptions s)\<rparr>)
         | Some a0 \<Rightarrow>
             bindE (mk_assumption (a0\<lparr>as_status := ''invalidated'', as_invalidated_by := Some (ev_actor e),
                      as_provenance := add_source_event e (as_provenance a0)\<rparr>)) (\<lambda>a.
               Inr (s\<lparr>st_assumptions := AList.update aid a (st_assumptions s),
                      st_active_assumptions := remove1 aid (st_active_assumptions s)\<rparr>)))))"

subsection \<open>Issues\<close>

definition handle_issue_opened :: "project_event \<Rightarrow> project_state \<Rightarrow> pse_error + project_state" where
  "handle_issue_opened e s =
     (let p = ev_payload e in
      if raid_ignored e ''issue_id'' then Inr s
      else bindE (create_key (jget p ''issue_id'')) (\<lambda>iid.
        bindE (str_fld p ''title'' (''Issue '' @ iid)) (\<lambda>title.
        bindE (str_fld p ''description'' []) (\<lambda>desc.
        bindE (str_fld p ''severity'' ''major'') (\<lambda>severity.
        bindE (str_fld p ''status'' ''open'') (\<lambda>status.
        bindE (sorted_strs (jget_or p ''blocking_task_ids'' (JList []))) (\<lambda>blocking.
        bindE (opt_fld p ''resolution'' None) (\<lambda>resolution.
        bindE (mk_issue \<lparr>is_issue_id = iid, is_project_id = st_project_id s, is_title = title,
                 is_description = desc, is_severity = severity, is_status = status,
                 is_blocking_task_ids = blocking, is_resolution = resolution,
                 is_provenance = replay_provenance e, is_created_at = ev_timestamp e,
                 is_resolved_at = None\<rparr>) (\<lambda>i.
          Inr (s\<lparr>st_issues := AList.update iid i (st_issues s),
                 st_open_issues := (if is_status i \<in> {''open'', ''investigating''}
                   then list_add iid (st_open_issues s) else st_open_issues s)\<rparr>))))))))))"

definition handle_issue_updated :: "project_event \<Rightarrow> project_state \<Rightarrow> pse_error + project_state" where
  "handle_issue_updated e s =
     (let p = ev_payload e in
      if raid_ignored e ''issue_id'' then Inr s
      else bindE (lookup_key (jget p ''issue_id'')) (\<lambda>ko. case ko of None \<Rightarrow> Inr s | Some iid \<Rightarrow>
        (case map_of (st_issues s) iid of None \<Rightarrow> Inr s | Some i0 \<Rightarrow>
        bindE (str_fld p ''title'' (is_title i0)) (\<lambda>title.
        bindE (str_fld p ''description'' (is_description i0)) (\<lambda>desc.
        bindE (str_fld p ''severity'' (is_severity i0)) (\<lambda>severity.
        bindE (str_fld p ''status'' (is_status i0)) (\<lambda>status.
        bindE (opt_fld p ''resolution'' (is_resolution i0)) (\<lambda>resolution.
        bindE (mk_issue (i0\<lparr>is_title := title, is_description := desc, is_severity := severity,
                 is_status := status, is_resolution := resolution,
                 is_provenance := add_source_event e (is_provenance i0)\<rparr>)) (\<lambda>i.
          Inr (s\<lparr>st_issues := AList.update iid i (st_issues s),
                 st_open_issues :=
                   (if is_status i \<in> {''resolved'', ''closed''} then remove1 iid (st_open_issues s)
                    else if is_status i \<in> {''open'', ''investigating''}
                    then list_add iid (st_open_issues s) else st_open_issues s)\<rparr>))))))))))"

definition handle_issue_closed :: "project_event \<Rightarrow> project_state \<Rightarrow> pse_error + project_state" where
  "handle_issue_closed e s =
     (let p = ev_payload e in
      if raid_ignored e ''issue_id'' then Inr s
      else bindE (lookup_key (jget p ''issue_id'')) (\<lambda>ko. case ko of None \<Rightarrow> Inr s | Some iid \<Rightarrow>
        (case map_of (st_issues s) iid of
           None \<Rightarrow> Inr (s\<lparr>st_open_issues := remove1 iid (st_open_issues s)\<rparr>)
         | Some i0 \<Rightarrow>
             bindE (opt_fld p ''resolution'' (is_resolution i0)) (\<lambda>resolution.
             bindE (mk_issue (i0\<lparr>is_status :=
                        (if ev_event_type e = ''issue.resolved'' then ''resolved'' else ''closed''),
                      is_resolved_at := Some (ev_timestamp e), is_resolution := resolution,
                      is_provenance := add_source_event e (is_provenance i0)\<rparr>)) (\<lambda>i.
               Inr (s\<lparr>st_issues := AList.update iid i (st_issues s),
                      st_open_issues := remove1 iid (st_open_issues s)\<rparr>))))))"

subsection \<open>Dependencies\<close>

definition handle_dependency_created :: "project_event \<Rightarrow> project_state \<Rightarrow> pse_error + project_state" where
  "handle_dependency_created e s =
     (let p = ev_payload e in
      if raid_ignored e ''dependency_id'' then Inr s
      else bindE (create_key (jget p ''dependency_id'')) (\<lambda>did.
        bindE (str_fld p ''source_id'' []) (\<lambda>src.
        bindE (str_fld p ''target_id'' []) (\<lambda>tgt.
        bindE (str_fld p ''target_type'' ''task'') (\<lambda>ty.
        bindE (str_fld p ''dependency_kind'' ''blocks'') (\<lambda>kind.
        bindE (str_fld p ''status'' ''pending'') (\<lambda>status.
        bindE (opt_fld p ''external_ref'' None) (\<lambda>ext.
        bindE (mk_dependency \<lparr>dp_dependency_id = did, dp_project_id = st_project_id s,
                 dp_source_id = src, dp_target_id = tgt, dp_target_type = ty,
                 dp_dependency_kind = kind, dp_status = status, dp_external_ref = ext,
                 dp_provenance = replay_provenance e, dp_created_at = ev_timestamp e\<rparr>) (\<lambda>d.
          Inr (s\<lparr>st_dependencies := AList.update did d (st_dependencies s),
                 st_active_dependencies := (if dp_status d \<noteq> ''satisfied''
                   then list_add did (st_active_dependencies s) else st_active_dependencies s)\<rparr>))))))))))"

definition handle_dependency_updated :: "project_event \<Rightarrow> project_state \<Rightarrow> pse_error + project_state" where
  "handle_dependency_updated e s =
     (let p = ev_payload e in
      if raid_ignored e ''dependency_id'' then Inr s
      else bindE (lookup_key (jget p ''dependency_id'')) (\<lambda>ko. case ko of None \<Rightarrow> Inr s | Some did \<Rightarrow>
        (case map_of (st_dependencies s) did of None \<Rightarrow> Inr s | Some d0 \<Rightarrow>
        bindE (str_fld p ''status'' (dp_status d0)) (\<lambda>status.
        bindE (mk_dependency (d0\<lparr>dp_status := status,
                 dp_provenance := add_source_event e (dp_provenance d0)\<rparr>)) (\<lambda>d.
          Inr (s\<lparr>st_dependencies := AList.update did d (st_dependencies s),
                 st_active_dependencies :=
                   (if dp_status d = ''satisfied'' then remove1 did (st_active_dependencies s)
                    else list_add did (st_active_dependencies s))\<rparr>))))))"

definition handle_dependency_resolved :: "project_event \<Rightarrow> project_state \<Rightarrow> pse_error + project_state" where
  "handle_dependency_resolved e s =
     (if raid_ignored e ''dependency_id'' then Inr s
      else bindE (lookup_key (jget (ev_payload e) ''dependency_id'')) (\<lambda>ko. case ko of None \<Rightarrow> Inr s | Some did \<Rightarrow>
        (case map_of (st_dependencies s) did of
           None \<Rightarrow> Inr (s\<lparr>st_active_dependencies := remove1 did (st_active_dependencies s)\<rparr>)
         | Some d0 \<Rightarrow>
             bindE (mk_dependency (d0\<lparr>dp_status := ''satisfied'',
                      dp_provenance := add_source_event e (dp_provenance d0)\<rparr>)) (\<lambda>d.
               Inr (s\<lparr>st_dependencies := AList.update did d (st_dependencies s),
                      st_active_dependencies := remove1 did (st_active_dependencies s)\<rparr>)))))"

text \<open>The RAID branch of the dispatch; \<open>None\<close> for an event of another kind.\<close>

definition apply_raid_event ::
  "pyrt \<Rightarrow> project_event \<Rightarrow> project_state \<Rightarrow> (pse_error + project_state) option" where
  "apply_raid_event rt e s =
     (let et = ev_event_type e in
      if et = ''risk.opened'' then Some (handle_risk_opened e s)
      else if et = ''risk.updated'' then Some (handle_risk_updated e s)
      else if et = ''risk.closed'' then Some (handle_risk_closed e s)
      else if et = ''assumption.created'' then Some (handle_assumption_created rt e s)
      else if et \<in> {''assumption.updated'', ''assumption.confirmed''}
      then Some (handle_assumption_updated rt e s)
      else if et = ''assumption.invalidated'' then Some (handle_assumption_invalidated e s)
      else if et = ''issue.opened'' then Some (handle_issue_opened e s)
      else if et = ''issue.updated'' then Some (handle_issue_updated e s)
      else if et \<in> {''issue.resolved'', ''issue.closed''} then Some (handle_issue_closed e s)
      else if et = ''dependency.created'' then Some (handle_dependency_created e s)
      else if et = ''dependency.updated'' then Some (handle_dependency_updated e s)
      else if et = ''dependency.resolved'' then Some (handle_dependency_resolved e s)
      else None)"

end
