(* ===== verification/State_Handlers.thy ===== *)
theory State_Handlers
  imports Raid_Registers
begin

text \<open>
  The governance handlers of \<open>core/state_reducer.py\<close>: ownership, RACI, evidence, the authority that
  a check may use (\<open>_effective_authority\<close>), historical evaluations, phase transitions, gate
  overrides, and the task and decision views.

  \<open>rv\<close> is the rules version of the reducer, which its governance engine uses as policy version.
  \<open>historical au\<close> is the test \<open>authority is not None and authority.historical\<close>.
\<close>

definition historical :: "authority_context option \<Rightarrow> bool" where
  "historical au = (case au of None \<Rightarrow> False | Some a \<Rightarrow> au_historical a)"

subsection \<open>Ownership and RACI\<close>

definition handle_project_owner :: "project_event \<Rightarrow> project_state \<Rightarrow> project_state" where
  "handle_project_owner e s =
     (let owner = py_or (jget (ev_payload e) ''owner'') (jget (ev_payload e) ''owner_id'')
      in if nonblank owner then s\<lparr>st_owner := Some (strip (jstr owner))\<rparr> else s)"

definition is_accountable_role :: "string \<Rightarrow> bool" where
  "is_accountable_role role = (casefold (strip role) \<in> {''accountable'', ''a''})"

definition canonical_raci_role :: "string \<Rightarrow> string" where
  "canonical_raci_role role = (if is_accountable_role role then ''Accountable'' else strip role)"

definition accountable_actors :: "string list dict \<Rightarrow> string list" where
  "accountable_actors raci =
     sorted_set (filter (\<lambda>x. strip x \<noteq> [])
       (concat (map snd (filter (\<lambda>(role, actors). is_accountable_role role) raci))))"

definition raci_get :: "string \<Rightarrow> string list dict \<Rightarrow> string list" where
  "raci_get role raci = (case map_of raci role of None \<Rightarrow> [] | Some actors \<Rightarrow> actors)"

definition handle_raci_assigned :: "project_event \<Rightarrow> project_state \<Rightarrow> project_state" where
  "handle_raci_assigned e s =
     (let role = jget (ev_payload e) ''role''; actor = jget (ev_payload e) ''actor'' in
      if \<not> nonblank role \<or> \<not> nonblank actor then s
      else let cr = canonical_raci_role (jstr role)
        in s\<lparr>st_raci := AList.update cr (sorted_set (strip (jstr actor) # raci_get cr (st_raci s)))
               (st_raci s)\<rparr>)"

definition handle_raci_revoked :: "project_event \<Rightarrow> project_state \<Rightarrow> project_state" where
  "handle_raci_revoked e s =
     (let role = jget (ev_payload e) ''role''; actor = jget (ev_payload e) ''actor'' in
      if \<not> nonblank role then s
      else let cr = canonical_raci_role (jstr role);
             left = (if nonblank actor
               then filter (\<lambda>x. x \<noteq> strip (jstr actor)) (raci_get cr (st_raci s)) else [])
        in if left \<noteq> [] then s\<lparr>st_raci := AList.update cr (sorted_set left) (st_raci s)\<rparr>
           else s\<lparr>st_raci := AList.delete cr (st_raci s)\<rparr>)"

subsection \<open>Evidence\<close>

definition collect_evidence_refs :: "project_event \<Rightarrow> string list" where
  "collect_evidence_refs e =
     (let p = ev_payload e in
      sorted_set (ev_evidence_refs e @ ev_artifact_refs e
        @ concat (map (\<lambda>k. if nonblank (jget p k) then [strip (jstr (jget p k))] else [])
            [''evidence_id'', ''evidence_ref'', ''ref'', ''artifact_id'', ''artifact_ref''])
        @ concat (map (\<lambda>k. case jget p k of JList xs \<Rightarrow> map jstr (filter nonblank xs) | _ \<Rightarrow> [])
            [''evidence_refs'', ''evidence_ids'', ''artifact_refs''])))"

definition evidence_kind :: "payload \<Rightarrow> string option" where
  "evidence_kind p =
     (let kind = py_or (jget p ''evidence_type'') (py_or (jget p ''artifact_type'') (jget p ''kind''))
      in if nonblank kind then Some (lower (strip (jstr kind))) else None)"

definition handle_evidence_attached :: "project_event \<Rightarrow> project_state \<Rightarrow> project_state" where
  "handle_evidence_attached e s =
     (let refs = collect_evidence_refs e;
          attached = sorted_set (fold list_add refs (st_attached_evidence s));
          kinds = (case evidence_kind (ev_payload e) of
              None \<Rightarrow> st_evidence_kinds s
            | Some k \<Rightarrow> fold (\<lambda>r. AList.update r k) refs (st_evidence_kinds s))
      in s\<lparr>st_attached_evidence := attached,
           st_evidence_kinds := filter (\<lambda>(r, k). r \<in> set attached) (sort_dict kinds)\<rparr>)"

subsection \<open>The authority a check may use\<close>

definition known_at :: "int \<Rightarrow> int dict \<Rightarrow> string set" where
  "known_at n d = {k. \<exists>q. (k, q) \<in> set d \<and> q \<le> n}"

lemma known_at_code [code]: "known_at n d = set (map fst (filter (\<lambda>(k, q). q \<le> n) d))"
  by (force simp: known_at_def)

definition charter_refs :: "string dict \<Rightarrow> string set" where
  "charter_refs kinds = fst ` set (filter (\<lambda>(r, k). k \<in> {''charter'', ''project_charter''}) kinds)"

definition effective_authority ::
  "project_state \<Rightarrow> authority_context option \<Rightarrow> authority_context option" where
  "effective_authority s au = (case au of
       None \<Rightarrow> None
     | Some a \<Rightarrow>
         (let prior = map (\<lambda>(role, actors). (role, sort actors))
                (filter (\<lambda>(role, actors). actors \<noteq> []) (st_raci s));
              acc = accountable_actors prior
          in Some \<lparr>au_attached_evidence = set (st_attached_evidence s),
               au_approved_decision_ids = (if au_historical a
                 then known_at (st_last_event_sequence s) (st_hist_approved s)
                 else au_approved_decision_ids a),
               au_raci = prior,
               au_accountable_actor = (case acc of [x] \<Rightarrow> Some x | _ \<Rightarrow> None),
               au_verified_task_receipts = (if au_historical a
                 then known_at (st_last_event_sequence s) (st_hist_receipts s)
                 else au_verified_task_receipts a),
               au_permit_accountable_approval = au_permit_accountable_approval a,
               au_historical = au_historical a,
               au_charter_evidence_refs = charter_refs (st_evidence_kinds s),
               au_cardinality_valid = (length acc \<le> 1)\<rparr>))"

subsection \<open>Historical evaluations\<close>

definition eval_type_of :: "project_event \<Rightarrow> string" where
  "eval_type_of e = (if ev_event_type e = ''dor.evaluated'' then ''dor'' else ''dod'')"

text \<open>The checks on the evaluation itself, in the order of the code; \<open>None\<close> when they all pass.\<close>

definition evaluation_fault ::
  "pyrt \<Rightarrow> string \<Rightarrow> project_event \<Rightarrow> hist_eval \<Rightarrow> project_state \<Rightarrow> integrity_fault option" where
  "evaluation_fault rt rv e h s =
     (if he_evaluation_type h \<noteq> eval_type_of e then Some EvalType
      else if he_evaluated_phase h \<notin>
        (if eval_type_of e = ''dor'' then {PLANNING, EXECUTION} else {CLOSING, CLOSED}) then Some EvalPhase
      else if he_evaluation_event_id h \<noteq> ev_event_id e then Some EvalBinding
      else if he_rules_version h \<noteq> rv \<or> he_rules_digest h \<noteq> RULES_DIGEST rt then Some EvalRules
      else if he_evaluated_from_phase h \<noteq> st_current_phase s then Some EvalSourcePhase
      else if \<not> set (he_required_evidence_refs h) \<subseteq> set (st_attached_evidence s) then Some EvalEvidence
      else case he_accountable_actor h of None \<Rightarrow> None
        | Some x \<Rightarrow> if accountable_actors (st_raci s) \<noteq> [x] then Some EvalAccountable else None)"

definition bind_task_view :: "pyrt \<Rightarrow> task_view \<Rightarrow> project_state \<Rightarrow> pse_error + project_state" where
  "bind_task_view rt v s =
     (if \<not> has_key (tv_task_id v) (st_tasks s) then Inl (IntegrityError EvalUnassociatedTask)
      else if task_view_expected rt v \<noteq> tv_digest v then Inl (IntegrityError EvalTaskDigest)
      else Inr (s\<lparr>st_tasks := AList.update (tv_task_id v) v (st_tasks s)\<rparr>))"

definition bind_decision_view :: "pyrt \<Rightarrow> decision_view \<Rightarrow> project_state \<Rightarrow> pse_error + project_state" where
  "bind_decision_view rt v s =
     (if \<not> has_key (dv_decision_id v) (st_decisions s) then Inl (IntegrityError EvalUnassociatedDecision)
      else if decision_view_expected rt v \<noteq> dv_digest v then Inl (IntegrityError EvalDecisionDigest)
      else Inr (s\<lparr>st_decisions := AList.update (dv_decision_id v) v (st_decisions s)\<rparr>))"

definition bind_approval :: "int \<Rightarrow> string \<Rightarrow> project_state \<Rightarrow> pse_error + project_state" where
  "bind_approval n d s =
     (if (case map_of (st_decisions s) d of None \<Rightarrow> False | Some v \<Rightarrow> dv_status v = ''approved'')
      then Inr (s\<lparr>st_hist_approved := AList.update d n (st_hist_approved s)\<rparr>)
      else Inl (IntegrityError EvalApproval))"

text \<open>
  A passed evaluation opens its gate for the next event. The receipts are kept in the order of
  their names: the code iterates over a set, and the projection sorts the result.
\<close>

definition record_passed :: "project_event \<Rightarrow> hist_eval \<Rightarrow> project_state \<Rightarrow> pse_error + project_state" where
  "record_passed e h s =
     (if he_evaluated_phase h \<in> {EXECUTION, CLOSING, CLOSED} \<and> he_task_views h = []
      then Inl (IntegrityError EvalNoTasks)
      else
        let ph = phase_str (he_evaluated_phase h);
            s1 = s\<lparr>st_hist_gates := AList.update ph (ev_sequence e) (st_hist_gates s),
                   st_hist_origins := AList.update ph (phase_str (he_evaluated_from_phase h)) (st_hist_origins s)\<rparr>
        in bindE (foldE (bind_approval (ev_sequence e)) (he_approved_decision_ids h) s1) (\<lambda>s2.
             if \<not> set (he_verified_task_receipts h) \<subseteq> set (concat (map tv_receipt_ids (he_task_views h)))
             then Inl (IntegrityError EvalReceipt)
             else Inr (s2\<lparr>st_hist_receipts := fold (\<lambda>r. AList.update r (ev_sequence e))
                        (sorted_set (he_verified_task_receipts h)) (st_hist_receipts s2)\<rparr>)))"

definition handle_historical_evaluation ::
  "pyrt \<Rightarrow> string \<Rightarrow> authority_context option \<Rightarrow> project_event \<Rightarrow> project_state \<Rightarrow>
   pse_error + project_state" where
  "handle_historical_evaluation rt rv au e s =
     (if \<not> historical au then Inl (IntegrityError EvalBoundary)
      else if ev_source e \<noteq> ''pse_governance'' then Inl (IntegrityError EvalSource)
      else case validate_hist_eval rt (ev_payload e) of
        Inl x \<Rightarrow> Inl (IntegrityError EvalInvalid)
      | Inr h \<Rightarrow> (case evaluation_fault rt rv e h s of
          Some f \<Rightarrow> Inl (IntegrityError f)
        | None \<Rightarrow>
            bindE (foldE (bind_task_view rt) (he_task_views h) s) (\<lambda>s1.
            bindE (foldE (bind_decision_view rt) (he_decision_views h) s1) (\<lambda>s2.
            bindE (if he_result h = ''passed'' then record_passed e h s2 else Inr s2) (\<lambda>s3.
              Inr (s3\<lparr>st_hist_evaluations := st_hist_evaluations s3 @ [ev_event_id e]\<rparr>))))))"

subsection \<open>Phase transitions\<close>

definition target_phase :: "payload \<Rightarrow> json" where
  "target_phase p = py_or (jget p ''target_phase'') (py_or (jget p ''to_phase'') (jget p ''phase''))"

text \<open>\<open>if spec.required_gate\<close>: the gate of the transition, when it has one.\<close>

definition gate_of :: "transition_spec \<Rightarrow> string option" where
  "gate_of spec = (case ts_required_gate spec of None \<Rightarrow> None | Some g \<Rightarrow> if g = [] then None else Some g)"

definition gate_evaluated :: "project_phase \<Rightarrow> project_state \<Rightarrow> bool" where
  "gate_evaluated tp s =
     (map_of (st_hist_gates s) (phase_str tp) = Some (st_last_event_sequence s)
      \<and> map_of (st_hist_origins s) (phase_str tp) = Some (phase_str (st_current_phase s)))"

definition missing_evaluation ::
  "authority_context option \<Rightarrow> project_phase \<Rightarrow> project_state \<Rightarrow> string option" where
  "missing_evaluation au tp s = (case legal_spec (st_current_phase s) tp of
       None \<Rightarrow> None
     | Some spec \<Rightarrow> (case gate_of spec of
         None \<Rightarrow> None
       | Some g \<Rightarrow> if historical au \<and> \<not> gate_evaluated tp s
           then Some (''MISSING_CANONICAL_'' @ (if contains ''dor'' g then ''DOR'' else ''DOD'') @ ''_EVALUATION'')
           else None))"

definition opt_str :: "json \<Rightarrow> pse_error + string option" where
  "opt_str j = (case j of JNull \<Rightarrow> Inr None | JStr x \<Rightarrow> Inr (Some x) | _ \<Rightarrow> Inl PyError)"

definition build_phase_record ::
  "project_phase \<Rightarrow> project_phase \<Rightarrow> transition_spec \<Rightarrow> project_event \<Rightarrow> pse_error + phase_record" where
  "build_phase_record fp tp spec e =
     (let p = ev_payload e in
      bindE (opt_str (transition_reason p)) (\<lambda>reason.
      bindE (sorted_strs (py_or (jstrs (ev_evidence_refs e)) (py_or (jget p ''evidence_refs'') (JList [])))) (\<lambda>evs.
      bindE (sorted_strs (if has_key ''approval_ref'' p then JList [jget p ''approval_ref'']
                          else jget_or p ''approval_refs'' (JList []))) (\<lambda>aps.
        mk_phase_record \<lparr>pr_from_phase = fp, pr_to_phase = tp,
          pr_name = ts_name spec, pr_timestamp = ev_timestamp e, pr_actor = ev_actor e,
          pr_event_id = ev_event_id e, pr_is_rollback = ts_is_rollback spec, pr_reason = reason,
          pr_gate = ts_required_gate spec, pr_evidence_refs = evs, pr_approval_refs = aps\<rparr>))))"

definition commit_transition ::
  "authority_context option \<Rightarrow> project_phase \<Rightarrow> transition_spec \<Rightarrow> phase_record \<Rightarrow> project_state \<Rightarrow> project_state" where
  "commit_transition au tp spec r s =
     (let s1 = s\<lparr>st_phase_history := st_phase_history s @ [r], st_current_phase := tp\<rparr>;
          ph = phase_str tp
      in if historical au \<and> gate_of spec \<noteq> None
         then s1\<lparr>st_hist_gates := AList.delete ph (st_hist_gates s1),
                 st_hist_origins := AList.delete ph (st_hist_origins s1)\<rparr>
         else s1)"

definition handle_phase_transition ::
  "pyrt \<Rightarrow> string \<Rightarrow> authority_context option \<Rightarrow> project_event \<Rightarrow> project_state \<Rightarrow>
   pse_error + project_state" where
  "handle_phase_transition rt rv au e s =
     (let raw = target_phase (ev_payload e) in
      if \<not> truthy raw then Inl (IllegalTransition [])
      else case phase_of_str (upper (py_str rt raw)) of
        None \<Rightarrow> Inl (IllegalTransition [])
      | Some tp \<Rightarrow> (case missing_evaluation au tp s of
          Some c \<Rightarrow> Inl (IllegalTransition [c])
        | None \<Rightarrow>
            bindE (evaluate_transition rv s tp e (effective_authority s au)) (\<lambda>v.
              if ge_decision v \<noteq> ALLOW then Inl (IllegalTransition (ge_reason_codes v))
              else case legal_spec (st_current_phase s) tp of
                None \<Rightarrow> Inl PyError
              | Some spec \<Rightarrow> bindE (build_phase_record (st_current_phase s) tp spec e) (\<lambda>r.
                  Inr (commit_transition au tp spec r s)))))"

subsection \<open>Gate overrides\<close>

definition handle_gate_override ::
  "pyrt \<Rightarrow> string \<Rightarrow> authority_context option \<Rightarrow> project_event \<Rightarrow> project_state \<Rightarrow>
   pse_error + project_state" where
  "handle_gate_override rt rv au e s =
     (if historical au \<and> ev_source e \<noteq> ''pse_governance'' then Inl (IntegrityError OverrideBoundary)
      else bindE (evaluate_gate_override rv e (effective_authority s au)) (\<lambda>v.
        if ge_decision v \<noteq> ALLOW then Inr s
        else Inr (s\<lparr>st_overridden_gates := list_add
               (py_str rt (py_or (jget (ev_payload e) ''gate'') (jget (ev_payload e) ''gate_name'')))
               (st_overridden_gates s)\<rparr>)))"

subsection \<open>Task and decision views\<close>

text \<open>\<open>in\<close> and \<open>pop\<close> on a dictionary raise for a key that cannot be hashed.\<close>

definition handle_task_associated :: "pyrt \<Rightarrow> project_event \<Rightarrow> project_state \<Rightarrow> pse_error + project_state" where
  "handle_task_associated rt e s =
     (let j = jget (ev_payload e) ''task_id'' in
      if \<not> truthy j then Inr s
      else bindE (create_key j) (\<lambda>tid.
        if has_key tid (st_tasks s) then Inr s
        else bindE (mk_task_view \<lparr>tv_task_id = tid, tv_state = ''backlog'', tv_revision = 1,
               tv_digest = task_view_digest rt tid ''backlog'' 1 [] [] [],
               tv_source_identity = ev_event_id e, tv_dependencies = [], tv_open_gates = [],
               tv_receipt_ids = []\<rparr>) (\<lambda>v.
             Inr (s\<lparr>st_tasks := AList.update tid v (st_tasks s)\<rparr>))))"

definition handle_task_disassociated :: "project_event \<Rightarrow> project_state \<Rightarrow> pse_error + project_state" where
  "handle_task_disassociated e s =
     (let j = jget (ev_payload e) ''task_id'' in
      if \<not> truthy j then Inr s
      else bindE (lookup_key j) (\<lambda>ko. case ko of None \<Rightarrow> Inr s
        | Some tid \<Rightarrow> Inr (s\<lparr>st_tasks := AList.delete tid (st_tasks s)\<rparr>)))"

definition note_drift :: "string \<Rightarrow> string \<Rightarrow> project_state \<Rightarrow> project_state" where
  "note_drift stale drift s =
     (if stale \<in> set (st_health_flags s) then s
      else s\<lparr>st_health_flags := st_health_flags s @ [stale, drift]\<rparr>)"

definition handle_task_observed ::
  "pyrt \<Rightarrow> authority_context option \<Rightarrow> project_event \<Rightarrow> project_state \<Rightarrow> pse_error + project_state" where
  "handle_task_observed rt au e s =
     (let p = ev_payload e; j = jget p ''task_id''; st = jget p ''state'' in
      if \<not> (truthy j \<and> truthy st) then Inr s
      else if au \<noteq> None then
        bindE (lookup_key j) (\<lambda>ko. case ko of None \<Rightarrow> Inr s | Some tid \<Rightarrow>
          (case map_of (st_tasks s) tid of None \<Rightarrow> Inr s
           | Some v \<Rightarrow> Inr (if JStr (tv_state v) \<noteq> st
               then note_drift ''STALE_TASK_OBSERVATION'' ''TASK_AUTHORITY_DRIFT'' s else s)))
      else
        bindE (py_int rt (jget_or p ''revision'' (JInt 1))) (\<lambda>rev.
        bindE (sorted_strs (jget_or p ''receipt_ids'' (JList []))) (\<lambda>rcs.
        bindE (sorted_strs (jget_or p ''dependencies'' (JList []))) (\<lambda>deps.
        bindE (sorted_strs (jget_or p ''open_gates'' (JList []))) (\<lambda>gates.
        bindE (create_key j) (\<lambda>tid. bindE (create_key st) (\<lambda>sta.
        bindE (mk_task_view \<lparr>tv_task_id = tid, tv_state = sta, tv_revision = rev,
                 tv_digest = task_view_digest rt tid sta rev deps gates rcs,
                 tv_source_identity = ev_event_id e, tv_dependencies = deps, tv_open_gates = gates,
                 tv_receipt_ids = rcs\<rparr>) (\<lambda>v.
          Inr (s\<lparr>st_tasks := AList.update tid v (st_tasks s)\<rparr>)))))))))"

definition handle_decision_associated :: "pyrt \<Rightarrow> project_event \<Rightarrow> project_state \<Rightarrow> pse_error + project_state" where
  "handle_decision_associated rt e s =
     (let j = jget (ev_payload e) ''decision_id'' in
      if \<not> truthy j then Inr s
      else bindE (create_key j) (\<lambda>did.
        if has_key did (st_decisions s) then Inr s
        else bindE (mk_decision_view \<lparr>dv_decision_id = did, dv_status = ''pending'', dv_task_id = None,
               dv_task_revision = 1, dv_revision = 1,
               dv_digest = decision_view_digest rt did ''pending'' None 1 1 None,
               dv_source_identity = ev_event_id e, dv_receipt_id = None\<rparr>) (\<lambda>v.
             Inr (s\<lparr>st_decisions := AList.update did v (st_decisions s)\<rparr>))))"

definition handle_decision_disassociated :: "project_event \<Rightarrow> project_state \<Rightarrow> pse_error + project_state" where
  "handle_decision_disassociated e s =
     (let j = jget (ev_payload e) ''decision_id'' in
      if \<not> truthy j then Inr s
      else bindE (lookup_key j) (\<lambda>ko. case ko of None \<Rightarrow> Inr s
        | Some did \<Rightarrow> Inr (s\<lparr>st_decisions := AList.delete did (st_decisions s),
                            st_hist_approved := AList.delete did (st_hist_approved s)\<rparr>)))"

definition handle_decision_observed ::
  "pyrt \<Rightarrow> authority_context option \<Rightarrow> project_event \<Rightarrow> project_state \<Rightarrow> pse_error + project_state" where
  "handle_decision_observed rt au e s =
     (let p = ev_payload e; j = jget p ''decision_id''; st = jget p ''status'' in
      if \<not> (truthy j \<and> truthy st) then Inr s
      else if au \<noteq> None then
        bindE (lookup_key j) (\<lambda>ko. case ko of None \<Rightarrow> Inr s | Some did \<Rightarrow>
          (case map_of (st_decisions s) did of None \<Rightarrow> Inr s
           | Some v \<Rightarrow> Inr (if JStr (dv_status v) \<noteq> st
               then note_drift ''STALE_DECISION_OBSERVATION'' ''DECISION_AUTHORITY_DRIFT'' s else s)))
      else
        bindE (py_int rt (jget_or p ''revision'' (JInt 1))) (\<lambda>rev.
        bindE (opt_str (jget p ''task_id'')) (\<lambda>tid.
        bindE (opt_str (jget p ''receipt_id'')) (\<lambda>rid.
        bindE (create_key j) (\<lambda>did. bindE (create_key st) (\<lambda>status.
        bindE (mk_decision_view \<lparr>dv_decision_id = did, dv_status = status, dv_task_id = tid,
                 dv_task_revision = 1, dv_revision = rev,
                 dv_digest = decision_view_digest rt did status tid 1 rev rid,
                 dv_source_identity = ev_event_id e, dv_receipt_id = rid\<rparr>) (\<lambda>v.
          Inr (s\<lparr>st_decisions := AList.update did v (st_decisions s)\<rparr>))))))))"

end
