(* ===== verification/Reducer.thy ===== *)
theory Reducer
  imports State_Handlers
begin

text \<open>
  The state reducer (\<open>core/state_reducer.py\<close>): the integrity checks of an event, the dispatch, the
  projections, the replay, the explanations, and the restore of a snapshot.

  The reducer works on a copy of its state, so that an exception leaves no half-applied state
  behind: \<open>apply_event\<close> returns the new state or the exception.
\<close>

subsection \<open>One event\<close>

definition check_chain :: "project_event \<Rightarrow> project_state \<Rightarrow> integrity_fault option" where
  "check_chain e s =
     (if ev_project_id e \<noteq> st_project_id s then Some CrossProject
      else if 0 < st_last_event_sequence s then
        (if ev_sequence e \<noteq> st_last_event_sequence s + 1 then Some SequenceGap
         else if ev_prev_event_hash e \<noteq> st_last_event_hash s then Some BrokenChain
         else None)
      else if ev_sequence e \<noteq> 1 then Some BadFirstSequence
      else None)"

definition check_digests :: "pyrt \<Rightarrow> project_event \<Rightarrow> pse_error + unit" where
  "check_digests rt e =
     bindE (compute_payload_digest rt (ev_payload e)) (\<lambda>d.
       if d \<noteq> ev_payload_digest e then Inl (IntegrityError PayloadDigestMismatch)
       else bindE (event_hash_of rt e) (\<lambda>h.
         if h \<noteq> ev_event_hash e then Inl (IntegrityError EventHashMismatch) else Inr ()))"

definition governance_bearing_types :: "string list" where
  "governance_bearing_types =
    [''project.created'', ''project.updated'', ''project.phase.changed'', ''project.reopened'',
     ''raci.assigned'', ''raci.revoked'', ''evidence.attached'', ''artifact.created'',
     ''artifact.updated'', ''task.associated'', ''task.disassociated'', ''decision.associated'',
     ''decision.disassociated'', ''dor.evaluated'', ''dod.evaluated'', ''gate.overridden'']"

definition check_provenance :: "authority_context option \<Rightarrow> project_event \<Rightarrow> integrity_fault option" where
  "check_provenance au e =
     (if historical au \<and> ev_event_type e \<in> set governance_bearing_types then
        (if ev_source e \<noteq> ''pse_governance'' then Some UntrustedProvenance
         else if is_untrusted_event (Some e) then Some UntrustedGovernance
         else None)
      else None)"

definition dispatch ::
  "pyrt \<Rightarrow> string \<Rightarrow> authority_context option \<Rightarrow> project_event \<Rightarrow> project_state \<Rightarrow>
   pse_error + project_state" where
  "dispatch rt rv au e s =
     (let et = ev_event_type e in
      if et = ''project.created''
      then Inr (handle_project_owner e (s\<lparr>st_current_phase := DISCOVERY\<rparr>))
      else if et = ''project.updated'' then Inr (handle_project_owner e s)
      else if et \<in> {''project.phase.changed'', ''project.reopened''}
      then handle_phase_transition rt rv au e s
      else if et = ''gate.overridden'' then handle_gate_override rt rv au e s
      else if et = ''raci.assigned'' then Inr (handle_raci_assigned e s)
      else if et = ''raci.revoked'' then Inr (handle_raci_revoked e s)
      else if et \<in> {''evidence.attached'', ''artifact.created'', ''artifact.updated''}
      then Inr (handle_evidence_attached e s)
      else if et \<in> {''dor.evaluated'', ''dod.evaluated''}
      then handle_historical_evaluation rt rv au e s
      else if et = ''task.associated'' then handle_task_associated rt e s
      else if et = ''task.disassociated'' then handle_task_disassociated e s
      else if et = ''task.lifecycle.observed'' then handle_task_observed rt au e s
      else if et = ''decision.associated'' then handle_decision_associated rt e s
      else if et = ''decision.disassociated'' then handle_decision_disassociated e s
      else if et = ''decision.lifecycle.observed'' then handle_decision_observed rt au e s
      else case apply_raid_event rt e s of Some r \<Rightarrow> r | None \<Rightarrow> Inr s)"

definition advance :: "project_event \<Rightarrow> project_state \<Rightarrow> project_state" where
  "advance e s =
     s\<lparr>st_last_event_sequence := ev_sequence e, st_last_event_hash := ev_event_hash e,
       st_contributing_events := st_contributing_events s @ [ev_event_id e]\<rparr>"

definition apply_event ::
  "pyrt \<Rightarrow> string \<Rightarrow> authority_context option \<Rightarrow> project_event \<Rightarrow> project_state \<Rightarrow>
   pse_error + project_state" where
  "apply_event rt rv au e s = (case check_chain e s of
       Some f \<Rightarrow> Inl (IntegrityError f)
     | None \<Rightarrow> bindE (check_digests rt e) (\<lambda>_. case check_provenance au e of
         Some f \<Rightarrow> Inl (IntegrityError f)
       | None \<Rightarrow> bindE (dispatch rt rv au e s) (\<lambda>t. Inr (advance e t))))"

subsection \<open>Projections\<close>

definition explicit_dependencies :: "project_state \<Rightarrow> dependency list" where
  "explicit_dependencies s = map snd (st_dependencies s)"

definition state_cycles :: "project_state \<Rightarrow> string list list" where
  "state_cycles s = detect_dependency_cycles (st_tasks s) (explicit_dependencies s)"

definition task_status :: "project_state \<Rightarrow> task_view \<Rightarrow> readiness_status" where
  "task_status s v = re_status (evaluate_task_readiness v s (concat (state_cycles s)))"

definition tasks_where :: "(readiness_status \<Rightarrow> bool) \<Rightarrow> project_state \<Rightarrow> string list" where
  "tasks_where P s =
     sort (map fst (filter (\<lambda>(tid, v). P (task_status s v)) (sort_dict (st_tasks s))))"

definition is_blocked_status :: "readiness_status \<Rightarrow> bool" where
  "is_blocked_status r = (r \<in> {RS_BLOCKED_DEPENDENCY, RS_CIRCULAR_DEPENDENCY, RS_REQUIRES_APPROVAL,
     RS_REQUIRES_EVIDENCE, RS_BLOCKED_DOR})"

definition decisions_with :: "string \<Rightarrow> project_state \<Rightarrow> string list" where
  "decisions_with st s =
     sort (map fst (filter (\<lambda>(did, v). dv_status v = st) (sort_dict (st_decisions s))))"

definition drift_flags :: "string list" where
  "drift_flags = [''STALE_TASK_OBSERVATION'', ''TASK_AUTHORITY_DRIFT'',
     ''STALE_DECISION_OBSERVATION'', ''DECISION_AUTHORITY_DRIFT'', ''STALE_AUTHORITATIVE_PROJECTION'']"

definition last_ten :: "'a list \<Rightarrow> 'a list" where
  "last_ten xs = drop (length xs - 10) xs"

definition project_tasks :: "project_state \<Rightarrow> project_state" where
  "project_tasks s = s\<lparr>st_active_tasks := tasks_where (\<lambda>r. r \<noteq> RS_TERMINAL) s,
     st_ready_tasks := tasks_where (\<lambda>r. r = RS_READY) s,
     st_blocked_tasks := tasks_where is_blocked_status s\<rparr>"

definition project_decisions :: "project_state \<Rightarrow> project_state" where
  "project_decisions s = s\<lparr>st_valid_decisions := decisions_with ''approved'' s,
     st_superseded_decisions := [], st_required_approvals := decisions_with ''pending'' s\<rparr>"

definition project_registers :: "project_state \<Rightarrow> project_state" where
  "project_registers s = s\<lparr>
     st_open_risks := sorted_set (st_open_risks s),
     st_open_issues := sorted_set (st_open_issues s),
     st_active_assumptions := sorted_set (st_active_assumptions s),
     st_active_dependencies := sorted_set (st_active_dependencies s),
     st_overridden_gates := sorted_set (st_overridden_gates s),
     st_attached_evidence := sorted_set (st_attached_evidence s),
     st_raci := map (\<lambda>(role, actors). (role, sorted_set actors)) (sort_dict (st_raci s)),
     st_evidence_kinds := sort_dict (st_evidence_kinds s),
     st_hist_approved := sort_dict (st_hist_approved s),
     st_hist_receipts := sort_dict (st_hist_receipts s),
     st_hist_evaluations := sorted_set (st_hist_evaluations s),
     st_hist_gates := sort_dict (st_hist_gates s),
     st_hist_origins := sort_dict (st_hist_origins s)\<rparr>"

text \<open>The three statements on the rules digest, which a replay executes before and after the events.\<close>

definition settle_rules ::
  "pyrt \<Rightarrow> authority_context option \<Rightarrow> project_state \<Rightarrow> pse_error + project_state" where
  "settle_rules rt au s =
     (if historical au \<and> st_rules_digest s \<notin> {[], RULES_DIGEST rt}
      then Inl (IntegrityError RulesDigestMismatch)
      else if st_rules_digest s = [] \<and> historical au then Inl (IntegrityError RulesDigestEmpty)
      else if st_rules_digest s = [] then Inr (s\<lparr>st_rules_digest := RULES_DIGEST rt\<rparr>)
      else Inr s)"

definition project_health :: "project_state \<Rightarrow> project_state" where
  "project_health s =
     (let t = s\<lparr>st_recent_changes := last_ten (st_contributing_events s)\<rparr>
      in t\<lparr>st_health_flags := sorted_set (evaluate_health_flags t (state_cycles t)
             @ filter (\<lambda>f. f \<in> set drift_flags) (st_health_flags t))\<rparr>)"

definition seal_revision :: "pyrt \<Rightarrow> project_state \<Rightarrow> pse_error + project_state" where
  "seal_revision rt s = bindE (compute_state_revision rt (state_dump s))
     (\<lambda>rev. Inr (s\<lparr>st_state_revision := rev\<rparr>))"

definition compute_projections ::
  "pyrt \<Rightarrow> authority_context option \<Rightarrow> project_state \<Rightarrow> pse_error + project_state" where
  "compute_projections rt au s =
     bindE (settle_rules rt au (project_registers (project_decisions (project_tasks s))))
       (\<lambda>t. seal_revision rt (project_health t))"

subsection \<open>Replay\<close>

definition preload_task ::
  "pyrt \<Rightarrow> authority_context option \<Rightarrow> task_view \<Rightarrow> project_state \<Rightarrow> pse_error + project_state" where
  "preload_task rt au v s =
     (if au \<noteq> None \<and> task_view_expected rt v \<noteq> tv_digest v then Inl (IntegrityError TaskViewDigest)
      else Inr (s\<lparr>st_tasks := AList.update (tv_task_id v) v (st_tasks s)\<rparr>))"

definition preload_decision ::
  "pyrt \<Rightarrow> authority_context option \<Rightarrow> decision_view \<Rightarrow> project_state \<Rightarrow> pse_error + project_state" where
  "preload_decision rt au v s =
     (if au \<noteq> None \<and> decision_view_expected rt v \<noteq> dv_digest v
      then Inl (IntegrityError DecisionViewDigest)
      else Inr (s\<lparr>st_decisions := AList.update (dv_decision_id v) v (st_decisions s)\<rparr>))"

text \<open>\<open>Inl\<close> the exception for a stream without a project, else the project of the replay.\<close>

definition target_project ::
  "project_event list \<Rightarrow> project_state option \<Rightarrow> string option \<Rightarrow> pse_error + string" where
  "target_project es init pid =
     (if es = [] \<and> init = None \<and> pid = None then Inl (IntegrityError EmptyStream)
      else case pid of
        Some (c # r) \<Rightarrow> Inr (c # r)
      | _ \<Rightarrow> (case init of Some s \<Rightarrow> Inr (st_project_id s)
          | None \<Rightarrow> (case es of [] \<Rightarrow> Inl PyError | e # _ \<Rightarrow> Inr (ev_project_id e))))"

definition start_state ::
  "pyrt \<Rightarrow> string \<Rightarrow> project_state option \<Rightarrow> string \<Rightarrow> pse_error + project_state" where
  "start_state rt rv init pid = (case init of
       Some s \<Rightarrow> if st_project_id s \<noteq> pid then Inl (IntegrityError InitialStateProject) else Inr s
     | None \<Rightarrow> initial_project_state pid rv (RULES_DIGEST rt))"

definition reduce_internal ::
  "pyrt \<Rightarrow> string \<Rightarrow> project_event list \<Rightarrow> project_state option \<Rightarrow> task_view list \<Rightarrow>
   decision_view list \<Rightarrow> string option \<Rightarrow> authority_context option \<Rightarrow> pse_error + project_state" where
  "reduce_internal rt rv es init tvs dvs pid au =
     bindE (target_project es init pid) (\<lambda>target.
     bindE (start_state rt rv init target) (\<lambda>s0.
     bindE (settle_rules rt au s0) (\<lambda>s1.
     bindE (if historical au then Inr s1 else foldE (preload_task rt au) tvs s1) (\<lambda>s2.
     bindE (if historical au then Inr s2 else foldE (preload_decision rt au) dvs s2) (\<lambda>s3.
     bindE (foldE (apply_event rt rv au) es s3) (compute_projections rt au))))))"

subsection \<open>Snapshots\<close>

definition restore_from_snapshot ::
  "pyrt \<Rightarrow> string \<Rightarrow> snapshot \<Rightarrow> project_event list \<Rightarrow> authority_context option \<Rightarrow>
   pse_error + project_state" where
  "restore_from_snapshot rt rv n tail au =
     bindE (verify_integrity rt n) (\<lambda>ok.
       let s = sn_state n in
       if \<not> ok then Inl SnapshotIntegrity
       else if sn_schema_version n \<noteq> STATE_SCHEMA_VERSION then Inl SnapshotIntegrity
       else if sn_rules_version n \<noteq> rv then Inl SnapshotIntegrity
       else if st_rules_digest s = [] \<or> st_rules_digest s \<noteq> RULES_DIGEST rt then Inl SnapshotIntegrity
       else case tail of
         [] \<Rightarrow> Inr s
       | e # es \<Rightarrow>
           if ev_sequence e \<noteq> st_last_event_sequence s + 1 then Inl (IntegrityError TailGap)
           else if ev_prev_event_hash e \<noteq> st_last_event_hash s then Inl (IntegrityError TailHash)
           else bindE (foldE (apply_event rt rv au) tail s) (compute_projections rt au))"

definition verify_snapshot_lineage :: "snapshot \<Rightarrow> int \<Rightarrow> string \<Rightarrow> bool" where
  "verify_snapshot_lineage n sqn head_hash =
     (sn_last_event_sequence n = sqn \<and> sn_last_event_hash n = head_hash)"

end
