(* ===== verification/Replay_Simulation.thy ===== *)
theory Replay_Simulation
  imports Reducer
begin

text \<open>
  The projections of a state do not influence a replay. Two working states \<open>agree\<close> when they hold
  the same facts: the same scalar fields and entities, the same open lists, references and gates
  as sets, the same dictionaries as maps, and the same drift flags. Every handler takes states
  that agree to states that agree, or raises the same exception in both; the projections are a
  function of the class. So replaying from a projected state, which is what a snapshot holds,
  gives the same state as replaying the whole ledger.
\<close>

subsection \<open>Agreement\<close>

definition state_wf :: "project_state \<Rightarrow> bool" where
  "state_wf s \<longleftrightarrow>
     distinct (st_open_risks s) \<and> distinct (st_open_issues s)
     \<and> distinct (st_active_assumptions s) \<and> distinct (st_active_dependencies s)
     \<and> dict_wf (st_raci s) \<and> (\<forall>(r, actors) \<in> set (st_raci s). sorted_set actors = actors)
     \<and> dict_wf (st_evidence_kinds s) \<and> fst ` set (st_evidence_kinds s) \<subseteq> set (st_attached_evidence s)
     \<and> dict_wf (st_hist_approved s) \<and> dict_wf (st_hist_receipts s)
     \<and> dict_wf (st_hist_gates s) \<and> dict_wf (st_hist_origins s)"

definition drift_of :: "project_state \<Rightarrow> string set" where
  "drift_of s = set (st_health_flags s) \<inter> set drift_flags"

definition agree :: "project_state \<Rightarrow> project_state \<Rightarrow> bool" where
  "agree s t \<longleftrightarrow>
     st_project_id s = st_project_id t \<and> st_current_phase s = st_current_phase t
     \<and> st_owner s = st_owner t \<and> st_phase_history s = st_phase_history t
     \<and> st_schema_version s = st_schema_version t \<and> st_rules_version s = st_rules_version t
     \<and> st_rules_digest s = st_rules_digest t
     \<and> st_last_event_sequence s = st_last_event_sequence t
     \<and> st_last_event_hash s = st_last_event_hash t
     \<and> st_tasks s = st_tasks t \<and> st_decisions s = st_decisions t
     \<and> st_risks s = st_risks t \<and> st_issues s = st_issues t
     \<and> st_assumptions s = st_assumptions t \<and> st_dependencies s = st_dependencies t
     \<and> st_contributing_events s = st_contributing_events t
     \<and> set (st_open_risks s) = set (st_open_risks t) \<and> set (st_open_issues s) = set (st_open_issues t)
     \<and> set (st_active_assumptions s) = set (st_active_assumptions t)
     \<and> set (st_active_dependencies s) = set (st_active_dependencies t)
     \<and> set (st_overridden_gates s) = set (st_overridden_gates t)
     \<and> set (st_attached_evidence s) = set (st_attached_evidence t)
     \<and> set (st_hist_evaluations s) = set (st_hist_evaluations t)
     \<and> map_of (st_raci s) = map_of (st_raci t)
     \<and> map_of (st_evidence_kinds s) = map_of (st_evidence_kinds t)
     \<and> map_of (st_hist_approved s) = map_of (st_hist_approved t)
     \<and> map_of (st_hist_receipts s) = map_of (st_hist_receipts t)
     \<and> map_of (st_hist_gates s) = map_of (st_hist_gates t)
     \<and> map_of (st_hist_origins s) = map_of (st_hist_origins t)
     \<and> drift_of s = drift_of t"

definition sim :: "project_state \<Rightarrow> project_state \<Rightarrow> bool" where
  "sim s t \<longleftrightarrow> state_wf s \<and> state_wf t \<and> agree s t"

abbreviation simE :: "pse_error + project_state \<Rightarrow> pse_error + project_state \<Rightarrow> bool" where
  "simE \<equiv> rel_sum (=) sim"

lemma sim_refl: "state_wf s \<Longrightarrow> sim s s"
  by (simp add: sim_def agree_def)

lemma sim_wf: "sim s t \<Longrightarrow> state_wf s \<and> state_wf t"
  by (simp add: sim_def)

lemma simE_bind:
  "simE m m' \<Longrightarrow> (\<And>x y. sim x y \<Longrightarrow> simE (f x) (g y)) \<Longrightarrow> simE (bindE m f) (bindE m' g)"
  by (cases m; cases m') auto

lemma simE_bind_same: "(\<And>x. simE (f x) (g x)) \<Longrightarrow> simE (bindE m f) (bindE m g)"
  by (cases m) auto

lemma simE_fold:
  assumes "\<And>x s t. sim s t \<Longrightarrow> simE (f x s) (f x t)" and "sim s t"
  shows "simE (foldE f xs s) (foldE f xs t)"
  using assms(2)
proof (induction xs arbitrary: s t)
  case (Cons x xs)
  have "simE (f x s) (f x t)" by (rule assms(1) [OF Cons.prems])
  then show ?case by (auto intro!: simE_bind Cons.IH)
qed simp

lemma sort_cong_distinct: "distinct xs \<Longrightarrow> distinct ys \<Longrightarrow> set xs = set ys \<Longrightarrow> sort xs = sort ys"
  by (rule sorted_distinct_set_unique) simp_all

lemma dict_set_eq: "dict_wf d \<Longrightarrow> dict_wf e \<Longrightarrow> map_of d = map_of e \<Longrightarrow> set d = set e"
  by (metis map_of_inject_set)

lemma sort_dict_eq: "dict_wf d \<Longrightarrow> dict_wf e \<Longrightarrow> map_of d = map_of e \<Longrightarrow> sort_dict d = sort_dict e"
  by (rule sort_dict_unique) (auto dest: dict_set_eq)

text \<open>The fields a handler reads, as equations from the right state to the left one.\<close>

lemma sim_exact:
  assumes "sim s t"
  shows "st_project_id t = st_project_id s" "st_current_phase t = st_current_phase s"
    "st_owner t = st_owner s" "st_phase_history t = st_phase_history s"
    "st_rules_digest t = st_rules_digest s"
    "st_last_event_sequence t = st_last_event_sequence s"
    "st_last_event_hash t = st_last_event_hash s"
    "st_tasks t = st_tasks s" "st_decisions t = st_decisions s" "st_risks t = st_risks s"
    "st_issues t = st_issues s" "st_assumptions t = st_assumptions s"
    "st_dependencies t = st_dependencies s" "st_contributing_events t = st_contributing_events s"
  using assms by (simp_all add: sim_def agree_def)

lemma sim_sets:
  assumes "sim s t"
  shows "set (st_open_risks t) = set (st_open_risks s)" "set (st_open_issues t) = set (st_open_issues s)"
    "set (st_overridden_gates t) = set (st_overridden_gates s)"
    "set (st_attached_evidence t) = set (st_attached_evidence s)"
    "sort (st_open_issues t) = sort (st_open_issues s)"
    "map_of (st_raci t) = map_of (st_raci s)" "set (st_raci t) = set (st_raci s)"
    "set (st_evidence_kinds t) = set (st_evidence_kinds s)"
    "set (st_hist_approved t) = set (st_hist_approved s)"
    "set (st_hist_receipts t) = set (st_hist_receipts s)"
    "map_of (st_hist_gates t) = map_of (st_hist_gates s)"
    "map_of (st_hist_origins t) = map_of (st_hist_origins s)"
proof -
  note a = assms [unfolded sim_def agree_def state_wf_def]
  show "set (st_open_risks t) = set (st_open_risks s)" "set (st_open_issues t) = set (st_open_issues s)"
    "set (st_overridden_gates t) = set (st_overridden_gates s)"
    "set (st_attached_evidence t) = set (st_attached_evidence s)"
    "map_of (st_raci t) = map_of (st_raci s)"
    "map_of (st_hist_gates t) = map_of (st_hist_gates s)"
    "map_of (st_hist_origins t) = map_of (st_hist_origins s)"
    using a by simp_all
  show "sort (st_open_issues t) = sort (st_open_issues s)"
    by (rule sort_cong_distinct) (use a in simp_all)
  show "set (st_raci t) = set (st_raci s)" "set (st_evidence_kinds t) = set (st_evidence_kinds s)"
    "set (st_hist_approved t) = set (st_hist_approved s)"
    "set (st_hist_receipts t) = set (st_hist_receipts s)"
    by (rule dict_set_eq; use a in simp)+
qed

subsection \<open>RAID handlers\<close>

named_theorems sim_intros \<open>introduction rules for agreement\<close>

lemma simE_same [sim_intros]: "sim s t \<Longrightarrow> simE (Inr s) (Inr t)"
  by simp

lemma simE_error [sim_intros]: "simE (Inl x) (Inl x)"
  by simp

lemma simE_if [sim_intros]:
  "(b \<Longrightarrow> simE x y) \<Longrightarrow> (\<not> b \<Longrightarrow> simE x' y') \<Longrightarrow> simE (if b then x else x') (if b then y else y')"
  by simp

lemma simE_option [sim_intros]:
  "(z = None \<Longrightarrow> simE x y) \<Longrightarrow> (\<And>k. z = Some k \<Longrightarrow> simE (f k) (g k)) \<Longrightarrow>
   simE (case z of None \<Rightarrow> x | Some k \<Rightarrow> f k) (case z of None \<Rightarrow> y | Some k \<Rightarrow> g k)"
  by (cases z) simp_all

lemmas [sim_intros] = simE_bind_same

text \<open>One rule for each way a register changes: with its entities, or its open list alone.\<close>

lemma sim_risks [sim_intros]:
  "sim s t \<Longrightarrow> distinct l \<Longrightarrow> distinct l' \<Longrightarrow> set l = set l' \<Longrightarrow>
   sim (s\<lparr>st_risks := d, st_open_risks := l\<rparr>) (t\<lparr>st_risks := d, st_open_risks := l'\<rparr>)"
  "sim s t \<Longrightarrow> distinct l \<Longrightarrow> distinct l' \<Longrightarrow> set l = set l' \<Longrightarrow>
   sim (s\<lparr>st_open_risks := l\<rparr>) (t\<lparr>st_open_risks := l'\<rparr>)"
  unfolding sim_def by (elim conjE; intro conjI; simp add: state_wf_def agree_def drift_of_def)+

lemma sim_assumptions [sim_intros]:
  "sim s t \<Longrightarrow> distinct l \<Longrightarrow> distinct l' \<Longrightarrow> set l = set l' \<Longrightarrow>
   sim (s\<lparr>st_assumptions := d, st_active_assumptions := l\<rparr>) (t\<lparr>st_assumptions := d, st_active_assumptions := l'\<rparr>)"
  "sim s t \<Longrightarrow> distinct l \<Longrightarrow> distinct l' \<Longrightarrow> set l = set l' \<Longrightarrow>
   sim (s\<lparr>st_active_assumptions := l\<rparr>) (t\<lparr>st_active_assumptions := l'\<rparr>)"
  unfolding sim_def by (elim conjE; intro conjI; simp add: state_wf_def agree_def drift_of_def)+

lemma sim_issues [sim_intros]:
  "sim s t \<Longrightarrow> distinct l \<Longrightarrow> distinct l' \<Longrightarrow> set l = set l' \<Longrightarrow>
   sim (s\<lparr>st_issues := d, st_open_issues := l\<rparr>) (t\<lparr>st_issues := d, st_open_issues := l'\<rparr>)"
  "sim s t \<Longrightarrow> distinct l \<Longrightarrow> distinct l' \<Longrightarrow> set l = set l' \<Longrightarrow>
   sim (s\<lparr>st_open_issues := l\<rparr>) (t\<lparr>st_open_issues := l'\<rparr>)"
  unfolding sim_def by (elim conjE; intro conjI; simp add: state_wf_def agree_def drift_of_def)+

lemma sim_dependencies [sim_intros]:
  "sim s t \<Longrightarrow> distinct l \<Longrightarrow> distinct l' \<Longrightarrow> set l = set l' \<Longrightarrow>
   sim (s\<lparr>st_dependencies := d, st_active_dependencies := l\<rparr>) (t\<lparr>st_dependencies := d, st_active_dependencies := l'\<rparr>)"
  "sim s t \<Longrightarrow> distinct l \<Longrightarrow> distinct l' \<Longrightarrow> set l = set l' \<Longrightarrow>
   sim (s\<lparr>st_active_dependencies := l\<rparr>) (t\<lparr>st_active_dependencies := l'\<rparr>)"
  unfolding sim_def by (elim conjE; intro conjI; simp add: state_wf_def agree_def drift_of_def)+

lemma sim_lists:
  assumes "sim s t"
  shows "distinct (st_open_risks s)" "distinct (st_open_issues s)" "distinct (st_active_assumptions s)"
    "distinct (st_active_dependencies s)" "distinct (st_open_risks t)" "distinct (st_open_issues t)"
    "distinct (st_active_assumptions t)" "distinct (st_active_dependencies t)"
    "set (st_active_assumptions t) = set (st_active_assumptions s)"
    "set (st_active_dependencies t) = set (st_active_dependencies s)"
  using assms by (simp_all add: sim_def agree_def state_wf_def)

lemmas raid_defs =
  handle_risk_opened_def handle_risk_updated_def handle_risk_closed_def
  handle_assumption_created_def handle_assumption_updated_def handle_assumption_invalidated_def
  handle_issue_opened_def handle_issue_updated_def handle_issue_closed_def
  handle_dependency_created_def handle_dependency_updated_def handle_dependency_resolved_def

lemma sim_raid_handlers:
  assumes "sim s t"
  shows "simE (handle_risk_opened e s) (handle_risk_opened e t)"
    "simE (handle_risk_updated e s) (handle_risk_updated e t)"
    "simE (handle_risk_closed e s) (handle_risk_closed e t)"
    "simE (handle_assumption_created rt e s) (handle_assumption_created rt e t)"
    "simE (handle_assumption_updated rt e s) (handle_assumption_updated rt e t)"
    "simE (handle_assumption_invalidated e s) (handle_assumption_invalidated e t)"
    "simE (handle_issue_opened e s) (handle_issue_opened e t)"
    "simE (handle_issue_updated e s) (handle_issue_updated e t)"
    "simE (handle_issue_closed e s) (handle_issue_closed e t)"
    "simE (handle_dependency_created e s) (handle_dependency_created e t)"
    "simE (handle_dependency_updated e s) (handle_dependency_updated e t)"
    "simE (handle_dependency_resolved e s) (handle_dependency_resolved e t)"
  unfolding raid_defs Let_def sim_exact [OF assms]
  by (intro sim_intros assms;
      simp add: sim_lists [OF assms] sim_sets [OF assms] set_remove1_eq)+

subsection \<open>The policy engine\<close>

definition au_agree :: "authority_context \<Rightarrow> authority_context \<Rightarrow> bool" where
  "au_agree a b \<longleftrightarrow> a\<lparr>au_raci := []\<rparr> = b\<lparr>au_raci := []\<rparr> \<and> set (au_raci a) = set (au_raci b)"

lemma au_agreeD:
  assumes "au_agree a b"
  shows "au_attached_evidence b = au_attached_evidence a"
    "au_approved_decision_ids b = au_approved_decision_ids a"
    "au_accountable_actor b = au_accountable_actor a"
    "au_verified_task_receipts b = au_verified_task_receipts a"
    "au_historical b = au_historical a"
    "au_charter_evidence_refs b = au_charter_evidence_refs a"
    "au_cardinality_valid b = au_cardinality_valid a" "set (au_raci b) = set (au_raci a)"
  using assms by (cases a; cases b; simp add: au_agree_def)+

lemma accountable_actors_cong:
  "set raci = set raci' \<Longrightarrow> accountable_actors raci = accountable_actors raci'"
  unfolding accountable_actors_def by (rule sorted_set_cong) simp

lemma au_rel_cases:
  assumes "rel_option au_agree x y"
  obtains "x = None" "y = None" | a b where "x = Some a" "y = Some b" "au_agree a b"
  using assms by (cases x; cases y) auto

lemma effective_authority_sim:
  assumes "sim s t"
  shows "rel_option au_agree (effective_authority s au) (effective_authority t au)"
proof (cases au)
  case (Some a)
  let ?prior = "\<lambda>s. map (\<lambda>(role, actors). (role, sort actors))
                (filter (\<lambda>(role, actors). actors \<noteq> []) (st_raci s))"
  have raci: "set (?prior t) = set (?prior s)" by (simp add: sim_sets [OF assms])
  have "accountable_actors (?prior t) = accountable_actors (?prior s)"
    by (rule accountable_actors_cong [OF raci])
  then show ?thesis using Some
    by (simp add: effective_authority_def Let_def au_agree_def sim_exact [OF assms]
        sim_sets [OF assms] known_at_def charter_refs_def)
qed (simp add: effective_authority_def)

lemma blocking_issue_sim: "sim s t \<Longrightarrow> blocking_issue t = blocking_issue s"
  by (rule ext) (simp add: blocking_issue_def sim_exact)

lemma evaluate_dor_sim: "sim s t \<Longrightarrow> evaluate_dor t tp = evaluate_dor s tp"
  by (simp add: evaluate_dor_def sim_exact sim_sets blocking_issue_sim Let_def)

lemma evaluate_dod_sim:
  assumes "sim s t" "rel_option au_agree x y"
  shows "evaluate_dod t tp eo y = evaluate_dod s tp eo x"
proof -
  have "dod_evidence_present t eo y = dod_evidence_present s eo x"
    by (rule au_rel_cases [OF assms(2)])
      (simp_all only: dod_evidence_present_def sim_exact [OF assms(1)] option.case au_agreeD)
  then show ?thesis
    by (simp add: evaluate_dod_def sim_exact [OF assms(1)] sim_sets [OF assms(1)]
        blocking_issue_sim [OF assms(1)] Let_def)
qed

lemma claims_accountable_sim: "au_agree a b \<Longrightarrow> claims_accountable p b = claims_accountable p a"
  unfolding claims_accountable_def by (simp only: au_agreeD)

lemma evaluate_precondition_sim:
  assumes "sim s t" "au_agree a b"
  shows "evaluate_precondition c t e b = evaluate_precondition c s e a"
proof -
  have "evaluate_dod t CLOSED (Some e) (Some b) = evaluate_dod s CLOSED (Some e) (Some a)"
    by (rule evaluate_dod_sim) (use assms in simp_all)
  moreover have "list_ex (blocking_issue t) (st_open_issues t) = list_ex (blocking_issue s) (st_open_issues s)"
    by (simp add: list_ex_iff blocking_issue_sim [OF assms(1)] sim_sets [OF assms(1)])
  moreover have "(st_open_issues t = []) = (st_open_issues s = [])"
    by (metis sim_sets(2) [OF assms(1)] set_empty)
  ultimately show ?thesis
    by (simp add: evaluate_precondition_def au_agreeD [OF assms(2)] sim_exact [OF assms(1)]
        sim_sets [OF assms(1)] evaluate_dor_sim [OF assms(1)] all_tasks_terminal_def
        claims_accountable_sim [OF assms(2)])
qed

lemma evaluate_transition_sim:
  assumes "sim s t" "rel_option au_agree x y"
  shows "evaluate_transition pv t tp e y = evaluate_transition pv s tp e x"
proof -
  have ev: "check_evidence pv e spec y = check_evidence pv e spec x" for spec
    using assms(2) by (cases x; cases y) (simp_all add: check_evidence_def unresolved_refs_def au_agreeD)
  have ap: "check_approval pv t e spec y = check_approval pv s e spec x" for spec
    using assms(2) by (cases x; cases y)
      (simp_all add: check_approval_def has_approval_def resolve_canonical_approval_def
        claims_accountable_sim au_agreeD sim_exact [OF assms(1)])
  have pre: "check_preconditions pv t e spec y = check_preconditions pv s e spec x" for spec
    using assms(2) by (cases x; cases y)
      (simp_all add: check_preconditions_def evaluate_precondition_sim [OF assms(1)])
  have gate: "check_gate pv t tp e spec y = check_gate pv s tp e spec x" for spec
    unfolding check_gate_def evaluate_dor_sim [OF assms(1)] evaluate_dod_sim [OF assms]
      sim_sets [OF assms(1)] ..
  have card: "(case y of None \<Rightarrow> False | Some a \<Rightarrow> \<not> au_cardinality_valid a) =
              (case x of None \<Rightarrow> False | Some a \<Rightarrow> \<not> au_cardinality_valid a)"
    using assms(2) by (cases x; cases y) (simp_all add: au_agreeD)
  show ?thesis
    unfolding evaluate_transition_def ev ap pre gate card sim_exact [OF assms(1)] ..
qed

lemma evaluate_gate_override_sim:
  assumes "rel_option au_agree x y"
  shows "evaluate_gate_override pv e y = evaluate_gate_override pv e x"
proof (cases x)
  case None
  then show ?thesis using assms by simp
next
  case (Some a)
  then obtain b where y: "y = Some b" and ab: "au_agree a b"
    using assms by (cases y) auto
  have auth: "set (authorized_actors b) = set (authorized_actors a)"
    by (simp add: authorized_actors_def au_agreeD [OF ab])
  have hist: "override_history pv e b = override_history pv e a"
    unfolding override_history_def unresolved_refs_def au_agreeD [OF ab] ..
  have authority: "override_authority pv e b = override_authority pv e a"
    unfolding override_authority_def au_agreeD [OF ab] auth ..
  show ?thesis
    unfolding Some y evaluate_gate_override_def option.case hist authority ..
qed

subsection \<open>Governance handlers\<close>

lemma sim_updates [sim_intros]:
  "sim s t \<Longrightarrow> sim (s\<lparr>st_current_phase := p\<rparr>) (t\<lparr>st_current_phase := p\<rparr>)"
  "sim s t \<Longrightarrow> sim (s\<lparr>st_owner := w\<rparr>) (t\<lparr>st_owner := w\<rparr>)"
  "sim s t \<Longrightarrow> sim (s\<lparr>st_tasks := d\<rparr>) (t\<lparr>st_tasks := d\<rparr>)"
  "sim s t \<Longrightarrow> sim (s\<lparr>st_decisions := d'\<rparr>) (t\<lparr>st_decisions := d'\<rparr>)"
  "sim s t \<Longrightarrow> set g = set g' \<Longrightarrow> sim (s\<lparr>st_overridden_gates := g\<rparr>) (t\<lparr>st_overridden_gates := g'\<rparr>)"
  "sim s t \<Longrightarrow> set g = set g' \<Longrightarrow>
     sim (s\<lparr>st_hist_evaluations := g\<rparr>) (t\<lparr>st_hist_evaluations := g'\<rparr>)"
  unfolding sim_def by (elim conjE; intro conjI; simp add: state_wf_def agree_def drift_of_def)+

lemma sim_raci [sim_intros]:
  "sim s t \<Longrightarrow> dict_wf r \<Longrightarrow> dict_wf r' \<Longrightarrow> map_of r = map_of r' \<Longrightarrow>
   \<forall>(k, v) \<in> set r. sorted_set v = v \<Longrightarrow> sim (s\<lparr>st_raci := r\<rparr>) (t\<lparr>st_raci := r'\<rparr>)"
  using dict_set_eq [of r r'] unfolding sim_def
  by (elim conjE; intro conjI; simp add: state_wf_def agree_def drift_of_def)

lemma sim_hist:
  "sim s t \<Longrightarrow> dict_wf a \<Longrightarrow> dict_wf a' \<Longrightarrow> map_of a = map_of a' \<Longrightarrow>
   sim (s\<lparr>st_hist_approved := a\<rparr>) (t\<lparr>st_hist_approved := a'\<rparr>)"
  "sim s t \<Longrightarrow> dict_wf a \<Longrightarrow> dict_wf a' \<Longrightarrow> map_of a = map_of a' \<Longrightarrow>
   sim (s\<lparr>st_hist_receipts := a\<rparr>) (t\<lparr>st_hist_receipts := a'\<rparr>)"
  "sim s t \<Longrightarrow> dict_wf a \<Longrightarrow> dict_wf a' \<Longrightarrow> map_of a = map_of a' \<Longrightarrow>
   sim (s\<lparr>st_hist_gates := a\<rparr>) (t\<lparr>st_hist_gates := a'\<rparr>)"
  "sim s t \<Longrightarrow> dict_wf b \<Longrightarrow> dict_wf b' \<Longrightarrow> map_of b = map_of b' \<Longrightarrow>
   sim (s\<lparr>st_hist_origins := b\<rparr>) (t\<lparr>st_hist_origins := b'\<rparr>)"
  unfolding sim_def by (elim conjE; intro conjI; simp add: state_wf_def agree_def drift_of_def)+

lemma sim_hist_maps:
  assumes "sim s t"
  shows "map_of (st_hist_approved t) = map_of (st_hist_approved s)"
    "map_of (st_hist_receipts t) = map_of (st_hist_receipts s)"
    "dict_wf (st_hist_approved s)" "dict_wf (st_hist_approved t)"
    "dict_wf (st_hist_receipts s)" "dict_wf (st_hist_receipts t)"
    "dict_wf (st_hist_gates s)" "dict_wf (st_hist_gates t)"
    "dict_wf (st_hist_origins s)" "dict_wf (st_hist_origins t)"
    "dict_wf (st_raci s)" "dict_wf (st_raci t)"
    "\<forall>(k, v) \<in> set (st_raci s). sorted_set v = v"
  using assms by (simp_all add: sim_def agree_def state_wf_def)

lemma sorted_set_idem [simp]: "sorted_set (sorted_set xs) = sorted_set xs"
  by (rule sorted_set_id) simp_all

lemma update_all:
  assumes "dict_wf d" "\<forall>(k, v) \<in> set d. P v" "P w"
  shows "\<forall>(k, v) \<in> set (AList.update a w d). P v"
proof -
  have "P v" if "(k, v) \<in> set (AList.update a w d)" for k v
  proof -
    have "map_of (AList.update a w d) k = Some v"
      using that assms(1) by (intro map_of_is_SomeI) simp_all
    then have "v = w \<or> (k, v) \<in> set d"
      by (simp split: if_splits) (auto dest: map_of_SomeD)
    then show ?thesis using assms(2,3) by blast
  qed
  then show ?thesis by blast
qed

lemma delete_all: "\<forall>(k, v) \<in> set d. P v \<Longrightarrow> \<forall>(k, v) \<in> set (AList.delete a d). P v"
  by (auto simp: AList.delete_eq)

lemma handle_project_owner_sim: "sim s t \<Longrightarrow> sim (handle_project_owner e s) (handle_project_owner e t)"
  by (simp add: handle_project_owner_def Let_def sim_updates)

lemma handle_raci_sim:
  assumes "sim s t"
  shows "sim (handle_raci_assigned e s) (handle_raci_assigned e t)"
    "sim (handle_raci_revoked e s) (handle_raci_revoked e t)"
proof -
  have get: "raci_get r (st_raci t) = raci_get r (st_raci s)" for r
    by (simp add: raci_get_def sim_sets [OF assms])
  note facts = sim_hist_maps [OF assms] sim_sets(6) [OF assms]
  show "sim (handle_raci_assigned e s) (handle_raci_assigned e t)"
    unfolding handle_raci_assigned_def Let_def get
    by (simp add: assms) (intro impI sim_raci assms update_all; simp add: facts)
  show "sim (handle_raci_revoked e s) (handle_raci_revoked e t)"
    unfolding handle_raci_revoked_def Let_def get
    by (simp add: assms)
      (intro conjI impI sim_raci assms update_all delete_all; simp add: facts)
qed

lemma fold_update_wf: "dict_wf d \<Longrightarrow> dict_wf (fold (\<lambda>r. AList.update r k) refs d)"
  by (induction refs arbitrary: d) simp_all

lemma fold_update_map:
  "map_of d = map_of d' \<Longrightarrow>
   map_of (fold (\<lambda>r. AList.update r k) refs d) = map_of (fold (\<lambda>r. AList.update r k) refs d')"
  by (induction refs arbitrary: d d') simp_all

lemma set_fold_list_add [simp]: "set (fold list_add refs xs) = set refs \<union> set xs"
  by (induction refs arbitrary: xs) auto

lemma handle_evidence_attached_sim:
  assumes "sim s t"
  shows "sim (handle_evidence_attached e s) (handle_evidence_attached e t)"
proof -
  let ?refs = "collect_evidence_refs e"
  let ?kinds = "\<lambda>u. case evidence_kind (ev_payload e) of None \<Rightarrow> st_evidence_kinds u
            | Some k \<Rightarrow> fold (\<lambda>r. AList.update r k) ?refs (st_evidence_kinds u)"
  have att: "sorted_set (fold list_add ?refs (st_attached_evidence t)) =
             sorted_set (fold list_add ?refs (st_attached_evidence s))"
    by (rule sorted_set_cong) (simp add: sim_sets [OF assms])
  have wf: "dict_wf (?kinds s)" "dict_wf (?kinds t)"
    using assms by (auto simp: sim_def state_wf_def fold_update_wf split: option.split)
  have "map_of (?kinds t) = map_of (?kinds s)"
    using assms by (auto simp: sim_def agree_def intro!: fold_update_map split: option.split)
  then have kinds: "sort_dict (?kinds t) = sort_dict (?kinds s)"
    using wf by (intro sort_dict_eq)
  show ?thesis
    unfolding handle_evidence_attached_def Let_def att kinds
    using assms wf(1) unfolding sim_def
    by (elim conjE; intro conjI; simp add: state_wf_def agree_def drift_of_def distinct_map_filter)
      (auto simp: image_subset_iff)
qed

lemma simE_sum:
  "(\<And>x. m = Inl x \<Longrightarrow> simE (f x) (f' x)) \<Longrightarrow> (\<And>y. m = Inr y \<Longrightarrow> simE (g y) (g' y)) \<Longrightarrow>
   simE (case m of Inl x \<Rightarrow> f x | Inr y \<Rightarrow> g y) (case m of Inl x \<Rightarrow> f' x | Inr y \<Rightarrow> g' y)"
  by (cases m) simp_all

lemma bind_view_sim:
  assumes "sim s t"
  shows "simE (bind_task_view rt v s) (bind_task_view rt v t)"
    "simE (bind_decision_view rt w s) (bind_decision_view rt w t)"
  unfolding bind_task_view_def bind_decision_view_def sim_exact [OF assms]
  by (intro sim_intros assms)+

lemma bind_approval_sim: "sim s t \<Longrightarrow> simE (bind_approval n d s) (bind_approval n d t)"
  by (simp add: bind_approval_def sim_exact sim_hist_maps sim_hist)

lemma record_passed_sim:
  assumes "sim s t"
  shows "simE (record_passed e h s) (record_passed e h t)"
proof -
  let ?up = "\<lambda>u. u\<lparr>st_hist_gates := AList.update (phase_str (he_evaluated_phase h)) (ev_sequence e) (st_hist_gates u),
     st_hist_origins := AList.update (phase_str (he_evaluated_phase h))
       (phase_str (he_evaluated_from_phase h)) (st_hist_origins u)\<rparr>"
  have "sim (?up s) (?up t)"
    by (intro sim_hist assms) (simp_all add: sim_hist_maps [OF assms] sim_sets [OF assms])
  then show ?thesis unfolding record_passed_def Let_def
    by (intro simE_if simE_error simE_bind [OF simE_fold] bind_approval_sim)
      (auto intro!: sim_hist fold_update_wf fold_update_map simp: sim_hist_maps)
qed

lemma handle_historical_evaluation_sim:
  assumes "sim s t"
  shows "simE (handle_historical_evaluation rt rv au e s) (handle_historical_evaluation rt rv au e t)"
proof -
  have fault: "evaluation_fault rt rv e h t = evaluation_fault rt rv e h s" for h
    unfolding evaluation_fault_def sim_exact [OF assms] sim_sets [OF assms]
      accountable_actors_cong [OF sim_sets(7) [OF assms]] ..
  show ?thesis
    unfolding handle_historical_evaluation_def fault
    by (intro simE_if simE_error simE_sum simE_option simE_bind [OF simE_fold] simE_bind [OF simE_if]
        record_passed_sim bind_view_sim assms simE_same sim_updates(6))
      (simp_all add: sim_def agree_def)
qed

lemma handle_phase_transition_sim:
  assumes "sim s t"
  shows "simE (handle_phase_transition rt rv au e s) (handle_phase_transition rt rv au e t)"
proof -
  have miss: "missing_evaluation au tp t = missing_evaluation au tp s" for tp
    unfolding missing_evaluation_def gate_evaluated_def sim_exact [OF assms] sim_sets [OF assms] ..
  have eval: "evaluate_transition rv t tp e (effective_authority t au) =
              evaluate_transition rv s tp e (effective_authority s au)" for tp
    by (rule evaluate_transition_sim [OF assms effective_authority_sim [OF assms]])
  have commit: "sim (commit_transition au tp spec r s) (commit_transition au tp spec r t)" for tp spec r
  proof -
    have "sim (s\<lparr>st_phase_history := h, st_current_phase := tp\<rparr>)
              (t\<lparr>st_phase_history := h, st_current_phase := tp\<rparr>)" for h
      using assms unfolding sim_def
      by (elim conjE; intro conjI; simp add: state_wf_def agree_def drift_of_def)
    then show ?thesis
      by (auto simp: commit_transition_def Let_def sim_exact [OF assms] sim_hist_maps [OF assms]
          sim_sets [OF assms] intro!: sim_hist)
  qed
  show ?thesis
    unfolding handle_phase_transition_def Let_def miss eval sim_exact [OF assms]
    by (intro sim_intros commit)
qed

lemma handle_gate_override_sim:
  assumes "sim s t"
  shows "simE (handle_gate_override rt rv au e s) (handle_gate_override rt rv au e t)"
  unfolding handle_gate_override_def
    evaluate_gate_override_sim [OF effective_authority_sim [OF assms]]
  by (intro sim_intros assms) (simp add: sim_sets [OF assms])

lemma note_drift_sim:
  assumes "sim s t" "stale \<in> set drift_flags" "drift \<in> set drift_flags"
  shows "sim (note_drift stale drift s) (note_drift stale drift t)"
proof -
  have "stale \<in> set (st_health_flags t) \<longleftrightarrow> stale \<in> set (st_health_flags s)"
    using assms unfolding sim_def agree_def drift_of_def by blast
  then show ?thesis
    using assms unfolding note_drift_def sim_def
    by (auto simp: state_wf_def agree_def drift_of_def)
qed

lemma view_handlers_sim:
  assumes "sim s t"
  shows "simE (handle_task_associated rt e s) (handle_task_associated rt e t)"
    "simE (handle_task_disassociated e s) (handle_task_disassociated e t)"
    "simE (handle_task_observed rt au e s) (handle_task_observed rt au e t)"
    "simE (handle_decision_associated rt e s) (handle_decision_associated rt e t)"
    "simE (handle_decision_disassociated e s) (handle_decision_disassociated e t)"
    "simE (handle_decision_observed rt au e s) (handle_decision_observed rt au e t)"
proof -
  have drift:
    "sim (note_drift ''STALE_TASK_OBSERVATION'' ''TASK_AUTHORITY_DRIFT'' s)
         (note_drift ''STALE_TASK_OBSERVATION'' ''TASK_AUTHORITY_DRIFT'' t)"
    "sim (note_drift ''STALE_DECISION_OBSERVATION'' ''DECISION_AUTHORITY_DRIFT'' s)
         (note_drift ''STALE_DECISION_OBSERVATION'' ''DECISION_AUTHORITY_DRIFT'' t)"
    by (rule note_drift_sim [OF assms]; simp add: drift_flags_def)+
  note maps = sim_hist_maps [OF assms]
  note defs = handle_task_associated_def handle_task_disassociated_def handle_task_observed_def
    handle_decision_associated_def handle_decision_disassociated_def handle_decision_observed_def
  have if_sim: "sim (if b then x else s) (if b then y else t)" if "sim x y" for b x y
    using that assms by simp
  show "simE (handle_task_associated rt e s) (handle_task_associated rt e t)"
    "simE (handle_task_disassociated e s) (handle_task_disassociated e t)"
    "simE (handle_task_observed rt au e s) (handle_task_observed rt au e t)"
    "simE (handle_decision_associated rt e s) (handle_decision_associated rt e t)"
    "simE (handle_decision_disassociated e s) (handle_decision_disassociated e t)"
    "simE (handle_decision_observed rt au e s) (handle_decision_observed rt au e t)"
    unfolding defs Let_def sim_exact [OF assms]
    by (intro if_sim drift sim_intros sim_hist(1) assms; simp add: maps)+
qed

lemma apply_event_sim:
  assumes "sim s t"
  shows "simE (apply_event rt rv au e s) (apply_event rt rv au e t)"
proof -
  have adv: "sim (advance e x) (advance e y)" if "sim x y" for x y
    using that sim_exact [OF that] unfolding sim_def advance_def
    by (elim conjE; intro conjI; simp add: state_wf_def agree_def drift_of_def)
  have raid: "simE (case apply_raid_event rt e s of Some r \<Rightarrow> r | None \<Rightarrow> Inr s)
                   (case apply_raid_event rt e t of Some r \<Rightarrow> r | None \<Rightarrow> Inr t)"
    using sim_raid_handlers [OF assms] assms by (simp add: apply_raid_event_def Let_def)
  have "simE (dispatch rt rv au e s) (dispatch rt rv au e t)"
    unfolding dispatch_def Let_def
    by (intro simE_if simE_same handle_project_owner_sim sim_updates handle_phase_transition_sim
        handle_gate_override_sim handle_raci_sim handle_evidence_attached_sim
        handle_historical_evaluation_sim view_handlers_sim raid assms)
  then show ?thesis
    unfolding apply_event_def check_chain_def sim_exact [OF assms]
    by (intro simE_option simE_error simE_bind_same simE_bind simE_same adv)
qed

subsection \<open>Projections\<close>

definition registers :: "project_state \<Rightarrow> project_state" where
  "registers s = project_registers (project_decisions (project_tasks s))"

definition blank :: "project_state \<Rightarrow> project_state" where
  "blank s = s\<lparr>st_recent_changes := [], st_health_flags := [], st_state_revision := []\<rparr>"

lemma task_status_sim: "sim s t \<Longrightarrow> task_status t = task_status s"
  by (rule ext) (simp add: task_status_def evaluate_task_readiness_def blocking_dependencies_def
      state_cycles_def explicit_dependencies_def sim_exact Let_def)

lemma registers_sim:
  assumes "sim s t"
  shows "blank (registers t) = blank (registers s)"
proof -
  note u = assms [unfolded sim_def agree_def state_wf_def]
  have lists: "sorted_set (st_open_risks t) = sorted_set (st_open_risks s)"
    "sorted_set (st_open_issues t) = sorted_set (st_open_issues s)"
    "sorted_set (st_active_assumptions t) = sorted_set (st_active_assumptions s)"
    "sorted_set (st_active_dependencies t) = sorted_set (st_active_dependencies s)"
    "sorted_set (st_overridden_gates t) = sorted_set (st_overridden_gates s)"
    "sorted_set (st_attached_evidence t) = sorted_set (st_attached_evidence s)"
    "sorted_set (st_hist_evaluations t) = sorted_set (st_hist_evaluations s)"
    by (rule sorted_set_cong; use u in simp)+
  have dicts: "sort_dict (st_raci t) = sort_dict (st_raci s)"
    "sort_dict (st_evidence_kinds t) = sort_dict (st_evidence_kinds s)"
    "sort_dict (st_hist_approved t) = sort_dict (st_hist_approved s)"
    "sort_dict (st_hist_receipts t) = sort_dict (st_hist_receipts s)"
    "sort_dict (st_hist_gates t) = sort_dict (st_hist_gates s)"
    "sort_dict (st_hist_origins t) = sort_dict (st_hist_origins s)"
    by (rule sort_dict_eq; use u in simp)+
  have tasks: "tasks_where P t = tasks_where P s" for P
    by (simp add: tasks_where_def task_status_sim [OF assms] sim_exact [OF assms])
  have versions: "st_schema_version t = st_schema_version s" "st_rules_version t = st_rules_version s"
    using u by simp_all
  show ?thesis
    by (rule project_state.equality)
      (simp_all add: blank_def registers_def project_registers_def project_decisions_def
        project_tasks_def decisions_with_def lists dicts tasks versions sim_exact [OF assms])
qed

lemma blank_fields:
  assumes "blank x = blank y"
  shows "st_tasks x = st_tasks y" "st_dependencies x = st_dependencies y" "st_issues x = st_issues y"
    "st_open_issues x = st_open_issues y" "st_risks x = st_risks y" "st_open_risks x = st_open_risks y"
    "st_blocked_tasks x = st_blocked_tasks y" "st_required_approvals x = st_required_approvals y"
    "st_contributing_events x = st_contributing_events y" "st_rules_digest x = st_rules_digest y"
  using arg_cong [OF assms, of st_tasks] arg_cong [OF assms, of st_dependencies]
    arg_cong [OF assms, of st_issues] arg_cong [OF assms, of st_open_issues]
    arg_cong [OF assms, of st_risks] arg_cong [OF assms, of st_open_risks]
    arg_cong [OF assms, of st_blocked_tasks] arg_cong [OF assms, of st_required_approvals]
    arg_cong [OF assms, of st_contributing_events] arg_cong [OF assms, of st_rules_digest]
  by (simp_all add: blank_def)

definition flags_of :: "project_state \<Rightarrow> string list" where
  "flags_of s = evaluate_health_flags s (state_cycles s)"

lemma flags_of_cong:
  assumes "st_tasks x = st_tasks y" "st_dependencies x = st_dependencies y" "st_issues x = st_issues y"
    "st_open_issues x = st_open_issues y" "st_risks x = st_risks y" "st_open_risks x = st_open_risks y"
    "st_blocked_tasks x = st_blocked_tasks y" "st_required_approvals x = st_required_approvals y"
  shows "flags_of x = flags_of y"
proof -
  have "blocking_issue x = blocking_issue y" "high_risk x = high_risk y"
    by (rule ext, simp add: blocking_issue_def high_risk_def assms)+
  then show ?thesis
    by (simp only: flags_of_def evaluate_health_flags_def state_cycles_def explicit_dependencies_def assms)
qed

lemma flags_of_blank: "blank x = blank y \<Longrightarrow> flags_of x = flags_of y"
  by (rule flags_of_cong) (rule blank_fields; assumption)+

lemma project_health_eq:
  "project_health s = (blank s)\<lparr>st_recent_changes := last_ten (st_contributing_events s),
     st_health_flags := sorted_set (flags_of s @ filter (\<lambda>f. f \<in> set drift_flags) (st_health_flags s)),
     st_state_revision := st_state_revision s\<rparr>"
proof -
  have "flags_of (s\<lparr>st_recent_changes := c\<rparr>) = flags_of s" for c
    by (rule flags_of_cong) simp_all
  then show ?thesis
    by (simp add: project_health_def blank_def Let_def flags_of_def [symmetric])
qed

lemma seal_sim:
  assumes "blank x = blank y" "drift_of x = drift_of y"
  shows "seal_revision rt (project_health x) = seal_revision rt (project_health y)"
proof -
  let ?h = "\<lambda>s. (blank s)\<lparr>st_recent_changes := last_ten (st_contributing_events s),
     st_health_flags := sorted_set (flags_of s @ filter (\<lambda>f. f \<in> set drift_flags) (st_health_flags s))\<rparr>"
  have "sorted_set (flags_of x @ filter (\<lambda>f. f \<in> set drift_flags) (st_health_flags x)) =
        sorted_set (flags_of y @ filter (\<lambda>f. f \<in> set drift_flags) (st_health_flags y))"
    using flags_of_blank [OF assms(1)] assms(2)
    by (intro sorted_set_cong) (auto simp: drift_of_def)
  then have h: "?h x = ?h y" using assms(1) blank_fields [OF assms(1)] by simp
  have "seal_revision rt (project_health s) =
      bindE (compute_state_revision rt (state_dump (?h s))) (\<lambda>r. Inr ((?h s)\<lparr>st_state_revision := r\<rparr>))" for s
    unfolding seal_revision_def project_health_eq compute_state_revision_irrelevant by simp
  then show ?thesis using h by simp
qed

lemma compute_projections_sim:
  assumes "sim s t"
  shows "compute_projections rt au t = compute_projections rt au s"
proof -
  have b: "blank (registers t) = blank (registers s)" by (rule registers_sim [OF assms])
  have drift: "drift_of (registers t) = drift_of (registers s)"
    using assms by (simp add: registers_def project_registers_def project_decisions_def
        project_tasks_def drift_of_def sim_def agree_def)
  have dig: "st_rules_digest (registers t) = st_rules_digest (registers s)"
    using blank_fields [OF b] by simp
  have "blank ((registers t)\<lparr>st_rules_digest := d\<rparr>) = blank ((registers s)\<lparr>st_rules_digest := d\<rparr>)" for d
  proof -
    have "blank (x\<lparr>st_rules_digest := d\<rparr>) = (blank x)\<lparr>st_rules_digest := d\<rparr>" for x
      by (cases x) (simp add: blank_def)
    then show ?thesis using b by simp
  qed
  moreover have "drift_of (x\<lparr>st_rules_digest := d\<rparr>) = drift_of x" for x d by (simp add: drift_of_def)
  ultimately have digested: "seal_revision rt (project_health ((registers t)\<lparr>st_rules_digest := d\<rparr>)) =
      seal_revision rt (project_health ((registers s)\<lparr>st_rules_digest := d\<rparr>))" for d
    by (intro seal_sim) (simp_all only: drift)
  show ?thesis
    unfolding compute_projections_def registers_def [symmetric] settle_rules_def dig
    by (simp only: bindE_Inl bindE_Inr digested seal_sim [OF b drift] split: if_split) blast
qed

lemma compute_projections_agrees:
  assumes wf: "state_wf s" and dig: "st_rules_digest s = RULES_DIGEST rt"
    and t: "compute_projections rt au s = Inr t"
  shows "sim s t"
proof -
  have d: "st_rules_digest (registers s) = RULES_DIGEST rt"
    by (simp add: dig registers_def project_registers_def project_decisions_def project_tasks_def)
  then have same: "(registers s)\<lparr>st_rules_digest := RULES_DIGEST rt\<rparr> = registers s"
    by (cases "registers s") simp
  have "settle_rules rt au (registers s) = Inr v \<Longrightarrow> v = registers s" for v
    unfolding settle_rules_def same by (metis Inl_Inr_False sum.inject(2))
  then obtain r where r: "t = (project_health (registers s))\<lparr>st_state_revision := r\<rparr>"
    using t unfolding compute_projections_def registers_def [symmetric] seal_revision_def bindE_eq_Inr
    by blast
  have flags: "set (flags_of x) \<inter> set drift_flags = {}" for x
    by (auto simp: flags_of_def evaluate_health_flags_def drift_flags_def)
  have raci: "map (\<lambda>(role, actors). (role, sorted_set actors)) (sort_dict (st_raci s)) = sort_dict (st_raci s)"
    using wf by (intro map_idI) (auto simp: state_wf_def)
  have "drift_of t = drift_of s"
    using flags [of "registers s"]
    by (auto simp: r project_health_eq drift_of_def blank_def registers_def project_registers_def
        project_decisions_def project_tasks_def)
  then show ?thesis using wf
    by (simp add: sim_def agree_def r project_health_eq blank_def registers_def project_registers_def
        project_decisions_def project_tasks_def state_wf_def raci map_of_sort_dict)
qed

text \<open>An empty state is well formed, and so is every state that a replay reaches.\<close>

lemma initial_wf: "initial_project_state pid rv rd = Inr s \<Longrightarrow> state_wf s"
  by (auto simp: initial_project_state_def state_wf_def split: if_splits)

lemma foldE_wf:
  assumes "foldE (apply_event rt rv au) es s = Inr t" "state_wf s"
  shows "state_wf t"
proof (rule foldE_inv [of "apply_event rt rv au" es s t state_wf])
  show "state_wf v" if "state_wf u" "apply_event rt rv au e u = Inr v" for e u v
    using apply_event_sim [OF sim_refl [OF that(1)], of rt rv au e] that(2) by (auto dest: sim_wf)
qed (use assms in auto)

end
