(* ===== verification/Reducer_Facts.thy ===== *)
theory Reducer_Facts
  imports Reducer
begin

text \<open>
  What each handler of the reducer leaves alone, what an accepted event satisfies, and the two
  interfaces of the reducer: \<open>event_sourced\<close>, the contract of a hash-chained event stream, and
  \<open>raid_register\<close>, the contract of a register of entities with a list of the open ones.
\<close>

subsection \<open>Frames\<close>

text \<open>The state without the fields that a group of handlers writes.\<close>

definition raid_core :: "project_state \<Rightarrow> project_state" where
  "raid_core s = s\<lparr>st_risks := [], st_open_risks := [], st_issues := [], st_open_issues := [],
     st_assumptions := [], st_active_assumptions := [], st_dependencies := [],
     st_active_dependencies := []\<rparr>"

definition view_core :: "project_state \<Rightarrow> project_state" where
  "view_core s = s\<lparr>st_tasks := [], st_decisions := [], st_hist_approved := [], st_health_flags := []\<rparr>"

definition eval_core :: "project_state \<Rightarrow> project_state" where
  "eval_core s = s\<lparr>st_tasks := [], st_decisions := [], st_hist_approved := [], st_hist_receipts := [],
     st_hist_gates := [], st_hist_origins := [], st_hist_evaluations := []\<rparr>"

definition lifecycle_core :: "project_state \<Rightarrow> project_state" where
  "lifecycle_core s = s\<lparr>st_phase_history := [], st_current_phase := DISCOVERY, st_hist_gates := [],
     st_hist_origins := []\<rparr>"

lemmas raid_handler_defs =
  handle_risk_opened_def handle_risk_updated_def handle_risk_closed_def
  handle_assumption_created_def handle_assumption_updated_def handle_assumption_invalidated_def
  handle_issue_opened_def handle_issue_updated_def handle_issue_closed_def
  handle_dependency_created_def handle_dependency_updated_def handle_dependency_resolved_def

lemma raid_frame: "apply_raid_event rt e s = Some m \<Longrightarrow> yields (\<lambda>t. raid_core t = raid_core s) m"
proof -
  have "yields (\<lambda>t. raid_core t = raid_core s) (handle_risk_opened e s)"
    "yields (\<lambda>t. raid_core t = raid_core s) (handle_risk_updated e s)"
    "yields (\<lambda>t. raid_core t = raid_core s) (handle_risk_closed e s)"
    "yields (\<lambda>t. raid_core t = raid_core s) (handle_assumption_created rt e s)"
    "yields (\<lambda>t. raid_core t = raid_core s) (handle_assumption_updated rt e s)"
    "yields (\<lambda>t. raid_core t = raid_core s) (handle_assumption_invalidated e s)"
    "yields (\<lambda>t. raid_core t = raid_core s) (handle_issue_opened e s)"
    "yields (\<lambda>t. raid_core t = raid_core s) (handle_issue_updated e s)"
    "yields (\<lambda>t. raid_core t = raid_core s) (handle_issue_closed e s)"
    "yields (\<lambda>t. raid_core t = raid_core s) (handle_dependency_created e s)"
    "yields (\<lambda>t. raid_core t = raid_core s) (handle_dependency_updated e s)"
    "yields (\<lambda>t. raid_core t = raid_core s) (handle_dependency_resolved e s)"
    unfolding raid_handler_defs Let_def by (intro yield_intros; simp add: raid_core_def)+
  then show "apply_raid_event rt e s = Some m \<Longrightarrow> yields (\<lambda>t. raid_core t = raid_core s) m"
    by (auto simp: apply_raid_event_def Let_def split: if_splits)
qed

lemma view_frame:
  "yields (\<lambda>t. view_core t = view_core s) (handle_task_associated rt e s)"
  "yields (\<lambda>t. view_core t = view_core s) (handle_task_disassociated e s)"
  "yields (\<lambda>t. view_core t = view_core s) (handle_task_observed rt au e s)"
  "yields (\<lambda>t. view_core t = view_core s) (handle_decision_associated rt e s)"
  "yields (\<lambda>t. view_core t = view_core s) (handle_decision_disassociated e s)"
  "yields (\<lambda>t. view_core t = view_core s) (handle_decision_observed rt au e s)"
  unfolding handle_task_associated_def handle_task_disassociated_def handle_task_observed_def
    handle_decision_associated_def handle_decision_disassociated_def handle_decision_observed_def Let_def
  by (intro yield_intros; simp add: view_core_def note_drift_def)+

lemma foldE_yields:
  assumes "\<And>x s. yields (\<lambda>t. c t = c s) (f x s)"
  shows "foldE f xs s = Inr t \<Longrightarrow> c t = c s"
  using foldE_inv [of f xs s t "\<lambda>u. c u = c s"] yieldsD [OF assms] by metis

lemma evaluation_frame:
  "yields (\<lambda>t. eval_core t = eval_core s) (handle_historical_evaluation rt rv au e s)"
proof -
  have steps: "yields (\<lambda>t. eval_core t = eval_core s) (bind_task_view rt v s)"
    "yields (\<lambda>t. eval_core t = eval_core s) (bind_decision_view rt w s)"
    "yields (\<lambda>t. eval_core t = eval_core s) (bind_approval n d s)" for v w n d s
    unfolding bind_task_view_def bind_decision_view_def bind_approval_def
    by (intro yield_intros; simp add: eval_core_def)+
  have passed: "yields (\<lambda>t. eval_core t = eval_core s) (record_passed e h s)" for h s
    unfolding record_passed_def Let_def
    by (intro yield_intros; drule foldE_yields [OF steps(3)])
      (simp_all add: eval_core_def)
  show ?thesis
    unfolding handle_historical_evaluation_def
    by (intro yield_intros; drule foldE_yields [OF steps(1)], drule foldE_yields [OF steps(2)])
      (auto dest!: yieldsD [OF passed] split: if_splits simp: eval_core_def)
qed

lemma transition_frame:
  "yields (\<lambda>t. lifecycle_core t = lifecycle_core s) (handle_phase_transition rt rv au e s)"
  unfolding handle_phase_transition_def Let_def
  by (intro yield_intros) (simp add: commit_transition_def lifecycle_core_def Let_def)

lemma override_frame:
  "yields (\<lambda>t. t\<lparr>st_overridden_gates := []\<rparr> = s\<lparr>st_overridden_gates := []\<rparr>) (handle_gate_override rt rv au e s)"
  unfolding handle_gate_override_def by (intro yield_intros) simp_all

text \<open>
  A function \<open>f\<close> of the state keeps its value in a dispatch when it does not look at the fields
  that the handlers of the event write.
\<close>

definition transition_types :: "string list" where
  "transition_types = [''project.phase.changed'', ''project.reopened'']"

definition evaluation_types :: "string list" where
  "evaluation_types = [''dor.evaluated'', ''dod.evaluated'']"

definition evidence_types :: "string list" where
  "evidence_types = [''evidence.attached'', ''artifact.created'', ''artifact.updated'']"

lemma frame_trans: "c t = c s \<Longrightarrow> (\<And>u. f (c u) = f u) \<Longrightarrow> f t = f s"
  by metis

lemma dispatch_keeps:
  assumes owner: "\<And>u x. f (u\<lparr>st_owner := x\<rparr>) = f u"
    and created: "ev_event_type e = ''project.created'' \<Longrightarrow> f (s\<lparr>st_current_phase := DISCOVERY\<rparr>) = f s"
    and transition: "\<And>u. ev_event_type e \<in> set transition_types \<Longrightarrow> f (lifecycle_core u) = f u"
    and evaluation: "\<And>u. ev_event_type e \<in> set evaluation_types \<Longrightarrow> f (eval_core u) = f u"
    and override: "\<And>u. ev_event_type e = ''gate.overridden'' \<Longrightarrow> f (u\<lparr>st_overridden_gates := []\<rparr>) = f u"
    and raci: "\<And>u x. f (u\<lparr>st_raci := x\<rparr>) = f u"
    and evidence: "\<And>u x y. ev_event_type e \<in> set evidence_types \<Longrightarrow>
        f (u\<lparr>st_attached_evidence := x, st_evidence_kinds := y\<rparr>) = f u"
    and views: "\<And>u. f (view_core u) = f u"
    and raid: "\<And>u m. apply_raid_event rt e s = Some m \<Longrightarrow> f (raid_core u) = f u"
  shows "yields (\<lambda>t. f t = f s) (dispatch rt rv au e s)"
proof -
  have raid_case: "yields (\<lambda>t. f t = f s) (case apply_raid_event rt e s of Some r \<Rightarrow> r | None \<Rightarrow> Inr s)"
  proof (cases "apply_raid_event rt e s")
    case (Some m)
    have "yields (\<lambda>t. f t = f s) m"
      using raid_frame [OF Some] by (rule yields_mono) (erule frame_trans, rule raid [OF Some])
    then show ?thesis using Some by simp
  qed simp
  have views_case: "yields (\<lambda>t. f t = f s) m" if "yields (\<lambda>t. view_core t = view_core s) m" for m
    using that by (rule yields_mono) (erule frame_trans, rule views)
  have eval_case: "ev_event_type e \<in> set evaluation_types \<Longrightarrow>
      yields (\<lambda>t. f t = f s) (handle_historical_evaluation rt rv au e s)"
    using evaluation_frame by (rule yields_mono) (erule frame_trans, rule evaluation)
  have trans_case: "ev_event_type e \<in> set transition_types \<Longrightarrow>
      yields (\<lambda>t. f t = f s) (handle_phase_transition rt rv au e s)"
    using transition_frame by (rule yields_mono) (erule frame_trans, rule transition)
  have over_case: "ev_event_type e = ''gate.overridden'' \<Longrightarrow>
      yields (\<lambda>t. f t = f s) (handle_gate_override rt rv au e s)"
    using override_frame by (rule yields_mono) (erule frame_trans, rule override)
  have pure: "f (handle_project_owner e u) = f u" "f (handle_raci_assigned e s) = f s"
    "f (handle_raci_revoked e s) = f s" for u
    unfolding handle_project_owner_def handle_raci_assigned_def handle_raci_revoked_def Let_def
    by (simp_all add: owner raci)
  have ev_case: "ev_event_type e \<in> set evidence_types \<Longrightarrow> f (handle_evidence_attached e s) = f s"
    unfolding handle_evidence_attached_def Let_def by (rule evidence)
  show ?thesis
    unfolding dispatch_def Let_def
    by (intro yields_if raid_case view_frame [THEN views_case] eval_case trans_case over_case yields_Inr)
      (simp_all add: pure created ev_case evaluation_types_def transition_types_def evidence_types_def)
qed

text \<open>The lineage of a state: dispatch leaves it to \<open>advance\<close>.\<close>

definition lineage :: "project_state \<Rightarrow> string \<times> string \<times> string \<times> string \<times> int \<times> string \<times> string list" where
  "lineage s = (st_project_id s, st_schema_version s, st_rules_version s, st_rules_digest s,
     st_last_event_sequence s, st_last_event_hash s, st_contributing_events s)"

lemma dispatch_lineage: "yields (\<lambda>t. lineage t = lineage s) (dispatch rt rv au e s)"
  by (rule dispatch_keeps)
    (simp_all add: lineage_def lifecycle_core_def eval_core_def view_core_def raid_core_def)

text \<open>What an accepted event satisfies.\<close>

lemma apply_eventE:
  assumes "apply_event rt rv au e s = Inr t"
  obtains u where "check_chain e s = None" "check_digests rt e = Inr ()" "check_provenance au e = None"
    "dispatch rt rv au e s = Inr u" "t = advance e u" "lineage u = lineage s"
proof -
  obtain u where u: "check_chain e s = None" "check_digests rt e = Inr ()" "check_provenance au e = None"
      "dispatch rt rv au e s = Inr u" "t = advance e u"
    using assms by (auto simp: apply_event_def bindE_eq_Inr split: option.splits)
  then show thesis using that yieldsD [OF dispatch_lineage] by blast
qed

lemma apply_event_header:
  assumes "apply_event rt rv au e s = Inr t"
  shows "st_project_id t = st_project_id s" "st_schema_version t = st_schema_version s"
    "st_rules_version t = st_rules_version s" "st_rules_digest t = st_rules_digest s"
  using assms by (auto elim!: apply_eventE simp: lineage_def advance_def)

interpretation ledger: event_sourced "apply_event rt rv au" ev_sequence ev_prev_event_hash ev_event_hash
    ev_event_id st_last_event_sequence st_last_event_hash st_contributing_events
  for rt rv au
proof
  fix e s t
  assume "apply_event rt rv au e s = Inr t"
  then obtain u where u: "check_chain e s = None" "t = advance e u" "lineage u = lineage s"
    by (elim apply_eventE)
  show "st_last_event_sequence t = ev_sequence e \<and> st_last_event_hash t = ev_event_hash e \<and>
      st_contributing_events t = st_contributing_events s @ [ev_event_id e]"
    using u(2,3) by (simp add: advance_def lineage_def)
  show "0 < st_last_event_sequence s \<Longrightarrow>
      ev_sequence e = st_last_event_sequence s + 1 \<and> ev_prev_event_hash e = st_last_event_hash s"
    "\<not> 0 < st_last_event_sequence s \<Longrightarrow> ev_sequence e = 1"
    using u(1) by (simp_all add: check_chain_def split: if_splits)
qed

subsection \<open>The RAID registers\<close>

definition risk_live :: "risk \<Rightarrow> bool" where "risk_live r = (rk_status r = ''identified'')"
definition risk_dead :: "risk \<Rightarrow> bool" where
  "risk_dead r = (rk_status r \<in> {''mitigated'', ''retired'', ''closed''})"

definition issue_live :: "issue \<Rightarrow> bool" where "issue_live i = (is_status i \<in> {''open'', ''investigating''})"
definition issue_dead :: "issue \<Rightarrow> bool" where "issue_dead i = (is_status i \<in> {''resolved'', ''closed''})"

definition assumption_live :: "assumption \<Rightarrow> bool" where
  "assumption_live a = (as_status a \<in> {''valid'', ''confirmed''})"
definition assumption_dead :: "assumption \<Rightarrow> bool" where
  "assumption_dead a = (as_status a = ''invalidated'')"

definition dependency_live :: "dependency \<Rightarrow> bool" where
  "dependency_live d = (dp_status d \<noteq> ''satisfied'')"
definition dependency_dead :: "dependency \<Rightarrow> bool" where
  "dependency_dead d = (dp_status d = ''satisfied'')"

definition raid_moves :: "project_state \<Rightarrow> project_state \<Rightarrow> bool" where
  "raid_moves s t \<longleftrightarrow>
     reg_move risk_live risk_dead (st_risks s, st_open_risks s) (st_risks t, st_open_risks t)
     \<and> reg_move issue_live issue_dead (st_issues s, st_open_issues s) (st_issues t, st_open_issues t)
     \<and> reg_move assumption_live assumption_dead (st_assumptions s, st_active_assumptions s)
         (st_assumptions t, st_active_assumptions t)
     \<and> reg_move dependency_live dependency_dead (st_dependencies s, st_active_dependencies s)
         (st_dependencies t, st_active_dependencies t)"

lemma raid_handlers_move: "apply_raid_event rt e s = Some m \<Longrightarrow> yields (raid_moves s) m"
proof -
  have status: "as_status a \<noteq> ''invalidated'' \<longleftrightarrow> assumption_live a" if "mk_assumption b = Inr a" for a b
    using that by (auto simp: mk_assumption_Inr assumption_ok_def assumption_live_def)
  have "yields (raid_moves s) (handle_assumption_updated rt e s)"
    unfolding handle_assumption_updated_def Let_def
    by (intro yield_intros; (drule status)?)
      (auto simp: raid_moves_def reg_move.stay assumption_dead_def intro!: reg_move.change)
  moreover have "yields (raid_moves s) (handle_risk_opened e s)" "yields (raid_moves s) (handle_risk_updated e s)"
    "yields (raid_moves s) (handle_risk_closed e s)" "yields (raid_moves s) (handle_assumption_created rt e s)"
    "yields (raid_moves s) (handle_assumption_invalidated e s)"
    "yields (raid_moves s) (handle_issue_opened e s)" "yields (raid_moves s) (handle_issue_updated e s)"
    "yields (raid_moves s) (handle_issue_closed e s)" "yields (raid_moves s) (handle_dependency_created e s)"
    "yields (raid_moves s) (handle_dependency_updated e s)"
    "yields (raid_moves s) (handle_dependency_resolved e s)"
    unfolding raid_handler_defs Let_def
    by (intro yield_intros; simp add: raid_moves_def reg_move.stay reg_move.open_entity reg_move.change
        reg_move.drop risk_live_def risk_dead_def issue_live_def issue_dead_def assumption_live_def
        assumption_dead_def dependency_live_def dependency_dead_def mk_risk_Inr mk_issue_Inr
        mk_assumption_Inr mk_dependency_Inr)+
  ultimately show "apply_raid_event rt e s = Some m \<Longrightarrow> yields (raid_moves s) m"
    by (auto simp: apply_raid_event_def Let_def split: if_splits)
qed

text \<open>The part of the state that no handler outside the RAID group writes.\<close>

definition registers_of ::
  "project_state \<Rightarrow> (risk dict \<times> string list) \<times> (issue dict \<times> string list) \<times>
     (assumption dict \<times> string list) \<times> (dependency dict \<times> string list)" where
  "registers_of s = ((st_risks s, st_open_risks s), (st_issues s, st_open_issues s),
     (st_assumptions s, st_active_assumptions s), (st_dependencies s, st_active_dependencies s))"

lemma same_registers_move: "registers_of t = registers_of s \<Longrightarrow> raid_moves s t"
  by (simp add: raid_moves_def registers_of_def reg_move.stay)

definition raid_types :: "string list" where
  "raid_types = [''risk.opened'', ''risk.updated'', ''risk.closed'', ''assumption.created'',
     ''assumption.updated'', ''assumption.confirmed'', ''assumption.invalidated'', ''issue.opened'',
     ''issue.updated'', ''issue.resolved'', ''issue.closed'', ''dependency.created'',
     ''dependency.updated'', ''dependency.resolved'']"

definition governed_types :: "string list" where
  "governed_types = [''project.created'', ''project.updated'', ''project.phase.changed'',
     ''project.reopened'', ''gate.overridden'', ''raci.assigned'', ''raci.revoked'',
     ''evidence.attached'', ''artifact.created'', ''artifact.updated'', ''dor.evaluated'',
     ''dod.evaluated'', ''task.associated'', ''task.disassociated'', ''task.lifecycle.observed'',
     ''decision.associated'', ''decision.disassociated'', ''decision.lifecycle.observed'']"

lemma raid_event_alone:
  assumes "apply_raid_event rt e s = Some m"
  shows "dispatch rt rv au e s = m"
proof -
  have "ev_event_type e \<in> set raid_types"
    using assms by (auto simp: apply_raid_event_def raid_types_def Let_def split: if_splits)
  moreover have "set raid_types \<inter> set governed_types = {}"
    by (simp add: raid_types_def governed_types_def)
  ultimately have "ev_event_type e \<notin> set governed_types" by blast
  then show ?thesis
    unfolding dispatch_def Let_def by (simp add: governed_types_def assms)
qed

lemma dispatch_moves: "yields (raid_moves s) (dispatch rt rv au e s)"
proof (cases "apply_raid_event rt e s")
  case (Some m)
  then show ?thesis using raid_event_alone [OF Some] raid_handlers_move [OF Some] by simp
next
  case None
  have "yields (\<lambda>t. registers_of t = registers_of s) (dispatch rt rv au e s)"
    by (rule dispatch_keeps)
      (simp_all add: None registers_of_def lifecycle_core_def eval_core_def view_core_def)
  then show ?thesis by (rule yields_mono) (rule same_registers_move)
qed

lemma apply_event_moves: "apply_event rt rv au e s = Inr t \<Longrightarrow> raid_moves s t"
  using yieldsD [OF dispatch_moves] by (fastforce elim!: apply_eventE simp: raid_moves_def advance_def)

interpretation risks: raid_register "apply_event rt rv au" st_risks st_open_risks risk_live risk_dead
  for rt rv au
  by unfold_locales (auto dest: apply_event_moves simp: raid_moves_def risk_live_def risk_dead_def)

interpretation issues: raid_register "apply_event rt rv au" st_issues st_open_issues issue_live issue_dead
  for rt rv au
  by unfold_locales (auto dest: apply_event_moves simp: raid_moves_def issue_live_def issue_dead_def)

interpretation assumptions: raid_register "apply_event rt rv au" st_assumptions st_active_assumptions
    assumption_live assumption_dead
  for rt rv au
  by unfold_locales (auto dest: apply_event_moves simp: raid_moves_def assumption_live_def assumption_dead_def)

interpretation dependencies: raid_register "apply_event rt rv au" st_dependencies
    st_active_dependencies dependency_live dependency_dead
  for rt rv au
  by unfold_locales (auto dest: apply_event_moves simp: raid_moves_def dependency_live_def dependency_dead_def)

end
