(* ===== verification/Governance_Facts.thy ===== *)
theory Governance_Facts
  imports Governance_Engine
begin

text \<open>
  What the verdicts of the policy engine mean: an allowed transition, a passed quality gate, an
  authorised override, and the readiness classes of the tasks.
\<close>

subsection \<open>Allowed transitions\<close>

lemma verdict_simps [simp]:
  "ge_decision (verdict pv e d codes refs) = d" "ge_reason_codes (verdict pv e d codes refs) = codes"
  by (simp_all add: verdict_def)

lemma check_evidence_not_allow: "check_evidence pv e spec au = Inr (Some v) \<Longrightarrow> ge_decision v \<noteq> ALLOW"
  by (auto simp: check_evidence_def bindE_eq_Inr split: if_splits option.splits)

lemma check_approval_not_allow: "check_approval pv s e spec au = Some v \<Longrightarrow> ge_decision v \<noteq> ALLOW"
  by (auto simp: check_approval_def split: if_splits)

lemma check_preconditions_not_allow:
  "check_preconditions pv s e spec au = Some v \<Longrightarrow> ge_decision v \<noteq> ALLOW"
  by (auto simp: check_preconditions_def split: option.splits)

lemma check_gate_not_allow: "check_gate pv s tp e spec au = Inl v \<Longrightarrow> ge_decision v \<noteq> ALLOW"
  by (auto simp: check_gate_def Let_def split: if_splits option.splits)

text \<open>The whole of what \<open>ALLOW\<close> says about the checks of \<open>evaluate_transition\<close>.\<close>

lemma evaluate_transition_allowE:
  assumes "evaluate_transition pv s tp e au = Inr v" "ge_decision v = ALLOW"
  obtains spec codes where "\<not> is_untrusted_event (Some e)"
    "st_current_phase s = CLOSED \<Longrightarrow> ev_event_type e = ''project.reopened''"
    "legal_spec (st_current_phase s) tp = Some spec"
    "\<And>a. au = Some a \<Longrightarrow> au_cardinality_valid a"
    "ts_is_rollback spec \<Longrightarrow> truthy (transition_reason (ev_payload e))"
    "check_evidence pv e spec au = Inr None" "check_approval pv s e spec au = None"
    "check_preconditions pv s e spec au = None" "check_gate pv s tp e spec au = Inr codes"
proof -
  note d = assms(1) [unfolded evaluate_transition_def Let_def]
  have trusted: "\<not> is_untrusted_event (Some e)" using d assms(2) by (auto split: if_splits)
  have reopen: "st_current_phase s = CLOSED \<Longrightarrow> ev_event_type e = ''project.reopened''"
    using d assms(2) trusted by (auto split: if_splits)
  obtain spec where spec: "legal_spec (st_current_phase s) tp = Some spec"
    using d assms(2) trusted reopen by (cases "legal_spec (st_current_phase s) tp") (auto split: if_splits)
  have card: "\<not> (case au of None \<Rightarrow> False | Some a \<Rightarrow> \<not> au_cardinality_valid a)"
    using d assms(2) trusted reopen spec by (auto split: if_splits)
  have rollback: "\<not> (ts_is_rollback spec \<and> (\<not> truthy (transition_reason (ev_payload e))
      \<or> \<not> str_nonblank (transition_reason (ev_payload e))))"
    using d assms(2) trusted reopen spec card by (auto split: if_splits)
  have rest: "bindE (check_evidence pv e spec au) (\<lambda>v1. case v1 of
              Some v \<Rightarrow> Inr v
            | None \<Rightarrow> (case check_approval pv s e spec au of
                Some v \<Rightarrow> Inr v
              | None \<Rightarrow> (case check_preconditions pv s e spec au of
                  Some v \<Rightarrow> Inr v
                | None \<Rightarrow> (case check_gate pv s tp e spec au of
                    Inl v \<Rightarrow> Inr v
                  | Inr codes \<Rightarrow> Inr (verdict pv e ALLOW (sort (codes @ [''TRANSITION_ALLOWED''])) []))))) = Inr v"
    using d trusted reopen spec card rollback by (simp split: if_splits)
  then obtain x where x: "check_evidence pv e spec au = Inr x" by (auto simp: bindE_eq_Inr)
  then have none: "x = None" "check_approval pv s e spec au = None" "check_preconditions pv s e spec au = None"
    using rest assms(2)
    by (auto split: option.splits dest: check_evidence_not_allow check_approval_not_allow
        check_preconditions_not_allow)
  then obtain codes where "check_gate pv s tp e spec au = Inr codes"
    using rest x assms(2) by (auto split: sum.splits dest: check_gate_not_allow)
  then show thesis using that trusted reopen spec card rollback x none by (auto split: option.splits)
qed

lemma check_evidence_attached:
  assumes "check_evidence pv e spec (Some a) = Inr None" "ts_evidence_required spec"
  obtains rs where "str_elements (transition_evidence e) = Inr rs"
    "truthy (transition_evidence e)" "set rs \<subseteq> au_attached_evidence a"
proof -
  obtain us where "unresolved_refs (transition_evidence e) a = Inr us" "us = []"
    and t: "truthy (transition_evidence e)"
    using assms by (auto simp: check_evidence_def bindE_eq_Inr split: if_splits)
  then obtain rs where rs: "str_elements (transition_evidence e) = Inr rs"
    "filter (\<lambda>r. r \<notin> au_attached_evidence a) rs = []"
    by (auto simp: unresolved_refs_def bindE_eq_Inr)
  then have "set rs \<subseteq> au_attached_evidence a" by (auto simp: filter_empty_conv)
  then show thesis using that rs(1) t by blast
qed

lemma check_preconditions_hold:
  "check_preconditions pv s e spec (Some a) = None \<Longrightarrow> c \<in> set (ts_preconditions spec) \<Longrightarrow>
   evaluate_precondition c s e a"
  by (auto simp: check_preconditions_def find_None_iff)

text \<open>A gate that let a transition pass was overridden, or its definition holds.\<close>

lemma check_gate_passed:
  assumes "check_gate pv s tp e spec au = Inr codes" "ts_required_gate spec = Some g" "g \<noteq> []"
  shows "g \<in> set (st_overridden_gates s)
    \<or> (contains ''dor'' g \<and> dor_passed (evaluate_dor s tp))
    \<or> (\<not> contains ''dor'' g \<and> (contains ''dod'' g \<longrightarrow> dod_passed (evaluate_dod s tp (Some e) au)))"
  using assms by (auto simp: check_gate_def Let_def split: if_splits)

lemma legal_gates:
  "legal_spec f t = Some spec \<Longrightarrow> ts_required_gate spec = Some g \<Longrightarrow>
   g \<in> {''dor_discovery_to_planning'', ''dor_planning_to_execution'', ''dod_execution_to_closing'',
        ''dod_final_closing''}"
  by (auto simp: LEGAL_TRANSITIONS_def tspec_def split: if_splits)

subsection \<open>Quality gates\<close>

definition dor_overridden :: "project_state \<Rightarrow> bool" where
  "dor_overridden s \<longleftrightarrow> ''dor_planning_to_execution'' \<in> set (st_overridden_gates s)"

definition dod_overridden :: "project_state \<Rightarrow> bool" where
  "dod_overridden s \<longleftrightarrow> ''dod_execution_to_closing'' \<in> set (st_overridden_gates s)
     \<or> ''dod_final_closing'' \<in> set (st_overridden_gates s)"

lemma dor_passed_iff:
  "dor_passed (evaluate_dor s target) \<longleftrightarrow> dor_overridden s
     \<or> ((target = EXECUTION \<longrightarrow> st_tasks s \<noteq> []) \<and> detect_dependency_cycles (st_tasks s) [] = []
        \<and> (\<forall>i \<in> set (st_open_issues s). \<not> blocking_issue s i))"
  by (auto simp: evaluate_dor_def dor_overridden_def Let_def filter_empty_conv)

lemma dod_passed_iff:
  "dod_passed (evaluate_dod s target eo au) \<longleftrightarrow> dod_overridden s
     \<or> ((\<forall>(tid, t) \<in> set (st_tasks s). terminal_str (tv_state t))
        \<and> (\<forall>i \<in> set (st_open_issues s). \<not> blocking_issue s i)
        \<and> (\<forall>(did, d) \<in> set (st_decisions s). dv_status d \<in> set RESOLVED_DECISION_STATUSES)
        \<and> \<not> is_untrusted_event eo \<and> dod_evidence_present s eo au)"
  by (auto simp: evaluate_dod_def dod_overridden_def Let_def filter_empty_conv RESOLVED_DECISION_STATUSES_def)

subsection \<open>Gate overrides\<close>

lemma override_authorityD:
  assumes "ge_decision (override_authority pv e a) = ALLOW"
  shows "strip (jstr (py_or (jget (ev_payload e) ''overridden_by'') (JStr (ev_actor e)))) \<in> set (authorized_actors a)"
    "truthy (override_reason (ev_payload e))"
    "nonblank (jget (ev_payload e) ''approved_by'')"
    "au_accountable_actor a = Some (strip (jstr (jget (ev_payload e) ''approved_by'')))
     \<or> strip (jstr (jget (ev_payload e) ''approved_by'')) \<in> au_approved_decision_ids a"
  using assms unfolding override_authority_def Let_def
  by (auto split: if_splits option.splits simp: nonblank_def split: json.splits)

lemma override_history_not_allow: "override_history pv e a = Inr (Some v) \<Longrightarrow> ge_decision v \<noteq> ALLOW"
  by (auto simp: override_history_def bindE_eq_Inr split: if_splits json.splits)

lemma evaluate_gate_override_allowD:
  assumes "evaluate_gate_override pv e (Some a) = Inr v" "ge_decision v = ALLOW"
  shows "\<not> is_untrusted_event (Some e)" "override_history pv e a = Inr None"
    "ge_decision (override_authority pv e a) = ALLOW"
proof -
  note d = assms(1) [unfolded evaluate_gate_override_def Let_def option.case]
  have u: "\<not> is_untrusted_event (Some e)" using d assms(2) by (auto split: if_splits)
  moreover have "truthy (py_or (jget (ev_payload e) ''gate'') (jget (ev_payload e) ''gate_name''))"
    using d assms(2) u by (auto split: if_splits)
  ultimately have "bindE (override_history pv e a) (\<lambda>v. case v of
               Some w \<Rightarrow> Inr w | None \<Rightarrow> Inr (override_authority pv e a)) = Inr v"
    using d by simp
  then obtain w where "override_history pv e a = Inr w"
    "(case w of Some x \<Rightarrow> Inr x | None \<Rightarrow> Inr (override_authority pv e a)) = (Inr v :: pse_error + gov_eval)"
    unfolding bindE_eq_Inr by blast
  then have "override_history pv e a = Inr None \<and> v = override_authority pv e a"
    using assms(2) by (cases w) (auto dest: override_history_not_allow)
  then show "\<not> is_untrusted_event (Some e)" "override_history pv e a = Inr None"
    "ge_decision (override_authority pv e a) = ALLOW"
    using u assms(2) by auto
qed

end
