(* ===== verification/Lifecycle_Facts.thy ===== *)
theory Lifecycle_Facts
  imports Reducer_Facts Governance_Facts
begin

text \<open>
  How the lifecycle of a project moves under the reducer: which events change the phase, the
  overridden gates, the attached evidence and the open gate evaluations, and what each change
  presupposes.
\<close>

subsection \<open>Phase transitions\<close>

lemma phase_transitionE:
  assumes "handle_phase_transition rt rv au e s = Inr t"
  obtains tp spec v r where
    "phase_of_str (upper (py_str rt (target_phase (ev_payload e)))) = Some tp"
    "missing_evaluation au tp s = None"
    "evaluate_transition rv s tp e (effective_authority s au) = Inr v" "ge_decision v = ALLOW"
    "legal_spec (st_current_phase s) tp = Some spec"
    "build_phase_record (st_current_phase s) tp spec e = Inr r" "t = commit_transition au tp spec r s"
  using assms unfolding handle_phase_transition_def Let_def
  by (auto simp: bindE_eq_Inr split: if_splits option.splits)

lemma commit_transition_simps [simp]:
  "st_current_phase (commit_transition au tp spec r s) = tp"
  "st_phase_history (commit_transition au tp spec r s) = st_phase_history s @ [r]"
  by (simp_all add: commit_transition_def Let_def)

lemma build_phase_recordD:
  assumes "build_phase_record fp tp spec e = Inr r"
  shows "pr_from_phase r = fp" "pr_to_phase r = tp" "pr_event_id r = ev_event_id e"
    "pr_name r = ts_name spec" "pr_actor r = ev_actor e"
  using assms by (auto simp: build_phase_record_def Let_def bindE_eq_Inr mk_phase_record_def split: if_splits)

lemma dispatch_transition:
  "ev_event_type e \<in> set transition_types \<Longrightarrow> dispatch rt rv au e s = handle_phase_transition rt rv au e s"
  by (auto simp: dispatch_def transition_types_def)

definition lifecycle_of :: "project_state \<Rightarrow> project_phase \<times> phase_record list" where
  "lifecycle_of s = (st_current_phase s, st_phase_history s)"

lemma lifecycle_cases:
  assumes "apply_event rt rv au e s = Inr t"
  obtains (same) "lifecycle_of t = lifecycle_of s"
  | (created) "ev_event_type e = ''project.created''" "st_current_phase t = DISCOVERY"
      "st_phase_history t = st_phase_history s"
  | (transition) u where "ev_event_type e \<in> set transition_types"
      "handle_phase_transition rt rv au e s = Inr u" "lifecycle_of t = lifecycle_of u"
proof -
  obtain u where u: "dispatch rt rv au e s = Inr u" "t = advance e u" using assms by (elim apply_eventE)
  have t: "lifecycle_of t = lifecycle_of u" by (simp add: u(2) advance_def lifecycle_of_def)
  consider "ev_event_type e \<in> set transition_types" | "ev_event_type e = ''project.created''"
    | "ev_event_type e \<notin> set transition_types" "ev_event_type e \<noteq> ''project.created''" by blast
  then show thesis
  proof cases
    case 1
    then show thesis using transition u(1) dispatch_transition t by metis
  next
    case 2
    then have "u = handle_project_owner e (s\<lparr>st_current_phase := DISCOVERY\<rparr>)"
      using u(1) by (simp add: dispatch_def)
    then have "lifecycle_of t = (DISCOVERY, st_phase_history s)"
      unfolding t by (simp add: lifecycle_of_def handle_project_owner_def Let_def)
    then show thesis using created 2 by (simp add: lifecycle_of_def)
  next
    case 3
    have "yields (\<lambda>t. lifecycle_of t = lifecycle_of s) (dispatch rt rv au e s)"
      by (rule dispatch_keeps)
        (simp_all add: 3 lifecycle_of_def eval_core_def view_core_def raid_core_def)
    then show thesis using same u(1) t by simp
  qed
qed

text \<open>The history of a project that was accepted: a path through the table.\<close>

definition history_ok :: "project_state \<Rightarrow> bool" where
  "history_ok s \<longleftrightarrow>
     (\<forall>r \<in> set (st_phase_history s). phase_step (pr_from_phase r) (pr_to_phase r)
        \<and> pr_event_id r \<in> set (st_contributing_events s))"

lemma history_ok_step:
  assumes "apply_event rt rv au e s = Inr t" "history_ok s"
  shows "history_ok t"
proof -
  have events: "st_contributing_events t = st_contributing_events s @ [ev_event_id e]"
    using ledger.step_records [OF assms(1)] by simp
  from assms(1) show ?thesis
  proof (cases rule: lifecycle_cases)
    case (transition u)
    obtain tp spec v r where r: "legal_spec (st_current_phase s) tp = Some spec"
      "build_phase_record (st_current_phase s) tp spec e = Inr r" "u = commit_transition au tp spec r s"
      using transition(2) by (elim phase_transitionE)
    then have "st_phase_history t = st_phase_history s @ [r]"
      using transition(3) by (simp add: lifecycle_of_def)
    moreover have "phase_step (pr_from_phase r) (pr_to_phase r)"
      using build_phase_recordD [OF r(2)] r(1) by (simp add: phase_step_iff)
    ultimately show ?thesis
      using assms(2) events build_phase_recordD(3) [OF r(2)] by (auto simp: history_ok_def)
  qed (use assms(2) events in \<open>auto simp: history_ok_def lifecycle_of_def\<close>)
qed

subsection \<open>Evidence\<close>

lemma dispatch_evidence:
  "ev_event_type e \<in> set evidence_types \<Longrightarrow> dispatch rt rv au e s = Inr (handle_evidence_attached e s)"
  by (auto simp: dispatch_def evidence_types_def)

lemma fold_list_add_set [simp]: "set (fold list_add xs ys) = set xs \<union> set ys"
  by (induction xs arbitrary: ys) auto

lemma attached_step:
  assumes "apply_event rt rv au e s = Inr t"
  shows "set (st_attached_evidence t) = set (st_attached_evidence s)
    \<union> (if ev_event_type e \<in> set evidence_types then set (collect_evidence_refs e) else {})"
proof -
  obtain u where u: "dispatch rt rv au e s = Inr u" "t = advance e u" using assms by (elim apply_eventE)
  have t: "st_attached_evidence t = st_attached_evidence u" by (simp add: u(2) advance_def)
  show ?thesis
  proof (cases "ev_event_type e \<in> set evidence_types")
    case True
    then have "u = handle_evidence_attached e s" using u(1) by (simp add: dispatch_evidence)
    then show ?thesis using True t by (auto simp: handle_evidence_attached_def Let_def)
  next
    case False
    have "yields (\<lambda>t. st_attached_evidence t = st_attached_evidence s) (dispatch rt rv au e s)"
      by (rule dispatch_keeps)
        (simp_all add: False lifecycle_core_def eval_core_def view_core_def raid_core_def)
    then show ?thesis using False u(1) t by simp
  qed
qed

lemma attached_run:
  assumes "foldE (apply_event rt rv au) es s = Inr t"
  shows "set (st_attached_evidence t) = set (st_attached_evidence s)
    \<union> (\<Union>e \<in> {e \<in> set es. ev_event_type e \<in> set evidence_types}. set (collect_evidence_refs e))"
  using assms
proof (induction es arbitrary: s)
  case (Cons e es)
  then obtain u where "apply_event rt rv au e s = Inr u" "foldE (apply_event rt rv au) es u = Inr t"
    by (auto simp: bindE_eq_Inr)
  then show ?case using Cons.IH [of u] attached_step [of rt rv au e s u] by auto
qed simp

subsection \<open>Overridden gates\<close>

lemma overridden_step:
  assumes "apply_event rt rv au e s = Inr t" "g \<in> set (st_overridden_gates t)"
    "g \<notin> set (st_overridden_gates s)"
  obtains v where "ev_event_type e = ''gate.overridden''"
    "evaluate_gate_override rv e (effective_authority s au) = Inr v" "ge_decision v = ALLOW"
    "historical au \<longrightarrow> ev_source e = ''pse_governance''"
    "g = py_str rt (py_or (jget (ev_payload e) ''gate'') (jget (ev_payload e) ''gate_name''))"
proof -
  obtain u where u: "dispatch rt rv au e s = Inr u" "t = advance e u" using assms(1) by (elim apply_eventE)
  have t: "st_overridden_gates t = st_overridden_gates u" by (simp add: u(2) advance_def)
  show thesis
  proof (cases "ev_event_type e = ''gate.overridden''")
    case True
    then have "handle_gate_override rt rv au e s = Inr u" using u(1) by (simp add: dispatch_def)
    then show thesis
      using that [OF True] assms(2,3) t
      by (auto simp: handle_gate_override_def bindE_eq_Inr split: if_splits)
  next
    case False
    have "yields (\<lambda>t. st_overridden_gates t = st_overridden_gates s) (dispatch rt rv au e s)"
      by (rule dispatch_keeps)
        (simp_all add: False lifecycle_core_def eval_core_def view_core_def raid_core_def)
    then show thesis using assms(2,3) u(1) t by simp
  qed
qed

subsection \<open>Gate evaluations\<close>

definition gates_of :: "project_state \<Rightarrow> int dict \<times> string dict" where
  "gates_of s = (st_hist_gates s, st_hist_origins s)"

lemma gates_frame:
  "bind_task_view rt v s = Inr t \<Longrightarrow> gates_of t = gates_of s"
  "bind_decision_view rt w s = Inr t \<Longrightarrow> gates_of t = gates_of s"
  "bind_approval n d s = Inr t \<Longrightarrow> gates_of t = gates_of s"
  by (auto simp: bind_task_view_def bind_decision_view_def bind_approval_def gates_of_def split: if_splits)

lemma evaluation_gates:
  assumes "handle_historical_evaluation rt rv au e s = Inr t"
  obtains h where "historical au" "ev_source e = ''pse_governance''"
    "validate_hist_eval rt (ev_payload e) = Inr h" "evaluation_fault rt rv e h s = None"
    "gates_of t = (if he_result h = ''passed''
       then (AList.update (phase_str (he_evaluated_phase h)) (ev_sequence e) (st_hist_gates s),
             AList.update (phase_str (he_evaluated_phase h)) (phase_str (he_evaluated_from_phase h)) (st_hist_origins s))
       else gates_of s)"
proof -
  obtain h where h: "historical au" "ev_source e = ''pse_governance''"
    "validate_hist_eval rt (ev_payload e) = Inr h" "evaluation_fault rt rv e h s = None"
    and run: "bindE (foldE (bind_task_view rt) (he_task_views h) s) (\<lambda>s1.
            bindE (foldE (bind_decision_view rt) (he_decision_views h) s1) (\<lambda>s2.
            bindE (if he_result h = ''passed'' then record_passed e h s2 else Inr s2) (\<lambda>s3.
              Inr (s3\<lparr>st_hist_evaluations := st_hist_evaluations s3 @ [ev_event_id e]\<rparr>)))) = Inr t"
    using assms unfolding handle_historical_evaluation_def
    by (auto split: if_splits sum.splits option.splits)
  then obtain s1 s2 s3 where
    s1: "foldE (bind_task_view rt) (he_task_views h) s = Inr s1"
    and s2: "foldE (bind_decision_view rt) (he_decision_views h) s1 = Inr s2"
    and s3: "(if he_result h = ''passed'' then record_passed e h s2 else Inr s2) = Inr s3"
    and t: "t = s3\<lparr>st_hist_evaluations := st_hist_evaluations s3 @ [ev_event_id e]\<rparr>"
    unfolding bindE_eq_Inr sum.inject by blast
  have "gates_of s1 = gates_of s"
    by (rule foldE_inv [OF s1, of "\<lambda>u. gates_of u = gates_of s"]) (auto dest: gates_frame)
  moreover have "gates_of s2 = gates_of s1"
    by (rule foldE_inv [OF s2, of "\<lambda>u. gates_of u = gates_of s1"]) (auto dest: gates_frame)
  ultimately have g2: "st_hist_gates s2 = st_hist_gates s" "st_hist_origins s2 = st_hist_origins s"
    by (simp_all add: gates_of_def)
  have passed: "gates_of v = (AList.update (phase_str (he_evaluated_phase h)) (ev_sequence e) (st_hist_gates s2),
      AList.update (phase_str (he_evaluated_phase h)) (phase_str (he_evaluated_from_phase h)) (st_hist_origins s2))"
    if rec: "record_passed e h s2 = Inr v" for v
  proof -
    let ?s = "s2\<lparr>st_hist_gates := AList.update (phase_str (he_evaluated_phase h)) (ev_sequence e) (st_hist_gates s2),
       st_hist_origins := AList.update (phase_str (he_evaluated_phase h))
         (phase_str (he_evaluated_from_phase h)) (st_hist_origins s2)\<rparr>"
    have "yields (\<lambda>v. \<exists>w. foldE (bind_approval (ev_sequence e)) (he_approved_decision_ids h) ?s = Inr w
        \<and> gates_of v = gates_of w) (record_passed e h s2)"
      unfolding record_passed_def Let_def
      by (intro yield_intros exI conjI) (assumption, simp add: gates_of_def)
    then obtain w where w: "foldE (bind_approval (ev_sequence e)) (he_approved_decision_ids h) ?s = Inr w"
      "gates_of v = gates_of w"
      using yieldsD [OF _ rec] by blast
    have "gates_of w = gates_of ?s"
      by (rule foldE_inv [OF w(1), of "\<lambda>u. gates_of u = gates_of ?s"]) (auto dest: gates_frame)
    then show ?thesis using w(2) by (simp add: gates_of_def)
  qed
  show thesis
    by (rule that [OF h]) (use s3 t g2 passed in \<open>auto simp: gates_of_def split: if_splits\<close>)
qed

text \<open>The ways an accepted event changes the open evaluations.\<close>

lemma gates_step:
  assumes "apply_event rt rv au e s = Inr t"
  obtains (closed) "\<And>ph n. map_of (st_hist_gates t) ph = Some n \<Longrightarrow> map_of (st_hist_gates s) ph = Some n"
  | (opened) h where "ev_event_type e \<in> set evaluation_types" "historical au"
      "validate_hist_eval rt (ev_payload e) = Inr h" "evaluation_fault rt rv e h s = None"
      "he_result h = ''passed''"
      "st_hist_gates t = AList.update (phase_str (he_evaluated_phase h)) (ev_sequence e) (st_hist_gates s)"
proof -
  obtain u where u: "dispatch rt rv au e s = Inr u" "t = advance e u" using assms by (elim apply_eventE)
  have t: "st_hist_gates t = st_hist_gates u" by (simp add: u(2) advance_def)
  consider "ev_event_type e \<in> set evaluation_types" | "ev_event_type e \<in> set transition_types"
    | "ev_event_type e \<notin> set evaluation_types" "ev_event_type e \<notin> set transition_types" by blast
  then show thesis
  proof cases
    case 1
    then have "handle_historical_evaluation rt rv au e s = Inr u"
      using u(1) by (auto simp: dispatch_def evaluation_types_def)
    then show thesis
    proof (rule evaluation_gates)
      fix h
      assume h: "historical au" "validate_hist_eval rt (ev_payload e) = Inr h"
        "evaluation_fault rt rv e h s = None"
        "gates_of u = (if he_result h = ''passed''
          then (AList.update (phase_str (he_evaluated_phase h)) (ev_sequence e) (st_hist_gates s),
                AList.update (phase_str (he_evaluated_phase h)) (phase_str (he_evaluated_from_phase h)) (st_hist_origins s))
          else gates_of s)"
      show thesis
        by (cases "he_result h = ''passed''")
          (use opened [OF 1 h(1-3)] closed h(4) t in \<open>auto simp: gates_of_def\<close>)
    qed
  next
    case 2
    then have "handle_phase_transition rt rv au e s = Inr u" using u(1) by (simp add: dispatch_transition)
    then obtain tp spec r where "u = commit_transition au tp spec r s" by (elim phase_transitionE)
    then have "map_of (st_hist_gates u) ph = Some n \<Longrightarrow> map_of (st_hist_gates s) ph = Some n" for ph n
      by (auto simp: commit_transition_def Let_def split: if_splits)
    then show thesis using closed t by simp
  next
    case 3
    have "yields (\<lambda>t. st_hist_gates t = st_hist_gates s) (dispatch rt rv au e s)"
      by (rule dispatch_keeps) (simp_all add: 3 view_core_def raid_core_def)
    then show thesis using closed u(1) t by simp
  qed
qed

definition gates_bounded :: "project_state \<Rightarrow> bool" where
  "gates_bounded s \<longleftrightarrow> 0 \<le> st_last_event_sequence s \<and>
     (\<forall>ph n. map_of (st_hist_gates s) ph = Some n \<longrightarrow> n \<le> st_last_event_sequence s)"

lemma seq_step:
  "apply_event rt rv au e s = Inr t \<Longrightarrow> 0 \<le> st_last_event_sequence s \<Longrightarrow>
   st_last_event_sequence t = ev_sequence e \<and> ev_sequence e = st_last_event_sequence s + 1"
  using ledger.step_records [of rt rv au e s t] ledger.step_links [of rt rv au e s t]
    ledger.step_starts [of rt rv au e s t] by (cases "st_last_event_sequence s = 0") auto

lemma gates_bounded_step:
  assumes "apply_event rt rv au e s = Inr t" "gates_bounded s"
  shows "gates_bounded t"
proof -
  have sqn: "st_last_event_sequence t = st_last_event_sequence s + 1" "ev_sequence e = st_last_event_sequence s + 1"
    "0 \<le> st_last_event_sequence s"
    using seq_step [OF assms(1)] assms(2) by (simp_all add: gates_bounded_def)
  from assms(1) show ?thesis
  proof (cases rule: gates_step)
    case closed
    then show ?thesis using sqn assms(2) by (fastforce simp: gates_bounded_def)
  next
    case (opened h)
    then show ?thesis using sqn assms(2) by (fastforce simp: gates_bounded_def)
  qed
qed

text \<open>An evaluation that is as recent as the state was made by the last event.\<close>

lemma gate_last:
  assumes "apply_event rt rv au e s = Inr t" "gates_bounded s"
    and "map_of (st_hist_gates t) ph = Some (st_last_event_sequence t)"
  obtains h where "ev_event_type e \<in> set evaluation_types" "historical au"
    "validate_hist_eval rt (ev_payload e) = Inr h" "evaluation_fault rt rv e h s = None"
    "he_result h = ''passed''" "phase_str (he_evaluated_phase h) = ph"
proof -
  have sqn: "st_last_event_sequence t = st_last_event_sequence s + 1"
    using seq_step [OF assms(1)] assms(2) by (simp add: gates_bounded_def)
  have old: "map_of (st_hist_gates s) ph \<noteq> Some (st_last_event_sequence t)"
    using assms(2) sqn unfolding gates_bounded_def by fastforce
  from assms(1) show thesis
  proof (cases rule: gates_step)
    case closed
    then show thesis using assms(3) old by blast
  next
    case (opened h)
    then show thesis using that [OF opened(1-5)] assms(3) old by (auto split: if_splits)
  qed
qed

end
