(* ===== verification/Sample_Project.thy ===== *)
theory Sample_Project
  imports Reducer
begin

text \<open>
  A small project on which the theorems of the development are exercised: a runtime whose digest
  is constant, a trusted authority that replays history, and a ledger that creates a project,
  assigns the accountable actor, attaches a charter, records a passed Definition of Ready and
  moves to planning.
\<close>

definition hex64 :: string where
  "hex64 = replicate 64 CHR ''a''"

definition sample_rt :: pyrt where
  "sample_rt = \<lparr>sha256_hex = (\<lambda>_. hex64), float_repr = (\<lambda>_. ''0.0''), float_of_str = (\<lambda>_. None),
     int_of_str = (\<lambda>_. None), lax_int_of_str = (\<lambda>_. None), lax_float_of_str = (\<lambda>_. None),
     py_repr = (\<lambda>_. [])\<rparr>"

definition sample_authority :: "bool \<Rightarrow> authority_context" where
  "sample_authority hist = \<lparr>au_attached_evidence = {}, au_approved_decision_ids = {}, au_raci = [],
     au_accountable_actor = None, au_verified_task_receipts = {}, au_permit_accountable_approval = True,
     au_historical = hist, au_charter_evidence_refs = {}, au_cardinality_valid = True\<rparr>"

definition sample_event :: "int \<Rightarrow> string \<Rightarrow> string \<Rightarrow> payload \<Rightarrow> string list \<Rightarrow> project_event" where
  "sample_event n eid et p refs =
    \<lparr>ev_event_id = eid, ev_schema_version = ''power.project-event.v1'', ev_project_id = ''prj_demo'',
     ev_sequence = n, ev_timestamp = ''2026-01-01T00:00:00Z'', ev_actor = ''olena'',
     ev_source = ''pse_governance'', ev_session_id = None, ev_event_type = et, ev_payload = p,
     ev_payload_digest = hex64, ev_prev_event_hash = (if n = 1 then [] else hex64),
     ev_event_hash = hex64, ev_artifact_refs = [], ev_evidence_refs = refs,
     ev_correlation_id = None, ev_causation_id = None, ev_idempotency_key = None\<rparr>"

definition sample_prefix :: "project_event list" where
  "sample_prefix =
    [sample_event 1 ''evt_1'' ''project.created'' [(''owner'', JStr ''olena'')] [],
     sample_event 2 ''evt_2'' ''raci.assigned''
       [(''actor'', JStr ''olena''), (''role'', JStr ''accountable'')] [],
     sample_event 3 ''evt_3'' ''evidence.attached'' [(''evidence_type'', JStr ''Charter'')] [''charter-1'']]"

definition sample_evaluation :: project_event where
  "sample_evaluation = sample_event 4 ''evt_4'' ''dor.evaluated''
     [(''evaluated_from_phase'', JStr ''DISCOVERY''), (''evaluated_phase'', JStr ''PLANNING''),
      (''evaluation_event_id'', JStr ''evt_4''), (''evaluation_type'', JStr ''dor''),
      (''result'', JStr ''passed''), (''rules_digest'', JStr hex64)] []"

definition sample_transition :: project_event where
  "sample_transition = sample_event 5 ''evt_5'' ''project.phase.changed''
     [(''to_phase'', JStr ''PLANNING'')] [''charter-1'']"

definition sample_ledger :: "project_event list" where
  "sample_ledger = sample_prefix @ [sample_evaluation, sample_transition]"

text \<open>The states of the replay, before the projections.\<close>

definition sample_start :: project_state where
  "sample_start = \<lparr>st_project_id = ''prj_demo'', st_current_phase = DISCOVERY, st_owner = None,
     st_phase_history = [], st_active_tasks = [], st_ready_tasks = [], st_blocked_tasks = [],
     st_open_risks = [], st_open_issues = [], st_active_assumptions = [],
     st_active_dependencies = [], st_valid_decisions = [], st_superseded_decisions = [],
     st_recent_changes = [], st_health_flags = [], st_required_approvals = [],
     st_state_revision = replicate 64 CHR ''0'', st_schema_version = STATE_SCHEMA_VERSION,
     st_rules_version = GOVERNANCE_RULES_VERSION, st_rules_digest = hex64,
     st_last_event_sequence = 0, st_last_event_hash = [], st_raci = [], st_evidence_kinds = [],
     st_attached_evidence = [], st_tasks = [], st_decisions = [], st_hist_approved = [],
     st_hist_receipts = [], st_hist_evaluations = [], st_hist_gates = [], st_hist_origins = [],
     st_risks = [], st_issues = [], st_assumptions = [], st_dependencies = [],
     st_overridden_gates = [], st_contributing_events = []\<rparr>"

definition sample_chartered :: project_state where
  "sample_chartered = sample_start\<lparr>st_owner := Some ''olena'', st_raci := [(''Accountable'', [''olena''])],
     st_attached_evidence := [''charter-1''], st_evidence_kinds := [(''charter-1'', ''charter'')],
     st_last_event_sequence := 3, st_last_event_hash := hex64,
     st_contributing_events := [''evt_1'', ''evt_2'', ''evt_3'']\<rparr>"

definition sample_ready :: project_state where
  "sample_ready = sample_chartered\<lparr>st_hist_gates := [(''PLANNING'', 4)],
     st_hist_origins := [(''PLANNING'', ''DISCOVERY'')], st_hist_evaluations := [''evt_4''],
     st_last_event_sequence := 4, st_contributing_events := [''evt_1'', ''evt_2'', ''evt_3'', ''evt_4'']\<rparr>"

definition sample_planning :: project_state where
  "sample_planning = sample_ready\<lparr>st_current_phase := PLANNING, st_hist_gates := [],
     st_hist_origins := [],
     st_phase_history := [\<lparr>pr_from_phase = DISCOVERY, pr_to_phase = PLANNING,
       pr_name = ''advance_to_planning'', pr_timestamp = ''2026-01-01T00:00:00Z'', pr_actor = ''olena'',
       pr_event_id = ''evt_5'', pr_is_rollback = False, pr_reason = None,
       pr_gate = Some ''dor_discovery_to_planning'', pr_evidence_refs = [''charter-1''],
       pr_approval_refs = []\<rparr>],
     st_last_event_sequence := 5,
     st_contributing_events := [''evt_1'', ''evt_2'', ''evt_3'', ''evt_4'', ''evt_5'']\<rparr>"

abbreviation sample_step :: "project_event \<Rightarrow> project_state \<Rightarrow> pse_error + project_state" where
  "sample_step \<equiv> apply_event sample_rt GOVERNANCE_RULES_VERSION (Some (sample_authority True))"

lemma sample_digest: "check_floats j \<Longrightarrow> canonical_digest sample_rt j = Inr hex64"
  by (simp add: canonical_digest_floatless digest_of_def sample_rt_def)

lemma sample_types [simp]:
  "ev_event_type (hd sample_prefix) = ''project.created''" "ev_event_type (sample_prefix ! 1) = ''raci.assigned''"
  "ev_event_type (sample_prefix ! 2) = ''evidence.attached''"
  "ev_event_type sample_transition = ''project.phase.changed''"
  by (simp_all add: sample_prefix_def sample_transition_def sample_event_def)

text \<open>A step, with the digests settled.\<close>

lemma sample_digests:
  assumes "check_floats_items (ev_payload e)" "ev_payload_digest e = hex64" "ev_event_hash e = hex64"
    and "check_floats_items (filter (\<lambda>(k, v). k \<noteq> ''event_hash'') (event_dump e))"
  shows "check_digests sample_rt e = Inr ()"
  using assms
  by (simp add: check_digests_def compute_payload_digest_def event_hash_of_def compute_event_hash_def sample_digest)

lemma sample_apply:
  assumes "check_chain e s = None" "check_floats_items (ev_payload e)"
    and "check_floats_items (filter (\<lambda>(k, v). k \<noteq> ''event_hash'') (event_dump e))"
    and "ev_payload_digest e = hex64" "ev_event_hash e = hex64" "check_provenance au e = None"
    and "bindE (dispatch sample_rt rv au e s) (\<lambda>t. Inr (advance e t)) = Inr u"
  shows "apply_event sample_rt rv au e s = Inr u"
  using assms by (simp add: apply_event_def sample_digests)

definition sample_created :: project_state where
  "sample_created = sample_start\<lparr>st_owner := Some ''olena'', st_last_event_sequence := 1,
     st_last_event_hash := hex64, st_contributing_events := [''evt_1'']\<rparr>"

definition sample_assigned :: project_state where
  "sample_assigned = sample_created\<lparr>st_raci := [(''Accountable'', [''olena''])], st_last_event_sequence := 2,
     st_contributing_events := [''evt_1'', ''evt_2'']\<rparr>"

lemma sample_run_first: "sample_step (hd sample_prefix) sample_start = Inr sample_created"
  by (rule sample_apply; (simp add: dispatch_def)?; code_simp)

lemma sample_run_second: "sample_step (sample_prefix ! 1) sample_created = Inr sample_assigned"
  by (rule sample_apply; (simp add: dispatch_def)?; code_simp)

lemma sample_run_third: "sample_step (sample_prefix ! 2) sample_assigned = Inr sample_chartered"
  by (rule sample_apply; (simp add: dispatch_def)?; code_simp)

lemma sample_run_prefix: "foldE sample_step sample_prefix sample_start = Inr sample_chartered"
proof -
  have prefix: "sample_prefix = [hd sample_prefix, sample_prefix ! 1, sample_prefix ! 2]"
    by (simp add: sample_prefix_def)
  have "foldE sample_step [hd sample_prefix, sample_prefix ! 1, sample_prefix ! 2] sample_start = Inr sample_chartered"
    by (simp add: sample_run_first sample_run_second [simplified] sample_run_third)
  then show ?thesis by (simp only: prefix [symmetric])
qed

lemma sample_rules_digest: "RULES_DIGEST sample_rt = hex64"
  by (simp add: rules_digest_eq digest_of_def sample_rt_def)

definition sample_hist_eval :: hist_eval where
  "sample_hist_eval = \<lparr>he_evaluation_type = ''dor'', he_result = ''passed'',
     he_evaluated_from_phase = DISCOVERY, he_evaluated_phase = PLANNING,
     he_evaluation_event_id = ''evt_4'', he_task_views = [], he_decision_views = [],
     he_approved_decision_ids = [], he_verified_task_receipts = [], he_required_evidence_refs = [],
     he_accountable_actor = None, he_rules_version = GOVERNANCE_RULES_VERSION, he_rules_digest = hex64\<rparr>"

lemma sample_validate: "validate_hist_eval sample_rt (ev_payload sample_evaluation) = Inr sample_hist_eval"
  by code_simp

lemma sample_evaluation_checks:
  "check_chain sample_evaluation sample_chartered = None"
  "check_digests sample_rt sample_evaluation = Inr ()"
  "check_provenance (Some (sample_authority True)) sample_evaluation = None"
  by ((rule sample_digests; code_simp) | code_simp)+

lemma sample_run_evaluation: "sample_step sample_evaluation sample_chartered = Inr sample_ready"
proof -
  have fault: "evaluation_fault sample_rt GOVERNANCE_RULES_VERSION sample_evaluation sample_hist_eval
      sample_chartered = None"
    by (simp add: evaluation_fault_def sample_rules_digest sample_hist_eval_def eval_type_of_def
        sample_evaluation_def sample_event_def sample_chartered_def sample_start_def)
  have "handle_historical_evaluation sample_rt GOVERNANCE_RULES_VERSION (Some (sample_authority True))
      sample_evaluation sample_chartered = Inr (sample_chartered\<lparr>st_hist_gates := [(''PLANNING'', 4)],
        st_hist_origins := [(''PLANNING'', ''DISCOVERY'')], st_hist_evaluations := [''evt_4'']\<rparr>)"
    unfolding handle_historical_evaluation_def sample_validate sum.case fault option.case
    by (simp add: historical_def sample_authority_def sample_evaluation_def sample_event_def
        sample_hist_eval_def record_passed_def sample_chartered_def sample_start_def Let_def sorted_set_def)
  then show ?thesis
    unfolding apply_event_def sample_evaluation_checks
    by (simp add: dispatch_def sample_evaluation_def sample_event_def advance_def sample_ready_def
        sample_chartered_def sample_start_def)
qed

lemma sample_run_transition: "sample_step sample_transition sample_ready = Inr sample_planning"
  by (rule sample_apply; (simp add: dispatch_def)?; code_simp)

subsection \<open>The states that a replay returns\<close>

definition sealed :: "project_state \<Rightarrow> project_state" where
  "sealed s = s\<lparr>st_recent_changes := st_contributing_events s, st_state_revision := hex64\<rparr>"

lemma sample_projections:
  assumes "st_rules_digest s = hex64"
    and sealed: "(project_health (project_registers (project_decisions (project_tasks s))))\<lparr>st_state_revision := hex64\<rparr> = t"
    and floats: "check_floats_items (state_dump t)"
  shows "compute_projections sample_rt au s = Inr t"
proof -
  let ?r = "project_registers (project_decisions (project_tasks s))"
  have "st_rules_digest ?r = hex64"
    using assms(1) by (simp add: project_registers_def project_decisions_def project_tasks_def Let_def)
  then have "settle_rules sample_rt au ?r = Inr ?r"
    by (simp add: settle_rules_def sample_rules_digest hex64_def)
  moreover have filtered: "check_floats_items (filter P d)" if "check_floats_items d" for P d
    using that by (induction d) auto
  have "filter (\<lambda>(k, v). k \<noteq> ''state_revision'') (state_dump (project_health ?r))
      = filter (\<lambda>(k, v). k \<noteq> ''state_revision'') (state_dump t)"
    unfolding sealed [symmetric] by (rule state_dump_revision_irrelevant [symmetric])
  then have "check_floats_items (filter (\<lambda>(k, v). k \<noteq> ''state_revision'') (state_dump (project_health ?r)))"
    using filtered [OF floats] by metis
  ultimately show ?thesis
    using sealed by (simp add: compute_projections_def seal_revision_def compute_state_revision_def sample_digest)
qed

lemma sample_sealed:
  "compute_projections sample_rt au sample_chartered = Inr (sealed sample_chartered)"
  "compute_projections sample_rt au sample_planning = Inr (sealed sample_planning)"
  by (rule sample_projections; code_simp)+

lemma sample_initial: "initial_project_state ''prj_demo'' GOVERNANCE_RULES_VERSION hex64 = Inr sample_start"
  by code_simp

lemma sample_reduce:
  assumes "es \<noteq> []" "ev_project_id (hd es) = ''prj_demo''"
  shows "reduce_internal sample_rt GOVERNANCE_RULES_VERSION es None [] [] None au =
    bindE (foldE (apply_event sample_rt GOVERNANCE_RULES_VERSION au) es sample_start)
      (compute_projections sample_rt au)"
proof -
  have "settle_rules sample_rt au sample_start = Inr sample_start"
    by (simp add: settle_rules_def sample_rules_digest sample_start_def hex64_def)
  then show ?thesis
    using assms by (cases es) (simp_all add: reduce_internal_def target_project_def start_state_def
        sample_rules_digest sample_initial)
qed

lemma sample_reduced:
  "reduce_internal sample_rt GOVERNANCE_RULES_VERSION sample_prefix None [] [] None
     (Some (sample_authority True)) = Inr (sealed sample_chartered)"
  "reduce_internal sample_rt GOVERNANCE_RULES_VERSION sample_ledger None [] [] None
     (Some (sample_authority True)) = Inr (sealed sample_planning)"
proof -
  have hd: "ev_project_id (hd sample_prefix) = ''prj_demo''" "sample_prefix \<noteq> []"
    by (simp_all add: sample_prefix_def sample_event_def)
  have full: "foldE sample_step sample_ledger sample_start = Inr sample_planning"
    unfolding sample_ledger_def foldE_append sample_run_prefix
    by (simp add: sample_run_evaluation sample_run_transition)
  show "reduce_internal sample_rt GOVERNANCE_RULES_VERSION sample_prefix None [] [] None
     (Some (sample_authority True)) = Inr (sealed sample_chartered)"
    using hd by (simp add: sample_reduce sample_run_prefix sample_sealed)
  show "reduce_internal sample_rt GOVERNANCE_RULES_VERSION sample_ledger None [] [] None
     (Some (sample_authority True)) = Inr (sealed sample_planning)"
    using hd full by (subst sample_reduce) (simp_all add: sample_ledger_def sample_sealed)
qed

lemma sample_reduced_first:
  "reduce_internal sample_rt GOVERNANCE_RULES_VERSION [hd sample_prefix] None [] [] None
     (Some (sample_authority True)) = Inr (sealed sample_created)"
proof -
  have "compute_projections sample_rt (Some (sample_authority True)) sample_created = Inr (sealed sample_created)"
    by (rule sample_projections; code_simp)
  then show ?thesis
    by (subst sample_reduce) (simp_all add: sample_run_first, simp add: sample_prefix_def sample_event_def)
qed

lemma sample_reduced_ready:
  "reduce_internal sample_rt GOVERNANCE_RULES_VERSION (sample_prefix @ [sample_evaluation]) None [] [] None
     (Some (sample_authority True)) = Inr (sealed sample_ready)"
proof -
  have "compute_projections sample_rt (Some (sample_authority True)) sample_ready = Inr (sealed sample_ready)"
    by (rule sample_projections; code_simp)
  then show ?thesis
    by (subst sample_reduce) (simp_all add: foldE_append sample_run_prefix sample_run_evaluation,
      simp add: sample_prefix_def sample_event_def)
qed

definition sample_snapshot :: snapshot where
  "sample_snapshot = \<lparr>sn_schema_version = STATE_SCHEMA_VERSION, sn_rules_version = GOVERNANCE_RULES_VERSION,
     sn_project_id = ''prj_demo'', sn_last_event_sequence = 3, sn_last_event_hash = hex64,
     sn_state_revision = hex64, sn_state = sealed sample_chartered, sn_snapshot_digest = hex64\<rparr>"

lemma sample_snapshot_created: "create_snapshot sample_rt (sealed sample_chartered) = Inr sample_snapshot"
proof -
  have "check_floats_items (state_dump (sealed sample_chartered))" by code_simp
  moreover have "snapshot_ok sample_snapshot" by code_simp
  moreover have "check_floats_items (filter P d)" if "check_floats_items d" for P d
    using that by (induction d) auto
  ultimately show ?thesis
    by (simp add: create_snapshot_def compute_state_revision_def compute_snapshot_digest_def snapshot_dump_def
        sample_digest Let_def sealed_def sample_snapshot_def)
      (simp add: sample_chartered_def sample_start_def)
qed

subsection \<open>Further events\<close>

definition sample_untrusted :: project_event where
  "sample_untrusted = (sample_event 1 ''evt_1'' ''issue.opened'' [(''issue_id'', JStr ''iss_01'')] [])
     \<lparr>ev_source := ''model_extraction''\<rparr>"

lemma sample_untrusted_type [simp]: "ev_event_type sample_untrusted = ''issue.opened''"
  by (simp add: sample_untrusted_def sample_event_def)

lemma sample_run_untrusted:
  "\<exists>t. apply_event sample_rt GOVERNANCE_RULES_VERSION None sample_untrusted sample_start = Inr t"
proof
  show "apply_event sample_rt GOVERNANCE_RULES_VERSION None sample_untrusted sample_start =
      Inr (advance sample_untrusted sample_start)" by (rule sample_apply; (simp add: dispatch_def)?; code_simp)
qed

definition sample_observation :: project_event where
  "sample_observation = sample_event 1 ''evt_1'' ''task.lifecycle.observed''
     [(''task_id'', JStr ''t1''), (''state'', JStr ''completed'')] []"

lemma sample_observation_type [simp]: "ev_event_type sample_observation = ''task.lifecycle.observed''"
  by (simp add: sample_observation_def sample_event_def)

lemma sample_run_observation: "\<exists>t. sample_step sample_observation sample_start = Inr t"
proof
  show "sample_step sample_observation sample_start = Inr (advance sample_observation sample_start)"
    by (rule sample_apply; (simp add: dispatch_def)?; code_simp)
qed

definition sample_override :: project_event where
  "sample_override = sample_event 4 ''evt_4'' ''gate.overridden''
     [(''gate'', JStr ''dor_planning_to_execution''), (''reason'', JStr ''pilot''),
      (''approved_by'', JStr ''olena'')] [''charter-1'']"

lemma sample_override_type [simp]: "ev_event_type sample_override = ''gate.overridden''"
  by (simp add: sample_override_def sample_event_def)

definition sample_overridden :: project_state where
  "sample_overridden = (advance sample_override sample_chartered)
     \<lparr>st_overridden_gates := [''dor_planning_to_execution'']\<rparr>"

lemma sample_run_override: "sample_step sample_override sample_chartered = Inr sample_overridden"
  by (rule sample_apply; (simp add: dispatch_def)?; code_simp)

lemma sample_reduced_override:
  "reduce_internal sample_rt GOVERNANCE_RULES_VERSION (sample_prefix @ [sample_override]) None [] [] None
     (Some (sample_authority True)) = Inr (sealed sample_overridden)"
proof -
  have "compute_projections sample_rt (Some (sample_authority True)) sample_overridden = Inr (sealed sample_overridden)"
    by (rule sample_projections; code_simp)
  then show ?thesis
    by (subst sample_reduce) (simp_all add: foldE_append sample_run_prefix sample_run_override,
      simp add: sample_prefix_def sample_event_def)
qed

lemma sample_override_facts:
  "st_overridden_gates (sealed sample_overridden) = [''dor_planning_to_execution'']"
  "st_overridden_gates (sealed sample_chartered) = []"
  "strip (jstr (py_or (jget (ev_payload sample_override) ''overridden_by'') (JStr (ev_actor sample_override)))) = ''olena''"
  by code_simp+

end
