(* ===== verification/Canonical_Json_Facts.thy ===== *)
theory Canonical_Json_Facts
  imports Project_Event
begin

text \<open>
  The canonical text of a JSON value determines the value: the serialisation is injective up to
  the order of the keys. It follows that an event hash commits to every field of the event, as
  long as SHA-256 does not collide on the texts involved.

  The text of a double is a parameter. What is used of it is that it is a number text, that it is
  not the text of an integer, and that different doubles have different texts
  (\<open>repr\<close> of a finite float always has a point or an exponent, and reads back as the same float).
\<close>

subsection \<open>Numbers\<close>

definition number_char :: "char \<Rightarrow> bool" where
  "number_char c \<longleftrightarrow> c \<in> set ''0123456789+-.e''"

definition number_text :: "string \<Rightarrow> bool" where
  "number_text s \<longleftrightarrow> s \<noteq> [] \<and> list_all number_char s"

definition digit_char :: "nat \<Rightarrow> char" where
  "digit_char n = char_of (48 + n)"

lemma digit_char_table: "list_all (\<lambda>n. number_char (digit_char n) \<and> digit_char n \<noteq> CHR ''-'') [0..<10]"
  by code_simp

lemma digit_char_number: "n < 10 \<Longrightarrow> number_char (digit_char n)" "n < 10 \<Longrightarrow> digit_char n \<noteq> CHR ''-''"
  using digit_char_table unfolding list_all_iff by simp_all

lemma digit_char_inj:
  assumes "m < 10" "n < 10"
  shows "digit_char m = digit_char n \<longleftrightarrow> m = n"
proof
  assume "digit_char m = digit_char n"
  then have "(of_char (digit_char m) :: nat) = of_char (digit_char n)" by simp
  then show "m = n" using assms by (simp add: digit_char_def)
qed simp

lemma nat_str_eq:
  "nat_str n = (if n < 10 then [digit_char n] else nat_str (n div 10) @ [digit_char (n mod 10)])"
  unfolding digit_char_def by (subst nat_str.simps) simp

lemma nat_str_digits: "nat_str n \<noteq> [] \<and> list_all number_char (nat_str n) \<and> CHR ''-'' \<notin> set (nat_str n)"
proof (induction n rule: nat_str.induct)
  case (1 n)
  have "number_char (digit_char (n mod 10))" "digit_char (n mod 10) \<noteq> CHR ''-''"
    by (simp_all add: digit_char_number)
  then show ?case
    using 1 digit_char_number(1) [of n] digit_char_number(2) [of n] nat_str_eq [of n] by (cases "n < 10") auto
qed

lemma nat_str_inj: "nat_str m = nat_str n \<Longrightarrow> m = n"
proof (induction m arbitrary: n rule: nat_str.induct)
  case (1 m)
  have ne: "nat_str k \<noteq> []" for k using nat_str_digits by blast
  consider "m < 10" "n < 10" | "m < 10" "\<not> n < 10" | "\<not> m < 10" "n < 10" | "\<not> m < 10" "\<not> n < 10"
    by blast
  then show ?case
  proof cases
    case small: 1
    then show ?thesis using 1(2) by (simp add: nat_str_eq [of m] nat_str_eq [of n] digit_char_inj)
  next
    case 2
    then show ?thesis using 1(2) ne [of "n div 10"] by (simp add: nat_str_eq [of m] nat_str_eq [of n])
  next
    case 3
    then show ?thesis using 1(2) ne [of "m div 10"] by (simp add: nat_str_eq [of m] nat_str_eq [of n])
  next
    case 4
    then have "nat_str (m div 10) = nat_str (n div 10)" "digit_char (m mod 10) = digit_char (n mod 10)"
      using 1(2) by (simp_all add: nat_str_eq [of m] nat_str_eq [of n])
    then have "m div 10 = n div 10" "m mod 10 = n mod 10"
      using 1(1) 4 by (simp_all add: digit_char_inj)
    then show ?thesis by (metis div_mult_mod_eq)
  qed
qed

lemma int_str_number: "number_text (int_str i)"
  using nat_str_digits [of "nat i"] nat_str_digits [of "nat (- i)"]
  by (auto simp: int_str_def number_text_def number_char_def)

lemma int_str_inj: "int_str i = int_str j \<Longrightarrow> i = j"
  using nat_str_digits [of "nat i"] nat_str_digits [of "nat j"]
  by (auto simp: int_str_def dest!: nat_str_inj split: if_splits)
    (metis list.set_intros(1))+

text \<open>What may follow a value in a text: the end, a comma or a closing bracket.\<close>

definition delimited :: "string \<Rightarrow> bool" where
  "delimited r \<longleftrightarrow> r = [] \<or> hd r \<in> set '',]}''"

lemma number_text_split:
  assumes "number_text s" "number_text s'" "delimited r" "delimited r'" "s @ r = s' @ r'"
  shows "s = s' \<and> r = r'"
proof -
  have stop: "takeWhile number_char (t @ x) = t" if "number_text t" "delimited x" for t x
  proof (cases x)
    case Nil
    then show ?thesis using that(1) by (simp add: number_text_def list_all_iff takeWhile_eq_all_conv)
  next
    case (Cons c y)
    then have "\<not> number_char c" using that(2) by (auto simp: delimited_def number_char_def)
    then show ?thesis
      using that(1) Cons by (auto simp: number_text_def list_all_iff takeWhile_tail)
  qed
  have "s = s'" using stop [OF assms(1,3)] stop [OF assms(2,4)] assms(5) by simp
  then show ?thesis using assms(5) by simp
qed

subsection \<open>Strings\<close>

lemma hex_digit_inj: "m < 16 \<Longrightarrow> n < 16 \<Longrightarrow> hex_digit m = hex_digit n \<Longrightarrow> m = n"
  by (drule arg_cong [where f = "of_char :: char \<Rightarrow> nat"]) (simp add: hex_digit_def split: if_splits)


lemma of_char_same: "(of_char c :: nat) = k \<Longrightarrow> (of_char d :: nat) = k \<Longrightarrow> c = d"
  by (metis of_char_eq_iff)

lemma of_char_split:
  "(of_char c :: nat) div 16 = of_char d div 16 \<Longrightarrow> (of_char c :: nat) mod 16 = of_char d mod 16 \<Longrightarrow> c = d"
  by (metis div_mult_mod_eq of_char_eq_iff)

definition short_escapes :: "(nat \<times> char) list" where
  "short_escapes = [(34, CHR 0x22), (92, CHR 0x5C), (10, CHR ''n''), (13, CHR ''r''), (9, CHR ''t''),
     (8, CHR ''b''), (12, CHR ''f'')]"

lemma escape_char_cases:
  obtains (plain) "escape_char c = [c]" "c \<noteq> CHR 0x22" "c \<noteq> CHR 0x5C"
  | (short) k where "escape_char c = [CHR 0x5C, k]" "(of_char c, k) \<in> set short_escapes"
  | (code) "escape_char c = [CHR 0x5C, CHR ''u'', CHR ''0'', CHR ''0'',
      hex_digit (of_char c div 16), hex_digit (of_char c mod 16)]" "(of_char c :: nat) < 32"
proof -
  have "(of_char CHR 0x22 :: nat) = 34" "(of_char CHR 0x5C :: nat) = 92" by simp_all
  then have ne: "(of_char c :: nat) \<noteq> 34 \<Longrightarrow> c \<noteq> CHR 0x22" "(of_char c :: nat) \<noteq> 92 \<Longrightarrow> c \<noteq> CHR 0x5C" by metis+
  show thesis
    using ne by (cases "(of_char c :: nat) \<in> {34, 92, 10, 13, 9, 8, 12}"; cases "(of_char c :: nat) < 32")
      (auto simp: escape_char_def Let_def short_escapes_def intro: plain short code)
qed

lemma short_escapes_char: "(m, k) \<in> set short_escapes \<Longrightarrow> (n, k) \<in> set short_escapes \<Longrightarrow> m = n"
  "(m, k) \<in> set short_escapes \<Longrightarrow> k \<noteq> CHR ''u''"
  by (auto simp: short_escapes_def)

lemma escape_char_prefix:
  assumes "escape_char c @ x = escape_char d @ y"
  shows "c = d \<and> x = y"
proof (cases c rule: escape_char_cases)
  case plain
  then show ?thesis using assms by (cases d rule: escape_char_cases) auto
next
  case (short k)
  note c = this
  show ?thesis
  proof (cases d rule: escape_char_cases)
    case plain
    then show ?thesis using assms c by simp
  next
    case (short l)
    then have "(of_char c :: nat) = of_char d" "x = y"
      using assms c short_escapes_char(1) [of "of_char c" k] by auto
    then show ?thesis by (simp add: of_char_eq_iff)
  next
    case code
    then show ?thesis using assms c short_escapes_char(2) [OF c(2)] by simp
  qed
next
  case code
  show ?thesis
  proof (cases d rule: escape_char_cases)
    case plain
    then show ?thesis using assms code by simp
  next
    case (short k)
    then show ?thesis using assms code short_escapes_char(2) [of _ k] by auto
  next
    case code': code
    have "hex_digit (of_char c div 16) = hex_digit (of_char d div 16)"
      "hex_digit (of_char c mod 16) = hex_digit (of_char d mod 16)" "x = y"
      using assms code(1) code'(1) by simp_all
    moreover have "(of_char c :: nat) div 16 < 16" "(of_char d :: nat) div 16 < 16"
      using code(2) code'(2) by simp_all
    ultimately show ?thesis using hex_digit_inj of_char_split by simp
  qed
qed

lemma escape_char_not_quote: "escape_char c @ x \<noteq> CHR 0x22 # y"
  by (cases c rule: escape_char_cases) auto

lemma quote_split: "quote s @ r = quote s' @ r' \<Longrightarrow> s = s' \<and> r = r'"
proof -
  have "concat (map escape_char s) @ CHR 0x22 # r = concat (map escape_char s') @ CHR 0x22 # r' \<Longrightarrow>
      s = s' \<and> r = r'" for s'
  proof (induction s arbitrary: s')
    case Nil
    then show ?case using escape_char_not_quote by (cases s') (auto, metis)
  next
    case (Cons c s)
    show ?case
    proof (cases s')
      case Nil
      then show ?thesis using Cons.prems escape_char_not_quote by fastforce
    next
      case (Cons d t)
      then have "escape_char c @ (concat (map escape_char s) @ CHR 0x22 # r) =
          escape_char d @ (concat (map escape_char t) @ CHR 0x22 # r')"
        using Cons.prems by simp
      then show ?thesis using escape_char_prefix Cons.IH Cons by blast
    qed
  qed
  then show "quote s @ r = quote s' @ r' \<Longrightarrow> s = s' \<and> r = r'" by (simp add: quote_def)
qed

subsection \<open>Values\<close>

fun floats_of :: "json \<Rightarrow> pyfloat set"
and floats_of_list :: "json list \<Rightarrow> pyfloat set"
and floats_of_items :: "(string \<times> json) list \<Rightarrow> pyfloat set" where
  "floats_of (JFloat f) = {f}"
| "floats_of (JList xs) = floats_of_list xs"
| "floats_of (JObj d) = floats_of_items d"
| "floats_of _ = {}"
| "floats_of_list [] = {}"
| "floats_of_list (x # xs) = floats_of x \<union> floats_of_list xs"
| "floats_of_items [] = {}"
| "floats_of_items ((k, v) # d) = floats_of v \<union> floats_of_items d"

definition readable_floats :: "pyrt \<Rightarrow> pyfloat set \<Rightarrow> bool" where
  "readable_floats rt F \<longleftrightarrow> (\<forall>f \<in> F. number_text (float_repr rt f) \<and> (\<forall>i. float_repr rt f \<noteq> int_str i))
     \<and> inj_on (float_repr rt) F"

lemma readable_empty [simp]: "readable_floats rt {}"
  by (simp add: readable_floats_def)

text \<open>The first character of a value tells its kind, and no value starts like what follows one.\<close>

definition kind_of :: "json \<Rightarrow> nat" where
  "kind_of j = (case j of JNull \<Rightarrow> 0 | JBool b \<Rightarrow> (if b then 1 else 2) | JInt i \<Rightarrow> 3 | JFloat f \<Rightarrow> 3
     | JStr s \<Rightarrow> 4 | JList xs \<Rightarrow> 5 | JObj d \<Rightarrow> 6)"

definition kind_char :: "char \<Rightarrow> nat" where
  "kind_char c = (if c = CHR ''n'' then 0 else if c = CHR ''t'' then 1 else if c = CHR ''f'' then 2
     else if number_char c then 3 else if c = CHR 0x22 then 4 else if c = CHR ''['' then 5
     else if c = CHR ''{'' then 6 else 7)"

lemma number_text_kind: "number_text s \<Longrightarrow> \<exists>c t. s = c # t \<and> kind_char c = 3"
  by (cases s) (auto simp: number_text_def kind_char_def number_char_def)

lemma dumps_first:
  assumes "readable_floats rt (floats_of j)"
  shows "\<exists>c t. dumps rt j = c # t \<and> kind_char c = kind_of j"
proof (cases j)
  case (JInt i)
  then show ?thesis using number_text_kind [OF int_str_number] by (simp add: kind_of_def)
next
  case (JFloat f)
  then show ?thesis using assms number_text_kind by (simp add: kind_of_def readable_floats_def)
qed (auto simp: kind_of_def kind_char_def quote_def number_char_def)

lemma kind_of_less: "kind_of j < 7"
  by (cases j) (simp_all add: kind_of_def)

lemma dumps_kind:
  assumes "readable_floats rt (floats_of j)" "readable_floats rt (floats_of j')"
    and "dumps rt j @ r = dumps rt j' @ r'"
  shows "kind_of j = kind_of j'"
  using dumps_first [OF assms(1)] dumps_first [OF assms(2)] assms(3) by auto

lemma dumps_not_closing:
  assumes "readable_floats rt (floats_of j)" "c \<in> set '',]}''"
  shows "dumps rt j @ r \<noteq> c # t"
proof -
  obtain d s where "dumps rt j = d # s" "kind_char d = kind_of j" using dumps_first [OF assms(1)] by blast
  moreover have "list_all (\<lambda>c. kind_char c = 7) '',]}''" by code_simp
  then have "kind_char c = 7" using assms(2) unfolding list_all_iff by blast
  ultimately show ?thesis using kind_of_less [of j] by auto
qed


lemma readable_subset: "readable_floats rt F \<Longrightarrow> G \<subseteq> F \<Longrightarrow> readable_floats rt G"
  unfolding readable_floats_def by (meson inj_on_subset subsetD)

text \<open>One step of the three mutually recursive comparisons.\<close>

definition reads_value :: "pyrt \<Rightarrow> json \<Rightarrow> bool" where
  "reads_value rt j \<longleftrightarrow> (\<forall>j' r r'. readable_floats rt (floats_of j \<union> floats_of j') \<longrightarrow>
     delimited r \<longrightarrow> delimited r' \<longrightarrow> dumps rt j @ r = dumps rt j' @ r' \<longrightarrow> j = j' \<and> r = r')"

definition reads_list :: "pyrt \<Rightarrow> json list \<Rightarrow> bool" where
  "reads_list rt xs \<longleftrightarrow> (\<forall>ys r r'. readable_floats rt (floats_of_list xs \<union> floats_of_list ys) \<longrightarrow>
     dumps_list rt xs @ '']'' @ r = dumps_list rt ys @ '']'' @ r' \<longrightarrow> xs = ys \<and> r = r')"

definition reads_items :: "pyrt \<Rightarrow> (string \<times> json) list \<Rightarrow> bool" where
  "reads_items rt d \<longleftrightarrow> (\<forall>e r r'. readable_floats rt (floats_of_items d \<union> floats_of_items e) \<longrightarrow>
     dumps_items rt d @ ''}'' @ r = dumps_items rt e @ ''}'' @ r' \<longrightarrow> d = e \<and> r = r')"

lemma reads_valueD:
  assumes "reads_value rt j" "dumps rt j @ r = dumps rt j' @ r'" "delimited r" "delimited r'"
    "readable_floats rt (floats_of j \<union> floats_of j')"
  shows "j = j'" "r = r'"
  using assms unfolding reads_value_def by metis+

lemma reads_listD:
  assumes "reads_list rt xs" "dumps_list rt xs @ '']'' @ r = dumps_list rt ys @ '']'' @ r'"
    "readable_floats rt (floats_of_list xs \<union> floats_of_list ys)"
  shows "xs = ys \<and> r = r'"
  using assms unfolding reads_list_def by metis

lemma reads_itemsD:
  assumes "reads_items rt d" "dumps_items rt d @ ''}'' @ r = dumps_items rt e @ ''}'' @ r'"
    "readable_floats rt (floats_of_items d \<union> floats_of_items e)"
  shows "d = e \<and> r = r'"
  using assms unfolding reads_items_def by metis

text \<open>The rest of a list or an object: a closing bracket, or a comma and more elements.\<close>

definition tail_text :: "char \<Rightarrow> bool \<Rightarrow> string \<Rightarrow> string \<Rightarrow> string" where
  "tail_text c none s r = (if none then c # r else CHR '','' # s @ c # r)"

lemma tail_text_append: "(if d = [] then [] else '','' @ s) @ c # r = tail_text c (d = []) s r"
  by (simp add: tail_text_def)

lemma tail_delimited: "c \<in> {CHR '']'', CHR ''}''} \<Longrightarrow> delimited (tail_text c none s r)"
  by (auto simp: tail_text_def delimited_def)

lemma tail_text_eq:
  assumes "tail_text c none s r = tail_text c none' s' r'" "c \<noteq> CHR '',''"
  shows "none = none'" "none \<Longrightarrow> r = r'" "\<not> none \<Longrightarrow> s @ c # r = s' @ c # r'"
  using assms by (auto simp: tail_text_def split: if_splits)

lemma reads_number:
  assumes "kind_of j = 3"
  shows "reads_value rt j"
  unfolding reads_value_def
proof (intro allI impI)
  fix j' r r'
  assume a: "readable_floats rt (floats_of j \<union> floats_of j')" "delimited r" "delimited r'"
    "dumps rt j @ r = dumps rt j' @ r'"
  have F: "readable_floats rt (floats_of j)" "readable_floats rt (floats_of j')"
    using readable_subset [OF a(1)] by blast+
  have k: "kind_of j' = 3" using dumps_kind [OF F a(4)] assms by simp
  have num: "number_text (dumps rt x)" if "kind_of x = 3" "readable_floats rt (floats_of x)" for x
    using that int_str_number by (cases x) (auto simp: kind_of_def readable_floats_def split: if_splits)
  have eq: "dumps rt j = dumps rt j'" "r = r'"
    using number_text_split [OF num [OF assms F(1)] num [OF k F(2)] a(2,3,4)] by blast+
  have kinds: "(\<exists>i. x = JInt i) \<or> (\<exists>f. x = JFloat f)" if "kind_of x = 3" for x
    using that by (cases x) (simp_all add: kind_of_def split: if_splits)
  have texts: "float_repr rt f \<noteq> int_str i" if "f \<in> floats_of j \<union> floats_of j'" for f i
    using that a(1) unfolding readable_floats_def by blast
  have reprs: "f = f'" if "f \<in> floats_of j \<union> floats_of j'" "f' \<in> floats_of j \<union> floats_of j'"
    "float_repr rt f = float_repr rt f'" for f f'
    using that a(1) unfolding readable_floats_def by (meson inj_onD)
  consider i i' where "j = JInt i" "j' = JInt i'" | i f where "j = JInt i" "j' = JFloat f"
    | f i where "j = JFloat f" "j' = JInt i" | f f' where "j = JFloat f" "j' = JFloat f'"
    using kinds [OF assms] kinds [OF k] by blast
  then have "j = j'"
  proof cases
    case (1 i i')
    then show ?thesis using eq(1) int_str_inj [of i i'] by simp
  next
    case (2 i f)
    then show ?thesis using eq(1) texts [of f i] by simp
  next
    case (3 f i)
    then show ?thesis using eq(1) texts [of f i] by simp
  next
    case (4 f f')
    then show ?thesis using eq(1) reprs [of f f'] by simp
  qed
  then show "j = j' \<and> r = r'" using eq by simp
qed

lemma kind_cases:
  "kind_of j' = kind_of (JStr s) \<Longrightarrow> \<exists>s'. j' = JStr s'" "kind_of j' = kind_of (JList xs) \<Longrightarrow> \<exists>ys. j' = JList ys"
  "kind_of j' = kind_of (JObj d) \<Longrightarrow> \<exists>e. j' = JObj e" "kind_of j' = kind_of JNull \<Longrightarrow> j' = JNull"
  "kind_of j' = kind_of (JBool b) \<Longrightarrow> j' = JBool b"
  by (cases j'; auto simp: kind_of_def split: if_splits)+

lemma reads_valueI:
  assumes "\<And>j' r r'. readable_floats rt (floats_of j \<union> floats_of j') \<Longrightarrow> kind_of j' = kind_of j \<Longrightarrow>
    dumps rt j @ r = dumps rt j' @ r' \<Longrightarrow> j = j' \<and> r = r'"
  shows "reads_value rt j"
  unfolding reads_value_def
proof (intro allI impI)
  fix j' r r'
  assume a: "readable_floats rt (floats_of j \<union> floats_of j')" "dumps rt j @ r = dumps rt j' @ r'"
  have "kind_of j = kind_of j'"
    by (rule dumps_kind [OF _ _ a(2)]) (use readable_subset [OF a(1)] in blast)+
  then show "j = j' \<and> r = r'" using assms a by simp
qed

lemma reads_cons:
  assumes "reads_value rt x" "xs \<noteq> [] \<Longrightarrow> reads_list rt xs"
  shows "reads_list rt (x # xs)"
  unfolding reads_list_def
proof (intro allI impI)
  fix ys r r'
  assume F: "readable_floats rt (floats_of_list (x # xs) \<union> floats_of_list ys)"
    and eq: "dumps_list rt (x # xs) @ '']'' @ r = dumps_list rt ys @ '']'' @ r'"
  have x: "readable_floats rt (floats_of x)" using readable_subset [OF F] by auto
  then obtain y zs where ys: "ys = y # zs"
    using eq dumps_not_closing [OF x, of "CHR '']''"] by (cases ys) auto
  let ?t = "\<lambda>xs r. tail_text (CHR '']'') (xs = []) (dumps_list rt xs) r"
  have txts: "dumps rt x @ ?t xs r = dumps rt y @ ?t zs r'" using eq by (simp add: ys tail_text_append)
  have floats: "readable_floats rt (floats_of x \<union> floats_of y)"
    "readable_floats rt (floats_of_list xs \<union> floats_of_list zs)"
    by (rule readable_subset [OF F], simp add: ys, blast)+
  note same = reads_valueD [OF assms(1) txts tail_delimited tail_delimited floats(1), simplified]
  note rest = tail_text_eq [OF same(2)]
  have "xs = zs \<and> r = r'"
  proof (cases "xs = []")
    case True
    then show ?thesis using rest(1,2) by simp
  next
    case False
    then show ?thesis using reads_listD [OF assms(2) _ floats(2), of r r'] rest(3) by simp
  qed
  then show "x # xs = ys \<and> r = r'" using ys same(1) by simp
qed

lemma reads_item:
  assumes "reads_value rt v" "d \<noteq> [] \<Longrightarrow> reads_items rt d"
  shows "reads_items rt ((k, v) # d)"
  unfolding reads_items_def
proof (intro allI impI)
  fix e r r'
  assume F: "readable_floats rt (floats_of_items ((k, v) # d) \<union> floats_of_items e)"
    and eq: "dumps_items rt ((k, v) # d) @ ''}'' @ r = dumps_items rt e @ ''}'' @ r'"
  obtain l w f where e: "e = (l, w) # f"
    using eq by (cases e) (auto simp: quote_def)
  let ?t = "\<lambda>d r. tail_text (CHR ''}'') (d = []) (dumps_items rt d) r"
  have "quote k @ '':'' @ dumps rt v @ ?t d r = quote l @ '':'' @ dumps rt w @ ?t f r'"
    using eq by (simp add: e tail_text_append)
  then have "k = l" and txts: "dumps rt v @ ?t d r = dumps rt w @ ?t f r'"
    using quote_split [of k "'':'' @ dumps rt v @ ?t d r" l "'':'' @ dumps rt w @ ?t f r'"] by simp_all
  have floats: "readable_floats rt (floats_of v \<union> floats_of w)"
    "readable_floats rt (floats_of_items d \<union> floats_of_items f)"
    by (rule readable_subset [OF F], simp add: e, blast)+
  note same = reads_valueD [OF assms(1) txts tail_delimited tail_delimited floats(1), simplified]
  note rest = tail_text_eq [OF same(2)]
  have "d = f \<and> r = r'"
  proof (cases "d = []")
    case True
    then show ?thesis using rest(1,2) by simp
  next
    case False
    then show ?thesis using reads_itemsD [OF assms(2) _ floats(2), of r r'] rest(3) by simp
  qed
  then show "(k, v) # d = e \<and> r = r'" using e \<open>k = l\<close> same(1) by simp
qed

lemma reads_all: "reads_value rt j" "reads_list rt xs" "reads_items rt d"
proof (induction rt j and rt xs and rt d rule: dumps_dumps_list_dumps_items.induct)
  case (6 rt xs)
  show ?case
  proof (rule reads_valueI)
    fix j' r r'
    assume F: "readable_floats rt (floats_of (JList xs) \<union> floats_of j')"
      and k: "kind_of j' = kind_of (JList xs)" and eq: "dumps rt (JList xs) @ r = dumps rt j' @ r'"
    obtain ys where "j' = JList ys" using kind_cases(2) [OF k] by blast
    then show "JList xs = j' \<and> r = r'" using 6 F eq by (auto simp: reads_list_def)
  qed
next
  case (7 rt d)
  show ?case
  proof (rule reads_valueI)
    fix j' r r'
    assume F: "readable_floats rt (floats_of (JObj d) \<union> floats_of j')"
      and k: "kind_of j' = kind_of (JObj d)" and eq: "dumps rt (JObj d) @ r = dumps rt j' @ r'"
    obtain e where "j' = JObj e" using kind_cases(3) [OF k] by blast
    then show "JObj d = j' \<and> r = r'" using 7 F eq by (auto simp: reads_items_def)
  qed
next
  case (8 rt)
  show ?case
    unfolding reads_list_def
  proof (intro allI impI)
    fix ys r r'
    assume F: "readable_floats rt (floats_of_list [] \<union> floats_of_list ys)"
      and eq: "dumps_list rt [] @ '']'' @ r = dumps_list rt ys @ '']'' @ r'"
    have "ys = []"
    proof (cases ys)
      case (Cons y zs)
      have "readable_floats rt (floats_of y)" using readable_subset [OF F] by (simp add: Cons)
      from dumps_not_closing [OF this, of "CHR '']''"] show ?thesis using eq [symmetric] by (simp add: Cons)
    qed
    then show "[] = ys \<and> r = r'" using eq by simp
  qed
next
  case (9 rt x xs)
  then show ?case by (rule reads_cons)
next
  case (10 rt)
  show ?case
    unfolding reads_items_def
  proof (intro allI impI)
    fix e r r'
    assume eq: "dumps_items rt [] @ ''}'' @ r = dumps_items rt e @ ''}'' @ r'"
    have "e = []"
    proof (cases e)
      case (Cons kv f)
      then show ?thesis using eq by (cases kv) (simp add: quote_def)
    qed
    then show "[] = e \<and> r = r'" using eq by simp
  qed
next
  case (11 rt k v d)
  then show ?case by (rule reads_item)
next
  case (5 rt s)
  show ?case
  proof (rule reads_valueI)
    fix j' r r'
    assume k: "kind_of j' = kind_of (JStr s)" and eq: "dumps rt (JStr s) @ r = dumps rt j' @ r'"
    obtain t where "j' = JStr t" using kind_cases(1) [OF k] by blast
    then show "JStr s = j' \<and> r = r'" using quote_split [of s r t r'] eq by simp
  qed
next
  case (1 rt)
  show ?case by (rule reads_valueI) (drule kind_cases(4), simp)
next
  case (2 rt b)
  show ?case by (rule reads_valueI) (drule kind_cases(5), simp)
qed (simp_all add: reads_number kind_of_def)


subsection \<open>Events\<close>

lemma floats_of_items_map: "floats_of_items d = (\<Union>(k, v) \<in> set d. floats_of v)"
  by (induction d) auto

lemma floats_of_sort_keys [simp]:
  "floats_of (sort_keys j) = floats_of j" "floats_of_list (sort_keys_list xs) = floats_of_list xs"
  "floats_of_items (sort_keys_items d) = floats_of_items d"
  by (induction j and xs and d rule: sort_keys_sort_keys_list_sort_keys_items.induct)
    (simp_all add: floats_of_items_map)

text \<open>Equal canonical texts are texts of values that differ in the order of keys only.\<close>

lemma canonical_text_inj:
  assumes "readable_floats rt (floats_of j \<union> floats_of j')"
    and "dumps rt (sort_keys j) = dumps rt (sort_keys j')"
  shows "sort_keys j = sort_keys j'"
proof -
  have "readable_floats rt (floats_of (sort_keys j) \<union> floats_of (sort_keys j'))" using assms(1) by simp
  moreover have "delimited []" by (simp add: delimited_def)
  moreover have "dumps rt (sort_keys j) @ [] = dumps rt (sort_keys j') @ []" using assms(2) by simp
  ultimately show ?thesis using reads_all(1) [of rt "sort_keys j"] unfolding reads_value_def by blast
qed

lemma same_items:
  assumes "map fst a = map fst b" "distinct (map fst a)" "set a = set b"
  shows "a = b"
proof -
  have "map_of a = map_of b" using assms by (metis map_of_inject_set)
  have rebuild: "map (\<lambda>k. (k, the (map_of c k))) (map fst c) = c" if "distinct (map fst c)"
    for c :: "('a \<times> 'b) list"
    unfolding map_map o_def using that by (auto intro!: map_idI simp: map_of_is_SomeI)
  show ?thesis using rebuild [of a] rebuild [of b] assms \<open>map_of a = map_of b\<close> by metis
qed

lemma sort_keys_same_items:
  assumes "map fst d = map fst e" "dict_wf d" "sort_keys (JObj d) = sort_keys (JObj e)"
  shows "sort_keys_items d = sort_keys_items e"
proof (rule same_items)
  show "map fst (sort_keys_items d) = map fst (sort_keys_items e)" using assms(1) by simp
  show "distinct (map fst (sort_keys_items d))" using assms(2) by simp
  show "set (sort_keys_items d) = set (sort_keys_items e)"
    using assms(3) by (metis json.inject(6) set_sort_dict sort_keys.simps(2))
qed

lemma sort_keys_leaves [simp]: "sort_keys (jopt x) = jopt x" "sort_keys (jstrs xs) = jstrs xs"
  "jopt x = jopt y \<longleftrightarrow> x = y" "jstrs xs = jstrs ys \<longleftrightarrow> xs = ys"
proof -
  have "sort_keys_list (map JStr xs) = map JStr xs" by (induction xs) simp_all
  then show "sort_keys (jstrs xs) = jstrs xs" by (simp add: jstrs_def)
  show "jopt x = jopt y \<longleftrightarrow> x = y" by (auto simp: jopt_def split: option.splits)
  show "jstrs xs = jstrs ys \<longleftrightarrow> xs = ys"
    unfolding jstrs_def json.inject by (rule inj_map_eq_map) (simp add: inj_def)
qed (simp add: jopt_def split: option.split)

text \<open>The content of an event, with the keys of its payload in order; the text that is hashed.\<close>

definition event_content :: "project_event \<Rightarrow> project_event" where
  "event_content e = e\<lparr>ev_payload := sort_dict (sort_keys_items (ev_payload e))\<rparr>"

lemma event_content_link: "event_content e = event_content e' \<Longrightarrow> ev_prev_event_hash e = ev_prev_event_hash e'"
  by (drule arg_cong [where f = ev_prev_event_hash]) (simp add: event_content_def)

definition hashed_fields :: "project_event \<Rightarrow> payload" where
  "hashed_fields e = filter (\<lambda>(k, v). k \<noteq> ''event_hash'') (event_dump e)"

definition event_text :: "pyrt \<Rightarrow> project_event \<Rightarrow> string" where
  "event_text rt e = dumps rt (sort_keys (JObj (hashed_fields e)))"

definition event_floats :: "project_event \<Rightarrow> pyfloat set" where
  "event_floats e = floats_of_items (ev_payload e)"

lemma event_hash_text: "event_hash_of rt e = Inr h \<Longrightarrow> h = sha256_hex rt (event_text rt e)"
  by (auto simp: event_hash_of_def compute_event_hash_def canonical_digest_def canonical_json_dumps_def
      event_text_def hashed_fields_def split: if_splits)

lemma hashed_fields_floats: "floats_of (JObj (hashed_fields e)) = event_floats e"
proof -
  have "floats_of (jopt x) = {}" for x by (simp add: jopt_def split: option.split)
  moreover have "floats_of_list (map JStr xs) = {}" for xs by (induction xs) simp_all
  ultimately show ?thesis
    by (simp add: hashed_fields_def event_dump_def event_floats_def jstrs_def)
qed

lemma event_text_inj:
  assumes "readable_floats rt (event_floats e \<union> event_floats e')" "event_text rt e = event_text rt e'"
    and "ev_event_hash e = ev_event_hash e'"
  shows "event_content e = event_content e'"
proof -
  have "sort_keys (JObj (hashed_fields e)) = sort_keys (JObj (hashed_fields e'))"
    by (rule canonical_text_inj) (use assms in \<open>simp_all only: hashed_fields_floats event_text_def\<close>)
  moreover have "map fst (hashed_fields e) = map fst (hashed_fields e')" "dict_wf (hashed_fields e)"
    by (simp_all add: hashed_fields_def event_dump_def)
  ultimately have "sort_keys_items (hashed_fields e) = sort_keys_items (hashed_fields e')"
    by (intro sort_keys_same_items)
  then show ?thesis
    using assms(3) by (simp add: hashed_fields_def event_dump_def event_content_def)
qed

end
