(* ===== verification/Sample_Fork.thy ===== *)
theory Sample_Fork
  imports Sample_Project Canonical_Json_Facts
begin

text \<open>
  Two ledgers of two events that differ in the order of the keys of one payload, under a digest that
  tells the two events apart.
\<close>

definition hexb64 :: string where
  "hexb64 = replicate 64 CHR ''b''"

text \<open>The start of the canonical text of the second event.\<close>

definition fork_prefix :: string where
  "fork_prefix = ''{'' @ quote ''actor'' @ '':'' @ quote ''olena'' @ '','' @ quote ''artifact_refs'' @ '':[],''
     @ quote ''causation_id'' @ '':null,'' @ quote ''correlation_id'' @ '':null,'' @ quote ''event_id'' @ '':''
     @ quote ''evt_2''"

definition fork_rt :: pyrt where
  "fork_rt = sample_rt\<lparr>sha256_hex := (\<lambda>t. if starts_with fork_prefix t then hexb64 else hex64)\<rparr>"

definition fork_event :: "payload \<Rightarrow> project_event" where
  "fork_event p = (sample_event 2 ''evt_2'' ''raci.assigned'' p [])\<lparr>ev_event_hash := hexb64\<rparr>"

definition raci_payload :: payload where
  "raci_payload = [(''actor'', JStr ''olena''), (''role'', JStr ''accountable'')]"

definition fork_ledger :: "payload \<Rightarrow> project_event list" where
  "fork_ledger p = [hd sample_prefix, fork_event p]"

definition fork_end :: project_state where
  "fork_end = sample_assigned\<lparr>st_last_event_hash := hexb64\<rparr>"

abbreviation fork_step :: "project_event \<Rightarrow> project_state \<Rightarrow> pse_error + project_state" where
  "fork_step \<equiv> apply_event fork_rt GOVERNANCE_RULES_VERSION (Some (sample_authority True))"

subsection \<open>Digests\<close>

lemma starts_with_actor:
  assumes "starts_with fork_prefix (dumps rt (sort_keys (JObj d)))"
  shows "''actor'' \<in> set (map fst d)"
proof -
  have "\<exists>q. fork_prefix = CHR ''{'' # quote ''actor'' @ q" unfolding fork_prefix_def by simp
  then obtain q where q: "fork_prefix = CHR ''{'' # quote ''actor'' @ q" by blast
  obtain r where r: "dumps rt (sort_keys (JObj d)) = fork_prefix @ r" using assms starts_with_iff by blast
  let ?d = "sort_dict (sort_keys_items d)"
  have shape: "dumps_items rt ?d @ ''}'' = quote ''actor'' @ q @ r" using r by (simp add: q)
  obtain k v d' where d: "?d = (k, v) # d'"
  proof (cases ?d)
    case Nil
    then show thesis using shape by (simp add: quote_def)
  qed force
  let ?t = "'':'' @ dumps rt v @ (if d' = [] then [] else '','' @ dumps_items rt d') @ ''}''"
  have "quote k @ ?t = quote ''actor'' @ (q @ r)" using shape unfolding d by simp
  then have "k = ''actor''" by (rule quote_split [THEN conjunct1])
  then have "''actor'' \<in> fst ` set ?d" using d by force
  then show ?thesis using fst_sort_keys_items [of d] by (metis set_map set_sort_dict)
qed

lemma fork_digest:
  assumes "check_floats_items d" "''actor'' \<notin> set (map fst d)"
  shows "canonical_digest fork_rt (JObj d) = Inr hex64"
proof -
  have "\<not> starts_with fork_prefix (dumps fork_rt (sort_keys (JObj d)))" using starts_with_actor assms(2) by blast
  then show ?thesis
    using assms(1) by (simp add: canonical_digest_floatless digest_of_def fork_rt_def)
qed

lemma fork_rules_digest: "RULES_DIGEST fork_rt = hex64"
proof -
  have "''actor'' \<notin> set (map fst build_rules_manifest)" by code_simp
  then have "canonical_digest fork_rt (JObj build_rules_manifest) = Inr hex64"
    using check_floats_build_rules_manifest by (intro fork_digest) simp_all
  then show ?thesis
    by (simp add: rules_digest_eq canonical_digest_floatless [OF check_floats_build_rules_manifest])
qed

subsection \<open>The replays\<close>

lemma fork_first: "fork_step (hd sample_prefix) sample_start = Inr sample_created"
  by code_simp

lemma fork_second:
  "fork_step (fork_event raci_payload) sample_created = Inr fork_end"
  "fork_step (fork_event (rev raci_payload)) sample_created = Inr fork_end"
  by code_simp+

lemma fork_sealed: "compute_projections fork_rt (Some (sample_authority True)) fork_end = Inr (sealed fork_end)"
proof -
  let ?r = "project_registers (project_decisions (project_tasks fork_end))"
  have r: "project_health ?r = (sealed fork_end)\<lparr>st_state_revision := st_state_revision fork_end\<rparr>"
    "st_rules_digest ?r = hex64" by code_simp+
  have "''actor'' \<notin> set (map fst (state_dump (project_health ?r)))"
    "check_floats_items (state_dump (project_health ?r))" by code_simp+
  then have "canonical_digest fork_rt (JObj (filter (\<lambda>(k, v). k \<noteq> ''state_revision'') (state_dump (project_health ?r))))
      = Inr hex64"
    by (intro fork_digest) (auto simp: check_floats_items_all)
  then show ?thesis
    using r by (simp add: compute_projections_def settle_rules_def seal_revision_def compute_state_revision_def
        fork_rules_digest sealed_def hex64_def)
qed

lemma fork_reduced:
  assumes "p \<in> {raci_payload, rev raci_payload}"
  shows "reduce_internal fork_rt GOVERNANCE_RULES_VERSION (fork_ledger p) None [] [] None
    (Some (sample_authority True)) = Inr (sealed fork_end)"
proof -
  have "ev_project_id (hd sample_prefix) = ''prj_demo''" by (simp add: sample_prefix_def sample_event_def)
  moreover have "settle_rules fork_rt (Some (sample_authority True)) sample_start = Inr sample_start"
    by (simp add: settle_rules_def fork_rules_digest sample_start_def hex64_def)
  ultimately show ?thesis
    using assms fork_first fork_second fork_sealed
    by (auto simp: fork_ledger_def reduce_internal_def target_project_def start_state_def fork_rules_digest
        sample_initial historical_def sample_authority_def)
qed

text \<open>The two events of a ledger have different texts with different digests, the two ledgers the same texts.\<close>

lemma fork_texts:
  "event_text fork_rt ` (set (fork_ledger raci_payload) \<union> set (fork_ledger (rev raci_payload)))
    = {event_text fork_rt (hd sample_prefix), event_text fork_rt (fork_event raci_payload)}"
  "sha256_hex fork_rt (event_text fork_rt (hd sample_prefix)) = hex64"
  "sha256_hex fork_rt (event_text fork_rt (fork_event raci_payload)) = hexb64"
proof -
  have "event_text fork_rt (fork_event (rev raci_payload)) = event_text fork_rt (fork_event raci_payload)"
    by code_simp
  then show "event_text fork_rt ` (set (fork_ledger raci_payload) \<union> set (fork_ledger (rev raci_payload)))
    = {event_text fork_rt (hd sample_prefix), event_text fork_rt (fork_event raci_payload)}"
    by (auto simp: fork_ledger_def)
qed (code_simp)+

lemma fork_floats: "e \<in> set (fork_ledger p) \<Longrightarrow> p \<in> {raci_payload, rev raci_payload} \<Longrightarrow> event_floats e = {}"
  by (auto simp: fork_ledger_def fork_event_def raci_payload_def event_floats_def sample_prefix_def sample_event_def)

end
