(* ===== verification/Replay_Properties.thy ===== *)
theory Replay_Properties
  imports Replay_Simulation Lifecycle_Facts Sample_Project Sample_Fork Canonical_Json_Facts
begin

text \<open>
  The guarantees of a replay: a snapshot with its tail is the full replay, the accepted stream is
  numbered and chained, its head determines it, and the result is sealed.
\<close>

subsection \<open>From the start of a replay to its working state\<close>

text \<open>\<open>hashlib.sha256(\<dots>).hexdigest()\<close> returns sixty-four lower-case hexadecimal digits.\<close>

definition hex_digests :: "pyrt \<Rightarrow> bool" where
  "hex_digests rt \<longleftrightarrow> (\<forall>x. re_hash (sha256_hex rt x))"

lemma rules_digest_nonempty: "hex_digests rt \<Longrightarrow> RULES_DIGEST rt \<noteq> []"
  unfolding rules_digest_eq digest_of_def hex_digests_def re_hash_def
  by (metis list.size(3) zero_neq_numeral)

text \<open>The state on which the events of a fresh replay run.\<close>

definition replay_start ::
  "pyrt \<Rightarrow> string \<Rightarrow> string \<Rightarrow> task_view list \<Rightarrow> decision_view list \<Rightarrow> authority_context option \<Rightarrow>
   pse_error + project_state" where
  "replay_start rt rv pid tvs dvs au =
     bindE (initial_project_state pid rv (RULES_DIGEST rt)) (\<lambda>s0.
     bindE (settle_rules rt au s0) (\<lambda>s1.
     bindE (if historical au then Inr s1 else foldE (preload_task rt au) tvs s1) (\<lambda>s2.
       if historical au then Inr s2 else foldE (preload_decision rt au) dvs s2)))"

lemma reduce_internal_eq:
  "reduce_internal rt rv es None tvs dvs pid au =
     bindE (target_project es None pid) (\<lambda>target.
     bindE (replay_start rt rv target tvs dvs au) (\<lambda>s.
     bindE (foldE (apply_event rt rv au) es s) (compute_projections rt au)))"
  by (simp add: reduce_internal_def start_state_def replay_start_def bindE_assoc)

text \<open>A fresh working state: nothing has been replayed.\<close>

definition fresh :: "pyrt \<Rightarrow> string \<Rightarrow> string \<Rightarrow> project_state \<Rightarrow> bool" where
  "fresh rt rv pid s \<longleftrightarrow> state_wf s \<and> lineage s = (pid, STATE_SCHEMA_VERSION, rv, RULES_DIGEST rt, 0, [], [])
     \<and> st_current_phase s = DISCOVERY \<and> st_phase_history s = [] \<and> st_overridden_gates s = []
     \<and> st_attached_evidence s = [] \<and> st_hist_gates s = []
     \<and> registers_of s = (([], []), ([], []), ([], []), ([], []))"

lemma initial_fresh:
  "initial_project_state pid rv (RULES_DIGEST rt) = Inr s \<Longrightarrow> fresh rt rv pid s"
  by (auto simp: fresh_def initial_wf lineage_def registers_of_def initial_project_state_def split: if_splits)

lemma replay_start_fresh:
  assumes "replay_start rt rv pid tvs dvs au = Inr s"
  shows "fresh rt rv pid s"
proof -
  have task: "fresh rt rv pid v" if "fresh rt rv pid u" "preload_task rt au x u = Inr v" for u v x
    using that by (auto simp: preload_task_def fresh_def state_wf_def lineage_def registers_of_def split: if_splits)
  have dec: "fresh rt rv pid v" if "fresh rt rv pid u" "preload_decision rt au x u = Inr v" for u v x
    using that by (auto simp: preload_decision_def fresh_def state_wf_def lineage_def registers_of_def split: if_splits)
  have settle: "v = u" if "fresh rt rv pid u" "settle_rules rt au u = Inr v" for u v
  proof -
    have "st_rules_digest u = RULES_DIGEST rt" using that(1) by (simp add: fresh_def lineage_def)
    then have same: "u\<lparr>st_rules_digest := RULES_DIGEST rt\<rparr> = u" by (cases u) simp
    have "v = u\<lparr>st_rules_digest := RULES_DIGEST rt\<rparr> \<or> v = u"
      using that(2) unfolding settle_rules_def by (metis Inl_Inr_False sum.inject(2))
    then show ?thesis unfolding same by simp
  qed
  have tasks: "fresh rt rv pid v" if "fresh rt rv pid u" "foldE (preload_task rt au) xs u = Inr v" for u v xs
    using foldE_inv [OF that(2), of "fresh rt rv pid"] that(1) task by blast
  have decs: "fresh rt rv pid v" if "fresh rt rv pid u" "foldE (preload_decision rt au) xs u = Inr v" for u v xs
    using foldE_inv [OF that(2), of "fresh rt rv pid"] that(1) dec by blast
  have "yields (fresh rt rv pid) (replay_start rt rv pid tvs dvs au)"
    unfolding replay_start_def
    by (intro yields_bind yields_if yields_Inr yieldsI)
      (auto dest: initial_fresh settle tasks decs split: if_splits)
  then show ?thesis using assms by (simp add: yieldsD)
qed

lemma fold_header:
  assumes "foldE (apply_event rt rv au) es s = Inr t"
  shows "st_project_id t = st_project_id s \<and> st_schema_version t = st_schema_version s
    \<and> st_rules_version t = st_rules_version s \<and> st_rules_digest t = st_rules_digest s"
  by (rule foldE_inv [OF assms]) (auto dest: apply_event_header)

lemma run_agrees:
  assumes "fresh rt rv pid s" "foldE (apply_event rt rv au) es s = Inr u"
    and "compute_projections rt au u = Inr p"
  shows "sim u p"
  by (rule compute_projections_agrees [OF _ _ assms(3)])
    (use assms(1) foldE_wf [OF assms(2)] fold_header [OF assms(2)] in \<open>auto simp: fresh_def lineage_def\<close>)

subsection \<open>Snapshots\<close>

lemma compute_projections_header:
  assumes "sim s t"
  shows "st_rules_version t = st_rules_version s" "st_rules_digest t = st_rules_digest s"
    "st_last_event_sequence t = st_last_event_sequence s" "st_last_event_hash t = st_last_event_hash s"
  using assms by (simp_all add: sim_def agree_def)

lemma replay_from_agreeing:
  assumes "sim u s"
  shows "bindE (foldE (apply_event rt rv au) es s) (compute_projections rt au) =
         bindE (foldE (apply_event rt rv au) es u) (compute_projections rt au)"
proof -
  have "simE (foldE (apply_event rt rv au) es u) (foldE (apply_event rt rv au) es s)"
    by (rule simE_fold [OF apply_event_sim assms])
  then show ?thesis
    by (cases "foldE (apply_event rt rv au) es u"; cases "foldE (apply_event rt rv au) es s")
      (auto simp: compute_projections_sim)
qed

text \<open>
  C1. A snapshot and the tail of the ledger give the state of the full replay (the byte
  equivalence of guarantee G4.1): restoring the snapshot of the state that a prefix of the ledger
  reduces to and replaying the rest returns a state exactly when the replay of the whole ledger
  does, and then the same one.
\<close>

theorem snapshot_and_tail_is_full_replay:
  assumes "hex_digests rt" and "es1 \<noteq> []" and "es2 \<noteq> []"
    and s1: "reduce_internal rt rv es1 None tvs dvs pid au = Inr s1"
    and n: "create_snapshot rt s1 = Inr n"
  shows "restore_from_snapshot rt rv n es2 au = Inr s \<longleftrightarrow>
         reduce_internal rt rv (es1 @ es2) None tvs dvs pid au = Inr s"
proof -
  obtain target s3 u where target: "target_project es1 None pid = Inr target"
    and s3: "replay_start rt rv target tvs dvs au = Inr s3"
    and u: "foldE (apply_event rt rv au) es1 s3 = Inr u"
    and proj: "compute_projections rt au u = Inr s1"
    using s1 unfolding reduce_internal_eq bindE_eq_Inr by blast
  have f: "fresh rt rv target s3" by (rule replay_start_fresh [OF s3])
  then have head: "st_rules_version u = rv" "st_rules_digest u = RULES_DIGEST rt" "state_wf u"
    using fold_header [OF u] foldE_wf [OF u] by (simp_all add: fresh_def lineage_def)
  have sim: "sim u s1" by (rule run_agrees [OF f u proj])
  note s1_head = compute_projections_header [OF sim] head
  have pos: "0 < st_last_event_sequence s1"
    using ledger.run_position [OF u] f assms(2) s1_head(3) by (simp add: fresh_def lineage_def)
  obtain e es where es2: "es2 = e # es" using assms(3) by (cases es2) auto
  have restore: "restore_from_snapshot rt rv n es2 au =
      (if ev_sequence e \<noteq> st_last_event_sequence s1 + 1 then Inl (IntegrityError TailGap)
       else if ev_prev_event_hash e \<noteq> st_last_event_hash s1 then Inl (IntegrityError TailHash)
       else bindE (foldE (apply_event rt rv au) es2 s1) (compute_projections rt au))"
    using create_snapshotD [OF n] s1_head rules_digest_nonempty [OF assms(1)]
    by (simp add: restore_from_snapshot_def create_snapshot_verifies [OF n] Let_def es2)
  have linked: "ev_sequence e = st_last_event_sequence s1 + 1 \<and> ev_prev_event_hash e = st_last_event_hash s1"
    if "bindE (foldE (apply_event rt rv au) es2 s1) (compute_projections rt au) = Inr s"
    using that pos ledger.step_links [of rt rv au e s1] unfolding es2 foldE.simps bindE_eq_Inr by blast
  have "target_project (es1 @ es2) None pid = target_project es1 None pid"
    using assms(2) by (cases es1) (auto simp: target_project_def split: option.splits list.splits)
  then have "reduce_internal rt rv (es1 @ es2) None tvs dvs pid au =
      bindE (foldE (apply_event rt rv au) es2 s1) (compute_projections rt au)"
    by (simp add: reduce_internal_eq target s3 foldE_append u replay_from_agreeing [OF sim])
  then show ?thesis using restore linked by auto
qed

theorem snapshot_and_tail_is_full_replay_witness:
  "restore_from_snapshot sample_rt GOVERNANCE_RULES_VERSION sample_snapshot
     [sample_evaluation, sample_transition] (Some (sample_authority True)) = Inr (sealed sample_planning)"
proof -
  have "hex_digests sample_rt" by (simp add: hex_digests_def sample_rt_def) code_simp
  moreover have "sample_prefix \<noteq> []" by (simp add: sample_prefix_def)
  ultimately show ?thesis
    using snapshot_and_tail_is_full_replay [of sample_rt sample_prefix "[sample_evaluation, sample_transition]"
        GOVERNANCE_RULES_VERSION "[]" "[]" None "Some (sample_authority True)" "sealed sample_chartered"
        sample_snapshot "sealed sample_planning"]
      sample_reduced sample_snapshot_created by (simp add: sample_ledger_def)
qed

subsection \<open>What the projections keep\<close>

lemma compute_projectionsE:
  assumes "compute_projections rt au u = Inr s"
  obtains d r where "s = (project_health ((registers u)\<lparr>st_rules_digest := d\<rparr>))\<lparr>st_state_revision := r\<rparr>"
    "compute_state_revision rt (state_dump (project_health ((registers u)\<lparr>st_rules_digest := d\<rparr>))) = Inr r"
proof -
  obtain v r where v: "settle_rules rt au (registers u) = Inr v"
    "compute_state_revision rt (state_dump (project_health v)) = Inr r"
    "s = (project_health v)\<lparr>st_state_revision := r\<rparr>"
    using assms unfolding compute_projections_def seal_revision_def registers_def [symmetric] bindE_eq_Inr
    by blast
  have "v = (registers u)\<lparr>st_rules_digest := st_rules_digest v\<rparr>"
    using v(1) by (auto simp: settle_rules_def split: if_splits)
  then show thesis using that v(2,3) by metis
qed

lemma projected_fields:
  assumes "compute_projections rt au u = Inr s"
  shows "st_current_phase s = st_current_phase u" "st_phase_history s = st_phase_history u"
    "st_last_event_sequence s = st_last_event_sequence u" "st_last_event_hash s = st_last_event_hash u"
    "st_contributing_events s = st_contributing_events u" "st_project_id s = st_project_id u"
    "st_tasks s = st_tasks u" "st_decisions s = st_decisions u" "st_dependencies s = st_dependencies u"
    "st_risks s = st_risks u" "st_issues s = st_issues u" "st_assumptions s = st_assumptions u"
    "st_open_risks s = sorted_set (st_open_risks u)" "st_open_issues s = sorted_set (st_open_issues u)"
    "st_active_assumptions s = sorted_set (st_active_assumptions u)"
    "st_active_dependencies s = sorted_set (st_active_dependencies u)"
    "st_overridden_gates s = sorted_set (st_overridden_gates u)"
    "st_attached_evidence s = sorted_set (st_attached_evidence u)"
    "st_raci s = map (\<lambda>(role, actors). (role, sorted_set actors)) (sort_dict (st_raci u))"
    "st_ready_tasks s = tasks_where (\<lambda>r. r = RS_READY) u"
    "st_active_tasks s = tasks_where (\<lambda>r. r \<noteq> RS_TERMINAL) u"
    "st_blocked_tasks s = tasks_where is_blocked_status u"
  using assms by (auto elim!: compute_projectionsE simp: project_health_def registers_def
      project_registers_def project_decisions_def project_tasks_def Let_def)

lemma reduceE:
  assumes "reduce_internal rt rv es None tvs dvs pid au = Inr s"
  obtains target s0 u where "target_project es None pid = Inr target" "fresh rt rv target s0"
    "replay_start rt rv target tvs dvs au = Inr s0" "foldE (apply_event rt rv au) es s0 = Inr u"
    "compute_projections rt au u = Inr s"
  using assms replay_start_fresh unfolding reduce_internal_eq bindE_eq_Inr by blast

lemma reduce_snocE:
  assumes "reduce_internal rt rv es None tvs dvs pid au = Inr p"
    and "reduce_internal rt rv (es @ [e]) None tvs dvs pid au = Inr q"
  obtains target s0 u t where "fresh rt rv target s0" "foldE (apply_event rt rv au) es s0 = Inr u"
    "apply_event rt rv au e u = Inr t" "compute_projections rt au u = Inr p"
    "compute_projections rt au t = Inr q"
proof -
  obtain target s0 u where u: "target_project es None pid = Inr target" "fresh rt rv target s0"
    "replay_start rt rv target tvs dvs au = Inr s0" "foldE (apply_event rt rv au) es s0 = Inr u"
    "compute_projections rt au u = Inr p"
    using assms(1) by (elim reduceE)
  have "target_project (es @ [e]) None pid = Inr target"
    using u(1) by (auto simp: target_project_def split: option.splits list.splits)
  then obtain t where "foldE (apply_event rt rv au) (es @ [e]) s0 = Inr t" "compute_projections rt au t = Inr q"
    using assms(2) u(3) by (auto simp: reduce_internal_eq bindE_eq_Inr simp del: foldE.simps)
  moreover obtain v where "foldE (apply_event rt rv au) es s0 = Inr v" "apply_event rt rv au e v = Inr t"
    using calculation(1) by (elim ledger.run_snocE)
  ultimately show thesis using that u(2,4,5) by simp
qed

subsection \<open>The accepted stream\<close>

lemma reduce_contributing:
  assumes "reduce_internal rt rv es None tvs dvs pid au = Inr s"
  shows "st_contributing_events s = map ev_event_id es"
proof -
  obtain target s0 u where u: "fresh rt rv target s0" "foldE (apply_event rt rv au) es s0 = Inr u"
    "compute_projections rt au u = Inr s"
    using assms by (elim reduceE)
  then show ?thesis
    using ledger.run_applied [OF u(2)] projected_fields(5) [OF u(3)] by (simp add: fresh_def lineage_def)
qed

text \<open>
  C2. A replay accepts only a gapless, chained ledger, and records it: the events are numbered from
  one, each names the hash of its predecessor, and the state lists exactly their identifiers and
  stands at the last one.
\<close>

theorem accepted_ledger_is_chained:
  assumes "reduce_internal rt rv es None tvs dvs pid au = Inr s"
  shows "(\<forall>i < length es. ev_sequence (es ! i) = 1 + int i)
    \<and> (\<forall>i. Suc i < length es \<longrightarrow> ev_prev_event_hash (es ! Suc i) = ev_event_hash (es ! i))
    \<and> st_contributing_events s = map ev_event_id es
    \<and> st_last_event_sequence s = int (length es)
    \<and> (es \<noteq> [] \<longrightarrow> st_last_event_hash s = ev_event_hash (last es))"
proof -
  obtain target s0 u where u: "fresh rt rv target s0" "foldE (apply_event rt rv au) es s0 = Inr u"
    "compute_projections rt au u = Inr s"
    using assms by (elim reduceE)
  have s0: "st_last_event_sequence s0 = 0"
    using u(1) by (simp add: fresh_def lineage_def)
  have "es \<noteq> [] \<Longrightarrow> st_last_event_hash u = ev_event_hash (last es)"
    using ledger.run_head(2) [of rt rv au "butlast es" "last es" s0 u] u(2) by simp
  then show ?thesis
    using ledger.run_sequence [OF u(2)] ledger.run_chain [OF u(2)] reduce_contributing [OF assms]
      ledger.run_position [OF u(2)] s0 projected_fields [OF u(3)] by simp
qed

theorem accepted_ledger_is_chained_witness:
  "st_contributing_events (sealed sample_planning) = map ev_event_id sample_ledger
   \<and> st_last_event_sequence (sealed sample_planning) = 5"
  using accepted_ledger_is_chained [OF sample_reduced(2)] by (simp add: sample_ledger_def sample_prefix_def)

lemma reduce_checked:
  assumes "reduce_internal rt rv es None tvs dvs pid au = Inr s" and "e \<in> set es"
  shows "ev_project_id e = st_project_id s"
    "compute_payload_digest rt (ev_payload e) = Inr (ev_payload_digest e)"
    "event_hash_of rt e = Inr (ev_event_hash e)"
proof -
  obtain target s0 u where u: "foldE (apply_event rt rv au) es s0 = Inr u" "compute_projections rt au u = Inr s"
    using assms by (elim reduceE)
  obtain xs ys where es: "es = xs @ e # ys" using assms(2) by (meson split_list)
  then obtain v w where v: "foldE (apply_event rt rv au) xs s0 = Inr v" "apply_event rt rv au e v = Inr w"
    "foldE (apply_event rt rv au) ys w = Inr u"
    using u(1) unfolding es foldE_append foldE.simps bindE_eq_Inr by blast
  have "st_project_id s = st_project_id v"
    using projected_fields [OF u(2)] fold_header [OF v(3)] apply_event_header [OF v(2)] by simp
  moreover have "check_chain e v = None" "check_digests rt e = Inr ()"
    using v(2) by (auto elim: apply_eventE)
  ultimately show "ev_project_id e = st_project_id s"
    "compute_payload_digest rt (ev_payload e) = Inr (ev_payload_digest e)"
    "event_hash_of rt e = Inr (ev_event_hash e)"
    by (auto simp: check_chain_def check_digests_def bindE_eq_Inr split: if_splits)
qed

text \<open>
  A replay accepts only events of its project whose payload digest and event hash are the ones
  recomputed from their content: an event that was changed after it was hashed is rejected,
  whatever the rest of the ledger.
\<close>

theorem accepted_events_are_untampered:
  assumes "reduce_internal rt rv es None tvs dvs pid au = Inr s" and "e \<in> set es"
  shows "ev_project_id e = st_project_id s
    \<and> compute_payload_digest rt (ev_payload e) = Inr (ev_payload_digest e)
    \<and> event_hash_of rt e = Inr (ev_event_hash e)"
  using reduce_checked [OF assms] by blast

theorem accepted_events_are_untampered_witness:
  "event_hash_of sample_rt sample_transition = Inr (ev_event_hash sample_transition)"
  using accepted_events_are_untampered [OF sample_reduced(2), of sample_transition]
  by (simp add: sample_ledger_def)

text \<open>
  C4. The head of the ledger commits to the whole history: two replays that end at the same
  position with the same head hash have replayed the same events, field by field, up to the order
  of the keys in their payloads. It rests on SHA-256 not colliding on the canonical texts of these
  events and on the texts of their floats being readable; that the canonical text of an event
  determines its content is proved.
\<close>

theorem head_hash_commits_to_history:
  assumes r: "reduce_internal rt rv es None tvs dvs pid au = Inr s"
    and r': "reduce_internal rt rv es' None tvs' dvs' pid' au = Inr s'"
    and "st_last_event_sequence s = st_last_event_sequence s'"
    and "st_last_event_hash s = st_last_event_hash s'"
    and sha: "inj_on (sha256_hex rt) (event_text rt ` (set es \<union> set es'))"
    and floats: "readable_floats rt (\<Union>e \<in> set es \<union> set es'. event_floats e)"
  shows "map event_content es = map event_content es'"
proof -
  obtain target s0 u where u: "fresh rt rv target s0" "foldE (apply_event rt rv au) es s0 = Inr u"
    "compute_projections rt au u = Inr s"
    using r by (elim reduceE)
  obtain target' s0' u' where u': "fresh rt rv target' s0'" "foldE (apply_event rt rv au) es' s0' = Inr u'"
    "compute_projections rt au u' = Inr s'"
    using r' by (elim reduceE)
  have zero: "st_last_event_sequence s0 = 0" "st_last_event_sequence s0' = 0"
    using u(1) u'(1) by (simp_all add: fresh_def lineage_def)
  note heads = projected_fields(3,4) [OF u(3)] projected_fields(3,4) [OF u'(3)]
  have len: "length es = length es'"
    using ledger.run_position [OF u(2)] ledger.run_position [OF u'(2)] zero assms(3) heads by simp
  have content: "event_content e = event_content e'"
    if e: "e \<in> set es" "e' \<in> set es'" "ev_event_hash e = ev_event_hash e'" for e e'
  proof -
    have "event_hash_of rt e = Inr (ev_event_hash e)" "event_hash_of rt e' = Inr (ev_event_hash e')"
      using reduce_checked [OF r e(1)] reduce_checked [OF r' e(2)] by blast+
    then have "sha256_hex rt (event_text rt e) = sha256_hex rt (event_text rt e')"
      using e(3) by (metis event_hash_text)
    then have "event_text rt e = event_text rt e'" using sha e(1,2) by (auto dest: inj_onD)
    then show ?thesis
      by (intro event_text_inj [OF readable_subset [OF floats]]) (use e in auto)
  qed
  show ?thesis
    by (rule ledger.head_determines_stream [OF u(2) u'(2) _ _ len _ event_content_link content])
      (use zero heads assms(4) in simp_all)
qed

text \<open>
  Two ledgers of two events that differ in the order of the keys of a payload, and a digest that is not
  the same for the two events.
\<close>

theorem head_hash_commits_to_history_witness:
  "fork_ledger raci_payload \<noteq> fork_ledger (rev raci_payload)
   \<and> event_text fork_rt (hd sample_prefix) \<noteq> event_text fork_rt (fork_event raci_payload)
   \<and> map event_content (fork_ledger raci_payload) = map event_content (fork_ledger (rev raci_payload))"
proof -
  have differ: "hex64 \<noteq> hexb64" by (simp add: hex64_def hexb64_def)
  then have texts: "event_text fork_rt (hd sample_prefix) \<noteq> event_text fork_rt (fork_event raci_payload)"
    using fork_texts(2,3) by metis
  have "inj_on (sha256_hex fork_rt)
      (event_text fork_rt ` (set (fork_ledger raci_payload) \<union> set (fork_ledger (rev raci_payload))))"
    unfolding fork_texts(1) using differ fork_texts(2,3) by (auto simp: inj_on_def)
  moreover have "(\<Union>e \<in> set (fork_ledger raci_payload) \<union> set (fork_ledger (rev raci_payload)). event_floats e) = {}"
    using fork_floats by blast
  ultimately have "map event_content (fork_ledger raci_payload) = map event_content (fork_ledger (rev raci_payload))"
    by (intro head_hash_commits_to_history [OF fork_reduced fork_reduced]) simp_all
  moreover have "fork_ledger raci_payload \<noteq> fork_ledger (rev raci_payload)"
    by (simp add: fork_ledger_def fork_event_def sample_event_def raci_payload_def)
  ultimately show ?thesis using texts by blast
qed

text \<open>
  The state that a replay returns is sealed: its revision is the digest of its own content.
\<close>

theorem replayed_state_is_sealed:
  assumes "reduce_internal rt rv es None tvs dvs pid au = Inr s"
  shows "compute_state_revision rt (state_dump s) = Inr (st_state_revision s)"
proof -
  obtain target s0 u where "compute_projections rt au u = Inr s" using assms by (elim reduceE)
  then show ?thesis by (rule compute_projectionsE) (simp add: compute_state_revision_irrelevant)
qed

theorem replayed_state_is_sealed_witness:
  "compute_state_revision sample_rt (state_dump (sealed sample_planning)) = Inr hex64"
  using replayed_state_is_sealed [OF sample_reduced(2)] by (simp add: sealed_def)

text \<open>
  A snapshot that was created passes its integrity check and matches the head of the ledger it
  was taken from.
\<close>

theorem created_snapshot_verifies:
  assumes "create_snapshot rt s = Inr n"
  shows "verify_integrity rt n = Inr True
    \<and> (verify_snapshot_lineage n k h \<longleftrightarrow> k = st_last_event_sequence s \<and> h = st_last_event_hash s)"
  using create_snapshot_verifies [OF assms] create_snapshotD [OF assms]
  by (auto simp: verify_snapshot_lineage_def)

theorem created_snapshot_verifies_witness:
  "verify_integrity sample_rt sample_snapshot = Inr True \<and> verify_snapshot_lineage sample_snapshot 3 hex64"
  using created_snapshot_verifies [OF sample_snapshot_created, of 3 hex64]
  by (simp add: sealed_def sample_chartered_def)

end
