(* ===== verification/Lifecycle_Properties.thy ===== *)
theory Lifecycle_Properties
  imports Replay_Properties
begin

text \<open>
  The governance guarantees of a replay: which events move the phase of a project, what they rest
  on, who can override a gate, what an untrusted event can do, and what the RAID registers list.
\<close>

subsection \<open>One more event\<close>

lemma reduce_run_inv:
  assumes "reduce_internal rt rv es None tvs dvs pid au = Inr s"
    and "\<And>target s0. fresh rt rv target s0 \<Longrightarrow> P s0"
    and "\<And>e u v. P u \<Longrightarrow> apply_event rt rv au e u = Inr v \<Longrightarrow> P v"
  obtains u where "P u" "compute_projections rt au u = Inr s"
proof -
  obtain target s0 u where u: "fresh rt rv target s0" "foldE (apply_event rt rv au) es s0 = Inr u"
    "compute_projections rt au u = Inr s"
    using assms(1) by (elim reduceE)
  then have "P u" using foldE_inv [OF u(2), of P] assms(2,3) by blast
  then show thesis using that u(3) by blast
qed

text \<open>A change of phase that is not a reset by \<open>project.created\<close> is a transition.\<close>

lemma phase_changeE:
  assumes "apply_event rt rv au e s = Inr t" "st_current_phase t \<noteq> st_current_phase s"
    and "ev_event_type e \<noteq> ''project.created''"
  obtains tp spec v r where "ev_event_type e \<in> set transition_types" "tp = st_current_phase t"
    "missing_evaluation au tp s = None"
    "evaluate_transition rv s tp e (effective_authority s au) = Inr v" "ge_decision v = ALLOW"
    "legal_spec (st_current_phase s) tp = Some spec"
    "build_phase_record (st_current_phase s) tp spec e = Inr r"
    "st_phase_history t = st_phase_history s @ [r]"
  using assms(1)
proof (cases rule: lifecycle_cases)
  case (transition u)
  show thesis
    by (rule phase_transitionE [OF transition(2)])
      (rule that [OF transition(1)], use transition(3) in \<open>auto simp: lifecycle_of_def\<close>)
qed (use assms(2,3) in \<open>auto simp: lifecycle_of_def\<close>)

lemma created_event:
  assumes "apply_event rt rv au e s = Inr t" "ev_event_type e = ''project.created''"
  shows "st_current_phase t = DISCOVERY" "st_phase_history t = st_phase_history s"
  using assms by (auto elim!: apply_eventE simp: dispatch_def handle_project_owner_def advance_def Let_def)

subsection \<open>Phase changes\<close>

text \<open>
  C7. How the phase of a project can change: when an event of the ledger leaves a phase other than the
  one before it, then it is a trusted \<open>project.phase.changed\<close> or \<open>project.reopened\<close> event, the step is one
  of the table, a closed project is left only by \<open>project.reopened\<close>, and the step is appended to the phase
  history; or it is a \<open>project.created\<close> event, which puts the project back to discovery from any phase
  and leaves no entry in the history.
\<close>

theorem phase_changes_are_governed:
  assumes p: "reduce_internal rt rv es None tvs dvs pid au = Inr p"
    and q: "reduce_internal rt rv (es @ [e]) None tvs dvs pid au = Inr q"
    and "st_current_phase q \<noteq> st_current_phase p"
  shows "(ev_event_type e \<in> {''project.phase.changed'', ''project.reopened''}
      \<and> phase_step (st_current_phase p) (st_current_phase q)
      \<and> \<not> is_untrusted_event (Some e)
      \<and> (st_current_phase p = CLOSED \<longrightarrow> ev_event_type e = ''project.reopened'')
      \<and> (\<exists>r. st_phase_history q = st_phase_history p @ [r] \<and> pr_from_phase r = st_current_phase p
            \<and> pr_to_phase r = st_current_phase q \<and> pr_event_id r = ev_event_id e))
    \<or> (ev_event_type e = ''project.created'' \<and> st_current_phase q = DISCOVERY
      \<and> st_phase_history q = st_phase_history p)"
proof -
  obtain u t where u: "apply_event rt rv au e u = Inr t" "compute_projections rt au u = Inr p"
    "compute_projections rt au t = Inr q"
    using reduce_snocE [OF p q] by metis
  note fields = projected_fields(1,2) [OF u(2)] projected_fields(1,2) [OF u(3)]
  have change: "st_current_phase t \<noteq> st_current_phase u" using assms(3) fields by simp
  show ?thesis
  proof (cases "ev_event_type e = ''project.created''")
    case True
    then show ?thesis using created_event [OF u(1)] fields by simp
  next
    case False
    from phase_changeE [OF u(1) change False] obtain tp spec v r
      where c: "ev_event_type e \<in> set transition_types" "tp = st_current_phase t"
        "evaluate_transition rv u tp e (effective_authority u au) = Inr v" "ge_decision v = ALLOW"
        "legal_spec (st_current_phase u) tp = Some spec"
        "build_phase_record (st_current_phase u) tp spec e = Inr r"
        "st_phase_history t = st_phase_history u @ [r]" by metis
    have "\<not> is_untrusted_event (Some e) \<and> (st_current_phase u = CLOSED \<longrightarrow> ev_event_type e = ''project.reopened'')"
      by (rule evaluate_transition_allowE [OF c(3,4)]) blast
    moreover have "phase_step (st_current_phase u) (st_current_phase t)"
      using c(2,5) by (simp add: phase_step_iff)
    ultimately show ?thesis
      using c(1,2,7) build_phase_recordD [OF c(6)] fields by (simp add: transition_types_def)
  qed
qed

lemma sample_last: "sample_ledger = (sample_prefix @ [sample_evaluation]) @ [sample_transition]"
  by (simp add: sample_ledger_def)

lemma sample_phases:
  "st_current_phase (sealed sample_ready) = DISCOVERY" "st_current_phase (sealed sample_planning) = PLANNING"
  "ev_event_type sample_transition = ''project.phase.changed''"
  by (simp_all add: sealed_def sample_ready_def sample_chartered_def sample_start_def sample_planning_def
      sample_transition_def sample_event_def)

theorem phase_changes_are_governed_witness:
  "phase_step (st_current_phase (sealed sample_ready)) (st_current_phase (sealed sample_planning))
   \<and> \<not> is_untrusted_event (Some sample_transition)"
  using phase_changes_are_governed [OF sample_reduced_ready sample_reduced(2) [unfolded sample_last]]
  by (simp add: sample_phases)

lemma fresh_history: "fresh rt rv pid s \<Longrightarrow> history_ok s"
  by (simp add: fresh_def history_ok_def)

text \<open>
  Every entry of the phase history is a step of the table and names an event of the ledger.
\<close>

theorem phase_history_follows_the_table:
  assumes "reduce_internal rt rv es None tvs dvs pid au = Inr s" and "r \<in> set (st_phase_history s)"
  shows "phase_step (pr_from_phase r) (pr_to_phase r) \<and> pr_event_id r \<in> set (map ev_event_id es)"
proof -
  obtain u where "history_ok u" "compute_projections rt au u = Inr s"
    by (rule reduce_run_inv [OF assms(1) fresh_history history_ok_step])
  then have "phase_step (pr_from_phase r) (pr_to_phase r) \<and> pr_event_id r \<in> set (st_contributing_events s)"
    using assms(2) by (simp add: history_ok_def projected_fields)
  then show ?thesis using reduce_contributing [OF assms(1)] by simp
qed

theorem phase_history_follows_the_table_witness:
  "\<exists>r. st_phase_history (sealed sample_planning) = [r] \<and> phase_step (pr_from_phase r) (pr_to_phase r)"
proof -
  obtain r where "st_phase_history (sealed sample_planning) = [r]"
    by (simp add: sealed_def sample_planning_def)
  then show ?thesis using phase_history_follows_the_table [OF sample_reduced(2), of r] by simp
qed

subsection \<open>What a transition rests on\<close>

lemma effective_authority_simps:
  assumes "effective_authority s (Some a) = Some b"
  shows "au_attached_evidence b = set (st_attached_evidence s)" "au_historical b = au_historical a"
    "au_cardinality_valid b \<longleftrightarrow> length (accountable_actors (st_raci s)) \<le> 1"
    "au_accountable_actor b = Some x \<longleftrightarrow> accountable_actors (st_raci s) = [x]"
proof -
  let ?prior = "map (\<lambda>(role, actors). (role, sort actors))
                (filter (\<lambda>(role, actors). actors \<noteq> []) (st_raci s))"
  have "set (concat (map snd (filter (\<lambda>(role, actors). is_accountable_role role) ?prior))) =
        set (concat (map snd (filter (\<lambda>(role, actors). is_accountable_role role) (st_raci s))))"
    by (fastforce simp: image_iff)
  then have "accountable_actors ?prior = accountable_actors (st_raci s)"
    unfolding accountable_actors_def by (intro sorted_set_cong) (simp only: set_filter)
  then show "au_attached_evidence b = set (st_attached_evidence s)" "au_historical b = au_historical a"
    "au_cardinality_valid b \<longleftrightarrow> length (accountable_actors (st_raci s)) \<le> 1"
    "au_accountable_actor b = Some x \<longleftrightarrow> accountable_actors (st_raci s) = [x]"
    using assms by (auto simp: effective_authority_def Let_def split: list.splits)
qed

lemma effective_authority_Some: "\<exists>b. effective_authority s (Some a) = Some b"
  by (simp add: effective_authority_def Let_def)

lemma str_elements_nonempty: "str_elements j = Inr rs \<Longrightarrow> truthy j \<Longrightarrow> rs \<noteq> []"
  by (auto simp: str_elements_def py_iter_def bindE_eq_Inr split: json.splits if_splits)

text \<open>
  A transition cannot justify itself: under an authority, the evidence of a transition that
  requires evidence is not empty, and every reference was attached by an earlier event of the
  ledger.
\<close>

theorem transition_evidence_was_attached_before:
  assumes p: "reduce_internal rt rv es None tvs dvs pid (Some a) = Inr p"
    and q: "reduce_internal rt rv (es @ [e]) None tvs dvs pid (Some a) = Inr q"
    and change: "st_current_phase q \<noteq> st_current_phase p" "ev_event_type e \<noteq> ''project.created''"
    and spec: "legal_spec (st_current_phase p) (st_current_phase q) = Some spec" "ts_evidence_required spec"
  shows "\<exists>rs. str_elements (transition_evidence e) = Inr rs \<and> rs \<noteq> []
    \<and> (\<forall>r \<in> set rs. \<exists>d \<in> set es. ev_event_type d \<in> set evidence_types \<and> r \<in> set (collect_evidence_refs d))"
proof -
  obtain target s0 u t where u: "fresh rt rv target s0" "foldE (apply_event rt rv (Some a)) es s0 = Inr u"
    "apply_event rt rv (Some a) e u = Inr t" "compute_projections rt (Some a) u = Inr p"
    "compute_projections rt (Some a) t = Inr q"
    using reduce_snocE [OF p q] by metis
  note fields = projected_fields(1) [OF u(4)] projected_fields(1) [OF u(5)]
  have "st_current_phase t \<noteq> st_current_phase u" using change(1) fields by simp
  from phase_changeE [OF u(3) this change(2)] obtain tp spec' v
    where c: "tp = st_current_phase t" "legal_spec (st_current_phase u) tp = Some spec'"
      "evaluate_transition rv u tp e (effective_authority u (Some a)) = Inr v" "ge_decision v = ALLOW"
    by metis
  have "spec' = spec" using c(1,2) spec(1) fields by simp
  obtain b where b: "effective_authority u (Some a) = Some b" using effective_authority_Some by blast
  have "check_evidence rv e spec (Some b) = Inr None"
    by (rule evaluate_transition_allowE [OF c(3,4)]) (use c(2) b \<open>spec' = spec\<close> in simp)
  then obtain rs where rs: "str_elements (transition_evidence e) = Inr rs" "truthy (transition_evidence e)"
    "set rs \<subseteq> au_attached_evidence b"
    using check_evidence_attached spec(2) by metis
  have "st_attached_evidence s0 = []" using u(1) by (simp add: fresh_def)
  then have "set (st_attached_evidence u) =
      (\<Union>d \<in> {d \<in> set es. ev_event_type d \<in> set evidence_types}. set (collect_evidence_refs d))"
    using attached_run [OF u(2)] by simp
  then have "\<forall>r \<in> set rs. \<exists>d \<in> set es. ev_event_type d \<in> set evidence_types \<and> r \<in> set (collect_evidence_refs d)"
    using rs(3) effective_authority_simps(1) [OF b] by blast
  then show ?thesis using rs(1) str_elements_nonempty [OF rs(1,2)] by blast
qed

lemma sample_spec:
  "legal_spec DISCOVERY PLANNING = Some \<lparr>ts_from_phase = DISCOVERY, ts_to_phase = PLANNING,
     ts_name = ''advance_to_planning'', ts_preconditions = [''charter_present'', ''owner_assigned''],
     ts_required_gate = Some ''dor_discovery_to_planning'', ts_approval_required = False,
     ts_evidence_required = True, ts_is_rollback = False\<rparr>"
  by (simp add: LEGAL_TRANSITIONS_def tspec_def)

theorem transition_evidence_was_attached_before_witness:
  "\<exists>rs. str_elements (transition_evidence sample_transition) = Inr rs \<and> rs \<noteq> []"
  using transition_evidence_was_attached_before
    [OF sample_reduced_ready sample_reduced(2) [unfolded sample_last] _ _ sample_spec
       [folded sample_phases(1,2)]]
  by (simp add: sample_phases) blast

lemma evaluation_faultD:
  assumes "evaluation_fault rt rv e h s = None"
  shows "he_evaluation_type h = eval_type_of e" "he_evaluation_event_id h = ev_event_id e"
    "he_rules_version h = rv" "he_rules_digest h = RULES_DIGEST rt"
    "he_evaluated_from_phase h = st_current_phase s"
    "set (he_required_evidence_refs h) \<subseteq> set (st_attached_evidence s)"
  using assms by (auto simp: evaluation_fault_def split: if_splits)

text \<open>
  C10. In a historical replay a gated transition follows its evaluation at once: the last event
  before it is a passed Definition of Ready or Definition of Done from the phase that is left into
  the phase that is entered, bound to its own event and to the rules in force.
\<close>

theorem gated_transition_follows_its_evaluation:
  assumes p: "reduce_internal rt rv es None tvs dvs pid au = Inr p"
    and q: "reduce_internal rt rv (es @ [e]) None tvs dvs pid au = Inr q"
    and change: "st_current_phase q \<noteq> st_current_phase p" "ev_event_type e \<noteq> ''project.created''"
    and spec: "legal_spec (st_current_phase p) (st_current_phase q) = Some spec" "gate_of spec = Some g"
    and "historical au"
  shows "\<exists>d h. es \<noteq> [] \<and> d = last es \<and> ev_event_type d \<in> {''dor.evaluated'', ''dod.evaluated''}
    \<and> validate_hist_eval rt (ev_payload d) = Inr h \<and> he_result h = ''passed''
    \<and> he_evaluated_from_phase h = st_current_phase p \<and> he_evaluated_phase h = st_current_phase q
    \<and> he_evaluation_event_id h = ev_event_id d \<and> he_rules_digest h = RULES_DIGEST rt"
proof -
  obtain target s0 u t where u: "fresh rt rv target s0" "foldE (apply_event rt rv au) es s0 = Inr u"
    "apply_event rt rv au e u = Inr t" "compute_projections rt au u = Inr p"
    "compute_projections rt au t = Inr q"
    using reduce_snocE [OF p q] by metis
  note fields = projected_fields(1) [OF u(4)] projected_fields(1) [OF u(5)]
  have "st_current_phase t \<noteq> st_current_phase u" using change(1) fields by simp
  from phase_changeE [OF u(3) this change(2)] obtain tp
    where c: "tp = st_current_phase t" "missing_evaluation au tp u = None" by metis
  have gate: "map_of (st_hist_gates u) (phase_str tp) = Some (st_last_event_sequence u)"
    using c(1,2) spec assms(7) fields
    by (auto simp: missing_evaluation_def gate_evaluated_def split: if_splits)
  have start: "gates_bounded s0" "st_hist_gates s0 = []"
    using u(1) by (simp_all add: fresh_def lineage_def gates_bounded_def)
  then have "es \<noteq> []" using u(2) gate by auto
  then obtain w where w: "foldE (apply_event rt rv au) (butlast es) s0 = Inr w"
    "apply_event rt rv au (last es) w = Inr u"
    using u(2) ledger.run_snocE [of rt rv au "butlast es" "last es" s0 u] by auto
  have "gates_bounded w"
    using foldE_inv [OF w(1), of gates_bounded] start(1) gates_bounded_step by blast
  from gate_last [OF w(2) this gate] obtain h where h: "ev_event_type (last es) \<in> set evaluation_types"
    "validate_hist_eval rt (ev_payload (last es)) = Inr h" "evaluation_fault rt rv (last es) h w = None"
    "he_result h = ''passed''" "phase_str (he_evaluated_phase h) = phase_str tp"
    by metis
  have "st_current_phase u = st_current_phase w"
    using w(2) by (cases rule: lifecycle_cases)
      (use h(1) in \<open>auto simp: lifecycle_of_def evaluation_types_def transition_types_def\<close>)
  then show ?thesis
    using \<open>es \<noteq> []\<close> h evaluation_faultD [OF h(3)] fields c(1)
    by (intro exI [of _ "last es"] exI [of _ h]) (auto simp: evaluation_types_def phase_str_inj)
qed

theorem gated_transition_follows_its_evaluation_witness:
  "\<exists>h. validate_hist_eval sample_rt (ev_payload sample_evaluation) = Inr h
     \<and> he_evaluated_phase h = PLANNING \<and> he_result h = ''passed''"
  using gated_transition_follows_its_evaluation
    [OF sample_reduced_ready sample_reduced(2) [unfolded sample_last] _ _ sample_spec
       [folded sample_phases(1,2)], of "''dor_discovery_to_planning''"]
  by (simp add: sample_phases gate_of_def historical_def sample_authority_def) blast

text \<open>The verdict on an accepted change of phase, on the state that the replay reports before it.\<close>

lemma reduce_transitionE:
  assumes p: "reduce_internal rt rv es None tvs dvs pid (Some a) = Inr p"
    and q: "reduce_internal rt rv (es @ [e]) None tvs dvs pid (Some a) = Inr q"
    and change: "st_current_phase q \<noteq> st_current_phase p" "ev_event_type e \<noteq> ''project.created''"
  obtains b v where "effective_authority p (Some a) = Some b"
    "evaluate_transition rv p (st_current_phase q) e (Some b) = Inr v" "ge_decision v = ALLOW"
proof -
  obtain target s0 u t where u: "fresh rt rv target s0" "foldE (apply_event rt rv (Some a)) es s0 = Inr u"
    "apply_event rt rv (Some a) e u = Inr t"
    "compute_projections rt (Some a) u = Inr p" "compute_projections rt (Some a) t = Inr q"
    using reduce_snocE [OF p q] by metis
  have sim: "sim u p" by (rule run_agrees [OF u(1,2,4)])
  note fields = projected_fields(1) [OF u(4)] projected_fields(1) [OF u(5)]
  have "st_current_phase t \<noteq> st_current_phase u" using change(1) fields by simp
  from phase_changeE [OF u(3) this change(2)] obtain tp v
    where c: "tp = st_current_phase t"
      "evaluate_transition rv u tp e (effective_authority u (Some a)) = Inr v" "ge_decision v = ALLOW"
    by metis
  obtain b where b: "effective_authority p (Some a) = Some b" using effective_authority_Some by blast
  have "evaluate_transition rv p tp e (Some b) = Inr v"
    by (simp only: b [symmetric] evaluate_transition_sim [OF sim effective_authority_sim [OF sim]] c(2))
  then show thesis using that b c(1,3) fields by simp
qed

text \<open>
  C11. Under an authority a transition has everything its row of the table asks for: at most one
  accountable actor, the canonical approval, every precondition, and its quality gate, which is
  overridden or whose definition holds.
\<close>

theorem transition_meets_its_requirements:
  assumes p: "reduce_internal rt rv es None tvs dvs pid (Some a) = Inr p"
    and q: "reduce_internal rt rv (es @ [e]) None tvs dvs pid (Some a) = Inr q"
    and change: "st_current_phase q \<noteq> st_current_phase p" "ev_event_type e \<noteq> ''project.created''"
    and spec: "legal_spec (st_current_phase p) (st_current_phase q) = Some spec"
    and b: "effective_authority p (Some a) = Some b"
  shows "length (accountable_actors (st_raci p)) \<le> 1
    \<and> (ts_approval_required spec \<longrightarrow> resolve_canonical_approval (ev_payload e) p b spec)
    \<and> (\<forall>c \<in> set (ts_preconditions spec). evaluate_precondition c p e b)
    \<and> (\<forall>g. ts_required_gate spec = Some g \<longrightarrow> g \<in> set (st_overridden_gates p)
          \<or> contains ''dor'' g \<and> dor_passed (evaluate_dor p (st_current_phase q))
          \<or> contains ''dod'' g \<and> dod_passed (evaluate_dod p (st_current_phase q) (Some e) (Some b)))"
proof -
  obtain b' v where "effective_authority p (Some a) = Some b'"
    "evaluate_transition rv p (st_current_phase q) e (Some b') = Inr v" "ge_decision v = ALLOW"
    by (rule reduce_transitionE [OF p q change])
  then have allowed: "evaluate_transition rv p (st_current_phase q) e (Some b) = Inr v" "ge_decision v = ALLOW"
    using b by simp_all
  obtain codes where ok: "au_cardinality_valid b" "check_approval rv p e spec (Some b) = None"
    "check_preconditions rv p e spec (Some b) = None"
    "check_gate rv p (st_current_phase q) e spec (Some b) = Inr codes"
    using evaluate_transition_allowE [OF allowed] spec by (metis option.inject)
  have gate: "g \<in> set (st_overridden_gates p)
      \<or> contains ''dor'' g \<and> dor_passed (evaluate_dor p (st_current_phase q))
      \<or> contains ''dod'' g \<and> dod_passed (evaluate_dod p (st_current_phase q) (Some e) (Some b))"
    if "ts_required_gate spec = Some g" for g
  proof -
    have "g \<noteq> [] \<and> (contains ''dor'' g \<or> contains ''dod'' g)"
      using legal_gates [OF spec that] by auto
    then show ?thesis using check_gate_passed [OF ok(4) that] by blast
  qed
  have "ts_approval_required spec \<longrightarrow> resolve_canonical_approval (ev_payload e) p b spec"
    using ok(2) by (simp add: check_approval_def has_approval_def split: if_splits)
  then show ?thesis
    using ok(1) effective_authority_simps(3) [OF b] check_preconditions_hold [OF ok(3)] gate by simp
qed

theorem transition_meets_its_requirements_witness:
  "\<exists>b. effective_authority (sealed sample_ready) (Some (sample_authority True)) = Some b
     \<and> evaluate_precondition ''charter_present'' (sealed sample_ready) sample_transition b
     \<and> dor_passed (evaluate_dor (sealed sample_ready) PLANNING)"
proof -
  obtain b where b: "effective_authority (sealed sample_ready) (Some (sample_authority True)) = Some b"
    using effective_authority_Some by blast
  have "st_overridden_gates (sealed sample_ready) = []"
    by (simp add: sealed_def sample_ready_def sample_chartered_def sample_start_def)
  then show ?thesis
    using transition_meets_its_requirements [OF sample_reduced_ready sample_reduced(2) [unfolded sample_last]
        _ _ sample_spec [folded sample_phases(1,2)] b] b
    by (simp add: sample_phases)
qed

subsection \<open>Untrusted events\<close>

lemma raid_ignored_untrusted: "is_untrusted_event (Some e) \<Longrightarrow> raid_ignored e k"
  by (simp add: raid_ignored_def)

lemma untrusted_transition:
  "is_untrusted_event (Some e) \<Longrightarrow> handle_phase_transition rt rv au e s \<noteq> Inr t"
  by (auto elim!: phase_transitionE dest: evaluate_transition_allowE)

lemma evaluate_gate_override_trusted:
  "evaluate_gate_override rv e au = Inr v \<Longrightarrow> ge_decision v = ALLOW \<Longrightarrow> \<not> is_untrusted_event (Some e)"
  by (auto simp: evaluate_gate_override_def Let_def)

text \<open>
  Model output has no authority (guarantee G4.2), with or without a trusted bundle: an event
  from an untrusted source or actor, when it is accepted at all, changes no risk, issue,
  assumption or dependency, opens no gate and adds no entry to the phase history; the phase stays
  unless the event is a \<open>project.created\<close>, which puts it back to discovery.
\<close>

theorem untrusted_events_have_no_authority:
  assumes "apply_event rt rv au e s = Inr t" and "is_untrusted_event (Some e)"
  shows "registers_of t = registers_of s
    \<and> set (st_overridden_gates t) \<subseteq> set (st_overridden_gates s)
    \<and> st_phase_history t = st_phase_history s
    \<and> (st_current_phase t = st_current_phase s
        \<or> ev_event_type e = ''project.created'' \<and> st_current_phase t = DISCOVERY)"
proof -
  obtain u where u: "dispatch rt rv au e s = Inr u" "t = advance e u" using assms(1) by (elim apply_eventE)
  have "registers_of u = registers_of s"
  proof (cases "apply_raid_event rt e s")
    case (Some m)
    have "m = Inr s" using Some assms(2) unfolding apply_raid_event_def raid_handler_defs Let_def
      by (simp add: raid_ignored_untrusted split: if_splits)
    then show ?thesis using u(1) raid_event_alone [OF Some] by simp
  next
    case None
    have "yields (\<lambda>t. registers_of t = registers_of s) (dispatch rt rv au e s)"
      by (rule dispatch_keeps)
        (simp_all add: None registers_of_def lifecycle_core_def eval_core_def view_core_def)
    then show ?thesis using u(1) by simp
  qed
  moreover have "set (st_overridden_gates t) \<subseteq> set (st_overridden_gates s)"
  proof
    fix g
    assume "g \<in> set (st_overridden_gates t)"
    then show "g \<in> set (st_overridden_gates s)"
      using overridden_step [OF assms(1)] assms(2) by (metis evaluate_gate_override_trusted)
  qed
  moreover have "lifecycle_of t = lifecycle_of s \<or> ev_event_type e = ''project.created''
      \<and> st_current_phase t = DISCOVERY \<and> st_phase_history t = st_phase_history s"
    using assms(1) by (cases rule: lifecycle_cases) (use untrusted_transition [OF assms(2)] in auto)
  ultimately show ?thesis using u(2) by (auto simp: registers_of_def advance_def lifecycle_of_def)
qed

theorem untrusted_events_have_no_authority_witness:
  "\<exists>t. apply_event sample_rt GOVERNANCE_RULES_VERSION None sample_untrusted sample_start = Inr t
     \<and> registers_of t = registers_of sample_start"
proof -
  obtain t where t: "apply_event sample_rt GOVERNANCE_RULES_VERSION None sample_untrusted sample_start = Inr t"
    using sample_run_untrusted by blast
  moreover have "is_untrusted_event (Some sample_untrusted)"
    by (simp add: sample_untrusted_def is_untrusted_event_def)
  ultimately show ?thesis using untrusted_events_have_no_authority [OF t] by blast
qed

subsection \<open>Gate overrides\<close>

lemma override_history_evidence:
  assumes "override_history pv e a = Inr None" "au_historical a"
  obtains rs where "str_elements (py_or (jstrs (ev_evidence_refs e)) (py_or (jget (ev_payload e) ''evidence_refs'') (JList []))) = Inr rs"
    "rs \<noteq> []" "set rs \<subseteq> au_attached_evidence a"
proof -
  let ?j = "py_or (jstrs (ev_evidence_refs e)) (py_or (jget (ev_payload e) ''evidence_refs'') (JList []))"
  obtain xs where xs: "?j = JList xs" "xs \<noteq> []" "unresolved_refs (JList xs) a = Inr []"
    using assms unfolding override_history_def
    by (cases ?j) (auto simp: bindE_eq_Inr split: if_splits)
  then obtain rs where rs: "str_elements (JList xs) = Inr rs" "filter (\<lambda>r. r \<notin> au_attached_evidence a) rs = []"
    by (auto simp: unresolved_refs_def bindE_eq_Inr)
  moreover have "rs \<noteq> []" using str_elements_nonempty [OF rs(1)] xs(2) by simp
  ultimately show thesis using that xs(1) by (auto simp: filter_empty_conv)
qed

lemma authorized_actors_raci:
  assumes "effective_authority s (Some a) = Some b" "x \<in> set (authorized_actors b)"
  shows "\<exists>role actors. (role, actors) \<in> set (st_raci s) \<and> x \<in> set actors
    \<and> casefold (strip role) \<in> set AUTHORIZED_OVERRIDE_ROLES"
proof -
  obtain role actors where r: "(role, actors) \<in> set (au_raci b)" "x \<in> set actors"
    "casefold (strip role) \<in> set AUTHORIZED_OVERRIDE_ROLES"
    using assms(2) by (auto simp: authorized_actors_def)
  have "au_raci b = map (\<lambda>(role, actors). (role, sort actors))
      (filter (\<lambda>(role, actors). actors \<noteq> []) (st_raci s))"
    using assms(1) by (auto simp: effective_authority_def Let_def)
  then obtain ys where "(role, ys) \<in> set (st_raci s)" "set ys = set actors" using r(1) by auto
  then show ?thesis using r by blast
qed

text \<open>
  A gate is overridden only by a trusted \<open>gate.overridden\<close> event with a reason, in the name of
  an actor who holds an authorised role in the RACI matrix of the ledger, and with an approval by
  the one accountable actor or by an approved decision; in a historical replay the override also
  carries evidence that was attached before.
\<close>

theorem gate_overrides_are_authorised:
  assumes p: "reduce_internal rt rv es None tvs dvs pid (Some a) = Inr p"
    and q: "reduce_internal rt rv (es @ [e]) None tvs dvs pid (Some a) = Inr q"
    and g: "g \<in> set (st_overridden_gates q)" "g \<notin> set (st_overridden_gates p)"
  shows "ev_event_type e = ''gate.overridden'' \<and> \<not> is_untrusted_event (Some e)
    \<and> truthy (override_reason (ev_payload e))
    \<and> (\<exists>role actors. (role, actors) \<in> set (st_raci p)
        \<and> strip (jstr (py_or (jget (ev_payload e) ''overridden_by'') (JStr (ev_actor e)))) \<in> set actors
        \<and> casefold (strip role) \<in> set AUTHORIZED_OVERRIDE_ROLES)
    \<and> (\<exists>b. effective_authority p (Some a) = Some b \<and>
        (accountable_actors (st_raci p) = [strip (jstr (jget (ev_payload e) ''approved_by''))]
         \<or> strip (jstr (jget (ev_payload e) ''approved_by'')) \<in> au_approved_decision_ids b))
    \<and> (au_historical a \<longrightarrow> (\<exists>rs. rs \<noteq> [] \<and> set rs \<subseteq> set (st_attached_evidence p)
        \<and> str_elements (py_or (jstrs (ev_evidence_refs e))
            (py_or (jget (ev_payload e) ''evidence_refs'') (JList []))) = Inr rs))"
proof -
  obtain target s0 u t where u: "fresh rt rv target s0" "foldE (apply_event rt rv (Some a)) es s0 = Inr u"
    "apply_event rt rv (Some a) e u = Inr t"
    "compute_projections rt (Some a) u = Inr p" "compute_projections rt (Some a) t = Inr q"
    using reduce_snocE [OF p q] by metis
  have sim: "sim u p" by (rule run_agrees [OF u(1,2,4)])
  have "g \<in> set (st_overridden_gates t)" "g \<notin> set (st_overridden_gates u)"
    using g projected_fields(17) [OF u(4)] projected_fields(17) [OF u(5)] by simp_all
  from overridden_step [OF u(3) this] obtain v where v: "ev_event_type e = ''gate.overridden''"
    "evaluate_gate_override rv e (effective_authority u (Some a)) = Inr v" "ge_decision v = ALLOW"
    by metis
  obtain b where b: "effective_authority p (Some a) = Some b" using effective_authority_Some by blast
  have ov: "evaluate_gate_override rv e (Some b) = Inr v"
    by (simp only: b [symmetric] evaluate_gate_override_sim [OF effective_authority_sim [OF sim]] v(2))
  note d = evaluate_gate_override_allowD [OF ov v(3)]
  note w = override_authorityD [OF d(3)]
  have "au_historical b = au_historical a" by (rule effective_authority_simps(2) [OF b])
  then have "au_historical a \<longrightarrow> (\<exists>rs. rs \<noteq> [] \<and> set rs \<subseteq> set (st_attached_evidence p)
        \<and> str_elements (py_or (jstrs (ev_evidence_refs e))
            (py_or (jget (ev_payload e) ''evidence_refs'') (JList []))) = Inr rs)"
    using override_history_evidence [OF d(2)] effective_authority_simps(1) [OF b] by metis
  then show ?thesis
    using v(1) d(1) w authorized_actors_raci [OF b w(1)] effective_authority_simps(4) [OF b] b by blast
qed

theorem gate_overrides_are_authorised_witness:
  "\<exists>role actors. (role, actors) \<in> set (st_raci (sealed sample_chartered)) \<and> ''olena'' \<in> set actors
     \<and> casefold (strip role) \<in> set AUTHORIZED_OVERRIDE_ROLES"
  using gate_overrides_are_authorised [OF sample_reduced(1) sample_reduced_override, of "''dor_planning_to_execution''"]
  by (simp add: sample_override_facts)

subsection \<open>RAID registers\<close>

text \<open>
  C14. The RAID projections are complete: every identified risk, open or investigated issue, valid
  or confirmed assumption and unsatisfied dependency of the replayed state is listed in its
  projection, no identifier is listed twice, and every listed one has an entity.
\<close>

theorem raid_projections_are_complete:
  assumes "reduce_internal rt rv es None tvs dvs pid au = Inr s"
  shows "reg_ok risk_live (st_risks s) (st_open_risks s)
    \<and> reg_ok issue_live (st_issues s) (st_open_issues s)
    \<and> reg_ok assumption_live (st_assumptions s) (st_active_assumptions s)
    \<and> reg_ok dependency_live (st_dependencies s) (st_active_dependencies s)"
proof -
  obtain target s0 u where u: "fresh rt rv target s0" "foldE (apply_event rt rv au) es s0 = Inr u"
    "compute_projections rt au u = Inr s"
    using assms by (elim reduceE)
  have empty: "reg_ok risk_live (st_risks s0) (st_open_risks s0)"
    "reg_ok issue_live (st_issues s0) (st_open_issues s0)"
    "reg_ok assumption_live (st_assumptions s0) (st_active_assumptions s0)"
    "reg_ok dependency_live (st_dependencies s0) (st_active_dependencies s0)"
    using u(1) by (simp_all add: fresh_def registers_of_def reg_ok_def)
  have sorted: "reg_ok live d l \<Longrightarrow> reg_ok live d (sorted_set l)" for live :: "'a \<Rightarrow> bool" and d l
    by (simp add: reg_ok_def)
  show ?thesis
    using sorted [OF risks.run_ok [OF u(2) empty(1)]] sorted [OF issues.run_ok [OF u(2) empty(2)]]
      sorted [OF assumptions.run_ok [OF u(2) empty(3)]] sorted [OF dependencies.run_ok [OF u(2) empty(4)]]
    unfolding projected_fields [OF u(3)] by blast
qed

theorem raid_projections_are_complete_witness:
  "reg_ok issue_live (st_issues (sealed sample_planning)) (st_open_issues (sealed sample_planning))"
  using raid_projections_are_complete [OF sample_reduced(2)] by blast

subsection \<open>Provenance\<close>

text \<open>
  A historical replay accepts a governance-bearing event only from the trusted governance
  source and never from an untrusted actor or with unverified provenance.
\<close>

theorem governance_needs_trusted_provenance:
  assumes "reduce_internal rt rv es None tvs dvs pid au = Inr s" and "historical au"
    and "e \<in> set es" and "ev_event_type e \<in> set governance_bearing_types"
  shows "ev_source e = ''pse_governance'' \<and> \<not> is_untrusted_event (Some e)"
proof -
  obtain target s0 u where u: "foldE (apply_event rt rv au) es s0 = Inr u"
    using assms(1) by (elim reduceE)
  obtain xs ys where es: "es = xs @ e # ys" using assms(3) by (meson split_list)
  then obtain v w where "apply_event rt rv au e v = Inr w"
    using u(1) unfolding es foldE_append foldE.simps bindE_eq_Inr by blast
  then have "check_provenance au e = None" by (elim apply_eventE)
  then show ?thesis using assms(2,4) by (simp add: check_provenance_def split: if_splits)
qed

theorem governance_needs_trusted_provenance_witness:
  "ev_source sample_transition = ''pse_governance'' \<and> \<not> is_untrusted_event (Some sample_transition)"
  by (rule governance_needs_trusted_provenance [OF sample_reduced(2)])
    (simp_all add: historical_def sample_authority_def sample_ledger_def sample_transition_def
      sample_event_def governance_bearing_types_def)

text \<open>
  Under an authority, the ledger's observations of tasks and decisions never overwrite the
  views of their owners (guarantees G4.3 and G4.4): they only raise drift flags.
\<close>

theorem observations_do_not_overwrite_authority:
  assumes "apply_event rt rv (Some a) e s = Inr t"
    and "ev_event_type e \<in> {''task.lifecycle.observed'', ''decision.lifecycle.observed''}"
  shows "st_tasks t = st_tasks s \<and> st_decisions t = st_decisions s
    \<and> set (st_health_flags s) \<subseteq> set (st_health_flags t)
    \<and> set (st_health_flags t) \<subseteq> set (st_health_flags s) \<union> set drift_flags"
proof -
  obtain u where u: "dispatch rt rv (Some a) e s = Inr u" "t = advance e u" using assms(1) by (elim apply_eventE)
  let ?P = "\<lambda>u. st_tasks u = st_tasks s \<and> st_decisions u = st_decisions s
    \<and> set (st_health_flags s) \<subseteq> set (st_health_flags u)
    \<and> set (st_health_flags u) \<subseteq> set (st_health_flags s) \<union> set drift_flags"
  have drift: "?P (if b then note_drift stale drift s else s)"
    if "stale \<in> set drift_flags" "drift \<in> set drift_flags" for b stale drift
    using that by (auto simp: note_drift_def)
  have "yields ?P (handle_task_observed rt (Some a) e s)" "yields ?P (handle_decision_observed rt (Some a) e s)"
    unfolding handle_task_observed_def handle_decision_observed_def Let_def
    by (intro yield_intros, auto simp: note_drift_def drift_flags_def)+
  then have "?P u"
    using u(1) assms(2) by (auto simp: dispatch_def dest: yieldsD)
  then show ?thesis using u(2) by (simp add: advance_def)
qed

theorem observations_do_not_overwrite_authority_witness:
  "\<exists>t. sample_step sample_observation sample_start = Inr t \<and> st_tasks t = st_tasks sample_start"
proof -
  obtain t where t: "sample_step sample_observation sample_start = Inr t"
    using sample_run_observation by blast
  then show ?thesis
    using observations_do_not_overwrite_authority [OF t]
    by (simp add: sample_observation_def sample_event_def)
qed

end
