(* ===== verification/Work_Facts.thy ===== *)
theory Work_Facts
  imports Reducer_Facts Governance_Facts
begin

text \<open>
  The tasks of a project: the graph of their dependencies in terms of the views, the invariant of
  the views that a replay keeps, and what the readiness classes mean.
\<close>

subsection \<open>The dependency graph\<close>

text \<open>
  The edges that the dependency check reads out of an explicit dependency. \<open>task_graph\<close> is the
  relation on the tasks that the adjacency lists stand for.
\<close>

definition explicit_edge :: "dependency \<Rightarrow> (string \<times> string) option" where
  "explicit_edge d =
     (if dp_source_id d = [] \<or> dp_target_id d = [] then None
      else if dp_dependency_kind d \<in> {''blocks'', ''requires''} then Some (dp_target_id d, dp_source_id d)
      else if dp_dependency_kind d = ''blocked_by'' then Some (dp_source_id d, dp_target_id d)
      else None)"

definition task_graph :: "task_view dict \<Rightarrow> dependency list \<Rightarrow> (string \<times> string) set" where
  "task_graph tasks deps =
     {(u, v). has_key u tasks \<and> has_key v tasks
        \<and> ((\<exists>t. map_of tasks u = Some t \<and> v \<in> set (tv_dependencies t))
           \<or> (\<exists>d \<in> set deps. explicit_edge d = Some (u, v)))}"

lemma has_key_same: "map fst a = map fst b \<Longrightarrow> has_key k a = has_key k b"
  unfolding has_key_iff by (metis image_keys)

lemma edges_task_fold:
  "has_key tid a \<Longrightarrow>
   edges (fold (\<lambda>dep a. if has_key dep a then adj_add tid dep a else a) ds a) =
     edges a \<union> {(tid, d) | d. d \<in> set ds \<and> has_key d a}"
proof (induction ds arbitrary: a)
  case (Cons d ds)
  show ?case
  proof (cases "has_key d a")
    case True
    have same: "has_key k (adj_add tid d a) = has_key k a" for k by (rule has_key_same) simp
    have "edges (fold (\<lambda>dep a. if has_key dep a then adj_add tid dep a else a) ds (adj_add tid d a)) =
        edges (adj_add tid d a) \<union> {(tid, x) | x. x \<in> set ds \<and> has_key x a}"
      using Cons.IH [of "adj_add tid d a"] Cons.prems unfolding same by simp
    then show ?thesis using True Cons.prems by (auto simp: edges_adj_add)
  next
    case False
    then show ?thesis using Cons by auto
  qed
qed simp

lemma edges_add_task:
  assumes "has_key (fst tv) a"
  shows "edges (add_task_edges tv a) =
     edges a \<union> {(fst tv, d) | d. d \<in> set (tv_dependencies (snd tv)) \<and> has_key d a}"
proof (cases tv)
  case (Pair k t)
  have "has_key k a" using assms unfolding Pair fst_conv .
  then show ?thesis unfolding Pair add_task_edges_def prod.case fst_conv snd_conv by (rule edges_task_fold)
qed

lemma edges_fold_tasks:
  "fst ` set ts \<subseteq> fst ` set a \<Longrightarrow> edges (fold add_task_edges ts a) =
     edges a \<union> {(k, d) | k t d. (k, t) \<in> set ts \<and> d \<in> set (tv_dependencies t) \<and> has_key d a}"
proof (induction ts arbitrary: a)
  case (Cons t ts)
  have key: "has_key (fst t) a" using Cons.prems unfolding has_key_iff by simp
  have same: "has_key k (add_task_edges t a) = has_key k a" for k by (rule has_key_same) simp
  have "fst ` set ts \<subseteq> fst ` set (add_task_edges t a)"
    using Cons.prems image_keys [OF keys_add_task_edges, of t a] by simp
  from Cons.IH [OF this] show ?case
    unfolding same fold.simps o_apply edges_add_task [OF key] by (cases t) auto
qed simp

lemma edges_add_explicit:
  "edges (add_explicit_edge d a) = edges a \<union>
     {(u, v). has_key u a \<and> has_key v a \<and> explicit_edge d = Some (u, v)}"
  by (auto simp: add_explicit_edge_def explicit_edge_def Let_def edges_adj_add)

lemma edges_fold_explicit:
  "edges (fold add_explicit_edge ds a) = edges a \<union>
     {(u, v). has_key u a \<and> has_key v a \<and> (\<exists>d \<in> set ds. explicit_edge d = Some (u, v))}"
proof (induction ds arbitrary: a)
  case (Cons d ds)
  have same: "has_key k (add_explicit_edge d a) = has_key k a" for k by (rule has_key_same) simp
  show ?case unfolding fold.simps o_apply Cons.IH same edges_add_explicit by auto
qed simp

lemma edges_build:
  assumes "dict_wf tasks"
  shows "edges (build_adjacency tasks deps) = task_graph tasks deps"
proof -
  let ?init = "map (\<lambda>(tid, v). (tid, [])) tasks :: adjacency"
  let ?tasked = "fold add_task_edges tasks ?init"
  have keys: "map fst ?init = map fst tasks" by (simp add: comp_def case_prod_beta)
  have same: "has_key k ?init = has_key k tasks" for k by (rule has_key_same [OF keys])
  have same': "has_key k ?tasked = has_key k tasks" for k by (rule has_key_same) (simp only: keys_fold_task keys)
  have "vs = []" if "map_of ?init u = Some vs" for u vs
    using map_of_SomeD [OF that] by auto
  then have "neighbors ?init u = []" for u
    by (fastforce simp: neighbors_def split: option.split)
  then have empty: "edges ?init = {}" by (simp add: edges_def)
  have sub: "fst ` set tasks \<subseteq> fst ` set ?init" by force
  have tasked: "edges ?tasked = {(k, d) | k t d. (k, t) \<in> set tasks \<and> d \<in> set (tv_dependencies t) \<and> has_key d tasks}"
    unfolding edges_fold_tasks [OF sub] same empty by simp
  have "(k, t) \<in> set tasks \<longleftrightarrow> map_of tasks k = Some t" for k t
    using assms by (simp add: map_of_eq_Some_iff)
  then show ?thesis
    unfolding build_adjacency_def edges_fold_explicit tasked same' task_graph_def by auto
qed

lemma graph_cycles:
  assumes "dict_wf tasks"
  shows "detect_dependency_cycles tasks deps = [] \<longleftrightarrow> acyclic (task_graph tasks deps)"
    "c \<in> set (detect_dependency_cycles tasks deps) \<Longrightarrow>
      2 \<le> length c \<and> hd c = last c \<and> successively (\<lambda>u v. (u, v) \<in> task_graph tasks deps) c"
  using detect_complete [OF assms, of deps] detect_sound [of c tasks deps]
  unfolding is_cycle_def edges_build [OF assms] by blast+

subsection \<open>The invariant of the views\<close>

definition views_ok :: "project_state \<Rightarrow> bool" where
  "views_ok s \<longleftrightarrow> dict_wf (st_tasks s) \<and> (\<forall>(k, v) \<in> set (st_tasks s). tv_task_id v = k)
     \<and> dict_wf (st_decisions s) \<and> (\<forall>(k, v) \<in> set (st_decisions s). dv_decision_id v = k)"

lemma keyed_update:
  "dict_wf d \<Longrightarrow> \<forall>(k, v) \<in> set d. f v = k \<Longrightarrow> f x = a \<Longrightarrow> \<forall>(k, v) \<in> set (AList.update a x d). f v = k"
  by (induction d) auto

lemma keyed_delete: "\<forall>(k, v) \<in> set d. f v = k \<Longrightarrow> \<forall>(k, v) \<in> set (AList.delete a d). f v = k"
  by (induction d) auto

lemma views_ok_update:
  "views_ok s \<Longrightarrow> tv_task_id v = k \<Longrightarrow> views_ok (s\<lparr>st_tasks := AList.update k v (st_tasks s)\<rparr>)"
  "views_ok s \<Longrightarrow> dv_decision_id w = k \<Longrightarrow> views_ok (s\<lparr>st_decisions := AList.update k w (st_decisions s)\<rparr>)"
  using keyed_update [of "st_tasks s" tv_task_id v k] keyed_update [of "st_decisions s" dv_decision_id w k]
  by (simp_all add: views_ok_def)

lemma views_ok_delete:
  "views_ok s \<Longrightarrow> views_ok (s\<lparr>st_tasks := AList.delete k (st_tasks s)\<rparr>)"
  "views_ok s \<Longrightarrow> views_ok (s\<lparr>st_decisions := AList.delete k (st_decisions s), st_hist_approved := a\<rparr>)"
  using keyed_delete [of "st_tasks s" tv_task_id k] keyed_delete [of "st_decisions s" dv_decision_id k]
  by (simp_all add: views_ok_def)

lemma views_ok_cong: "(st_tasks t, st_decisions t) = (st_tasks s, st_decisions s) \<Longrightarrow> views_ok t = views_ok s"
  by (simp add: views_ok_def)

lemma mk_view_eq:
  "mk_task_view v = Inr w \<Longrightarrow> w = v" "mk_decision_view x = Inr y \<Longrightarrow> y = x"
  by (auto simp: mk_task_view_def mk_decision_view_def split: if_splits)

lemma views_ok_drift: "views_ok s \<Longrightarrow> views_ok (note_drift a b s)"
  by (simp add: note_drift_def views_ok_def)

lemma views_ok_handlers:
  assumes "views_ok s"
  shows "yields views_ok (handle_task_associated rt e s)" "yields views_ok (handle_task_disassociated e s)"
    "yields views_ok (handle_task_observed rt au e s)" "yields views_ok (handle_decision_associated rt e s)"
    "yields views_ok (handle_decision_disassociated e s)" "yields views_ok (handle_decision_observed rt au e s)"
  unfolding handle_task_associated_def handle_task_disassociated_def handle_task_observed_def
    handle_decision_associated_def handle_decision_disassociated_def handle_decision_observed_def Let_def
  by (intro yield_intros; (drule mk_view_eq)?;
      simp add: assms views_ok_update views_ok_delete views_ok_drift)+

lemma views_ok_evaluation:
  assumes "views_ok s"
  shows "yields views_ok (handle_historical_evaluation rt rv au e s)"
proof -
  have task: "views_ok v" if "bind_task_view rt x u = Inr v" "views_ok u" for x u v
    using that by (auto simp: bind_task_view_def views_ok_update split: if_splits)
  have dec: "views_ok v" if "bind_decision_view rt x u = Inr v" "views_ok u" for x u v
    using that by (auto simp: bind_decision_view_def views_ok_update split: if_splits)
  have app: "views_ok v" if "bind_approval n x u = Inr v" "views_ok u" for n x u v
    using that by (auto simp: bind_approval_def views_ok_def split: if_splits)
  have tasks: "views_ok v" if "foldE (bind_task_view rt) xs u = Inr v" "views_ok u" for xs u v
    using foldE_inv [OF that(1), of views_ok] that(2) task by blast
  have decs: "views_ok v" if "foldE (bind_decision_view rt) xs u = Inr v" "views_ok u" for xs u v
    using foldE_inv [OF that(1), of views_ok] that(2) dec by blast
  have apps: "views_ok v" if "foldE (bind_approval n) xs u = Inr v" "views_ok u" for n xs u v
    using foldE_inv [OF that(1), of views_ok] that(2) app by blast
  have same: "views_ok (u\<lparr>st_hist_gates := a, st_hist_origins := b\<rparr>) = views_ok u"
    "views_ok (u\<lparr>st_hist_receipts := c\<rparr>) = views_ok u"
    "views_ok (u\<lparr>st_hist_evaluations := d\<rparr>) = views_ok u" for u a b c d
    by (simp_all add: views_ok_def)
  have passed: "views_ok v" if "record_passed e h u = Inr v" "views_ok u" for h u v
  proof -
    have "yields views_ok (record_passed e h u)"
      unfolding record_passed_def Let_def
      by (intro yield_intros) (use that(2) in \<open>auto simp: same dest: apps\<close>)
    then show ?thesis using that(1) by (rule yieldsD)
  qed
  show ?thesis
    unfolding handle_historical_evaluation_def
    by (intro yield_intros) (use assms in \<open>auto simp: same split: if_splits dest: tasks decs passed\<close>)
qed

lemma views_ok_dispatch:
  assumes "views_ok s"
  shows "yields views_ok (dispatch rt rv au e s)"
proof -
  have framed: "yields views_ok m"
    if "yields (\<lambda>t. c t = c s) m" "\<And>u. (st_tasks (c u), st_decisions (c u)) = (st_tasks u, st_decisions u)"
    for c m
    using that(1) by (rule yields_mono) (metis that(2) assms views_ok_cong)
  have raid: "yields views_ok (case apply_raid_event rt e s of Some r \<Rightarrow> r | None \<Rightarrow> Inr s)"
    by (cases "apply_raid_event rt e s") (simp_all add: assms framed [OF raid_frame] raid_core_def)
  have pure: "views_ok (handle_project_owner e s)" "views_ok (handle_project_owner e (s\<lparr>st_current_phase := DISCOVERY\<rparr>))"
    "views_ok (handle_raci_assigned e s)" "views_ok (handle_raci_revoked e s)" "views_ok (handle_evidence_attached e s)"
    using assms unfolding views_ok_def handle_project_owner_def handle_raci_assigned_def
      handle_raci_revoked_def handle_evidence_attached_def Let_def by simp_all
  show ?thesis
    unfolding dispatch_def Let_def
    by (intro yields_if raid views_ok_handlers views_ok_evaluation yields_Inr assms pure
        framed [OF transition_frame] framed [OF override_frame]) (simp_all add: lifecycle_core_def)
qed

lemma views_ok_step:
  assumes "views_ok s" "apply_event rt rv au e s = Inr t"
  shows "views_ok t"
proof -
  obtain u where u: "dispatch rt rv au e s = Inr u" "t = advance e u" using assms(2) by (elim apply_eventE)
  have "views_ok u" by (rule yieldsD [OF views_ok_dispatch [OF assms(1)] u(1)])
  then show ?thesis using views_ok_cong [of t u] u(2) by (simp add: advance_def)
qed

subsection \<open>Readiness classes\<close>

lemma readiness_simps [simp]: "re_status (readiness tid st code deps apps path) = st"
  by (simp add: readiness_def)

lemma task_status_iff:
  "task_status s v = RS_TERMINAL \<longleftrightarrow> terminal_str (tv_state v)"
  "task_status s v = RS_READY \<longleftrightarrow> \<not> terminal_str (tv_state v)
     \<and> tv_task_id v \<notin> set (concat (state_cycles s))
     \<and> tv_state v \<notin> {''working'', ''input-required'', ''auth-required''}
     \<and> blocking_dependencies v s = [] \<and> tv_open_gates v = []"
  "is_blocked_status (task_status s v) \<longleftrightarrow> \<not> terminal_str (tv_state v)
     \<and> (tv_task_id v \<in> set (concat (state_cycles s))
        \<or> tv_state v \<notin> {''working'', ''input-required'', ''auth-required''}
          \<and> (blocking_dependencies v s \<noteq> [] \<or> tv_open_gates v \<noteq> []))"
  by (auto simp: task_status_def evaluate_task_readiness_def is_blocked_status_def Let_def)

lemma set_tasks_where:
  "dict_wf (st_tasks s) \<Longrightarrow> tid \<in> set (tasks_where P s) \<longleftrightarrow> (\<exists>t. map_of (st_tasks s) tid = Some t \<and> P (task_status s t))"
  by (force simp: tasks_where_def map_of_eq_Some_iff)

lemma blocking_dependencies_Nil:
  "blocking_dependencies t s = [] \<longleftrightarrow>
     (\<forall>d \<in> set (tv_dependencies t). \<forall>u. map_of (st_tasks s) d = Some u \<longrightarrow> terminal_str (tv_state u))
     \<and> (\<forall>d \<in> set (explicit_dependencies s). dp_source_id d = tv_task_id t
          \<and> dp_dependency_kind d \<in> {''blocked_by'', ''requires''} \<longrightarrow> dp_status d = ''satisfied''
          \<or> (\<exists>u. map_of (st_tasks s) (dp_target_id d) = Some u \<and> terminal_str (tv_state u)))"
  by (auto simp: blocking_dependencies_def explicit_dependencies_def filter_empty_conv split: option.splits)

lemma distinct_tasks_where: "dict_wf (st_tasks s) \<Longrightarrow> distinct (tasks_where P s)"
  unfolding tasks_where_def distinct_sort
  by (rule distinct_map_filter) simp

end
