(* ===== verification/Explain.thy ===== *)
theory Explain
  imports Reducer
begin

text \<open>
  \<open>ProjectStateReducer.explain\<close> (\<open>core/state_reducer.py\<close>): the events, rules, decisions and
  evidence behind one field of a state.
\<close>

record state_explanation =
  ex_project_id :: string
  ex_field :: string
  ex_state_revision :: string
  ex_value :: json
  ex_events :: "string list"
  ex_rules :: "string list"
  ex_decisions :: "string list"
  ex_evidence :: "string list"
  ex_authority :: "string list"

definition explanation ::
  "project_state \<Rightarrow> string \<Rightarrow> json \<Rightarrow> string list \<Rightarrow> string list \<Rightarrow> string list \<Rightarrow> string list \<Rightarrow>
   string \<Rightarrow> pse_error + state_explanation" where
  "explanation s f v evs rules decs evidence auth =
     (if re_project_id (st_project_id s) \<and> re_hash (st_state_revision s)
      then Inr \<lparr>ex_project_id = st_project_id s, ex_field = f, ex_state_revision = st_state_revision s,
             ex_value = v, ex_events = evs, ex_rules = rules, ex_decisions = decs,
             ex_evidence = evidence, ex_authority = [auth]\<rparr>
      else Inl PyError)"

text \<open>\<open>[f(d[k]) for k in ks if k in d]\<close>.\<close>

definition known_values :: "'a dict \<Rightarrow> string list \<Rightarrow> 'a list" where
  "known_values d ks = List.map_filter (map_of d) ks"

definition fsm_rule :: "phase_record \<Rightarrow> string" where
  "fsm_rule r = ''FSM_RULE:'' @ phase_str (pr_from_phase r) @ ''->'' @ phase_str (pr_to_phase r)
     @ '':'' @ pr_name r"

definition valid_decision_views :: "project_state \<Rightarrow> decision_view list" where
  "valid_decision_views s =
     filter (\<lambda>d. dv_status d = ''approved'') (known_values (st_decisions s) (st_valid_decisions s))"

definition receipt_refs :: "decision_view list \<Rightarrow> string list" where
  "receipt_refs vs = concat (map (\<lambda>d. case dv_receipt_id d of
       None \<Rightarrow> [] | Some r \<Rightarrow> if r = [] then [] else [r]) vs)"

definition task_sources :: "project_state \<Rightarrow> string list \<Rightarrow> string list" where
  "task_sources s ids = sorted_set (map tv_source_identity (known_values (st_tasks s) ids))"

definition explain :: "project_state \<Rightarrow> string \<Rightarrow> pse_error + state_explanation" where
  "explain s f =
     (if f = ''current_phase'' then
        (let h = st_phase_history s in
         explanation s f (JStr (phase_str (st_current_phase s))) (sorted_set (map pr_event_id h))
           (sorted_set (map fsm_rule h)) (sorted_set (concat (map pr_approval_refs h)))
           (sorted_set (concat (map pr_evidence_refs h))) ''ProjectLifecycleFSM:v1'')
      else if f = ''active_tasks'' then
        explanation s f (jstrs (st_active_tasks s))
          (sorted_set (map (tv_source_identity \<circ> snd) (st_tasks s)))
          [''TASK_LIFECYCLE_NON_TERMINAL''] [] [] ''TaskStore:v2''
      else if f = ''ready_tasks'' then
        explanation s f (jstrs (st_ready_tasks s)) (task_sources s (st_ready_tasks s))
          [''TASK_READINESS_NO_BLOCKING_DEPS_NO_CYCLES''] [] [] ''TaskStore:v2''
      else if f = ''blocked_tasks'' then
        explanation s f (jstrs (st_blocked_tasks s)) (task_sources s (st_blocked_tasks s))
          [''TASK_BLOCKED_BY_DEPENDENCY_OR_CYCLE''] [] [] ''TaskStore:v2''
      else if f = ''open_risks'' then
        explanation s f (jstrs (st_open_risks s))
          (sorted_set (concat (map (pv_source_event_ids \<circ> rk_provenance)
             (known_values (st_risks s) (st_open_risks s)))))
          [''RISK_STATUS_IDENTIFIED''] [] [] ''PSE:RAID:v1''
      else if f = ''open_issues'' then
        explanation s f (jstrs (st_open_issues s))
          (sorted_set (concat (map (pv_source_event_ids \<circ> is_provenance)
             (known_values (st_issues s) (st_open_issues s)))))
          [''ISSUE_STATUS_OPEN_OR_INVESTIGATING''] [] [] ''PSE:RAID:v1''
      else if f = ''valid_decisions'' then
        explanation s f (jstrs (st_valid_decisions s))
          (sorted_set (map dv_source_identity (valid_decision_views s)))
          [''DECISION_STATUS_APPROVED''] (map dv_decision_id (valid_decision_views s))
          (sorted_set (receipt_refs (valid_decision_views s))) ''DecisionService:v1''
      else if f = ''health_flags'' then
        explanation s f (jstrs (st_health_flags s)) (sorted_set (st_recent_changes s))
          [''HEALTH_RULES_V1''] [] [] ''GovernanceEngine:v1''
      else if f = ''required_approvals'' then
        explanation s f (jstrs (st_required_approvals s))
          (map dv_source_identity (known_values (st_decisions s) (st_required_approvals s)))
          [''PENDING_DECISION_REQUIRES_APPROVAL''] (st_required_approvals s) [] ''DecisionService:v1''
      else if f = ''state_revision'' then
        explanation s f (JStr (st_state_revision s)) (sorted_set (st_contributing_events s))
          [''SCHEMA:'' @ st_schema_version s, ''RULES:'' @ st_rules_version s]
          (st_valid_decisions s) [] ''CanonicalJson:v1''
      else Inl UnexplainableField)"

definition explainable_fields :: "string list" where
  "explainable_fields = [''current_phase'', ''active_tasks'', ''ready_tasks'', ''blocked_tasks'',
     ''open_risks'', ''open_issues'', ''valid_decisions'', ''health_flags'', ''required_approvals'',
     ''state_revision'']"

lemma explain_fails_closed:
  "explain s f = Inl UnexplainableField \<longleftrightarrow> f \<notin> set explainable_fields"
  by (simp add: explain_def explainable_fields_def explanation_def Let_def)

end
