(* ===== verification/Work_Properties.thy ===== *)
theory Work_Properties
  imports Lifecycle_Properties Work_Facts Explain
begin

text \<open>
  The guarantees on the work of a project: the verdict on dependency cycles, the classes of the
  tasks, progress of the work, the quality gates, and the explanations of a state.
\<close>

subsection \<open>Dependency cycles\<close>

text \<open>
  C19. The search for dependency cycles decides whether the task graph has one: it reports nothing
  exactly when the relation on the tasks is acyclic, and every list it reports is a closed walk of
  that relation.
\<close>

theorem dependency_cycles_are_decided:
  assumes "dict_wf tasks"
  shows "(detect_dependency_cycles tasks deps = [] \<longleftrightarrow> acyclic (task_graph tasks deps))
    \<and> (\<forall>c \<in> set (detect_dependency_cycles tasks deps). 2 \<le> length c \<and> hd c = last c
         \<and> successively (\<lambda>u v. (u, v) \<in> task_graph tasks deps) c)"
  using graph_cycles [OF assms] by blast

definition sample_task :: "string \<Rightarrow> string \<Rightarrow> string list \<Rightarrow> task_view" where
  "sample_task tid st deps = \<lparr>tv_task_id = tid, tv_state = st, tv_revision = 1, tv_digest = hex64,
     tv_source_identity = ''evt_1'', tv_dependencies = deps, tv_open_gates = [], tv_receipt_ids = []\<rparr>"

theorem dependency_cycles_are_decided_witness:
  "\<not> acyclic (task_graph [(''a'', sample_task ''a'' ''ready'' [''b'']), (''b'', sample_task ''b'' ''ready'' [''a''])] [])"
proof -
  have "detect_dependency_cycles [(''a'', sample_task ''a'' ''ready'' [''b'']), (''b'', sample_task ''b'' ''ready'' [''a''])] []
      = [[''a'', ''b'', ''a'']]" by code_simp
  then show ?thesis
    using dependency_cycles_are_decided
      [of "[(''a'', sample_task ''a'' ''ready'' [''b'']), (''b'', sample_task ''b'' ''ready'' [''a''])]" "[]"]
    by simp
qed

text \<open>
  C26. The search for cycles terminates: whatever the task graph, a recursion depth of the number
  of tasks is enough, so that the recursive search of the code always returns.
\<close>

theorem cycle_search_terminates:
  assumes "dict_wf tasks"
  shows "\<exists>c. find_cycles (build_adjacency tasks deps) = Some c \<and> detect_dependency_cycles tasks deps = c"
  using find_cycles_total [OF adj_wf_build [OF assms, of deps]]
  by (auto simp: detect_dependency_cycles_def)

theorem cycle_search_terminates_witness:
  "\<exists>c. find_cycles (build_adjacency [(''a'', sample_task ''a'' ''ready'' [''a''])] []) = Some c"
  using cycle_search_terminates [of "[(''a'', sample_task ''a'' ''ready'' [''a''])]" "[]"] by auto

subsection \<open>The classes of the tasks\<close>

lemma replay_start_views_ok:
  assumes "replay_start rt rv pid tvs dvs au = Inr s"
  shows "views_ok s"
proof -
  have initial: "views_ok v" if "initial_project_state pid rv d = Inr v" for d v
    using that by (auto simp: initial_project_state_def views_ok_def split: if_splits)
  have settle: "views_ok v" if "settle_rules rt au u = Inr v" "views_ok u" for u v
  proof -
    have "v = u\<lparr>st_rules_digest := RULES_DIGEST rt\<rparr> \<or> v = u"
      using that(1) unfolding settle_rules_def by (metis Inl_Inr_False sum.inject(2))
    then show ?thesis using that(2) by (auto simp: views_ok_def)
  qed
  have task: "views_ok v" if "preload_task rt au x u = Inr v" "views_ok u" for x u v
    using that by (auto simp: preload_task_def views_ok_update split: if_splits)
  have dec: "views_ok v" if "preload_decision rt au x u = Inr v" "views_ok u" for x u v
    using that by (auto simp: preload_decision_def views_ok_update split: if_splits)
  have tasks: "views_ok v" if "foldE (preload_task rt au) xs u = Inr v" "views_ok u" for xs u v
    using foldE_inv [OF that(1), of views_ok] that(2) task by blast
  have decs: "views_ok v" if "foldE (preload_decision rt au) xs u = Inr v" "views_ok u" for xs u v
    using foldE_inv [OF that(1), of views_ok] that(2) dec by blast
  have "yields views_ok (replay_start rt rv pid tvs dvs au)"
    unfolding replay_start_def
    by (intro yields_bind yields_if yields_Inr yieldsI) (auto dest: initial settle tasks decs split: if_splits)
  then show ?thesis using assms by (rule yieldsD)
qed

text \<open>The readiness of a task looks at the views and the explicit dependencies of the state only.\<close>

lemma task_status_cong:
  "st_tasks t = st_tasks s \<Longrightarrow> st_dependencies t = st_dependencies s \<Longrightarrow> task_status t = task_status s"
  by (simp add: fun_eq_iff task_status_def state_cycles_def explicit_dependencies_def
      evaluate_task_readiness_def blocking_dependencies_def)

lemma reduce_tasksE:
  assumes "reduce_internal rt rv es None tvs dvs pid au = Inr s"
  obtains "views_ok s" "st_active_tasks s = tasks_where (\<lambda>r. r \<noteq> RS_TERMINAL) s"
    "st_ready_tasks s = tasks_where (\<lambda>r. r = RS_READY) s"
    "st_blocked_tasks s = tasks_where is_blocked_status s"
proof -
  obtain target s0 u where u: "replay_start rt rv target tvs dvs au = Inr s0"
    "foldE (apply_event rt rv au) es s0 = Inr u" "compute_projections rt au u = Inr s"
    using assms by (elim reduceE)
  have "views_ok u"
    using foldE_inv [OF u(2), of views_ok] replay_start_views_ok [OF u(1)] views_ok_step by blast
  note f = projected_fields [OF u(3)]
  have "views_ok s" using \<open>views_ok u\<close> views_ok_cong [of s u] f by simp
  moreover have "tasks_where P u = tasks_where P s" for P
    using task_status_cong [of s u] f by (simp add: tasks_where_def)
  ultimately show thesis using that f by simp
qed

text \<open>
  The task projections of a replayed state classify its tasks: active are exactly those that
  are not terminal, no task is both ready and blocked, ready and blocked tasks are active, and an
  active task that is neither is being worked on. No identifier is listed twice, and every view is
  filed under its own identifier.
\<close>

theorem task_projections_classify_the_tasks:
  assumes "reduce_internal rt rv es None tvs dvs pid au = Inr s"
  shows "dict_wf (st_tasks s) \<and> (\<forall>(k, t) \<in> set (st_tasks s). tv_task_id t = k)
    \<and> set (st_active_tasks s) = {k. \<exists>t. map_of (st_tasks s) k = Some t \<and> \<not> terminal_str (tv_state t)}
    \<and> set (st_ready_tasks s) \<inter> set (st_blocked_tasks s) = {}
    \<and> set (st_ready_tasks s) \<union> set (st_blocked_tasks s) \<subseteq> set (st_active_tasks s)
    \<and> (\<forall>k \<in> set (st_active_tasks s) - set (st_ready_tasks s) - set (st_blocked_tasks s).
         \<exists>t. map_of (st_tasks s) k = Some t
           \<and> tv_state t \<in> {''working'', ''input-required'', ''auth-required''})
    \<and> distinct (st_active_tasks s) \<and> distinct (st_ready_tasks s) \<and> distinct (st_blocked_tasks s)"
proof -
  obtain v: "views_ok s" and t: "st_active_tasks s = tasks_where (\<lambda>r. r \<noteq> RS_TERMINAL) s"
    "st_ready_tasks s = tasks_where (\<lambda>r. r = RS_READY) s" "st_blocked_tasks s = tasks_where is_blocked_status s"
    by (rule reduce_tasksE [OF assms])
  from v have wf: "dict_wf (st_tasks s)" "\<forall>(k, t) \<in> set (st_tasks s). tv_task_id t = k"
    by (simp_all add: views_ok_def)
  have disjoint: "\<not> is_blocked_status RS_READY" "\<not> is_blocked_status RS_TERMINAL"
    by (simp_all add: is_blocked_status_def)
  have classes: "k \<in> set (st_active_tasks s) \<longleftrightarrow> (\<exists>t. map_of (st_tasks s) k = Some t \<and> \<not> terminal_str (tv_state t))"
    "k \<in> set (st_ready_tasks s) \<longleftrightarrow> (\<exists>t. map_of (st_tasks s) k = Some t \<and> task_status s t = RS_READY)"
    "k \<in> set (st_blocked_tasks s) \<longleftrightarrow> (\<exists>t. map_of (st_tasks s) k = Some t \<and> is_blocked_status (task_status s t))" for k
    by (simp_all add: t set_tasks_where [OF wf(1)] task_status_iff(1))
  have rest: "tv_state t \<in> {''working'', ''input-required'', ''auth-required''}"
    if "\<not> terminal_str (tv_state t)" "task_status s t \<noteq> RS_READY" "\<not> is_blocked_status (task_status s t)" for t
    using that by (auto simp: task_status_iff)
  have "set (st_ready_tasks s) \<inter> set (st_blocked_tasks s) = {}"
    using disjoint(1) by (auto simp: classes)
  moreover have "set (st_ready_tasks s) \<union> set (st_blocked_tasks s) \<subseteq> set (st_active_tasks s)"
    using task_status_iff(2,3) by (auto simp: classes)
  moreover have "\<forall>k \<in> set (st_active_tasks s) - set (st_ready_tasks s) - set (st_blocked_tasks s).
      \<exists>t. map_of (st_tasks s) k = Some t \<and> tv_state t \<in> {''working'', ''input-required'', ''auth-required''}"
    using rest by (fastforce simp: classes)
  ultimately show ?thesis
    using wf distinct_tasks_where [OF wf(1)] classes(1) by (auto simp: t)
qed

theorem task_projections_classify_the_tasks_witness:
  "set (st_ready_tasks (sealed sample_planning)) \<inter> set (st_blocked_tasks (sealed sample_planning)) = {}"
  using task_projections_classify_the_tasks [OF sample_reduced(2)] by blast


text \<open>
  C21. A task that is reported ready can start: it is neither terminal nor in progress, it has no
  open gate, lies on no reported cycle, every task it depends on that the project knows is
  terminal, and every explicit dependency it waits for is satisfied or has a terminal target.
\<close>

theorem ready_tasks_are_unblocked:
  assumes "reduce_internal rt rv es None tvs dvs pid au = Inr s" and "tid \<in> set (st_ready_tasks s)"
  shows "\<exists>t. map_of (st_tasks s) tid = Some t
    \<and> \<not> terminal_str (tv_state t) \<and> tv_state t \<notin> {''working'', ''input-required'', ''auth-required''}
    \<and> tv_open_gates t = []
    \<and> (\<forall>c \<in> set (state_cycles s). tid \<notin> set c)
    \<and> (\<forall>d \<in> set (tv_dependencies t). \<forall>u. map_of (st_tasks s) d = Some u \<longrightarrow> terminal_str (tv_state u))
    \<and> (\<forall>d \<in> set (explicit_dependencies s).
         dp_source_id d = tid \<and> dp_dependency_kind d \<in> {''blocked_by'', ''requires''} \<longrightarrow>
         dp_status d = ''satisfied''
         \<or> (\<exists>u. map_of (st_tasks s) (dp_target_id d) = Some u \<and> terminal_str (tv_state u)))"
proof -
  obtain v: "views_ok s" and r: "st_ready_tasks s = tasks_where (\<lambda>r. r = RS_READY) s"
    by (rule reduce_tasksE [OF assms(1)])
  then have wf: "dict_wf (st_tasks s)" by (simp add: views_ok_def)
  obtain t where t: "map_of (st_tasks s) tid = Some t" "task_status s t = RS_READY"
    using assms(2) unfolding r set_tasks_where [OF wf] by blast
  have "tv_task_id t = tid" using v map_of_SomeD [OF t(1)] by (auto simp: views_ok_def)
  moreover have "tv_task_id t \<notin> set (concat (state_cycles s))" "blocking_dependencies t s = []"
    "\<not> terminal_str (tv_state t)" "tv_state t \<notin> {''working'', ''input-required'', ''auth-required''}"
    "tv_open_gates t = []"
    using t(2) task_status_iff(2) by blast+
  ultimately show ?thesis
    using t(1) unfolding blocking_dependencies_Nil set_concat by blast
qed

text \<open>A project with two associated tasks, the second of which has been observed to wait for the first.\<close>

definition sample_work :: "task_view dict \<Rightarrow> dependency dict \<Rightarrow> project_state" where
  "sample_work tasks deps = sample_start\<lparr>st_tasks := tasks, st_dependencies := deps\<rparr>"

definition sample_views :: "task_view list" where
  "sample_views = [sample_task ''a'' ''ready'' [], sample_task ''b'' ''backlog'' [''a'']]"

definition sample_worked :: project_state where
  "sample_worked = (project_tasks (sample_work [(''a'', sample_task ''a'' ''ready'' []),
     (''b'', sample_task ''b'' ''backlog'' [''a''])] []))
     \<lparr>st_owner := Some ''olena'', st_last_event_sequence := 1, st_last_event_hash := hex64,
      st_contributing_events := [''evt_1''], st_recent_changes := [''evt_1''],
      st_health_flags := [''BLOCKED_TASKS_PRESENT''], st_state_revision := hex64\<rparr>"

lemma sample_reduced_work:
  "reduce_internal sample_rt GOVERNANCE_RULES_VERSION [hd sample_prefix] None sample_views [] None None
     = Inr sample_worked"
proof -
  have start: "start_state sample_rt GOVERNANCE_RULES_VERSION None ''prj_demo'' = Inr sample_start"
    by (simp add: start_state_def sample_rules_digest sample_initial)
  have settle: "settle_rules sample_rt None sample_start = Inr sample_start"
    by (simp add: settle_rules_def sample_rules_digest sample_start_def hex64_def)
  let ?w = "sample_work [(''a'', sample_task ''a'' ''ready'' []), (''b'', sample_task ''b'' ''backlog'' [''a''])] []"
  let ?v = "?w\<lparr>st_owner := Some ''olena'', st_last_event_sequence := 1, st_last_event_hash := hex64,
      st_contributing_events := [''evt_1'']\<rparr>"
  have preload: "foldE (preload_task sample_rt None) sample_views sample_start = Inr ?w" by code_simp
  have step: "apply_event sample_rt GOVERNANCE_RULES_VERSION None (hd sample_prefix) ?w = Inr ?v" by code_simp
  have project: "compute_projections sample_rt None ?v = Inr sample_worked"
    by (rule sample_projections; code_simp)
  have target: "target_project [hd sample_prefix] None None = Inr ''prj_demo''" by code_simp
  show ?thesis
    unfolding reduce_internal_def target bindE_Inr start settle
    by (simp add: historical_def preload step project)
qed

theorem ready_tasks_are_unblocked_witness:
  "\<exists>t. map_of (st_tasks sample_worked) ''a'' = Some t \<and> \<not> terminal_str (tv_state t)"
proof -
  have "''a'' \<in> set (st_ready_tasks sample_worked)" by code_simp
  from ready_tasks_are_unblocked [OF sample_reduced_work this] show ?thesis by blast
qed

subsection \<open>Progress\<close>

text \<open>
  C22. Work can always proceed: when the tasks of a replayed state wait for each other in no
  circle, no task has an open gate, and every unsatisfied explicit dependency that blocks names
  known tasks with the kind \<open>blocked_by\<close>, then a project with active tasks has one that is ready
  or one that is in progress.
\<close>

theorem work_can_proceed:
  assumes "reduce_internal rt rv es None tvs dvs pid au = Inr s"
    and acyclic: "acyclic (task_graph (st_tasks s) (explicit_dependencies s))"
    and gates: "\<forall>(k, t) \<in> set (st_tasks s). tv_open_gates t = []"
    and explicit: "\<forall>d \<in> set (explicit_dependencies s). dp_dependency_kind d \<in> {''blocked_by'', ''requires''}
      \<and> dp_status d \<noteq> ''satisfied'' \<longrightarrow> dp_dependency_kind d = ''blocked_by''
      \<and> dp_source_id d \<noteq> [] \<and> dp_target_id d \<noteq> [] \<and> has_key (dp_target_id d) (st_tasks s)"
    and "st_active_tasks s \<noteq> []"
  shows "st_ready_tasks s \<noteq> [] \<or> (\<exists>k t. map_of (st_tasks s) k = Some t
    \<and> tv_state t \<in> {''working'', ''input-required'', ''auth-required''})"
proof -
  let ?E = "task_graph (st_tasks s) (explicit_dependencies s)"
  let ?A = "set (st_active_tasks s)"
  obtain v: "views_ok s" and r: "st_ready_tasks s = tasks_where (\<lambda>r. r = RS_READY) s"
    "st_active_tasks s = tasks_where (\<lambda>r. r \<noteq> RS_TERMINAL) s"
    by (rule reduce_tasksE [OF assms(1)])
  then have wf: "dict_wf (st_tasks s)" by (simp add: views_ok_def)
  have active: "k \<in> ?A \<longleftrightarrow> (\<exists>t. map_of (st_tasks s) k = Some t \<and> \<not> terminal_str (tv_state t))" for k
    by (simp add: r(2) set_tasks_where [OF wf] task_status_iff(1))
  have "?E \<subseteq> fst ` set (st_tasks s) \<times> fst ` set (st_tasks s)"
    unfolding task_graph_def has_key_iff by blast
  then have "finite ?E" by (rule finite_subset) simp
  then have "wf (?E\<inverse>)" using acyclic by (rule finite_acyclic_wf_converse)
  moreover obtain k0 where "k0 \<in> ?A" using assms(5) by (meson last_in_set)
  ultimately obtain k where k: "k \<in> ?A" "\<And>l. (k, l) \<in> ?E \<Longrightarrow> l \<notin> ?A"
    using wfE_min [of "?E\<inverse>" k0 ?A] by (metis converse_iff)
  obtain t where t: "map_of (st_tasks s) k = Some t" "\<not> terminal_str (tv_state t)" using k(1) active by blast
  have id: "tv_task_id t = k" "tv_open_gates t = []"
    using v gates map_of_SomeD [OF t(1)] by (auto simp: views_ok_def)
  have terminal: "terminal_str (tv_state u)" if "(k, l) \<in> ?E" "map_of (st_tasks s) l = Some u" for l u
    using k(2) [OF that(1)] that(2) active by blast
  have edge: "(k, dp_target_id d) \<in> ?E" if "d \<in> set (explicit_dependencies s)" "dp_source_id d = k"
    "dp_dependency_kind d \<in> {''blocked_by'', ''requires''}" "dp_status d \<noteq> ''satisfied''" for d
    using explicit that t(1) unfolding task_graph_def by (auto simp: explicit_edge_def)
  have "blocking_dependencies t s = []"
    unfolding blocking_dependencies_Nil id(1)
  proof (intro conjI ballI allI impI)
    fix l u
    assume "l \<in> set (tv_dependencies t)" "map_of (st_tasks s) l = Some u"
    then show "terminal_str (tv_state u)" using terminal [of l u] t(1) by (simp add: task_graph_def)
  next
    fix d
    assume d: "d \<in> set (explicit_dependencies s)"
      "dp_source_id d = k \<and> dp_dependency_kind d \<in> {''blocked_by'', ''requires''}"
    show "dp_status d = ''satisfied''
        \<or> (\<exists>u. map_of (st_tasks s) (dp_target_id d) = Some u \<and> terminal_str (tv_state u))"
    proof (cases "dp_status d = ''satisfied''")
      case False
      then obtain u where "map_of (st_tasks s) (dp_target_id d) = Some u" using explicit d by blast
      then show ?thesis using terminal [OF edge [OF d(1)]] d(2) False by blast
    qed simp
  qed
  moreover have "state_cycles s = []" using acyclic by (simp add: state_cycles_def graph_cycles(1) [OF wf])
  ultimately have "task_status s t = RS_READY"
    if "tv_state t \<notin> {''working'', ''input-required'', ''auth-required''}"
    using that t(2) id(2) by (simp add: task_status_iff)
  then show ?thesis
    using t(1) set_tasks_where [OF wf, of k "\<lambda>r. r = RS_READY"] unfolding r(1) by fastforce
qed

theorem work_can_proceed_witness: "st_ready_tasks sample_worked \<noteq> []"
proof -
  have acyclic: "acyclic (task_graph (st_tasks sample_worked) (explicit_dependencies sample_worked))"
  proof -
    have "dict_wf (st_tasks sample_worked)"
      "detect_dependency_cycles (st_tasks sample_worked) (explicit_dependencies sample_worked) = []" by code_simp+
    then show ?thesis using graph_cycles(1) by blast
  qed
  have idle: "\<not> (\<exists>k t. map_of (st_tasks sample_worked) k = Some t
      \<and> tv_state t \<in> {''working'', ''input-required'', ''auth-required''})"
    by (auto simp: sample_worked_def project_tasks_def sample_work_def sample_task_def dest!: map_of_SomeD)
  have rest: "\<forall>(k, t) \<in> set (st_tasks sample_worked). tv_open_gates t = []"
    "explicit_dependencies sample_worked = []" "st_active_tasks sample_worked \<noteq> []" by code_simp+
  have "st_ready_tasks sample_worked \<noteq> [] \<or> (\<exists>k t. map_of (st_tasks sample_worked) k = Some t
      \<and> tv_state t \<in> {''working'', ''input-required'', ''auth-required''})"
    by (rule work_can_proceed [OF sample_reduced_work acyclic rest(1) _ rest(3)]) (simp add: rest(2))
  then show ?thesis using idle by blast
qed

text \<open>
  The check on cycles and the readiness of tasks disagree on the direction of \<open>requires\<close>: a task
  that requires another one waits for it, but the check draws the edge the other way. Two tasks
  that wait for each other, one by \<open>requires\<close> and one by \<open>blocked_by\<close>, are both blocked for good,
  and no cycle is reported.
\<close>

definition sample_provenance :: provenance where
  "sample_provenance = \<lparr>pv_source_event_ids = [''evt_1''], pv_primary_source_event_id = Some ''evt_1'',
     pv_actor = ''olena'', pv_timestamp = ''2026-01-01T00:00:00Z'', pv_source_type = ''event_replay'',
     pv_correlation_id = None, pv_evidence_refs = [], pv_confidence = None,
     pv_verification_status = None, pv_valid_from = None, pv_valid_to = None, pv_supersedes = None,
     pv_invalidates = None\<rparr>"

definition sample_dependency :: "string \<Rightarrow> string \<Rightarrow> string \<Rightarrow> string \<Rightarrow> dependency" where
  "sample_dependency did src tgt kind = \<lparr>dp_dependency_id = did, dp_project_id = ''prj_demo'',
     dp_source_id = src, dp_target_id = tgt, dp_target_type = ''task'', dp_dependency_kind = kind,
     dp_status = ''pending'', dp_external_ref = None, dp_provenance = sample_provenance,
     dp_created_at = ''2026-01-01T00:00:00Z''\<rparr>"

definition sample_mutual :: project_state where
  "sample_mutual = sample_work
     [(''a'', sample_task ''a'' ''ready'' []), (''b'', sample_task ''b'' ''ready'' [])]
     [(''dep_1'', sample_dependency ''dep_1'' ''a'' ''b'' ''requires''),
      (''dep_2'', sample_dependency ''dep_2'' ''b'' ''a'' ''blocked_by'')]"

theorem mutual_wait_can_go_unreported:
  "state_cycles sample_mutual = []
   \<and> st_active_tasks (project_tasks sample_mutual) = [''a'', ''b'']
   \<and> st_blocked_tasks (project_tasks sample_mutual) = [''a'', ''b'']
   \<and> st_ready_tasks (project_tasks sample_mutual) = []"
  by (intro conjI; code_simp)

subsection \<open>Closing a project\<close>

lemma closing_preconditions:
  "legal_spec f CLOSING = Some spec \<Longrightarrow> set (ts_preconditions spec) = {''all_tasks_terminal'', ''no_blocking_issues''}"
  "legal_spec CLOSING CLOSED = Some spec \<Longrightarrow> {''all_decisions_resolved'', ''all_issues_resolved_or_waived''} \<subseteq> set (ts_preconditions spec)"
  by (auto simp: LEGAL_TRANSITIONS_def tspec_def split: if_splits)

lemma closing_precondition_simps:
  "evaluate_precondition ''all_tasks_terminal'' s e a = all_tasks_terminal s"
  "evaluate_precondition ''no_blocking_issues'' s e a = (\<not> list_ex (blocking_issue s) (st_open_issues s))"
  "evaluate_precondition ''all_decisions_resolved'' s e a =
     (\<forall>(did, d) \<in> set (st_decisions s). dv_status d \<in> set RESOLVED_DECISION_STATUSES)"
  "evaluate_precondition ''all_issues_resolved_or_waived'' s e a = (st_open_issues s = [])"
  by (simp_all add: evaluate_precondition_def reason_preconditions_def)

text \<open>
  A project closes with its work done. Under an authority, it enters the closing phase only
  when it has tasks, all of them are terminal, and no issue of blocking severity is open, and it
  leaves the closing phase into the closed one only when moreover every decision is resolved and
  no issue is open. No override of a gate relaxes this.
\<close>

theorem closing_needs_finished_work:
  assumes p: "reduce_internal rt rv es None tvs dvs pid (Some a) = Inr p"
    and q: "reduce_internal rt rv (es @ [e]) None tvs dvs pid (Some a) = Inr q"
    and "st_current_phase q \<noteq> st_current_phase p"
  shows "(st_current_phase q = CLOSING \<longrightarrow> st_tasks p \<noteq> []
      \<and> (\<forall>(k, t) \<in> set (st_tasks p). terminal_str (tv_state t))
      \<and> (\<forall>i \<in> set (st_open_issues p). \<not> blocking_issue p i))
    \<and> (st_current_phase p = CLOSING \<and> st_current_phase q = CLOSED \<longrightarrow>
      (\<forall>(k, d) \<in> set (st_decisions p). dv_status d \<in> set RESOLVED_DECISION_STATUSES)
      \<and> st_open_issues p = [])"
proof (cases "ev_event_type e = ''project.created''")
  case True
  obtain target s0 u t where u: "apply_event rt rv (Some a) e u = Inr t"
    "compute_projections rt (Some a) u = Inr p" "compute_projections rt (Some a) t = Inr q"
    using reduce_snocE [OF p q] by metis
  have change: "st_current_phase t \<noteq> st_current_phase u"
    using assms(3) projected_fields(1) [OF u(2)] projected_fields(1) [OF u(3)] by simp
  from u(1) have "st_current_phase t = DISCOVERY"
    by (cases rule: lifecycle_cases) (use change True in \<open>auto simp: lifecycle_of_def transition_types_def\<close>)
  then show ?thesis using projected_fields(1) [OF u(3)] by simp
next
  case False
  obtain b v where v: "effective_authority p (Some a) = Some b"
    "evaluate_transition rv p (st_current_phase q) e (Some b) = Inr v" "ge_decision v = ALLOW"
    by (rule reduce_transitionE [OF p q assms(3) False])
  obtain spec where spec: "legal_spec (st_current_phase p) (st_current_phase q) = Some spec"
    "check_preconditions rv p e spec (Some b) = None"
    by (rule evaluate_transition_allowE [OF v(2,3)])
  note holds = check_preconditions_hold [OF spec(2)]
  show ?thesis
  proof (intro conjI impI; (elim conjE)?)
    assume "st_current_phase q = CLOSING"
    then have "evaluate_precondition ''all_tasks_terminal'' p e b" "evaluate_precondition ''no_blocking_issues'' p e b"
      using holds closing_preconditions(1) spec(1) by auto
    then show "st_tasks p \<noteq> []" "\<forall>(k, t) \<in> set (st_tasks p). terminal_str (tv_state t)"
      "\<forall>i \<in> set (st_open_issues p). \<not> blocking_issue p i"
      by (auto simp: closing_precondition_simps all_tasks_terminal_def list_ex_iff)
  next
    assume "st_current_phase p = CLOSING" "st_current_phase q = CLOSED"
    then have "evaluate_precondition ''all_decisions_resolved'' p e b"
      "evaluate_precondition ''all_issues_resolved_or_waived'' p e b"
      using holds closing_preconditions(2) spec(1) by auto
    then show "\<forall>(k, d) \<in> set (st_decisions p). dv_status d \<in> set RESOLVED_DECISION_STATUSES"
      "st_open_issues p = []"
      by (auto simp: closing_precondition_simps)
  qed
qed


text \<open>A project with one completed task that is taken into the closing phase.\<close>

definition closing_authority :: authority_context where
  "closing_authority = (sample_authority False)\<lparr>au_approved_decision_ids := {''dec_1''}\<rparr>"

definition closing_prefix :: "project_event list" where
  "closing_prefix = sample_prefix @
    [sample_event 4 ''evt_4'' ''project.phase.changed'' [(''to_phase'', JStr ''PLANNING'')] [''charter-1''],
     sample_event 5 ''evt_5'' ''project.phase.changed''
       [(''to_phase'', JStr ''EXECUTION''), (''approval_ref'', JStr ''dec_1'')] [''charter-1'']]"

definition closing_event :: project_event where
  "closing_event = sample_event 6 ''evt_6'' ''project.phase.changed'' [(''to_phase'', JStr ''CLOSING'')] [''charter-1'']"

definition closing_views :: "task_view list" where
  "closing_views = [sample_task ''a'' ''completed'' []]"

abbreviation closing_step :: "project_event \<Rightarrow> project_state \<Rightarrow> pse_error + project_state" where
  "closing_step \<equiv> apply_event sample_rt GOVERNANCE_RULES_VERSION (Some closing_authority)"

definition closing_record :: "project_phase \<Rightarrow> project_phase \<Rightarrow> string \<Rightarrow> string \<Rightarrow> string \<Rightarrow> string list \<Rightarrow> phase_record" where
  "closing_record f t nm eid g refs = \<lparr>pr_from_phase = f, pr_to_phase = t, pr_name = nm,
     pr_timestamp = ''2026-01-01T00:00:00Z'', pr_actor = ''olena'', pr_event_id = eid, pr_is_rollback = False,
     pr_reason = None, pr_gate = Some g, pr_evidence_refs = [''charter-1''], pr_approval_refs = refs\<rparr>"

definition closing_planned :: project_state where
  "closing_planned = sample_chartered\<lparr>st_tasks := [(''a'', sample_task ''a'' ''completed'' [])],
     st_current_phase := PLANNING, st_last_event_sequence := 4,
     st_phase_history := [closing_record DISCOVERY PLANNING ''advance_to_planning'' ''evt_4'' ''dor_discovery_to_planning'' []],
     st_contributing_events := [''evt_1'', ''evt_2'', ''evt_3'', ''evt_4'']\<rparr>"

definition closing_running :: project_state where
  "closing_running = closing_planned\<lparr>st_current_phase := EXECUTION, st_last_event_sequence := 5,
     st_phase_history := st_phase_history closing_planned @
       [closing_record PLANNING EXECUTION ''start_execution'' ''evt_5'' ''dor_planning_to_execution'' [''dec_1'']],
     st_contributing_events := [''evt_1'', ''evt_2'', ''evt_3'', ''evt_4'', ''evt_5'']\<rparr>"

definition closing_closing :: project_state where
  "closing_closing = closing_running\<lparr>st_current_phase := CLOSING, st_last_event_sequence := 6,
     st_phase_history := st_phase_history closing_running @
       [closing_record EXECUTION CLOSING ''begin_closing'' ''evt_6'' ''dod_execution_to_closing'' []],
     st_contributing_events := [''evt_1'', ''evt_2'', ''evt_3'', ''evt_4'', ''evt_5'', ''evt_6'']\<rparr>"

lemma closing_run_prefix:
  "foldE closing_step sample_prefix (sample_start\<lparr>st_tasks := [(''a'', sample_task ''a'' ''completed'' [])]\<rparr>)
     = Inr (sample_chartered\<lparr>st_tasks := [(''a'', sample_task ''a'' ''completed'' [])]\<rparr>)"
  by code_simp

lemma closing_run_plan:
  "closing_step (closing_prefix ! 3) (sample_chartered\<lparr>st_tasks := [(''a'', sample_task ''a'' ''completed'' [])]\<rparr>)
     = Inr closing_planned"
  by code_simp

lemma closing_run_execute: "closing_step (closing_prefix ! 4) closing_planned = Inr closing_running"
  by code_simp

lemma closing_run_close: "closing_step closing_event closing_running = Inr closing_closing"
  by code_simp

lemmas closing_steps = closing_run_prefix closing_run_plan closing_run_execute closing_run_close

lemma closing_reduced:
  "reduce_internal sample_rt GOVERNANCE_RULES_VERSION closing_prefix None closing_views [] None (Some closing_authority)
     = Inr (sealed closing_running)"
  "reduce_internal sample_rt GOVERNANCE_RULES_VERSION (closing_prefix @ [closing_event]) None closing_views [] None
     (Some closing_authority) = Inr (sealed closing_closing)"
proof -
  have start: "start_state sample_rt GOVERNANCE_RULES_VERSION None ''prj_demo'' = Inr sample_start"
    by (simp add: start_state_def sample_rules_digest sample_initial)
  have settle: "settle_rules sample_rt (Some closing_authority) sample_start = Inr sample_start"
    by (simp add: settle_rules_def sample_rules_digest sample_start_def hex64_def)
  have preload: "foldE (preload_task sample_rt (Some closing_authority)) closing_views sample_start
      = Inr (sample_start\<lparr>st_tasks := [(''a'', sample_task ''a'' ''completed'' [])]\<rparr>)" by code_simp
  have target: "target_project (closing_prefix @ es) None None = Inr ''prj_demo''" for es
    by (simp add: closing_prefix_def sample_prefix_def sample_event_def target_project_def)
  have split: "closing_prefix = sample_prefix @ [closing_prefix ! 3, closing_prefix ! 4]"
    by (simp add: closing_prefix_def sample_prefix_def)
  have run: "foldE closing_step closing_prefix (sample_start\<lparr>st_tasks := [(''a'', sample_task ''a'' ''completed'' [])]\<rparr>)
      = Inr closing_running"
    by (subst split) (simp add: foldE_append closing_steps)
  have project: "compute_projections sample_rt (Some closing_authority) closing_running = Inr (sealed closing_running)"
    "compute_projections sample_rt (Some closing_authority) closing_closing = Inr (sealed closing_closing)"
    by (rule sample_projections; code_simp)+
  have past: "\<not> historical (Some closing_authority)" by (simp add: historical_def closing_authority_def sample_authority_def)
  show "reduce_internal sample_rt GOVERNANCE_RULES_VERSION closing_prefix None closing_views [] None (Some closing_authority)
     = Inr (sealed closing_running)"
    using target [of "[]"] by (simp add: reduce_internal_def start settle preload run project past)
  show "reduce_internal sample_rt GOVERNANCE_RULES_VERSION (closing_prefix @ [closing_event]) None closing_views [] None
     (Some closing_authority) = Inr (sealed closing_closing)"
    using target [of "[closing_event]"]
    by (simp add: reduce_internal_def start settle preload foldE_append run closing_steps project past)
qed

theorem closing_needs_finished_work_witness:
  "st_tasks (sealed closing_running) \<noteq> []
   \<and> list_all (\<lambda>(k, t). terminal_str (tv_state t)) (st_tasks (sealed closing_running))"
proof -
  have phases: "st_current_phase (sealed closing_running) = EXECUTION"
    "st_current_phase (sealed closing_closing) = CLOSING"
    by (simp_all add: sealed_def closing_running_def closing_closing_def)
  then show ?thesis
    using closing_needs_finished_work [OF closing_reduced] unfolding list_all_iff by simp
qed

subsection \<open>Explanations\<close>

text \<open>
  An explanation of a replayed state rests on the ledger: it exists for exactly the ten
  explainable fields and fails closed for every other one, it names the revision of the state, the
  events behind the phase are transitions of the ledger, and the events behind the revision are
  those of the whole ledger.
\<close>

theorem explanations_rest_on_the_ledger:
  assumes "reduce_internal rt rv es None tvs dvs pid au = Inr s"
  shows "(explain s f = Inl UnexplainableField \<longleftrightarrow> f \<notin> set explainable_fields)
    \<and> (\<forall>x. explain s f = Inr x \<longrightarrow> ex_state_revision x = st_state_revision s \<and> ex_field x = f
         \<and> (f = ''current_phase'' \<longrightarrow> set (ex_events x) \<subseteq> set (map ev_event_id es)
              \<and> set (ex_events x) = set (map pr_event_id (st_phase_history s)))
         \<and> (f = ''state_revision'' \<longrightarrow> ex_events x = sorted_set (map ev_event_id es)))"
proof -
  obtain u where u: "history_ok u" "compute_projections rt au u = Inr s"
    by (rule reduce_run_inv [OF assms fresh_history history_ok_step])
  have events: "st_contributing_events s = map ev_event_id es" by (rule reduce_contributing [OF assms])
  have "set (map pr_event_id (st_phase_history s)) \<subseteq> set (map ev_event_id es)"
    using u events by (auto simp: history_ok_def projected_fields)
  then show ?thesis
    unfolding explain_fails_closed [of s f]
    using events by (auto simp: explain_def explanation_def Let_def split: if_splits)
qed

theorem explanations_rest_on_the_ledger_witness:
  "explain (sealed sample_planning) ''budget'' = Inl UnexplainableField"
  using explanations_rest_on_the_ledger [OF sample_reduced(2), of "''budget''"]
  by (simp add: explainable_fields_def)

end
