(* ===== verification/Event_Properties.thy ===== *)
theory Event_Properties
  imports Canonical_Json_Facts Sample_Project
begin

text \<open>
  The guarantees on events and their digests: validation is stable, and a canonical digest stands
  for one value.
\<close>

lemma validate_event_payload:
  assumes "validate_event rt e = Inr e'"
  obtains q where "e' = e\<lparr>ev_payload := q\<rparr>"
    "saga_payload rt (ev_event_type e) (ev_project_id e) (ev_correlation_id e) (ev_idempotency_key e)
       (ev_payload e) = Inr q"
  using assms by (auto simp: validate_event_def bindE_eq_Inr split: if_splits)

text \<open>
  C27. Validating an event is stable: an event that came out of the validation passes it again
  unchanged, so that an event which is read back from the ledger keeps the payload it was hashed with.
\<close>

theorem validated_events_are_stable:
  assumes "validate_event rt e = Inr e'"
  shows "validate_event rt e' = Inr e'"
proof -
  obtain q where q: "e' = e\<lparr>ev_payload := q\<rparr>"
    "saga_payload rt (ev_event_type e) (ev_project_id e) (ev_correlation_id e) (ev_idempotency_key e)
       (ev_payload e) = Inr q"
    using assms by (rule validate_event_payload)
  show ?thesis using assms saga_payload_idem [OF q(2)] by (simp add: validate_event_def q(1) split: if_splits)
qed

definition sample_saga :: project_event where
  "sample_saga = sample_event 2 ''evt_2'' ''task.associated'' [(''task_id'', JStr ''t1'')] []"

definition sample_saga_checked :: project_event where
  "sample_saga_checked = sample_saga\<lparr>ev_payload := [(''project_id'', JStr ''prj_demo''),
     (''task_id'', JStr ''t1''), (''relation'', JStr ''contributes_to''), (''correlation_id'', JNull),
     (''idempotency_key'', JNull)]\<rparr>"

theorem validated_events_are_stable_witness:
  "validate_event sample_rt sample_saga_checked = Inr sample_saga_checked"
proof -
  have "validate_event sample_rt sample_saga = Inr sample_saga_checked" by code_simp
  then show ?thesis by (rule validated_events_are_stable)
qed

text \<open>
  C28. A canonical digest stands for one value: two values of finite floats have the same digest
  exactly when they differ in the order of their keys only, as long as SHA-256 does not collide on
  their canonical texts.
\<close>

theorem canonical_digest_identifies_value:
  assumes "check_floats j" and "check_floats j'" and "readable_floats rt (floats_of j \<union> floats_of j')"
    and "inj_on (sha256_hex rt) {dumps rt (sort_keys j), dumps rt (sort_keys j')}"
  shows "canonical_digest rt j = canonical_digest rt j' \<longleftrightarrow> sort_keys j = sort_keys j'"
proof -
  have "canonical_digest rt x = Inr (sha256_hex rt (dumps rt (sort_keys x)))" if "check_floats x" for x
    using that by (simp add: canonical_digest_def canonical_json_dumps_def)
  then show ?thesis
    using assms canonical_text_inj [OF assms(3)] by (auto dest: inj_onD)
qed


theorem canonical_digest_identifies_value_witness:
  "canonical_digest (sample_rt\<lparr>sha256_hex := (\<lambda>x. x)\<rparr>) (JObj [(''a'', JInt 1), (''b'', JNull)])
     = canonical_digest (sample_rt\<lparr>sha256_hex := (\<lambda>x. x)\<rparr>) (JObj [(''b'', JNull), (''a'', JInt 1)])
   \<and> canonical_digest (sample_rt\<lparr>sha256_hex := (\<lambda>x. x)\<rparr>) (JObj [(''a'', JInt 1), (''b'', JNull)])
     \<noteq> canonical_digest (sample_rt\<lparr>sha256_hex := (\<lambda>x. x)\<rparr>) (JObj [(''a'', JInt 1), (''b'', JInt 0)])"
proof -
  have keys: "sort_keys (JObj [(''a'', JInt 1), (''b'', JNull)]) = sort_keys (JObj [(''b'', JNull), (''a'', JInt 1)])"
    "sort_keys (JObj [(''a'', JInt 1), (''b'', JNull)]) \<noteq> sort_keys (JObj [(''a'', JInt 1), (''b'', JInt 0)])"
    by code_simp+
  show ?thesis
    using keys canonical_digest_identifies_value [of "JObj [(''a'', JInt 1), (''b'', JNull)]"
        "JObj [(''b'', JNull), (''a'', JInt 1)]" "sample_rt\<lparr>sha256_hex := (\<lambda>x. x)\<rparr>"]
      canonical_digest_identifies_value [of "JObj [(''a'', JInt 1), (''b'', JNull)]"
        "JObj [(''a'', JInt 1), (''b'', JInt 0)]" "sample_rt\<lparr>sha256_hex := (\<lambda>x. x)\<rparr>"]
    by (simp del: sort_keys.simps)
qed

end
