(* ===== verification/Lock_Tracker.thy ===== *)
theory Lock_Tracker
  imports Prelude
begin

text \<open>
  The lock hierarchy of \<open>core/lock_tracker.py\<close>: the levels and projects that a thread holds, the
  check on acquisition, the release, and the context manager.

  \<open>lock_state\<close> is the thread-local state. \<open>Lock_Waiting\<close> has the locks behind the levels and what
  the order of the levels is worth for them.
\<close>

subsection \<open>The tracker\<close>

record lock_state =
  held_levels :: "int list"
  held_projects :: "string option list"

definition LEVEL_MUTATION :: int where "LEVEL_MUTATION = 1"
definition LEVEL_TASK :: int where "LEVEL_TASK = 2"
definition LEVEL_PROJECT :: int where "LEVEL_PROJECT = 3"

datatype lock_violation = OutOfOrder int int | CrossProjectLock string string

definition no_locks :: lock_state where
  "no_locks = \<lparr>held_levels = [], held_projects = []\<rparr>"

definition active_pids :: "lock_state \<Rightarrow> string list" where
  "active_pids s = List.map_filter id (held_projects s)"

definition get_current_project_id :: "lock_state \<Rightarrow> string option" where
  "get_current_project_id s = (if active_pids s = [] then None else Some (last (active_pids s)))"

definition push_level :: "int \<Rightarrow> string option \<Rightarrow> lock_state \<Rightarrow> lock_violation + lock_state" where
  "push_level level pid s =
     (if held_levels s \<noteq> [] \<and> Max (set (held_levels s)) > level
      then Inl (OutOfOrder level (Max (set (held_levels s))))
      else if level = LEVEL_PROJECT then
        (case (get_current_project_id s, pid) of
           (Some p, Some q) \<Rightarrow>
             if p \<noteq> q then Inl (CrossProjectLock q p)
             else Inr (s\<lparr>held_projects := held_projects s @ [pid], held_levels := held_levels s @ [level]\<rparr>)
         | _ \<Rightarrow> Inr (s\<lparr>held_projects := held_projects s @ [pid], held_levels := held_levels s @ [level]\<rparr>))
      else Inr (s\<lparr>held_levels := held_levels s @ [level]\<rparr>))"

text \<open>\<open>list.pop()\<close> on a non-empty list drops the last element, \<open>list.remove\<close> the first occurrence.\<close>

definition pop_level :: "int \<Rightarrow> lock_state \<Rightarrow> lock_state" where
  "pop_level level s =
     (let levels = (if held_levels s \<noteq> [] \<and> last (held_levels s) = level then butlast (held_levels s)
                    else remove1 level (held_levels s))
      in s\<lparr>held_levels := levels,
           held_projects := (if level = LEVEL_PROJECT then butlast (held_projects s) else held_projects s)\<rparr>)"

text \<open>
  The context manager: the body runs between the push and the pop, and the pop runs whether or
  not the body raises (\<open>Inl\<close>).
\<close>

definition hold_level ::
  "int \<Rightarrow> string option \<Rightarrow> (lock_state \<Rightarrow> (lock_violation + 'a) \<times> lock_state) \<Rightarrow> lock_state \<Rightarrow>
   (lock_violation + 'a) \<times> lock_state" where
  "hold_level level pid body s = (case push_level level pid s of
       Inl v \<Rightarrow> (Inl v, s)
     | Inr s1 \<Rightarrow> (let (r, s2) = body s1 in (r, pop_level level s2)))"

subsection \<open>Facts\<close>

lemma pop_push: "push_level level pid s = Inr t \<Longrightarrow> pop_level level t = s"
  by (cases s) (auto simp: push_level_def pop_level_def Let_def split: if_splits option.splits)

lemma push_held:
  assumes "push_level level pid s = Inr t"
  shows "held_levels t = held_levels s @ [level]" "x \<in> set (held_levels s) \<Longrightarrow> x \<le> level"
proof -
  show "held_levels t = held_levels s @ [level]"
    using assms by (auto simp: push_level_def split: if_splits option.splits)
  assume "x \<in> set (held_levels s)"
  moreover have "\<not> (held_levels s \<noteq> [] \<and> Max (set (held_levels s)) > level)"
    using assms by (auto simp: push_level_def)
  ultimately show "x \<le> level"
    by (metis List.finite_set Max_ge empty_iff empty_set linorder_not_less order_trans)
qed

text \<open>The levels ascend, and every project lock of the thread is for the same project.\<close>

definition disciplined :: "lock_state \<Rightarrow> bool" where
  "disciplined s \<longleftrightarrow> sorted (held_levels s)
     \<and> (\<exists>p. set (held_projects s) \<subseteq> {Some p})"

lemma active_pids_same:
  "set (held_projects s) \<subseteq> {Some p} \<Longrightarrow> active_pids s = replicate (length (held_projects s)) p"
proof -
  have "set xs \<subseteq> {Some p} \<Longrightarrow> List.map_filter id xs = replicate (length xs) p" for xs
    by (induction xs) (auto simp: map_filter_simps)
  then show "set (held_projects s) \<subseteq> {Some p} \<Longrightarrow> active_pids s = replicate (length (held_projects s)) p"
    by (simp add: active_pids_def)
qed

lemma push_same_project:
  assumes "push_level LEVEL_PROJECT (Some q) s = Inr t" "set (held_projects s) \<subseteq> {Some p}"
    "held_projects s \<noteq> []"
  shows "q = p"
proof -
  have "get_current_project_id s = Some p"
    using assms(2,3) by (simp add: get_current_project_id_def active_pids_same last_replicate)
  then show ?thesis using assms(1) by (auto simp: push_level_def split: if_splits)
qed

lemma push_projects:
  "push_level level pid s = Inr t \<Longrightarrow>
   held_projects t = held_projects s @ (if level = LEVEL_PROJECT then [pid] else [])"
  by (auto simp: push_level_def split: if_splits option.splits)

lemma push_disciplined:
  assumes "push_level level pid s = Inr t" "level = LEVEL_PROJECT \<longrightarrow> pid \<noteq> None" "disciplined s"
  shows "disciplined t"
proof -
  obtain p where p: "set (held_projects s) \<subseteq> {Some p}" using assms(3) by (auto simp: disciplined_def)
  have "sorted (held_levels t)"
    using push_held [OF assms(1)] assms(3) by (auto simp: disciplined_def sorted_append)
  moreover have "\<exists>q. set (held_projects t) \<subseteq> {Some q}"
  proof (cases "level = LEVEL_PROJECT")
    case True
    then obtain q where q: "pid = Some q" using assms(2) by blast
    show ?thesis
    proof (cases "held_projects s = []")
      case False
      then have "q = p" using push_same_project [OF _ p] assms(1) True q by simp
      then show ?thesis using push_projects [OF assms(1)] True q p by auto
    qed (use push_projects [OF assms(1)] True q in auto)
  qed (use push_projects [OF assms(1)] p in auto)
  ultimately show ?thesis by (simp add: disciplined_def)
qed

subsection \<open>The context manager\<close>

text \<open>
  The context manager is balanced: a body that leaves the tracker as it found it, whether it
  returns or raises, is run with the level pushed and leaves the tracker unchanged; a refused
  acquisition changes nothing and does not run the body.
\<close>

theorem hold_level_is_balanced:
  assumes "\<And>s1. snd (body s1) = s1"
  shows "snd (hold_level level pid body s) = s
    \<and> fst (hold_level level pid body s) =
        (case push_level level pid s of Inl v \<Rightarrow> Inl v | Inr s1 \<Rightarrow> fst (body s1))"
proof (cases "push_level level pid s")
  case (Inr s1)
  obtain r s2 where "body s1 = (r, s2)" by (cases "body s1") auto
  then show ?thesis using assms [of s1] Inr by (simp add: hold_level_def pop_push)
qed (simp add: hold_level_def)

theorem hold_level_is_balanced_witness:
  "snd (hold_level LEVEL_TASK None (\<lambda>s. (Inr (held_levels s), s)) no_locks) = no_locks"
  using hold_level_is_balanced [of "\<lambda>s. (Inr (held_levels s), s)" LEVEL_TASK None no_locks] by simp

end
