(* ===== verification/Task_Recovery.thy ===== *)
theory Task_Recovery
  imports Project_Event Lock_Tracker
begin

text \<open>
  The durable side of the task store (\<open>core/task_store.py\<close>): the writer lock, transactions that
  write several files under a manifest, the rollback after an exception, and the recovery of the
  manifests that a killed process left behind.

  A path is the list of its parts below the vault. A file is absent or has contents; the vault has
  no symbolic links, no directory stands where the store expects a file, and creating a directory
  or removing a transaction directory succeeds. A manifest file holds a JSON value or is
  unreadable (\<open>Garbled\<close>). A body of a transaction is the list of its writes and the way it ends.
\<close>

subsection \<open>Files, transactions and the store\<close>

type_synonym path = "string list"
type_synonym filesystem = "path \<Rightarrow> string option"

datatype json_file = NoFile | Garbled | Holds json

record tx_entry =
  tx_manifest :: json_file
  tx_backups :: "string dict"

datatype store_error =
    PyValueError | PyRuntimeError | PyFileNotFound | ConflictError | TaskJournalIntegrityError
  | PyPermissionError | LockViolation lock_violation | OtherError

record task_store =
  files :: filesystem
  tx_dir :: "(string \<times> tx_entry) list"
  recovery_log :: "payload list option"
  recovery_blocked :: bool
  recovered :: bool
  lock_depth :: nat
  held :: lock_state

text \<open>
  What the store takes from its surroundings: the runtime, the path of the vault,
  \<open>datetime.fromisoformat\<close> (\<open>None\<close> when it raises, otherwise whether the time has a zone), the
  clock (the time and its milliseconds as texts), and \<open>json.loads\<close>. The recovery log is \<open>None\<close> where appending to it fails.
\<close>

record store_env =
  se_rt :: pyrt
  se_vault :: string
  se_fromiso :: "string \<Rightarrow> bool option"
  se_now :: string
  se_millis :: string
  se_loads :: "string \<Rightarrow> json option"

definition MAX_TASK_STATE_BYTES :: nat where "MAX_TASK_STATE_BYTES = 10000000"

definition RECOVERY_OPERATION_LABELS :: "string list dict" where
  "RECOVERY_OPERATION_LABELS =
    [(''task_created'', [''snapshot'', ''event'', ''checkpoint'', ''receipt'']),
     (''migrated_from_v1'', [''snapshot'', ''event'', ''checkpoint'', ''receipt'']),
     (''state_transition'', [''snapshot'', ''event'', ''checkpoint'', ''receipt'']),
     (''task_event_append'', [''event'', ''checkpoint'']),
     (''task_snapshot'', [''snapshot'']),
     (''memory_apply'', [''note'', ''history'', ''log'']),
     (''decision_create'', [''decision'']),
     (''decision_resolve'', [''decision'', ''receipt''])]"

definition VAULT_STRUCTURE :: "string list" where
  "VAULT_STRUCTURE =
    [''00_Inbox'', ''01_Projects'', ''02_Areas'', ''03_Resources'', ''04_Archive'',
     ''06_Daily_Logs'', ''05_Templates'', ''PROTOCOLS'']"

text \<open>\<open>_read_secure_bytes\<close> on a regular file, and on a path that may be absent.\<close>

definition read_secure :: "string \<Rightarrow> store_error + string" where
  "read_secure c = (if MAX_TASK_STATE_BYTES < length c then Inl PyValueError else Inr c)"

definition read_image :: "filesystem \<Rightarrow> path \<Rightarrow> store_error + string option" where
  "read_image fs p = (case fs p of None \<Rightarrow> Inr None | Some c \<Rightarrow> bindE (read_secure c) (\<lambda>d. Inr (Some d)))"

definition image_digest :: "pyrt \<Rightarrow> string option \<Rightarrow> json" where
  "image_digest rt c = (case c of None \<Rightarrow> JNull | Some d \<Rightarrow> JStr (sha256_hex rt d))"

subsection \<open>Paths and labels of a manifest\<close>

fun split_on :: "char \<Rightarrow> string \<Rightarrow> string list" where
  "split_on d [] = [[]]"
| "split_on d (c # s) =
     (if c = d then [] # split_on d s
      else (case split_on d s of [] \<Rightarrow> [[c]] | w # ws \<Rightarrow> (c # w) # ws))"

text \<open>\<open>Path(s).parts\<close> of a relative path, and \<open>as_posix()\<close> of a path given by its parts.\<close>

definition path_parts :: "string \<Rightarrow> path" where
  "path_parts s = filter (\<lambda>w. w \<noteq> [] \<and> w \<noteq> ''.'') (split_on (CHR ''/'') s)"

fun join_with :: "char \<Rightarrow> string list \<Rightarrow> string" where
  "join_with d [] = []"
| "join_with d [w] = w"
| "join_with d (w # ws) = w @ d # join_with d ws"

definition as_posix :: "path \<Rightarrow> string" where
  "as_posix p = (if p = [] then ''.'' else join_with (CHR ''/'') p)"

definition control_char :: "char \<Rightarrow> bool" where
  "control_char c = ((of_char c :: nat) < 32 \<or> (of_char c :: nat) = 127)"

definition ends_with :: "string \<Rightarrow> string \<Rightarrow> bool" where
  "ends_with s w = (length w \<le> length s \<and> drop (length s - length w) s = w)"

definition removesuffix :: "string \<Rightarrow> string \<Rightarrow> string" where
  "removesuffix s w = (if ends_with s w then take (length s - length w) s else s)"

definition re_label :: "nat \<Rightarrow> string \<Rightarrow> bool" where
  "re_label n s = (case s of [] \<Rightarrow> False
     | c # r \<Rightarrow> is_alnum c \<and> length r \<le> n \<and> list_all id_char r)"

text \<open>\<open>[A-Za-z0-9][A-Za-z0-9._-]{0,127}_seq_[0-9]+\<close>: some split at \<open>_seq_\<close> fits both sides.\<close>

definition re_checkpoint :: "string \<Rightarrow> bool" where
  "re_checkpoint s = list_ex (\<lambda>i. re_label 127 (take i s) \<and> take 5 (drop i s) = ''_seq_''
      \<and> drop (i + 5) s \<noteq> [] \<and> list_all is_digit (drop (i + 5) s)) [0..<length s]"

definition re_receipt :: "string \<Rightarrow> string \<Rightarrow> bool" where
  "re_receipt pre s = (take 4 s = pre \<and> re_hash (drop 4 s))"

definition recovery_label :: "json \<Rightarrow> store_error + string" where
  "recovery_label v = (case v of JStr s \<Rightarrow> if re_label 63 s then Inr s else Inl PyValueError
     | _ \<Rightarrow> Inl PyValueError)"

definition recovery_path :: "json \<Rightarrow> store_error + path" where
  "recovery_path v = (case v of
       JStr s \<Rightarrow>
         if s = [] \<or> CHR 0x5C \<in> set s \<or> list_ex control_char s then Inl PyValueError
         else if hd s = CHR ''/'' \<or> list_ex (\<lambda>w. w \<in> {[], ''.'', ''..''}) (path_parts s) then Inl PyValueError
         else Inr (path_parts s)
     | _ \<Rightarrow> Inl PyValueError)"

definition tasks_root :: path where "tasks_root = [''.power'', ''tasks'']"

text \<open>\<open>candidate.relative_to(self.tasks_dir)\<close>: the parent and the name below the tasks directory.\<close>

definition tasks_relative :: "path \<Rightarrow> path option" where
  "tasks_relative p = (if take 2 p = tasks_root then Some (drop 2 p) else None)"

definition rel_name :: "path \<Rightarrow> string" where
  "rel_name r = (if r = [] then [] else last r)"

definition has_md_suffix :: "string \<Rightarrow> bool" where
  "has_md_suffix n = (ends_with n ''.md'' \<and> 3 < length n)"

definition tasks_file_allowed :: "string \<Rightarrow> string \<Rightarrow> path \<Rightarrow> bool" where
  "tasks_file_allowed op label r =
     (let name = rel_name r; parent = butlast r;
          tid = removesuffix (removesuffix name ''.json'') ''.jsonl''
      in (label = ''snapshot'' \<and> parent = [] \<and> ends_with name ''.json'' \<and> re_label 127 tid)
       \<or> (label = ''event'' \<and> parent = [''events''] \<and> ends_with name ''.jsonl'' \<and> re_label 127 tid)
       \<or> (label = ''checkpoint'' \<and> parent = [''checkpoints''] \<and> ends_with name ''.json'' \<and> re_checkpoint tid)
       \<or> (label = ''receipt'' \<and>
            ((op \<in> {''task_created'', ''migrated_from_v1'', ''state_transition''}
                \<and> parent = [''receipts''] \<and> re_receipt ''tcr_'' tid)
             \<or> (op = ''decision_resolve'' \<and> parent = [''decisions'', ''receipts''] \<and> re_receipt ''dcr_'' tid)))
       \<or> (label = ''decision'' \<and> parent = [''decisions''] \<and> ends_with name ''.json'' \<and> re_label 127 tid))"

definition vault_file_allowed :: "string \<Rightarrow> string \<Rightarrow> path \<Rightarrow> bool" where
  "vault_file_allowed op label p =
     ((label = ''history'' \<and> p = [''.power'', ''memory-history.jsonl''])
    \<or> (label = ''log'' \<and> op = ''memory_apply'' \<and> p = [''log.md''])
    \<or> (label = ''note'' \<and> op = ''memory_apply'' \<and> p \<noteq> [] \<and> has_md_suffix (last p)
        \<and> (length p = 1 \<or> hd p \<in> set VAULT_STRUCTURE) \<and> hd p \<noteq> ''.power''))"

definition allowed_recovery_path :: "json \<Rightarrow> json \<Rightarrow> json \<Rightarrow> store_error + path" where
  "allowed_recovery_path label value operation =
     bindE (recovery_label label) (\<lambda>safe.
       case operation of
         JStr op \<Rightarrow>
           (case map_of RECOVERY_OPERATION_LABELS op of
              None \<Rightarrow> Inl PyValueError
            | Some labels \<Rightarrow>
                if safe \<notin> set labels then Inl PyValueError
                else bindE (recovery_path value) (\<lambda>p.
                  if (case tasks_relative p of None \<Rightarrow> False | Some r \<Rightarrow> tasks_file_allowed op safe r)
                     \<or> vault_file_allowed op safe p
                  then Inr p else Inl PyValueError))
       | _ \<Rightarrow> Inl PyValueError)"

subsection \<open>Manifests\<close>

definition item_of :: "json \<Rightarrow> payload" where
  "item_of j = (case j of JObj d \<Rightarrow> d | _ \<Rightarrow> [])"

definition touched_items :: "payload \<Rightarrow> payload list" where
  "touched_items m = (case jget m ''touched'' of JList ts \<Rightarrow> map item_of ts | _ \<Rightarrow> [])"

definition same_keys :: "'v dict \<Rightarrow> string list \<Rightarrow> bool" where
  "same_keys d ks = (set (map fst d) = set ks)"

definition item_fault :: "payload \<Rightarrow> json \<Rightarrow> bool" where
  "item_fault m j = (case j of
       JObj t \<Rightarrow>
         \<not> (same_keys t [''label'', ''rel'', ''preimage_digest'']
            \<or> same_keys t [''label'', ''rel'', ''preimage_digest'', ''postimage_digest''])
         \<or> (jget m ''stage'' = JStr ''committed'' \<and>
             \<not> same_keys t [''label'', ''rel'', ''preimage_digest'', ''postimage_digest''])
         \<or> (case allowed_recovery_path (jget t ''label'') (jget t ''rel'') (jget m ''op'') of
               Inl _ \<Rightarrow> True | Inr _ \<Rightarrow> False)
         \<or> list_ex (\<lambda>f. case jget t f of JNull \<Rightarrow> False | JStr d \<Rightarrow> \<not> re_hash d | _ \<Rightarrow> True)
             [''preimage_digest'', ''postimage_digest'']
     | _ \<Rightarrow> True)"

definition validate_recovery_manifest :: "store_env \<Rightarrow> json \<Rightarrow> string \<Rightarrow> store_error + payload" where
  "validate_recovery_manifest env j tx_id = (case j of
       JObj m \<Rightarrow>
         if \<not> same_keys m [''tx_id'', ''op'', ''idempotency_key'', ''command_sha256'', ''stage'',
                           ''created_at'', ''vault'', ''touched''] then Inl PyValueError
         else if jget m ''tx_id'' \<noteq> JStr tx_id \<or> jget m ''vault'' \<noteq> JStr (se_vault env) then Inl PyValueError
         else if jget m ''stage'' \<notin> {JStr ''prepared'', JStr ''committed''} then Inl PyValueError
         else if (case jget m ''op'' of JStr op \<Rightarrow> \<not> has_key op RECOVERY_OPERATION_LABELS | _ \<Rightarrow> True)
           then Inl PyValueError
         else if (case jget m ''idempotency_key'' of JNull \<Rightarrow> False | JStr _ \<Rightarrow> False | _ \<Rightarrow> True)
           then Inl PyValueError
         else if (case jget m ''command_sha256'' of JNull \<Rightarrow> False
                  | JStr c \<Rightarrow> c = [] \<or> 128 < char_count c \<or> list_ex control_char c | _ \<Rightarrow> True)
           then Inl PyValueError
         else if (case jget m ''created_at'' of JStr c \<Rightarrow> se_fromiso env c \<noteq> Some True | _ \<Rightarrow> True)
           then Inl PyValueError
         else (case jget m ''touched'' of
             JList ts \<Rightarrow> if 256 < length ts \<or> list_ex (item_fault m) ts then Inl PyValueError else Inr m
           | _ \<Rightarrow> Inl PyValueError)
     | _ \<Rightarrow> Inl PyValueError)"

subsection \<open>Transactions\<close>

text \<open>
  The preimages: for every touched file a backup of its contents and an entry of the manifest.
  The loop stops at the first file that may not be touched, with the backups written so far.
\<close>

definition manifest_item :: "pyrt \<Rightarrow> string \<Rightarrow> path \<Rightarrow> string option \<Rightarrow> payload" where
  "manifest_item rt label p pre =
     [(''label'', JStr label), (''rel'', JStr (as_posix p)), (''preimage_digest'', image_digest rt pre)]"

fun take_preimages ::
  "pyrt \<Rightarrow> string \<Rightarrow> filesystem \<Rightarrow> (path \<times> string) list \<Rightarrow> string dict \<Rightarrow> payload list \<Rightarrow>
   store_error option \<times> string dict \<times> payload list" where
  "take_preimages rt op fs [] baks items = (None, baks, items)"
| "take_preimages rt op fs ((p, label) # ts) baks items =
     (case bindE (recovery_label (JStr label)) (\<lambda>safe.
             bindE (allowed_recovery_path (JStr safe) (JStr (as_posix p)) (JStr op)) (\<lambda>_.
             bindE (read_image fs p) (\<lambda>pre. Inr (safe, pre)))) of
        Inl e \<Rightarrow> (Some e, baks, items)
      | Inr (safe, pre) \<Rightarrow>
          take_preimages rt op fs ts
            (case pre of None \<Rightarrow> baks | Some c \<Rightarrow> AList.update (safe @ ''.bak'') c baks)
            (items @ [manifest_item rt safe p pre]))"

definition mk_manifest ::
  "store_env \<Rightarrow> string \<Rightarrow> string \<Rightarrow> string option \<Rightarrow> string option \<Rightarrow> string \<Rightarrow> payload list \<Rightarrow> payload" where
  "mk_manifest env tx_id op key command stage items =
     [(''tx_id'', JStr tx_id), (''op'', JStr op), (''idempotency_key'', jopt key),
      (''command_sha256'', jopt command), (''stage'', JStr stage),
      (''created_at'', JStr (se_now env)), (''vault'', JStr (se_vault env)),
      (''touched'', JList (map JObj items))]"

definition put_tx :: "string \<Rightarrow> tx_entry \<Rightarrow> task_store \<Rightarrow> task_store" where
  "put_tx tx_id tx st = st\<lparr>tx_dir := AList.update tx_id tx (tx_dir st)\<rparr>"

definition remove_tx :: "string \<Rightarrow> task_store \<Rightarrow> task_store" where
  "remove_tx tx_id st = st\<lparr>tx_dir := AList.delete tx_id (tx_dir st)\<rparr>"

text \<open>\<open>_rollback_tx\<close>: the files restored before an error stay restored.\<close>

fun rollback_items ::
  "pyrt \<Rightarrow> json \<Rightarrow> string dict \<Rightarrow> payload list \<Rightarrow> filesystem \<Rightarrow> store_error option \<times> filesystem" where
  "rollback_items rt op baks [] fs = (None, fs)"
| "rollback_items rt op baks (t # ts) fs =
     (case allowed_recovery_path (jget t ''label'') (jget t ''rel'') op of
        Inl e \<Rightarrow> (Some e, fs)
      | Inr p \<Rightarrow>
          if jget t ''preimage_digest'' = JNull then rollback_items rt op baks ts (fs(p := None))
          else (case recovery_label (jget t ''label'') of
              Inl e \<Rightarrow> (Some e, fs)
            | Inr label \<Rightarrow>
                (case map_of baks (label @ ''.bak'') of
                   None \<Rightarrow> (Some PyFileNotFound, fs)
                 | Some c \<Rightarrow>
                     (case read_secure c of
                        Inl e \<Rightarrow> (Some e, fs)
                      | Inr d \<Rightarrow>
                          if JStr (sha256_hex rt d) \<noteq> jget t ''preimage_digest''
                          then (Some PyRuntimeError, fs)
                          else rollback_items rt op baks ts (fs(p \<mapsto> d))))))"

definition rollback_tx :: "pyrt \<Rightarrow> payload \<Rightarrow> string dict \<Rightarrow> filesystem \<Rightarrow> store_error option \<times> filesystem" where
  "rollback_tx rt m baks fs = rollback_items rt (jget m ''op'') baks (touched_items m) fs"

text \<open>
  The write body: the files it writes or unlinks in order, and whether it returns, raises an
  \<open>Exception\<close>, or is left by another \<open>BaseException\<close> (an interrupt or an exit).
\<close>

type_synonym file_write = "path \<times> string option"

datatype body_exit = Returns | Raises store_error | Interrupted

definition run_writes :: "file_write list \<Rightarrow> filesystem \<Rightarrow> filesystem" where
  "run_writes ws fs = fold (\<lambda>(p, c) fs. fs(p := c)) ws fs"

definition postimage_item :: "store_env \<Rightarrow> json \<Rightarrow> filesystem \<Rightarrow> payload \<Rightarrow> store_error + payload" where
  "postimage_item env op fs t =
     bindE (allowed_recovery_path (jget t ''label'') (jget t ''rel'') op) (\<lambda>p.
     bindE (read_image fs p) (\<lambda>c.
     Inr (AList.update ''postimage_digest'' (image_digest (se_rt env) c) t)))"

text \<open>
  The transaction. The manifest with stage \<open>committed\<close> is on disk between its write and the removal
  of the directory, and nothing can raise there, so it appears only in the states a killed process leaves.
  The fault is the one an armed injector raises after the prepared manifest is durable.
\<close>

definition transaction_locked ::
  "store_env \<Rightarrow> string \<Rightarrow> string \<Rightarrow> string option \<Rightarrow> string option \<Rightarrow> (path \<times> string) list \<Rightarrow>
   store_error option \<Rightarrow> file_write list \<Rightarrow> body_exit \<Rightarrow> task_store \<Rightarrow> body_exit \<times> task_store" where
  "transaction_locked env tx_id op key command touched fault writes exit st =
     (case take_preimages (se_rt env) op (files st) touched [] [] of
        (Some e, baks, items) \<Rightarrow>
          (Raises e, put_tx tx_id \<lparr>tx_manifest = NoFile, tx_backups = baks\<rparr> st)
      | (None, baks, items) \<Rightarrow>
          let manifest = mk_manifest env tx_id op key command ''prepared'' items;
              st1 = put_tx tx_id \<lparr>tx_manifest = Holds (JObj manifest), tx_backups = baks\<rparr> st
          in case fault of
               Some e \<Rightarrow> (Raises e, st1)
             | None \<Rightarrow>
                 let st2 = st1\<lparr>files := run_writes writes (files st1)\<rparr>;
                     outcome = (case exit of
                         Returns \<Rightarrow> (case mapE (postimage_item env (JStr op) (files st2)) items of
                             Inl e \<Rightarrow> Raises e | Inr _ \<Rightarrow> Returns)
                       | _ \<Rightarrow> exit)
                 in case outcome of
                      Raises e \<Rightarrow>
                        (case rollback_tx (se_rt env) manifest baks (files st2) of
                           (None, fs) \<Rightarrow> (Raises e, remove_tx tx_id (st2\<lparr>files := fs\<rparr>))
                         | (Some _, fs) \<Rightarrow> (Raises PyRuntimeError, st2\<lparr>files := fs, recovery_blocked := True\<rparr>))
                    | _ \<Rightarrow> (outcome, remove_tx tx_id st2))"

subsection \<open>Recovery\<close>

datatype image_state = Pre | Post | Mixed

definition classify_item :: "pyrt \<Rightarrow> json \<Rightarrow> filesystem \<Rightarrow> payload \<Rightarrow> store_error + image_state" where
  "classify_item rt op fs t =
     bindE (allowed_recovery_path (jget t ''label'') (jget t ''rel'') op) (\<lambda>p.
     bindE (read_image fs p) (\<lambda>cur.
       let pre = jget t ''preimage_digest''; post = jget t ''postimage_digest'' in
       Inr (if post \<noteq> JNull \<and> image_digest rt cur = post then Post
            else if (pre = JNull \<and> cur = None) \<or> (pre \<noteq> JNull \<and> image_digest rt cur = pre) then Pre
            else Mixed)))"

definition reconcile_tx ::
  "pyrt \<Rightarrow> payload \<Rightarrow> string dict \<Rightarrow> filesystem \<Rightarrow> (store_error + string) \<times> filesystem" where
  "reconcile_tx rt m baks fs =
     (case mapE (classify_item rt (jget m ''op'') fs) (touched_items m) of
        Inl e \<Rightarrow> (Inl e, fs)
      | Inr states \<Rightarrow>
          if states \<noteq> [] \<and> list_all (\<lambda>s. s = Post) states then (Inr ''committed'', fs)
          else if states \<noteq> [] \<and> list_all (\<lambda>s. s = Pre) states then (Inr ''rolled_back'', fs)
          else if jget m ''stage'' = JStr ''prepared'' then
            (case rollback_tx rt m baks fs of
               (None, fs') \<Rightarrow> (Inr ''reconciled_rollback'', fs')
             | (Some e, fs') \<Rightarrow> (Inl e, fs'))
          else (Inl PyRuntimeError, fs))"

definition error_name :: "store_error \<Rightarrow> string" where
  "error_name e = (case e of
       PyValueError \<Rightarrow> ''ValueError'' | PyRuntimeError \<Rightarrow> ''RuntimeError''
     | PyFileNotFound \<Rightarrow> ''FileNotFoundError'' | LockViolation _ \<Rightarrow> ''LockHierarchyViolationError''
     | ConflictError \<Rightarrow> ''ConflictError'' | TaskJournalIntegrityError \<Rightarrow> ''TaskJournalIntegrityError''
     | PyPermissionError \<Rightarrow> ''PermissionError'' | OtherError \<Rightarrow> ''Exception'')"

definition log_recovery_record :: "store_env \<Rightarrow> payload \<Rightarrow> task_store \<Rightarrow> bool \<times> task_store" where
  "log_recovery_record env r st = (case recovery_log st of
       None \<Rightarrow> (False, st)
     | Some rs \<Rightarrow> (True, st\<lparr>recovery_log := Some (rs @ [AList.update ''ts'' (JStr (se_now env)) r])\<rparr>))"

definition block_store :: "task_store \<Rightarrow> task_store" where
  "block_store st = st\<lparr>recovery_blocked := True\<rparr>"

definition fail_record :: "json \<Rightarrow> json \<Rightarrow> string \<Rightarrow> payload" where
  "fail_record tx op reason =
     [(''tx_id'', tx), (''op'', op), (''recovered_as'', JStr ''fail_closed''), (''reason'', JStr reason)]"

definition recover_entry ::
  "store_env \<Rightarrow> string \<times> tx_entry \<Rightarrow> payload list \<times> task_store \<Rightarrow> payload list \<times> task_store" where
  "recover_entry env entry acc =
     (let (name, tx) = entry; (results, st) = acc in
      case tx_manifest tx of
        NoFile \<Rightarrow> (results, block_store st)
      | Garbled \<Rightarrow>
          (results, snd (log_recovery_record env
             (fail_record (JStr name) (JStr ''unknown'') ''corrupt_manifest'') (block_store st)))
      | Holds j \<Rightarrow>
          (case validate_recovery_manifest env j name of
             Inl _ \<Rightarrow>
               (results, snd (log_recovery_record env
                  (fail_record (JStr name) (JStr ''unknown'') ''corrupt_manifest'') (block_store st)))
           | Inr m \<Rightarrow>
               (case reconcile_tx (se_rt env) m (tx_backups tx) (files st) of
                  (Inl e, fs) \<Rightarrow>
                    (results, snd (log_recovery_record env
                       (fail_record (jget m ''tx_id'') (jget m ''op'') (''reconcile_error:'' @ error_name e))
                       (block_store (st\<lparr>files := fs\<rparr>))))
                | (Inr status, fs) \<Rightarrow>
                    (case log_recovery_record env
                            [(''tx_id'', jget m ''tx_id''), (''op'', jget m ''op''), (''recovered_as'', JStr status),
                             (''affected'', JList (map (\<lambda>t. jget t ''rel'') (touched_items m)))]
                            (st\<lparr>files := fs\<rparr>) of
                       (False, st') \<Rightarrow> (results, block_store st')
                     | (True, st') \<Rightarrow>
                         (results @ [[(''tx_id'', jget m ''tx_id''), (''status'', JStr status)]],
                          remove_tx name st')))))"

definition recover :: "store_env \<Rightarrow> task_store \<Rightarrow> payload list \<times> task_store" where
  "recover env st = fold (recover_entry env) (tx_dir st) ([], st)"

subsection \<open>The writer lock\<close>

text \<open>
  \<open>lock()\<close> around a body: the level of the lock hierarchy, the refusal of a blocked store, the
  recovery on the first acquisition of the process, and the depth of reentrant acquisitions.
  The advisory file lock is granted.
\<close>

definition with_lock ::
  "store_env \<Rightarrow> (task_store \<Rightarrow> (store_error + 'a) \<times> task_store) \<Rightarrow> task_store \<Rightarrow>
   (store_error + 'a) \<times> task_store" where
  "with_lock env body st = (case push_level LEVEL_TASK None (held st) of
       Inl v \<Rightarrow> (Inl (LockViolation v), st)
     | Inr h \<Rightarrow>
         let st1 = st\<lparr>held := h\<rparr>;
             (r, st2) =
               (if recovery_blocked st1 then (Inl PyRuntimeError, st1)
                else
                  let st3 = (if lock_depth st1 = 0 \<and> \<not> recovered st1 then snd (recover env st1) else st1)
                  in if lock_depth st1 = 0 \<and> \<not> recovered st1 \<and> recovery_blocked st3
                     then (Inl PyRuntimeError, st3)
                     else
                       let st4 = (if lock_depth st1 = 0 then st3\<lparr>recovered := True\<rparr> else st3);
                           (r, st5) = body (st4\<lparr>lock_depth := Suc (lock_depth st4)\<rparr>)
                       in (r, st5\<lparr>lock_depth := lock_depth st5 - 1\<rparr>))
         in (r, st2\<lparr>held := pop_level LEVEL_TASK (held st2)\<rparr>))"

definition transaction ::
  "store_env \<Rightarrow> string \<Rightarrow> string \<Rightarrow> string option \<Rightarrow> string option \<Rightarrow> (path \<times> string) list \<Rightarrow>
   store_error option \<Rightarrow> file_write list \<Rightarrow> body_exit \<Rightarrow> task_store \<Rightarrow>
   (store_error + body_exit) \<times> task_store" where
  "transaction env tx_id op key command touched fault writes exit st =
     with_lock env (\<lambda>s. (\<lambda>(x, t). (Inr x, t))
       (transaction_locked env tx_id op key command touched fault writes exit s)) st"

text \<open>A process that starts on the same vault: only the disk survives.\<close>

definition restart :: "task_store \<Rightarrow> task_store" where
  "restart st = st\<lparr>recovery_blocked := False, recovered := False, lock_depth := 0, held := no_locks\<rparr>"

end
