(* ===== verification/Recovery_Facts.thy ===== *)
theory Recovery_Facts
  imports Task_Recovery
begin

text \<open>
  Facts on the transactions of the task store: paths survive their text in the manifest, the
  backups of a transaction restore its files whatever happened to them since (the contract
  \<open>undo_log\<close>), and recovery of a single left-over directory.
\<close>

subsection \<open>Paths in a manifest\<close>

text \<open>The parts of a path are names: neither empty nor a dot, and without a slash.\<close>

definition proper_path :: "path \<Rightarrow> bool" where
  "proper_path p = list_all (\<lambda>w. w \<noteq> [] \<and> w \<noteq> ''.'' \<and> CHR ''/'' \<notin> set w) p"

lemma split_on_ne [simp]: "split_on d s \<noteq> []"
  by (induction s) (auto split: list.split)

lemma split_on_append: "d \<notin> set w \<Longrightarrow> split_on d (w @ s) =
    (w @ hd (split_on d s)) # tl (split_on d s)"
  by (induction w) (auto split: list.split)

lemma split_on_whole: "d \<notin> set w \<Longrightarrow> split_on d w = [w]"
  using split_on_append [of d w "[]"] by simp

lemma split_join:
  "ws \<noteq> [] \<Longrightarrow> list_all (\<lambda>w. d \<notin> set w) ws \<Longrightarrow> split_on d (join_with d ws) = ws"
proof (induction d ws rule: join_with.induct)
  case (3 d w v vs)
  then show ?case using split_on_append [of d w "d # join_with d (v # vs)"] by simp
qed (simp_all add: split_on_whole)

lemma path_parts_as_posix: "proper_path p \<Longrightarrow> path_parts (as_posix p) = p"
proof (cases "p = []")
  case True
  then show ?thesis by (simp add: path_parts_def as_posix_def)
next
  case False
  assume "proper_path p"
  then have "list_all (\<lambda>w. CHR ''/'' \<notin> set w) p" and w: "list_all (\<lambda>w. w \<noteq> [] \<and> w \<noteq> ''.'') p"
    by (auto simp: proper_path_def list_all_iff)
  then show ?thesis
    using False split_join [of p "CHR ''/''"] w
    by (simp add: path_parts_def as_posix_def list_all_iff filter_id_conv)
qed

lemma recovery_path_parts: "recovery_path (JStr s) = Inr p \<Longrightarrow> p = path_parts s"
  by (auto simp: recovery_path_def split: if_splits)

lemma recovery_label_Inr: "recovery_label v = Inr l \<longleftrightarrow> v = JStr l \<and> re_label 63 l"
  by (cases v) (auto simp: recovery_label_def)

text \<open>The file classes of the recovery.\<close>

definition file_class :: "string \<Rightarrow> string \<Rightarrow> path \<Rightarrow> bool" where
  "file_class op label p =
     ((case tasks_relative p of None \<Rightarrow> False | Some r \<Rightarrow> tasks_file_allowed op label r)
      \<or> vault_file_allowed op label p)"

lemma allowed_path_iff:
  "allowed_recovery_path l v op = Inr p \<longleftrightarrow>
   (\<exists>s o' labels. l = JStr s \<and> re_label 63 s \<and> op = JStr o'
      \<and> map_of RECOVERY_OPERATION_LABELS o' = Some labels \<and> s \<in> set labels
      \<and> recovery_path v = Inr p \<and> file_class o' s p)"
proof (cases op)
  case (JStr o')
  then show ?thesis
    unfolding allowed_recovery_path_def bindE_eq_Inr recovery_label_Inr file_class_def [symmetric]
    by (cases "map_of RECOVERY_OPERATION_LABELS o'") (auto simp: bindE_eq_Inr split: if_splits)
qed (auto simp: allowed_recovery_path_def bindE_eq_Inr)

lemma allowed_path_parts: "allowed_recovery_path l (JStr s) op = Inr p \<Longrightarrow> p = path_parts s"
  by (auto simp: allowed_path_iff dest: recovery_path_parts)

subsection \<open>Backups\<close>

definition bounded_file :: "string option \<Rightarrow> bool" where
  "bounded_file c = (case c of None \<Rightarrow> True | Some d \<Rightarrow> length d \<le> MAX_TASK_STATE_BYTES)"

lemma read_image_bounded: "bounded_file (fs p) \<Longrightarrow> read_image fs p = Inr (fs p)"
  by (cases "fs p") (simp_all add: read_image_def bounded_file_def read_secure_def)

lemma read_image_Inr:
  assumes "read_image fs p = Inr c"
  shows "c = fs p \<and> bounded_file c"
proof (cases "fs p")
  case None
  then show ?thesis using assms by (simp add: read_image_def bounded_file_def)
next
  case (Some d)
  then have "length d \<le> MAX_TASK_STATE_BYTES \<and> c = Some d"
    using assms by (auto simp: read_image_def read_secure_def split: if_splits)
  then show ?thesis by (simp add: Some bounded_file_def)
qed

text \<open>The manifest entries of the touched files of a transaction that starts in \<open>fs\<close>.\<close>

definition items_of :: "pyrt \<Rightarrow> filesystem \<Rightarrow> (path \<times> string) list \<Rightarrow> payload list" where
  "items_of rt fs ts = map (\<lambda>(p, l). manifest_item rt l p (fs p)) ts"

lemma take_preimages_items:
  "take_preimages rt op fs ts baks items = (None, baks', items') \<Longrightarrow>
   items' = items @ items_of rt fs ts
   \<and> (\<forall>(p, l) \<in> set ts. recovery_label (JStr l) = Inr l \<and> bounded_file (fs p)
        \<and> (\<exists>q. allowed_recovery_path (JStr l) (JStr (as_posix p)) (JStr op) = Inr q))"
proof (induction rt op fs ts baks items arbitrary: baks' items' rule: take_preimages.induct)
  case (2 rt op fs p label ts baks items)
  from 2(2) obtain safe pre q where s: "recovery_label (JStr label) = Inr safe"
    "allowed_recovery_path (JStr safe) (JStr (as_posix p)) (JStr op) = Inr q"
    "read_image fs p = Inr pre"
    and rest: "take_preimages rt op fs ts
        (case pre of None \<Rightarrow> baks | Some c \<Rightarrow> AList.update (safe @ ''.bak'') c baks)
        (items @ [manifest_item rt safe p pre]) = (None, baks', items')"
    by (auto simp: bindE_eq_Inr split: sum.splits prod.splits)
  have "safe = label" using s(1) by (auto simp: recovery_label_def split: if_splits)
  moreover have "pre = fs p" "bounded_file (fs p)" using read_image_Inr [OF s(3)] by auto
  ultimately show ?case using s rest 2(1) [of "(safe, pre)" safe pre baks' items']
    by (auto simp: items_of_def)
qed (simp add: items_of_def)

lemma take_preimages_backups:
  "take_preimages rt op fs ts baks items = (None, baks', items') \<Longrightarrow> distinct (map snd ts) \<Longrightarrow>
   (\<forall>l. l \<notin> snd ` set ts \<longrightarrow> map_of baks' (l @ ''.bak'') = map_of baks (l @ ''.bak''))
   \<and> (\<forall>(p, l) \<in> set ts. fs p \<noteq> None \<longrightarrow> map_of baks' (l @ ''.bak'') = fs p)"
proof (induction rt op fs ts baks items arbitrary: baks' items' rule: take_preimages.induct)
  case (2 rt op fs p label ts baks items)
  from 2(2) obtain safe pre q where s: "recovery_label (JStr label) = Inr safe"
    "allowed_recovery_path (JStr safe) (JStr (as_posix p)) (JStr op) = Inr q"
    "read_image fs p = Inr pre"
    and rest: "take_preimages rt op fs ts
        (case pre of None \<Rightarrow> baks | Some c \<Rightarrow> AList.update (safe @ ''.bak'') c baks)
        (items @ [manifest_item rt safe p pre]) = (None, baks', items')"
    by (auto simp: bindE_eq_Inr split: sum.splits prod.splits)
  have l: "safe = label" using s(1) by (auto simp: recovery_label_def split: if_splits)
  have pre: "pre = fs p" using read_image_Inr [OF s(3)] by auto
  have IH: "(\<forall>l. l \<notin> snd ` set ts \<longrightarrow> map_of baks' (l @ ''.bak'') =
       map_of (case pre of None \<Rightarrow> baks | Some c \<Rightarrow> AList.update (safe @ ''.bak'') c baks) (l @ ''.bak''))
     \<and> (\<forall>(p, l) \<in> set ts. fs p \<noteq> None \<longrightarrow> map_of baks' (l @ ''.bak'') = fs p)"
    using 2(1) [of "(safe, pre)" safe pre baks' items'] rest s 2(3) by auto
  show ?case using IH 2(3) l pre by (auto simp: update_conv' split: option.splits)
qed simp

subsection \<open>Rollback\<close>

text \<open>The files of a transaction as they were in \<open>fs0\<close>, all others as they are in \<open>fs\<close>.\<close>

definition restored :: "filesystem \<Rightarrow> path set \<Rightarrow> filesystem \<Rightarrow> filesystem" where
  "restored fs0 A fs = (\<lambda>q. if q \<in> A then fs0 q else fs q)"

lemma restored_agree: "(\<And>p. p \<notin> A \<Longrightarrow> fs p = fs0 p) \<Longrightarrow> restored fs0 A fs = fs0"
  by (auto simp: restored_def)

lemma manifest_item_get [simp]:
  "jget (manifest_item rt l p c) ''label'' = JStr l"
  "jget (manifest_item rt l p c) ''rel'' = JStr (as_posix p)"
  "jget (manifest_item rt l p c) ''preimage_digest'' = image_digest rt c"
  "jget (manifest_item rt l p c) ''postimage_digest'' = JNull"
  by (simp_all add: manifest_item_def jget_def)

lemma image_digest_simps [simp]:
  "image_digest rt c = JNull \<longleftrightarrow> c = None"
  "image_digest rt None = JNull"
  "image_digest rt (Some d) = JStr (sha256_hex rt d)"
  by (simp_all add: image_digest_def split: option.split)

lemma read_secure_bounded: "length c \<le> MAX_TASK_STATE_BYTES \<Longrightarrow> read_secure c = Inr c"
  by (simp add: read_secure_def)

text \<open>What the entries and backups of a transaction must satisfy to be undone.\<close>

definition undoable :: "string \<Rightarrow> filesystem \<Rightarrow> string dict \<Rightarrow> (path \<times> string) list \<Rightarrow> bool" where
  "undoable op fs baks ts = (\<forall>(p, l) \<in> set ts. proper_path p \<and> recovery_label (JStr l) = Inr l
      \<and> bounded_file (fs p) \<and> allowed_recovery_path (JStr l) (JStr (as_posix p)) (JStr op) = Inr p
      \<and> (fs p \<noteq> None \<longrightarrow> map_of baks (l @ ''.bak'') = fs p))"

lemma take_preimages_undoable:
  assumes "take_preimages rt op fs ts [] [] = (None, baks, items)"
    and "distinct (map snd ts)" and "\<forall>(p, l) \<in> set ts. proper_path p"
  shows "items = items_of rt fs ts \<and> undoable op fs baks ts"
proof -
  have "allowed_recovery_path (JStr l) (JStr (as_posix p)) (JStr op) = Inr q \<Longrightarrow> (p, l) \<in> set ts \<Longrightarrow> q = p"
    for p l q
    using allowed_path_parts path_parts_as_posix assms(3) by fastforce
  then show ?thesis
    using take_preimages_items [OF assms(1)] take_preimages_backups [OF assms(1,2)] assms(3)
    unfolding undoable_def by fastforce
qed

lemma rollback_restores:
  "undoable op fs0 baks ts \<Longrightarrow>
   rollback_items rt (JStr op) baks (items_of rt fs0 ts) fs = (None, restored fs0 (fst ` set ts) fs)"
proof (induction ts arbitrary: fs)
  case Nil
  then show ?case by (simp add: items_of_def restored_def)
next
  case (Cons t ts)
  obtain p l where t: "t = (p, l)" by (cases t)
  have u: "undoable op fs0 baks ts" and
    a: "recovery_label (JStr l) = Inr l" "bounded_file (fs0 p)"
      "allowed_recovery_path (JStr l) (JStr (as_posix p)) (JStr op) = Inr p"
      "fs0 p \<noteq> None \<longrightarrow> map_of baks (l @ ''.bak'') = fs0 p"
    using Cons.prems t by (auto simp: undoable_def)
  have eq: "restored fs0 (fst ` set ts) (fs(p := fs0 p)) = restored fs0 (fst ` set (t # ts)) fs"
    by (auto simp: restored_def t)
  note IH = Cons.IH [OF u, of "fs(p := fs0 p)", unfolded eq]
  show ?case
  proof (cases "fs0 p")
    case None
    then show ?thesis using IH a t by (simp add: items_of_def del: fun_upd_apply)
  next
    case (Some c)
    then show ?thesis using IH a t
      by (simp add: items_of_def bounded_file_def read_secure_bounded del: fun_upd_apply)
  qed
qed

subsection \<open>The manifest of a transaction is accepted by the recovery\<close>

definition sound_env :: "store_env \<Rightarrow> bool" where
  "sound_env env = ((\<forall>x. re_hash (sha256_hex (se_rt env) x)) \<and> se_fromiso env (se_now env) = Some True)"

definition command_ok :: "string option \<Rightarrow> bool" where
  "command_ok c = (case c of None \<Rightarrow> True
     | Some d \<Rightarrow> d \<noteq> [] \<and> char_count d \<le> 128 \<and> \<not> list_ex control_char d)"

lemma mk_manifest_get [simp]:
  "jget (mk_manifest env tx op key command stage items) ''tx_id'' = JStr tx"
  "jget (mk_manifest env tx op key command stage items) ''op'' = JStr op"
  "jget (mk_manifest env tx op key command stage items) ''idempotency_key'' = jopt key"
  "jget (mk_manifest env tx op key command stage items) ''command_sha256'' = jopt command"
  "jget (mk_manifest env tx op key command stage items) ''stage'' = JStr stage"
  "jget (mk_manifest env tx op key command stage items) ''created_at'' = JStr (se_now env)"
  "jget (mk_manifest env tx op key command stage items) ''vault'' = JStr (se_vault env)"
  "jget (mk_manifest env tx op key command stage items) ''touched'' = JList (map JObj items)"
  by (simp_all add: mk_manifest_def jget_def)

lemma mk_manifest_items [simp]:
  "touched_items (mk_manifest env tx op key command stage items) = items"
  by (simp add: touched_items_def item_of_def comp_def)

lemma validate_written:
  assumes "sound_env env" "command_ok command" "has_key op RECOVERY_OPERATION_LABELS"
    and "stage \<in> {''prepared'', ''committed''}" "length items \<le> 256"
    and "\<And>t. t \<in> set items \<Longrightarrow>
      \<not> item_fault (mk_manifest env tx op key command stage items) (JObj t)"
  shows "validate_recovery_manifest env (JObj (mk_manifest env tx op key command stage items)) tx
    = Inr (mk_manifest env tx op key command stage items)"
proof -
  let ?m = "mk_manifest env tx op key command stage items"
  have keys: "same_keys ?m [''tx_id'', ''op'', ''idempotency_key'', ''command_sha256'', ''stage'',
                           ''created_at'', ''vault'', ''touched'']"
    by (simp add: same_keys_def mk_manifest_def)
  have "\<not> list_ex (item_fault ?m) (map JObj items)" using assms(6) by (auto simp: list_ex_iff)
  then show ?thesis using keys assms(1-5)
    by (auto simp: validate_recovery_manifest_def sound_env_def command_ok_def jopt_def split: option.splits)
qed

definition posted :: "pyrt \<Rightarrow> string option \<Rightarrow> payload \<Rightarrow> payload" where
  "posted rt c t = AList.update ''postimage_digest'' (image_digest rt c) t"

lemma posted_get [simp]:
  "jget (posted rt c t) ''postimage_digest'' = image_digest rt c"
  "k \<noteq> ''postimage_digest'' \<Longrightarrow> jget (posted rt c t) k = jget t k"
  by (simp_all add: posted_def)

lemma item_keys:
  "same_keys (manifest_item rt l p c) [''label'', ''rel'', ''preimage_digest'']"
  "same_keys (posted rt d (manifest_item rt l p c))
     [''label'', ''rel'', ''preimage_digest'', ''postimage_digest'']"
  by (auto simp: same_keys_def manifest_item_def posted_def)

lemma items_accepted:
  assumes "\<And>x. re_hash (sha256_hex rt x)" "jget m ''op'' = JStr op"
    and "allowed_recovery_path (JStr l) (JStr (as_posix p)) (JStr op) = Inr p"
  shows "jget m ''stage'' = JStr ''prepared'' \<Longrightarrow> \<not> item_fault m (JObj (manifest_item rt l p c))"
    and "\<not> item_fault m (JObj (posted rt d (manifest_item rt l p c)))"
  using assms by (auto simp: item_fault_def item_keys image_digest_def split: option.splits)

subsection \<open>Classification of a left-over transaction\<close>

definition no_collision :: "pyrt \<Rightarrow> filesystem \<Rightarrow> filesystem \<Rightarrow> path set \<Rightarrow> bool" where
  "no_collision rt fs0 fs A = (\<forall>p \<in> A. \<forall>c d. fs0 p = Some c \<longrightarrow> fs p = Some d \<longrightarrow>
     sha256_hex rt c = sha256_hex rt d \<longrightarrow> c = d)"

lemma classify_prepared:
  assumes "allowed_recovery_path (JStr l) (JStr (as_posix p)) (JStr op) = Inr p" "bounded_file (fs p)"
  shows "classify_item rt (JStr op) fs (manifest_item rt l p (fs0 p))
    = Inr (if image_digest rt (fs p) = image_digest rt (fs0 p) then Pre else Mixed)"
  using assms by (cases "fs0 p"; cases "fs p") (simp_all add: classify_item_def read_image_bounded)

lemma classify_committed:
  assumes "allowed_recovery_path (JStr l) (JStr (as_posix p)) (JStr op) = Inr p" "bounded_file (fs p)"
  shows "classify_item rt (JStr op) fs (posted rt (fs p) (manifest_item rt l p (fs0 p)))
    = Inr (if fs p \<noteq> None then Post else if fs0 p = None then Pre else Mixed)"
  using assms by (cases "fs0 p"; cases "fs p") (simp_all add: classify_item_def read_image_bounded)

lemma mapE_map: "mapE f (map g xs) = mapE (f \<circ> g) xs"
  by (induction xs) auto

lemma same_digest_restored:
  assumes "no_collision rt fs0 fs A"
    and "\<forall>p \<in> A. image_digest rt (fs p) = image_digest rt (fs0 p)"
  shows "restored fs0 A fs = fs"
proof
  fix p
  show "restored fs0 A fs p = fs p"
  proof (cases "p \<in> A")
    case True
    then have "image_digest rt (fs p) = image_digest rt (fs0 p)" using assms(2) by blast
    then have "fs0 p = fs p"
    proof (cases "fs0 p")
      case (Some c)
      then obtain d where d: "fs p = Some d" "sha256_hex rt c = sha256_hex rt d"
        using \<open>image_digest rt (fs p) = image_digest rt (fs0 p)\<close> by (cases "fs p") simp_all
      have "c = d" by (rule assms(1) [unfolded no_collision_def, rule_format, OF True Some d])
      then show ?thesis using Some d by simp
    qed simp
    then show ?thesis by (simp add: restored_def)
  qed (simp add: restored_def)
qed

lemma reconcile_prepared:
  assumes u: "undoable op fs0 baks ts" and b: "\<And>p. p \<in> fst ` set ts \<Longrightarrow> bounded_file (fs p)"
    and nc: "no_collision rt fs0 fs (fst ` set ts)"
    and m: "jget m ''op'' = JStr op" "jget m ''stage'' = JStr ''prepared''"
      "touched_items m = items_of rt fs0 ts"
  shows "\<exists>status. reconcile_tx rt m baks fs = (Inr status, restored fs0 (fst ` set ts) fs)"
proof -
  let ?c = "\<lambda>(p, l). if image_digest rt (fs p) = image_digest rt (fs0 p) then Pre else Mixed"
  have states: "mapE (classify_item rt (JStr op) fs) (items_of rt fs0 ts) = Inr (map ?c ts)"
    unfolding items_of_def mapE_map
  proof (rule mapE_total)
    fix t assume t: "t \<in> set ts"
    obtain p l where pl: "t = (p, l)" by (cases t)
    have "allowed_recovery_path (JStr l) (JStr (as_posix p)) (JStr op) = Inr p"
      using u t pl unfolding undoable_def by blast
    moreover have "bounded_file (fs p)" using b [of p] t pl by force
    ultimately show "(classify_item rt (JStr op) fs \<circ> (\<lambda>(p, l). manifest_item rt l p (fs0 p))) t = Inr (?c t)"
      by (simp add: pl classify_prepared)
  qed
  have rb: "rollback_tx rt m baks fs = (None, restored fs0 (fst ` set ts) fs)"
    using rollback_restores [OF u] m by (simp add: rollback_tx_def)
  have noPost: "map ?c ts \<noteq> [] \<Longrightarrow> \<not> list_all (\<lambda>s. s = Post) (map ?c ts)"
    by (cases ts) (auto split: if_splits)
  show ?thesis
  proof (cases "map ?c ts \<noteq> [] \<and> list_all (\<lambda>s. s = Pre) (map ?c ts)")
    case True
    then have "\<forall>p \<in> fst ` set ts. image_digest rt (fs p) = image_digest rt (fs0 p)"
      by (force simp: list_all_iff split: if_splits)
    then have "restored fs0 (fst ` set ts) fs = fs" by (rule same_digest_restored [OF nc])
    then show ?thesis using True noPost states m
      by (simp only: reconcile_tx_def sum.case simp_thms if_True if_False) simp
  next
    case False
    then show ?thesis using noPost states m rb
      by (simp only: reconcile_tx_def sum.case if_False prod.case option.case simp_thms if_True) auto
  qed
qed

subsection \<open>The contract of the backups\<close>

text \<open>
  An undo log: \<open>save\<close> records what \<open>undo\<close> needs to take back any change within the scope \<open>touch\<close>.
\<close>

locale undo_log =
  fixes save :: "'t \<Rightarrow> 's \<Rightarrow> 'l option"
    and undo :: "'t \<Rightarrow> 'l \<Rightarrow> 's \<Rightarrow> 's option"
    and touch :: "'t \<Rightarrow> ('s \<times> 's) set"
  assumes undo_save: "save t s = Some l \<Longrightarrow> (s, s') \<in> touch t \<Longrightarrow> undo t l s' = Some s"
    and touch_refl: "(s, s) \<in> touch t"
    and touch_trans: "(s, s') \<in> touch t \<Longrightarrow> (s', s'') \<in> touch t \<Longrightarrow> (s, s'') \<in> touch t"
begin

lemma touch_star: "(s, s') \<in> (touch t)\<^sup>* \<Longrightarrow> (s, s') \<in> touch t"
  by (induction rule: rtrancl_induct) (auto intro: touch_refl touch_trans)

lemma undo_steps: "save t s = Some l \<Longrightarrow> (s, s') \<in> (touch t)\<^sup>* \<Longrightarrow> undo t l s' = Some s"
  using undo_save touch_star by blast

text \<open>Undoing again, or after an undo that stopped half way, has the same result.\<close>

lemma undo_again:
  "save t s = Some l \<Longrightarrow> (s, s') \<in> touch t \<Longrightarrow> (s', s'') \<in> touch t \<Longrightarrow> undo t l s'' = Some s"
  using undo_save touch_trans by blast

end

type_synonym tx_request = "pyrt \<times> string \<times> (path \<times> string) list"

definition well_labelled :: "(path \<times> string) list \<Rightarrow> bool" where
  "well_labelled touched = (distinct (map snd touched) \<and> (\<forall>(p, l) \<in> set touched. proper_path p))"

definition save_images :: "tx_request \<Rightarrow> filesystem \<Rightarrow> (string dict \<times> payload list) option" where
  "save_images t fs = (let (rt, op, touched) = t in
     if well_labelled touched
     then (case take_preimages rt op fs touched [] [] of (None, r) \<Rightarrow> Some r | (Some e, r) \<Rightarrow> None)
     else None)"

definition undo_images :: "tx_request \<Rightarrow> string dict \<times> payload list \<Rightarrow> filesystem \<Rightarrow> filesystem option" where
  "undo_images t l fs = (let (rt, op, touched) = t; (baks, items) = l in
     case rollback_items rt (JStr op) baks items fs of (None, fs') \<Rightarrow> Some fs' | (Some e, fs') \<Rightarrow> None)"

definition touches_only :: "tx_request \<Rightarrow> (filesystem \<times> filesystem) set" where
  "touches_only t = (let (rt, op, touched) = t in
     {(fs, fs'). \<forall>p. p \<notin> fst ` set touched \<longrightarrow> fs' p = fs p})"

lemma save_images_eq:
  "save_images (rt, op, touched) fs = Some (baks, items) \<longleftrightarrow>
   well_labelled touched \<and> take_preimages rt op fs touched [] [] = (None, baks, items)"
  by (auto simp: save_images_def split: prod.splits option.splits if_splits)

interpretation images: undo_log save_images undo_images touches_only
proof
  fix t :: tx_request and fs l fs'
  assume s: "save_images t fs = Some l" and w: "(fs, fs') \<in> touches_only t"
  obtain rt op touched where t: "t = (rt, op, touched)" by (cases t)
  obtain baks items where l: "l = (baks, items)" by (cases l)
  have "take_preimages rt op fs touched [] [] = (None, baks, items)" "well_labelled touched"
    using s unfolding t l save_images_eq by simp_all
  then have u: "items = items_of rt fs touched" "undoable op fs baks touched"
    using take_preimages_undoable by (simp_all add: well_labelled_def)
  have "restored fs (fst ` set touched) fs' = fs"
    by (rule restored_agree) (use w in \<open>simp add: touches_only_def t\<close>)
  then show "undo_images t l fs' = Some fs"
    by (simp add: undo_images_def t l u(1) rollback_restores [OF u(2)])
qed (auto simp: touches_only_def split: prod.splits)

lemma transaction_undo:
  assumes "well_labelled touched"
    and "take_preimages (se_rt env) op fs0 touched [] [] = (None, baks, items)"
    and "\<And>p. p \<notin> fst ` set touched \<Longrightarrow> fs p = fs0 p"
  shows "rollback_tx (se_rt env) (mk_manifest env tx_id op key command stage items) baks fs = (None, fs0)"
proof -
  let ?t = "(se_rt env, op, touched)"
  have "save_images ?t fs0 = Some (baks, items)"
    using assms(1,2) by (simp add: save_images_eq)
  moreover have "(fs0, fs) \<in> touches_only ?t" using assms(3) by (simp add: touches_only_def)
  ultimately have "undo_images ?t (baks, items) fs = Some fs0" by (rule images.undo_save)
  then show ?thesis by (auto simp: undo_images_def rollback_tx_def split: prod.splits option.splits)
qed

lemma run_writes_outside: "p \<notin> fst ` set ws \<Longrightarrow> run_writes ws fs p = fs p"
  by (induction ws arbitrary: fs) (auto simp: run_writes_def)

lemma run_writes_append: "run_writes (a @ b) fs = run_writes b (run_writes a fs)"
  by (simp add: run_writes_def)

lemma delete_update: "n \<notin> fst ` set d \<Longrightarrow> AList.delete n (AList.update n v d) = d"
  by (induction d) (auto simp: AList.delete_eq)

lemma put_tx_simps:
  "files (put_tx n tx st) = files st" "recovery_blocked (put_tx n tx st) = recovery_blocked st"
  "tx_dir (put_tx n tx st) = AList.update n tx (tx_dir st)"
  by (simp_all add: put_tx_def)

end
