(* ===== verification/Recovery_Properties.thy ===== *)
theory Recovery_Properties
  imports Recovery_Facts
begin

text \<open>
  What the transactions of the task store guarantee: a crash with a prepared manifest is undone, a
  crash after the commit is kept, evidence that cannot be read closes the store, an exception
  rolls back, an interrupt does not, and recovery never leaves the file classes of the store.
\<close>

subsection \<open>Crashes\<close>

definition well_formed_tx :: "store_env \<Rightarrow> string \<Rightarrow> string option \<Rightarrow> (path \<times> string) list \<Rightarrow> bool" where
  "well_formed_tx env op command touched = (sound_env env \<and> command_ok command
     \<and> has_key op RECOVERY_OPERATION_LABELS \<and> length touched \<le> 256 \<and> well_labelled touched)"

text \<open>
  The disk of a process that is killed between the write of the prepared manifest and the one of
  the committed manifest, and between the latter and the removal of the transaction directory.
\<close>

definition prepared_disk ::
  "store_env \<Rightarrow> string \<Rightarrow> string \<Rightarrow> string option \<Rightarrow> string option \<Rightarrow> string dict \<Rightarrow> payload list \<Rightarrow>
   filesystem \<Rightarrow> task_store \<Rightarrow> task_store" where
  "prepared_disk env tx_id op key command baks items fs st =
     (put_tx tx_id \<lparr>tx_manifest = Holds (JObj (mk_manifest env tx_id op key command ''prepared'' items)),
        tx_backups = baks\<rparr> st)\<lparr>files := fs\<rparr>"

definition committed_disk ::
  "store_env \<Rightarrow> string \<Rightarrow> string \<Rightarrow> string option \<Rightarrow> string option \<Rightarrow> string dict \<Rightarrow> payload list \<Rightarrow>
   filesystem \<Rightarrow> task_store \<Rightarrow> task_store" where
  "committed_disk env tx_id op key command baks items fs st =
     (put_tx tx_id \<lparr>tx_manifest = Holds (JObj (mk_manifest env tx_id op key command ''committed'' items)),
        tx_backups = baks\<rparr> st)\<lparr>files := fs\<rparr>"

lemma disk_simps [simp]:
  "tx_dir st = [] \<Longrightarrow> tx_dir (prepared_disk env tx_id op key command baks items fs st) =
     [(tx_id, \<lparr>tx_manifest = Holds (JObj (mk_manifest env tx_id op key command ''prepared'' items)),
        tx_backups = baks\<rparr>)]"
  "tx_dir st = [] \<Longrightarrow> tx_dir (committed_disk env tx_id op key command baks items fs st) =
     [(tx_id, \<lparr>tx_manifest = Holds (JObj (mk_manifest env tx_id op key command ''committed'' items)),
        tx_backups = baks\<rparr>)]"
  "files (prepared_disk env tx_id op key command baks items fs st) = fs"
  "files (committed_disk env tx_id op key command baks items fs st) = fs"
  "recovery_log (prepared_disk env tx_id op key command baks items fs st) = recovery_log st"
  "recovery_log (committed_disk env tx_id op key command baks items fs st) = recovery_log st"
  by (simp_all add: prepared_disk_def committed_disk_def put_tx_def)

lemma restart_simps [simp]:
  "files (restart st) = files st" "tx_dir (restart st) = tx_dir st"
  "recovery_log (restart st) = recovery_log st" "recovery_blocked (restart st) = False"
  "recovered (restart st) = False" "lock_depth (restart st) = 0" "held (restart st) = no_locks"
  by (simp_all add: restart_def)

lemma well_formed_prepared:
  assumes "well_formed_tx env op command touched" "undoable op fs0 baks touched"
  shows "validate_recovery_manifest env
      (JObj (mk_manifest env tx_id op key command ''prepared'' (items_of (se_rt env) fs0 touched))) tx_id
    = Inr (mk_manifest env tx_id op key command ''prepared'' (items_of (se_rt env) fs0 touched))"
proof (rule validate_written)
  fix t assume "t \<in> set (items_of (se_rt env) fs0 touched)"
  then obtain p l where pl: "(p, l) \<in> set touched" "t = manifest_item (se_rt env) l p (fs0 p)"
    by (auto simp: items_of_def)
  have "allowed_recovery_path (JStr l) (JStr (as_posix p)) (JStr op) = Inr p"
    using assms(2) pl(1) unfolding undoable_def by blast
  then show "\<not> item_fault (mk_manifest env tx_id op key command ''prepared''
      (items_of (se_rt env) fs0 touched)) (JObj t)"
    using assms(1) unfolding pl(2)
    by (intro items_accepted(1)) (simp_all add: well_formed_tx_def sound_env_def)
qed (use assms(1) in \<open>simp_all add: well_formed_tx_def items_of_def\<close>)

lemma recover_single:
  assumes "tx_dir st = [(n, \<lparr>tx_manifest = Holds j, tx_backups = baks\<rparr>)]"
    and "recovery_log st = Some records" "validate_recovery_manifest env j n = Inr m"
    and "reconcile_tx (se_rt env) m baks (files st) = (r, fs)"
  shows "files (snd (recover env st)) = fs"
    and "r = Inl e \<Longrightarrow> recovery_blocked (snd (recover env st))"
    and "r = Inr status \<Longrightarrow> tx_dir (snd (recover env st)) = []
      \<and> recovery_blocked (snd (recover env st)) = recovery_blocked st"
  using assms
  by (cases r; simp add: recover_def recover_entry_def log_recovery_record_def remove_tx_def block_store_def)+

lemma postimage_eq:
  "allowed_recovery_path (JStr l) (JStr (as_posix p)) op = Inr p \<Longrightarrow>
   postimage_item env op fs (manifest_item rt l p c) =
     bindE (read_image fs p) (\<lambda>d. Inr (posted (se_rt env) d (manifest_item rt l p c)))"
  by (simp add: postimage_item_def posted_def)

lemma committed_items:
  assumes wf: "well_formed_tx env op command touched" and u: "undoable op fs0 baks touched"
    and posts: "mapE (postimage_item env (JStr op) fs) (items_of (se_rt env) fs0 touched) = Inr posts"
    and m_def: "m = mk_manifest env tx_id op key command ''committed'' posts"
  shows "validate_recovery_manifest env (JObj m) tx_id = Inr m"
    and "touched \<noteq> [] \<Longrightarrow> \<forall>p \<in> fst ` set touched. fs p \<noteq> None \<Longrightarrow>
      reconcile_tx (se_rt env) m baks fs = (Inr ''committed'', fs)"
    and "\<exists>p \<in> fst ` set touched. fs p \<noteq> None \<Longrightarrow> \<exists>p \<in> fst ` set touched. fs p = None \<Longrightarrow>
      reconcile_tx (se_rt env) m baks fs = (Inl PyRuntimeError, fs)"
    and "snd (reconcile_tx (se_rt env) m baks fs) = fs"
proof -
  let ?rt = "se_rt env"
  let ?post = "\<lambda>(p, l). posted ?rt (fs p) (manifest_item ?rt l p (fs0 p))"
  let ?state = "\<lambda>(p, l). if fs p \<noteq> None then Post else if fs0 p = None then Pre else Mixed"
  have allowed: "allowed_recovery_path (JStr l) (JStr (as_posix p)) (JStr op) = Inr p"
    if "(p, l) \<in> set touched" for p l
    using u that unfolding undoable_def by blast
  have post: "posts = map ?post touched \<and> (\<forall>(p, l) \<in> set touched. bounded_file (fs p))"
    using posts allowed unfolding items_of_def
  proof (induction touched arbitrary: posts)
    case (Cons t ts)
    obtain p l where t: "t = (p, l)" by (cases t)
    have "allowed_recovery_path (JStr l) (JStr (as_posix p)) (JStr op) = Inr p"
      using Cons.prems(2) t by simp
    then obtain c rest where "read_image fs p = Inr c" "posts = posted ?rt c (manifest_item ?rt l p (fs0 p)) # rest"
      "mapE (postimage_item env (JStr op) fs) (map (\<lambda>(p, l). manifest_item ?rt l p (fs0 p)) ts) = Inr rest"
      using Cons.prems(1) by (auto simp: t bindE_eq_Inr postimage_eq)
    then show ?case using Cons.IH [of rest] Cons.prems(2) read_image_Inr [of fs p c] by (auto simp: t)
  qed simp
  have states: "mapE (classify_item ?rt (JStr op) fs) posts = Inr (map ?state touched)"
    unfolding post [THEN conjunct1] mapE_map
  proof (rule mapE_total)
    fix t assume t: "t \<in> set touched"
    obtain p l where pl: "t = (p, l)" by (cases t)
    have "bounded_file (fs p)" using post t pl by blast
    then show "(classify_item ?rt (JStr op) fs \<circ> ?post) t = Inr (?state t)"
      using allowed [of p l] t by (simp add: pl classify_committed)
  qed
  have r: "reconcile_tx ?rt m baks fs =
    (if map ?state touched \<noteq> [] \<and> list_all (\<lambda>s. s = Post) (map ?state touched) then (Inr ''committed'', fs)
     else if map ?state touched \<noteq> [] \<and> list_all (\<lambda>s. s = Pre) (map ?state touched) then (Inr ''rolled_back'', fs)
     else (Inl PyRuntimeError, fs))"
    using states by (simp add: reconcile_tx_def m_def)
  show "validate_recovery_manifest env (JObj m) tx_id = Inr m"
    unfolding m_def
  proof (rule validate_written)
    fix t assume "t \<in> set posts"
    then obtain p l where pl: "(p, l) \<in> set touched" "t = ?post (p, l)" using post by auto
    show "\<not> item_fault (mk_manifest env tx_id op key command ''committed'' posts) (JObj t)"
      unfolding pl(2) prod.case
      by (rule items_accepted(2)) (use wf allowed [OF pl(1)] in \<open>simp_all add: well_formed_tx_def sound_env_def\<close>)
  qed (use wf post in \<open>simp_all add: well_formed_tx_def\<close>)
  show "reconcile_tx ?rt m baks fs = (Inr ''committed'', fs)"
    if "touched \<noteq> []" "\<forall>p \<in> fst ` set touched. fs p \<noteq> None"
  proof -
    have "list_all (\<lambda>s. s = Post) (map ?state touched)" using that(2) by (force simp: list_all_iff)
    then show ?thesis using that(1) unfolding r by simp
  qed
  show "reconcile_tx ?rt m baks fs = (Inl PyRuntimeError, fs)"
    if ex: "\<exists>p \<in> fst ` set touched. fs p \<noteq> None" "\<exists>p \<in> fst ` set touched. fs p = None"
  proof -
    obtain p l p' l' where w: "(p, l) \<in> set touched" "fs p = None" "(p', l') \<in> set touched" "fs p' \<noteq> None"
      using ex by force
    have "?state (p, l) \<in> set (map ?state touched)" "?state (p', l') \<in> set (map ?state touched)"
      unfolding set_map by (rule imageI [OF w(1)], rule imageI [OF w(3)])
    moreover have "?state (p, l) \<noteq> Post" "?state (p', l') \<noteq> Pre" using w(2,4) by auto
    ultimately have "\<not> list_all (\<lambda>s. s = Post) (map ?state touched)"
      "\<not> list_all (\<lambda>s. s = Pre) (map ?state touched)"
      unfolding list_all_iff by blast+
    then show ?thesis unfolding r by simp
  qed
  show "snd (reconcile_tx ?rt m baks fs) = fs" unfolding r by simp
qed

subsection \<open>A sample store\<close>

definition sample_digest :: "string \<Rightarrow> string" where
  "sample_digest s = (if s = ''old'' then replicate 64 CHR ''a'' else replicate 64 CHR ''b'')"

definition sample_env :: store_env where
  "sample_env = \<lparr>se_rt = \<lparr>sha256_hex = sample_digest, float_repr = (\<lambda>_. ''0.0''), float_of_str = (\<lambda>_. None),
       int_of_str = (\<lambda>_. None), lax_int_of_str = (\<lambda>_. None), lax_float_of_str = (\<lambda>_. None),
       py_repr = (\<lambda>_. [])\<rparr>,
     se_vault = ''/vault'', se_fromiso = (\<lambda>_. Some True), se_now = ''2026-01-01T00:00:00+00:00'',
     se_millis = ''1767225600000'', se_loads = (\<lambda>_. None)\<rparr>"

definition sample_path :: path where
  "sample_path = [''.power'', ''tasks'', ''t1.json'']"

definition sample_store :: task_store where
  "sample_store = \<lparr>files = [sample_path \<mapsto> ''old''], tx_dir = [], recovery_log = Some [],
     recovery_blocked = False, recovered = False, lock_depth = 0, held = no_locks\<rparr>"

definition sample_items :: "payload list" where
  "sample_items = [manifest_item (se_rt sample_env) ''snapshot'' sample_path (Some ''old'')]"

definition sample_crash :: task_store where
  "sample_crash = prepared_disk sample_env ''tx1'' ''task_snapshot'' None None
     [(''snapshot.bak'', ''old'')] sample_items [sample_path \<mapsto> ''new''] sample_store"

lemma sample_allowed:
  "recovery_label (JStr ''snapshot'') = Inr ''snapshot''"
  "allowed_recovery_path (JStr ''snapshot'') (JStr (as_posix sample_path)) (JStr ''task_snapshot'')
     = Inr sample_path"
  by code_simp+

lemma sample_saved:
  "take_preimages (se_rt sample_env) ''task_snapshot'' (files sample_store) [(sample_path, ''snapshot'')] [] []
     = (None, [(''snapshot.bak'', ''old'')], sample_items)"
  by (simp add: sample_allowed sample_store_def sample_items_def read_image_def read_secure_def
      MAX_TASK_STATE_BYTES_def)

lemma sample_sound: "sound_env sample_env"
proof -
  have "re_hash (replicate 64 CHR ''a'')" "re_hash (replicate 64 CHR ''b'')" by code_simp+
  then show ?thesis by (simp add: sound_env_def sample_env_def sample_digest_def)
qed

lemma sample_labelled: "well_labelled [(sample_path, ''snapshot'')]"
  by (simp add: well_labelled_def proper_path_def sample_path_def)

lemma sample_wf: "well_formed_tx sample_env ''task_snapshot'' None [(sample_path, ''snapshot'')]"
  by (simp add: well_formed_tx_def sample_sound sample_labelled command_ok_def RECOVERY_OPERATION_LABELS_def)

lemma sample_disks:
  "\<forall>p \<in> fst ` set [(sample_path, ''snapshot'')]. bounded_file ([sample_path \<mapsto> ''new''] p)"
  "no_collision (se_rt sample_env) (files sample_store) [sample_path \<mapsto> ''new'']
     (fst ` set [(sample_path, ''snapshot'')])"
  "\<forall>p. p \<notin> fst ` set [(sample_path, ''snapshot'')] \<longrightarrow> [sample_path \<mapsto> ''new''] p = files sample_store p"
  by (auto simp: bounded_file_def MAX_TASK_STATE_BYTES_def no_collision_def sample_store_def sample_env_def
      sample_digest_def replicate_eq_replicate)

text \<open>
  C29. A crash in the middle of a transaction is undone: whatever the touched files hold when the
  process dies after the prepared manifest is durable (torn writes and an interrupted recovery
  included), the next recovery restores every file to its contents before the transaction,
  removes the evidence, and leaves the store open.
\<close>

theorem prepared_crash_is_undone:
  assumes wf: "well_formed_tx env op command touched"
    and saved: "take_preimages (se_rt env) op (files st) touched [] [] = (None, baks, items)"
    and scope: "\<forall>p. p \<notin> fst ` set touched \<longrightarrow> fs p = files st p"
    and bounded: "\<forall>p \<in> fst ` set touched. bounded_file (fs p)"
    and nc: "no_collision (se_rt env) (files st) fs (fst ` set touched)"
    and st: "tx_dir st = []" "recovery_log st = Some records"
  shows "let st' = snd (recover env (restart (prepared_disk env tx_id op key command baks items fs st)))
    in files st' = files st \<and> tx_dir st' = [] \<and> \<not> recovery_blocked st'"
proof -
  have u: "items = items_of (se_rt env) (files st) touched" "undoable op (files st) baks touched"
    using take_preimages_undoable [OF saved] wf by (simp_all add: well_formed_tx_def well_labelled_def)
  obtain status where r: "reconcile_tx (se_rt env)
      (mk_manifest env tx_id op key command ''prepared'' items) baks fs
      = (Inr status, restored (files st) (fst ` set touched) fs)"
    using reconcile_prepared [OF u(2) _ nc, of "mk_manifest env tx_id op key command ''prepared'' items"]
      bounded u(1) by auto
  moreover have "restored (files st) (fst ` set touched) fs = files st"
    by (rule restored_agree) (use scope in blast)
  ultimately show ?thesis
    using st well_formed_prepared [OF wf u(2), of tx_id key] u(1)
    by (simp add: recover_def recover_entry_def log_recovery_record_def remove_tx_def Let_def)
qed

theorem prepared_crash_is_undone_witness:
  "files (snd (recover sample_env (restart sample_crash))) sample_path = Some ''old''
   \<and> \<not> recovery_blocked (snd (recover sample_env (restart sample_crash)))"
  using prepared_crash_is_undone [OF sample_wf sample_saved sample_disks(3,1,2), of "[]" "''tx1''" None]
  by (simp add: sample_crash_def [symmetric] Let_def) (simp add: sample_store_def)

text \<open>
  A crash after the commit keeps the transaction: recovery leaves the files as the
  transaction wrote them. When every touched file exists it also removes the evidence and leaves
  the store open; when some exist and others do not, it takes the outcome for a mixed one and
  closes the store.
\<close>

theorem committed_crash_is_kept:
  assumes wf: "well_formed_tx env op command touched"
    and saved: "take_preimages (se_rt env) op (files st) touched [] [] = (None, baks, items)"
    and posts: "mapE (postimage_item env (JStr op) fs) items = Inr posts"
    and st: "tx_dir st = []" "recovery_log st = Some records"
  shows "let st' = snd (recover env (restart (committed_disk env tx_id op key command baks posts fs st)))
    in files st' = fs
     \<and> (touched \<noteq> [] \<and> (\<forall>p \<in> fst ` set touched. fs p \<noteq> None) \<longrightarrow>
          tx_dir st' = [] \<and> \<not> recovery_blocked st')
     \<and> ((\<exists>p \<in> fst ` set touched. fs p \<noteq> None) \<and> (\<exists>p \<in> fst ` set touched. fs p = None) \<longrightarrow>
          recovery_blocked st')"
proof -
  have u: "items = items_of (se_rt env) (files st) touched" "undoable op (files st) baks touched"
    using take_preimages_undoable [OF saved] wf by (simp_all add: well_formed_tx_def well_labelled_def)
  note c = committed_items [OF wf u(2) posts [unfolded u(1)] refl, of tx_id key]
  obtain r where r: "reconcile_tx (se_rt env)
      (mk_manifest env tx_id op key command ''committed'' posts) baks fs = (r, fs)"
    using c(4) by (metis prod.collapse)
  note s = recover_single [of "restart (committed_disk env tx_id op key command baks posts fs st)",
      OF _ _ c(1), simplified, OF disk_simps(2) [OF st(1)] st(2) r]
  show ?thesis
    using s c(2,3) r by (auto simp: Let_def)
qed

definition sample_apply :: "(path \<times> string) list" where
  "sample_apply = [([''note.md''], ''note''), ([''log.md''], ''log'')]"

definition empty_store :: task_store where
  "empty_store = sample_store\<lparr>files := Map.empty\<rparr>"

text \<open>A note is written to a vault without a log: the crash after the commit closes the store.\<close>

theorem committed_crash_is_kept_witness:
  "\<exists>items posts. recovery_blocked (snd (recover sample_env (restart (committed_disk sample_env ''tx1''
     ''memory_apply'' None None [] posts [[''note.md''] \<mapsto> ''new''] empty_store))))
   \<and> take_preimages (se_rt sample_env) ''memory_apply'' (files empty_store) sample_apply [] [] = (None, [], items)
   \<and> mapE (postimage_item sample_env (JStr ''memory_apply'') [[''note.md''] \<mapsto> ''new'']) items = Inr posts"
proof -
  let ?items = "[manifest_item (se_rt sample_env) ''note'' [''note.md''] None,
    manifest_item (se_rt sample_env) ''log'' [''log.md''] None]"
  have allowed: "recovery_label (JStr ''note'') = Inr ''note''" "recovery_label (JStr ''log'') = Inr ''log''"
    "allowed_recovery_path (JStr ''note'') (JStr (as_posix [''note.md''])) (JStr ''memory_apply'') = Inr [''note.md'']"
    "allowed_recovery_path (JStr ''log'') (JStr (as_posix [''log.md''])) (JStr ''memory_apply'') = Inr [''log.md'']"
    by code_simp+
  have saved: "take_preimages (se_rt sample_env) ''memory_apply'' (files empty_store) sample_apply [] []
      = (None, [], ?items)"
    by (simp add: sample_apply_def allowed empty_store_def read_image_def)
  obtain posts where posts: "mapE (postimage_item sample_env (JStr ''memory_apply'')
      [[''note.md''] \<mapsto> ''new'']) ?items = Inr posts"
    by (simp add: postimage_eq [OF allowed(3)] postimage_eq [OF allowed(4)] read_image_def read_secure_def
        MAX_TASK_STATE_BYTES_def)
  have wf: "well_formed_tx sample_env ''memory_apply'' None sample_apply"
    by (simp add: well_formed_tx_def sample_sound command_ok_def RECOVERY_OPERATION_LABELS_def
        sample_apply_def well_labelled_def proper_path_def)
  have st: "tx_dir empty_store = []" "recovery_log empty_store = Some []"
    by (simp_all add: empty_store_def sample_store_def)
  show ?thesis
    using committed_crash_is_kept [OF wf saved posts st, of "''tx1''" None] saved posts
    by (auto simp: Let_def sample_apply_def)
qed

subsection \<open>Evidence that cannot be read\<close>

definition unreadable :: "store_env \<Rightarrow> string \<Rightarrow> tx_entry \<Rightarrow> bool" where
  "unreadable env n tx = (case tx_manifest tx of
       NoFile \<Rightarrow> True | Garbled \<Rightarrow> True
     | Holds j \<Rightarrow> (case validate_recovery_manifest env j n of Inl _ \<Rightarrow> True | Inr _ \<Rightarrow> False))"

lemma log_recovery_record_frame:
  "log_recovery_record env r st = (ok, st') \<Longrightarrow> files st' = files st \<and> tx_dir st' = tx_dir st
     \<and> recovery_blocked st' = recovery_blocked st \<and> held st' = held st"
  by (auto simp: log_recovery_record_def split: option.splits)

lemma log_recovery_record_snd [simp]:
  "files (snd (log_recovery_record env r st)) = files st"
  "tx_dir (snd (log_recovery_record env r st)) = tx_dir st"
  "recovery_blocked (snd (log_recovery_record env r st)) = recovery_blocked st"
  "held (snd (log_recovery_record env r st)) = held st"
  by (auto simp: log_recovery_record_def split: option.splits)

lemma block_store_simps [simp]:
  "files (block_store st) = files st" "tx_dir (block_store st) = tx_dir st"
  "recovery_blocked (block_store st)" "held (block_store st) = held st"
  by (simp_all add: block_store_def)

lemma remove_tx_simps [simp]:
  "files (remove_tx n st) = files st" "tx_dir (remove_tx n st) = AList.delete n (tx_dir st)"
  "recovery_blocked (remove_tx n st) = recovery_blocked st" "held (remove_tx n st) = held st"
  by (simp_all add: remove_tx_def)

lemma recover_entry_unreadable:
  assumes "unreadable env n tx"
  shows "\<exists>st'. recover_entry env (n, tx) (rs, st) = (rs, st') \<and> files st' = files st
    \<and> tx_dir st' = tx_dir st \<and> recovery_blocked st' \<and> held st' = held st"
  using assms by (auto simp: unreadable_def recover_entry_def split: json_file.splits sum.splits)

text \<open>What one left-over directory can change.\<close>

lemma recover_entry_cases:
  obtains (blocked) rs' st' where "recover_entry env (n, tx) (rs, st) = (rs', st')"
      "tx_dir st' = tx_dir st" "recovery_blocked st'" "held st' = held st"
  | (resolved) rs' st' where "recover_entry env (n, tx) (rs, st) = (rs', st')"
      "\<not> unreadable env n tx" "tx_dir st' = AList.delete n (tx_dir st)"
      "recovery_blocked st' = recovery_blocked st" "held st' = held st"
proof (cases "unreadable env n tx")
  case True
  show thesis using recover_entry_unreadable [OF True, of rs st] blocked by metis
next
  case False
  then obtain j m where m: "tx_manifest tx = Holds j" "validate_recovery_manifest env j n = Inr m"
    by (auto simp: unreadable_def split: json_file.splits sum.splits)
  obtain r fs where r: "reconcile_tx (se_rt env) m (tx_backups tx) (files st) = (r, fs)"
    by (cases "reconcile_tx (se_rt env) m (tx_backups tx) (files st)")
  show thesis
  proof (cases r)
    case (Inl e)
    show thesis by (rule blocked [OF prod.collapse [symmetric]]) (simp_all add: recover_entry_def m r Inl)
  next
    case (Inr status)
    show thesis
    proof (cases "recovery_log st")
      case None
      show thesis by (rule blocked [OF prod.collapse [symmetric]]) (simp_all add: recover_entry_def m r Inr None log_recovery_record_def)
    next
      case (Some records)
      show thesis
        by (rule resolved [OF prod.collapse [symmetric] False]) (simp_all add: recover_entry_def m r Inr Some log_recovery_record_def)
    qed
  qed
qed

lemma recover_keeps_unreadable:
  assumes "unreadable env n tx"
  shows "(n, tx) \<in> set (tx_dir st) \<Longrightarrow> (\<And>e. e \<in> set es \<Longrightarrow> fst e = n \<Longrightarrow> e = (n, tx)) \<Longrightarrow>
    (n, tx) \<in> set (tx_dir (snd (fold (recover_entry env) es (rs, st))))
    \<and> ((n, tx) \<in> set es \<or> recovery_blocked st \<longrightarrow> recovery_blocked (snd (fold (recover_entry env) es (rs, st))))
    \<and> held (snd (fold (recover_entry env) es (rs, st))) = held st"
proof (induction es arbitrary: rs st)
  case (Cons e es)
  obtain m tx' where e: "e = (m, tx')" by (cases e)
  show ?case
  proof (cases rule: recover_entry_cases [of env m tx' rs st])
    case (blocked rs' st')
    then show ?thesis using Cons.IH [of st' rs'] Cons.prems by (simp add: e)
  next
    case (resolved rs' st')
    have "m \<noteq> n" using resolved(2) Cons.prems(2) [of e] assms by (auto simp: e)
    then have "(n, tx) \<in> set (tx_dir st')"
      using Cons.prems(1) resolved(3) by (simp add: AList.delete_eq)
    then show ?thesis using Cons.IH [of st' rs'] Cons.prems resolved \<open>m \<noteq> n\<close> by (simp add: e)
  qed
qed simp

lemma task_level:
  defines "h \<equiv> \<lparr>held_levels = [LEVEL_TASK], held_projects = []\<rparr>"
  shows "push_level LEVEL_TASK None no_locks = Inr h" "pop_level LEVEL_TASK h = no_locks"
  by (simp_all add: h_def push_level_def pop_level_def no_locks_def LEVEL_TASK_def LEVEL_PROJECT_def)

lemma with_lock_blocked:
  "recovery_blocked st \<Longrightarrow> held st = no_locks \<Longrightarrow> fst (with_lock env body st) = Inl PyRuntimeError"
  by (simp add: with_lock_def task_level)

lemma with_lock_closed:
  assumes "recover env ((restart st)\<lparr>held := \<lparr>held_levels = [LEVEL_TASK], held_projects = []\<rparr>\<rparr>) = (rs, st')"
    and "recovery_blocked st'" "held st' = \<lparr>held_levels = [LEVEL_TASK], held_projects = []\<rparr>"
  shows "with_lock env body (restart st) = (Inl PyRuntimeError, st'\<lparr>held := no_locks\<rparr>)"
  using assms by (simp add: with_lock_def task_level)

text \<open>
  Evidence that cannot be read closes the store: when a process starts on a vault with a
  transaction directory whose manifest is missing, unreadable or invalid, no transaction runs;
  the evidence stays where it is, and the store refuses every later use.
\<close>

theorem unreadable_evidence_closes_the_store:
  assumes "dict_wf (tx_dir st)" "(n, tx) \<in> set (tx_dir st)" "unreadable env n tx"
  shows "fst (with_lock env body (restart st)) = Inl PyRuntimeError
    \<and> (n, tx) \<in> set (tx_dir (snd (with_lock env body (restart st))))
    \<and> fst (with_lock env body' (snd (with_lock env body (restart st)))) = Inl PyRuntimeError"
proof -
  have unique: "e = (n, tx)" if "e \<in> set (tx_dir st)" "fst e = n" for e
    using eq_key_imp_eq_value [OF assms(1), of n "snd e" tx] that assms(2) by (cases e) simp
  let ?s = "(restart st)\<lparr>held := \<lparr>held_levels = [LEVEL_TASK], held_projects = []\<rparr>\<rparr>"
  have start: "(n, tx) \<in> set (tx_dir ?s)" using assms(2) by simp
  obtain rs st' where r: "recover env ?s = (rs, st')" by (cases "recover env ?s")
  have keeps: "(n, tx) \<in> set (tx_dir (snd (fold (recover_entry env) (tx_dir st) ([], ?s))))
    \<and> ((n, tx) \<in> set (tx_dir st) \<or> recovery_blocked ?s \<longrightarrow>
         recovery_blocked (snd (fold (recover_entry env) (tx_dir st) ([], ?s))))
    \<and> held (snd (fold (recover_entry env) (tx_dir st) ([], ?s))) = held ?s"
    by (rule recover_keeps_unreadable [OF assms(3) start]) (rule unique)
  have "fold (recover_entry env) (tx_dir st) ([], ?s) = (rs, st')" using r by (simp add: recover_def)
  with keeps have "(n, tx) \<in> set (tx_dir st')" and closed: "recovery_blocked st'"
      "held st' = \<lparr>held_levels = [LEVEL_TASK], held_projects = []\<rparr>"
    using assms(2) by simp_all
  then show ?thesis by (simp add: with_lock_closed [OF r closed] with_lock_blocked)
qed

definition rejected_store :: task_store where
  "rejected_store = put_tx ''tx1'' \<lparr>tx_manifest = NoFile, tx_backups = []\<rparr> sample_store"

text \<open>A transaction that is rejected before its manifest is such evidence.\<close>

theorem unreadable_evidence_closes_the_store_witness:
  "transaction_locked sample_env ''tx1'' ''memory_apply'' None None [([''note.txt''], ''note'')] None [] Returns
     sample_store = (Raises PyValueError, rejected_store)
   \<and> fst (with_lock sample_env (\<lambda>s. (Inr (), s)) (restart rejected_store)) = Inl PyRuntimeError"
proof -
  have rejected: "recovery_label (JStr ''note'') = Inr ''note''"
    "allowed_recovery_path (JStr ''note'') (JStr (as_posix [''note.txt''])) (JStr ''memory_apply'') = Inl PyValueError"
    by code_simp+
  have "transaction_locked sample_env ''tx1'' ''memory_apply'' None None [([''note.txt''], ''note'')] None [] Returns
     sample_store = (Raises PyValueError, rejected_store)"
    by (simp add: transaction_locked_def rejected rejected_store_def)
  moreover have "dict_wf (tx_dir rejected_store)"
    "(''tx1'', \<lparr>tx_manifest = NoFile, tx_backups = []\<rparr>) \<in> set (tx_dir rejected_store)"
    "unreadable sample_env ''tx1'' \<lparr>tx_manifest = NoFile, tx_backups = []\<rparr>"
    by (simp_all add: rejected_store_def put_tx_def sample_store_def unreadable_def)
  ultimately show ?thesis using unreadable_evidence_closes_the_store by blast
qed

subsection \<open>Transactions that end in the process\<close>

text \<open>
  C32. A transaction that ends with an exception has no effect: when the body raises, or a file it
  leaves cannot be read back, every file has the contents from before the transaction; when it
  returns, the files are those that the body wrote. In both cases no evidence is left and the
  store stays open.
\<close>

theorem failed_transaction_is_undone:
  assumes "well_labelled touched" "tx_id \<notin> fst ` set (tx_dir st)"
    and saved: "take_preimages (se_rt env) op (files st) touched [] [] = (None, baks, items)"
    and scope: "fst ` set writes \<subseteq> fst ` set touched" and "exit \<noteq> Interrupted"
    and run: "transaction_locked env tx_id op key command touched None writes exit st = (out, st')"
  shows "tx_dir st' = tx_dir st \<and> recovery_blocked st' = recovery_blocked st
    \<and> (out = Returns \<longrightarrow> exit = Returns \<and> files st' = run_writes writes (files st))
    \<and> (out \<noteq> Returns \<longrightarrow> files st' = files st)
    \<and> (\<forall>e. exit = Raises e \<longrightarrow> out = Raises e)"
proof -
  have undone: "rollback_tx (se_rt env) (mk_manifest env tx_id op key command ''prepared'' items) baks
      (run_writes writes (files st)) = (None, files st)"
    by (rule transaction_undo [OF assms(1) saved]) (use scope in \<open>blast intro: run_writes_outside\<close>)
  let ?posts = "mapE (postimage_item env (JStr op) (run_writes writes (files st))) items"
  consider e where "exit = Returns" "?posts = Inl e" | posts where "exit = Returns" "?posts = Inr posts"
    | e where "exit = Raises e"
    using assms(5) by (cases exit; cases ?posts) auto
  then show ?thesis
    by cases (use run in \<open>auto simp: transaction_locked_def saved Let_def put_tx_simps undone delete_update [OF assms(2)]\<close>)
qed

theorem failed_transaction_is_undone_witness:
  "files (snd (transaction_locked sample_env ''tx1'' ''task_snapshot'' None None [(sample_path, ''snapshot'')] None
     [(sample_path, Some ''new'')] (Raises OtherError) sample_store)) sample_path = Some ''old''"
proof -
  obtain out st' where run: "transaction_locked sample_env ''tx1'' ''task_snapshot'' None None
      [(sample_path, ''snapshot'')] None [(sample_path, Some ''new'')] (Raises OtherError) sample_store = (out, st')"
    by (rule prod.exhaust)
  have "out = Raises OtherError \<and> files st' = files sample_store"
    using failed_transaction_is_undone [OF sample_labelled _ sample_saved _ _ run] by (simp add: sample_store_def)
  then show ?thesis by (simp add: run) (simp add: sample_store_def)
qed

text \<open>
  An interrupt escapes the recovery: when the body is left by an exception that is no
  \<open>Exception\<close> (a keyboard interrupt, an exit), the writes made so far stay, the backups are
  removed, and no later recovery takes them back.
\<close>

theorem interrupted_writes_stay:
  assumes "tx_dir st = []"
    and saved: "take_preimages (se_rt env) op (files st) touched [] [] = (None, baks, items)"
  shows "\<exists>st'. transaction_locked env tx_id op key command touched None writes Interrupted st = (Interrupted, st')
    \<and> files st' = run_writes writes (files st) \<and> tx_dir st' = []
    \<and> snd (recover env (restart st')) = restart st'"
  using assms(1) unfolding transaction_locked_def saved
  by (simp add: Let_def recover_def put_tx_def remove_tx_def restart_def)

theorem interrupted_writes_stay_witness:
  "\<exists>st'. transaction_locked sample_env ''tx1'' ''task_snapshot'' None None [(sample_path, ''snapshot'')] None
     [(sample_path, Some ''new'')] Interrupted sample_store = (Interrupted, st')
   \<and> files (snd (recover sample_env (restart st'))) sample_path = Some ''new''"
  using interrupted_writes_stay [OF _ sample_saved, of "''tx1''" None None "[(sample_path, Some ''new'')]"]
  by (auto simp: sample_store_def run_writes_def)

subsection \<open>Confinement\<close>

text \<open>The files that the task store may restore, in terms of their paths.\<close>

definition recoverable_path :: "path \<Rightarrow> bool" where
  "recoverable_path p \<longleftrightarrow> ''..'' \<notin> set p \<and>
    ((\<exists>n. p = tasks_root @ [n] \<and> ends_with n ''.json'')
   \<or> (\<exists>n. p = tasks_root @ [''events'', n] \<and> ends_with n ''.jsonl'')
   \<or> (\<exists>n. p = tasks_root @ [''checkpoints'', n] \<and> ends_with n ''.json'')
   \<or> (\<exists>n. p = tasks_root @ [''decisions'', n] \<and> ends_with n ''.json'')
   \<or> (\<exists>n. p = tasks_root @ [''receipts'', n] \<and> take 4 n = ''tcr_'')
   \<or> (\<exists>n. p = tasks_root @ [''decisions'', ''receipts'', n] \<and> take 4 n = ''dcr_'')
   \<or> p = [''.power'', ''memory-history.jsonl'']
   \<or> (p \<noteq> [] \<and> ends_with (last p) ''.md'' \<and> (length p = 1 \<or> hd p \<in> set VAULT_STRUCTURE)))"

lemma butlast_eq: "butlast r = xs \<Longrightarrow> r \<noteq> [] \<Longrightarrow> r = xs @ [last r]"
  by auto

lemma ends_with_nonempty: "ends_with n w \<Longrightarrow> w \<noteq> [] \<Longrightarrow> n \<noteq> []"
  by (auto simp: ends_with_def)

lemma take_removesuffix: "take 4 (removesuffix n w) = v \<Longrightarrow> length v = 4 \<Longrightarrow> take 4 n = v"
  unfolding removesuffix_def by (auto simp: min_def split: if_splits)

lemma receipt_name:
  assumes "re_receipt v (removesuffix (removesuffix n a) b)" "length v = 4"
  shows "take 4 n = v"
proof -
  have "take 4 (removesuffix (removesuffix n a) b) = v" using assms(1) by (simp add: re_receipt_def)
  then show ?thesis using assms(2) by (metis take_removesuffix)
qed

lemma tasks_file_classes:
  assumes "tasks_file_allowed op l r" "''..'' \<notin> set (tasks_root @ r)"
  shows "recoverable_path (tasks_root @ r)"
proof -
  have ne: "r \<noteq> []"
  proof
    assume "r = []"
    then show False
      using assms(1) by (simp add: tasks_file_allowed_def rel_name_def Let_def ends_with_def re_receipt_def removesuffix_def)
  qed
  have name: "rel_name r = last r" using ne by (simp add: rel_name_def)
  note split = butlast_eq [OF _ ne]
  from assms(1) consider "butlast r = []" "ends_with (last r) ''.json''"
    | "butlast r = [''events'']" "ends_with (last r) ''.jsonl''"
    | "butlast r = [''checkpoints'']" "ends_with (last r) ''.json''"
    | "butlast r = [''decisions'']" "ends_with (last r) ''.json''"
    | "butlast r = [''receipts'']" "take 4 (last r) = ''tcr_''"
    | "butlast r = [''decisions'', ''receipts'']" "take 4 (last r) = ''dcr_''"
    by (auto simp: tasks_file_allowed_def name Let_def dest!: receipt_name)
  then show ?thesis
    using assms(2) by cases (auto simp: recoverable_path_def dest!: split)
qed

lemma recovery_path_dots:
  assumes "recovery_path v = Inr p"
  shows "''..'' \<notin> set p"
proof (cases v)
  case (JStr s)
  then have "p = path_parts s" "\<not> list_ex (\<lambda>w. w \<in> {[], ''.'', ''..''}) (path_parts s)"
    using assms by (simp_all add: recovery_path_def split: if_splits)
  then show ?thesis unfolding list_ex_iff by blast
qed (use assms in \<open>simp_all add: recovery_path_def\<close>)

lemma allowed_path_recoverable:
  assumes "allowed_recovery_path l v op = Inr p"
  shows "recoverable_path p"
proof -
  obtain s o' where p: "recovery_path v = Inr p" "file_class o' s p"
    using assms by (auto simp: allowed_path_iff)
  have dots: "''..'' \<notin> set p" by (rule recovery_path_dots [OF p(1)])
  show ?thesis
  proof (cases "vault_file_allowed o' s p")
    case True
    then consider "p = [''.power'', ''memory-history.jsonl'']" | "p = [''log.md'']"
      | "p \<noteq> []" "ends_with (last p) ''.md''" "length p = 1 \<or> hd p \<in> set VAULT_STRUCTURE"
      unfolding vault_file_allowed_def has_md_suffix_def by blast
    then show ?thesis
    proof cases
      case 2
      have "ends_with ''log.md'' ''.md''" by code_simp
      then show ?thesis using dots unfolding recoverable_path_def 2 by simp
    next
      case 3
      then have md: "p \<noteq> [] \<and> ends_with (last p) ''.md'' \<and> (length p = 1 \<or> hd p \<in> set VAULT_STRUCTURE)"
        by blast
      show ?thesis unfolding recoverable_path_def by (rule conjI [OF dots], (rule disjI2)+, rule md)
    qed (use dots in \<open>simp add: recoverable_path_def\<close>)
  next
    case False
    then obtain r where "tasks_relative p = Some r" "tasks_file_allowed o' s r"
      using p(2) by (auto simp: file_class_def split: option.splits)
    moreover from this have "p = tasks_root @ r"
      by (auto simp: tasks_relative_def split: if_splits) (metis append_take_drop_id)
    ultimately show ?thesis using tasks_file_classes dots by simp
  qed
qed

lemma rollback_confined:
  "rollback_items rt op baks ts fs = (r, fs') \<Longrightarrow> \<not> recoverable_path p \<Longrightarrow> fs' p = fs p"
proof (induction rt op baks ts fs arbitrary: r fs' rule: rollback_items.induct)
  case (2 rt op baks t ts fs)
  show ?case
  proof (cases "allowed_recovery_path (jget t ''label'') (jget t ''rel'') op")
    case (Inr q)
    have "q \<noteq> p" using allowed_path_recoverable [OF Inr] 2(4) by blast
    then show ?thesis
      using 2(1) [OF Inr] 2(2) [OF Inr] 2(3,4) Inr
      by (auto split: if_splits sum.splits option.splits simp del: fun_upd_apply) (auto simp: fun_upd_apply)
  qed (use 2(3) in simp)
qed simp

lemma reconcile_confined:
  "reconcile_tx rt m baks fs = (r, fs') \<Longrightarrow> \<not> recoverable_path p \<Longrightarrow> fs' p = fs p"
  by (auto simp: reconcile_tx_def rollback_tx_def dest: rollback_confined
      split: sum.splits if_splits prod.splits option.splits)

text \<open>
  Recovery is confined: whatever a left-over manifest claims, a recovery changes no file but
  task snapshots, journals, checkpoints, decisions, their receipts, the memory history, and
  Markdown notes at the top of the vault or in one of its folders.
\<close>

theorem recovery_is_confined:
  assumes "files (snd (recover env st)) p \<noteq> files st p"
  shows "recoverable_path p"
proof (rule ccontr)
  assume p: "\<not> recoverable_path p"
  have step: "files (snd (recover_entry env e acc)) p = files (snd acc) p" for e acc
  proof -
    obtain n tx rs s where e: "e = (n, tx)" "acc = (rs, s)" by (cases e; cases acc)
    show ?thesis
      by (auto simp: recover_entry_def e p reconcile_confined log_recovery_record_def
          split: json_file.splits sum.splits prod.splits option.splits dest: reconcile_confined [OF _ p])
  qed
  have "files (snd (fold (recover_entry env) es acc)) p = files (snd acc) p" for es acc
    by (induction es arbitrary: acc) (simp_all add: step)
  then show False using assms by (simp add: recover_def)
qed

lemma sample_recovered:
  "files (snd (recover sample_env (restart sample_crash))) sample_path = Some ''old''"
proof -
  let ?m = "mk_manifest sample_env ''tx1'' ''task_snapshot'' None None ''prepared'' sample_items"
  have u: "sample_items = items_of (se_rt sample_env) (files sample_store) [(sample_path, ''snapshot'')]"
    "undoable ''task_snapshot'' (files sample_store) [(''snapshot.bak'', ''old'')] [(sample_path, ''snapshot'')]"
    using take_preimages_undoable [OF sample_saved] sample_labelled by (simp_all add: well_labelled_def)
  obtain status where "reconcile_tx (se_rt sample_env) ?m [(''snapshot.bak'', ''old'')] (files (restart sample_crash))
      = (Inr status, restored (files sample_store) (fst ` set [(sample_path, ''snapshot'')]) [sample_path \<mapsto> ''new''])"
    using reconcile_prepared [OF u(2) _ sample_disks(2), of ?m] sample_disks(1) u(1)
    by (auto simp: sample_crash_def)
  moreover have "tx_dir (restart sample_crash) =
      [(''tx1'', \<lparr>tx_manifest = Holds (JObj ?m), tx_backups = [(''snapshot.bak'', ''old'')]\<rparr>)]"
    "recovery_log (restart sample_crash) = Some []"
    by (simp_all add: sample_crash_def sample_store_def)
  moreover have "validate_recovery_manifest sample_env (JObj ?m) ''tx1'' = Inr ?m"
    using well_formed_prepared [OF sample_wf u(2)] u(1) by simp
  ultimately show ?thesis
    using recover_single(1) [of "restart sample_crash"] by (simp add: restored_def sample_store_def)
qed

theorem recovery_is_confined_witness:
  "recoverable_path sample_path"
  by (rule recovery_is_confined [of sample_env "restart sample_crash"])
    (use sample_recovered in \<open>simp add: sample_crash_def\<close>)

end
