(* ===== verification/Task_Objects.thy ===== *)
theory Task_Objects
  imports Semantic_Entities Task_Model Task_Recovery
begin

text \<open>
  The objects of the task service (\<open>core/task_models.py\<close>): tasks, journal events and completion
  receipts, each with its constraints (\<open>\<dots>_ok\<close>), its \<open>model_dump\<close> (\<open>\<dots>_dump\<close>) and its
  \<open>model_validate\<close> (\<open>validate_\<dots>\<close>), and the JSON texts that the task store writes. A field without
  a default that is absent, and a field that is not declared, make the validation raise.
\<close>

subsection \<open>JSON texts\<close>

text \<open>\<open>json.dumps(v, ensure_ascii=False)\<close>, and with \<open>indent=2\<close>.\<close>

fun json_line :: "pyrt \<Rightarrow> json \<Rightarrow> string"
and json_line_list :: "pyrt \<Rightarrow> json list \<Rightarrow> string"
and json_line_items :: "pyrt \<Rightarrow> (string \<times> json) list \<Rightarrow> string" where
  "json_line rt JNull = ''null''"
| "json_line rt (JBool b) = (if b then ''true'' else ''false'')"
| "json_line rt (JInt i) = int_str i"
| "json_line rt (JFloat f) = float_repr rt f"
| "json_line rt (JStr s) = quote s"
| "json_line rt (JList xs) = ''['' @ json_line_list rt xs @ '']''"
| "json_line rt (JObj d) = ''{'' @ json_line_items rt d @ ''}''"
| "json_line_list rt [] = []"
| "json_line_list rt (x # xs) = json_line rt x @ (if xs = [] then [] else '', '' @ json_line_list rt xs)"
| "json_line_items rt [] = []"
| "json_line_items rt ((k, v) # d) =
     quote k @ '': '' @ json_line rt v @ (if d = [] then [] else '', '' @ json_line_items rt d)"

definition newline :: "nat \<Rightarrow> string" where
  "newline n = CHR 0x0A # replicate (2 * n) (CHR '' '')"

fun json_indent :: "pyrt \<Rightarrow> nat \<Rightarrow> json \<Rightarrow> string"
and json_indent_list :: "pyrt \<Rightarrow> nat \<Rightarrow> json list \<Rightarrow> string"
and json_indent_items :: "pyrt \<Rightarrow> nat \<Rightarrow> (string \<times> json) list \<Rightarrow> string" where
  "json_indent rt n (JList xs) =
     (if xs = [] then ''[]'' else ''['' @ json_indent_list rt (Suc n) xs @ newline n @ '']'')"
| "json_indent rt n (JObj d) =
     (if d = [] then ''{}'' else ''{'' @ json_indent_items rt (Suc n) d @ newline n @ ''}'')"
| "json_indent rt n j = json_line rt j"
| "json_indent_list rt n [] = []"
| "json_indent_list rt n (x # xs) =
     newline n @ json_indent rt n x @ (if xs = [] then [] else '','' @ json_indent_list rt n xs)"
| "json_indent_items rt n [] = []"
| "json_indent_items rt n ((k, v) # d) =
     newline n @ quote k @ '': '' @ json_indent rt n v @ (if d = [] then [] else '','' @ json_indent_items rt n d)"

definition canonical_payload_digest :: "pyrt \<Rightarrow> payload \<Rightarrow> string" where
  "canonical_payload_digest rt p = sha256_hex rt (json_line rt (sort_keys (JObj p)))"

definition value_error :: "'e + 'a \<Rightarrow> store_error + 'a" where
  "value_error m = (case m of Inl _ \<Rightarrow> Inl PyValueError | Inr x \<Rightarrow> Inr x)"

lemma value_error_Inr [simp]: "value_error (Inr x) = Inr x"
  by (simp add: value_error_def)

lemma value_error_eq_Inr: "value_error m = Inr x \<longleftrightarrow> m = Inr x"
  by (simp add: value_error_def split: sum.split)

subsection \<open>Tasks\<close>

definition re_task_id :: "string \<Rightarrow> bool" where
  "re_task_id s = re_label 127 s"

definition task_state_of :: "string \<Rightarrow> task_state option" where
  "task_state_of s = List.find (\<lambda>t. task_state_str t = s) enum_class.enum"

lemma task_state_of_str [simp]: "task_state_of (task_state_str t) = Some t"
  by (cases t) (simp_all add: task_state_of_def enum_task_state_def)

lemma task_state_of_Some: "task_state_of s = Some t \<Longrightarrow> s = task_state_str t"
  by (auto simp: task_state_of_def find_Some_iff)

definition TASK_PRIORITIES :: "string list" where
  "TASK_PRIORITIES = [''low'', ''normal'', ''high'', ''critical'']"

definition TASK_AUTHORITIES :: "string list" where
  "TASK_AUTHORITIES = [''read-only'', ''propose'', ''apply'']"

definition TASK_KINDS :: "string list" where
  "TASK_KINDS = [''human'', ''agent'', ''maintenance'', ''fleet'', ''federated'']"

definition EXECUTION_STATES :: "string list" where
  "EXECUTION_STATES =
    [''none'', ''queued'', ''leased'', ''running'', ''retry-wait'', ''waiting-network'', ''dead-letter'']"

record power_task =
  pt_task_id :: string
  pt_vault_id :: string
  pt_tenant_id :: string
  pt_kind :: string
  pt_title :: string
  pt_objective :: string
  pt_owner :: string
  pt_assignee :: "string option"
  pt_state :: task_state
  pt_priority :: string
  pt_scope :: "string list"
  pt_authority :: string
  pt_dependencies :: "string list"
  pt_source_revision :: string
  pt_next_action :: string
  pt_open_gates :: "string list"
  pt_required_input :: "payload option"
  pt_artifact_refs :: "string list"
  pt_receipt_ids :: "string list"
  pt_external_refs :: "string dict"
  pt_attempt :: int
  pt_max_attempts :: int
  pt_retry_at :: "string option"
  pt_lease_owner :: "string option"
  pt_lease_expires_at :: "string option"
  pt_heartbeat_at :: "string option"
  pt_execution_state :: string
  pt_error_ref :: "string option"
  pt_dead_letter_reason :: "string option"
  pt_revision :: int
  pt_created_at :: string
  pt_updated_at :: string
  pt_due_at :: "string option"
  pt_completion_policy :: string

definition task_ok :: "power_task \<Rightarrow> bool" where
  "task_ok t =
     (re_task_id (pt_task_id t) \<and> len_between 0 64 (pt_vault_id t) \<and> len_between 0 64 (pt_tenant_id t)
      \<and> pt_kind t \<in> set TASK_KINDS \<and> len_between 1 256 (pt_title t) \<and> len_between 0 4096 (pt_objective t)
      \<and> len_between 0 64 (pt_owner t) \<and> opt_len 64 (pt_assignee t) \<and> pt_priority t \<in> set TASK_PRIORITIES
      \<and> pt_authority t \<in> set TASK_AUTHORITIES \<and> len_between 0 128 (pt_source_revision t)
      \<and> len_between 0 512 (pt_next_action t) \<and> 0 \<le> pt_attempt t
      \<and> 1 \<le> pt_max_attempts t \<and> pt_max_attempts t \<le> 10 \<and> pt_execution_state t \<in> set EXECUTION_STATES
      \<and> 1 \<le> pt_revision t \<and> len_between 0 64 (pt_completion_policy t))"

definition mk_power_task :: "power_task \<Rightarrow> store_error + power_task" where
  "mk_power_task t = (if task_ok t then Inr t else Inl PyValueError)"

definition jdict :: "string dict \<Rightarrow> json" where
  "jdict d = JObj (map (\<lambda>(k, v). (k, JStr v)) d)"

definition jobj_opt :: "payload option \<Rightarrow> json" where
  "jobj_opt x = (case x of None \<Rightarrow> JNull | Some d \<Rightarrow> JObj d)"

definition task_dump :: "power_task \<Rightarrow> payload" where
  "task_dump t =
    [(''task_id'', JStr (pt_task_id t)), (''vault_id'', JStr (pt_vault_id t)),
     (''tenant_id'', JStr (pt_tenant_id t)), (''kind'', JStr (pt_kind t)),
     (''title'', JStr (pt_title t)), (''objective'', JStr (pt_objective t)),
     (''owner'', JStr (pt_owner t)), (''assignee'', jopt (pt_assignee t)),
     (''state'', JStr (task_state_str (pt_state t))), (''priority'', JStr (pt_priority t)),
     (''scope'', jstrs (pt_scope t)), (''authority'', JStr (pt_authority t)),
     (''dependencies'', jstrs (pt_dependencies t)), (''source_revision'', JStr (pt_source_revision t)),
     (''next_action'', JStr (pt_next_action t)), (''open_gates'', jstrs (pt_open_gates t)),
     (''required_input'', jobj_opt (pt_required_input t)), (''artifact_refs'', jstrs (pt_artifact_refs t)),
     (''receipt_ids'', jstrs (pt_receipt_ids t)), (''external_refs'', jdict (pt_external_refs t)),
     (''attempt'', JInt (pt_attempt t)), (''max_attempts'', JInt (pt_max_attempts t)),
     (''retry_at'', jopt (pt_retry_at t)), (''lease_owner'', jopt (pt_lease_owner t)),
     (''lease_expires_at'', jopt (pt_lease_expires_at t)), (''heartbeat_at'', jopt (pt_heartbeat_at t)),
     (''execution_state'', JStr (pt_execution_state t)), (''error_ref'', jopt (pt_error_ref t)),
     (''dead_letter_reason'', jopt (pt_dead_letter_reason t)), (''revision'', JInt (pt_revision t)),
     (''created_at'', JStr (pt_created_at t)), (''updated_at'', JStr (pt_updated_at t)),
     (''due_at'', jopt (pt_due_at t)), (''completion_policy'', JStr (pt_completion_policy t))]"

text \<open>The declared fields of \<open>PowerTask\<close> and the field readers of its validation.\<close>

definition TASK_FIELDS :: "string list" where
  "TASK_FIELDS =
    [''task_id'', ''vault_id'', ''tenant_id'', ''kind'', ''title'', ''objective'', ''owner'', ''assignee'',
     ''state'', ''priority'', ''scope'', ''authority'', ''dependencies'', ''source_revision'',
     ''next_action'', ''open_gates'', ''required_input'', ''artifact_refs'', ''receipt_ids'',
     ''external_refs'', ''attempt'', ''max_attempts'', ''retry_at'', ''lease_owner'',
     ''lease_expires_at'', ''heartbeat_at'', ''execution_state'', ''error_ref'',
     ''dead_letter_reason'', ''revision'', ''created_at'', ''updated_at'', ''due_at'',
     ''completion_policy'']"

definition need_fld :: "payload \<Rightarrow> string \<Rightarrow> pse_error + string" where
  "need_fld d k = (case map_of d k of Some (JStr s) \<Rightarrow> Inr s | _ \<Rightarrow> Inl PyError)"

definition int_fld :: "pyrt \<Rightarrow> payload \<Rightarrow> string \<Rightarrow> int \<Rightarrow> pse_error + int" where
  "int_fld rt d k dflt = (case map_of d k of None \<Rightarrow> Inr dflt
     | Some j \<Rightarrow> (case lax_int rt j of Some i \<Rightarrow> Inr i | None \<Rightarrow> Inl PyError))"

definition strs_fld :: "payload \<Rightarrow> string \<Rightarrow> pse_error + string list" where
  "strs_fld d k = (case map_of d k of None \<Rightarrow> Inr []
     | Some (JList xs) \<Rightarrow> if list_all is_jstr xs then Inr (map jstr xs) else Inl PyError | _ \<Rightarrow> Inl PyError)"

definition dict_fld :: "payload \<Rightarrow> string \<Rightarrow> pse_error + string dict" where
  "dict_fld d k = (case map_of d k of None \<Rightarrow> Inr []
     | Some (JObj e) \<Rightarrow>
         if list_all (\<lambda>(_, v). is_jstr v) e then Inr (map (\<lambda>(k, v). (k, jstr v)) e) else Inl PyError
     | _ \<Rightarrow> Inl PyError)"

definition obj_fld :: "payload \<Rightarrow> string \<Rightarrow> pse_error + payload option" where
  "obj_fld d k = (case map_of d k of None \<Rightarrow> Inr None | Some JNull \<Rightarrow> Inr None
     | Some (JObj e) \<Rightarrow> Inr (Some e) | _ \<Rightarrow> Inl PyError)"

definition state_fld :: "payload \<Rightarrow> string \<Rightarrow> task_state \<Rightarrow> pse_error + task_state" where
  "state_fld d k dflt = (case map_of d k of None \<Rightarrow> Inr dflt
     | Some (JStr s) \<Rightarrow> (case task_state_of s of Some t \<Rightarrow> Inr t | None \<Rightarrow> Inl PyError)
     | _ \<Rightarrow> Inl PyError)"

text \<open>\<open>PowerTask.model_validate\<close>; \<open>now\<close> is the default of the two time stamps.\<close>

definition read_power_task :: "pyrt \<Rightarrow> string \<Rightarrow> payload \<Rightarrow> pse_error + power_task" where
  "read_power_task rt now d =
     bindE (need_fld d ''task_id'') (\<lambda>task_id. bindE (str_fld d ''vault_id'' ''default'') (\<lambda>vault_id.
     bindE (str_fld d ''tenant_id'' ''local'') (\<lambda>tenant_id. bindE (str_fld d ''kind'' ''human'') (\<lambda>kind.
     bindE (need_fld d ''title'') (\<lambda>title. bindE (str_fld d ''objective'' []) (\<lambda>objective.
     bindE (str_fld d ''owner'' ''local'') (\<lambda>owner. bindE (opt_fld d ''assignee'' None) (\<lambda>assignee.
     bindE (state_fld d ''state'' Backlog) (\<lambda>state. bindE (str_fld d ''priority'' ''normal'') (\<lambda>priority.
     bindE (strs_fld d ''scope'') (\<lambda>scope. bindE (str_fld d ''authority'' ''read-only'') (\<lambda>authority.
     bindE (strs_fld d ''dependencies'') (\<lambda>dependencies.
     bindE (str_fld d ''source_revision'' []) (\<lambda>source_revision.
     bindE (str_fld d ''next_action'' ''inspect'') (\<lambda>next_action.
     bindE (strs_fld d ''open_gates'') (\<lambda>open_gates.
     bindE (obj_fld d ''required_input'') (\<lambda>required_input.
     bindE (strs_fld d ''artifact_refs'') (\<lambda>artifact_refs. bindE (strs_fld d ''receipt_ids'') (\<lambda>receipt_ids.
     bindE (dict_fld d ''external_refs'') (\<lambda>external_refs. bindE (int_fld rt d ''attempt'' 0) (\<lambda>attempt.
     bindE (int_fld rt d ''max_attempts'' 3) (\<lambda>max_attempts. bindE (opt_fld d ''retry_at'' None) (\<lambda>retry_at.
     bindE (opt_fld d ''lease_owner'' None) (\<lambda>lease_owner.
     bindE (opt_fld d ''lease_expires_at'' None) (\<lambda>lease_expires_at.
     bindE (opt_fld d ''heartbeat_at'' None) (\<lambda>heartbeat_at.
     bindE (str_fld d ''execution_state'' ''none'') (\<lambda>execution_state.
     bindE (opt_fld d ''error_ref'' None) (\<lambda>error_ref.
     bindE (opt_fld d ''dead_letter_reason'' None) (\<lambda>dead_letter_reason.
     bindE (int_fld rt d ''revision'' 1) (\<lambda>revision. bindE (str_fld d ''created_at'' now) (\<lambda>created_at.
     bindE (str_fld d ''updated_at'' now) (\<lambda>updated_at. bindE (opt_fld d ''due_at'' None) (\<lambda>due_at.
     bindE (str_fld d ''completion_policy'' ''standard'') (\<lambda>completion_policy.
     Inr \<lparr>pt_task_id = task_id, pt_vault_id = vault_id, pt_tenant_id = tenant_id, pt_kind = kind,
       pt_title = title, pt_objective = objective, pt_owner = owner, pt_assignee = assignee,
       pt_state = state, pt_priority = priority, pt_scope = scope, pt_authority = authority,
       pt_dependencies = dependencies, pt_source_revision = source_revision,
       pt_next_action = next_action, pt_open_gates = open_gates, pt_required_input = required_input,
       pt_artifact_refs = artifact_refs, pt_receipt_ids = receipt_ids,
       pt_external_refs = external_refs, pt_attempt = attempt, pt_max_attempts = max_attempts,
       pt_retry_at = retry_at, pt_lease_owner = lease_owner, pt_lease_expires_at = lease_expires_at,
       pt_heartbeat_at = heartbeat_at, pt_execution_state = execution_state, pt_error_ref = error_ref,
       pt_dead_letter_reason = dead_letter_reason, pt_revision = revision,
       pt_created_at = created_at, pt_updated_at = updated_at, pt_due_at = due_at,
       pt_completion_policy = completion_policy\<rparr>))))))))))))))))))))))))))))))))))"

definition validate_task :: "pyrt \<Rightarrow> string \<Rightarrow> json \<Rightarrow> store_error + power_task" where
  "validate_task rt now j = (case j of
       JObj d \<Rightarrow>
         if \<not> list_all (\<lambda>(k, _). k \<in> set TASK_FIELDS) d then Inl PyValueError
         else bindE (value_error (read_power_task rt now d)) mk_power_task
     | _ \<Rightarrow> Inl PyValueError)"

subsection \<open>Journal events\<close>

record task_event =
  te_event_id :: string
  te_task_id :: string
  te_sequence :: int
  te_actor :: string
  te_event_type :: string
  te_payload :: payload
  te_payload_digest :: string
  te_prev_event_digest :: string
  te_created_at :: string

definition event_ok :: "task_event \<Rightarrow> bool" where
  "event_ok e = (re_task_id (te_task_id e) \<and> 1 \<le> te_sequence e)"

definition task_event_dump :: "task_event \<Rightarrow> payload" where
  "task_event_dump e =
    [(''event_id'', JStr (te_event_id e)), (''task_id'', JStr (te_task_id e)),
     (''sequence'', JInt (te_sequence e)), (''actor'', JStr (te_actor e)),
     (''event_type'', JStr (te_event_type e)), (''payload'', JObj (te_payload e)),
     (''payload_digest'', JStr (te_payload_digest e)),
     (''prev_event_digest'', JStr (te_prev_event_digest e)), (''created_at'', JStr (te_created_at e))]"

definition TASK_EVENT_FIELDS :: "string list" where
  "TASK_EVENT_FIELDS = [''event_id'', ''task_id'', ''sequence'', ''actor'', ''event_type'', ''payload'',
     ''payload_digest'', ''prev_event_digest'', ''created_at'']"

definition read_task_event :: "pyrt \<Rightarrow> string \<Rightarrow> payload \<Rightarrow> pse_error + task_event" where
  "read_task_event rt now d =
     bindE (need_fld d ''event_id'') (\<lambda>event_id. bindE (need_fld d ''task_id'') (\<lambda>task_id.
     bindE (case map_of d ''sequence'' of None \<Rightarrow> Inl PyError | Some _ \<Rightarrow> int_fld rt d ''sequence'' 0) (\<lambda>sequence.
     bindE (need_fld d ''actor'') (\<lambda>actor. bindE (need_fld d ''event_type'') (\<lambda>event_type.
     bindE (case map_of d ''payload'' of None \<Rightarrow> Inr [] | Some (JObj p) \<Rightarrow> Inr p | _ \<Rightarrow> Inl PyError) (\<lambda>payload.
     bindE (need_fld d ''payload_digest'') (\<lambda>digest. bindE (str_fld d ''prev_event_digest'' []) (\<lambda>prev.
     bindE (str_fld d ''created_at'' now) (\<lambda>created_at.
     Inr \<lparr>te_event_id = event_id, te_task_id = task_id, te_sequence = sequence, te_actor = actor,
       te_event_type = event_type, te_payload = payload, te_payload_digest = digest,
       te_prev_event_digest = prev, te_created_at = created_at\<rparr>)))))))))"

definition mk_task_event :: "task_event \<Rightarrow> store_error + task_event" where
  "mk_task_event e = (if event_ok e then Inr e else Inl PyValueError)"

definition validate_task_event :: "pyrt \<Rightarrow> string \<Rightarrow> json \<Rightarrow> store_error + task_event" where
  "validate_task_event rt now j = (case j of
       JObj d \<Rightarrow>
         if \<not> list_all (\<lambda>(k, _). k \<in> set TASK_EVENT_FIELDS) d then Inl PyValueError
         else bindE (value_error (read_task_event rt now d)) mk_task_event
     | _ \<Rightarrow> Inl PyValueError)"

text \<open>\<open>TaskEvent.create\<close>; \<open>millis\<close> is the text of the time in milliseconds.\<close>

definition new_task_event ::
  "pyrt \<Rightarrow> string \<Rightarrow> string \<Rightarrow> string \<Rightarrow> int \<Rightarrow> string \<Rightarrow> string \<Rightarrow> payload \<Rightarrow> string \<Rightarrow> task_event" where
  "new_task_event rt now millis task_id sequence actor event_type p prev =
     \<lparr>te_event_id = ''evt_'' @ task_id @ ''_'' @ int_str sequence @ ''_'' @ millis,
      te_task_id = task_id, te_sequence = sequence, te_actor = actor, te_event_type = event_type,
      te_payload = p, te_payload_digest = canonical_payload_digest rt p,
      te_prev_event_digest = prev, te_created_at = now\<rparr>"

subsection \<open>Completion receipts\<close>

record completion_receipt =
  cr_receipt_id :: string
  cr_task_id :: string
  cr_task_revision :: int
  cr_completion_policy :: string
  cr_postcondition_sha256 :: string
  cr_artifact_digests :: "string dict"
  cr_actor :: string
  cr_created_at :: string

definition re_tcr :: "string \<Rightarrow> bool" where
  "re_tcr s = re_receipt ''tcr_'' s"

definition receipt_ok :: "completion_receipt \<Rightarrow> bool" where
  "receipt_ok r =
     (re_tcr (cr_receipt_id r) \<and> re_task_id (cr_task_id r) \<and> 1 \<le> cr_task_revision r
      \<and> len_between 1 64 (cr_completion_policy r) \<and> re_hash (cr_postcondition_sha256 r)
      \<and> 1 \<le> length (cr_artifact_digests r) \<and> length (cr_artifact_digests r) \<le> 64
      \<and> list_all (\<lambda>(_, d). re_hash d) (cr_artifact_digests r) \<and> len_between 1 200 (cr_actor r))"

definition mk_receipt :: "completion_receipt \<Rightarrow> store_error + completion_receipt" where
  "mk_receipt r = (if receipt_ok r then Inr r else Inl PyValueError)"

definition receipt_dump :: "completion_receipt \<Rightarrow> payload" where
  "receipt_dump r =
    [(''receipt_schema'', JStr ''power.task-completion.v1''), (''receipt_id'', JStr (cr_receipt_id r)),
     (''task_id'', JStr (cr_task_id r)), (''task_revision'', JInt (cr_task_revision r)),
     (''completion_policy'', JStr (cr_completion_policy r)),
     (''postcondition_sha256'', JStr (cr_postcondition_sha256 r)),
     (''artifact_digests'', jdict (cr_artifact_digests r)), (''actor'', JStr (cr_actor r)),
     (''status'', JStr ''verified''), (''created_at'', JStr (cr_created_at r))]"

definition RECEIPT_FIELDS :: "string list" where
  "RECEIPT_FIELDS = [''receipt_schema'', ''receipt_id'', ''task_id'', ''task_revision'',
     ''completion_policy'', ''postcondition_sha256'', ''artifact_digests'', ''actor'', ''status'',
     ''created_at'']"

definition read_receipt :: "pyrt \<Rightarrow> string \<Rightarrow> payload \<Rightarrow> pse_error + completion_receipt" where
  "read_receipt rt now d =
     bindE (str_fld d ''receipt_schema'' ''power.task-completion.v1'') (\<lambda>schema.
     bindE (str_fld d ''status'' ''verified'') (\<lambda>status.
     if schema \<noteq> ''power.task-completion.v1'' \<or> status \<noteq> ''verified'' then Inl PyError
     else bindE (need_fld d ''receipt_id'') (\<lambda>receipt_id. bindE (need_fld d ''task_id'') (\<lambda>task_id.
     bindE (case map_of d ''task_revision'' of None \<Rightarrow> Inl PyError | Some _ \<Rightarrow> int_fld rt d ''task_revision'' 0)
       (\<lambda>revision.
     bindE (need_fld d ''completion_policy'') (\<lambda>policy.
     bindE (need_fld d ''postcondition_sha256'') (\<lambda>post.
     bindE (case map_of d ''artifact_digests'' of None \<Rightarrow> Inl PyError | Some _ \<Rightarrow> dict_fld d ''artifact_digests'')
       (\<lambda>artifacts.
     bindE (need_fld d ''actor'') (\<lambda>actor. bindE (str_fld d ''created_at'' now) (\<lambda>created_at.
     Inr \<lparr>cr_receipt_id = receipt_id, cr_task_id = task_id, cr_task_revision = revision,
       cr_completion_policy = policy, cr_postcondition_sha256 = post, cr_artifact_digests = artifacts,
       cr_actor = actor, cr_created_at = created_at\<rparr>))))))))))"

definition validate_receipt :: "pyrt \<Rightarrow> string \<Rightarrow> json \<Rightarrow> store_error + completion_receipt" where
  "validate_receipt rt now j = (case j of
       JObj d \<Rightarrow>
         if \<not> list_all (\<lambda>(k, _). k \<in> set RECEIPT_FIELDS) d then Inl PyValueError
         else bindE (value_error (read_receipt rt now d)) mk_receipt
     | _ \<Rightarrow> Inl PyValueError)"

definition derive_receipt_id ::
  "pyrt \<Rightarrow> string \<Rightarrow> int \<Rightarrow> string \<Rightarrow> string \<Rightarrow> string dict \<Rightarrow> string \<Rightarrow> string" where
  "derive_receipt_id rt task_id revision policy post artifacts actor =
     ''tcr_'' @ sha256_hex rt (json_line rt (sort_keys (JObj
       [(''task_id'', JStr task_id), (''task_revision'', JInt revision),
        (''completion_policy'', JStr policy), (''postcondition_sha256'', JStr post),
        (''artifact_digests'', jdict artifacts), (''actor'', JStr actor)])))"

end
