(* ===== verification/Task_Files.thy ===== *)
theory Task_Files
  imports Task_Objects
begin

text \<open>
  The files of the task store (\<open>core/task_store.py\<close>): snapshots, journals, checkpoints and
  receipts, how they are read and verified, and the saving of a task and its event in one
  transaction.
\<close>

subsection \<open>Lines\<close>

text \<open>
  The length of the line boundary at the head of a text, 0 if there is none: \<open>str.splitlines\<close>
  splits at the ASCII separators and at U+0085, U+2028 and U+2029.
\<close>

definition line_break :: "string \<Rightarrow> nat" where
  "line_break s = (case s of [] \<Rightarrow> 0 | c # r \<Rightarrow>
     if c = CHR 0x0D \<and> take 1 r = [CHR 0x0A] then 2
     else if c \<in> {CHR 0x0A, CHR 0x0B, CHR 0x0C, CHR 0x0D, CHR 0x1C, CHR 0x1D, CHR 0x1E} then 1
     else if c = CHR 0xC2 \<and> take 1 r = [CHR 0x85] then 2
     else if c = CHR 0xE2 \<and> (take 2 r = [CHR 0x80, CHR 0xA8] \<or> take 2 r = [CHR 0x80, CHR 0xA9]) then 3
     else 0)"

function split_lines :: "string \<Rightarrow> string \<Rightarrow> string list" where
  "split_lines acc [] = (if acc = [] then [] else [rev acc])"
| "split_lines acc (c # s) =
     (if line_break (c # s) = 0 then split_lines (c # acc) s
      else rev acc # split_lines [] (drop (line_break (c # s) - 1) s))"
  by pat_completeness auto

termination by (relation "measure (length \<circ> snd)") auto

definition splitlines :: "string \<Rightarrow> string list" where
  "splitlines s = split_lines [] s"

subsection \<open>Paths\<close>

definition task_file :: "string \<Rightarrow> path" where
  "task_file tid = tasks_root @ [tid @ ''.json'']"

definition events_file :: "string \<Rightarrow> path" where
  "events_file tid = tasks_root @ [''events'', tid @ ''.jsonl'']"

definition checkpoint_file :: "task_event \<Rightarrow> path" where
  "checkpoint_file e = tasks_root @ [''checkpoints'', te_task_id e @ ''_seq_'' @ int_str (te_sequence e) @ ''.json'']"

definition receipt_file :: "string \<Rightarrow> path" where
  "receipt_file rid = tasks_root @ [''receipts'', rid @ ''.json'']"

text \<open>\<open>_task_file\<close> and \<open>_events_file\<close> check the identifier first.\<close>

definition with_task_id :: "string \<Rightarrow> (unit \<Rightarrow> store_error + 'a) \<Rightarrow> store_error + 'a" where
  "with_task_id tid f = (if re_task_id tid then f () else Inl PyValueError)"

subsection \<open>Reading\<close>

definition read_json :: "store_env \<Rightarrow> string \<Rightarrow> store_error + json" where
  "read_json env c = bindE (read_secure c) (\<lambda>d.
     case se_loads env d of None \<Rightarrow> Inl PyValueError | Some j \<Rightarrow> Inr j)"

definition get_task :: "store_env \<Rightarrow> filesystem \<Rightarrow> string \<Rightarrow> store_error + power_task option" where
  "get_task env fs tid = with_task_id tid (\<lambda>_.
     case fs (task_file tid) of
       None \<Rightarrow> Inr None
     | Some c \<Rightarrow> bindE (read_json env c) (\<lambda>j.
         bindE (validate_task (se_rt env) (se_now env) j) (\<lambda>t. Inr (Some t))))"

definition get_completion_receipt ::
  "store_env \<Rightarrow> filesystem \<Rightarrow> string \<Rightarrow> store_error + completion_receipt option" where
  "get_completion_receipt env fs rid =
     (if \<not> re_tcr rid then Inl PyValueError
      else case fs (receipt_file rid) of
          None \<Rightarrow> Inr None
        | Some c \<Rightarrow> bindE (read_json env c) (\<lambda>j.
            bindE (validate_receipt (se_rt env) (se_now env) j) (\<lambda>r.
              if cr_receipt_id r \<noteq> derive_receipt_id (se_rt env) (cr_task_id r) (cr_task_revision r)
                   (cr_completion_policy r) (cr_postcondition_sha256 r) (cr_artifact_digests r) (cr_actor r)
              then Inl PyValueError else Inr (Some r))))"

text \<open>
  The loop over the lines of a journal: blank lines are skipped, every other line is an event of
  the task with the next number, chained to the digest of the event before it, whose digest is
  the one of its payload.
\<close>

fun scan_journal ::
  "store_env \<Rightarrow> string \<Rightarrow> int \<Rightarrow> string \<Rightarrow> string list \<Rightarrow> store_error + task_event list" where
  "scan_journal env tid n prev [] = Inr []"
| "scan_journal env tid n prev (l # ls) =
     (if strip l = [] then scan_journal env tid n prev ls
      else case (case se_loads env l of None \<Rightarrow> Inl PyValueError
                 | Some j \<Rightarrow> validate_task_event (se_rt env) (se_now env) j) of
          Inl _ \<Rightarrow> Inl TaskJournalIntegrityError
        | Inr e \<Rightarrow>
            if te_task_id e \<noteq> tid \<or> te_sequence e \<noteq> n \<or> te_prev_event_digest e \<noteq> prev
               \<or> te_payload_digest e \<noteq> canonical_payload_digest (se_rt env) (te_payload e)
            then Inl TaskJournalIntegrityError
            else bindE (scan_journal env tid (n + 1) (te_payload_digest e) ls) (\<lambda>es. Inr (e # es)))"

definition get_task_events ::
  "store_env \<Rightarrow> filesystem \<Rightarrow> string \<Rightarrow> int \<Rightarrow> bool \<Rightarrow> store_error + task_event list" where
  "get_task_events env fs tid since allow_missing = with_task_id tid (\<lambda>_.
     let required = fs (task_file tid) \<noteq> None \<and> \<not> allow_missing in
     case fs (events_file tid) of
       None \<Rightarrow> if required then Inl TaskJournalIntegrityError else Inr []
     | Some c \<Rightarrow> bindE (read_secure c) (\<lambda>text.
         if strip text = [] \<and> required then Inl TaskJournalIntegrityError
         else bindE (scan_journal env tid 1 [] (splitlines text)) (\<lambda>es.
           if es = [] \<and> required then Inl TaskJournalIntegrityError
           else Inr (filter (\<lambda>e. since < te_sequence e) es))))"

definition get_last_event_digest :: "store_env \<Rightarrow> filesystem \<Rightarrow> string \<Rightarrow> store_error + string" where
  "get_last_event_digest env fs tid =
     bindE (get_task_events env fs tid 0 False) (\<lambda>es.
       Inr (if es = [] then [] else te_payload_digest (last es)))"

subsection \<open>Writing\<close>

definition snapshot_text :: "store_env \<Rightarrow> power_task \<Rightarrow> string" where
  "snapshot_text env t = json_indent (se_rt env) 0 (JObj (task_dump t))"

definition receipt_text :: "store_env \<Rightarrow> completion_receipt \<Rightarrow> string" where
  "receipt_text env r = json_indent (se_rt env) 0 (sort_keys (JObj (receipt_dump r)))"

definition event_line :: "store_env \<Rightarrow> task_event \<Rightarrow> string" where
  "event_line env e = json_line (se_rt env) (JObj (task_event_dump e)) @ [CHR 0x0A]"

text \<open>
  \<open>_append_event_unlocked\<close>: the writes it makes and how it ends. What it wrote before an exception
  it takes back itself.
\<close>

definition append_write :: "store_env \<Rightarrow> filesystem \<Rightarrow> task_event \<Rightarrow> file_write" where
  "append_write env fs e = (events_file (te_task_id e),
     Some ((case fs (events_file (te_task_id e)) of None \<Rightarrow> [] | Some c \<Rightarrow> c) @ event_line env e))"

definition restore_writes :: "filesystem \<Rightarrow> task_event \<Rightarrow> file_write list" where
  "restore_writes fs e = [(events_file (te_task_id e), fs (events_file (te_task_id e))),
     (checkpoint_file e, fs (checkpoint_file e))]"

definition checkpoint_write :: "store_env \<Rightarrow> task_event \<Rightarrow> power_task \<Rightarrow> file_write" where
  "checkpoint_write env e t = (checkpoint_file e, Some (snapshot_text env t))"

definition append_body ::
  "store_env \<Rightarrow> filesystem \<Rightarrow> task_event \<Rightarrow> store_error + (file_write list \<times> store_error option)" where
  "append_body env fs e =
     bindE (read_image fs (events_file (te_task_id e))) (\<lambda>_.
     bindE (read_image fs (checkpoint_file e)) (\<lambda>_.
     Inr (case get_task_events env fs (te_task_id e) 0 True of
         Inl err \<Rightarrow> (restore_writes fs e, Some err)
       | Inr existing \<Rightarrow>
           if existing \<noteq> [] \<and> te_sequence e \<le> te_sequence (last existing)
           then (restore_writes fs e, Some PyValueError)
           else if te_sequence e mod 5 \<noteq> 0 then ([append_write env fs e], None)
           else (case get_task env (run_writes [append_write env fs e] fs) (te_task_id e) of
               Inl err \<Rightarrow> (append_write env fs e # restore_writes fs e, Some err)
             | Inr None \<Rightarrow> ([append_write env fs e], None)
             | Inr (Some t) \<Rightarrow> ([append_write env fs e, checkpoint_write env e t], None)))))"

text \<open>The body of \<open>save_task\<close>: the snapshot, the receipt, the event.\<close>

definition object_writes :: "store_env \<Rightarrow> power_task \<Rightarrow> completion_receipt option \<Rightarrow> file_write list" where
  "object_writes env t receipt = (task_file (pt_task_id t), Some (snapshot_text env t)) #
     (case receipt of None \<Rightarrow> [] | Some r \<Rightarrow> [(receipt_file (cr_receipt_id r), Some (receipt_text env r))])"

definition save_body ::
  "store_env \<Rightarrow> filesystem \<Rightarrow> power_task \<Rightarrow> task_event option \<Rightarrow> completion_receipt option \<Rightarrow>
   file_write list \<times> body_exit" where
  "save_body env fs t event receipt =
     (let first = object_writes env t receipt
      in case event of
           None \<Rightarrow> (first, Returns)
         | Some e \<Rightarrow>
             (case append_body env (run_writes first fs) e of
                Inl err \<Rightarrow> (first, Raises err)
              | Inr (ws, None) \<Rightarrow> (first @ ws, Returns)
              | Inr (ws, Some err) \<Rightarrow> (first @ ws, Raises err)))"

definition save_touched ::
  "power_task \<Rightarrow> task_event option \<Rightarrow> completion_receipt option \<Rightarrow> (path \<times> string) list" where
  "save_touched t event receipt =
     [(task_file (pt_task_id t), ''snapshot'')]
     @ (case event of None \<Rightarrow> [] | Some e \<Rightarrow>
          (events_file (te_task_id e), ''event'') #
          (if te_sequence e mod 5 = 0 then [(checkpoint_file e, ''checkpoint'')] else []))
     @ (case receipt of None \<Rightarrow> [] | Some r \<Rightarrow> [(receipt_file (cr_receipt_id r), ''receipt'')])"

text \<open>The checks before the transaction.\<close>

definition check_save ::
  "store_env \<Rightarrow> filesystem \<Rightarrow> power_task \<Rightarrow> task_event option \<Rightarrow> completion_receipt option \<Rightarrow>
   store_error + unit" where
  "check_save env fs t event receipt = with_task_id (pt_task_id t) (\<lambda>_.
     if (case event of None \<Rightarrow> False | Some e \<Rightarrow> te_task_id e \<noteq> pt_task_id t) then Inl PyValueError
     else bindE (if fs (task_file (pt_task_id t)) = None then Inr []
                 else get_task_events env fs (pt_task_id t) 0 False) (\<lambda>_.
       case receipt of None \<Rightarrow> Inr ()
       | Some r \<Rightarrow>
           if \<not> re_tcr (cr_receipt_id r) \<or> cr_task_id r \<noteq> pt_task_id t \<or> cr_task_revision r \<noteq> pt_revision t
           then Inl PyValueError else Inr ()))"

definition as_result :: "(store_error + body_exit) \<times> task_store \<Rightarrow> (store_error + unit) \<times> task_store" where
  "as_result r = (case r of
       (Inl e, st) \<Rightarrow> (Inl e, st)
     | (Inr Returns, st) \<Rightarrow> (Inr (), st)
     | (Inr (Raises e), st) \<Rightarrow> (Inl e, st)
     | (Inr Interrupted, st) \<Rightarrow> (Inl OtherError, st))"

definition save_task ::
  "store_env \<Rightarrow> string \<Rightarrow> power_task \<Rightarrow> task_event option \<Rightarrow> completion_receipt option \<Rightarrow>
   string option \<Rightarrow> string option \<Rightarrow> store_error option \<Rightarrow> task_store \<Rightarrow> (store_error + unit) \<times> task_store" where
  "save_task env tx_id t event receipt key command fault st =
     with_lock env (\<lambda>s. case check_save env (files s) t event receipt of
         Inl e \<Rightarrow> (Inl e, s)
       | Inr _ \<Rightarrow>
           let (writes, exit) = save_body env (files s) t event receipt
           in as_result (transaction env tx_id
                (case event of None \<Rightarrow> ''task_snapshot'' | Some e \<Rightarrow> te_event_type e) key command
                (save_touched t event receipt) fault writes exit s)) st"

definition append_event ::
  "store_env \<Rightarrow> string \<Rightarrow> task_event \<Rightarrow> store_error option \<Rightarrow> task_store \<Rightarrow> (store_error + unit) \<times> task_store" where
  "append_event env tx_id e fault st =
     with_lock env (\<lambda>s.
       case with_task_id (te_task_id e) (\<lambda>_. if files s (task_file (te_task_id e)) = None then Inr []
                 else get_task_events env (files s) (te_task_id e) 0 False) of
         Inl err \<Rightarrow> (Inl err, s)
       | Inr _ \<Rightarrow>
           let (writes, exit) = (case append_body env (files s) e of
                   Inl err \<Rightarrow> ([], Raises err)
                 | Inr (ws, None) \<Rightarrow> (ws, Returns)
                 | Inr (ws, Some err) \<Rightarrow> (ws, Raises err))
           in as_result (transaction env tx_id ''task_event_append'' None None
                ((events_file (te_task_id e), ''event'') #
                 (if te_sequence e mod 5 = 0 then [(checkpoint_file e, ''checkpoint'')] else []))
                fault writes exit s)) st"

end
