(* ===== verification/Task_Service.thy ===== *)
theory Task_Service
  imports Task_Files
begin

text \<open>
  The task service (\<open>core/task_service.py\<close>): creation and transitions of tasks with optimistic
  concurrency, idempotent replay, completion receipts and the guards of infrastructure tasks.

  An operation takes the writer lock, decides on the files what to do (\<open>plan_\<dots>\<close>), and saves the
  task, its event and its receipt in one transaction. The clock is read once per operation.
\<close>

subsection \<open>Commands\<close>

definition command_fingerprint :: "pyrt \<Rightarrow> string \<Rightarrow> payload \<Rightarrow> string" where
  "command_fingerprint rt operation p =
     sha256_hex rt (json_line rt (sort_keys (JObj [(''operation'', JStr operation), (''payload'', JObj p)])))"

record create_args =
  ca_task_id :: string
  ca_title :: string
  ca_objective :: string
  ca_owner :: string
  ca_assignee :: "string option"
  ca_state :: string
  ca_priority :: string
  ca_kind :: string
  ca_scope :: "string list"
  ca_authority :: string
  ca_dependencies :: "string list"
  ca_source_revision :: string
  ca_next_action :: string
  ca_open_gates :: "string list"
  ca_required_input :: "payload option"
  ca_artifact_refs :: "string list"
  ca_receipt_ids :: "string list"
  ca_external_refs :: "string dict"
  ca_due_at :: "string option"
  ca_actor :: string
  ca_idempotency_key :: "string option"

definition create_command :: "pyrt \<Rightarrow> create_args \<Rightarrow> string" where
  "create_command rt a = command_fingerprint rt ''create''
    [(''task_id'', JStr (ca_task_id a)), (''title'', JStr (ca_title a)), (''objective'', JStr (ca_objective a)),
     (''owner'', JStr (ca_owner a)), (''assignee'', jopt (ca_assignee a)), (''state'', JStr (ca_state a)),
     (''priority'', JStr (ca_priority a)), (''kind'', JStr (ca_kind a)), (''scope'', jstrs (ca_scope a)),
     (''authority'', JStr (ca_authority a)), (''dependencies'', jstrs (ca_dependencies a)),
     (''source_revision'', JStr (ca_source_revision a)), (''next_action'', JStr (ca_next_action a)),
     (''open_gates'', jstrs (ca_open_gates a)), (''required_input'', jobj_opt (ca_required_input a)),
     (''artifact_refs'', jstrs (ca_artifact_refs a)), (''receipt_ids'', jstrs (ca_receipt_ids a)),
     (''external_refs'', jdict (ca_external_refs a)), (''due_at'', jopt (ca_due_at a))]"

definition new_task :: "string \<Rightarrow> create_args \<Rightarrow> task_state \<Rightarrow> power_task" where
  "new_task now a s =
    \<lparr>pt_task_id = ca_task_id a, pt_vault_id = ''default'', pt_tenant_id = ''local'', pt_kind = ca_kind a,
     pt_title = ca_title a, pt_objective = ca_objective a, pt_owner = ca_owner a,
     pt_assignee = ca_assignee a, pt_state = s, pt_priority = ca_priority a, pt_scope = ca_scope a,
     pt_authority = ca_authority a, pt_dependencies = ca_dependencies a,
     pt_source_revision = ca_source_revision a, pt_next_action = ca_next_action a,
     pt_open_gates = ca_open_gates a, pt_required_input = ca_required_input a,
     pt_artifact_refs = ca_artifact_refs a, pt_receipt_ids = ca_receipt_ids a,
     pt_external_refs = ca_external_refs a, pt_attempt = 0, pt_max_attempts = 3, pt_retry_at = None,
     pt_lease_owner = None, pt_lease_expires_at = None, pt_heartbeat_at = None,
     pt_execution_state = ''none'', pt_error_ref = None, pt_dead_letter_reason = None, pt_revision = 1,
     pt_created_at = now, pt_updated_at = now, pt_due_at = ca_due_at a,
     pt_completion_policy = ''standard''\<rparr>"

definition infra_key :: "string \<Rightarrow> bool" where
  "infra_key k = starts_with ''infra_'' k"

subsection \<open>Idempotent replay\<close>

fun find_replay ::
  "pyrt \<Rightarrow> string \<Rightarrow> string \<Rightarrow> string \<Rightarrow> task_event list \<Rightarrow> store_error + power_task option" where
  "find_replay rt now key command [] = Inr None"
| "find_replay rt now key command (e # es) =
     (if jget (te_payload e) ''idempotency_key'' \<noteq> JStr key then find_replay rt now key command es
      else if jget (te_payload e) ''command_sha256'' \<noteq> JStr command then Inl PyValueError
      else (case jget (te_payload e) ''result'' of
          JObj d \<Rightarrow> bindE (validate_task rt now (JObj d)) (\<lambda>t. Inr (Some t))
        | _ \<Rightarrow> Inl PyValueError))"

definition find_idempotent_result ::
  "pyrt \<Rightarrow> string \<Rightarrow> string option \<Rightarrow> string \<Rightarrow> task_event list \<Rightarrow> store_error + power_task option" where
  "find_idempotent_result rt now key command es =
     (case key of None \<Rightarrow> Inr None | Some k \<Rightarrow> find_replay rt now k command es)"

subsection \<open>Creation\<close>

text \<open>
  What an operation does: nothing but return the result of the earlier command, or save a task
  with its event and receipt.
\<close>

datatype task_plan = Replay power_task | Save power_task task_event "completion_receipt option"

definition created_event :: "store_env \<Rightarrow> create_args \<Rightarrow> power_task \<Rightarrow> task_event" where
  "created_event env a t = new_task_event (se_rt env) (se_now env) (se_millis env) (ca_task_id a) 1 (ca_actor a)
     ''task_created''
     [(''initial_state'', JStr (ca_state a)), (''title'', JStr (ca_title a)), (''owner'', JStr (ca_owner a)),
      (''idempotency_key'', jopt (ca_idempotency_key a)),
      (''command_sha256'', JStr (create_command (se_rt env) a)), (''result'', JObj (task_dump t))] []"

definition plan_create :: "store_env \<Rightarrow> filesystem \<Rightarrow> create_args \<Rightarrow> store_error + task_plan" where
  "plan_create env fs a =
     (let rt = se_rt env; now = se_now env; command = create_command rt a in
      bindE (get_task env fs (ca_task_id a)) (\<lambda>existing.
        case existing of
          Some _ \<Rightarrow>
            bindE (case ca_idempotency_key a of None \<Rightarrow> Inr None
                   | Some k \<Rightarrow> bindE (get_task_events env fs (ca_task_id a) 0 False) (\<lambda>es.
                       find_replay rt now k command es)) (\<lambda>replay.
              case replay of Some t \<Rightarrow> Inr (Replay t) | None \<Rightarrow> Inl ConflictError)
        | None \<Rightarrow>
            (case task_state_of (ca_state a) of
               None \<Rightarrow> Inl PyValueError
             | Some s \<Rightarrow>
                 bindE (mk_power_task (new_task now a s)) (\<lambda>t.
                 bindE (mk_task_event (created_event env a t)) (\<lambda>e.
                 Inr (Save t e None))))))"

definition run_plan ::
  "store_env \<Rightarrow> string \<Rightarrow> string option \<Rightarrow> string \<Rightarrow> store_error option \<Rightarrow>
   (filesystem \<Rightarrow> store_error + task_plan) \<Rightarrow> task_store \<Rightarrow> (store_error + power_task) \<times> task_store" where
  "run_plan env tx_id key command fault plan st = with_lock env (\<lambda>s. case plan (files s) of
       Inl e \<Rightarrow> (Inl e, s)
     | Inr (Replay t) \<Rightarrow> (Inr t, s)
     | Inr (Save t e receipt) \<Rightarrow>
         (case save_task env tx_id t (Some e) receipt key (Some command) fault s of
            (Inl err, s') \<Rightarrow> (Inl err, s')
          | (Inr _, s') \<Rightarrow> (Inr t, s'))) st"

definition create_task ::
  "store_env \<Rightarrow> string \<Rightarrow> store_error option \<Rightarrow> create_args \<Rightarrow> task_store \<Rightarrow>
   (store_error + power_task) \<times> task_store" where
  "create_task env tx_id fault a st =
     (if ca_state a \<in> {''completed'', ''failed'', ''canceled'', ''rejected''} then (Inl PyValueError, st)
      else if list_ex (\<lambda>(k, _). infra_key k) (ca_external_refs a) then (Inl PyPermissionError, st)
      else run_plan env tx_id (ca_idempotency_key a) (create_command (se_rt env) a) fault
             (\<lambda>fs. plan_create env fs a) st)"

subsection \<open>Transitions\<close>

record transition_args =
  ta_task_id :: string
  ta_new_state :: string
  ta_actor :: string
  ta_expected_revision :: "int option"
  ta_receipt_id :: "string option"
  ta_postcondition :: "string option"
  ta_artifact_refs :: "string list option"
  ta_idempotency_key :: "string option"
  ta_next_action :: "string option"
  ta_assignee :: "string option"
  ta_required_input :: "payload option"
  ta_open_gates :: "string list option"
  ta_error_ref :: "string option"
  ta_external_ref_updates :: "string dict option"
  ta_claim_key :: "string option"
  ta_claim_intent :: "string option"
  ta_projection :: bool
  ta_values :: "payload option"

definition jint_opt :: "int option \<Rightarrow> json" where
  "jint_opt x = (case x of None \<Rightarrow> JNull | Some i \<Rightarrow> JInt i)"

definition jstrs_opt :: "string list option \<Rightarrow> json" where
  "jstrs_opt x = (case x of None \<Rightarrow> JNull | Some xs \<Rightarrow> jstrs xs)"

definition jdict_opt :: "string dict option \<Rightarrow> json" where
  "jdict_opt x = (case x of None \<Rightarrow> JNull | Some d \<Rightarrow> jdict d)"

definition transition_command :: "pyrt \<Rightarrow> transition_args \<Rightarrow> string" where
  "transition_command rt a = command_fingerprint rt ''transition''
    [(''task_id'', JStr (ta_task_id a)), (''new_state'', JStr (ta_new_state a)),
     (''expected_revision'', jint_opt (ta_expected_revision a)), (''receipt_id'', jopt (ta_receipt_id a)),
     (''completion_postcondition'', jopt (ta_postcondition a)),
     (''completion_artifact_refs'', jstrs_opt (ta_artifact_refs a)), (''next_action'', jopt (ta_next_action a)),
     (''assignee'', jopt (ta_assignee a)), (''required_input'', jobj_opt (ta_required_input a)),
     (''open_gates'', jstrs_opt (ta_open_gates a)), (''error_ref'', jopt (ta_error_ref a)),
     (''external_ref_updates'', jdict_opt (ta_external_ref_updates a)),
     (''required_claim_key'', jopt (ta_claim_key a)),
     (''required_claim_intent_digest'', jopt (ta_claim_intent a)),
     (''allow_infra_projection'', JBool (ta_projection a)), (''values'', jobj_opt (ta_values a))]"

text \<open>The guards on the revision, the claim and the infrastructure references.\<close>

definition ref :: "power_task \<Rightarrow> string \<Rightarrow> string option" where
  "ref t k = map_of (pt_external_refs t) k"

definition claim_lost :: "transition_args \<Rightarrow> power_task \<Rightarrow> bool" where
  "claim_lost a t =
     ((ta_claim_key a \<noteq> None \<or> ta_claim_intent a \<noteq> None)
      \<and> (ta_claim_key a \<in> {None, Some []} \<or> ta_claim_intent a \<in> {None, Some []}
         \<or> ref t ''infra_claim_key_ref'' \<noteq> ta_claim_key a
         \<or> ref t ''infra_claim_intent_digest'' \<noteq> ta_claim_intent a))"

definition changes_refs :: "transition_args \<Rightarrow> bool" where
  "changes_refs a = ((case ta_values a of None \<Rightarrow> False | Some v \<Rightarrow> has_key ''external_refs'' v)
     \<or> ta_external_ref_updates a \<noteq> None)"

definition merge_refs :: "power_task \<Rightarrow> string dict \<Rightarrow> string dict" where
  "merge_refs t u = fold (\<lambda>(k, v) d. AList.update k v d) u (pt_external_refs t)"

text \<open>The keys of the references that the command would leave, when they form a dictionary.\<close>

definition candidate_ref_keys :: "transition_args \<Rightarrow> power_task \<Rightarrow> string list" where
  "candidate_ref_keys a t = (case ta_external_ref_updates a of
       Some u \<Rightarrow> map fst (merge_refs t u)
     | None \<Rightarrow> (case ta_values a of None \<Rightarrow> []
         | Some v \<Rightarrow> (case jget v ''external_refs'' of JObj d \<Rightarrow> map fst d | _ \<Rightarrow> [])))"

definition INFRA_VERIFY_REFS :: "string list" where
  "INFRA_VERIFY_REFS =
    [''infra_run_id'', ''infra_manifest_digest'', ''infra_profile_id'', ''infra_target_id'',
     ''infra_verify_receipt_id'', ''infra_verify_run_id'', ''infra_verify_manifest_digest'',
     ''infra_verify_profile_id'', ''infra_verify_target_id'']"

definition replication_unverified :: "power_task \<Rightarrow> bool" where
  "replication_unverified t =
     (ref t ''infra_verify_status'' \<noteq> Some ''inventory-matched''
      \<or> list_ex (\<lambda>k. ref t k \<in> {None, Some []}) INFRA_VERIFY_REFS
      \<or> (case ref t ''infra_verify_receipt_id'' of None \<Rightarrow> True | Some r \<Rightarrow> \<not> starts_with ''ir_'' r)
      \<or> ref t ''infra_verify_run_id'' \<noteq> ref t ''infra_run_id''
      \<or> ref t ''infra_verify_manifest_digest'' \<noteq> ref t ''infra_manifest_digest''
      \<or> ref t ''infra_verify_profile_id'' \<noteq> ref t ''infra_profile_id''
      \<or> ref t ''infra_verify_target_id'' \<noteq> ref t ''infra_target_id'')"

definition guard_transition :: "transition_args \<Rightarrow> power_task \<Rightarrow> store_error + unit" where
  "guard_transition a t =
     (if (case ta_expected_revision a of None \<Rightarrow> False | Some r \<Rightarrow> pt_revision t \<noteq> r) then Inl ConflictError
      else if claim_lost a t then Inl ConflictError
      else if ref t ''infra_claim_key_ref'' \<noteq> None \<and> changes_refs a \<and> \<not> ta_projection a
        then Inl PyPermissionError
      else if ref t ''infra_claim_key_ref'' \<noteq> None \<and> pt_execution_state t \<in> {''leased'', ''running''}
          \<and> terminal_str (ta_new_state a) \<and> \<not> ta_projection a then Inl ConflictError
      else if list_ex infra_key (candidate_ref_keys a t) \<and> \<not> ta_projection a then Inl PyPermissionError
      else if ta_new_state a = ''completed'' \<and> ref t ''infra_claim_key_ref'' \<noteq> None
          \<and> ref t ''infra_operation'' = Some ''replicate'' \<and> replication_unverified t
        then Inl PyPermissionError
      else Inr ())"

text \<open>The digests of the artifacts of a completion, keyed by their path in the vault.\<close>

definition artifact_digest ::
  "store_env \<Rightarrow> filesystem \<Rightarrow> string \<Rightarrow> string dict \<Rightarrow> store_error + string dict" where
  "artifact_digest env fs rel d =
     (if strip rel = [] then Inl PyValueError
      else if hd rel = CHR ''/'' \<or> CHR 0x5C \<in> set rel
           \<or> list_ex (\<lambda>w. w \<in> {[], ''.'', ''..''}) (path_parts rel) then Inl PyValueError
      else if path_parts rel = [] then Inl PyValueError
      else (case fs (path_parts rel) of
          None \<Rightarrow> Inl PyFileNotFound
        | Some c \<Rightarrow> Inr (AList.update (as_posix (path_parts rel)) (sha256_hex (se_rt env) c) d)))"

definition build_completion_receipt ::
  "store_env \<Rightarrow> filesystem \<Rightarrow> transition_args \<Rightarrow> power_task \<Rightarrow> store_error + completion_receipt" where
  "build_completion_receipt env fs a t =
     (case ta_postcondition a of
        None \<Rightarrow> Inl PyValueError
      | Some post \<Rightarrow>
          if strip post = [] then Inl PyValueError
          else
            let refs = (case ta_artifact_refs a of Some xs \<Rightarrow> xs | None \<Rightarrow> pt_artifact_refs t) in
            if refs = [] then Inl PyValueError
            else bindE (foldE (artifact_digest env fs) refs []) (\<lambda>artifacts.
              let post_sha = sha256_hex (se_rt env) (strip post);
                  rid = derive_receipt_id (se_rt env) (pt_task_id t) (pt_revision t + 1)
                    (pt_completion_policy t) post_sha artifacts (ta_actor a)
              in mk_receipt \<lparr>cr_receipt_id = rid, cr_task_id = pt_task_id t,
                   cr_task_revision = pt_revision t + 1, cr_completion_policy = pt_completion_policy t,
                   cr_postcondition_sha256 = post_sha, cr_artifact_digests = artifacts,
                   cr_actor = ta_actor a, cr_created_at = se_now env\<rparr>))"

definition completion_receipt_of ::
  "store_env \<Rightarrow> filesystem \<Rightarrow> transition_args \<Rightarrow> power_task \<Rightarrow> store_error + completion_receipt option" where
  "completion_receipt_of env fs a t =
     (if ta_new_state a \<noteq> ''completed'' then Inr None
      else if ta_expected_revision a = None then Inl PyValueError
      else (case ta_receipt_id a of
          Some rid \<Rightarrow>
            bindE (get_completion_receipt env fs rid) (\<lambda>found. case found of
                None \<Rightarrow> Inl PyValueError
              | Some r \<Rightarrow>
                  if cr_task_id r \<noteq> ta_task_id a \<or> cr_task_revision r \<noteq> pt_revision t + 1
                  then Inl PyValueError else Inr (Some r))
        | None \<Rightarrow> bindE (build_completion_receipt env fs a t) (\<lambda>r. Inr (Some r))))"

text \<open>\<open>PowerTask.validate_transition\<close>: a state that is no \<open>TaskState\<close> is not in the table.\<close>

definition check_task_transition :: "power_task \<Rightarrow> string \<Rightarrow> string option \<Rightarrow> store_error + task_state" where
  "check_task_transition t new_state receipt =
     (case task_state_of new_state of
        None \<Rightarrow> Inl PyValueError
      | Some s \<Rightarrow> bindE (value_error (validate_transition (pt_state t) (pt_receipt_ids t) s receipt)) (\<lambda>_. Inr s))"

text \<open>The assignments to the fields of the task, which are not validated.\<close>

definition assign_fields :: "string \<Rightarrow> transition_args \<Rightarrow> task_state \<Rightarrow> string option \<Rightarrow> power_task \<Rightarrow> power_task" where
  "assign_fields now a s receipt t =
     t\<lparr>pt_state := s, pt_revision := pt_revision t + 1, pt_updated_at := now,
       pt_receipt_ids := (case receipt of
           Some r \<Rightarrow> if r \<noteq> [] \<and> r \<notin> set (pt_receipt_ids t) then pt_receipt_ids t @ [r] else pt_receipt_ids t
         | None \<Rightarrow> pt_receipt_ids t),
       pt_next_action := (case ta_next_action a of None \<Rightarrow> pt_next_action t | Some x \<Rightarrow> x),
       pt_assignee := (case ta_assignee a of None \<Rightarrow> pt_assignee t | Some x \<Rightarrow> Some x),
       pt_required_input := (case ta_required_input a of None \<Rightarrow> pt_required_input t | Some x \<Rightarrow> Some x),
       pt_open_gates := (case ta_open_gates a of None \<Rightarrow> pt_open_gates t | Some x \<Rightarrow> x),
       pt_error_ref := (case ta_error_ref a of None \<Rightarrow> pt_error_ref t | Some x \<Rightarrow> Some x)\<rparr>"

definition MUTABLE_FIELDS :: "string list" where
  "MUTABLE_FIELDS =
    [''next_action'', ''assignee'', ''required_input'', ''open_gates'', ''error_ref'', ''artifact_refs'',
     ''external_refs'', ''max_attempts'', ''retry_at'', ''lease_owner'', ''lease_expires_at'',
     ''heartbeat_at'', ''execution_state'', ''dead_letter_reason'', ''due_at'']"

text \<open>The further values of the command, through the validation of the whole task.\<close>

definition apply_values :: "store_env \<Rightarrow> transition_args \<Rightarrow> power_task \<Rightarrow> store_error + power_task" where
  "apply_values env a t =
     (let values = (case ta_values a of None \<Rightarrow> [] | Some v \<Rightarrow> v);
          updates = (case ta_external_ref_updates a of None \<Rightarrow> [] | Some u \<Rightarrow> u);
          merged = (if updates = [] then []
                    else [(''external_refs'', jdict (merge_refs t updates))]);
          revalidate = (\<lambda>vs. validate_task (se_rt env) (se_now env)
            (JObj (fold (\<lambda>(k, v) d. AList.update k v d) vs (task_dump t))))
      in if values \<noteq> [] then
           if list_ex (\<lambda>(k, _). k \<notin> set MUTABLE_FIELDS) values then Inl PyValueError
           else revalidate (values @ merged)
         else if updates \<noteq> [] then revalidate merged
         else Inr t)"

text \<open>
  The identifier of the receipt that the command ends with: the one it was given, which is not compared
  with the one inside the receipt that was loaded, or the one of the receipt that was built; and its
  event.
\<close>

definition final_receipt_id :: "transition_args \<Rightarrow> completion_receipt option \<Rightarrow> string option" where
  "final_receipt_id a receipt =
     (case ta_receipt_id a of Some i \<Rightarrow> Some i | None \<Rightarrow> map_option cr_receipt_id receipt)"

definition transition_event ::
  "store_env \<Rightarrow> transition_args \<Rightarrow> power_task \<Rightarrow> power_task \<Rightarrow> completion_receipt option \<Rightarrow>
   task_event list \<Rightarrow> task_event" where
  "transition_event env a t u receipt es =
     new_task_event (se_rt env) (se_now env) (se_millis env) (ta_task_id a) (te_sequence (last es) + 1)
       (ta_actor a) ''state_transition''
       [(''from_state'', JStr (task_state_str (pt_state t))), (''to_state'', JStr (ta_new_state a)),
        (''receipt_id'', jopt (final_receipt_id a receipt)), (''next_action'', JStr (pt_next_action u)),
        (''idempotency_key'', jopt (ta_idempotency_key a)),
        (''command_sha256'', JStr (transition_command (se_rt env) a)), (''result'', JObj (task_dump u))]
       (te_payload_digest (last es))"

definition plan_transition :: "store_env \<Rightarrow> filesystem \<Rightarrow> transition_args \<Rightarrow> store_error + task_plan" where
  "plan_transition env fs a =
     (let rt = se_rt env; now = se_now env; command = transition_command rt a in
      bindE (get_task env fs (ta_task_id a)) (\<lambda>found.
      case found of None \<Rightarrow> Inl PyFileNotFound | Some t \<Rightarrow>
      bindE (get_task_events env fs (ta_task_id a) 0 False) (\<lambda>es.
      if es = [] then Inl TaskJournalIntegrityError else
      bindE (find_idempotent_result rt now (ta_idempotency_key a) command es) (\<lambda>replay.
      case replay of Some r \<Rightarrow> Inr (Replay r) | None \<Rightarrow>
      bindE (guard_transition a t) (\<lambda>_.
      bindE (completion_receipt_of env fs a t) (\<lambda>receipt.
      bindE (check_task_transition t (ta_new_state a) (final_receipt_id a receipt)) (\<lambda>s.
      bindE (apply_values env a (assign_fields now a s (final_receipt_id a receipt) t)) (\<lambda>u.
      bindE (mk_task_event (transition_event env a t u receipt es)) (\<lambda>e.
      Inr (Save u e receipt))))))))))"

definition transition_task ::
  "store_env \<Rightarrow> string \<Rightarrow> store_error option \<Rightarrow> transition_args \<Rightarrow> task_store \<Rightarrow>
   (store_error + power_task) \<times> task_store" where
  "transition_task env tx_id fault a st =
     run_plan env tx_id (ta_idempotency_key a) (transition_command (se_rt env) a) fault
       (\<lambda>fs. plan_transition env fs a) st"

end
