(* ===== verification/Store_Facts.thy ===== *)
theory Store_Facts
  imports Task_Files Recovery_Facts
begin

text \<open>
  Facts on the files of the task store (\<open>core/task_store.py\<close>): what the store writes it reads back,
  the lines and the chain of a journal, and the paths of a save, which are in the classes that the
  recovery allows for their labels.
\<close>

subsection \<open>Objects survive their dump\<close>

lemma list_all_jstrs [simp]: "list_all is_jstr (map JStr xs)"
  by (induction xs) (auto simp: is_jstr_def)

lemma fld_simps:
  "map_of d k = Some (JStr s) \<Longrightarrow> need_fld d k = Inr s"
  "map_of d k = Some (JStr s) \<Longrightarrow> str_fld d k v = Inr s"
  "map_of d k = Some (jopt x) \<Longrightarrow> opt_fld d k y = Inr x"
  "map_of d k = Some (jstrs xs) \<Longrightarrow> strs_fld d k = Inr xs"
  "map_of d k = Some (JInt i) \<Longrightarrow> int_fld rt d k n = Inr i"
  "map_of d k = Some (jdict e) \<Longrightarrow> dict_fld d k = Inr e"
  "map_of d k = Some (jobj_opt o') \<Longrightarrow> obj_fld d k = Inr o'"
  "map_of d k = Some (JStr (task_state_str s')) \<Longrightarrow> state_fld d k z = Inr s'"
proof -
  have "list_all (\<lambda>(_, v). is_jstr v) (map (\<lambda>(k, v). (k, JStr v)) e)"
    "map (\<lambda>(k, v). (k, jstr v)) (map (\<lambda>(k, v). (k, JStr v)) e) = e"
    by (induction e) (auto simp: is_jstr_def)
  then show "map_of d k = Some (jdict e) \<Longrightarrow> dict_fld d k = Inr e"
    by (simp add: dict_fld_def jdict_def)
qed (auto simp: need_fld_def str_fld_def opt_fld_def jopt_def strs_fld_def jstrs_def int_fld_def lax_int_def
    obj_fld_def jobj_opt_def state_fld_def split: option.splits)

lemma task_dump_wf: "dict_wf (task_dump t)"
  unfolding task_dump_def list.map fst_conv by code_simp

lemma task_dump_get:
  "map_of (task_dump t) ''task_id'' = Some (JStr (pt_task_id t))"
  "map_of (task_dump t) ''vault_id'' = Some (JStr (pt_vault_id t))"
  "map_of (task_dump t) ''tenant_id'' = Some (JStr (pt_tenant_id t))"
  "map_of (task_dump t) ''kind'' = Some (JStr (pt_kind t))"
  "map_of (task_dump t) ''title'' = Some (JStr (pt_title t))"
  "map_of (task_dump t) ''objective'' = Some (JStr (pt_objective t))"
  "map_of (task_dump t) ''owner'' = Some (JStr (pt_owner t))"
  "map_of (task_dump t) ''assignee'' = Some (jopt (pt_assignee t))"
  "map_of (task_dump t) ''state'' = Some (JStr (task_state_str (pt_state t)))"
  "map_of (task_dump t) ''priority'' = Some (JStr (pt_priority t))"
  "map_of (task_dump t) ''scope'' = Some (jstrs (pt_scope t))"
  "map_of (task_dump t) ''authority'' = Some (JStr (pt_authority t))"
  "map_of (task_dump t) ''dependencies'' = Some (jstrs (pt_dependencies t))"
  "map_of (task_dump t) ''source_revision'' = Some (JStr (pt_source_revision t))"
  "map_of (task_dump t) ''next_action'' = Some (JStr (pt_next_action t))"
  "map_of (task_dump t) ''open_gates'' = Some (jstrs (pt_open_gates t))"
  "map_of (task_dump t) ''required_input'' = Some (jobj_opt (pt_required_input t))"
  "map_of (task_dump t) ''artifact_refs'' = Some (jstrs (pt_artifact_refs t))"
  "map_of (task_dump t) ''receipt_ids'' = Some (jstrs (pt_receipt_ids t))"
  "map_of (task_dump t) ''external_refs'' = Some (jdict (pt_external_refs t))"
  "map_of (task_dump t) ''attempt'' = Some (JInt (pt_attempt t))"
  "map_of (task_dump t) ''max_attempts'' = Some (JInt (pt_max_attempts t))"
  "map_of (task_dump t) ''retry_at'' = Some (jopt (pt_retry_at t))"
  "map_of (task_dump t) ''lease_owner'' = Some (jopt (pt_lease_owner t))"
  "map_of (task_dump t) ''lease_expires_at'' = Some (jopt (pt_lease_expires_at t))"
  "map_of (task_dump t) ''heartbeat_at'' = Some (jopt (pt_heartbeat_at t))"
  "map_of (task_dump t) ''execution_state'' = Some (JStr (pt_execution_state t))"
  "map_of (task_dump t) ''error_ref'' = Some (jopt (pt_error_ref t))"
  "map_of (task_dump t) ''dead_letter_reason'' = Some (jopt (pt_dead_letter_reason t))"
  "map_of (task_dump t) ''revision'' = Some (JInt (pt_revision t))"
  "map_of (task_dump t) ''created_at'' = Some (JStr (pt_created_at t))"
  "map_of (task_dump t) ''updated_at'' = Some (JStr (pt_updated_at t))"
  "map_of (task_dump t) ''due_at'' = Some (jopt (pt_due_at t))"
  "map_of (task_dump t) ''completion_policy'' = Some (JStr (pt_completion_policy t))"
  by (rule map_of_is_SomeI [OF task_dump_wf],
      (unfold task_dump_def list.set)[1], (rule insertI1 | rule insertI2)+)+

lemma read_task_dump: "read_power_task rt now (task_dump t) = Inr t"
  by (simp add: read_power_task_def fld_simps task_dump_get)

lemma validate_task_dump:
  assumes "task_ok t"
  shows "validate_task rt now (JObj (task_dump t)) = Inr t"
proof -
  have "list_all (\<lambda>(k, _). k \<in> set TASK_FIELDS) (task_dump t)"
    by (simp add: task_dump_def TASK_FIELDS_def)
  then show ?thesis using assms by (simp add: validate_task_def read_task_dump mk_power_task_def)
qed

lemma validate_event_dump:
  assumes "event_ok e"
  shows "validate_task_event rt now (JObj (task_event_dump e)) = Inr e"
proof -
  have "list_all (\<lambda>(k, _). k \<in> set TASK_EVENT_FIELDS) (task_event_dump e)"
    by (simp add: task_event_dump_def TASK_EVENT_FIELDS_def)
  moreover have "read_task_event rt now (task_event_dump e) = Inr e"
    by (simp add: read_task_event_def task_event_dump_def need_fld_def str_fld_def int_fld_def lax_int_def)
  ultimately show ?thesis using assms by (simp add: validate_task_event_def mk_task_event_def)
qed

subsection \<open>Lines of a journal\<close>

text \<open>A text without a line boundary.\<close>

definition line_safe :: "string \<Rightarrow> bool" where
  "line_safe s = list_all (\<lambda>i. line_break (drop i s) = 0) [0..<length s]"

lemma line_safe_Cons: "line_safe (c # s) \<longleftrightarrow> line_break (c # s) = 0 \<and> line_safe s"
  by (auto simp: line_safe_def list_all_iff upt_conv_Cons simp del: upt_Suc)
    (metis Suc_less_eq Suc_le_mono atLeastLessThan_iff drop_Suc_Cons image_Suc_atLeastLessThan le0 nat.exhaust
      not_less_eq_eq set_upt drop0)+

lemma line_break_before_newline:
  assumes "line_break (c # s) = 0"
  shows "line_break (c # s @ CHR 0x0A # r) = 0"
  using assms by (cases s; cases "tl s") (auto simp: line_break_def split: if_splits)

lemma line_break_newline: "line_break (CHR 0x0A # r) = 1"
  by (simp add: line_break_def)

lemma split_lines_line:
  "line_safe s \<Longrightarrow> split_lines acc (s @ CHR 0x0A # r) = (rev acc @ s) # split_lines [] r"
proof (induction s arbitrary: acc)
  case Nil
  show ?case by (simp add: line_break_newline)
next
  case (Cons c s)
  then have "line_break (c # s) = 0" "line_safe s" by (simp_all add: line_safe_Cons)
  then show ?case using Cons.IH [of "c # acc"] line_break_before_newline [of c s r] by simp
qed

definition event_text :: "store_env \<Rightarrow> task_event \<Rightarrow> string" where
  "event_text env e = json_line (se_rt env) (JObj (task_event_dump e))"

definition journal_text :: "store_env \<Rightarrow> task_event list \<Rightarrow> string" where
  "journal_text env es = concat (map (event_line env) es)"

lemma journal_text_snoc: "journal_text env (es @ [e]) = journal_text env es @ event_line env e"
  by (simp add: journal_text_def)

lemma splitlines_journal:
  "list_all (\<lambda>e. line_safe (event_text env e)) es \<Longrightarrow>
   splitlines (journal_text env es) = map (event_text env) es"
proof (induction es)
  case (Cons e es)
  have "splitlines (journal_text env (e # es)) =
      split_lines [] (event_text env e @ CHR 0x0A # journal_text env es)"
    by (simp add: splitlines_def journal_text_def event_line_def event_text_def)
  then show ?case using Cons split_lines_line [of "event_text env e" "[]"] by (simp add: splitlines_def)
qed (simp add: splitlines_def journal_text_def)

lemma event_text_nonblank: "strip (event_text env e) \<noteq> []"
proof -
  have "event_text env e = CHR ''{'' # json_line_items (se_rt env) (task_event_dump e) @ ''}''"
    by (simp add: event_text_def)
  then have "\<exists>c \<in> set (event_text env e). \<not> is_space c"
    by (auto simp: is_space_def)
  then show ?thesis by (simp add: strip_Nil_iff)
qed

subsection \<open>Verified journals\<close>

text \<open>The texts that the store reads back as the values it wrote.\<close>

definition reads_back :: "store_env \<Rightarrow> string \<Rightarrow> payload \<Rightarrow> bool" where
  "reads_back env text d = (length text \<le> MAX_TASK_STATE_BYTES \<and> se_loads env text = Some (JObj d))"

definition event_durable :: "store_env \<Rightarrow> task_event \<Rightarrow> bool" where
  "event_durable env e = (event_ok e \<and> line_safe (event_text env e)
     \<and> se_loads env (event_text env e) = Some (JObj (task_event_dump e)))"

definition task_durable :: "store_env \<Rightarrow> power_task \<Rightarrow> bool" where
  "task_durable env t = (task_ok t \<and> reads_back env (snapshot_text env t) (task_dump t))"

text \<open>The chain of a journal, from a number and a digest on.\<close>

fun chained :: "pyrt \<Rightarrow> string \<Rightarrow> int \<Rightarrow> string \<Rightarrow> task_event list \<Rightarrow> bool" where
  "chained rt tid n prev [] = True"
| "chained rt tid n prev (e # es) =
     (te_task_id e = tid \<and> te_sequence e = n \<and> te_prev_event_digest e = prev
      \<and> te_payload_digest e = canonical_payload_digest rt (te_payload e)
      \<and> chained rt tid (n + 1) (te_payload_digest e) es)"

lemma chained_snoc:
  "chained rt tid n prev (es @ [e]) \<longleftrightarrow> chained rt tid n prev es
     \<and> te_task_id e = tid \<and> te_sequence e = n + int (length es)
     \<and> te_prev_event_digest e = (if es = [] then prev else te_payload_digest (last es))
     \<and> te_payload_digest e = canonical_payload_digest rt (te_payload e)"
  by (induction rt tid n prev es rule: chained.induct) auto

lemma chained_sequence:
  "chained rt tid n prev es \<Longrightarrow> es \<noteq> [] \<Longrightarrow> te_sequence (last es) = n + int (length es) - 1"
  by (induction rt tid n prev es rule: chained.induct) auto

lemma chained_lower: "chained rt tid n prev es \<Longrightarrow> e \<in> set es \<Longrightarrow> n \<le> te_sequence e"
  by (induction rt tid n prev es rule: chained.induct) auto

lemma scan_journal_sound: "scan_journal env tid n prev ls = Inr es \<Longrightarrow> chained (se_rt env) tid n prev es"
proof (induction env tid n prev ls arbitrary: es rule: scan_journal.induct)
  case (2 env tid n prev l ls)
  then show ?case
    by (auto simp: bindE_eq_Inr split: if_splits sum.splits option.splits)
qed simp

lemma scan_journal_complete:
  "list_all (event_durable env) es \<Longrightarrow> chained (se_rt env) tid n prev es \<Longrightarrow>
   scan_journal env tid n prev (map (event_text env) es) = Inr es"
proof (induction es arbitrary: n prev)
  case (Cons e es)
  then show ?case by (auto simp: event_text_nonblank event_durable_def validate_event_dump)
qed simp

subsection \<open>Stored tasks\<close>

definition stored :: "store_env \<Rightarrow> filesystem \<Rightarrow> string \<Rightarrow> power_task \<Rightarrow> task_event list \<Rightarrow> bool" where
  "stored env fs tid t es =
     (pt_task_id t = tid \<and> task_durable env t \<and> fs (task_file tid) = Some (snapshot_text env t)
      \<and> es \<noteq> [] \<and> list_all (event_durable env) es \<and> chained (se_rt env) tid 1 [] es
      \<and> length (journal_text env es) \<le> MAX_TASK_STATE_BYTES
      \<and> fs (events_file tid) = Some (journal_text env es))"

lemma stored_id: "stored env fs tid t es \<Longrightarrow> re_task_id tid"
  by (auto simp: stored_def task_durable_def task_ok_def)

lemma get_task_durable:
  assumes "task_durable env t" "fs (task_file (pt_task_id t)) = Some (snapshot_text env t)"
  shows "get_task env fs (pt_task_id t) = Inr (Some t)"
  using assms
  by (simp add: get_task_def with_task_id_def task_durable_def task_ok_def [THEN iffD1] read_json_def
      reads_back_def read_secure_bounded validate_task_dump)

lemma get_task_stored: "stored env fs tid t es \<Longrightarrow> get_task env fs tid = Inr (Some t)"
  using get_task_durable by (auto simp: stored_def)

lemma get_events_text:
  assumes "re_task_id tid" "fs (events_file tid) = Some (journal_text env es)" "es \<noteq> []"
    "list_all (event_durable env) es" "chained (se_rt env) tid 1 [] es"
    "length (journal_text env es) \<le> MAX_TASK_STATE_BYTES"
  shows "get_task_events env fs tid since missing = Inr (filter (\<lambda>e. since < te_sequence e) es)"
proof -
  have "list_all (\<lambda>e. line_safe (event_text env e)) es"
    using assms(4) by (auto simp: list_all_iff event_durable_def)
  then have lines: "splitlines (journal_text env es) = map (event_text env) es" by (rule splitlines_journal)
  obtain e es' where e: "es = e # es'" using assms(3) by (cases es) auto
  have "set (event_text env e) \<subseteq> set (journal_text env es)"
    by (auto simp: e journal_text_def event_line_def event_text_def)
  then have "strip (journal_text env es) \<noteq> []"
    using event_text_nonblank [of env e] unfolding strip_Nil_iff by blast
  then show ?thesis
    using assms lines scan_journal_complete [OF assms(4,5)]
    by (simp add: get_task_events_def with_task_id_def Let_def read_secure_bounded)
qed

lemma get_events_stored:
  assumes "stored env fs tid t es"
  shows "get_task_events env fs tid 0 missing = Inr es"
proof -
  have "filter (\<lambda>e. 0 < te_sequence e) es = es"
    using chained_lower [of "se_rt env" tid 1 "[]" es] assms
    by (force simp: stored_def filter_id_conv)
  then show ?thesis
    using get_events_text [of tid fs env es 0 missing] stored_id [OF assms] assms by (simp add: stored_def)
qed

subsection \<open>The touched files of a save\<close>

lemma re_label_chars: "re_label n s \<Longrightarrow> s \<noteq> [] \<and> CHR ''/'' \<notin> set s"
  by (cases s) (auto simp: re_label_def list_all_iff id_char_def is_alnum_def is_lower_def is_upper_def is_digit_def)

lemma digit_char: "is_digit (char_of (48 + n mod 10 :: nat))"
proof -
  have "n mod 10 < 10" by simp
  then show ?thesis by (simp add: is_digit_def Let_def)
qed

lemma nat_str_is_digits: "nat_str n \<noteq> [] \<and> list_all is_digit (nat_str n)"
proof (induction n rule: nat_str.induct)
  case (1 n)
  then show ?case
    using digit_char [of n] by (cases "n < 10") (simp_all add: nat_str.simps [of n])
qed

lemma int_str_is_digits: "0 \<le> i \<Longrightarrow> int_str i \<noteq> [] \<and> list_all is_digit (int_str i)"
  by (simp add: int_str_def nat_str_is_digits)

lemma is_digit_id_char: "is_digit c \<Longrightarrow> id_char c \<and> c \<noteq> CHR ''/''"
  by (auto simp: id_char_def is_alnum_def is_digit_def)

lemma ends_with_append [simp]: "ends_with (s @ w) w"
  by (simp add: ends_with_def)

lemma removesuffix_append [simp]: "removesuffix (s @ w) w = s"
  by (simp add: removesuffix_def)

definition name_char :: "char \<Rightarrow> bool" where
  "name_char c = (c \<noteq> CHR ''/'' \<and> c \<noteq> CHR 0x5C \<and> \<not> control_char c)"

lemma id_char_name_char: "id_char c \<Longrightarrow> name_char c"
  by (auto simp: id_char_def is_alnum_def is_digit_def is_lower_def is_upper_def name_char_def
      control_char_def Let_def)

lemma set_join: "set (join_with d ws) \<subseteq> insert d (\<Union> (set ` set ws))"
  by (induction d ws rule: join_with.induct) auto

lemma hd_join: "ws \<noteq> [] \<Longrightarrow> hd ws \<noteq> [] \<Longrightarrow> hd (join_with d ws) = hd (hd ws)"
  by (cases ws; cases "tl ws") (auto simp: hd_append)

text \<open>A path of names is read back by the recovery.\<close>

lemma recovery_path_names:
  assumes "p \<noteq> []" and names: "list_all (\<lambda>w. w \<notin> {[], ''.'', ''..''} \<and> list_all name_char w) p"
  shows "proper_path p" "recovery_path (JStr (as_posix p)) = Inr p"
proof -
  show proper: "proper_path p"
    using names by (auto simp: proper_path_def list_all_iff name_char_def)
  have chars: "c \<in> set (as_posix p) \<Longrightarrow> c \<noteq> CHR 0x5C \<and> \<not> control_char c" for c
    using set_join [of "CHR ''/''" p] names assms(1)
    by (auto simp: as_posix_def list_all_iff name_char_def control_char_def)
  obtain w ws where w: "p = w # ws" "w \<noteq> []" "CHR ''/'' \<notin> set w"
    using assms by (cases p) (auto simp: list_all_iff name_char_def)
  have "hd (as_posix p) = hd w" "as_posix p \<noteq> []"
    using hd_join [of p "CHR ''/''"] w by (cases ws; simp add: as_posix_def)+
  moreover have "hd w \<noteq> CHR ''/''" using w by (cases w) auto
  ultimately show "recovery_path (JStr (as_posix p)) = Inr p"
    using chars names path_parts_as_posix [OF proper]
    by (auto simp: recovery_path_def list_ex_iff list_all_iff)
qed

lemma tasks_relative_root [simp]: "tasks_relative (tasks_root @ r) = Some r"
  by (simp add: tasks_relative_def tasks_root_def)

lemma re_label_names: "re_label n s \<Longrightarrow> s \<noteq> [] \<and> list_all name_char s"
  using id_char_name_char
  by (cases s) (auto simp: re_label_def list_all_iff id_char_def)

lemma allowed_tasks_file:
  assumes "re_label 63 label" "map_of RECOVERY_OPERATION_LABELS op = Some labels" "label \<in> set labels"
    and "tasks_file_allowed op label r"
    and names: "list_all (\<lambda>w. w \<notin> {[], ''.'', ''..''} \<and> list_all name_char w) r"
  shows "proper_path (tasks_root @ r)"
    "allowed_recovery_path (JStr label) (JStr (as_posix (tasks_root @ r))) (JStr op) = Inr (tasks_root @ r)"
proof -
  have root: "list_all (\<lambda>w. w \<notin> {[], ''.'', ''..''} \<and> list_all name_char w) tasks_root"
    by code_simp
  have "list_all (\<lambda>w. w \<notin> {[], ''.'', ''..''} \<and> list_all name_char w) (tasks_root @ r)"
    using root names by simp
  note p = recovery_path_names [OF _ this]
  show "proper_path (tasks_root @ r)" by (rule p(1)) (simp add: tasks_root_def)
  have "recovery_path (JStr (as_posix (tasks_root @ r))) = Inr (tasks_root @ r)"
    by (rule p(2)) (simp add: tasks_root_def)
  then show "allowed_recovery_path (JStr label) (JStr (as_posix (tasks_root @ r))) (JStr op) = Inr (tasks_root @ r)"
    unfolding allowed_path_iff using assms(1-4) by (auto simp: file_class_def)
qed

text \<open>The operations whose transactions save a task.\<close>

definition task_operation :: "string \<Rightarrow> bool" where
  "task_operation op = (op \<in> {''task_created'', ''migrated_from_v1'', ''state_transition''})"

lemma task_operation_labels:
  "task_operation op \<Longrightarrow>
   map_of RECOVERY_OPERATION_LABELS op = Some [''snapshot'', ''event'', ''checkpoint'', ''receipt'']"
  by (auto simp: task_operation_def RECOVERY_OPERATION_LABELS_def)

lemma save_label: "label \<in> {''snapshot'', ''event'', ''checkpoint'', ''receipt''} \<Longrightarrow> re_label 63 label"
proof -
  have "list_all (re_label 63) [''snapshot'', ''event'', ''checkpoint'', ''receipt'']" by code_simp
  then show "label \<in> {''snapshot'', ''event'', ''checkpoint'', ''receipt''} \<Longrightarrow> re_label 63 label" by auto
qed

lemma suffix_names:
  "list_all name_char ''.json''" "list_all name_char ''.jsonl''" "list_all name_char ''_seq_''"
  "list_all name_char ''events''" "list_all name_char ''checkpoints''" "list_all name_char ''receipts''"
  by code_simp+

lemma removesuffix_other: "removesuffix (s @ ''.jsonl'') ''.json'' = s @ ''.jsonl''"
  by (auto simp: removesuffix_def ends_with_def)

lemma ends_withE:
  assumes "ends_with s w"
  obtains u where "s = u @ w"
  using assms that [of "take (length s - length w) s"] by (metis append_take_drop_id ends_with_def)

lemma removesuffix_last:
  assumes "s = [] \<or> last s \<noteq> CHR ''l''"
  shows "removesuffix s ''.jsonl'' = s"
proof (cases "ends_with s ''.jsonl''")
  case True
  then obtain u where "s = u @ ''.jsonl''" by (rule ends_withE)
  then show ?thesis using assms by simp
qed (simp add: removesuffix_def)

lemma re_label_removesuffix:
  assumes "re_label n s"
  shows "re_label n (removesuffix s ''.jsonl'')"
proof (cases "ends_with s ''.jsonl''")
  case True
  then obtain u where u: "s = u @ ''.jsonl''" by (rule ends_withE)
  have "\<not> is_alnum (CHR ''.'')" by code_simp
  then show ?thesis using assms unfolding u removesuffix_append by (cases u) (auto simp: re_label_def)
qed (simp add: removesuffix_def assms)

lemma is_hex_not_l: "\<not> is_hex (CHR ''l'')" "\<not> is_digit (CHR ''l'')"
  by code_simp+

lemma is_hex_name_char: "is_hex c \<Longrightarrow> name_char c"
  by (rule id_char_name_char) (auto simp: is_hex_def id_char_def is_alnum_def is_lower_def Let_def)

lemma re_checkpointI:
  assumes "re_label 127 s" "ds \<noteq> []" "list_all is_digit ds"
  shows "re_checkpoint (s @ ''_seq_'' @ ds)"
  unfolding re_checkpoint_def list_ex_iff
  by (rule bexI [of _ "length s"]) (use assms in \<open>auto simp: take_Cons' drop_Cons'\<close>)

text \<open>Every file of a save is in the class of its label.\<close>

lemma save_files_allowed:
  assumes op: "task_operation op" and tid: "re_task_id tid"
  shows "proper_path (task_file tid)"
    "allowed_recovery_path (JStr ''snapshot'') (JStr (as_posix (task_file tid))) (JStr op) = Inr (task_file tid)"
    "proper_path (events_file tid)"
    "allowed_recovery_path (JStr ''event'') (JStr (as_posix (events_file tid))) (JStr op) = Inr (events_file tid)"
    "te_task_id e = tid \<Longrightarrow> 0 \<le> te_sequence e \<Longrightarrow> proper_path (checkpoint_file e)"
    "te_task_id e = tid \<Longrightarrow> 0 \<le> te_sequence e \<Longrightarrow>
       allowed_recovery_path (JStr ''checkpoint'') (JStr (as_posix (checkpoint_file e))) (JStr op)
         = Inr (checkpoint_file e)"
    "re_tcr rid \<Longrightarrow> proper_path (receipt_file rid)"
    "re_tcr rid \<Longrightarrow> allowed_recovery_path (JStr ''receipt'') (JStr (as_posix (receipt_file rid))) (JStr op)
       = Inr (receipt_file rid)"
proof -
  note allowed = allowed_tasks_file [OF save_label task_operation_labels [OF op]]
  have label: "re_label 127 tid" using tid by (simp add: re_task_id_def)
  have names: "tid \<noteq> []" "list_all name_char tid" using re_label_names [OF label] by auto
  have "tasks_file_allowed op ''snapshot'' [tid @ ''.json'']"
    using re_label_removesuffix [OF label] by (simp add: tasks_file_allowed_def rel_name_def)
  then show "proper_path (task_file tid)"
    "allowed_recovery_path (JStr ''snapshot'') (JStr (as_posix (task_file tid))) (JStr op) = Inr (task_file tid)"
    unfolding task_file_def using names suffix_names
    by (intro allowed; auto)+
  have "tasks_file_allowed op ''event'' [''events'', tid @ ''.jsonl'']"
    using label by (simp add: tasks_file_allowed_def rel_name_def removesuffix_other)
  then show "proper_path (events_file tid)"
    "allowed_recovery_path (JStr ''event'') (JStr (as_posix (events_file tid))) (JStr op) = Inr (events_file tid)"
    unfolding events_file_def using names suffix_names
    by (intro allowed; auto)+
  {
    assume e: "te_task_id e = tid" "0 \<le> te_sequence e"
    let ?x = "tid @ ''_seq_'' @ int_str (te_sequence e)"
    have digits: "int_str (te_sequence e) \<noteq> []" "list_all is_digit (int_str (te_sequence e))"
      using int_str_is_digits [OF e(2)] by auto
    then have "is_digit (last ?x)" by (simp add: list_all_iff)
    then have "removesuffix (removesuffix (?x @ ''.json'') ''.json'') ''.jsonl'' = ?x"
      using is_hex_not_l(2) by (subst removesuffix_append) (metis removesuffix_last)
    then have "tasks_file_allowed op ''checkpoint'' [''checkpoints'', ?x @ ''.json'']"
      using re_checkpointI [OF label digits] ends_with_append [of ?x "''.json''"]
      by (simp add: tasks_file_allowed_def rel_name_def)
    moreover have "list_all name_char (int_str (te_sequence e))"
      using digits(2) id_char_name_char is_digit_id_char by (auto simp: list_all_iff)
    ultimately show "proper_path (checkpoint_file e)"
      "allowed_recovery_path (JStr ''checkpoint'') (JStr (as_posix (checkpoint_file e))) (JStr op)
         = Inr (checkpoint_file e)"
      unfolding checkpoint_file_def e(1) using names suffix_names by (intro allowed; simp)+
  }
  {
    assume rid: "re_tcr rid"
    define h where "h = drop 4 rid"
    have "take 4 rid = ''tcr_''" "re_hash h" using rid by (simp_all add: re_tcr_def re_receipt_def h_def)
    then have h: "rid = ''tcr_'' @ h" "re_hash h"
      using append_take_drop_id [of 4 rid] by (simp_all add: h_def)
    have "h \<noteq> []" "list_all is_hex h" using h(2) by (auto simp: re_hash_def)
    then have "is_hex (last rid)" by (simp add: h(1) list_all_iff)
    then have "removesuffix (removesuffix (rid @ ''.json'') ''.json'') ''.jsonl'' = rid"
      using is_hex_not_l(1) by (subst removesuffix_append) (metis removesuffix_last)
    then have "tasks_file_allowed op ''receipt'' [''receipts'', rid @ ''.json'']"
      using op rid by (auto simp: tasks_file_allowed_def rel_name_def task_operation_def re_tcr_def)
    moreover have "list_all name_char ''tcr_''" by code_simp
    moreover have "list_all name_char h"
      using \<open>list_all is_hex h\<close> is_hex_name_char by (simp add: list_all_iff)
    ultimately have "tasks_file_allowed op ''receipt'' [''receipts'', rid @ ''.json'']"
      "list_all name_char rid" "rid \<noteq> []" by (simp_all add: h(1))
    then show "proper_path (receipt_file rid)"
      "allowed_recovery_path (JStr ''receipt'') (JStr (as_posix (receipt_file rid))) (JStr op)
         = Inr (receipt_file rid)"
      unfolding receipt_file_def using suffix_names by (intro allowed; simp)+
  }
qed

end
