(* ===== verification/Service_Facts.thy ===== *)
theory Service_Facts
  imports Task_Service Store_Facts
begin

text \<open>
  Facts on the task service: nested acquisitions of the writer lock, the effect of a save and of a
  command on the files, the fields that a command cannot change, and saves that succeed.
\<close>

subsection \<open>The writer lock\<close>

definition usable :: "task_store \<Rightarrow> bool" where
  "usable st = (\<not> recovery_blocked st \<and> tx_dir st = [] \<and> held st = no_locks \<and> lock_depth st = 0)"

text \<open>The store inside \<open>n\<close> acquisitions of the lock.\<close>

definition task_locks :: "nat \<Rightarrow> lock_state" where
  "task_locks n = \<lparr>held_levels = replicate n LEVEL_TASK, held_projects = []\<rparr>"

definition locked :: "nat \<Rightarrow> task_store \<Rightarrow> task_store" where
  "locked n st = st\<lparr>held := task_locks n, recovered := True, lock_depth := n\<rparr>"

lemma locked_simps [simp]:
  "files (locked n st) = files st" "tx_dir (locked n st) = tx_dir st"
  "recovery_log (locked n st) = recovery_log st" "recovery_blocked (locked n st) = recovery_blocked st"
  "recovered (locked n st)" "lock_depth (locked n st) = n" "held (locked n st) = task_locks n"
  by (simp_all add: locked_def)

lemma no_locks_eq: "no_locks = task_locks 0"
  by (simp add: task_locks_def no_locks_def)

lemma locked_0: "usable st \<Longrightarrow> usable (locked 0 st)"
  by (simp add: usable_def no_locks_eq)

lemma push_task_level: "push_level LEVEL_TASK None (task_locks n) = Inr (task_locks (Suc n))"
proof -
  have "replicate (Suc n) LEVEL_TASK = replicate n LEVEL_TASK @ [LEVEL_TASK]"
    by (simp add: replicate_append_same)
  then show ?thesis
    by (cases n) (simp_all add: task_locks_def push_level_def LEVEL_TASK_def LEVEL_PROJECT_def set_replicate_conv_if)
qed

lemma pop_task_level: "pop_level LEVEL_TASK (task_locks (Suc n)) = task_locks n"
proof -
  have "replicate (Suc n) LEVEL_TASK = replicate n LEVEL_TASK @ [LEVEL_TASK]"
    by (simp add: replicate_append_same)
  then show ?thesis
    by (simp add: task_locks_def pop_level_def LEVEL_PROJECT_def LEVEL_TASK_def del: replicate_Suc)
qed

lemma lock_steps:
  "(locked n st)\<lparr>held := task_locks (Suc n), lock_depth := Suc n\<rparr> = locked (Suc n) st"
  "(locked (Suc n) st)\<lparr>lock_depth := n, held := task_locks n\<rparr> = locked n st"
  by (cases st; simp add: locked_def)+

lemma with_lock_locked:
  assumes "0 < n" "\<not> recovery_blocked st" "body (locked (Suc n) st) = (r, locked (Suc n) st')"
  shows "with_lock env body (locked n st) = (r, locked n st')"
  using assms by (simp add: with_lock_def push_task_level pop_task_level lock_steps Let_def)

lemma with_lock_usable:
  assumes "usable st" "body (locked 1 st) = (r, locked 1 st')"
  shows "with_lock env body st = (r, locked 0 st')"
proof -
  have start: "st\<lparr>held := task_locks (Suc 0), recovered := True, lock_depth := Suc 0\<rparr> = locked 1 st"
    by (simp add: locked_def)
  have recover: "recover env (st\<lparr>held := task_locks (Suc 0)\<rparr>) = ([], st\<lparr>held := task_locks (Suc 0)\<rparr>)"
    using assms(1) by (simp add: recover_def usable_def)
  show ?thesis
    using assms
    by (simp add: with_lock_def usable_def no_locks_eq push_task_level pop_task_level recover start
        lock_steps(2) [of 0 st'] Let_def)
qed

lemma transaction_locked_commutes:
  "transaction_locked env tx_id op key command touched fault writes exit (locked n st) =
     map_prod id (locked n) (transaction_locked env tx_id op key command touched fault writes exit st)"
  by (simp add: transaction_locked_def locked_def put_tx_def remove_tx_def Let_def
      split: prod.splits option.splits body_exit.splits)

subsection \<open>The effect of a save\<close>

lemma transaction_effect:
  assumes labels: "well_labelled touched" and st: "tx_dir st = []"
    and scope: "\<And>p. p \<notin> fst ` set touched \<Longrightarrow> run_writes writes (files st) p = files st p"
    and "exit \<noteq> Interrupted"
    and run: "transaction_locked env tx_id op key command touched fault writes exit st = (out, st')"
  shows "out \<noteq> Interrupted \<and> (out \<noteq> Returns \<longrightarrow> files st' = files st)
    \<and> (out = Returns \<longrightarrow> exit = Returns \<and> files st' = run_writes writes (files st) \<and> tx_dir st' = []
         \<and> recovery_blocked st' = recovery_blocked st)"
proof (cases "take_preimages (se_rt env) op (files st) touched [] []")
  case (fields failed baks items)
  show ?thesis
  proof (cases failed)
    case (Some e)
    then show ?thesis using run fields by (auto simp: transaction_locked_def put_tx_simps)
  next
    case None
    with fields have saved: "take_preimages (se_rt env) op (files st) touched [] [] = (None, baks, items)" by simp
    have undone: "rollback_tx (se_rt env) (mk_manifest env tx_id op key command ''prepared'' items) baks
        (run_writes writes (files st)) = (None, files st)"
      by (rule transaction_undo [OF labels saved scope])
    let ?posts = "mapE (postimage_item env (JStr op) (run_writes writes (files st))) items"
    consider e where "fault = Some e" | e where "fault = None" "exit = Returns" "?posts = Inl e"
      | posts where "fault = None" "exit = Returns" "?posts = Inr posts" | e where "fault = None" "exit = Raises e"
      using assms(4) by (cases fault; cases exit; cases ?posts) auto
    then show ?thesis
      by cases (use run st in \<open>auto simp: transaction_locked_def saved Let_def put_tx_simps undone remove_tx_def\<close>)
  qed
qed

text \<open>The writes of an append: what it takes back, and what it leaves.\<close>

lemma append_body_writes:
  assumes "append_body env fs e = Inr (ws, err)"
  shows "(err \<noteq> None \<and> ws \<in> {restore_writes fs e, append_write env fs e # restore_writes fs e})
    \<or> (err = None \<and> ws = [append_write env fs e])
    \<or> (err = None \<and> te_sequence e mod 5 = 0 \<and> (\<exists>t. ws = [append_write env fs e, checkpoint_write env e t]))"
  using assms unfolding append_body_def bindE_eq_Inr
  by (auto split: sum.splits option.splits if_splits)

lemma append_body_scope:
  assumes "append_body env fs e = Inr (ws, err)"
    and "p \<noteq> events_file (te_task_id e)" "te_sequence e mod 5 = 0 \<Longrightarrow> p \<noteq> checkpoint_file e"
  shows "run_writes ws fs p = fs p"
proof -
  have "run_writes (restore_writes fs e) g p = (if p = checkpoint_file e then fs p else g p)" for g
    using assms(2) by (simp add: run_writes_def restore_writes_def)
  moreover have "run_writes (append_write env fs e # w) fs p = run_writes w (run_writes [append_write env fs e] fs) p" for w
    by (simp add: run_writes_def)
  moreover have "run_writes [append_write env fs e] fs p = fs p"
    using assms(2) by (simp add: run_writes_def append_write_def)
  moreover have "te_sequence e mod 5 = 0 \<Longrightarrow> run_writes [checkpoint_write env e t] g p = g p" for t g
    using assms(3) by (simp add: run_writes_def checkpoint_write_def)
  ultimately show ?thesis using append_body_writes [OF assms(1)] by auto
qed

lemma object_writes_scope:
  "p \<notin> fst ` set (save_touched t event receipt) \<Longrightarrow> run_writes (object_writes env t receipt) fs p = fs p"
  by (rule run_writes_outside) (auto simp: save_touched_def object_writes_def split: option.splits)

lemma save_body_scope:
  assumes "p \<notin> fst ` set (save_touched t event receipt)"
  shows "run_writes (fst (save_body env fs t event receipt)) fs p = fs p"
proof (cases event)
  case None
  then show ?thesis using object_writes_scope [OF assms] by (simp add: save_body_def)
next
  case (Some e)
  let ?fs = "run_writes (object_writes env t receipt) fs"
  have ne: "p \<noteq> events_file (te_task_id e)" "te_sequence e mod 5 = 0 \<Longrightarrow> p \<noteq> checkpoint_file e"
    using assms Some by (auto simp: save_touched_def)
  show ?thesis
  proof (cases "append_body env ?fs e")
    case (Inl err)
    then show ?thesis using Some object_writes_scope [OF assms] by (simp add: save_body_def)
  next
    case (Inr r)
    obtain ws err where r: "r = (ws, err)" by (cases r)
    have "run_writes ws ?fs p = fs p"
      using append_body_scope [of env ?fs e ws err] Inr r ne object_writes_scope [OF assms] by simp
    then show ?thesis using Some Inr r by (cases err) (simp_all add: save_body_def run_writes_append)
  qed
qed

lemma save_body_exit: "snd (save_body env fs t event receipt) \<noteq> Interrupted"
  by (auto simp: save_body_def Let_def split: option.splits sum.splits)

lemma save_touched_labelled:
  assumes "re_task_id (pt_task_id t)" "\<And>e. event = Some e \<Longrightarrow> te_task_id e = pt_task_id t \<and> 0 \<le> te_sequence e"
    and "\<And>r. receipt = Some r \<Longrightarrow> re_tcr (cr_receipt_id r)"
  shows "well_labelled (save_touched t event receipt)"
proof -
  have op: "task_operation ''task_created''" by (simp add: task_operation_def)
  note proper = save_files_allowed(1,3,5,7) [OF op assms(1)]
  show ?thesis
    using proper assms(2,3) unfolding well_labelled_def save_touched_def
    by (cases event; cases receipt) auto
qed

lemma transaction_level:
  assumes "0 < n" "\<not> recovery_blocked st"
    and "transaction_locked env tx_id op key command touched fault writes exit st = (out, st')"
  shows "transaction env tx_id op key command touched fault writes exit (locked n st) = (Inr out, locked n st')"
  unfolding transaction_def
  by (rule with_lock_locked [OF assms(1,2)]) (simp add: transaction_locked_commutes assms(3))

lemma check_saveD:
  assumes "check_save env fs t (Some e) receipt = Inr ()"
  shows "re_task_id (pt_task_id t)" "te_task_id e = pt_task_id t"
    and "receipt = Some r \<Longrightarrow> re_tcr (cr_receipt_id r) \<and> cr_task_id r = pt_task_id t
      \<and> cr_task_revision r = pt_revision t"
  using assms by (auto simp: check_save_def with_task_id_def bindE_eq_Inr split: if_splits option.splits)

lemma save_task_effect:
  assumes n: "0 < n" and st: "\<not> recovery_blocked st" "tx_dir st = []" and e: "0 \<le> te_sequence e"
  obtains r st' where
    "save_task env tx_id t (Some e) receipt key command fault (locked n st) = (r, locked n st')"
    "\<And>err. r = Inl err \<Longrightarrow> files st' = files st"
    "r = Inr () \<Longrightarrow> check_save env (files st) t (Some e) receipt = Inr ()
       \<and> snd (save_body env (files st) t (Some e) receipt) = Returns
       \<and> files st' = run_writes (fst (save_body env (files st) t (Some e) receipt)) (files st)
       \<and> tx_dir st' = [] \<and> \<not> recovery_blocked st'"
proof (cases "check_save env (files st) t (Some e) receipt")
  case (Inl err)
  show thesis
    by (rule that [of "Inl err" st]) (auto simp: save_task_def Inl intro!: with_lock_locked [OF n st(1)])
next
  case (Inr u)
  then have check: "check_save env (files st) t (Some e) receipt = Inr ()" by simp
  obtain writes exit where body: "save_body env (files st) t (Some e) receipt = (writes, exit)"
    by (rule prod.exhaust)
  let ?touched = "save_touched t (Some e) receipt"
  obtain out st' where run: "transaction_locked env tx_id (te_event_type e) key command ?touched fault writes exit st
      = (out, st')" by (rule prod.exhaust)
  have labels: "well_labelled ?touched"
    by (rule save_touched_labelled) (use check_saveD [OF check] e in auto)
  have scope: "run_writes writes (files st) p = files st p" if "p \<notin> fst ` set ?touched" for p
    using save_body_scope [OF that, of env "files st"] by (simp add: body)
  have "exit \<noteq> Interrupted" using save_body_exit [of env "files st" t "Some e" receipt] by (simp add: body)
  note effect = transaction_effect [OF labels st(2) scope this run]
  have "save_task env tx_id t (Some e) receipt key command fault (locked n st)
      = (case out of Returns \<Rightarrow> Inr () | Raises err \<Rightarrow> Inl err | Interrupted \<Rightarrow> Inl OtherError, locked n st')"
    unfolding save_task_def
    by (rule with_lock_locked [OF n st(1)])
      (simp add: check body transaction_level [OF _ st(1) run] as_result_def split: body_exit.split)
  then show thesis
    by (rule that) (use effect st(1) check body in \<open>auto split: body_exit.splits\<close>)
qed

subsection \<open>The effect of a command\<close>

lemma run_plan_effect:
  assumes st: "usable st" and e: "\<And>t e r. plan (files st) = Inr (Save t e r) \<Longrightarrow> 0 \<le> te_sequence e"
    and run: "run_plan env tx_id key command fault plan st = (result, st')"
  shows "\<And>err. result = Inl err \<Longrightarrow> files st' = files st"
    and "result = Inr t \<Longrightarrow>
      (plan (files st) = Inr (Replay t) \<and> files st' = files st \<and> usable st')
      \<or> (\<exists>e r. plan (files st) = Inr (Save t e r)
           \<and> check_save env (files st) t (Some e) r = Inr ()
           \<and> snd (save_body env (files st) t (Some e) r) = Returns
           \<and> files st' = run_writes (fst (save_body env (files st) t (Some e) r)) (files st) \<and> usable st')"
proof -
  have "(\<forall>err. result = Inl err \<longrightarrow> files st' = files st) \<and>
    (\<forall>t. result = Inr t \<longrightarrow>
      (plan (files st) = Inr (Replay t) \<and> files st' = files st \<and> usable st')
      \<or> (\<exists>e r. plan (files st) = Inr (Save t e r)
           \<and> check_save env (files st) t (Some e) r = Inr ()
           \<and> snd (save_body env (files st) t (Some e) r) = Returns
           \<and> files st' = run_writes (fst (save_body env (files st) t (Some e) r)) (files st) \<and> usable st'))"
  proof (cases "plan (files st)")
    case (Inl err)
    have "run_plan env tx_id key command fault plan st = (Inl err, locked 0 st)"
      unfolding run_plan_def by (rule with_lock_usable [OF st]) (simp add: Inl)
    then show ?thesis using run by auto
  next
    case (Inr p)
    show ?thesis
    proof (cases p)
      case (Replay t)
      have "run_plan env tx_id key command fault plan st = (Inr t, locked 0 st)"
        unfolding run_plan_def by (rule with_lock_usable [OF st]) (simp add: Inr Replay)
      then show ?thesis using run Inr Replay locked_0 [OF st] by auto
    next
      case (Save t e receipt)
      obtain r s where save: "save_task env tx_id t (Some e) receipt key (Some command) fault (locked 1 st)
          = (r, locked 1 s)"
        and fail: "\<And>err. r = Inl err \<Longrightarrow> files s = files st"
        and ok: "r = Inr () \<Longrightarrow> check_save env (files st) t (Some e) receipt = Inr ()
           \<and> snd (save_body env (files st) t (Some e) receipt) = Returns
           \<and> files s = run_writes (fst (save_body env (files st) t (Some e) receipt)) (files st)
           \<and> tx_dir s = [] \<and> \<not> recovery_blocked s"
        using save_task_effect [of 1 st e env tx_id t receipt key "Some command" fault] st e Inr Save
        unfolding usable_def by (metis zero_less_one)
      have "run_plan env tx_id key command fault plan st =
          (case r of Inl err \<Rightarrow> Inl err | Inr _ \<Rightarrow> Inr t, locked 0 s)"
        unfolding run_plan_def
        by (rule with_lock_usable [OF st]) (use save in \<open>simp add: Inr Save split: sum.split\<close>)
      moreover have "r = Inr () \<Longrightarrow> usable (locked 0 s)" using ok by (simp add: usable_def no_locks_eq)
      ultimately show ?thesis using run fail ok Inr Save by (cases r) auto
    qed
  qed
  then show "\<And>err. result = Inl err \<Longrightarrow> files st' = files st"
    "result = Inr t \<Longrightarrow>
      (plan (files st) = Inr (Replay t) \<and> files st' = files st \<and> usable st')
      \<or> (\<exists>e r. plan (files st) = Inr (Save t e r)
           \<and> check_save env (files st) t (Some e) r = Inr ()
           \<and> snd (save_body env (files st) t (Some e) r) = Returns
           \<and> files st' = run_writes (fst (save_body env (files st) t (Some e) r)) (files st) \<and> usable st')"
    by blast+
qed

lemma plan_create_sequence: "plan_create env fs a = Inr (Save t e r) \<Longrightarrow> 0 \<le> te_sequence e"
  by (auto simp: plan_create_def Let_def bindE_eq_Inr mk_task_event_def event_ok_def
      split: option.splits if_splits)

lemma plan_transition_sequence: "plan_transition env fs a = Inr (Save t e r) \<Longrightarrow> 0 \<le> te_sequence e"
  by (auto simp: plan_transition_def Let_def bindE_eq_Inr mk_task_event_def event_ok_def
      split: option.splits if_splits)

subsection \<open>The files after a save\<close>

lemma paths_differ [simp]:
  "task_file a \<noteq> events_file b" "events_file b \<noteq> task_file a"
  "task_file a \<noteq> checkpoint_file e" "checkpoint_file e \<noteq> task_file a"
  "task_file a \<noteq> receipt_file r" "receipt_file r \<noteq> task_file a"
  "events_file a \<noteq> checkpoint_file e" "checkpoint_file e \<noteq> events_file a"
  "events_file a \<noteq> receipt_file r" "receipt_file r \<noteq> events_file a"
  "checkpoint_file e \<noteq> receipt_file r" "receipt_file r \<noteq> checkpoint_file e"
  by (simp_all add: task_file_def events_file_def checkpoint_file_def receipt_file_def)

lemma paths_same [simp]:
  "task_file a = task_file b \<longleftrightarrow> a = b" "events_file a = events_file b \<longleftrightarrow> a = b"
  "receipt_file r = receipt_file s \<longleftrightarrow> r = s"
  by (simp_all add: task_file_def events_file_def receipt_file_def)

lemma saved_files:
  assumes "snd (save_body env fs t (Some e) receipt) = Returns" "te_task_id e = pt_task_id t"
  defines "fs' \<equiv> run_writes (fst (save_body env fs t (Some e) receipt)) fs"
  shows "fs' (task_file (pt_task_id t)) = Some (snapshot_text env t)"
    "fs' (events_file (pt_task_id t)) =
       Some ((case fs (events_file (pt_task_id t)) of None \<Rightarrow> [] | Some c \<Rightarrow> c) @ event_line env e)"
    "receipt = Some r \<Longrightarrow> fs' (receipt_file (cr_receipt_id r)) = Some (receipt_text env r)"
proof -
  let ?fs = "run_writes (object_writes env t receipt) fs"
  obtain ws where ws: "append_body env ?fs e = Inr (ws, None)"
    and fs': "fs' = run_writes ws ?fs"
    using assms(1) unfolding fs'_def
    by (auto simp: save_body_def Let_def run_writes_append split: sum.splits option.splits)
  have first: "?fs (task_file (pt_task_id t)) = Some (snapshot_text env t)"
    "?fs (events_file (pt_task_id t)) = fs (events_file (pt_task_id t))"
    "receipt = Some r \<Longrightarrow> ?fs (receipt_file (cr_receipt_id r)) = Some (receipt_text env r)"
    by (cases receipt; simp add: object_writes_def run_writes_def)+
  consider "ws = [append_write env ?fs e]" | u where "ws = [append_write env ?fs e, checkpoint_write env e u]"
    using append_body_writes [OF ws] by auto
  then show "fs' (task_file (pt_task_id t)) = Some (snapshot_text env t)"
    "fs' (events_file (pt_task_id t)) =
       Some ((case fs (events_file (pt_task_id t)) of None \<Rightarrow> [] | Some c \<Rightarrow> c) @ event_line env e)"
    "receipt = Some r \<Longrightarrow> fs' (receipt_file (cr_receipt_id r)) = Some (receipt_text env r)"
    using first assms(2)
    by (cases; simp add: fs' run_writes_def append_write_def checkpoint_write_def)+
qed

subsection \<open>Stored tasks after a save\<close>

lemma stored_after_save:
  assumes "stored env fs tid t es" and u: "pt_task_id u = tid" "task_durable env u"
    and body: "snd (save_body env fs u (Some e) receipt) = Returns"
    and e: "event_durable env e" "chained (se_rt env) tid 1 [] (es @ [e])"
    and size: "length (journal_text env (es @ [e])) \<le> MAX_TASK_STATE_BYTES"
  shows "stored env (run_writes (fst (save_body env fs u (Some e) receipt)) fs) tid u (es @ [e])"
proof -
  have "te_task_id e = pt_task_id u" using e(2) u(1) by (simp add: chained_snoc)
  note files = saved_files [OF body this]
  have "fs (events_file tid) = Some (journal_text env es)" using assms(1) by (simp add: stored_def)
  then show ?thesis
    using files(1,2) assms by (simp add: stored_def journal_text_snoc)
qed

lemma stored_first:
  assumes "fs (events_file tid) = None" "pt_task_id u = tid" "task_durable env u"
    and body: "snd (save_body env fs u (Some e) receipt) = Returns"
    and "event_durable env e" "chained (se_rt env) tid 1 [] [e]"
    and "length (journal_text env [e]) \<le> MAX_TASK_STATE_BYTES"
  shows "stored env (run_writes (fst (save_body env fs u (Some e) receipt)) fs) tid u [e]"
proof -
  have "te_task_id e = pt_task_id u" using assms by simp
  note files = saved_files [OF body this]
  then show ?thesis using files(1,2) assms by (simp add: stored_def journal_text_def)
qed

text \<open>
  What the service relies on: an item with its journal, which reads give back as the last commit
  left them. A guard on the version of the item then refuses whoever read an earlier one.
\<close>

locale journalled_item =
  fixes holds :: "'s \<Rightarrow> 'a \<Rightarrow> 'e list \<Rightarrow> bool"
    and fetch :: "'s \<Rightarrow> 'x + 'a option"
    and history :: "'s \<Rightarrow> 'x + 'e list"
    and commit :: "'a \<Rightarrow> 'e \<Rightarrow> 's \<Rightarrow> 's \<Rightarrow> bool"
    and extends :: "'e list \<Rightarrow> 'e \<Rightarrow> bool"
  assumes fetch_held: "holds s a es \<Longrightarrow> fetch s = Inr (Some a)"
    and history_held: "holds s a es \<Longrightarrow> history s = Inr es"
    and commit_holds: "holds s a es \<Longrightarrow> commit b e s t \<Longrightarrow> extends es e \<Longrightarrow> holds t b (es @ [e])"
begin

lemma commit_read:
  assumes "holds s a es" "commit b e s t" "extends es e"
  shows "fetch t = Inr (Some b)" "history t = Inr (es @ [e])"
  using commit_holds [OF assms] fetch_held history_held by blast+

lemma stale_version:
  assumes "holds s a es" "commit b e s t" "extends es e" "version b \<noteq> version a" "fetch t = Inr (Some c)"
  shows "version c \<noteq> version a"
  using commit_read(1) [OF assms(1-3)] assms(4,5) by simp

end

definition committed ::
  "store_env \<Rightarrow> string \<Rightarrow> power_task \<Rightarrow> task_event \<Rightarrow> filesystem \<Rightarrow> filesystem \<Rightarrow> bool" where
  "committed env tid u e fs fs' =
     (pt_task_id u = tid \<and> task_durable env u \<and> event_durable env e
      \<and> (\<exists>receipt. snd (save_body env fs u (Some e) receipt) = Returns
           \<and> fs' = run_writes (fst (save_body env fs u (Some e) receipt)) fs)
      \<and> (\<forall>c. fs' (events_file tid) = Some c \<longrightarrow> length c \<le> MAX_TASK_STATE_BYTES))"

interpretation task_files: journalled_item "\<lambda>fs. stored env fs tid" "\<lambda>fs. get_task env fs tid"
  "\<lambda>fs. get_task_events env fs tid 0 missing" "committed env tid"
  "\<lambda>es e. chained (se_rt env) tid 1 [] (es @ [e])" for env tid missing
proof unfold_locales
  fix fs t es u e fs'
  assume s: "stored env fs tid t es" and c: "committed env tid u e fs fs'"
    and chain: "chained (se_rt env) tid 1 [] (es @ [e])"
  obtain receipt where body: "snd (save_body env fs u (Some e) receipt) = Returns"
    and fs': "fs' = run_writes (fst (save_body env fs u (Some e) receipt)) fs"
    using c unfolding committed_def by blast
  have u: "pt_task_id u = tid" "task_durable env u" "event_durable env e"
    using c by (simp_all add: committed_def)
  have "te_task_id e = pt_task_id u" using chain u by (simp add: chained_snoc)
  then have "fs' (events_file tid) = Some (journal_text env (es @ [e]))"
    using saved_files(2) [OF body] s u by (simp add: fs' journal_text_snoc stored_def)
  then have "length (journal_text env (es @ [e])) \<le> MAX_TASK_STATE_BYTES"
    using c by (simp add: committed_def)
  then show "stored env fs' tid u (es @ [e])"
    unfolding fs' by (rule stored_after_save [OF s u(1,2) body u(3) chain])
qed (simp_all add: get_task_stored get_events_stored)

text \<open>The clock does not matter for what is stored.\<close>

definition at_time :: "string \<Rightarrow> string \<Rightarrow> store_env \<Rightarrow> store_env" where
  "at_time now millis env = env\<lparr>se_now := now, se_millis := millis\<rparr>"

lemma at_time_simps [simp]:
  "se_rt (at_time now millis env) = se_rt env" "se_loads (at_time now millis env) = se_loads env"
  "se_now (at_time now millis env) = now" "se_millis (at_time now millis env) = millis"
  by (simp_all add: at_time_def)

lemma texts_at_time [simp]:
  "snapshot_text (at_time now millis env) = snapshot_text env"
  "event_line (at_time now millis env) = event_line env"
  "event_text (at_time now millis env) = event_text env"
  "receipt_text (at_time now millis env) = receipt_text env"
  by (simp_all only: fun_eq_iff snapshot_text_def event_line_def event_text_def receipt_text_def at_time_simps
      simp_thms)

lemma durable_at_time [simp]:
  "event_durable (at_time now millis env) = event_durable env"
  "task_durable (at_time now millis env) = task_durable env"
  by (simp_all add: fun_eq_iff event_durable_def task_durable_def reads_back_def)

lemma stored_at_time [simp]: "stored (at_time now millis env) fs tid t es = stored env fs tid t es"
  by (simp add: stored_def journal_text_def)

subsection \<open>Fields that a command cannot change\<close>

lemma read_power_taskD:
  assumes "read_power_task rt now d = Inr u"
  shows "need_fld d ''task_id'' = Inr (pt_task_id u)" "state_fld d ''state'' Backlog = Inr (pt_state u)"
    "int_fld rt d ''revision'' 1 = Inr (pt_revision u)" "strs_fld d ''receipt_ids'' = Inr (pt_receipt_ids u)"
  using assms unfolding read_power_task_def bindE_eq_Inr by auto

lemma map_of_fold_update:
  "k \<notin> fst ` set vs \<Longrightarrow> map_of (fold (\<lambda>(k, v) d. AList.update k v d) vs d) k = map_of d k"
  by (induction vs arbitrary: d) (auto simp: update_conv')

lemma fld_cong:
  "map_of d k = map_of e k \<Longrightarrow> need_fld d k = need_fld e k"
  "map_of d k = map_of e k \<Longrightarrow> state_fld d k s = state_fld e k s"
  "map_of d k = map_of e k \<Longrightarrow> int_fld rt d k n = int_fld rt e k n"
  "map_of d k = map_of e k \<Longrightarrow> strs_fld d k = strs_fld e k"
  by (simp_all add: need_fld_def state_fld_def int_fld_def strs_fld_def)

lemma revalidated_fields:
  assumes v: "validate_task rt now (JObj (fold (\<lambda>(k, v) d. AList.update k v d) vs (task_dump t))) = Inr u"
    and vs: "fst ` set vs \<inter> {''task_id'', ''state'', ''revision'', ''receipt_ids''} = {}"
  shows "pt_task_id u = pt_task_id t \<and> pt_state u = pt_state t \<and> pt_revision u = pt_revision t
    \<and> pt_receipt_ids u = pt_receipt_ids t \<and> task_ok u"
proof -
  let ?d = "fold (\<lambda>(k, v) d. AList.update k v d) vs (task_dump t)"
  have r: "read_power_task rt now ?d = Inr u" "task_ok u"
    using v by (auto simp: validate_task_def bindE_eq_Inr value_error_eq_Inr mk_power_task_def split: if_splits)
  note kept = map_of_fold_update [of _ vs "task_dump t"]
  have "map_of ?d ''task_id'' = map_of (task_dump t) ''task_id''"
    "map_of ?d ''state'' = map_of (task_dump t) ''state''"
    "map_of ?d ''revision'' = map_of (task_dump t) ''revision''"
    "map_of ?d ''receipt_ids'' = map_of (task_dump t) ''receipt_ids''"
    by (rule kept; use vs in blast)+
  note same = this [unfolded task_dump_get]
  show ?thesis
    using read_power_taskD [OF r(1)] fld_simps(1) [OF same(1)] fld_simps(8) [OF same(2)]
      fld_simps(5) [OF same(3)] fld_simps(4) [OF same(4)] r(2) by simp
qed

lemma mutable_not_fixed:
  "set MUTABLE_FIELDS \<inter> {''task_id'', ''state'', ''revision'', ''receipt_ids''} = {}"
  by (simp add: MUTABLE_FIELDS_def)

lemma apply_values_fields:
  assumes "apply_values env a t = Inr u"
  shows "pt_task_id u = pt_task_id t \<and> pt_state u = pt_state t \<and> pt_revision u = pt_revision t
    \<and> pt_receipt_ids u = pt_receipt_ids t"
proof -
  define updates where "updates = (case ta_external_ref_updates a of None \<Rightarrow> [] | Some u \<Rightarrow> u)"
  define given where "given = (case ta_values a of None \<Rightarrow> [] | Some v \<Rightarrow> v)"
  define merged where "merged = (if updates = [] then [] else [(''external_refs'', jdict (merge_refs t updates))])"
  have m: "fst ` set merged \<inter> {''task_id'', ''state'', ''revision'', ''receipt_ids''} = {}"
    by (simp add: merged_def)
  have "u = t \<or> (\<exists>vs. fst ` set vs \<inter> {''task_id'', ''state'', ''revision'', ''receipt_ids''} = {} \<and>
      validate_task (se_rt env) (se_now env) (JObj (fold (\<lambda>(k, v) d. AList.update k v d) vs (task_dump t))) = Inr u)"
  proof (cases "given = []")
    case True
    note unfolded = assms [unfolded apply_values_def, folded updates_def given_def, unfolded Let_def True]
    show ?thesis
    proof (cases "updates = []")
      case False
      let ?vs = "[(''external_refs'', jdict (merge_refs t updates))]"
      have "validate_task (se_rt env) (se_now env) (JObj (fold (\<lambda>(k, v) d. AList.update k v d) ?vs (task_dump t))) = Inr u"
        using unfolded False by simp
      moreover have "fst ` set ?vs \<inter> {''task_id'', ''state'', ''revision'', ''receipt_ids''} = {}" by simp
      ultimately show ?thesis by blast
    qed (use unfolded in simp)
  next
    case False
    then have "\<not> list_ex (\<lambda>(k, _). k \<notin> set MUTABLE_FIELDS) given"
      and v: "validate_task (se_rt env) (se_now env)
        (JObj (fold (\<lambda>(k, v) d. AList.update k v d) (given @ merged) (task_dump t))) = Inr u"
      using assms unfolding apply_values_def updates_def [symmetric] given_def [symmetric]
      by (simp_all add: Let_def merged_def split: if_splits)
    then have "fst ` set given \<subseteq> set MUTABLE_FIELDS" by (auto simp: list_ex_iff)
    then have "fst ` set (given @ merged) \<inter> {''task_id'', ''state'', ''revision'', ''receipt_ids''} = {}"
      using m mutable_not_fixed by (simp add: image_Un) blast
    then show ?thesis using v by blast
  qed
  then show ?thesis using revalidated_fields by metis
qed

subsection \<open>Saves that succeed\<close>

lemma take_preimages_total:
  assumes "\<forall>(p, l) \<in> set ts. re_label 63 l \<and> (\<exists>q. allowed_recovery_path (JStr l) (JStr (as_posix p)) (JStr op) = Inr q)
      \<and> bounded_file (fs p)"
  shows "\<exists>baks' items'. take_preimages rt op fs ts baks items = (None, baks', items')"
  using assms
proof (induction ts arbitrary: baks items)
  case (Cons t ts)
  obtain p l where t: "t = (p, l)" by (cases t)
  then have "recovery_label (JStr l) = Inr l" "read_image fs p = Inr (fs p)"
    using Cons.prems by (auto simp: recovery_label_Inr read_image_bounded)
  moreover obtain q where "allowed_recovery_path (JStr l) (JStr (as_posix p)) (JStr op) = Inr q"
    using Cons.prems t by auto
  ultimately show ?case using Cons by (simp add: t)
qed simp

lemma posts_total:
  assumes "\<forall>(p, l) \<in> set ts. (\<exists>q. allowed_recovery_path (JStr l) (JStr (as_posix p)) (JStr op) = Inr q \<and> bounded_file (fs q))"
  shows "\<exists>posts. mapE (postimage_item env (JStr op) fs) (items_of rt fs0 ts) = Inr posts"
  using assms
proof (induction ts)
  case (Cons t ts)
  obtain p l where t: "t = (p, l)" by (cases t)
  obtain q where q: "allowed_recovery_path (JStr l) (JStr (as_posix p)) (JStr op) = Inr q" "bounded_file (fs q)"
    using Cons.prems t by auto
  then have "\<exists>x. postimage_item env (JStr op) fs (manifest_item rt l p (fs0 p)) = Inr x"
    by (simp add: postimage_item_def read_image_bounded)
  then show ?case using Cons by (auto simp: t items_of_def)
qed (simp add: items_of_def)

lemma transaction_succeeds:
  assumes "\<forall>(p, l) \<in> set touched. re_label 63 l \<and> allowed_recovery_path (JStr l) (JStr (as_posix p)) (JStr op) = Inr p
      \<and> bounded_file (files st p) \<and> bounded_file (run_writes writes (files st) p)"
    and "tx_dir st = []"
  shows "transaction_locked env tx_id op key command touched None writes Returns st
    = (Returns, st\<lparr>files := run_writes writes (files st)\<rparr>)"
proof -
  obtain baks items where saved: "take_preimages (se_rt env) op (files st) touched [] [] = (None, baks, items)"
    using take_preimages_total [of touched op "files st" "se_rt env" "[]" "[]"] assms(1) by blast
  have "items = items_of (se_rt env) (files st) touched" using take_preimages_items [OF saved] by simp
  then obtain posts where "mapE (postimage_item env (JStr op) (run_writes writes (files st))) items = Inr posts"
    using posts_total [of touched op "run_writes writes (files st)" env "se_rt env" "files st"] assms(1) by blast
  then show ?thesis
    using assms(2) by (simp add: transaction_locked_def saved put_tx_def remove_tx_def Let_def)
qed

lemma save_body_succeeds:
  assumes "stored env fs tid t es \<or> fs (events_file tid) = None \<and> es = []"
    and u: "pt_task_id u = tid" "re_task_id tid" "te_sequence e mod 5 = 0 \<Longrightarrow> task_durable env u"
    and e: "te_task_id e = tid" "es \<noteq> [] \<Longrightarrow> te_sequence (last es) < te_sequence e"
    and size: "length (journal_text env (es @ [e])) \<le> MAX_TASK_STATE_BYTES" "bounded_file (fs (checkpoint_file e))"
  shows "save_body env fs u (Some e) receipt = (object_writes env u receipt
    @ [append_write env (run_writes (object_writes env u receipt) fs) e]
    @ (if te_sequence e mod 5 = 0 then [checkpoint_write env e u] else []), Returns)"
proof -
  let ?fs = "run_writes (object_writes env u receipt) fs"
  note tid = u(2)
  have same: "?fs (events_file tid) = fs (events_file tid)" "?fs (checkpoint_file e) = fs (checkpoint_file e)"
    by (cases receipt; simp add: object_writes_def run_writes_def)+
  have "bounded_file (fs (events_file tid)) \<and> get_task_events env ?fs tid 0 True = Inr es"
  proof (cases "fs (events_file tid) = None \<and> es = []")
    case True
    then show ?thesis using same tid by (simp add: bounded_file_def get_task_events_def with_task_id_def Let_def)
  next
    case False
    then have s: "stored env fs tid t es" using assms(1) by blast
    have "filter (\<lambda>e. 0 < te_sequence e) es = es"
      using chained_lower [of "se_rt env" tid 1 "[]" es] s by (force simp: stored_def filter_id_conv)
    then show ?thesis
      using get_events_text [of tid ?fs env es 0 True] tid same s by (simp add: stored_def bounded_file_def)
  qed
  moreover have "get_task env (run_writes [append_write env ?fs e] ?fs) tid = Inr (Some u)"
    if "te_sequence e mod 5 = 0"
    using get_task_durable [OF u(3) [OF that], of "run_writes [append_write env ?fs e] ?fs"] u(1) e(1)
    by (cases receipt; simp add: object_writes_def run_writes_def append_write_def)
  ultimately have "append_body env ?fs e = Inr ([append_write env ?fs e]
      @ (if te_sequence e mod 5 = 0 then [checkpoint_write env e u] else []), None)"
    using e same size(2) by (auto simp: append_body_def read_image_bounded)
  then show ?thesis by (simp add: save_body_def Let_def)
qed

lemma saved_bounded:
  assumes "snd (save_body env fs u (Some e) receipt) = Returns" "te_task_id e = pt_task_id u"
    and "length (snapshot_text env u) \<le> MAX_TASK_STATE_BYTES"
    and "length ((case fs (events_file (pt_task_id u)) of None \<Rightarrow> [] | Some c \<Rightarrow> c) @ event_line env e) \<le> MAX_TASK_STATE_BYTES"
    and "\<And>r. receipt = Some r \<Longrightarrow> length (receipt_text env r) \<le> MAX_TASK_STATE_BYTES"
    and "fst (save_body env fs u (Some e) receipt) = object_writes env u receipt
      @ [append_write env (run_writes (object_writes env u receipt) fs) e]
      @ (if te_sequence e mod 5 = 0 then [checkpoint_write env e u] else [])"
    and p: "p \<in> fst ` set (save_touched u (Some e) receipt)"
  shows "bounded_file (run_writes (fst (save_body env fs u (Some e) receipt)) fs p)"
proof -
  note files = saved_files [OF assms(1,2)]
  have cp: "te_sequence e mod 5 = 0 \<Longrightarrow>
      run_writes (fst (save_body env fs u (Some e) receipt)) fs (checkpoint_file e) = Some (snapshot_text env u)"
    by (simp add: assms(6) run_writes_append) (simp add: run_writes_def checkpoint_write_def)
  from p consider "p = task_file (pt_task_id u)" | "p = events_file (pt_task_id u)"
    | "p = checkpoint_file e" "te_sequence e mod 5 = 0" | r where "receipt = Some r" "p = receipt_file (cr_receipt_id r)"
    using assms(2) by (auto simp: save_touched_def split: option.splits if_splits)
  then show ?thesis
    using files(1,2) cp assms(3,4) files(3) assms(5) by cases (simp_all add: bounded_file_def)
qed

lemma save_touched_allowed:
  assumes "task_operation op" "re_task_id (pt_task_id u)" "te_task_id e = pt_task_id u" "0 \<le> te_sequence e"
    and "\<And>r. receipt = Some r \<Longrightarrow> re_tcr (cr_receipt_id r)"
  shows "\<forall>(p, l) \<in> set (save_touched u (Some e) receipt).
    re_label 63 l \<and> allowed_recovery_path (JStr l) (JStr (as_posix p)) (JStr op) = Inr p"
proof -
  note allowed = save_files_allowed [OF assms(1,2)]
  show ?thesis
    using allowed assms(3-5) save_label by (cases receipt) (auto simp: save_touched_def)
qed

subsection \<open>Accepted commands\<close>

lemma run_plan_refused:
  assumes "usable st" "plan (files st) = Inl e"
  shows "run_plan env tx_id key command fault plan st = (Inl e, locked 0 st)"
  unfolding run_plan_def by (rule with_lock_usable [OF assms(1)]) (simp add: assms(2))

lemma run_plan_replayed:
  assumes "usable st" "plan (files st) = Inr (Replay t)"
  shows "run_plan env tx_id key command fault plan st = (Inr t, locked 0 st)"
  unfolding run_plan_def by (rule with_lock_usable [OF assms(1)]) (simp add: assms(2))

lemma run_plan_saved:
  assumes st: "usable st" and plan: "plan (files st) = Inr (Save u e receipt)"
    and check: "check_save env (files st) u (Some e) receipt = Inr ()" and seq: "0 \<le> te_sequence e"
    and op: "task_operation (te_event_type e)"
    and body: "save_body env (files st) u (Some e) receipt = (writes, Returns)"
    and bounded: "\<And>p. p \<in> fst ` set (save_touched u (Some e) receipt) \<Longrightarrow>
      bounded_file (files st p) \<and> bounded_file (run_writes writes (files st) p)"
  shows "run_plan env tx_id key command None plan st
      = (Inr u, locked 0 (st\<lparr>files := run_writes writes (files st)\<rparr>))"
    and "usable (locked 0 (st\<lparr>files := run_writes writes (files st)\<rparr>))"
proof -
  let ?st = "st\<lparr>files := run_writes writes (files st)\<rparr>"
  have open': "\<not> recovery_blocked st" "tx_dir st = []" using st by (simp_all add: usable_def)
  have "\<forall>(p, l) \<in> set (save_touched u (Some e) receipt).
    re_label 63 l \<and> allowed_recovery_path (JStr l) (JStr (as_posix p)) (JStr (te_event_type e)) = Inr p"
    using save_touched_allowed [OF op] check_saveD [OF check] seq by blast
  then have "transaction_locked env tx_id (te_event_type e) key (Some command)
      (save_touched u (Some e) receipt) None writes Returns st = (Returns, ?st)"
    using bounded by (intro transaction_succeeds) (force simp: open')+
  then have "transaction env tx_id (te_event_type e) key (Some command)
      (save_touched u (Some e) receipt) None writes Returns (locked (Suc 1) st) = (Inr Returns, locked (Suc 1) ?st)"
    by (intro transaction_level [OF _ open'(1)]) simp_all
  then have "save_task env tx_id u (Some e) receipt key (Some command) None (locked 1 st) = (Inr (), locked 1 ?st)"
    unfolding save_task_def
    by (intro with_lock_locked) (simp_all add: open' check body as_result_def)
  then show "run_plan env tx_id key command None plan st = (Inr u, locked 0 ?st)"
    unfolding run_plan_def by (intro with_lock_usable [OF st]) (simp add: plan)
  show "usable (locked 0 ?st)" using open' by (simp add: usable_def no_locks_eq)
qed

lemma check_task_transition_Inr:
  "check_task_transition t new_state receipt = Inr s \<longleftrightarrow>
     new_state = task_state_str s \<and> validate_transition (pt_state t) (pt_receipt_ids t) s receipt = Inr ()"
  by (auto simp: check_task_transition_def bindE_eq_Inr value_error_eq_Inr task_state_of_Some split: option.splits)

text \<open>What a transition that is accepted has passed.\<close>

lemma plan_transition_saveE:
  assumes "plan_transition env fs a = Inr (Save u e r)"
  obtains t es s where "get_task env fs (ta_task_id a) = Inr (Some t)"
    "get_task_events env fs (ta_task_id a) 0 False = Inr es" "es \<noteq> []"
    "guard_transition a t = Inr ()" "completion_receipt_of env fs a t = Inr r"
    "ta_new_state a = task_state_str s"
    "validate_transition (pt_state t) (pt_receipt_ids t) s (final_receipt_id a r) = Inr ()"
    "apply_values env a (assign_fields (se_now env) a s (final_receipt_id a r) t) = Inr u"
    "e = transition_event env a t u r es" "event_ok e"
proof -
  from assms obtain t es s where "get_task env fs (ta_task_id a) = Inr (Some t)"
    "get_task_events env fs (ta_task_id a) 0 False = Inr es" "es \<noteq> []"
    "guard_transition a t = Inr ()" "completion_receipt_of env fs a t = Inr r"
    "check_task_transition t (ta_new_state a) (final_receipt_id a r) = Inr s"
    "apply_values env a (assign_fields (se_now env) a s (final_receipt_id a r) t) = Inr u"
    "mk_task_event (transition_event env a t u r es) = Inr e"
    unfolding plan_transition_def Let_def bindE_eq_Inr
    by (auto simp: bindE_eq_Inr split: option.splits if_splits)
  then show thesis
    using that by (auto simp: check_task_transition_Inr mk_task_event_def split: if_splits)
qed

lemma assign_fields_simps [simp]:
  "pt_task_id (assign_fields now a s r t) = pt_task_id t" "pt_state (assign_fields now a s r t) = s"
  "pt_revision (assign_fields now a s r t) = pt_revision t + 1"
  by (simp_all add: assign_fields_def)

lemma transition_event_simps [simp]:
  "te_task_id (transition_event env a t u r es) = ta_task_id a"
  "te_sequence (transition_event env a t u r es) = te_sequence (last es) + 1"
  "te_event_type (transition_event env a t u r es) = ''state_transition''"
  "te_prev_event_digest (transition_event env a t u r es) = te_payload_digest (last es)"
  "te_payload_digest (transition_event env a t u r es) =
     canonical_payload_digest (se_rt env) (te_payload (transition_event env a t u r es))"
  by (simp_all add: transition_event_def new_task_event_def)

lemma chained_transition:
  "chained (se_rt env) (ta_task_id a) 1 [] es \<Longrightarrow> es \<noteq> [] \<Longrightarrow>
   chained (se_rt env) (ta_task_id a) 1 [] (es @ [transition_event env a t u r es])"
  using chained_sequence [of "se_rt env" "ta_task_id a" 1 "[]" es] by (simp add: chained_snoc)

lemma validate_receipt_ok: "validate_receipt rt now j = Inr r \<Longrightarrow> receipt_ok r"
  by (auto simp: validate_receipt_def bindE_eq_Inr mk_receipt_def split: json.splits if_splits)

lemma build_receiptD:
  assumes "build_completion_receipt env fs a t = Inr r"
  shows "receipt_ok r" "cr_task_id r = pt_task_id t" "cr_task_revision r = pt_revision t + 1"
    "cr_receipt_id r = derive_receipt_id (se_rt env) (cr_task_id r) (cr_task_revision r)
       (cr_completion_policy r) (cr_postcondition_sha256 r) (cr_artifact_digests r) (cr_actor r)"
  using assms
  by (auto simp: build_completion_receipt_def bindE_eq_Inr mk_receipt_def Let_def split: if_splits option.splits)

lemma stored_receiptD:
  assumes "get_completion_receipt env fs rid = Inr (Some r)"
  shows "receipt_ok r"
    "cr_receipt_id r = derive_receipt_id (se_rt env) (cr_task_id r) (cr_task_revision r)
       (cr_completion_policy r) (cr_postcondition_sha256 r) (cr_artifact_digests r) (cr_actor r)"
  using assms
  by (auto simp: get_completion_receipt_def bindE_eq_Inr validate_receipt_ok split: if_splits option.splits)

lemma completion_receipt_ofD:
  assumes "completion_receipt_of env fs a t = Inr (Some r)" "pt_task_id t = ta_task_id a"
  shows "receipt_ok r" "cr_task_id r = ta_task_id a" "cr_task_revision r = pt_revision t + 1"
    "ta_new_state a = ''completed''"
    "cr_receipt_id r = derive_receipt_id (se_rt env) (cr_task_id r) (cr_task_revision r)
       (cr_completion_policy r) (cr_postcondition_sha256 r) (cr_artifact_digests r) (cr_actor r)"
proof -
  consider "build_completion_receipt env fs a t = Inr r"
    | rid where "get_completion_receipt env fs rid = Inr (Some r)"
        "cr_task_id r = ta_task_id a" "cr_task_revision r = pt_revision t + 1"
    using assms(1) by (auto simp: completion_receipt_of_def bindE_eq_Inr split: if_splits option.splits)
  then show "receipt_ok r" "cr_task_id r = ta_task_id a" "cr_task_revision r = pt_revision t + 1"
    "cr_receipt_id r = derive_receipt_id (se_rt env) (cr_task_id r) (cr_task_revision r)
       (cr_completion_policy r) (cr_postcondition_sha256 r) (cr_artifact_digests r) (cr_actor r)"
    using build_receiptD [of env fs a t r] stored_receiptD [of env fs _ r] assms(2) by (cases; metis)+
  show "ta_new_state a = ''completed''"
    using assms(1) by (auto simp: completion_receipt_of_def split: if_splits)
qed

lemma receipt_ok_id: "receipt_ok r \<Longrightarrow> re_tcr (cr_receipt_id r)"
  by (simp add: receipt_ok_def)

subsection \<open>Transitions that are saved\<close>

text \<open>The texts of a save are read back, and the files are within the bound of the store.\<close>

definition writable ::
  "store_env \<Rightarrow> filesystem \<Rightarrow> power_task \<Rightarrow> task_event \<Rightarrow> completion_receipt option \<Rightarrow> task_event list \<Rightarrow> bool" where
  "writable env fs u e receipt es =
     (reads_back env (snapshot_text env u) (task_dump u) \<and> event_durable env e
      \<and> length (journal_text env (es @ [e])) \<le> MAX_TASK_STATE_BYTES \<and> bounded_file (fs (checkpoint_file e))
      \<and> (case receipt of None \<Rightarrow> True | Some r \<Rightarrow>
           bounded_file (fs (receipt_file (cr_receipt_id r))) \<and> length (receipt_text env r) \<le> MAX_TASK_STATE_BYTES))"

lemma save_bounded:
  assumes old: "stored env fs tid t es \<or> fs (task_file tid) = None \<and> fs (events_file tid) = None \<and> es = []"
    and w: "writable env fs u e receipt es" and ok: "te_sequence e mod 5 = 0 \<Longrightarrow> task_ok u"
    and u: "pt_task_id u = tid" "re_task_id tid"
    and e: "te_task_id e = tid" "es \<noteq> [] \<Longrightarrow> te_sequence (last es) < te_sequence e"
  obtains writes where "save_body env fs u (Some e) receipt = (writes, Returns)"
    "\<And>p. p \<in> fst ` set (save_touched u (Some e) receipt) \<Longrightarrow>
      bounded_file (fs p) \<and> bounded_file (run_writes writes fs p)"
proof -
  have d: "reads_back env (snapshot_text env u) (task_dump u)"
    "length (journal_text env (es @ [e])) \<le> MAX_TASK_STATE_BYTES" "bounded_file (fs (checkpoint_file e))"
    using w by (simp_all add: writable_def)
  have journal: "(case fs (events_file tid) of None \<Rightarrow> [] | Some c \<Rightarrow> c) = journal_text env es"
    using old by (auto simp: stored_def journal_text_def)
  have "stored env fs tid t es \<or> fs (events_file tid) = None \<and> es = []" using old by blast
  note body = save_body_succeeds [OF this u _ e d(2,3), of receipt]
  have returns: "save_body env fs u (Some e) receipt = (object_writes env u receipt
      @ [append_write env (run_writes (object_writes env u receipt) fs) e]
      @ (if te_sequence e mod 5 = 0 then [checkpoint_write env e u] else []), Returns)"
    by (rule body) (use ok d(1) in \<open>simp add: task_durable_def\<close>)
  have snapshot: "length (snapshot_text env u) \<le> MAX_TASK_STATE_BYTES"
    using d(1) by (simp add: reads_back_def)
  have after: "bounded_file (run_writes (fst (save_body env fs u (Some e) receipt)) fs p)"
    if "p \<in> fst ` set (save_touched u (Some e) receipt)" for p
  proof (rule saved_bounded [OF _ _ snapshot _ _ _ that])
    show "length ((case fs (events_file (pt_task_id u)) of None \<Rightarrow> [] | Some c \<Rightarrow> c) @ event_line env e)
      \<le> MAX_TASK_STATE_BYTES"
      using d(2) unfolding u journal journal_text_snoc .
  qed (use returns u e w in \<open>auto simp: writable_def\<close>)
  have before: "bounded_file (fs p)" if "p \<in> fst ` set (save_touched u (Some e) receipt)" for p
  proof -
    from that consider "p = task_file tid" | "p = events_file tid" | "p = checkpoint_file e"
      | r where "receipt = Some r" "p = receipt_file (cr_receipt_id r)"
      using u e by (auto simp: save_touched_def split: option.splits if_splits)
    then show ?thesis
      using old d(3) w
      by cases (auto simp: stored_def bounded_file_def task_durable_def reads_back_def writable_def)
  qed
  show thesis
    by (rule that [OF returns]) (use before after returns in auto)
qed

lemma transition_saved:
  assumes st: "usable st" and s: "stored env (files st) (ta_task_id a) t es"
    and plan: "plan_transition env (files st) a = Inr (Save u e r)"
    and w: "writable env (files st) u e r es" and ok: "te_sequence e mod 5 = 0 \<Longrightarrow> task_ok u"
  obtains st' where "transition_task env tx_id None a st = (Inr u, st')" "usable st'"
    "snd (save_body env (files st) u (Some e) r) = Returns"
    "files st' = run_writes (fst (save_body env (files st) u (Some e) r)) (files st)"
    "pt_task_id u = ta_task_id a" "pt_revision u = pt_revision t + 1"
    "pt_state u = pt_state t \<or> task_step (pt_state t) (pt_state u)"
    "task_state_str (pt_state u) = ta_new_state a"
    "te_task_id e = ta_task_id a" "chained (se_rt env) (ta_task_id a) 1 [] (es @ [e])"
proof -
  note read = task_files.fetch_held [OF s] task_files.history_held [OF s, of False]
  from plan obtain s' where p: "completion_receipt_of env (files st) a t = Inr r"
    "ta_new_state a = task_state_str s'"
    "validate_transition (pt_state t) (pt_receipt_ids t) s' (final_receipt_id a r) = Inr ()"
    "apply_values env a (assign_fields (se_now env) a s' (final_receipt_id a r) t) = Inr u"
    "e = transition_event env a t u r es" "event_ok e"
    by (rule plan_transition_saveE) (use read in auto)
  have es: "es \<noteq> []" "chained (se_rt env) (ta_task_id a) 1 [] es" "pt_task_id t = ta_task_id a"
    using s by (simp_all add: stored_def)
  note fields = apply_values_fields [OF p(4), simplified]
  have u: "pt_task_id u = ta_task_id a" using fields es(3) by simp
  have e: "te_task_id e = ta_task_id a" "te_sequence (last es) < te_sequence e" "0 \<le> te_sequence e"
    using p(5,6) by (simp_all add: event_ok_def)
  have check: "check_save env (files st) u (Some e) r = Inr ()"
    using completion_receipt_ofD(1-3) [OF _ es(3)] receipt_ok_id p(1) u e(1) stored_id [OF s] read(2) fields
    by (auto simp: check_save_def with_task_id_def split: option.split)
  obtain writes where body: "save_body env (files st) u (Some e) r = (writes, Returns)"
    and bounded: "\<And>p. p \<in> fst ` set (save_touched u (Some e) r) \<Longrightarrow>
      bounded_file (files st p) \<and> bounded_file (run_writes writes (files st) p)"
    using save_bounded [OF disjI1 [OF s] w ok u stored_id [OF s] e(1,2)] by blast
  have op: "task_operation (te_event_type e)" by (simp add: p(5) task_operation_def)
  note run = run_plan_saved [of st "\<lambda>fs. plan_transition env fs a", OF st plan check e(3) op body bounded]
  let ?st = "locked 0 (st\<lparr>files := run_writes writes (files st)\<rparr>)"
  show thesis
  proof (rule that [of ?st])
    show "transition_task env tx_id None a st = (Inr u, ?st)" "usable ?st"
      using run by (simp_all add: transition_task_def)
    show "chained (se_rt env) (ta_task_id a) 1 [] (es @ [e])"
      unfolding p(5) by (rule chained_transition [OF es(2,1)])
    show "pt_state u = pt_state t \<or> task_step (pt_state t) (pt_state u)"
      using p(3) fields by (auto simp: validate_transition_ok_iff)
  qed (use body u e fields p(2) in simp_all)
qed

end
