(* ===== verification/Sample_Service.thy ===== *)
theory Sample_Service
  imports Service_Facts Recovery_Properties
begin

text \<open>
  A task on which the theorems on the task service are exercised: it is created in the state
  working, and moved on by commands that block it, complete it or break it. The digest of the
  sample runtime is constant and the parser of its environment reads back the texts of these
  objects.
\<close>

subsection \<open>Texts without escapes\<close>

definition plain_char :: "char \<Rightarrow> bool" where
  "plain_char c = (let n = (of_char c :: nat) in 32 \<le> n \<and> n < 127 \<and> n \<noteq> 34 \<and> n \<noteq> 92)"

definition plain :: "string \<Rightarrow> bool" where
  "plain s = list_all plain_char s"

fun plain_json :: "json \<Rightarrow> bool" and plain_list :: "json list \<Rightarrow> bool" and plain_items :: "(string \<times> json) list \<Rightarrow> bool" where
  "plain_json (JInt i) = (0 \<le> i \<and> i < 10)"
| "plain_json (JFloat f) = False"
| "plain_json (JStr s) = plain s"
| "plain_json (JList xs) = plain_list xs"
| "plain_json (JObj d) = plain_items d"
| "plain_json j = True"
| "plain_list [] = True"
| "plain_list (x # xs) = (plain_json x \<and> plain_list xs)"
| "plain_items [] = True"
| "plain_items ((k, v) # d) = (plain k \<and> plain_json v \<and> plain_items d)"

fun len :: "'a list \<Rightarrow> int" where
  "len [] = 0"
| "len (x # xs) = len xs + 1"

lemma len_length: "len xs = int (length xs)"
  by (induction xs) auto

text \<open>The lengths of \<open>json_line\<close> and \<open>json_indent\<close>.\<close>

fun line_len :: "json \<Rightarrow> int" and list_len :: "json list \<Rightarrow> int" and items_len :: "(string \<times> json) list \<Rightarrow> int" where
  "line_len (JBool b) = (if b then 4 else 5)"
| "line_len (JInt i) = 1"
| "line_len (JStr s) = len s + 2"
| "line_len (JList xs) = list_len xs + 2"
| "line_len (JObj d) = items_len d + 2"
| "line_len j = 4"
| "list_len [] = 0"
| "list_len (x # xs) = line_len x + (if xs = [] then 0 else 2 + list_len xs)"
| "items_len [] = 0"
| "items_len ((k, v) # d) = len k + 4 + line_len v + (if d = [] then 0 else 2 + items_len d)"

fun indent_len :: "int \<Rightarrow> json \<Rightarrow> int"
and indent_list_len :: "int \<Rightarrow> json list \<Rightarrow> int"
and indent_items_len :: "int \<Rightarrow> (string \<times> json) list \<Rightarrow> int" where
  "indent_len n (JList xs) = (if xs = [] then 2 else 3 + 2 * n + indent_list_len (n + 1) xs)"
| "indent_len n (JObj d) = (if d = [] then 2 else 3 + 2 * n + indent_items_len (n + 1) d)"
| "indent_len n j = line_len j"
| "indent_list_len n [] = 0"
| "indent_list_len n (x # xs) = 1 + 2 * n + indent_len n x + (if xs = [] then 0 else 1 + indent_list_len n xs)"
| "indent_items_len n [] = 0"
| "indent_items_len n ((k, v) # d) =
     5 + 2 * n + len k + indent_len n v + (if d = [] then 0 else 1 + indent_items_len n d)"

definition printable :: "char \<Rightarrow> bool" where
  "printable c = (let n = (of_char c :: nat) in 32 \<le> n \<and> n < 127)"

lemma plain_char_facts: "plain_char c \<Longrightarrow> escape_char c = [c] \<and> printable c"
  by (auto simp: plain_char_def printable_def escape_char_def Let_def)

lemma line_safe_printable: "list_all printable s \<Longrightarrow> line_safe s"
  by (induction s)
    (auto simp: line_safe_Cons line_break_def printable_def, simp add: line_safe_def)

lemma quote_plain: "plain s \<Longrightarrow> quote s = CHR 0x22 # s @ [CHR 0x22]"
  by (induction s) (auto simp: quote_def plain_def plain_char_facts)

lemma plain_printable: "plain s \<Longrightarrow> list_all printable s"
  by (auto simp: plain_def list_all_iff plain_char_facts)

lemma len_simps [simp]: "len (xs @ ys) = len xs + len ys" "len (replicate k x) = int k"
  by (simp_all add: len_length)

lemma digit_str:
  assumes "0 \<le> i" "i < 10"
  shows "len (int_str i) = 1 \<and> list_all printable (int_str i)"
proof -
  have "nat i < 10" using assms by simp
  then show ?thesis using assms by (simp add: int_str_def nat_str.simps printable_def Let_def)
qed

lemma json_line_plain:
  "plain_json j \<Longrightarrow> len (json_line rt j) = line_len j \<and> list_all printable (json_line rt j)"
  "plain_list xs \<Longrightarrow> len (json_line_list rt xs) = list_len xs \<and> list_all printable (json_line_list rt xs)"
  "plain_items d \<Longrightarrow> len (json_line_items rt d) = items_len d \<and> list_all printable (json_line_items rt d)"
proof (induction j and xs and d rule: plain_json_plain_list_plain_items.induct)
qed (auto simp: quote_plain plain_printable digit_str printable_def)

lemma json_indent_plain:
  "plain_json j \<Longrightarrow> len (json_indent rt n j) = indent_len (int n) j"
  "plain_list xs \<Longrightarrow> len (json_indent_list rt n xs) = indent_list_len (int n) xs"
  "plain_items d \<Longrightarrow> len (json_indent_items rt n d) = indent_items_len (int n) d"
proof (induction j and xs and d arbitrary: n and n and n rule: plain_json_plain_list_plain_items.induct)
qed (auto simp: quote_plain plain_printable digit_str newline_def algebra_simps json_line_plain)

subsection \<open>The task\<close>

definition hex_b :: string where
  "hex_b = replicate 64 CHR ''b''"

definition plain_env :: store_env where
  "plain_env = sample_env\<lparr>se_rt := (se_rt sample_env)\<lparr>sha256_hex := \<lambda>_. hex_b\<rparr>\<rparr>"

definition plan_args :: create_args where
  "plan_args = \<lparr>ca_task_id = ''t1'', ca_title = ''Plan'', ca_objective = [], ca_owner = ''local'',
     ca_assignee = None, ca_state = ''working'', ca_priority = ''normal'', ca_kind = ''human'', ca_scope = [],
     ca_authority = ''read-only'', ca_dependencies = [], ca_source_revision = [], ca_next_action = ''inspect'',
     ca_open_gates = [], ca_required_input = None, ca_artifact_refs = [''plan.md''], ca_receipt_ids = [],
     ca_external_refs = [], ca_due_at = None, ca_actor = ''local'', ca_idempotency_key = Some ''k1''\<rparr>"

definition plan_task :: power_task where
  "plan_task = new_task (se_now sample_env) plan_args Working"

definition plan_created :: task_event where
  "plan_created = \<lparr>te_event_id = ''evt_t1_1_1767225600000'', te_task_id = ''t1'', te_sequence = 1,
     te_actor = ''local'', te_event_type = ''task_created'',
     te_payload = [(''initial_state'', JStr ''working''), (''title'', JStr ''Plan''), (''owner'', JStr ''local''),
       (''idempotency_key'', JStr ''k1''), (''command_sha256'', JStr hex_b), (''result'', JObj (task_dump plan_task))],
     te_payload_digest = hex_b, te_prev_event_digest = [], te_created_at = se_now sample_env\<rparr>"

definition move_args :: "string \<Rightarrow> string option \<Rightarrow> string option \<Rightarrow> transition_args" where
  "move_args s next post = \<lparr>ta_task_id = ''t1'', ta_new_state = s, ta_actor = ''local'', ta_expected_revision = Some 1,
     ta_receipt_id = None, ta_postcondition = post, ta_artifact_refs = None, ta_idempotency_key = None,
     ta_next_action = next, ta_assignee = None, ta_required_input = None, ta_open_gates = None,
     ta_error_ref = None, ta_external_ref_updates = None, ta_claim_key = None, ta_claim_intent = None,
     ta_projection = False, ta_values = None\<rparr>"

text \<open>Blocking the task, completing it, and giving it a next action that is too long.\<close>

definition block_args :: transition_args where
  "block_args = move_args ''blocked'' (Some ''wait'') None"

definition finish_args :: transition_args where
  "finish_args = move_args ''completed'' None (Some ''reviewed'')"

definition break_args :: transition_args where
  "break_args = move_args ''blocked'' (Some (replicate 513 CHR ''x'')) None"

definition finish_receipt :: completion_receipt where
  "finish_receipt = \<lparr>cr_receipt_id = ''tcr_'' @ hex_b, cr_task_id = ''t1'', cr_task_revision = 2,
     cr_completion_policy = ''standard'', cr_postcondition_sha256 = hex_b,
     cr_artifact_digests = [(''plan.md'', hex_b)], cr_actor = ''local'', cr_created_at = se_now sample_env\<rparr>"

text \<open>The task and the event after a command.\<close>

definition moved :: "transition_args \<Rightarrow> task_state \<Rightarrow> string option \<Rightarrow> power_task" where
  "moved a s rid = assign_fields (se_now sample_env) a s rid plan_task"

definition moved_event :: "transition_args \<Rightarrow> task_state \<Rightarrow> string option \<Rightarrow> task_event" where
  "moved_event a s rid = \<lparr>te_event_id = ''evt_t1_2_1767225600000'', te_task_id = ''t1'', te_sequence = 2,
     te_actor = ''local'', te_event_type = ''state_transition'',
     te_payload = [(''from_state'', JStr ''working''), (''to_state'', JStr (ta_new_state a)),
       (''receipt_id'', jopt rid), (''next_action'', JStr (pt_next_action (moved a s rid))),
       (''idempotency_key'', JNull), (''command_sha256'', JStr hex_b),
       (''result'', JObj (task_dump (moved a s rid)))],
     te_payload_digest = hex_b, te_prev_event_digest = hex_b, te_created_at = se_now sample_env\<rparr>"

lemma plain_sha [simp]: "sha256_hex (se_rt plain_env) s = hex_b"
  by (simp add: plain_env_def)

lemma plain_digests [simp]:
  "canonical_payload_digest (se_rt plain_env) p = hex_b" "create_command (se_rt plain_env) a = hex_b"
  "transition_command (se_rt plain_env) b = hex_b"
  by (simp_all only: canonical_payload_digest_def create_command_def transition_command_def
      command_fingerprint_def plain_sha)

lemma sample_ids:
  "int_str 1 = ''1''" "int_str 2 = ''2''" "se_now plain_env = se_now sample_env" "se_millis plain_env = ''1767225600000''"
  by (code_simp, code_simp, simp_all add: plain_env_def sample_env_def)

lemma plan_task_simps [simp]:
  "pt_task_id plan_task = ''t1''" "pt_state plan_task = Working" "pt_revision plan_task = 1"
  "pt_receipt_ids plan_task = []" "pt_external_refs plan_task = []" "pt_execution_state plan_task = ''none''"
  by (simp_all add: plan_task_def new_task_def plan_args_def)

lemma sample_created: "created_event plain_env plan_args plan_task = plan_created"
  by (simp add: created_event_def new_task_event_def sample_ids plan_created_def)
    (simp add: plan_args_def jopt_def)

lemma sample_moved:
  assumes "ta_task_id a = ''t1''" "ta_actor a = ''local''" "ta_idempotency_key a = None"
  shows "transition_event plain_env a plan_task (moved a s (final_receipt_id a r)) r [plan_created]
    = moved_event a s (final_receipt_id a r)"
  using assms
  by (simp add: transition_event_def new_task_event_def sample_ids moved_event_def jopt_def)
    (simp add: plan_created_def sample_ids)

subsection \<open>Its texts\<close>

lemma texts_plain:
  "plain_items (task_dump plan_task)" "plain_items (task_event_dump plan_created)"
  by code_simp+

lemma snapshot_len: "plain_items (task_dump t) \<Longrightarrow> len (snapshot_text env t) = indent_len 0 (JObj (task_dump t))"
  using json_indent_plain(1) [of "JObj (task_dump t)" "se_rt env" 0] by (simp add: snapshot_text_def)

lemma event_len: "plain_items (task_event_dump e) \<Longrightarrow> len (event_text env e) = line_len (JObj (task_event_dump e))"
  using json_line_plain(1) [of "JObj (task_event_dump e)" "se_rt env"] by (simp add: event_text_def)

lemma event_safe: "plain_items (task_event_dump e) \<Longrightarrow> line_safe (event_text env e)"
  using json_line_plain(1) [of "JObj (task_event_dump e)" "se_rt env"]
  by (intro line_safe_printable) (simp add: event_text_def)

text \<open>What the parser of the sample environment needs of the texts.\<close>

definition apart :: "int list \<Rightarrow> bool" where
  "apart ns = (distinct ns \<and> list_all (\<lambda>n. n \<le> 9000) ns)"

definition readable_texts :: "power_task \<Rightarrow> task_event \<Rightarrow> bool" where
  "readable_texts u e =
     (plain_items (task_dump u) \<and> plain_items (task_event_dump e) \<and> event_ok e
      \<and> apart [indent_len 0 (JObj (task_dump plan_task)), line_len (JObj (task_event_dump plan_created)),
          indent_len 0 (JObj (task_dump u)), line_len (JObj (task_event_dump e))])"

definition service_env :: "power_task \<Rightarrow> task_event \<Rightarrow> store_env" where
  "service_env u e = plain_env\<lparr>se_loads := map_of
     [(snapshot_text plain_env plan_task, JObj (task_dump plan_task)),
      (event_text plain_env plan_created, JObj (task_event_dump plan_created)),
      (snapshot_text plain_env u, JObj (task_dump u)),
      (event_text plain_env e, JObj (task_event_dump e))]\<rparr>"

definition service_store :: task_store where
  "service_store = empty_store\<lparr>files := [task_file ''t1'' \<mapsto> snapshot_text plain_env plan_task,
     events_file ''t1'' \<mapsto> journal_text plain_env [plan_created], [''plan.md''] \<mapsto> ''# plan'']\<rparr>"

lemma service_env_simps [simp]:
  "se_rt (service_env u e) = se_rt plain_env" "se_now (service_env u e) = se_now plain_env"
  "se_millis (service_env u e) = se_millis plain_env"
  by (simp_all add: service_env_def)

lemma service_texts [simp]:
  "snapshot_text (service_env u e) = snapshot_text plain_env"
  "event_line (service_env u e) = event_line plain_env"
  "event_text (service_env u e) = event_text plain_env"
  "receipt_text (service_env u e) = receipt_text plain_env"
  by (simp_all only: fun_eq_iff snapshot_text_def event_line_def event_text_def receipt_text_def
      service_env_simps simp_thms)

lemma service_loads:
  assumes "readable_texts u e"
  shows "se_loads (service_env u e) (snapshot_text plain_env plan_task) = Some (JObj (task_dump plan_task))"
    "se_loads (service_env u e) (event_text plain_env plan_created) = Some (JObj (task_event_dump plan_created))"
    "se_loads (service_env u e) (snapshot_text plain_env u) = Some (JObj (task_dump u))"
    "se_loads (service_env u e) (event_text plain_env e) = Some (JObj (task_event_dump e))"
proof -
  have "distinct (map len [snapshot_text plain_env plan_task, event_text plain_env plan_created,
      snapshot_text plain_env u, event_text plain_env e])"
    using assms texts_plain by (simp add: readable_texts_def apart_def snapshot_len event_len)
  then have "snapshot_text plain_env plan_task \<noteq> event_text plain_env plan_created"
    "snapshot_text plain_env plan_task \<noteq> snapshot_text plain_env u"
    "snapshot_text plain_env plan_task \<noteq> event_text plain_env e"
    "event_text plain_env plan_created \<noteq> snapshot_text plain_env u"
    "event_text plain_env plan_created \<noteq> event_text plain_env e"
    "snapshot_text plain_env u \<noteq> event_text plain_env e" by auto
  then show "se_loads (service_env u e) (snapshot_text plain_env plan_task) = Some (JObj (task_dump plan_task))"
    "se_loads (service_env u e) (event_text plain_env plan_created) = Some (JObj (task_event_dump plan_created))"
    "se_loads (service_env u e) (snapshot_text plain_env u) = Some (JObj (task_dump u))"
    "se_loads (service_env u e) (event_text plain_env e) = Some (JObj (task_event_dump e))"
    by (auto simp: service_env_def)
qed

lemma service_short:
  assumes "readable_texts u e"
  shows "length (snapshot_text plain_env plan_task) \<le> MAX_TASK_STATE_BYTES"
    "length (snapshot_text plain_env u) \<le> MAX_TASK_STATE_BYTES"
    "length (journal_text plain_env [plan_created, e]) \<le> MAX_TASK_STATE_BYTES"
    "length (journal_text plain_env [plan_created]) \<le> MAX_TASK_STATE_BYTES"
proof -
  have line: "event_line plain_env x = event_text plain_env x @ [CHR 0x0A]" for x
    by (simp only: event_line_def event_text_def)
  have "len (snapshot_text plain_env plan_task) \<le> 9000" "len (event_text plain_env plan_created) \<le> 9000"
    "len (snapshot_text plain_env u) \<le> 9000" "len (event_text plain_env e) \<le> 9000"
    using assms texts_plain by (simp_all add: readable_texts_def apart_def snapshot_len event_len)
  then show "length (snapshot_text plain_env plan_task) \<le> MAX_TASK_STATE_BYTES"
    "length (snapshot_text plain_env u) \<le> MAX_TASK_STATE_BYTES"
    "length (journal_text plain_env [plan_created, e]) \<le> MAX_TASK_STATE_BYTES"
    "length (journal_text plain_env [plan_created]) \<le> MAX_TASK_STATE_BYTES"
    unfolding len_length MAX_TASK_STATE_BYTES_def
    by (simp_all add: journal_text_def line)
qed

lemma service_stored:
  assumes "readable_texts u e"
  shows "stored (service_env u e) (files service_store) ''t1'' plan_task [plan_created]"
proof -
  have "task_ok plan_task" "event_ok plan_created" by code_simp+
  moreover have "journal_text (service_env u e) = journal_text plain_env"
    by (simp add: fun_eq_iff journal_text_def)
  moreover have "files service_store (task_file ''t1'') = Some (snapshot_text plain_env plan_task)"
    "files service_store (events_file ''t1'') = Some (journal_text plain_env [plan_created])"
    by (simp_all add: service_store_def task_file_def events_file_def tasks_root_def)
  ultimately show ?thesis
    using service_loads [OF assms] service_short [OF assms] event_safe [OF texts_plain(2)]
    by (simp add: stored_def task_durable_def reads_back_def event_durable_def)
      (simp add: plan_created_def)
qed

lemma service_usable: "usable service_store"
  by (simp add: usable_def service_store_def empty_store_def sample_store_def)

lemma service_writable:
  assumes "readable_texts u e" "te_task_id e = ''t1''"
    and "case receipt of None \<Rightarrow> True | Some r \<Rightarrow> length (receipt_text plain_env r) \<le> MAX_TASK_STATE_BYTES"
  shows "writable (service_env u e) (files service_store) u e receipt [plan_created]"
proof -
  have "files service_store (checkpoint_file e) = None"
    "files service_store (receipt_file rid) = None" for rid
    by (simp_all add: service_store_def task_file_def events_file_def checkpoint_file_def receipt_file_def
        tasks_root_def empty_store_def)
  moreover have "journal_text (service_env u e) = journal_text plain_env"
    by (simp add: fun_eq_iff journal_text_def)
  moreover have "plain_items (task_event_dump e)" "event_ok e"
    using assms(1) by (simp_all add: readable_texts_def)
  ultimately show ?thesis
    using service_loads [OF assms(1)] service_short [OF assms(1)] event_safe assms(3)
    by (auto simp: writable_def reads_back_def event_durable_def bounded_file_def split: option.splits)
qed

text \<open>The commands on the created task.\<close>

lemma service_plan:
  assumes "readable_texts u e" and a: "ta_task_id a = ''t1''" "ta_actor a = ''local''" "ta_idempotency_key a = None"
    and "guard_transition a plan_task = Inr ()"
    and "completion_receipt_of (service_env u e) (files service_store) a plan_task = Inr r"
    and "check_task_transition plan_task (ta_new_state a) (final_receipt_id a r) = Inr s"
    and "apply_values (service_env u e) a u = Inr u" "u = moved a s (final_receipt_id a r)"
    and "e = moved_event a s (final_receipt_id a r)"
  shows "plan_transition (service_env u e) (files service_store) a = Inr (Save u e r)"
proof -
  note s = service_stored [OF assms(1)]
  have "transition_event (service_env u e) a plan_task u r [plan_created] = e"
    using sample_moved [OF a, of s r] assms(9,10) by (simp add: transition_event_def)
  moreover have "event_ok e" using assms(1) by (simp add: readable_texts_def)
  moreover have "assign_fields (se_now (service_env u e)) a s (final_receipt_id a r) plan_task = u"
    using assms(9) by (simp add: moved_def sample_ids)
  ultimately show ?thesis
    using task_files.fetch_held [OF s] task_files.history_held [OF s, of False] assms
    by (simp add: plan_transition_def Let_def find_idempotent_result_def mk_task_event_def)
qed

definition blocked_task :: power_task where "blocked_task = moved block_args Blocked None"
definition blocked_event :: task_event where "blocked_event = moved_event block_args Blocked None"
definition broken_task :: power_task where "broken_task = moved break_args Blocked None"
definition broken_event :: task_event where "broken_event = moved_event break_args Blocked None"
definition finished_task :: power_task where
  "finished_task = moved finish_args Completed (Some (cr_receipt_id finish_receipt))"
definition finished_event :: task_event where
  "finished_event = moved_event finish_args Completed (Some (cr_receipt_id finish_receipt))"

lemma blocked_texts: "readable_texts blocked_task blocked_event" by code_simp
lemma broken_texts: "readable_texts broken_task broken_event" by code_simp
lemma finished_texts: "readable_texts finished_task finished_event" by code_simp

lemma args_simps [simp]:
  "ta_task_id (move_args s n p) = ''t1''" "ta_actor (move_args s n p) = ''local''"
  "ta_idempotency_key (move_args s n p) = None" "ta_new_state (move_args s n p) = s"
  "ta_expected_revision (move_args s n p) = Some 1" "ta_receipt_id (move_args s n p) = None"
  "ta_values (move_args s n p) = None" "ta_external_ref_updates (move_args s n p) = None"
  "ta_postcondition (move_args s n p) = p" "ta_artifact_refs (move_args s n p) = None"
  by (simp_all add: move_args_def)

lemma move_allowed: "guard_transition (move_args s n p) plan_task = Inr ()"
  by (simp add: guard_transition_def claim_lost_def changes_refs_def candidate_ref_keys_def ref_def)
    (simp add: move_args_def)

lemma move_values: "apply_values env (move_args s n p) u = Inr u"
  by (simp add: apply_values_def)

lemma move_to_blocked:
  "check_task_transition plan_task ''blocked'' None = Inr Blocked"
  "completion_receipt_of env fs (move_args ''blocked'' n p) plan_task = Inr None"
  by (code_simp, simp add: completion_receipt_of_def)

lemma move_to_completed:
  "check_task_transition plan_task ''completed'' (Some (cr_receipt_id finish_receipt)) = Inr Completed"
  by code_simp

lemma finish_receipt_made:
  "completion_receipt_of (service_env u e) (files service_store) finish_args plan_task = Inr (Some finish_receipt)"
proof -
  have rel: "path_parts ''plan.md'' = [''plan.md'']" "as_posix [''plan.md''] = ''plan.md''"
    "strip ''plan.md'' \<noteq> []" "strip ''reviewed'' \<noteq> []" "receipt_ok finish_receipt"
    by code_simp+
  have "files service_store [''plan.md''] = Some ''# plan''"
    by (simp add: service_store_def)
  then have "artifact_digest (service_env u e) (files service_store) ''plan.md'' [] = Inr [(''plan.md'', hex_b)]"
    by (simp add: artifact_digest_def rel)
  moreover have "derive_receipt_id (se_rt plain_env) i n p h d a = ''tcr_'' @ hex_b" for i n p h d a
    by (simp only: derive_receipt_id_def plain_sha)
  moreover have "pt_artifact_refs plan_task = [''plan.md'']" "pt_completion_policy plan_task = ''standard''"
    by (simp_all add: plan_task_def new_task_def plan_args_def)
  ultimately show ?thesis
    using rel(4,5)
    by (simp add: completion_receipt_of_def build_completion_receipt_def finish_args_def mk_receipt_def
        sample_ids finish_receipt_def Let_def)
qed

lemma blocked_planned:
  "plan_transition (service_env blocked_task blocked_event) (files service_store) block_args
     = Inr (Save blocked_task blocked_event None)"
  by (rule service_plan [where s = Blocked, OF blocked_texts])
    (simp_all add: block_args_def move_allowed move_values move_to_blocked final_receipt_id_def
      blocked_task_def blocked_event_def)

lemma broken_planned:
  "plan_transition (service_env broken_task broken_event) (files service_store) break_args
     = Inr (Save broken_task broken_event None)"
  by (rule service_plan [where s = Blocked, OF broken_texts])
    (simp_all add: break_args_def move_allowed move_values move_to_blocked final_receipt_id_def
      broken_task_def broken_event_def)

lemma finished_planned:
  "plan_transition (service_env finished_task finished_event) (files service_store) finish_args
     = Inr (Save finished_task finished_event (Some finish_receipt))"
  by (rule service_plan [where s = Completed, OF finished_texts])
    (simp_all add: finish_receipt_made, simp_all add: finish_args_def move_allowed move_values move_to_completed
      final_receipt_id_def finished_task_def finished_event_def)

lemma created_planned:
  "plan_create (service_env blocked_task blocked_event) (files empty_store) plan_args
     = Inr (Save plan_task plan_created None)"
proof -
  have "task_ok plan_task" "event_ok plan_created" "re_task_id ''t1''" "task_state_of ''working'' = Some Working"
    by code_simp+
  moreover have "ca_task_id plan_args = ''t1''" "ca_state plan_args = ''working''" by (simp_all add: plan_args_def)
  moreover have "created_event (service_env blocked_task blocked_event) plan_args plan_task = plan_created"
    using sample_created by (simp add: created_event_def)
  moreover have "new_task (se_now plain_env) plan_args Working = plan_task" by (simp add: plan_task_def sample_ids)
  ultimately show ?thesis
    by (simp add: plan_create_def Let_def get_task_def with_task_id_def empty_store_def mk_power_task_def mk_task_event_def)
qed

end
