(* ===== verification/Service_Properties.thy ===== *)
theory Service_Properties
  imports Sample_Service
begin

text \<open>
  What the task service guarantees: accepted commands are recorded, repeated ones replayed, stale
  ones refused, failed ones leave no trace, and a completed task has its receipt. Its assignments
  without validation can make a task unreadable.
\<close>

subsection \<open>Recorded commands\<close>

text \<open>
  C35. A transition that passes its checks is recorded: when no fault is injected, the new task
  meets its constraints and the store reads back what it writes, the command returns the new
  task, the snapshot is this task and the journal has one more event, chained to the others; the
  revision is one higher, the state is the requested one, reached by a step of the table, and
  only the files of the save change.
\<close>

theorem transitions_are_recorded:
  assumes "usable st" "stored env (files st) (ta_task_id a) t es"
    and "plan_transition env (files st) a = Inr (Save u e r)"
    and "task_ok u" "writable env (files st) u e r es"
  shows "\<exists>st'. transition_task env tx_id None a st = (Inr u, st') \<and> usable st'
    \<and> stored env (files st') (ta_task_id a) u (es @ [e])
    \<and> pt_revision u = pt_revision t + 1 \<and> task_state_str (pt_state u) = ta_new_state a
    \<and> (pt_state u = pt_state t \<or> task_step (pt_state t) (pt_state u))
    \<and> (\<forall>p. p \<notin> fst ` set (save_touched u (Some e) r) \<longrightarrow> files st' p = files st p)"
proof -
  obtain st' where st': "transition_task env tx_id None a st = (Inr u, st')" "usable st'"
    "snd (save_body env (files st) u (Some e) r) = Returns"
    "files st' = run_writes (fst (save_body env (files st) u (Some e) r)) (files st)"
    "pt_task_id u = ta_task_id a" "pt_revision u = pt_revision t + 1"
    "pt_state u = pt_state t \<or> task_step (pt_state t) (pt_state u)"
    "task_state_str (pt_state u) = ta_new_state a"
    "te_task_id e = ta_task_id a" "chained (se_rt env) (ta_task_id a) 1 [] (es @ [e])"
    using transition_saved [OF assms(1-3,5)] assms(4) by metis
  have "stored env (files st') (ta_task_id a) u (es @ [e])"
    unfolding st'(4) using assms(4,5)
    by (intro stored_after_save [OF assms(2) st'(5) _ st'(3) _ st'(10)]) (simp_all add: writable_def task_durable_def)
  moreover have "\<forall>p. p \<notin> fst ` set (save_touched u (Some e) r) \<longrightarrow> files st' p = files st p"
    using save_body_scope st'(4) by simp
  ultimately show ?thesis using st' by blast
qed

lemma block_holds:
  "stored (service_env blocked_task blocked_event) (files service_store) (ta_task_id block_args) plan_task [plan_created]"
  "writable (service_env blocked_task blocked_event) (files service_store) blocked_task blocked_event None [plan_created]"
  "task_ok blocked_task"
proof -
  show "task_ok blocked_task" by code_simp
  show "writable (service_env blocked_task blocked_event) (files service_store) blocked_task blocked_event None
    [plan_created]"
    by (rule service_writable [OF blocked_texts]) (simp_all add: blocked_event_def moved_event_def)
qed (use service_stored [OF blocked_texts] in \<open>simp add: block_args_def\<close>)

theorem transitions_are_recorded_witness:
  "\<exists>st'. transition_task (service_env blocked_task blocked_event) ''tx1'' None block_args service_store
     = (Inr blocked_task, st') \<and> task_step (pt_state plan_task) (pt_state blocked_task)"
proof -
  have "pt_state blocked_task = Blocked" by (simp add: blocked_task_def moved_def)
  then show ?thesis
    using transitions_are_recorded [OF service_usable block_holds(1) blocked_planned block_holds(3,2), of "''tx1''"]
    by auto
qed

subsection \<open>Stale commands\<close>

lemma plan_transition_stale:
  assumes "stored env fs (ta_task_id b) u es" "find_idempotent_result (se_rt env) (se_now env)
      (ta_idempotency_key b) (transition_command (se_rt env) b) es = Inr None"
    and "ta_expected_revision b = Some n" "pt_revision u \<noteq> n"
  shows "plan_transition env fs b = Inl ConflictError"
proof -
  have "es \<noteq> []" using assms(1) by (simp add: stored_def)
  then show ?thesis
    using assms task_files.fetch_held [OF assms(1)] task_files.history_held [OF assms(1), of False]
    by (simp add: plan_transition_def Let_def guard_transition_def)
qed

text \<open>
  C36. Of two commands that expect the same revision of a task at most one takes effect: after the
  first is recorded, the other, which is not a repetition of a recorded command, raises
  \<open>ConflictError\<close> at whatever time it runs and leaves every file as it is.
\<close>

theorem stale_commands_are_refused:
  assumes st: "usable st" and s: "stored env (files st) (ta_task_id a) t es"
    and plan: "plan_transition env (files st) a = Inr (Save u e r)"
    and w: "task_ok u" "writable env (files st) u e r es"
    and run: "transition_task env tx_id None a st = (result, st1)"
    and b: "ta_task_id b = ta_task_id a" "ta_expected_revision b = Some (pt_revision t)"
      "find_idempotent_result (se_rt env) now (ta_idempotency_key b) (transition_command (se_rt env) b) (es @ [e])
        = Inr None"
  shows "\<exists>st2. transition_task (at_time now millis env) tx_id' fault b st1 = (Inl ConflictError, st2)
    \<and> files st2 = files st1"
proof -
  obtain st' where st': "transition_task env tx_id None a st = (Inr u, st')" "usable st'"
    "snd (save_body env (files st) u (Some e) r) = Returns"
    "files st' = run_writes (fst (save_body env (files st) u (Some e) r)) (files st)"
    "pt_task_id u = ta_task_id a" "pt_revision u = pt_revision t + 1"
    "chained (se_rt env) (ta_task_id a) 1 [] (es @ [e])"
    using transition_saved [OF st s plan w(2)] w(1) by metis
  have "stored env (files st') (ta_task_id a) u (es @ [e])"
    unfolding st'(4) using w
    by (intro stored_after_save [OF s st'(5) _ st'(3) _ st'(7)]) (simp_all add: writable_def task_durable_def)
  then have "plan_transition (at_time now millis env) (files st') b = Inl ConflictError"
    using b st'(6) by (intro plan_transition_stale [of _ _ _ u "es @ [e]" "pt_revision t"]) simp_all
  from run_plan_refused [of st' "\<lambda>fs. plan_transition (at_time now millis env) fs b", OF st'(2) this]
  show ?thesis using st'(1) run by (simp add: transition_task_def)
qed

theorem stale_commands_are_refused_witness:
  "\<exists>st2. transition_task (at_time ''2026-01-02T00:00:00+00:00'' ''1767312000000'' (service_env blocked_task blocked_event))
     ''tx2'' None finish_args
     (snd (transition_task (service_env blocked_task blocked_event) ''tx1'' None block_args service_store))
   = (Inl ConflictError, st2)"
  using stale_commands_are_refused [where b = finish_args and now = "''2026-01-02T00:00:00+00:00''"
      and millis = "''1767312000000''" and tx_id = "''tx1''" and tx_id' = "''tx2''" and fault = None,
      OF service_usable block_holds(1) blocked_planned block_holds(3,2) prod.collapse [symmetric]]
  by (auto simp: finish_args_def block_args_def find_idempotent_result_def)

subsection \<open>Failed commands\<close>

lemma create_effect:
  assumes "usable st"
  shows "run_plan env tx_id key command fault (\<lambda>fs. plan_create env fs a) st = (Inl x, st') \<Longrightarrow> files st' = files st"
    and "run_plan env tx_id key command fault (\<lambda>fs. plan_create env fs a) st = (Inr t, st') \<Longrightarrow>
      (plan_create env (files st) a = Inr (Replay t) \<and> files st' = files st \<and> usable st')
      \<or> (\<exists>e r. plan_create env (files st) a = Inr (Save t e r)
           \<and> check_save env (files st) t (Some e) r = Inr ()
           \<and> snd (save_body env (files st) t (Some e) r) = Returns
           \<and> files st' = run_writes (fst (save_body env (files st) t (Some e) r)) (files st) \<and> usable st')"
proof -
  show "files st' = files st" if run: "run_plan env tx_id key command fault (\<lambda>fs. plan_create env fs a) st = (Inl x, st')"
    by (rule run_plan_effect(1) [OF assms _ run refl]) (rule plan_create_sequence)
  show "(plan_create env (files st) a = Inr (Replay t) \<and> files st' = files st \<and> usable st')
      \<or> (\<exists>e r. plan_create env (files st) a = Inr (Save t e r)
           \<and> check_save env (files st) t (Some e) r = Inr ()
           \<and> snd (save_body env (files st) t (Some e) r) = Returns
           \<and> files st' = run_writes (fst (save_body env (files st) t (Some e) r)) (files st) \<and> usable st')"
    if run: "run_plan env tx_id key command fault (\<lambda>fs. plan_create env fs a) st = (Inr t, st')"
    by (rule run_plan_effect(2) [OF assms _ run refl]) (rule plan_create_sequence)
qed

lemma transition_effect:
  assumes "usable st"
  shows "transition_task env tx_id fault a st = (Inl x, st') \<Longrightarrow> files st' = files st"
    and "transition_task env tx_id fault a st = (Inr t, st') \<Longrightarrow>
      (plan_transition env (files st) a = Inr (Replay t) \<and> files st' = files st \<and> usable st')
      \<or> (\<exists>e r. plan_transition env (files st) a = Inr (Save t e r)
           \<and> check_save env (files st) t (Some e) r = Inr ()
           \<and> snd (save_body env (files st) t (Some e) r) = Returns
           \<and> files st' = run_writes (fst (save_body env (files st) t (Some e) r)) (files st) \<and> usable st')"
proof -
  show "files st' = files st" if run: "transition_task env tx_id fault a st = (Inl x, st')"
    by (rule run_plan_effect(1) [OF assms _ run [unfolded transition_task_def] refl]) (rule plan_transition_sequence)
  show "(plan_transition env (files st) a = Inr (Replay t) \<and> files st' = files st \<and> usable st')
      \<or> (\<exists>e r. plan_transition env (files st) a = Inr (Save t e r)
           \<and> check_save env (files st) t (Some e) r = Inr ()
           \<and> snd (save_body env (files st) t (Some e) r) = Returns
           \<and> files st' = run_writes (fst (save_body env (files st) t (Some e) r)) (files st) \<and> usable st')"
    if run: "transition_task env tx_id fault a st = (Inr t, st')"
    by (rule run_plan_effect(2) [OF assms _ run [unfolded transition_task_def] refl]) (rule plan_transition_sequence)
qed

text \<open>
  C37. A command that raises leaves every file as it was, whether its checks failed, a read failed,
  the journal does not verify, or the transaction raised after it had written some of the files.
\<close>

theorem failed_commands_change_nothing:
  assumes "usable st"
    and "create_task env tx_id fault a st = (Inl e, st') \<or> transition_task env tx_id fault b st = (Inl e, st')"
  shows "files st' = files st"
proof -
  have "create_task env tx_id fault a st = (Inl e, st') \<Longrightarrow> files st' = files st"
    unfolding create_task_def by (auto split: if_splits dest: create_effect(1) [OF assms(1)])
  then show ?thesis
    using assms(2) transition_effect(1) [OF assms(1)] by blast
qed

theorem failed_commands_change_nothing_witness:
  "files (snd (transition_task (service_env blocked_task blocked_event) ''tx1'' None
     (block_args\<lparr>ta_expected_revision := Some 7\<rparr>) service_store)) = files service_store"
proof -
  let ?env = "service_env blocked_task blocked_event" and ?a = "block_args\<lparr>ta_expected_revision := Some 7\<rparr>"
  have "plan_transition ?env (files service_store) ?a = Inl ConflictError"
    by (rule plan_transition_stale [of _ _ _ plan_task "[plan_created]" 7])
      (use block_holds(1) in \<open>simp_all add: block_args_def find_idempotent_result_def\<close>)
  from run_plan_refused [of service_store "\<lambda>fs. plan_transition ?env fs ?a", OF service_usable this]
  have "transition_task ?env ''tx1'' None ?a service_store = (Inl ConflictError, locked 0 service_store)"
    by (simp add: transition_task_def)
  from failed_commands_change_nothing [OF service_usable disjI2, OF this] show ?thesis
    by (simp add: \<open>transition_task ?env ''tx1'' None ?a service_store = _\<close>)
qed

subsection \<open>Completion\<close>

lemma set_update: "x \<in> set (AList.update k v d) \<Longrightarrow> x = (k, v) \<or> x \<in> set d"
  by (induction d) (auto split: if_splits)

definition digests_match :: "store_env \<Rightarrow> filesystem \<Rightarrow> string dict \<Rightarrow> bool" where
  "digests_match env fs d = list_all (\<lambda>(k, h). case fs (path_parts k) of None \<Rightarrow> False
     | Some c \<Rightarrow> h = sha256_hex (se_rt env) c) d"

lemma split_on_free: "w \<in> set (split_on d s) \<Longrightarrow> d \<notin> set w"
  by (induction d s arbitrary: w rule: split_on.induct) (auto split: list.splits if_splits)

lemma path_parts_proper: "proper_path (path_parts s)"
  using split_on_free [of _ "CHR ''/''" s] by (auto simp: proper_path_def path_parts_def list_all_iff)

lemma artifact_digest_match:
  assumes "artifact_digest env fs rel d = Inr d'" "digests_match env fs d"
  shows "digests_match env fs d'"
proof -
  obtain c where c: "fs (path_parts rel) = Some c"
    and d': "d' = AList.update (as_posix (path_parts rel)) (sha256_hex (se_rt env) c) d"
    using assms(1) by (auto simp: artifact_digest_def split: if_splits option.splits)
  have "path_parts (as_posix (path_parts rel)) = path_parts rel"
    by (rule path_parts_as_posix [OF path_parts_proper])
  then show ?thesis
    using assms(2) c unfolding digests_match_def list_all_iff d'
    by (auto dest!: set_update)
qed

lemma build_receipt_digests:
  assumes "build_completion_receipt env fs a t = Inr r"
  shows "digests_match env fs (cr_artifact_digests r)" "cr_artifact_digests r \<noteq> []"
proof -
  obtain refs where "foldE (artifact_digest env fs) refs [] = Inr (cr_artifact_digests r)"
    using assms
    by (auto simp: build_completion_receipt_def bindE_eq_Inr mk_receipt_def Let_def split: if_splits option.splits)
  then show "digests_match env fs (cr_artifact_digests r)"
    by (rule foldE_inv) (auto simp: digests_match_def [of _ _ "[]"] intro: artifact_digest_match)
  show "cr_artifact_digests r \<noteq> []" using build_receiptD(1) [OF assms] by (auto simp: receipt_ok_def)
qed

lemma completed_state: "task_state_of ''completed'' = Some Completed"
  by code_simp

text \<open>
  C38. A task becomes completed only with its receipt: a command without an idempotency key that
  completes a task on a usable store names the revision that the task has, the task was being worked on (or was completed before), and there is a receipt that is
  bound to the task and to the new revision, whose identifier is the digest of its contents, and that
  the store has under this identifier afterwards. A command without a receipt makes it: the task lists
  its identifier and it holds the digest of every artifact as the vault has it. A command with the
  identifier of a receipt has read the receipt from the file of that name, and the task lists the
  identifier of the command, which nothing compares with the one inside the receipt.
\<close>

theorem completion_has_its_receipt:
  assumes "usable st" "ta_idempotency_key a = None" "ta_new_state a = ''completed''"
    and "transition_task env tx_id fault a st = (Inr u, st')"
  shows "\<exists>t r. get_task env (files st) (ta_task_id a) = Inr (Some t)
    \<and> ta_expected_revision a = Some (pt_revision t) \<and> (pt_state t = Working \<or> pt_state t = Completed)
    \<and> pt_state u = Completed \<and> pt_revision u = pt_revision t + 1
    \<and> cr_task_id r = ta_task_id a \<and> cr_task_revision r = pt_revision u
    \<and> cr_receipt_id r = derive_receipt_id (se_rt env) (cr_task_id r) (cr_task_revision r)
         (cr_completion_policy r) (cr_postcondition_sha256 r) (cr_artifact_digests r) (cr_actor r)
    \<and> files st' (receipt_file (cr_receipt_id r)) = Some (receipt_text env r)
    \<and> (case ta_receipt_id a of
         None \<Rightarrow> cr_receipt_id r \<in> set (pt_receipt_ids u)
           \<and> cr_artifact_digests r \<noteq> [] \<and> digests_match env (files st) (cr_artifact_digests r)
       | Some i \<Rightarrow> i \<in> set (pt_receipt_ids u) \<and> get_completion_receipt env (files st) i = Inr (Some r))"
proof -
  let ?plan = "plan_transition env (files st) a"
  have "?plan \<noteq> Inr (Replay u)"
    using assms(2) by (auto simp: plan_transition_def Let_def bindE_eq_Inr find_idempotent_result_def split: option.splits if_splits)
  then obtain e r' where saved: "?plan = Inr (Save u e r')" "check_save env (files st) u (Some e) r' = Inr ()"
    "snd (save_body env (files st) u (Some e) r') = Returns"
    "files st' = run_writes (fst (save_body env (files st) u (Some e) r')) (files st)"
    using transition_effect(2) [OF assms(1,4)] by blast
  obtain t es s where t: "get_task env (files st) (ta_task_id a) = Inr (Some t)" "guard_transition a t = Inr ()"
    "completion_receipt_of env (files st) a t = Inr r'" "ta_new_state a = task_state_str s"
    "validate_transition (pt_state t) (pt_receipt_ids t) s (final_receipt_id a r') = Inr ()"
    "apply_values env a (assign_fields (se_now env) a s (final_receipt_id a r') t) = Inr u"
    "e = transition_event env a t u r' es"
    by (rule plan_transition_saveE [OF saved(1)]) blast
  have s: "s = Completed" using t(4) assms(3) completed_state by (metis option.inject task_state_of_str)
  note fields = apply_values_fields [OF t(6), simplified]
  have id: "te_task_id e = pt_task_id u" "pt_task_id t = ta_task_id a"
    using check_saveD(2) [OF saved(2)] fields t(7) by simp_all
  obtain r where r: "r' = Some r" "ta_expected_revision a \<noteq> None"
    using t(3) assms(3) by (auto simp: completion_receipt_of_def bindE_eq_Inr split: if_splits option.splits)
  note receipt = completion_receipt_ofD [OF t(3) [unfolded r(1)] id(2)]
  have "case ta_receipt_id a of
      None \<Rightarrow> cr_receipt_id r \<in> set (pt_receipt_ids u)
        \<and> cr_artifact_digests r \<noteq> [] \<and> digests_match env (files st) (cr_artifact_digests r)
    | Some i \<Rightarrow> i \<in> set (pt_receipt_ids u) \<and> get_completion_receipt env (files st) i = Inr (Some r)"
  proof (cases "ta_receipt_id a")
    case None
    have "re_tcr (cr_receipt_id r)" by (rule receipt_ok_id [OF receipt(1)])
    then have "cr_receipt_id r \<noteq> []" by (auto simp: re_tcr_def re_receipt_def)
    moreover have "cr_artifact_digests r \<noteq> [] \<and> digests_match env (files st) (cr_artifact_digests r)"
      using t(3) assms(3) r None build_receipt_digests [of env "files st" a t r]
      by (auto simp: completion_receipt_of_def bindE_eq_Inr split: if_splits)
    ultimately show ?thesis using fields r(1) None by (auto simp: assign_fields_def final_receipt_id_def)
  next
    case (Some i)
    have found: "get_completion_receipt env (files st) i = Inr (Some r)"
      using t(3) assms(3) r Some
      by (auto simp: completion_receipt_of_def bindE_eq_Inr split: if_splits option.splits)
    then have "re_tcr i" by (auto simp: get_completion_receipt_def split: if_splits)
    then have "i \<noteq> []" by (auto simp: re_tcr_def re_receipt_def)
    then show ?thesis using found fields Some by (auto simp: assign_fields_def final_receipt_id_def)
  qed
  moreover have "pt_state t = Working \<or> pt_state t = Completed"
    using t(5) s completed_only_from_working by (auto simp: validate_transition_ok_iff)
  moreover have "ta_expected_revision a = Some (pt_revision t)"
    using t(2) r(2) by (auto simp: guard_transition_def split: if_splits)
  moreover have "files st' (receipt_file (cr_receipt_id r)) = Some (receipt_text env r)"
    using saved_files(3) [OF saved(3) id(1) r(1)] saved(4) by simp
  ultimately show ?thesis using t(1) fields s receipt by (intro exI [of _ t] exI [of _ r]) simp
qed

theorem completion_has_its_receipt_witness:
  "\<exists>r :: completion_receipt. cr_task_id r = ''t1'' \<and> cr_task_revision r = 2 \<and> cr_receipt_id r \<in> set (pt_receipt_ids finished_task)
     \<and> digests_match (service_env finished_task finished_event) (files service_store) (cr_artifact_digests r)"
proof -
  let ?env = "service_env finished_task finished_event"
  have s: "stored ?env (files service_store) (ta_task_id finish_args) plan_task [plan_created]"
    using service_stored [OF finished_texts] by (simp add: finish_args_def)
  have "length (receipt_text plain_env finish_receipt) \<le> 5000" by code_simp
  then have w: "writable ?env (files service_store) finished_task finished_event (Some finish_receipt) [plan_created]"
    by (intro service_writable [OF finished_texts])
      (simp_all add: finished_event_def moved_event_def MAX_TASK_STATE_BYTES_def)
  have "task_ok finished_task" by code_simp
  then obtain st' where "transition_task ?env ''tx1'' None finish_args service_store = (Inr finished_task, st')"
    using transition_saved [OF service_usable s finished_planned w] by metis
  note run = this
  have a: "ta_idempotency_key finish_args = None" "ta_new_state finish_args = ''completed''"
    "ta_task_id finish_args = ''t1''" "ta_receipt_id finish_args = None"
    by (simp_all add: finish_args_def)
  have "pt_revision finished_task = 2" by (simp add: finished_task_def moved_def)
  moreover have "\<exists>r :: completion_receipt. cr_task_id r = ta_task_id finish_args \<and> cr_task_revision r = pt_revision finished_task
    \<and> cr_receipt_id r \<in> set (pt_receipt_ids finished_task)
    \<and> digests_match ?env (files service_store) (cr_artifact_digests r)"
    using completion_has_its_receipt [OF service_usable a(1,2) run] unfolding a(4) option.case
    by (elim exE conjE) (rule exI, intro conjI, assumption+)
  ultimately show ?thesis using a(3) by auto
qed

subsection \<open>Repeated creation\<close>

lemma plan_create_fresh:
  assumes "plan_create env fs a = Inr (Save t e r)"
  shows "fs (task_file (ca_task_id a)) = None" "e = created_event env a t" "pt_task_id t = ca_task_id a"
    "re_task_id (ca_task_id a)" "r = None"
proof -
  show "fs (task_file (ca_task_id a)) = None" "e = created_event env a t" "pt_task_id t = ca_task_id a"
    "re_task_id (ca_task_id a)" "r = None"
    using assms
    by (auto simp: plan_create_def Let_def bindE_eq_Inr get_task_def with_task_id_def mk_power_task_def
        mk_task_event_def new_task_def task_ok_def split: option.splits if_splits)
qed

lemma created_event_simps [simp]:
  "te_task_id (created_event env a t) = ca_task_id a" "te_sequence (created_event env a t) = 1"
  "te_event_type (created_event env a t) = ''task_created''"
  "te_prev_event_digest (created_event env a t) = []"
  "te_payload_digest (created_event env a t) =
     canonical_payload_digest (se_rt env) (te_payload (created_event env a t))"
  "jget (te_payload (created_event env a t)) ''idempotency_key'' = jopt (ca_idempotency_key a)"
  "jget (te_payload (created_event env a t)) ''command_sha256'' = JStr (create_command (se_rt env) a)"
  "jget (te_payload (created_event env a t)) ''result'' = JObj (task_dump t)"
  by (simp_all add: created_event_def new_task_event_def jget_def)

lemma plan_create_again:
  assumes s: "stored env fs (ca_task_id b) t [created_event env' a t]" and rt: "se_rt env' = se_rt env"
  shows "plan_create env fs b =
    (if ca_idempotency_key b = None \<or> ca_idempotency_key b \<noteq> ca_idempotency_key a then Inl ConflictError
     else if create_command (se_rt env) b \<noteq> create_command (se_rt env) a then Inl PyValueError
     else Inr (Replay t))"
proof -
  have "task_ok t" using s by (simp add: stored_def task_durable_def)
  from validate_task_dump [OF this] show ?thesis
    using task_files.fetch_held [OF s] task_files.history_held [OF s, of False] rt
    by (cases "ca_idempotency_key a"; cases "ca_idempotency_key b")
      (auto simp: plan_create_def Let_def jopt_def)
qed

text \<open>
  C39. The creation of a task is idempotent. After a creation, any further creation for the same
  identifier, at whatever time, leaves every file as it is: with the same key and the same
  arguments it returns the task that was created, with the same key and other arguments it raises
  \<open>ValueError\<close>, and with no key or another one \<open>ConflictError\<close>.
\<close>

theorem creation_is_idempotent:
  assumes st: "usable st" "files st (task_file (ca_task_id a)) = None"
      "files st (events_file (ca_task_id a)) = None"
    and run: "create_task env tx_id fault a st = (Inr t, st1)"
    and w: "writable env (files st) t (created_event env a t) None []"
    and b: "ca_task_id b = ca_task_id a" "ca_state b \<notin> {''completed'', ''failed'', ''canceled'', ''rejected''}"
      "\<not> list_ex (\<lambda>(k, _). infra_key k) (ca_external_refs b)"
  shows "\<exists>st2. create_task (at_time now millis env) tx_id' fault' b st1 =
      ((if ca_idempotency_key b = None \<or> ca_idempotency_key b \<noteq> ca_idempotency_key a then Inl ConflictError
        else if create_command (se_rt env) b \<noteq> create_command (se_rt env) a then Inl PyValueError
        else Inr t), st2) \<and> files st2 = files st1"
proof -
  let ?tid = "ca_task_id a" and ?env = "at_time now millis env"
  have "run_plan env tx_id (ca_idempotency_key a) (create_command (se_rt env) a) fault
      (\<lambda>fs. plan_create env fs a) st = (Inr t, st1)"
    using run by (auto simp: create_task_def split: if_splits)
  moreover have "plan_create env (files st) a \<noteq> Inr (Replay t)"
    using st(2) by (auto simp: plan_create_def Let_def bindE_eq_Inr get_task_def with_task_id_def
        split: option.splits if_splits)
  ultimately obtain e r where saved: "plan_create env (files st) a = Inr (Save t e r)"
    "snd (save_body env (files st) t (Some e) r) = Returns"
    "files st1 = run_writes (fst (save_body env (files st) t (Some e) r)) (files st)" "usable st1"
    using create_effect(2) [OF st(1)] by blast
  note e = plan_create_fresh [OF saved(1)]
  have ok: "task_ok t"
    using saved(1) by (auto simp: plan_create_def Let_def bindE_eq_Inr mk_power_task_def split: option.splits if_splits)
  have s: "stored env (files st1) ?tid t [created_event env a t]"
    unfolding saved(3) e(2)
    by (rule stored_first [OF st(3) e(3) _ saved(2) [unfolded e(2)]])
      (use w ok in \<open>simp_all add: writable_def task_durable_def\<close>)
  then have "stored ?env (files st1) (ca_task_id b) t [created_event env a t]" using b(1) by simp
  note again = plan_create_again [OF this]
  note refused = run_plan_refused [of st1 "\<lambda>fs. plan_create ?env fs b", OF saved(4)]
  note replayed = run_plan_replayed [of st1 "\<lambda>fs. plan_create ?env fs b", OF saved(4)]
  let ?other = "ca_idempotency_key b = None \<or> ca_idempotency_key b \<noteq> ca_idempotency_key a"
  let ?changed = "create_command (se_rt env) b \<noteq> create_command (se_rt env) a"
  consider "?other" | "\<not> ?other" "?changed" | "\<not> ?other" "\<not> ?changed" by blast
  then have "run_plan ?env tx_id' (ca_idempotency_key b) (create_command (se_rt env) b) fault'
      (\<lambda>fs. plan_create ?env fs b) st1 =
    ((if ?other then Inl ConflictError else if ?changed then Inl PyValueError else Inr t), locked 0 st1)"
  proof cases
    case 1
    then show ?thesis using again refused [of ConflictError] by simp
  next
    case 2
    then show ?thesis using again refused [of PyValueError] by (auto simp del: de_Morgan_disj)
  next
    case 3
    then show ?thesis using again replayed [of t] by (auto simp del: de_Morgan_disj)
  qed
  then show ?thesis using b(2,3) by (simp add: create_task_def)
qed

lemma creation_saved:
  assumes st: "usable st" "files st (events_file (ca_task_id a)) = None"
    and plan: "plan_create env (files st) a = Inr (Save t e r)" and w: "writable env (files st) t e r []"
    and ok: "task_ok t" "ca_state a \<notin> {''completed'', ''failed'', ''canceled'', ''rejected''}"
      "\<not> list_ex (\<lambda>(k, _). infra_key k) (ca_external_refs a)"
  shows "\<exists>st'. create_task env tx_id None a st = (Inr t, st')"
proof -
  note e = plan_create_fresh [OF plan]
  obtain writes where body: "save_body env (files st) t (Some e) r = (writes, Returns)"
    "\<And>p. p \<in> fst ` set (save_touched t (Some e) r) \<Longrightarrow>
      bounded_file (files st p) \<and> bounded_file (run_writes writes (files st) p)"
    using save_bounded [of env "files st" "ca_task_id a" t "[]" t e r] e st(2) w ok(1) by auto
  have "check_save env (files st) t (Some e) r = Inr ()"
    using e by (simp add: check_save_def with_task_id_def)
  from run_plan_saved(1) [of st "\<lambda>fs. plan_create env fs a", OF st(1) plan this _ _ body]
  show ?thesis using e ok(2,3) by (simp add: create_task_def task_operation_def)
qed

theorem creation_is_idempotent_witness:
  "\<exists>st1 st2. create_task (service_env blocked_task blocked_event) ''tx1'' None plan_args empty_store = (Inr plan_task, st1)
   \<and> create_task (at_time ''2026-01-02T00:00:00+00:00'' ''1767312000000'' (service_env blocked_task blocked_event))
       ''tx2'' None plan_args st1 = (Inr plan_task, st2) \<and> files st2 = files st1"
proof -
  let ?env = "service_env blocked_task blocked_event"
  have files: "files empty_store = Map.empty" by (simp add: empty_store_def)
  have "writable ?env (files service_store) plan_task plan_created None []"
  proof -
    have "journal_text ?env = journal_text plain_env" by (simp add: fun_eq_iff journal_text_def)
    then show ?thesis
      using service_loads [OF blocked_texts] service_short [OF blocked_texts] service_stored [OF blocked_texts]
      by (simp add: writable_def reads_back_def stored_def bounded_file_def service_store_def task_file_def
          events_file_def checkpoint_file_def tasks_root_def empty_store_def)
  qed
  then have w: "writable ?env (files empty_store) plan_task plan_created None []"
    by (simp add: writable_def files bounded_file_def)
  have args: "ca_state plan_args = ''working''" "ca_external_refs plan_args = []"
    "ca_idempotency_key plan_args = Some ''k1''"
    by (simp_all add: plan_args_def)
  have "task_ok plan_task" by code_simp
  then obtain st1 where st1: "create_task ?env ''tx1'' None plan_args empty_store = (Inr plan_task, st1)"
    using creation_saved [OF _ _ created_planned w] args
    by (fastforce simp: files usable_def empty_store_def sample_store_def)
  have "created_event ?env plan_args plan_task = plan_created"
    using sample_created by (simp add: created_event_def)
  then have "writable ?env (files empty_store) plan_task (created_event ?env plan_args plan_task) None []"
    using w by simp
  note again = creation_is_idempotent [OF _ _ _ st1 this, of plan_args "''2026-01-02T00:00:00+00:00''"
      "''1767312000000''" "''tx2''" None]
  show ?thesis
    using again st1 args by (simp add: files usable_def) (simp add: empty_store_def sample_store_def)
qed

subsection \<open>Assignments without validation\<close>

lemma get_task_broken:
  assumes "fs (task_file tid) = Some (snapshot_text env u)" "re_task_id tid"
    and "reads_back env (snapshot_text env u) (task_dump u)" "\<not> task_ok u"
  shows "get_task env fs tid = Inl PyValueError"
proof -
  have "validate_task (se_rt env) (se_now env) (JObj (task_dump u)) = Inl PyValueError"
    using assms(4) by (simp add: validate_task_def read_task_dump mk_power_task_def)
  then show ?thesis
    using assms(1-3) by (simp add: get_task_def with_task_id_def read_json_def reads_back_def read_secure_bounded)
qed

text \<open>
  The plain assignments of a transition are not validated. A command that leaves a task that
  breaks the constraints of \<open>PowerTask\<close> (a next action of more than 512 characters, say) is
  accepted, unless the number of its event is a multiple of five: then the checkpoint reads the
  task back. Once accepted, the task can no longer be read, and every later transition or creation
  for its identifier, at whatever time, raises \<open>ValueError\<close>.
\<close>

theorem unchecked_assignments_lose_the_task:
  assumes st: "usable st" and s: "stored env (files st) (ta_task_id a) t es"
    and plan: "plan_transition env (files st) a = Inr (Save u e r)"
    and w: "writable env (files st) u e r es"
    and broken: "\<not> task_ok u" "te_sequence e mod 5 \<noteq> 0"
    and later: "ta_task_id b = ta_task_id a" "ca_task_id c = ta_task_id a"
      "ca_state c \<notin> {''completed'', ''failed'', ''canceled'', ''rejected''}"
      "\<not> list_ex (\<lambda>(k, _). infra_key k) (ca_external_refs c)"
  shows "\<exists>st'. transition_task env tx_id None a st = (Inr u, st')
    \<and> get_task env (files st') (ta_task_id a) = Inl PyValueError
    \<and> fst (transition_task (at_time now millis env) tx_id' fault b st') = Inl PyValueError
    \<and> fst (create_task (at_time now millis env) tx_id' fault c st') = Inl PyValueError"
proof -
  obtain st' where st': "transition_task env tx_id None a st = (Inr u, st')" "usable st'"
    "snd (save_body env (files st) u (Some e) r) = Returns"
    "files st' = run_writes (fst (save_body env (files st) u (Some e) r)) (files st)"
    "pt_task_id u = ta_task_id a" "te_task_id e = ta_task_id a"
    using transition_saved [OF st s plan w] broken(2) by metis
  let ?env = "at_time now millis env"
  have snapshot: "files st' (task_file (ta_task_id a)) = Some (snapshot_text env u)"
    using saved_files(1) [OF st'(3)] st'(4-6) by simp
  have reads: "reads_back env (snapshot_text env u) (task_dump u)" using w by (simp add: writable_def)
  note broken_read = get_task_broken [OF _ stored_id [OF s] _ broken(1)]
  have read: "get_task env (files st') (ta_task_id a) = Inl PyValueError"
    "get_task ?env (files st') (ta_task_id a) = Inl PyValueError"
    using broken_read [of "files st'" env] broken_read [of "files st'" ?env] snapshot reads
    by (simp_all add: reads_back_def)
  then have "plan_transition ?env (files st') b = Inl PyValueError"
    "plan_create ?env (files st') c = Inl PyValueError"
    using later by (simp_all add: plan_transition_def plan_create_def Let_def)
  then show ?thesis
    using st'(1) read(1) later
      run_plan_refused [of st' "\<lambda>fs. plan_transition ?env fs b", OF st'(2)]
      run_plan_refused [of st' "\<lambda>fs. plan_create ?env fs c", OF st'(2)]
    by (simp add: transition_task_def create_task_def)
qed

theorem unchecked_assignments_lose_the_task_witness:
  "\<exists>st'. transition_task (service_env broken_task broken_event) ''tx1'' None break_args service_store
     = (Inr broken_task, st')
   \<and> get_task (service_env broken_task broken_event) (files st') ''t1'' = Inl PyValueError"
proof -
  let ?env = "service_env broken_task broken_event"
  have s: "stored ?env (files service_store) (ta_task_id break_args) plan_task [plan_created]"
    using service_stored [OF broken_texts] by (simp add: break_args_def)
  have w: "writable ?env (files service_store) broken_task broken_event None [plan_created]"
    by (rule service_writable [OF broken_texts]) (simp_all add: broken_event_def moved_event_def)
  have "\<not> task_ok broken_task" by code_simp
  moreover have "te_sequence broken_event mod 5 \<noteq> 0" by (simp add: broken_event_def moved_event_def)
  moreover have a: "ta_task_id block_args = ta_task_id break_args" "ca_task_id plan_args = ta_task_id break_args"
    "ca_state plan_args \<notin> {''completed'', ''failed'', ''canceled'', ''rejected''}"
    "\<not> list_ex (\<lambda>(k, _). infra_key k) (ca_external_refs plan_args)" "ta_task_id break_args = ''t1''"
    by (simp_all add: break_args_def block_args_def plan_args_def)
  ultimately show ?thesis
    using unchecked_assignments_lose_the_task [where tx_id = "''tx1''" and now = "[]" and millis = "[]"
          and tx_id' = "''tx2''" and fault = None,
        OF service_usable s broken_planned w _ _ a(1-4)] a(5) by auto
qed

end
