(* ===== verification/Project_Ledger.thy ===== *)
theory Project_Ledger
  imports Task_Objects Lock_Tracker
begin

text \<open>
  The event store of a project (\<open>core/project_store.py\<close>): the ledger files of one project directory,
  their verification, replay, the append under the project lock with its idempotency checks, the
  repair of a torn tail, and rotation.

  The project directory is the dictionary of its regular files. The JSON parser, the clock, the
  random part of an event identifier and the path of the ledger are in the environment record. The
  texts of the files are valid UTF-8; symbolic links, file descriptors and lock timeouts are not
  modelled.
\<close>

subsection \<open>The store\<close>

record ledger_env =
  le_rt :: pyrt
  le_loads :: "string \<Rightarrow> json option"
  le_now :: string
  le_uuid :: string
  le_path :: string

datatype ledger_error =
    LedgerIntegrity | IdempotencyConflict | LedgerValueError | LedgerPermission | LedgerFileExists
  | LedgerLock lock_violation

record ledger =
  ld_files :: "string dict"
  ld_locks :: lock_state

definition ACTIVE_FILE :: string where "ACTIVE_FILE = ''events.jsonl''"

text \<open>\<open>ROTATION_FILE_PATTERN\<close>, whose match allows a trailing line feed, and the number of a partition.\<close>

definition re_rotation :: "string \<Rightarrow> bool" where
  "re_rotation s = (length s = 19 \<and> take 7 s = ''events_'' \<and> list_all is_digit (take 6 (drop 7 s))
     \<and> drop 13 s = ''.jsonl'')"

definition digits_val :: "string \<Rightarrow> nat" where
  "digits_val s = foldl (\<lambda>n c. 10 * n + (of_char c - 48)) 0 s"

definition rotation_index :: "string \<Rightarrow> nat option" where
  "rotation_index s = (if py_dollar re_rotation s then Some (digits_val (take 6 (drop 7 s))) else None)"

text \<open>\<open>f"events_{n:06d}.jsonl"\<close>.\<close>

definition archive_file :: "nat \<Rightarrow> string" where
  "archive_file n = ''events_'' @ replicate (6 - length (nat_str n)) (CHR ''0'') @ nat_str n @ ''.jsonl''"

text \<open>\<open>list_event_files\<close>: the partitions in the order of their numbers, then the active file.\<close>

definition partitions :: "string dict \<Rightarrow> (nat \<times> string) list" where
  "partitions dir = sort_key fst (List.map_filter (\<lambda>(n, c). map_option (\<lambda>i. (i, c)) (rotation_index n)) dir)"

definition list_event_files :: "string dict \<Rightarrow> string list" where
  "list_event_files dir = map snd (partitions dir)
     @ (case map_of dir ACTIVE_FILE of None \<Rightarrow> [] | Some c \<Rightarrow> [c])"

text \<open>The lines of a text file, whose reader ends lines at LF, CR and CRLF.\<close>

fun newlines :: "string \<Rightarrow> string" where
  "newlines [] = []"
| "newlines [c] = (if c = CHR 0x0D then [CHR 0x0A] else [c])"
| "newlines (c # d # s) =
     (if c = CHR 0x0D then CHR 0x0A # newlines (if d = CHR 0x0A then s else d # s) else c # newlines (d # s))"

definition file_lines :: "string \<Rightarrow> string list" where
  "file_lines c = split_on (CHR 0x0A) (newlines c)"

definition ledger_lines :: "string dict \<Rightarrow> string list" where
  "ledger_lines dir = concat (map file_lines (list_event_files dir))"

subsection \<open>Reading an event\<close>

definition EVENT_FIELDS :: "string list" where
  "EVENT_FIELDS = [''event_id'', ''schema_version'', ''project_id'', ''sequence'', ''timestamp'', ''actor'',
     ''source'', ''session_id'', ''event_type'', ''payload'', ''payload_digest'', ''prev_event_hash'',
     ''event_hash'', ''artifact_refs'', ''evidence_refs'', ''correlation_id'', ''causation_id'',
     ''idempotency_key'']"

definition read_event :: "pyrt \<Rightarrow> payload \<Rightarrow> pse_error + project_event" where
  "read_event rt d =
     (if \<not> list_all (\<lambda>(k, _). k \<in> set EVENT_FIELDS) d then Inl PyError
      else
        bindE (need_fld d ''event_id'') (\<lambda>event_id.
        bindE (str_fld d ''schema_version'' ''power.project-event.v1'') (\<lambda>schema.
        bindE (need_fld d ''project_id'') (\<lambda>project_id.
        bindE (case map_of d ''sequence'' of None \<Rightarrow> Inl PyError | Some _ \<Rightarrow> int_fld rt d ''sequence'' 0) (\<lambda>sequence.
        bindE (need_fld d ''timestamp'') (\<lambda>timestamp. bindE (need_fld d ''actor'') (\<lambda>actor.
        bindE (need_fld d ''source'') (\<lambda>source. bindE (opt_fld d ''session_id'' None) (\<lambda>session.
        bindE (need_fld d ''event_type'') (\<lambda>event_type.
        bindE (case map_of d ''payload'' of None \<Rightarrow> Inr [] | Some (JObj p) \<Rightarrow> Inr p | _ \<Rightarrow> Inl PyError) (\<lambda>p.
        bindE (need_fld d ''payload_digest'') (\<lambda>digest. bindE (str_fld d ''prev_event_hash'' []) (\<lambda>prev.
        bindE (need_fld d ''event_hash'') (\<lambda>hash. bindE (strs_fld d ''artifact_refs'') (\<lambda>artifacts.
        bindE (strs_fld d ''evidence_refs'') (\<lambda>evidence.
        bindE (opt_fld d ''correlation_id'' None) (\<lambda>correlation.
        bindE (opt_fld d ''causation_id'' None) (\<lambda>causation.
        bindE (opt_fld d ''idempotency_key'' None) (\<lambda>idempotency.
        validate_event rt \<lparr>ev_event_id = event_id, ev_schema_version = schema, ev_project_id = project_id,
          ev_sequence = sequence, ev_timestamp = timestamp, ev_actor = actor, ev_source = source,
          ev_session_id = session, ev_event_type = event_type, ev_payload = p, ev_payload_digest = digest,
          ev_prev_event_hash = prev, ev_event_hash = hash, ev_artifact_refs = artifacts,
          ev_evidence_refs = evidence, ev_correlation_id = correlation, ev_causation_id = causation,
          ev_idempotency_key = idempotency\<rparr>)))))))))))))))))))"

datatype parsed_line = BadJson | BadSchema | Parsed project_event

definition parse_line :: "ledger_env \<Rightarrow> string \<Rightarrow> parsed_line" where
  "parse_line env l = (case le_loads env l of
       None \<Rightarrow> BadJson
     | Some (JObj d) \<Rightarrow> (case read_event (le_rt env) d of Inl _ \<Rightarrow> BadSchema | Inr e \<Rightarrow> Parsed e)
     | Some _ \<Rightarrow> BadSchema)"

subsection \<open>Verification\<close>

datatype ledger_fault =
    MalformedJson | SchemaViolation | ForeignProject | DuplicateEventId | SequenceBroken | PrevHashBroken
  | PayloadDigestBroken | EventHashBroken | UnreadableFile

record ledger_scan =
  sc_count :: int
  sc_next :: int
  sc_prev :: string
  sc_seen :: "string list"
  sc_last_sequence :: int
  sc_last_hash :: string
  sc_errors :: "ledger_fault list"

definition scan_start :: ledger_scan where
  "scan_start = \<lparr>sc_count = 0, sc_next = 1, sc_prev = [], sc_seen = [], sc_last_sequence = 0,
     sc_last_hash = [], sc_errors = []\<rparr>"

definition flag :: "bool \<Rightarrow> ledger_fault \<Rightarrow> ledger_scan \<Rightarrow> ledger_scan" where
  "flag b f s = (if b then s\<lparr>sc_errors := sc_errors s @ [f]\<rparr> else s)"

text \<open>One event; the first component is \<open>False\<close> when a \<open>ValueError\<close> of a digest leaves the file.\<close>

definition verify_event :: "pyrt \<Rightarrow> string \<Rightarrow> project_event \<Rightarrow> ledger_scan \<Rightarrow> bool \<times> ledger_scan" where
  "verify_event rt pid e s =
     (let s1 = flag (ev_project_id e \<noteq> pid) ForeignProject s;
          s2 = flag (ev_event_id e \<in> set (sc_seen s1)) DuplicateEventId s1;
          s3 = s2\<lparr>sc_seen := List.insert (ev_event_id e) (sc_seen s2)\<rparr>;
          s4 = flag (ev_sequence e \<noteq> sc_next s3) SequenceBroken s3;
          s5 = flag (ev_prev_event_hash e \<noteq> sc_prev s4) PrevHashBroken s4
      in case compute_payload_digest rt (ev_payload e) of
           Inl _ \<Rightarrow> (False, s5)
         | Inr d \<Rightarrow>
             let s6 = flag (ev_payload_digest e \<noteq> d) PayloadDigestBroken s5
             in case event_hash_of rt e of
                  Inl _ \<Rightarrow> (False, s6)
                | Inr h \<Rightarrow> (True, (flag (ev_event_hash e \<noteq> h) EventHashBroken s6)
                    \<lparr>sc_next := ev_sequence e + 1, sc_prev := ev_event_hash e,
                     sc_last_sequence := ev_sequence e, sc_last_hash := ev_event_hash e\<rparr>))"

fun verify_lines :: "ledger_env \<Rightarrow> string \<Rightarrow> string list \<Rightarrow> ledger_scan \<Rightarrow> ledger_scan" where
  "verify_lines env pid [] s = s"
| "verify_lines env pid (l # ls) s =
     (if strip l = [] then verify_lines env pid ls s
      else
        let s1 = s\<lparr>sc_count := sc_count s + 1\<rparr>
        in case parse_line env (strip l) of
             BadJson \<Rightarrow> verify_lines env pid ls (flag True MalformedJson s1)
           | BadSchema \<Rightarrow> verify_lines env pid ls (flag True SchemaViolation s1)
           | Parsed e \<Rightarrow> (case verify_event (le_rt env) pid e s1 of
                 (True, s2) \<Rightarrow> verify_lines env pid ls s2
               | (False, s2) \<Rightarrow> flag True UnreadableFile s2))"

text \<open>\<open>ProjectEventStore.verify\<close>; the result is the last state of the scan, valid without errors.\<close>

definition verify :: "ledger_env \<Rightarrow> string \<Rightarrow> string dict \<Rightarrow> ledger_scan" where
  "verify env pid dir = fold (\<lambda>c. verify_lines env pid (file_lines c)) (list_event_files dir) scan_start"

definition valid_scan :: "ledger_scan \<Rightarrow> bool" where
  "valid_scan s = (sc_errors s = [])"

subsection \<open>Replay\<close>

fun replay_lines :: "ledger_env \<Rightarrow> int \<Rightarrow> string list \<Rightarrow> ledger_error + project_event list" where
  "replay_lines env from [] = Inr []"
| "replay_lines env from (l # ls) =
     (if strip l = [] then replay_lines env from ls
      else case parse_line env (strip l) of
          Parsed e \<Rightarrow> bindE (replay_lines env from ls) (\<lambda>es.
            Inr (if from \<le> ev_sequence e then e # es else es))
        | _ \<Rightarrow> Inl LedgerValueError)"

definition replay :: "ledger_env \<Rightarrow> int \<Rightarrow> string dict \<Rightarrow> ledger_error + project_event list" where
  "replay env from dir = replay_lines env from (ledger_lines dir)"

subsection \<open>The torn tail\<close>

definition last_is :: "char \<Rightarrow> string \<Rightarrow> bool" where
  "last_is c s = (s \<noteq> [] \<and> last s = c)"

definition is_byte_space :: "char \<Rightarrow> bool" where
  "is_byte_space c = (c \<in> {CHR 0x09, CHR 0x0A, CHR 0x0B, CHR 0x0C, CHR 0x0D, CHR 0x20})"

definition parsed_event :: "ledger_env \<Rightarrow> string \<Rightarrow> ledger_error + project_event" where
  "parsed_event env l = (case parse_line env (strip l) of Parsed e \<Rightarrow> Inr e | _ \<Rightarrow> Inl LedgerIntegrity)"

definition value_raise :: "'e + 'a \<Rightarrow> ledger_error + 'a" where
  "value_raise m = (case m of Inl _ \<Rightarrow> Inl LedgerValueError | Inr x \<Rightarrow> Inr x)"

definition check_complete :: "ledger_env \<Rightarrow> string list \<Rightarrow> ledger_error + unit" where
  "check_complete env lines =
     (case rev lines of
        [] \<Rightarrow> Inr ()
      | l # before \<Rightarrow>
          bindE (parsed_event env l) (\<lambda>e.
          bindE (value_raise (compute_payload_digest (le_rt env) (ev_payload e))) (\<lambda>d.
          if ev_payload_digest e \<noteq> d then Inl LedgerIntegrity
          else bindE (value_raise (event_hash_of (le_rt env) e)) (\<lambda>h.
          if ev_event_hash e \<noteq> h then Inl LedgerIntegrity
          else case before of
              [] \<Rightarrow> Inr ()
            | k # _ \<Rightarrow> bindE (parsed_event env k) (\<lambda>p.
                if ev_sequence e \<noteq> ev_sequence p + 1 \<or> ev_prev_event_hash e \<noteq> ev_event_hash p
                then Inl LedgerIntegrity else Inr ())))))"

text \<open>The contents after \<open>recover_torn_tail\<close>.\<close>

definition recover_torn_tail :: "ledger_env \<Rightarrow> string \<Rightarrow> ledger_error + string" where
  "recover_torn_tail env c =
     (if c = [] then Inr c
      else if last c \<noteq> CHR 0x0A then Inr (rev (dropWhile (\<lambda>x. x \<noteq> CHR 0x0A) (rev c)))
      else bindE (check_complete env (filter (\<lambda>l. \<not> list_all is_byte_space l) (file_lines c))) (\<lambda>_. Inr c))"

definition recover_active :: "ledger_env \<Rightarrow> string dict \<Rightarrow> ledger_error + string dict" where
  "recover_active env dir = (case map_of dir ACTIVE_FILE of
       None \<Rightarrow> Inr dir
     | Some c \<Rightarrow> bindE (recover_torn_tail env c) (\<lambda>d. Inr (AList.update ACTIVE_FILE d dir)))"

subsection \<open>Append\<close>

definition command_print :: "pyrt \<Rightarrow> append_command \<Rightarrow> ledger_error + string" where
  "command_print rt c = value_raise (compute_command_fingerprint rt (ac_actor c) (ac_event_type c) (ac_payload c)
     (ac_artifact_refs c) (ac_evidence_refs c) (ac_source c) (ac_session_id c) (ac_correlation_id c)
     (ac_causation_id c))"

definition event_print :: "pyrt \<Rightarrow> project_event \<Rightarrow> ledger_error + string" where
  "event_print rt e = value_raise (compute_command_fingerprint rt (ev_actor e) (ev_event_type e) (ev_payload e)
     (ev_artifact_refs e) (ev_evidence_refs e) (ev_source e) (ev_session_id e) (ev_correlation_id e)
     (ev_causation_id e))"

text \<open>\<open>x and y == x\<close> for an optional string \<open>x\<close>.\<close>

definition given :: "string option \<Rightarrow> string option \<Rightarrow> bool" where
  "given x y = (x \<notin> {None, Some []} \<and> y = x)"

fun find_recorded ::
  "ledger_env \<Rightarrow> append_command \<Rightarrow> string \<Rightarrow> string list \<Rightarrow> ledger_error + project_event option" where
  "find_recorded env c fp [] = Inr None"
| "find_recorded env c fp (l # ls) =
     (if strip l = [] then find_recorded env c fp ls
      else case parse_line env (strip l) of
          Parsed e \<Rightarrow>
            if given (ac_idempotency_key c) (ev_idempotency_key e)
               \<or> given (ac_event_id c) (Some (ev_event_id e))
            then bindE (event_print (le_rt env) e) (\<lambda>fe.
              if fp \<noteq> fe then Inl IdempotencyConflict else Inr (Some e))
            else find_recorded env c fp ls
        | _ \<Rightarrow> Inl LedgerValueError)"

definition new_event_id :: "ledger_env \<Rightarrow> string \<Rightarrow> append_command \<Rightarrow> int \<Rightarrow> string" where
  "new_event_id env pid c n =
     (if ac_event_id c \<notin> {None, Some []} then the (ac_event_id c)
      else if ac_idempotency_key c \<notin> {None, Some []}
      then generate_deterministic_event_id (le_rt env) pid (the (ac_idempotency_key c))
      else ''evt_'' @ pid @ ''_'' @ int_str n @ ''_'' @ take 12 (le_uuid env))"

definition new_event ::
  "ledger_env \<Rightarrow> string \<Rightarrow> append_command \<Rightarrow> int \<Rightarrow> string \<Rightarrow> ledger_error + project_event" where
  "new_event env pid c n prev =
     bindE (value_raise (compute_payload_digest (le_rt env) (ac_payload c))) (\<lambda>d.
     let raw = \<lparr>ev_event_id = new_event_id env pid c n, ev_schema_version = ''power.project-event.v1'',
           ev_project_id = pid, ev_sequence = n,
           ev_timestamp = (if ac_timestamp c \<in> {None, Some []} then le_now env else the (ac_timestamp c)),
           ev_actor = ac_actor c, ev_source = ac_source c, ev_session_id = ac_session_id c,
           ev_event_type = ac_event_type c, ev_payload = ac_payload c, ev_payload_digest = d,
           ev_prev_event_hash = prev, ev_event_hash = [], ev_artifact_refs = ac_artifact_refs c,
           ev_evidence_refs = ac_evidence_refs c, ev_correlation_id = ac_correlation_id c,
           ev_causation_id = ac_causation_id c, ev_idempotency_key = ac_idempotency_key c\<rparr>
     in bindE (value_raise (event_hash_of (le_rt env) raw)) (\<lambda>h.
        value_raise (validate_event (le_rt env) (raw\<lparr>ev_event_hash := h\<rparr>))))"

definition event_record :: "pyrt \<Rightarrow> project_event \<Rightarrow> string" where
  "event_record rt e = dumps rt (sort_keys (JObj (event_dump e)))"

definition append_line :: "string \<Rightarrow> string dict \<Rightarrow> string dict" where
  "append_line l dir = AList.update ACTIVE_FILE
     ((case map_of dir ACTIVE_FILE of None \<Rightarrow> [] | Some c \<Rightarrow> c) @ l @ [CHR 0x0A]) dir"

text \<open>\<open>_append_unchecked\<close> inside the lock: the event, and the files.\<close>

definition append_files ::
  "ledger_env \<Rightarrow> string \<Rightarrow> append_command \<Rightarrow> int option \<Rightarrow> string option \<Rightarrow> string dict \<Rightarrow>
   (ledger_error + project_event) \<times> string dict" where
  "append_files env pid c last_sequence last_hash dir =
     (case recover_active env dir of
        Inl x \<Rightarrow> (Inl x, dir)
      | Inr dir1 \<Rightarrow>
          let v = verify env pid dir1 in
          if \<not> valid_scan v then (Inl LedgerIntegrity, dir1)
          else if last_sequence \<notin> {None, Some (sc_last_sequence v)} then (Inl LedgerValueError, dir1)
          else if last_hash \<notin> {None, Some (sc_last_hash v)} then (Inl LedgerValueError, dir1)
          else case bindE (command_print (le_rt env) c) (\<lambda>fp.
              bindE (find_recorded env c fp (ledger_lines dir1)) (\<lambda>found.
                case found of Some e \<Rightarrow> Inr (True, e) | None \<Rightarrow>
                bindE (new_event env pid c (sc_last_sequence v + 1)
                    (if sc_last_sequence v + 1 = 1 then [] else sc_last_hash v)) (\<lambda>e.
                if check_floats (JObj (event_dump e)) then Inr (False, e) else Inl LedgerValueError))) of
            Inl x \<Rightarrow> (Inl x, dir1)
          | Inr (recorded, e) \<Rightarrow>
              (Inr e, if recorded then dir1 else append_line (event_record (le_rt env) e) dir1))"

text \<open>The project lock: the hierarchy check around the body.\<close>

definition with_project_lock ::
  "string \<Rightarrow> (ledger \<Rightarrow> (ledger_error + 'a) \<times> ledger) \<Rightarrow> ledger \<Rightarrow> (ledger_error + 'a) \<times> ledger" where
  "with_project_lock pid body s = (case push_level LEVEL_PROJECT (Some pid) (ld_locks s) of
       Inl x \<Rightarrow> (Inl (LedgerLock x), s)
     | Inr h \<Rightarrow> (let (r, t) = body (s\<lparr>ld_locks := h\<rparr>)
                 in (r, t\<lparr>ld_locks := pop_level LEVEL_PROJECT (ld_locks t)\<rparr>)))"

definition append_unchecked ::
  "ledger_env \<Rightarrow> string \<Rightarrow> append_command \<Rightarrow> int option \<Rightarrow> string option \<Rightarrow> ledger \<Rightarrow>
   (ledger_error + project_event) \<times> ledger" where
  "append_unchecked env pid c last_sequence last_hash s =
     (if ac_project_id c \<noteq> pid then (Inl LedgerValueError, s)
      else with_project_lock pid (\<lambda>t.
        let (r, dir) = append_files env pid c last_sequence last_hash (ld_files t)
        in (r, t\<lparr>ld_files := dir\<rparr>)) s)"

definition PSE_GOVERNANCE_EVENT_TYPES :: "string list" where
  "PSE_GOVERNANCE_EVENT_TYPES =
    [''project.created'', ''project.updated'', ''project.phase.changed'', ''project.reopened'',
     ''raci.assigned'', ''raci.revoked'', ''evidence.attached'', ''artifact.created'', ''artifact.updated'',
     ''task.associated'', ''task.disassociated'', ''decision.associated'', ''decision.disassociated'',
     ''dor.evaluated'', ''dod.evaluated'', ''gate.overridden'']"

definition PSE_OBSERVATION_EVENT_TYPES :: "string list" where
  "PSE_OBSERVATION_EVENT_TYPES = [''task.lifecycle.observed'', ''decision.lifecycle.observed'']"

definition ledger_append ::
  "ledger_env \<Rightarrow> string \<Rightarrow> append_command \<Rightarrow> ledger \<Rightarrow> (ledger_error + project_event) \<times> ledger" where
  "ledger_append env pid c s = (case value_raise (validate_command (le_rt env) c) of
       Inl x \<Rightarrow> (Inl x, s)
     | Inr d \<Rightarrow>
         if ac_event_type d \<in> set PSE_GOVERNANCE_EVENT_TYPES
            \<or> (ac_source d = ''pse_governance'' \<and> ac_event_type d \<in> set PSE_OBSERVATION_EVENT_TYPES)
         then (Inl LedgerPermission, s)
         else append_unchecked env pid d None None s)"

definition append_untrusted ::
  "ledger_env \<Rightarrow> string \<Rightarrow> append_command \<Rightarrow> ledger \<Rightarrow> (ledger_error + project_event) \<times> ledger" where
  "append_untrusted env pid c s = (case value_raise (validate_command (le_rt env) c) of
       Inl x \<Rightarrow> (Inl x, s)
     | Inr d \<Rightarrow>
         if ac_event_type d \<in> set PSE_GOVERNANCE_EVENT_TYPES then (Inl LedgerPermission, s)
         else append_unchecked env pid
           (if ac_event_type d \<in> set PSE_OBSERVATION_EVENT_TYPES
            then d\<lparr>ac_source := ''untrusted_ingest''\<rparr> else d) None None s)"

definition append_governed ::
  "ledger_env \<Rightarrow> string \<Rightarrow> append_command \<Rightarrow> int option \<Rightarrow> string option \<Rightarrow> ledger \<Rightarrow>
   (ledger_error + project_event) \<times> ledger" where
  "append_governed env pid c last_sequence last_hash s =
     (if ac_source c \<noteq> ''pse_governance''
         \<or> ac_event_type c \<notin> set (PSE_GOVERNANCE_EVENT_TYPES @ PSE_OBSERVATION_EVENT_TYPES)
      then (Inl LedgerPermission, s)
      else append_unchecked env pid c last_sequence last_hash s)"

subsection \<open>Verified replay\<close>

record replay_receipt =
  rr_project_id :: string
  rr_ledger_path :: string
  rr_from_sequence :: int
  rr_to_sequence :: int
  rr_event_count :: int
  rr_head_event_hash :: string
  rr_verified :: bool
  rr_replayed_at :: string

definition read_verified_replay ::
  "ledger_env \<Rightarrow> string \<Rightarrow> int \<Rightarrow> ledger \<Rightarrow> (ledger_error + (replay_receipt \<times> project_event list)) \<times> ledger" where
  "read_verified_replay env pid from s = with_project_lock pid (\<lambda>t.
     (if \<not> valid_scan (verify env pid (ld_files t)) then Inl LedgerIntegrity
      else bindE (replay env from (ld_files t)) (\<lambda>es.
        let head = (if es = [] then [] else ev_event_hash (last es));
            upto = (if es = [] then from else ev_sequence (last es))
        in if from < 1 \<or> le_path env = [] \<or> \<not> re_project_id pid \<or> \<not> re_prev_hash head \<or> \<not> re_timestamp (le_now env)
           then Inl LedgerValueError
           else Inr (\<lparr>rr_project_id = pid, rr_ledger_path = le_path env, rr_from_sequence = from,
             rr_to_sequence = max upto from, rr_event_count = int (length es), rr_head_event_hash = head,
             rr_verified = True, rr_replayed_at = le_now env\<rparr>, es)), t)) s"

subsection \<open>Rotation\<close>

definition rotation_indices :: "string dict \<Rightarrow> nat list" where
  "rotation_indices dir = sort (List.map_filter (\<lambda>(n, _). rotation_index n) dir)"

definition rotate_files ::
  "string option \<Rightarrow> string dict \<Rightarrow> (ledger_error + string option) \<times> string dict" where
  "rotate_files archive_name dir = (case map_of dir ACTIVE_FILE of
       None \<Rightarrow> (Inr None, dir)
     | Some [] \<Rightarrow> (Inr None, dir)
     | Some c \<Rightarrow>
         let indices = rotation_indices dir;
             expected = archive_file (fold max indices 0 + 1);
             name = (case archive_name of None \<Rightarrow> expected | Some a \<Rightarrow> a)
         in if indices \<noteq> [1..<length indices + 1] then (Inl LedgerValueError, dir)
            else if archive_name \<noteq> None \<and> (rotation_index name = None \<or> name \<noteq> expected)
            then (Inl LedgerValueError, dir)
            else if has_key name dir then (Inl LedgerFileExists, dir)
            else (Inr (Some name),
              AList.update ACTIVE_FILE [] (AList.update name c (AList.delete ACTIVE_FILE dir))))"

definition rotate ::
  "string \<Rightarrow> string option \<Rightarrow> ledger \<Rightarrow> (ledger_error + string option) \<times> ledger" where
  "rotate pid archive_name s = with_project_lock pid (\<lambda>t.
     let (r, dir) = rotate_files archive_name (ld_files t) in (r, t\<lparr>ld_files := dir\<rparr>)) s"

end
