(* ===== verification/Ledger_Facts.thy ===== *)
theory Ledger_Facts
  imports Project_Ledger Recovery_Facts
begin

text \<open>
  Facts on the ledger of a project: its records are the lines that are not blank, a scan without
  errors is the run of a chained list of events, and appending a line adds a record.
\<close>

subsection \<open>Lines\<close>

lemma split_on_delim: "split_on d (x @ d # y) = split_on d x @ split_on d y"
  by (induction x) (auto split: list.split)

lemma newlines_Cons: "c \<noteq> CHR 0x0D \<Longrightarrow> newlines (c # s) = c # newlines s"
  by (cases s) auto

lemma newlines_append: "c = [] \<or> last c \<noteq> CHR 0x0D \<Longrightarrow> newlines (c @ s) = newlines c @ newlines s"
  by (induction c rule: newlines.induct) (auto simp: newlines_Cons split: if_splits)

lemma newlines_plain: "CHR 0x0D \<notin> set l \<Longrightarrow> newlines l = l"
  by (induction l rule: newlines.induct) auto

lemma newlines_end: "c \<noteq> [] \<Longrightarrow> last c = CHR 0x0A \<Longrightarrow> \<exists>w. newlines c = w @ [CHR 0x0A]"
  by (induction c rule: newlines.induct) (auto split: if_splits)

text \<open>A file whose last line is complete.\<close>

definition complete :: "string \<Rightarrow> bool" where
  "complete c = (c = [] \<or> last c = CHR 0x0A)"

definition clean_line :: "string \<Rightarrow> bool" where
  "clean_line l = (CHR 0x0A \<notin> set l \<and> CHR 0x0D \<notin> set l \<and> strip l \<noteq> [])"

definition nonblank_lines :: "string list \<Rightarrow> string list" where
  "nonblank_lines ls = filter (\<lambda>l. strip l \<noteq> []) ls"

lemma nonblank_append [simp]: "nonblank_lines (xs @ ys) = nonblank_lines xs @ nonblank_lines ys"
  by (simp add: nonblank_lines_def)

lemma strip_Nil [simp]: "strip [] = []"
  by (simp add: strip_def)

lemma file_lines_Nil: "nonblank_lines (file_lines []) = []"
  by (simp add: file_lines_def nonblank_lines_def)

lemma file_lines_append:
  assumes "complete c" "clean_line l"
  shows "nonblank_lines (file_lines (c @ l @ [CHR 0x0A])) = nonblank_lines (file_lines c) @ [l]"
proof -
  have l: "newlines (l @ [CHR 0x0A]) = l @ [CHR 0x0A]"
    using assms(2) by (intro newlines_plain) (auto simp: clean_line_def)
  have "split_on (CHR 0x0A) (l @ [CHR 0x0A]) = [l, []]"
    using assms(2) split_on_delim [of "CHR 0x0A" l "[]"] split_on_whole [of "CHR 0x0A" l]
    by (simp add: clean_line_def)
  moreover have "newlines (c @ l @ [CHR 0x0A]) = newlines c @ l @ [CHR 0x0A]"
    using newlines_append [of c "l @ [CHR 0x0A]"] assms(1) l by (auto simp: complete_def)
  ultimately show ?thesis
  proof (cases "c = []")
    case True
    then show ?thesis
      using \<open>split_on _ _ = _\<close> l assms(2) by (simp add: file_lines_def nonblank_lines_def clean_line_def)
  next
    case False
    then obtain w where w: "newlines c = w @ [CHR 0x0A]"
      using newlines_end assms(1) by (auto simp: complete_def)
    have "newlines (c @ l @ [CHR 0x0A]) = w @ CHR 0x0A # (l @ [CHR 0x0A])"
      using \<open>newlines (c @ _) = _\<close> w by simp
    then show ?thesis
      using \<open>split_on _ _ = _\<close> w assms(2) split_on_delim [of "CHR 0x0A" w "[]"]
        split_on_delim [of "CHR 0x0A" w "l @ [CHR 0x0A]"]
      by (simp add: file_lines_def nonblank_lines_def clean_line_def)
  qed
qed

subsection \<open>Records\<close>

definition records :: "string dict \<Rightarrow> string list" where
  "records dir = nonblank_lines (ledger_lines dir)"

lemma active_not_rotated: "rotation_index ACTIVE_FILE = None"
  by code_simp

lemma map_filter_update:
  "(\<And>v. f (k, v) = None) \<Longrightarrow> List.map_filter f (AList.update k c xs) = List.map_filter f xs"
  by (induction xs) (auto simp: map_filter_simps split: option.splits)

lemma partitions_active [simp]: "partitions (AList.update ACTIVE_FILE c dir) = partitions dir"
  unfolding partitions_def by (subst map_filter_update) (simp_all add: active_not_rotated)

lemma ledger_lines_update:
  "ledger_lines (AList.update ACTIVE_FILE c dir) = concat (map file_lines (map snd (partitions dir))) @ file_lines c"
  by (simp add: ledger_lines_def list_event_files_def update_conv')

lemma ledger_lines_eq:
  "ledger_lines dir = concat (map file_lines (map snd (partitions dir)))
     @ (case map_of dir ACTIVE_FILE of None \<Rightarrow> [] | Some c \<Rightarrow> file_lines c)"
  by (simp add: ledger_lines_def list_event_files_def split: option.split)

definition active_complete :: "string dict \<Rightarrow> bool" where
  "active_complete dir = (case map_of dir ACTIVE_FILE of None \<Rightarrow> True | Some c \<Rightarrow> complete c)"

lemma records_append:
  assumes "active_complete dir" "clean_line l"
  shows "records (append_line l dir) = records dir @ [l]"
proof (cases "map_of dir ACTIVE_FILE")
  case None
  then show ?thesis
    using file_lines_append [of "[]" l] assms(2)
    by (simp add: records_def append_line_def ledger_lines_update ledger_lines_eq complete_def file_lines_Nil)
next
  case (Some c)
  then show ?thesis
    using file_lines_append [of c l] assms
    by (simp add: records_def append_line_def ledger_lines_update ledger_lines_eq active_complete_def)
qed

lemma active_complete_append [simp]: "active_complete (append_line l dir)"
  by (simp add: active_complete_def append_line_def complete_def update_conv')

lemma replay_nonblank: "replay_lines env from (nonblank_lines ls) = replay_lines env from ls"
  by (induction ls) (simp_all add: nonblank_lines_def split: parsed_line.split)

lemma verify_nonblank: "verify_lines env pid (nonblank_lines ls) s = verify_lines env pid ls s"
  by (induction ls arbitrary: s)
    (simp_all add: nonblank_lines_def Let_def split: parsed_line.split prod.split bool.split)

lemma find_nonblank: "find_recorded env c fp (nonblank_lines ls) = find_recorded env c fp ls"
  by (induction ls) (simp_all add: nonblank_lines_def split: parsed_line.split)

lemma replay_records: "replay env from dir = replay_lines env from (records dir)"
  by (simp add: replay_def records_def replay_nonblank)

lemma replay_append:
  "replay_lines env from (xs @ ys) = bindE (replay_lines env from xs) (\<lambda>es.
     bindE (replay_lines env from ys) (\<lambda>fs. Inr (es @ fs)))"
proof (induction xs)
  case Nil
  show ?case by (cases "replay_lines env from ys") auto
next
  case (Cons x xs)
  then show ?case
    by (cases "replay_lines env from xs"; cases "replay_lines env from ys") (auto split: parsed_line.splits)
qed

lemma read_event_validated: "read_event rt d = Inr e \<Longrightarrow> \<exists>e0. validate_event rt e0 = Inr e"
  unfolding read_event_def
  by (split if_split_asm) (simp, simp only: bindE_eq_Inr, elim exE conjE, rule exI)

lemma parse_line_sequence:
  assumes "parse_line env l = Parsed e"
  shows "1 \<le> ev_sequence e"
proof -
  obtain d where "read_event (le_rt env) d = Inr e"
    using assms by (auto simp: parse_line_def split: option.splits json.splits sum.splits)
  then obtain e0 where "validate_event (le_rt env) e0 = Inr e" using read_event_validated by blast
  then show ?thesis by (auto simp: validate_event_def bindE_eq_Inr split: if_splits)
qed

subsection \<open>Scans\<close>

definition good_event :: "pyrt \<Rightarrow> string \<Rightarrow> project_event \<Rightarrow> ledger_scan \<Rightarrow> bool" where
  "good_event rt pid e s =
     (ev_project_id e = pid \<and> ev_event_id e \<notin> set (sc_seen s) \<and> ev_sequence e = sc_next s
      \<and> ev_prev_event_hash e = sc_prev s \<and> compute_payload_digest rt (ev_payload e) = Inr (ev_payload_digest e)
      \<and> event_hash_of rt e = Inr (ev_event_hash e))"

definition scan_event :: "project_event \<Rightarrow> ledger_scan \<Rightarrow> ledger_scan" where
  "scan_event e s = s\<lparr>sc_count := sc_count s + 1, sc_next := ev_sequence e + 1, sc_prev := ev_event_hash e,
     sc_seen := List.insert (ev_event_id e) (sc_seen s), sc_last_sequence := ev_sequence e,
     sc_last_hash := ev_event_hash e\<rparr>"

fun good_run :: "pyrt \<Rightarrow> string \<Rightarrow> project_event list \<Rightarrow> ledger_scan \<Rightarrow> bool" where
  "good_run rt pid [] s = True"
| "good_run rt pid (e # es) s = (good_event rt pid e s \<and> good_run rt pid es (scan_event e s))"

lemma flag_simps [simp]:
  "flag False f s = s" "sc_errors (flag b f s) = sc_errors s @ (if b then [f] else [])"
  "sc_seen (flag b f s) = sc_seen s" "sc_next (flag b f s) = sc_next s" "sc_prev (flag b f s) = sc_prev s"
  by (simp_all add: flag_def)

lemma verify_event_good:
  "good_event rt pid e s \<Longrightarrow>
   verify_event rt pid e (s\<lparr>sc_count := sc_count s + 1\<rparr>) = (True, scan_event e s)"
  by (simp add: good_event_def verify_event_def scan_event_def Let_def)

lemma verify_event_bad:
  assumes "verify_event rt pid e (s\<lparr>sc_count := n\<rparr>) = (b, t)"
  shows "\<exists>fs. sc_errors t = sc_errors s @ fs" "\<not> good_event rt pid e s \<Longrightarrow> b \<Longrightarrow> sc_errors t \<noteq> []"
  using assms
  by (auto simp: verify_event_def good_event_def Let_def split: sum.splits if_splits)

lemma verify_lines_errors: "\<exists>fs. sc_errors (verify_lines env pid ls s) = sc_errors s @ fs"
proof (induction env pid ls s rule: verify_lines.induct)
  case (2 env pid l ls s)
  have event: "\<exists>fs. sc_errors t = sc_errors s @ fs"
    if "verify_event (le_rt env) pid e (s\<lparr>sc_count := sc_count s + 1\<rparr>) = (b, t)" for e b t
    using verify_event_bad(1) [OF that] .
  show ?case
    using 2 event by (fastforce simp: Let_def split: parsed_line.splits prod.splits bool.splits)
qed simp

text \<open>A scan without errors is the run of the events that the replay yields.\<close>

lemma verify_lines_good:
  assumes "replay_lines env 1 ls = Inr es" "good_run (le_rt env) pid es s"
  shows "verify_lines env pid ls s = fold scan_event es s"
  using assms
proof (induction ls arbitrary: s es)
  case (Cons l ls)
  show ?case
  proof (cases "strip l = []")
    case False
    then obtain e es' where e: "parse_line env (strip l) = Parsed e" "replay_lines env 1 ls = Inr es'"
      "es = e # es'"
      using Cons.prems(1) parse_line_sequence [of env "strip l"]
      by (auto simp: bindE_eq_Inr split: parsed_line.splits)
    then have "good_event (le_rt env) pid e s" "good_run (le_rt env) pid es' (scan_event e s)"
      using Cons.prems(2) by simp_all
    then show ?thesis
      using False e Cons.IH [OF e(2)] by (simp add: verify_event_good Let_def)
  qed (use Cons in simp)
qed simp

lemma verify_lines_valid:
  assumes "sc_errors (verify_lines env pid ls s) = []"
  shows "\<exists>es. replay_lines env 1 ls = Inr es \<and> good_run (le_rt env) pid es s"
  using assms
proof (induction ls arbitrary: s)
  case (Cons l ls)
  show ?case
  proof (cases "strip l = []")
    case False
    let ?s = "s\<lparr>sc_count := sc_count s + 1\<rparr>"
    have bad: "sc_errors (verify_lines env pid ls (flag True f ?s)) \<noteq> []" for f
      using verify_lines_errors [of env pid ls "flag True f ?s"] by auto
    obtain e where e: "parse_line env (strip l) = Parsed e"
      using Cons.prems False bad by (auto simp: Let_def split: parsed_line.splits)
    obtain b t where t: "verify_event (le_rt env) pid e ?s = (b, t)" by (rule prod.exhaust)
    have b: "b" "sc_errors (verify_lines env pid ls t) = []"
      using Cons.prems False e t by (auto simp: Let_def split: bool.splits)
    then have "sc_errors t = []" using verify_lines_errors [of env pid ls t] by auto
    then have good: "good_event (le_rt env) pid e s" using verify_event_bad(2) [OF t] b(1) by blast
    then have "t = scan_event e s" using t verify_event_good by simp
    then obtain es where "replay_lines env 1 ls = Inr es" "good_run (le_rt env) pid es (scan_event e s)"
      using Cons.IH b(2) by blast
    then show ?thesis
      using good e False parse_line_sequence [OF e] by (intro exI [of _ "e # es"]) simp
  qed (use Cons in simp)
qed simp

lemma good_run_append:
  "good_run rt pid (es @ fs) s \<longleftrightarrow> good_run rt pid es s \<and> good_run rt pid fs (fold scan_event es s)"
  by (induction es arbitrary: s) auto

lemma good_run_errors: "sc_errors (fold scan_event es s) = sc_errors s"
  by (induction es arbitrary: s) (simp_all add: scan_event_def)

lemma verify_lines_iff:
  "sc_errors (verify_lines env pid ls s) = [] \<longleftrightarrow>
     sc_errors s = [] \<and> (\<exists>es. replay_lines env 1 ls = Inr es \<and> good_run (le_rt env) pid es s)"
  using verify_lines_valid [of env pid ls s] verify_lines_errors [of env pid ls s]
    verify_lines_good [of env ls _ pid s] good_run_errors by fastforce

text \<open>The scan of the files is the one of all their lines.\<close>

lemma verify_files_iff:
  "sc_errors (fold (\<lambda>c. verify_lines env pid (file_lines c)) cs s) = [] \<longleftrightarrow>
     sc_errors s = [] \<and> (\<exists>es. replay_lines env 1 (concat (map file_lines cs)) = Inr es \<and> good_run (le_rt env) pid es s)"
  "replay_lines env 1 (concat (map file_lines cs)) = Inr es \<Longrightarrow> good_run (le_rt env) pid es s \<Longrightarrow>
     fold (\<lambda>c. verify_lines env pid (file_lines c)) cs s = fold scan_event es s"
proof (induction cs arbitrary: s es)
  case (Cons c cs)
  {
    case 1
    show ?case
    proof
      assume "sc_errors (fold (\<lambda>c. verify_lines env pid (file_lines c)) (c # cs) s) = []"
      then have t: "sc_errors (verify_lines env pid (file_lines c) s) = []"
        "\<exists>es. replay_lines env 1 (concat (map file_lines cs)) = Inr es
          \<and> good_run (le_rt env) pid es (verify_lines env pid (file_lines c) s)"
        using Cons.IH(1) [of "verify_lines env pid (file_lines c) s"] by simp_all
      then show "sc_errors s = [] \<and> (\<exists>es. replay_lines env 1 (concat (map file_lines (c # cs))) = Inr es
          \<and> good_run (le_rt env) pid es s)"
        using verify_lines_iff [of env pid "file_lines c" s] verify_lines_good [of env "file_lines c" _ pid s]
        by (auto simp: replay_append good_run_append)
    next
      assume "sc_errors s = [] \<and> (\<exists>es. replay_lines env 1 (concat (map file_lines (c # cs))) = Inr es
          \<and> good_run (le_rt env) pid es s)"
      then obtain es fs where "sc_errors s = []" "replay_lines env 1 (file_lines c) = Inr es"
        "replay_lines env 1 (concat (map file_lines cs)) = Inr fs" "good_run (le_rt env) pid (es @ fs) s"
        by (auto simp: replay_append bindE_eq_Inr)
      then show "sc_errors (fold (\<lambda>c. verify_lines env pid (file_lines c)) (c # cs) s) = []"
        using verify_lines_good [of env "file_lines c" es pid s] Cons.IH(1) [of "fold scan_event es s"] good_run_errors
        by (auto simp: good_run_append)
    qed
  next
    case 2
    then obtain es1 es2 where "replay_lines env 1 (file_lines c) = Inr es1"
      "replay_lines env 1 (concat (map file_lines cs)) = Inr es2" "es = es1 @ es2"
      by (auto simp: replay_append bindE_eq_Inr)
    then show ?case
      using 2(2) verify_lines_good [of env "file_lines c" es1 pid s] Cons.IH(2) [of es2 "fold scan_event es1 s"]
      by (simp add: good_run_append)
  }
qed auto

lemma verify_iff:
  "valid_scan (verify env pid dir) \<longleftrightarrow> (\<exists>es. replay env 1 dir = Inr es \<and> good_run (le_rt env) pid es scan_start)"
  using verify_files_iff(1) [of env pid "list_event_files dir" scan_start]
  by (simp add: valid_scan_def verify_def replay_def ledger_lines_def scan_start_def)

lemma verify_eq:
  "replay env 1 dir = Inr es \<Longrightarrow> good_run (le_rt env) pid es scan_start \<Longrightarrow>
   verify env pid dir = fold scan_event es scan_start"
  using verify_files_iff(2) [of env "list_event_files dir" es pid scan_start]
  by (simp add: verify_def replay_def ledger_lines_def)

text \<open>What a run without errors says of its events.\<close>

fun linked :: "pyrt \<Rightarrow> string \<Rightarrow> int \<Rightarrow> string \<Rightarrow> project_event list \<Rightarrow> bool" where
  "linked rt pid n prev [] = True"
| "linked rt pid n prev (e # es) =
     (ev_project_id e = pid \<and> ev_sequence e = n \<and> ev_prev_event_hash e = prev
      \<and> compute_payload_digest rt (ev_payload e) = Inr (ev_payload_digest e)
      \<and> event_hash_of rt e = Inr (ev_event_hash e) \<and> linked rt pid (n + 1) (ev_event_hash e) es)"

lemma good_run_iff:
  "good_run rt pid es s \<longleftrightarrow> linked rt pid (sc_next s) (sc_prev s) es \<and> distinct (map ev_event_id es)
     \<and> ev_event_id ` set es \<inter> set (sc_seen s) = {}"
  by (induction es arbitrary: s) (auto simp: good_event_def scan_event_def)

lemma fold_scan:
  "sc_next (fold scan_event es s) = (if es = [] then sc_next s else ev_sequence (last es) + 1)"
  "sc_prev (fold scan_event es s) = (if es = [] then sc_prev s else ev_event_hash (last es))"
  "sc_last_sequence (fold scan_event es s) = (if es = [] then sc_last_sequence s else ev_sequence (last es))"
  "sc_last_hash (fold scan_event es s) = (if es = [] then sc_last_hash s else ev_event_hash (last es))"
  "sc_count (fold scan_event es s) = sc_count s + int (length es)"
  "set (sc_seen (fold scan_event es s)) = set (sc_seen s) \<union> ev_event_id ` set es"
  by (induction es arbitrary: s) (auto simp: scan_event_def)

lemma linked_last: "linked rt pid n prev es \<Longrightarrow> es \<noteq> [] \<Longrightarrow> ev_sequence (last es) = n + int (length es) - 1"
  by (induction es arbitrary: n prev) auto

end
