(* ===== verification/Ledger_Records.thy ===== *)
theory Ledger_Records
  imports Ledger_Facts Store_Facts Canonical_Json_Facts
begin

text \<open>
  The record of an event: the line that the append writes is one line, and the JSON library reads it
  back as an event with the same content, up to the order of the keys of the payload.
\<close>

subsection \<open>Canonical values\<close>

lemma sort_key_map: "sort_key f (map g xs) = map g (sort_key (f \<circ> g) xs)"
proof -
  have "insort_key f (g x) (map g ys) = map g (insort_key (f \<circ> g) x ys)" for x ys
    by (induction ys) auto
  then show ?thesis by (induction xs) simp_all
qed

lemma sort_dict_idem [simp]: "sort_dict (sort_dict d) = sort_dict d"
  unfolding sort_dict_def by (rule sort_key_id_if_sorted) simp

lemma sort_keys_sort_dict [simp]: "sort_keys_items (sort_dict d) = sort_dict (sort_keys_items d)"
proof -
  have "fst \<circ> (\<lambda>(k, v). (k, sort_keys v)) = fst" by (auto simp: fun_eq_iff)
  then show ?thesis unfolding sort_keys_items_map sort_dict_def sort_key_map by (rule ssubst) (rule refl)
qed

lemma sort_keys_idem [simp]:
  "sort_keys (sort_keys j) = sort_keys j"
  "sort_keys_list (sort_keys_list xs) = sort_keys_list xs"
  "sort_keys_items (sort_keys_items d) = sort_keys_items d"
  by (induction j and xs and d rule: sort_keys_sort_keys_list_sort_keys_items.induct) simp_all

lemma check_floats_sort [simp]:
  "check_floats (sort_keys j) = check_floats j"
  "check_floats_list (sort_keys_list xs) = check_floats_list xs"
  "check_floats_items (sort_keys_items d) = check_floats_items d"
  by (induction j and xs and d rule: sort_keys_sort_keys_list_sort_keys_items.induct)
    (simp_all add: check_floats_items_all)

lemma canonical_digest_sorted: "sort_keys j = sort_keys j' \<Longrightarrow> canonical_digest rt j = canonical_digest rt j'"
  using check_floats_sort(1) [of j] check_floats_sort(1) [of j']
  by (simp add: canonical_digest_def canonical_json_dumps_def)

lemma map_of_sorted: "dict_wf d \<Longrightarrow> map_of (sort_dict (sort_keys_items d)) k = map_option sort_keys (map_of d k)"
proof -
  have "map_of (sort_keys_items d) k = map_option sort_keys (map_of d k)" by (induction d) auto
  then show "dict_wf d \<Longrightarrow> ?thesis" by (simp add: map_of_sort_dict)
qed

subsection \<open>Events with the same content\<close>

lemma content_digests:
  assumes "event_content e = event_content e'"
  shows "compute_payload_digest rt (ev_payload e) = compute_payload_digest rt (ev_payload e')"
    "event_hash_of rt e = event_hash_of rt e'"
proof -
  have p: "sort_dict (sort_keys_items (ev_payload e)) = sort_dict (sort_keys_items (ev_payload e'))"
    using arg_cong [OF assms, of ev_payload] by (simp add: event_content_def)
  then show "compute_payload_digest rt (ev_payload e) = compute_payload_digest rt (ev_payload e')"
    unfolding compute_payload_digest_def by (intro canonical_digest_sorted) simp
  have "sort_keys_items (hashed_fields x) = sort_keys_items (hashed_fields (event_content x))" for x
    by (simp add: hashed_fields_def event_dump_def event_content_def)
  then have "sort_keys (JObj (hashed_fields e)) = sort_keys (JObj (hashed_fields e'))"
    using assms by (metis sort_keys.simps(2))
  then show "event_hash_of rt e = event_hash_of rt e'"
    unfolding event_hash_of_def compute_event_hash_def hashed_fields_def by (rule canonical_digest_sorted)
qed

lemma content_fields:
  assumes "event_content e = event_content e'"
  shows "ev_event_id e = ev_event_id e'" "ev_project_id e = ev_project_id e'" "ev_sequence e = ev_sequence e'"
    "ev_payload_digest e = ev_payload_digest e'" "ev_prev_event_hash e = ev_prev_event_hash e'"
    "ev_event_hash e = ev_event_hash e'" "ev_idempotency_key e = ev_idempotency_key e'"
  using assms [THEN arg_cong, of ev_event_id] assms [THEN arg_cong, of ev_project_id]
    assms [THEN arg_cong, of ev_sequence] assms [THEN arg_cong, of ev_payload_digest]
    assms [THEN arg_cong, of ev_prev_event_hash] assms [THEN arg_cong, of ev_event_hash]
    assms [THEN arg_cong, of ev_idempotency_key]
  by (simp_all add: event_content_def)

subsection \<open>Reading a record back\<close>

lemma saga_value_leaf: "saga_value rt f v = Some w \<Longrightarrow> sort_keys w = w"
  by (cases f) (auto simp: saga_value_def split: option.splits json.splits if_splits)

lemma mapE_cong: "(\<And>x. x \<in> set xs \<Longrightarrow> f x = g x) \<Longrightarrow> mapE f xs = mapE g xs"
  by (induction xs) auto

lemma saga_payload_sorted:
  assumes "saga_payload rt et pid corr idem p = Inr p"
  shows "\<exists>q. saga_payload rt et pid corr idem (sort_dict (sort_keys_items p)) = Inr q
    \<and> sort_dict (sort_keys_items q) = sort_dict (sort_keys_items p)"
proof (cases "saga_fields et")
  case None
  then show ?thesis by (simp add: saga_payload_def)
next
  case (Some fs)
  obtain r where r: "validate_saga rt fs r = Inr p"
    using assms Some by (auto simp: saga_payload_def Let_def split: if_splits)
  note d = saga_fields_distinct [OF Some]
  have keys: "map fst p = map fst fs" using keys_saga_result [OF r] .
  have same: "map_of (sort_dict (sort_keys_items p)) k = map_of p k" for k
  proof -
    have "map_option sort_keys (map_of p k) = map_of p k"
    proof (cases "map_of p k")
      case (Some v)
      then have "k \<in> set (map fst fs)" using keys by (metis map_of_SomeD fst_conv image_eqI set_map)
      then obtain f where "map_of fs k = Some f" by (metis map_of_eq_None_iff not_Some_eq set_map)
      then show ?thesis using jget_saga_result [OF r _ d] Some saga_value_leaf by fastforce
    qed simp
    then show ?thesis using keys d by (simp add: map_of_sorted)
  qed
  have "validate_saga rt fs p = Inr p"
    by (rule validate_saga_idem [OF r d saga_fields_ok [OF Some]])
  moreover have "validate_saga rt fs (sort_dict (sort_keys_items p)) = validate_saga rt fs p"
    unfolding validate_saga_def same using fst_sort_keys_items [of p]
    by (auto simp: sort_keys_items_map)
  moreover have "set (map fst p) = set (map fst fs)" using keys by simp
  then have "has_key ''project_id'' p" "has_key ''correlation_id'' p" "has_key ''idempotency_key'' p"
    and "p \<noteq> []"
    using saga_fields_envelope [OF Some] by (auto simp: map_of_eq_None_iff)
  moreover have "sort_dict (sort_keys_items p) \<noteq> []"
    using \<open>p \<noteq> []\<close> by (simp add: sort_dict_def sort_keys_items_map flip: length_greater_0_conv)
  ultimately have "saga_payload rt et pid corr idem (sort_dict (sort_keys_items p)) = Inr p"
    using Some by (auto simp: saga_payload_def same Let_def split: option.split)
  then show ?thesis by blast
qed

text \<open>\<open>loads(dumps(e)) == e\<close>, as the JSON library promises it for the record of an event.\<close>

definition reads_back :: "ledger_env \<Rightarrow> project_event \<Rightarrow> bool" where
  "reads_back env e = (le_loads env (event_record (le_rt env) e) = Some (sort_keys (JObj (event_dump e))))"

lemma validate_content:
  assumes "validate_event rt e = Inr e"
  shows "\<exists>e'. validate_event rt (event_content e) = Inr e' \<and> event_content e' = event_content e"
proof -
  have "saga_payload rt (ev_event_type e) (ev_project_id e) (ev_correlation_id e) (ev_idempotency_key e)
      (ev_payload e) = Inr (ev_payload e)"
    using assms by (auto simp: validate_event_def bindE_eq_Inr split: if_splits)
      (metis (no_types, lifting) project_event.select_convs(10) project_event.surjective project_event.update_convs(10))
  then obtain q where "saga_payload rt (ev_event_type e) (ev_project_id e) (ev_correlation_id e)
      (ev_idempotency_key e) (sort_dict (sort_keys_items (ev_payload e))) = Inr q"
    "sort_dict (sort_keys_items q) = sort_dict (sort_keys_items (ev_payload e))"
    using saga_payload_sorted by blast
  then show ?thesis
    using assms by (auto simp: validate_event_def event_content_def bindE_eq_Inr split: if_splits)
qed

lemma sorted_dump_get:
  fixes e :: project_event
  defines "d \<equiv> sort_dict (sort_keys_items (event_dump e))"
  shows "map_of d ''event_id'' = Some (JStr (ev_event_id e))"
    "map_of d ''schema_version'' = Some (JStr (ev_schema_version e))"
    "map_of d ''project_id'' = Some (JStr (ev_project_id e))"
    "map_of d ''sequence'' = Some (JInt (ev_sequence e))"
    "map_of d ''timestamp'' = Some (JStr (ev_timestamp e))"
    "map_of d ''actor'' = Some (JStr (ev_actor e))"
    "map_of d ''source'' = Some (JStr (ev_source e))"
    "map_of d ''session_id'' = Some (jopt (ev_session_id e))"
    "map_of d ''event_type'' = Some (JStr (ev_event_type e))"
    "map_of d ''payload'' = Some (JObj (sort_dict (sort_keys_items (ev_payload e))))"
    "map_of d ''payload_digest'' = Some (JStr (ev_payload_digest e))"
    "map_of d ''prev_event_hash'' = Some (JStr (ev_prev_event_hash e))"
    "map_of d ''event_hash'' = Some (JStr (ev_event_hash e))"
    "map_of d ''artifact_refs'' = Some (jstrs (ev_artifact_refs e))"
    "map_of d ''evidence_refs'' = Some (jstrs (ev_evidence_refs e))"
    "map_of d ''correlation_id'' = Some (jopt (ev_correlation_id e))"
    "map_of d ''causation_id'' = Some (jopt (ev_causation_id e))"
    "map_of d ''idempotency_key'' = Some (jopt (ev_idempotency_key e))"
proof -
  have "dict_wf (event_dump e)" by (simp add: event_dump_def)
  note get = map_of_sorted [OF this]
  show "map_of d ''event_id'' = Some (JStr (ev_event_id e))"
    "map_of d ''schema_version'' = Some (JStr (ev_schema_version e))"
    "map_of d ''project_id'' = Some (JStr (ev_project_id e))"
    "map_of d ''sequence'' = Some (JInt (ev_sequence e))"
    "map_of d ''timestamp'' = Some (JStr (ev_timestamp e))"
    "map_of d ''actor'' = Some (JStr (ev_actor e))"
    "map_of d ''source'' = Some (JStr (ev_source e))"
    "map_of d ''session_id'' = Some (jopt (ev_session_id e))"
    "map_of d ''event_type'' = Some (JStr (ev_event_type e))"
    "map_of d ''payload'' = Some (JObj (sort_dict (sort_keys_items (ev_payload e))))"
    "map_of d ''payload_digest'' = Some (JStr (ev_payload_digest e))"
    "map_of d ''prev_event_hash'' = Some (JStr (ev_prev_event_hash e))"
    "map_of d ''event_hash'' = Some (JStr (ev_event_hash e))"
    "map_of d ''artifact_refs'' = Some (jstrs (ev_artifact_refs e))"
    "map_of d ''evidence_refs'' = Some (jstrs (ev_evidence_refs e))"
    "map_of d ''correlation_id'' = Some (jopt (ev_correlation_id e))"
    "map_of d ''causation_id'' = Some (jopt (ev_causation_id e))"
    "map_of d ''idempotency_key'' = Some (jopt (ev_idempotency_key e))"
    unfolding d_def get by (simp_all add: event_dump_def)
qed

lemma read_event_sorted:
  "read_event rt (sort_dict (sort_keys_items (event_dump e))) = validate_event rt (event_content e)"
proof -
  have "list_all (\<lambda>(k, _). k \<in> set EVENT_FIELDS) (sort_dict (sort_keys_items (event_dump e)))"
    unfolding list_all_iff set_sort_dict by (simp add: event_dump_def EVENT_FIELDS_def)
  then show ?thesis by (cases e) (simp add: read_event_def sorted_dump_get fld_simps event_content_def)
qed

lemma parse_record:
  assumes "validate_event (le_rt env) e = Inr e" "reads_back env e"
  obtains e' where "parse_line env (event_record (le_rt env) e) = Parsed e'" "event_content e' = event_content e"
  using validate_content [OF assms(1)] assms(2)
  by (auto simp: parse_line_def reads_back_def read_event_sorted)

subsection \<open>The record is one line\<close>

definition no_newline :: "string \<Rightarrow> bool" where
  "no_newline s = (CHR 0x0A \<notin> set s \<and> CHR 0x0D \<notin> set s)"

lemma no_newline_simps [simp]:
  "no_newline []" "no_newline (c # s) \<longleftrightarrow> c \<noteq> CHR 0x0A \<and> c \<noteq> CHR 0x0D \<and> no_newline s"
  "no_newline (s @ t) \<longleftrightarrow> no_newline s \<and> no_newline t"
  by (auto simp: no_newline_def)

lemma no_newline_number: "number_text s \<Longrightarrow> no_newline s"
proof -
  have "\<not> number_char (CHR 0x0A)" "\<not> number_char (CHR 0x0D)" by (simp_all add: number_char_def)
  then have "list_all number_char s \<Longrightarrow> no_newline s" by (induction s) auto
  then show "number_text s \<Longrightarrow> ?thesis" by (simp add: number_text_def)
qed

lemma hex_digit_table: "list_all (\<lambda>n. hex_digit n \<noteq> CHR 0x0A \<and> hex_digit n \<noteq> CHR 0x0D) [0..<16]"
  by code_simp

lemma hex_digit_plain: "n < 16 \<Longrightarrow> hex_digit n \<noteq> CHR 0x0A \<and> hex_digit n \<noteq> CHR 0x0D"
  using hex_digit_table unfolding list_all_iff by simp

lemma no_newline_quote: "no_newline (quote s)"
proof -
  have "no_newline (escape_char c)" for c
  proof -
    have "c \<noteq> CHR 0x0A \<and> c \<noteq> CHR 0x0D" if "\<not> (of_char c :: nat) < 32" using that by auto
    then show ?thesis
      by (auto simp: escape_char_def Let_def hex_digit_plain)
  qed
  then have "no_newline (concat (map escape_char s))" by (induction s) simp_all
  then show ?thesis by (simp add: quote_def)
qed

lemma no_newline_dumps:
  "readable_floats rt (floats_of j) \<Longrightarrow> no_newline (dumps rt j)"
  "readable_floats rt (floats_of_list xs) \<Longrightarrow> no_newline (dumps_list rt xs)"
  "readable_floats rt (floats_of_items d) \<Longrightarrow> no_newline (dumps_items rt d)"
proof (induction j and xs and d rule: floats_of_floats_of_list_floats_of_items.induct)
qed (auto simp: no_newline_quote no_newline_number int_str_number readable_floats_def inj_on_Un)

lemma event_record_line:
  assumes "readable_floats rt (event_floats e)"
  shows "clean_line (event_record rt e)" "strip (event_record rt e) = event_record rt e"
proof -
  have "floats_of (JObj (event_dump e)) = event_floats e"
    using hashed_fields_floats [of e] by (simp add: hashed_fields_def event_dump_def)
  then have "no_newline (event_record rt e)"
    using assms unfolding event_record_def by (intro no_newline_dumps) (simp only: floats_of_sort_keys)
  moreover obtain w where w: "event_record rt e = CHR ''{'' # w @ ''}''" by (simp add: event_record_def)
  then show "strip (event_record rt e) = event_record rt e"
    by (simp add: strip_def is_space_def)
  ultimately show "clean_line (event_record rt e)"
    using w by (auto simp: clean_line_def no_newline_def)
qed

end
