(* ===== verification/Ledger_Steps.thy ===== *)
theory Ledger_Steps
  imports Ledger_Records
begin

text \<open>
  What the operations of the event store do to the ledger of a project: the repair of a torn tail,
  the event that an append adds, and the partition that a rotation adds.
\<close>

subsection \<open>The torn tail\<close>

lemma recover_cut:
  assumes "complete c" "torn \<noteq> []" "CHR 0x0A \<notin> set torn"
  shows "recover_torn_tail env (c @ torn) = Inr c"
proof -
  have "dropWhile (\<lambda>x. x \<noteq> CHR 0x0A) (rev torn @ rev c) = dropWhile (\<lambda>x. x \<noteq> CHR 0x0A) (rev c)"
    using assms(3) by (intro dropWhile_append2) auto
  also have "\<dots> = rev c" using assms(1) by (cases c rule: rev_cases) (auto simp: complete_def)
  finally show ?thesis
    using assms(2,3) by (cases torn rule: rev_cases) (auto simp: recover_torn_tail_def)
qed

lemma recover_torn_complete: "recover_torn_tail env c = Inr d \<Longrightarrow> complete d"
proof (cases "c = [] \<or> last c = CHR 0x0A")
  case False
  moreover have "complete (rev (dropWhile (\<lambda>x. x \<noteq> CHR 0x0A) (rev c)))"
    using hd_dropWhile [of "\<lambda>x. x \<noteq> CHR 0x0A" "rev c"] by (auto simp: complete_def last_rev)
  ultimately show "recover_torn_tail env c = Inr d \<Longrightarrow> complete d" by (auto simp: recover_torn_tail_def)
qed (auto simp: recover_torn_tail_def complete_def bindE_eq_Inr split: if_splits)

lemma recover_active_complete: "recover_active env dir = Inr dir1 \<Longrightarrow> active_complete dir1"
  by (auto simp: recover_active_def active_complete_def bindE_eq_Inr update_conv'
      dest: recover_torn_complete split: option.splits)

lemma recover_complete_same:
  assumes "active_complete dir" "recover_active env dir = Inr dir1"
  shows "dir1 = dir"
  using assms
  by (auto simp: recover_active_def active_complete_def complete_def recover_torn_tail_def bindE_eq_Inr
      update_triv split: option.splits if_splits)

definition active_text :: "string dict \<Rightarrow> string" where
  "active_text dir = (case map_of dir ACTIVE_FILE of None \<Rightarrow> [] | Some c \<Rightarrow> c)"

lemma append_line_eq: "append_line l dir = AList.update ACTIVE_FILE (active_text dir @ l @ [CHR 0x0A]) dir"
  by (simp add: append_line_def active_text_def)

lemma nonblank_Nil [simp]: "nonblank_lines [] = []"
  by (simp add: nonblank_lines_def)

lemma records_active_text [simp]: "records (AList.update ACTIVE_FILE (active_text dir) dir) = records dir"
  by (simp add: records_def ledger_lines_update ledger_lines_eq active_text_def file_lines_Nil split: option.split)

lemma verify_records:
  assumes "records dir = records dir'"
  shows "valid_scan (verify env pid dir) \<longleftrightarrow> valid_scan (verify env pid dir')"
  using assms by (simp add: verify_iff replay_records)

subsection \<open>Append\<close>

lemma find_recorded_member:
  assumes "find_recorded env c fp ls = Inr (Some e)" "replay_lines env 1 ls = Inr es"
  shows "e \<in> set es \<and> (given (ac_idempotency_key c) (ev_idempotency_key e)
    \<or> given (ac_event_id c) (Some (ev_event_id e)))"
  using assms
proof (induction ls arbitrary: es)
  case (Cons l ls)
  show ?case
  proof (cases "strip l = []")
    case False
    then obtain x es' where x: "parse_line env (strip l) = Parsed x" "replay_lines env 1 ls = Inr es'"
      "es = (if 1 \<le> ev_sequence x then x # es' else es')"
      using Cons.prems(2) by (auto simp: bindE_eq_Inr split: parsed_line.splits)
    then show ?thesis
      using Cons.prems(1) Cons.IH [of es'] False parse_line_sequence [OF x(1)]
      by (auto simp: bindE_eq_Inr split: if_splits)
  qed (use Cons in simp)
qed simp

lemma event_hash_ignored [simp]: "event_hash_of rt (e\<lparr>ev_event_hash := h\<rparr>) = event_hash_of rt e"
  by (simp add: event_hash_of_def compute_event_hash_def event_dump_def)

lemma value_raise_Inr [simp]: "value_raise m = Inr x \<longleftrightarrow> m = Inr x"
  by (auto simp: value_raise_def split: sum.split)

lemma command_saga:
  assumes "validate_command rt c = Inr c"
  shows "saga_payload rt (ac_event_type c) (ac_project_id c) (ac_correlation_id c) (ac_idempotency_key c)
    (ac_payload c) = Inr (ac_payload c)"
  using assms by (cases c) (auto simp: validate_command_def bindE_eq_Inr split: if_splits)

text \<open>The event that an append builds from a validated command.\<close>

definition draft_event ::
  "ledger_env \<Rightarrow> string \<Rightarrow> append_command \<Rightarrow> int \<Rightarrow> string \<Rightarrow> string \<Rightarrow> project_event" where
  "draft_event env pid c n prev d =
     \<lparr>ev_event_id = new_event_id env pid c n, ev_schema_version = ''power.project-event.v1'',
      ev_project_id = pid, ev_sequence = n,
      ev_timestamp = (if ac_timestamp c \<in> {None, Some []} then le_now env else the (ac_timestamp c)),
      ev_actor = ac_actor c, ev_source = ac_source c, ev_session_id = ac_session_id c,
      ev_event_type = ac_event_type c, ev_payload = ac_payload c, ev_payload_digest = d,
      ev_prev_event_hash = prev, ev_event_hash = [], ev_artifact_refs = ac_artifact_refs c,
      ev_evidence_refs = ac_evidence_refs c, ev_correlation_id = ac_correlation_id c,
      ev_causation_id = ac_causation_id c, ev_idempotency_key = ac_idempotency_key c\<rparr>"

lemma new_event_eq:
  "new_event env pid c n prev =
     bindE (value_raise (compute_payload_digest (le_rt env) (ac_payload c))) (\<lambda>d.
     bindE (value_raise (event_hash_of (le_rt env) (draft_event env pid c n prev d))) (\<lambda>h.
     value_raise (validate_event (le_rt env) ((draft_event env pid c n prev d)\<lparr>ev_event_hash := h\<rparr>))))"
  unfolding new_event_def Let_def draft_event_def ..

lemma new_eventD:
  assumes "new_event env pid c n prev = Inr e" "validate_command (le_rt env) c = Inr c" "ac_project_id c = pid"
  shows "ev_event_id e = new_event_id env pid c n" "ev_project_id e = pid" "ev_sequence e = n"
    "ev_prev_event_hash e = prev" "compute_payload_digest (le_rt env) (ev_payload e) = Inr (ev_payload_digest e)"
    "event_hash_of (le_rt env) e = Inr (ev_event_hash e)" "validate_event (le_rt env) e = Inr e"
proof -
  obtain d h where d: "compute_payload_digest (le_rt env) (ac_payload c) = Inr d"
    and h: "event_hash_of (le_rt env) (draft_event env pid c n prev d) = Inr h"
    and v: "validate_event (le_rt env) ((draft_event env pid c n prev d)\<lparr>ev_event_hash := h\<rparr>) = Inr e"
    using assms(1) unfolding new_event_eq bindE_eq_Inr value_raise_Inr by blast
  define raw where "raw = draft_event env pid c n prev d"
  note h = h [folded raw_def] and v = v [folded raw_def]
  have raw: "ev_event_id raw = new_event_id env pid c n" "ev_project_id raw = pid"
      "ev_sequence raw = n" "ev_prev_event_hash raw = prev" "ev_payload raw = ac_payload c"
      "ev_payload_digest raw = d" "ev_event_type raw = ac_event_type c"
      "ev_correlation_id raw = ac_correlation_id c" "ev_idempotency_key raw = ac_idempotency_key c"
    by (simp_all add: raw_def draft_event_def)
  have e: "e = raw\<lparr>ev_event_hash := h\<rparr>"
    using v raw command_saga [OF assms(2)] assms(3)
    by (cases raw) (auto simp: validate_event_def bindE_eq_Inr split: if_splits)
  show "ev_event_id e = new_event_id env pid c n" "ev_project_id e = pid" "ev_sequence e = n"
    "ev_prev_event_hash e = prev" "compute_payload_digest (le_rt env) (ev_payload e) = Inr (ev_payload_digest e)"
    "event_hash_of (le_rt env) e = Inr (ev_event_hash e)" "validate_event (le_rt env) e = Inr e"
    using raw d h v by (simp_all add: e)
qed

text \<open>An accepted append found its event, or wrote the next one.\<close>

lemma append_filesE:
  assumes "append_files env pid c ls lh dir = (Inr e, dir')"
  obtains (found) dir1 es where "recover_active env dir = Inr dir1" "replay env 1 dir1 = Inr es"
      "good_run (le_rt env) pid es scan_start" "e \<in> set es" "dir' = dir1"
      "given (ac_idempotency_key c) (ev_idempotency_key e) \<or> given (ac_event_id c) (Some (ev_event_id e))"
  | (written) dir1 es where "recover_active env dir = Inr dir1" "replay env 1 dir1 = Inr es"
      "good_run (le_rt env) pid es scan_start"
      "new_event env pid c (int (length es) + 1) (if es = [] then [] else ev_event_hash (last es)) = Inr e"
      "dir' = append_line (event_record (le_rt env) e) dir1"
proof -
  obtain dir1 where dir1: "recover_active env dir = Inr dir1" "valid_scan (verify env pid dir1)"
    using assms by (auto simp: append_files_def Let_def split: sum.splits if_splits)
  then obtain es where es: "replay env 1 dir1 = Inr es" "good_run (le_rt env) pid es scan_start"
    by (auto simp: verify_iff)
  have linked: "linked (le_rt env) pid 1 [] es" using es(2) by (simp add: good_run_iff scan_start_def)
  have scan: "sc_last_sequence (verify env pid dir1) = int (length es)"
    "sc_last_hash (verify env pid dir1) = (if es = [] then [] else ev_event_hash (last es))"
    using verify_eq [OF es] linked_last [OF linked] by (auto simp: fold_scan scan_start_def)
  let ?n = "int (length es) + 1" and ?h = "if es = [] then [] else ev_event_hash (last es)"
  define v where "v = verify env pid dir1"
  define m where "m = bindE (command_print (le_rt env) c) (\<lambda>fp.
      bindE (find_recorded env c fp (ledger_lines dir1)) (\<lambda>found.
        case found of Some x \<Rightarrow> Inr (True, x) | None \<Rightarrow>
        bindE (new_event env pid c (sc_last_sequence v + 1)
            (if sc_last_sequence v + 1 = 1 then [] else sc_last_hash v)) (\<lambda>x.
        if check_floats (JObj (event_dump x)) then Inr (False, x) else Inl LedgerValueError)))"
  have eq: "append_files env pid c ls lh dir =
      (if \<not> valid_scan v then (Inl LedgerIntegrity, dir1)
       else if ls \<notin> {None, Some (sc_last_sequence v)} then (Inl LedgerValueError, dir1)
       else if lh \<notin> {None, Some (sc_last_hash v)} then (Inl LedgerValueError, dir1)
       else case m of Inl x \<Rightarrow> (Inl x, dir1)
         | Inr (recorded, e) \<Rightarrow> (Inr e, if recorded then dir1 else append_line (event_record (le_rt env) e) dir1))"
    unfolding append_files_def dir1(1) sum.case Let_def m_def v_def by (rule refl)
  obtain b where m: "m = Inr (b, e)" "dir' = (if b then dir1 else append_line (event_record (le_rt env) e) dir1)"
    using assms unfolding eq by (auto split: sum.splits if_splits prod.splits)
  have h: "(if ?n = 1 then [] else ?h) = ?h" by simp
  have b: "bindE (command_print (le_rt env) c) (\<lambda>fp.
      bindE (find_recorded env c fp (ledger_lines dir1)) (\<lambda>found.
        case found of Some x \<Rightarrow> Inr (True, x) | None \<Rightarrow> bindE (new_event env pid c ?n ?h) (\<lambda>x.
        if check_floats (JObj (event_dump x)) then Inr (False, x) else Inl LedgerValueError))) = Inr (b, e)"
    using m(1) unfolding m_def v_def scan h .
  show thesis
  proof (cases b)
    case True
    then obtain fp where "find_recorded env c fp (ledger_lines dir1) = Inr (Some e)"
      using b by (auto simp: bindE_eq_Inr split: option.splits if_splits)
    then have "e \<in> set es \<and> (given (ac_idempotency_key c) (ev_idempotency_key e)
        \<or> given (ac_event_id c) (Some (ev_event_id e)))"
      using es(1) unfolding replay_def by (rule find_recorded_member)
    then show thesis using found [OF dir1(1) es] m(2) True by simp
  next
    case False
    then have "new_event env pid c ?n ?h = Inr e"
      using b by (auto simp: bindE_eq_Inr split: option.splits if_splits)
    then show thesis using written [OF dir1(1) es] m(2) False by simp
  qed
qed

text \<open>Writing the record of the next event.\<close>

lemma replay_after_record:
  assumes "active_complete dir" "replay env 1 dir = Inr es" "validate_event (le_rt env) e = Inr e"
    "reads_back env e" "readable_floats (le_rt env) (event_floats e)"
  obtains e' where "event_content e' = event_content e"
    "replay env 1 (append_line (event_record (le_rt env) e) dir) = Inr (es @ [e'])"
proof -
  obtain e' where e': "parse_line env (event_record (le_rt env) e) = Parsed e'" "event_content e' = event_content e"
    using parse_record [OF assms(3,4)] .
  note line = event_record_line [OF assms(5)]
  have "records (append_line (event_record (le_rt env) e) dir) = records dir @ [event_record (le_rt env) e]"
    by (rule records_append [OF assms(1) line(1)])
  moreover have "replay_lines env 1 [event_record (le_rt env) e] = Inr [e']"
    using line e'(1) parse_line_sequence [OF e'(1)] by (simp add: clean_line_def)
  ultimately have "replay env 1 (append_line (event_record (le_rt env) e) dir) = Inr (es @ [e'])"
    using assms(2) by (simp add: replay_records replay_append)
  then show thesis using that e'(2) by blast
qed

lemma next_event_valid:
  assumes "good_run rt pid es scan_start" "event_content e' = event_content e"
    "ev_project_id e = pid" "ev_sequence e = int (length es) + 1"
    "ev_prev_event_hash e = (if es = [] then [] else ev_event_hash (last es))"
    "compute_payload_digest rt (ev_payload e) = Inr (ev_payload_digest e)"
    "event_hash_of rt e = Inr (ev_event_hash e)"
  shows "good_run rt pid (es @ [e']) scan_start \<longleftrightarrow> ev_event_id e \<notin> ev_event_id ` set es"
proof -
  have "linked rt pid 1 [] es" using assms(1) by (simp add: good_run_iff scan_start_def)
  then have "sc_next (fold scan_event es scan_start) = int (length es) + 1"
    using linked_last [of rt pid 1 "[]" es] by (simp add: fold_scan scan_start_def)
  moreover have "sc_prev (fold scan_event es scan_start) = (if es = [] then [] else ev_event_hash (last es))"
    "set (sc_seen (fold scan_event es scan_start)) = ev_event_id ` set es"
    by (simp_all add: fold_scan scan_start_def)
  ultimately show ?thesis
    using assms content_digests [OF assms(2)] content_fields [OF assms(2)]
    by (simp add: good_run_append good_event_def)
qed

lemma closed_ledger:
  assumes "active_complete dir" "\<not> valid_scan (verify env pid dir)"
  shows "\<exists>x. append_files env pid c ls lh dir = (Inl x, dir)"
proof (cases "recover_active env dir")
  case (Inr dir1)
  then have "dir1 = dir" using recover_complete_same [OF assms(1)] by simp
  then show ?thesis using Inr assms(2) by (simp add: append_files_def)
qed (simp add: append_files_def)

subsection \<open>Rotation\<close>

lemma digits_of_nat_str:
  "foldl (\<lambda>n c. 10 * n + (of_char c - 48)) a (nat_str m) = a * 10 ^ length (nat_str m) + m"
proof (induction m arbitrary: a rule: nat_str.induct)
  case (1 m)
  show ?case
  proof (cases "m < 10")
    case True
    then show ?thesis by (simp add: nat_str.simps [of m])
  next
    case False
    then show ?thesis using 1 by (simp add: nat_str.simps [of m] algebra_simps)
  qed
qed

lemma nat_str_length: "m < 10 ^ Suc k \<Longrightarrow> length (nat_str m) \<le> Suc k"
proof (induction k arbitrary: m)
  case (Suc k)
  show ?case
  proof (cases "m < 10")
    case False
    have "m div 10 < 10 ^ Suc k" using Suc.prems by (simp add: less_mult_imp_div_less mult.commute)
    then show ?thesis using Suc.IH False by (simp add: nat_str.simps [of m])
  qed (simp add: nat_str.simps [of m])
next
  case 0
  then show ?case by (simp add: nat_str.simps [of m])
qed

lemma archive_file_index:
  assumes "m < 10 ^ 6"
  shows "rotation_index (archive_file m) = Some m"
proof -
  define w where "w = replicate (6 - length (nat_str m)) (CHR ''0'') @ nat_str m"
  have "length (nat_str m) \<le> 6" using nat_str_length [of m 5] assms by simp
  then have len: "length w = 6" by (simp add: w_def)
  have name: "archive_file m = ''events_'' @ w @ ''.jsonl''" by (simp add: archive_file_def w_def)
  have "list_all is_digit w" using nat_str_is_digits by (auto simp: w_def list_all_iff is_digit_def Let_def)
  then have "re_rotation (archive_file m)" by (simp add: re_rotation_def name len)
  moreover have "foldl (\<lambda>n c. 10 * n + (of_char c - 48)) 0 (replicate k (CHR ''0'')) = (0 :: nat)" for k
    by (induction k) simp_all
  then have "digits_val w = m" by (simp add: digits_val_def w_def digits_of_nat_str)
  ultimately show ?thesis by (simp add: rotation_index_def py_dollar_def name len)
qed

lemma archive_file_beyond: "rotation_index (archive_file 1000000) = None"
  by (simp add: archive_file_def rotation_index_def py_dollar_def re_rotation_def nat_str.simps)

lemma update_fresh: "k \<notin> fst ` set d \<Longrightarrow> AList.update k v d = d @ [(k, v)]"
  by (induction d) auto

lemma map_filter_delete: "(\<And>v. f (k, v) = None) \<Longrightarrow> List.map_filter f (AList.delete k xs) = List.map_filter f xs"
  by (induction xs) (auto simp: map_filter_simps split: option.split)

lemma map_filter_append: "List.map_filter f (xs @ ys) = List.map_filter f xs @ List.map_filter f ys"
  by (simp add: map_filter_def)

lemma insort_snoc: "f y \<le> f x \<Longrightarrow> insort_key f y (zs @ [x]) = insort_key f y zs @ [x]"
  by (induction zs) auto

lemma sort_key_snoc: "\<forall>y \<in> set ys. f y \<le> f x \<Longrightarrow> sort_key f (ys @ [x]) = sort_key f ys @ [x]"
  by (induction ys) (simp_all add: insort_snoc)

lemma partition_numbers: "fst ` set (partitions dir) = set (rotation_indices dir)"
  by (force simp: partitions_def rotation_indices_def map_filter_def)

lemma fold_max_upt: "fold max [1..<n + 1] 0 = (n :: nat)"
  by (induction n) simp_all

text \<open>The files after a rotation.\<close>

lemma rotate_filesE:
  assumes "rotate_files a dir = (Inr (Some name), dir')"
  obtains c where "map_of dir ACTIVE_FILE = Some c" "c \<noteq> []" "\<not> has_key name dir"
    "rotation_indices dir = [1..<length (rotation_indices dir) + 1]"
    "name = archive_file (length (rotation_indices dir) + 1)"
    "dir' = AList.update ACTIVE_FILE [] (AList.update name c (AList.delete ACTIVE_FILE dir))"
proof -
  obtain c where c: "map_of dir ACTIVE_FILE = Some c" "c \<noteq> []"
    using assms by (auto simp: rotate_files_def split: option.splits list.splits)
  then obtain h t where ht: "c = h # t" by (cases c) auto
  define n where "n = length (rotation_indices dir)"
  define b where "b = (rotation_indices dir = [1..<n + 1])"
  let ?name = "case a of None \<Rightarrow> archive_file (fold max (rotation_indices dir) 0 + 1) | Some x \<Rightarrow> x"
  have eq: "rotate_files a dir =
      (if \<not> b then (Inl LedgerValueError, dir)
       else if a \<noteq> None \<and> (rotation_index ?name = None \<or> ?name \<noteq> archive_file (fold max (rotation_indices dir) 0 + 1))
       then (Inl LedgerValueError, dir)
       else if has_key ?name dir then (Inl LedgerFileExists, dir)
       else (Inr (Some ?name),
         AList.update ACTIVE_FILE [] (AList.update ?name c (AList.delete ACTIVE_FILE dir))))"
    unfolding rotate_files_def c(1) ht option.case list.case Let_def b_def n_def by simp
  have b: b and fields: "\<not> has_key name dir" "name = archive_file (fold max (rotation_indices dir) 0 + 1)"
    "dir' = AList.update ACTIVE_FILE [] (AList.update name c (AList.delete ACTIVE_FILE dir))"
    using assms unfolding eq by (auto split: if_splits option.splits)
  have "fold max (rotation_indices dir) 0 = n"
    using b fold_max_upt [of n] unfolding b_def by metis
  then show thesis using that [OF c fields(1) _ _ fields(3)] b fields(2) by (simp add: b_def n_def)
qed

lemma event_files_after_rotation:
  assumes "rotate_files a dir = (Inr (Some name), dir')"
  shows "length (rotation_indices dir) < 999999 \<Longrightarrow> list_event_files dir' = list_event_files dir @ [[]]"
    "length (rotation_indices dir) = 999999 \<Longrightarrow>
       list_event_files dir' = list_event_files (AList.delete ACTIVE_FILE dir) @ [[]]"
proof -
  let ?n = "length (rotation_indices dir)"
  let ?f = "\<lambda>(n, c :: string). map_option (\<lambda>i. (i, c)) (rotation_index n)"
  obtain c where c: "map_of dir ACTIVE_FILE = Some c" "c \<noteq> []" "\<not> has_key name dir"
    "rotation_indices dir = [1..<?n + 1]" "name = archive_file (?n + 1)"
    "dir' = AList.update ACTIVE_FILE [] (AList.update name c (AList.delete ACTIVE_FILE dir))"
    using assms by (elim rotate_filesE)
  have "name \<notin> fst ` set (AList.delete ACTIVE_FILE dir)"
    using c(3) by (auto simp: map_of_eq_None_iff AList.delete_eq)
  then have upd: "AList.update name c (AList.delete ACTIVE_FILE dir) = AList.delete ACTIVE_FILE dir @ [(name, c)]"
    by (rule update_fresh)
  have del: "List.map_filter ?f (AList.delete ACTIVE_FILE dir) = List.map_filter ?f dir"
    by (rule map_filter_delete) (simp add: active_not_rotated)
  have files: "list_event_files dir' = map snd (partitions dir') @ [[]]"
    by (simp add: list_event_files_def c(6) update_conv')
  have parts: "partitions dir' = sort_key fst (List.map_filter ?f dir @ List.map_filter ?f [(name, c)])"
    by (simp add: c(6)) (simp add: partitions_def upd map_filter_append del)
  show "list_event_files dir' = list_event_files dir @ [[]]" if "?n < 999999"
  proof -
    have "rotation_index name = Some (?n + 1)" using that archive_file_index [of "?n + 1"] c(5) by simp
    moreover have "\<forall>y \<in> set (List.map_filter ?f dir). fst y \<le> ?n + 1"
    proof
      fix y assume "y \<in> set (List.map_filter ?f dir)"
      then have "fst y \<in> set (rotation_indices dir)"
        using partition_numbers [of dir] by (auto simp: partitions_def)
      then show "fst y \<le> ?n + 1" using c(4) by (metis atLeastLessThan_iff less_imp_le_nat set_upt)
    qed
    ultimately have "partitions dir' = partitions dir @ [(?n + 1, c)]"
      using parts by (simp add: map_filter_simps sort_key_snoc partitions_def)
    then show ?thesis using files c(1) by (simp add: list_event_files_def)
  qed
  show "list_event_files dir' = list_event_files (AList.delete ACTIVE_FILE dir) @ [[]]" if "?n = 999999"
  proof -
    have "rotation_index name = None" using that archive_file_beyond c(5) by simp
    then have "partitions dir' = partitions (AList.delete ACTIVE_FILE dir)"
      using parts del by (simp add: map_filter_simps partitions_def)
    moreover have "map_of (AList.delete ACTIVE_FILE dir) ACTIVE_FILE = None" by (simp add: delete_conv')
    ultimately show ?thesis using files by (simp add: list_event_files_def)
  qed
qed

lemma empty_file_scan:
  "list_event_files dir' = list_event_files dir @ [[]] \<Longrightarrow>
   replay env from dir' = replay env from dir \<and> verify env pid dir' = verify env pid dir"
  by (simp add: replay_records records_def ledger_lines_def file_lines_Nil verify_def)
    (metis file_lines_Nil verify_lines.simps(1) verify_nonblank)

text \<open>A partition has a number of six digits.\<close>

lemma digits_bound:
  "list_all is_digit s \<Longrightarrow> foldl (\<lambda>n c. 10 * n + (of_char c - 48)) a s < (a + 1) * (10 ^ length s :: nat)"
proof (induction s arbitrary: a)
  case (Cons c s)
  then have "foldl (\<lambda>n c. 10 * n + (of_char c - 48)) (10 * a + (of_char c - 48)) s
      < (10 * a + (of_char c - 48) + 1) * 10 ^ length s" by simp
  also have "(of_char c :: nat) - 48 \<le> 9" using Cons.prems by (auto simp: is_digit_def Let_def)
  then have "(10 * a + (of_char c - 48) + 1) * 10 ^ length s \<le> ((a + 1) * 10) * 10 ^ length s"
    by (intro mult_le_mono1) simp
  finally show ?case by (simp add: algebra_simps)
qed simp

lemma rotation_index_bound:
  assumes "rotation_index s = Some i"
  shows "i < 10 ^ 6"
proof -
  have "list_all is_digit (take 6 (drop 7 s)) \<and> length s \<ge> 19"
    using assms by (auto simp: rotation_index_def py_dollar_def re_rotation_def take_butlast drop_butlast
        butlast_take split: if_splits)
  then show ?thesis
    using digits_bound [of "take 6 (drop 7 s)" 0] assms by (simp add: rotation_index_def digits_val_def split: if_splits)
qed

lemma partitions_bound:
  assumes "rotate_files a dir = (Inr (Some name), dir')"
  shows "length (rotation_indices dir) \<le> 999999"
proof (rule ccontr)
  let ?n = "length (rotation_indices dir)"
  assume "\<not> ?n \<le> 999999"
  then have "?n \<in> set [1..<?n + 1]" by simp
  moreover have "rotation_indices dir = [1..<?n + 1]" using assms by (elim rotate_filesE)
  ultimately have "?n \<in> set (rotation_indices dir)" by metis
  then obtain s where "rotation_index s = Some ?n" by (auto simp: rotation_indices_def map_filter_def)
  then show False using rotation_index_bound \<open>\<not> ?n \<le> 999999\<close> by fastforce
qed

text \<open>A line without its end.\<close>

lemma file_lines_torn:
  assumes "complete c" "no_newline torn" "strip torn \<noteq> []"
  shows "nonblank_lines (file_lines (c @ torn)) = nonblank_lines (file_lines c) @ [torn]"
proof -
  have t: "newlines torn = torn" "split_on (CHR 0x0A) torn = [torn]"
    using assms(2) by (simp_all add: newlines_plain split_on_whole no_newline_def)
  have n: "newlines (c @ torn) = newlines c @ torn"
    using newlines_append [of c torn] assms(1) t(1) by (auto simp: complete_def)
  show ?thesis
  proof (cases "c = []")
    case True
    then show ?thesis using t assms(3) by (simp add: file_lines_def nonblank_lines_def)
  next
    case False
    then obtain w where w: "newlines c = w @ [CHR 0x0A]"
      using newlines_end assms(1) by (auto simp: complete_def)
    then have "newlines (c @ torn) = w @ CHR 0x0A # torn" using n by simp
    then show ?thesis
      using t w assms(3) split_on_delim [of "CHR 0x0A" w "[]"] split_on_delim [of "CHR 0x0A" w torn]
      by (simp add: file_lines_def nonblank_lines_def)
  qed
qed

lemma torn_replay_fails:
  assumes "map_of dir ACTIVE_FILE = Some (c @ torn)" "complete c" "no_newline torn" "strip torn \<noteq> []"
    "parse_line env (strip torn) = BadJson"
  shows "replay env from dir \<noteq> Inr es"
proof -
  have "records dir = nonblank_lines (concat (map file_lines (map snd (partitions dir))) @ file_lines c) @ [torn]"
    using file_lines_torn [OF assms(2-4)] assms(1) by (simp add: records_def ledger_lines_eq)
  then show ?thesis using assms(4,5) by (simp add: replay_records replay_append bindE_eq_Inr del: nonblank_append)
qed

end
