(* ===== verification/Sample_Ledger.thy ===== *)
theory Sample_Ledger
  imports Ledger_Steps Sample_Project
begin

text \<open>
  A ledger on which the theorems on the event store are exercised. Its JSON parser knows the records
  of a list of events and nothing else, and its runtime is the one of the sample project.
\<close>

definition ledger_env_of :: "project_event list \<Rightarrow> ledger_env" where
  "ledger_env_of es =
    \<lparr>le_rt = sample_rt,
     le_loads = map_of (map (\<lambda>e. (event_record sample_rt e, sort_keys (JObj (event_dump e)))) es),
     le_now = ''2026-01-01T00:00:00Z'', le_uuid = replicate 32 CHR ''b'', le_path = ''/vault/events.jsonl''\<rparr>"

definition ledger_of :: "project_event list \<Rightarrow> string dict" where
  "ledger_of es = fold (\<lambda>e. append_line (event_record sample_rt e)) es []"

text \<open>Events without floats that read back as they were written.\<close>

definition plain_event :: "project_event \<Rightarrow> bool" where
  "plain_event e = (validate_event sample_rt (event_content e) = Inr e \<and> validate_event sample_rt e = Inr e
     \<and> event_floats e = {})"

lemma record_inj:
  assumes "event_floats e = {}" "event_floats e' = {}" "event_record rt e = event_record rt e'"
  shows "ev_sequence e = ev_sequence e'"
proof -
  have f: "floats_of (JObj (event_dump x)) = event_floats x" for x
    using hashed_fields_floats [of x] by (simp add: hashed_fields_def event_dump_def)
  have "readable_floats rt (floats_of (JObj (event_dump e)) \<union> floats_of (JObj (event_dump e')))"
    unfolding f using assms(1,2) by simp
  then have "sort_keys (JObj (event_dump e)) = sort_keys (JObj (event_dump e'))"
    using assms(3) unfolding event_record_def by (rule canonical_text_inj)
  then show ?thesis using sorted_dump_get(4) [of e] sorted_dump_get(4) [of e'] by simp
qed

lemma plain_floatless: "list_all plain_event es \<Longrightarrow> list_all (\<lambda>e. event_floats e = {}) es"
  by (simp add: list_all_iff plain_event_def)

lemma floatless_reads_back:
  assumes "e \<in> set es" "list_all (\<lambda>e. event_floats e = {}) es" "distinct (map ev_sequence es)"
  shows "reads_back (ledger_env_of es) e"
proof -
  have "event_record sample_rt x = event_record sample_rt e \<Longrightarrow> x = e" if "x \<in> set es" for x
    using that assms record_inj [of x e sample_rt]
    by (auto simp: list_all_iff distinct_map inj_on_def)
  then have "map_of (map (\<lambda>x. (event_record sample_rt x, sort_keys (JObj (event_dump x)))) es)
      (event_record sample_rt e) = Some (sort_keys (JObj (event_dump e)))"
    using assms(1)
  proof (induction es)
    case (Cons a es)
    have "event_record sample_rt a \<noteq> event_record sample_rt e" if "a \<noteq> e"
      using Cons.prems(1) [of a] that by auto
    then show ?case using Cons by (cases "a = e") (auto simp del: sort_keys.simps)
  qed simp
  then show ?thesis by (simp add: reads_back_def ledger_env_of_def del: sort_keys.simps)
qed

lemmas sample_reads_back = floatless_reads_back [OF _ plain_floatless]

lemma sample_parse:
  assumes "e \<in> set es" "list_all (\<lambda>e. event_floats e = {}) es" "distinct (map ev_sequence es)" "plain_event e"
  shows "parse_line (ledger_env_of es) (event_record sample_rt e) = Parsed e"
  using floatless_reads_back [OF assms(1-3)] assms(4)
  by (auto simp: reads_back_def parse_line_def read_event_sorted ledger_env_of_def plain_event_def)

lemma ledger_of_snoc: "ledger_of (es @ [e]) = append_line (event_record sample_rt e) (ledger_of es)"
  by (simp add: ledger_of_def)

lemma ledger_of_complete: "active_complete (ledger_of es)"
  by (cases es rule: rev_cases) (simp_all add: ledger_of_snoc, simp add: ledger_of_def active_complete_def)

lemma ledger_of_records: "list_all plain_event es \<Longrightarrow> records (ledger_of es) = map (event_record sample_rt) es"
proof (induction es rule: rev_induct)
  case Nil
  show ?case by (simp add: ledger_of_def records_def ledger_lines_eq partitions_def map_filter_simps)
next
  case (snoc e es)
  then have "clean_line (event_record sample_rt e)" by (intro event_record_line) (simp add: plain_event_def)
  then show ?case using snoc records_append [OF ledger_of_complete] by (simp add: ledger_of_snoc)
qed

lemma sample_replay_ledger:
  assumes "list_all plain_event es" "list_all (\<lambda>e. event_floats e = {}) fs" "distinct (map ev_sequence (es @ fs))"
  shows "replay (ledger_env_of (es @ fs)) 1 (ledger_of es) = Inr es"
proof -
  have floats: "list_all (\<lambda>e. event_floats e = {}) (es @ fs)" using plain_floatless [OF assms(1)] assms(2) by simp
  have "replay_lines (ledger_env_of (es @ fs)) 1 (map (event_record sample_rt) xs) = Inr xs"
    if "set xs \<subseteq> set es" for xs
    using that
  proof (induction xs)
    case (Cons x xs)
    then have x: "x \<in> set (es @ fs)" "plain_event x" using assms(1) by (auto simp: list_all_iff)
    then have "event_floats x = {}" by (simp add: plain_event_def)
    then have "strip (event_record sample_rt x) = event_record sample_rt x" "strip (event_record sample_rt x) \<noteq> []"
      using event_record_line [of sample_rt x] by (simp_all add: clean_line_def)
    then show ?case
      using Cons sample_parse [OF x(1) floats assms(3) x(2)]
        parse_line_sequence [OF sample_parse [OF x(1) floats assms(3) x(2)]] by simp
  qed simp
  then show ?thesis using ledger_of_records [of es] assms(1) by (simp add: replay_records)
qed

subsection \<open>Two notes with the same identifier\<close>

definition remark :: "int \<Rightarrow> string \<Rightarrow> string option \<Rightarrow> project_event" where
  "remark n i key = (sample_event n i ''observation.recorded'' [(''text'', JStr ''ok'')] [])\<lparr>ev_idempotency_key := key\<rparr>"

definition derived_id :: string where
  "derived_id = ''evt_'' @ replicate 24 CHR ''a''"

definition first_note :: project_event where "first_note = remark 1 derived_id None"

definition second_note :: project_event where "second_note = remark 2 ''evt_2'' None"

definition repeated_note :: project_event where "repeated_note = remark 2 derived_id (Some ''k'')"

definition note_command :: "string option \<Rightarrow> string option \<Rightarrow> append_command" where
  "note_command i key = \<lparr>ac_project_id = ''prj_demo'', ac_event_type = ''observation.recorded'',
     ac_payload = [(''text'', JStr ''ok'')], ac_actor = ''olena'', ac_source = ''pse_governance'',
     ac_session_id = None, ac_artifact_refs = [], ac_evidence_refs = [], ac_correlation_id = None,
     ac_causation_id = None, ac_idempotency_key = key, ac_event_id = i,
     ac_timestamp = Some ''2026-01-01T00:00:00Z''\<rparr>"

lemma notes_plain: "list_all plain_event [first_note, second_note]" "plain_event repeated_note"
proof -
  have "validate_event sample_rt first_note = Inr first_note" "validate_event sample_rt second_note = Inr second_note"
    "validate_event sample_rt repeated_note = Inr repeated_note" by code_simp+
  moreover have "event_content (remark n i k) = remark n i k" "event_floats (remark n i k) = {}" for n i k
    by (simp_all add: event_content_def remark_def sample_event_def sort_dict_def event_floats_def)
  ultimately show "list_all plain_event [first_note, second_note]" "plain_event repeated_note"
    by (simp_all add: plain_event_def first_note_def second_note_def repeated_note_def)
qed

lemma note_fields [simp]:
  "ev_event_id (remark n i k) = i" "ev_project_id (remark n i k) = ''prj_demo''" "ev_sequence (remark n i k) = n"
  "ev_prev_event_hash (remark n i k) = (if n = 1 then [] else hex64)" "ev_event_hash (remark n i k) = hex64"
  "ev_payload_digest (remark n i k) = hex64" "ev_idempotency_key (remark n i k) = k"
  "ev_payload (remark n i k) = [(''text'', JStr ''ok'')]"
  by (simp_all add: remark_def sample_event_def)

lemma note_digests:
  "compute_payload_digest sample_rt [(''text'', JStr ''ok'')] = Inr hex64"
  "event_hash_of sample_rt (remark n i k) = Inr hex64"
  "check_floats (JObj (event_dump (remark n i k)))"
proof -
  have "check_floats (jopt x)" for x by (simp add: jopt_def split: option.split)
  then have "check_floats_items (event_dump (remark n i k))"
    by (simp add: event_dump_def remark_def sample_event_def jstrs_def)
  then show "check_floats (JObj (event_dump (remark n i k)))"
    "event_hash_of sample_rt (remark n i k) = Inr hex64"
    unfolding event_hash_of_def compute_event_hash_def
    by (simp, intro sample_digest) (auto simp: check_floats_items_all)
  show "compute_payload_digest sample_rt [(''text'', JStr ''ok'')] = Inr hex64"
    unfolding compute_payload_digest_def by (intro sample_digest) simp
qed

lemma env_rt [simp]: "le_rt (ledger_env_of es) = sample_rt"
  by (simp add: ledger_env_of_def)

lemma note_linked: "linked sample_rt ''prj_demo'' 1 [] [remark 1 i k, remark 2 j l]"
  "linked sample_rt ''prj_demo'' 1 [] [remark 1 i k]"
  by (simp_all add: note_digests)

lemma note_good_run: "good_run sample_rt ''prj_demo'' [first_note] scan_start"
  using note_linked(2) by (simp add: good_run_iff scan_start_def first_note_def)

lemma ledger_of_one: "ledger_of [e] = [(ACTIVE_FILE, event_record sample_rt e @ [CHR 0x0A])]"
  by (simp add: ledger_of_def append_line_def)

lemma record_file_lines:
  assumes "plain_event e"
  shows "file_lines (event_record sample_rt e @ [CHR 0x0A]) = [event_record sample_rt e, []]"
proof -
  have "clean_line (event_record sample_rt e)" using assms by (intro event_record_line) (simp add: plain_event_def)
  then have "CHR 0x0A \<notin> set (event_record sample_rt e)" "CHR 0x0D \<notin> set (event_record sample_rt e)"
    by (simp_all add: clean_line_def)
  then show ?thesis
    using split_on_delim [of "CHR 0x0A" "event_record sample_rt e" "[]"]
    by (simp add: file_lines_def newlines_plain split_on_whole)
qed

lemma recover_one_note:
  assumes "parse_line env (event_record sample_rt first_note) = Parsed first_note" "le_rt env = sample_rt"
  shows "recover_active env (ledger_of [first_note]) = Inr (ledger_of [first_note])"
proof -
  let ?r = "event_record sample_rt first_note"
  have plain: "plain_event first_note" using notes_plain(1) by simp
  have strip: "strip ?r = ?r" using plain by (intro event_record_line) (simp add: plain_event_def)
  have "hd ?r = CHR ''{''" "?r \<noteq> []" by (simp_all add: event_record_def)
  then have "\<not> list_all is_byte_space ?r" by (cases ?r) (auto simp: is_byte_space_def)
  then have "filter (\<lambda>l. \<not> list_all is_byte_space l) (file_lines (?r @ [CHR 0x0A])) = [?r]"
    unfolding record_file_lines [OF plain] by simp
  moreover have "check_complete env [?r] = Inr ()"
    using assms note_digests
    by (simp add: check_complete_def parsed_event_def strip [unfolded first_note_def] value_raise_def first_note_def)
  ultimately have "recover_torn_tail env (?r @ [CHR 0x0A]) = Inr (?r @ [CHR 0x0A])"
    by (simp add: recover_torn_tail_def)
  then show ?thesis by (simp add: ledger_of_one recover_active_def)
qed

text \<open>The append of an event that is not recorded yet.\<close>

lemma append_files_next:
  assumes "recover_active env dir = Inr dir" "replay env 1 dir = Inr es" "good_run (le_rt env) pid es scan_start"
    "command_print (le_rt env) c = Inr fp" "find_recorded env c fp (records dir) = Inr None"
    "new_event env pid c (int (length es) + 1) (if es = [] then [] else ev_event_hash (last es)) = Inr e"
    "check_floats (JObj (event_dump e))"
    "ls \<in> {None, Some (int (length es))}" "lh \<in> {None, Some (if es = [] then [] else ev_event_hash (last es))}"
  shows "append_files env pid c ls lh dir = (Inr e, append_line (event_record (le_rt env) e) dir)"
proof -
  have linked: "linked (le_rt env) pid 1 [] es" using assms(3) by (simp add: good_run_iff scan_start_def)
  have scan: "sc_last_sequence (verify env pid dir) = int (length es)"
    "sc_last_hash (verify env pid dir) = (if es = [] then [] else ev_event_hash (last es))"
    using verify_eq [OF assms(2,3)] linked_last [OF linked] by (auto simp: fold_scan scan_start_def)
  have find: "find_recorded env c fp (ledger_lines dir) = Inr None"
    using assms(5) by (simp add: records_def find_nonblank)
  have "valid_scan (verify env pid dir)" using assms(2,3) verify_iff by blast
  moreover have h: "(if int (length es) + 1 = 1 then [] else (if es = [] then [] else ev_event_hash (last es))) =
      (if es = [] then [] else ev_event_hash (last es))" by simp
  ultimately show ?thesis
    unfolding append_files_def assms(1) sum.case Let_def scan assms(4) bindE_Inr find option.case h assms(6)
    using assms(7-9) by (simp del: check_floats.simps)
qed

lemmas append_files_new = append_files_next [OF _ _ _ _ _ _ _ insertI1 insertI1]

lemma note_written:
  assumes "validate_event sample_rt (remark n i key) = Inr (remark n i key)"
    and "new_event_id env ''prj_demo'' (note_command j key) n = i" "le_rt env = sample_rt"
  shows "new_event env ''prj_demo'' (note_command j key) n (if n = 1 then [] else hex64) = Inr (remark n i key)"
proof -
  let ?d = "draft_event env ''prj_demo'' (note_command j key) n (if n = 1 then [] else hex64) hex64"
  have d: "?d\<lparr>ev_event_hash := hex64\<rparr> = remark n i key"
    using assms(2) by (simp add: draft_event_def note_command_def remark_def sample_event_def)
  have "event_hash_of sample_rt ?d = event_hash_of sample_rt (?d\<lparr>ev_event_hash := hex64\<rparr>)" by simp
  also have "\<dots> = Inr hex64" unfolding d by (rule note_digests)
  finally have "event_hash_of sample_rt ?d = Inr hex64" .
  moreover have "compute_payload_digest sample_rt (ac_payload (note_command j key)) = Inr hex64"
    using note_digests(1) by (simp add: note_command_def)
  ultimately show ?thesis using assms(1) by (simp add: new_event_eq assms(3) value_raise_def d)
qed

end
