(* ===== verification/Ledger_Properties.thy ===== *)
theory Ledger_Properties
  imports Sample_Ledger Reducer_Facts
begin

text \<open>
  What the event store guarantees: verification accepts exactly the chained ledgers, an append adds
  one event, a torn write disappears, a rotation keeps the events, and a verified ledger passes the
  integrity checks of the reducer. Two ways of closing a ledger for good are stated as well.
\<close>

subsection \<open>Verification\<close>

lemma verify_linked:
  "valid_scan (verify env pid dir) \<longleftrightarrow>
     (\<exists>es. replay env 1 dir = Inr es \<and> linked (le_rt env) pid 1 [] es \<and> distinct (map ev_event_id es))"
  by (simp add: verify_iff good_run_iff scan_start_def)

text \<open>
  C6. The verification accepts a ledger exactly when its files replay to events of the project that
  are numbered from one, hash-chained, with the recomputed digests and with distinct identifiers;
  it then reports their count, the last number and the head hash.
\<close>

theorem verify_accepts_chained_ledgers:
  "valid_scan (verify env pid dir) \<longleftrightarrow>
     (\<exists>es. replay env 1 dir = Inr es \<and> linked (le_rt env) pid 1 [] es \<and> distinct (map ev_event_id es)
       \<and> sc_count (verify env pid dir) = int (length es)
       \<and> sc_last_sequence (verify env pid dir) = int (length es)
       \<and> sc_last_hash (verify env pid dir) = (if es = [] then [] else ev_event_hash (last es)))"
proof -
  have "sc_count (verify env pid dir) = int (length es) \<and> sc_last_sequence (verify env pid dir) = int (length es)
      \<and> sc_last_hash (verify env pid dir) = (if es = [] then [] else ev_event_hash (last es))"
    if es: "replay env 1 dir = Inr es" "linked (le_rt env) pid 1 [] es" "distinct (map ev_event_id es)" for es
  proof -
    have "good_run (le_rt env) pid es scan_start" using es by (simp add: good_run_iff scan_start_def)
    then show ?thesis
      using verify_eq [OF es(1)] linked_last [OF es(2)] by (auto simp: fold_scan scan_start_def)
  qed
  then show ?thesis unfolding verify_linked by blast
qed

lemma linked_app:
  "linked rt pid n prev (xs @ ys) \<longleftrightarrow> linked rt pid n prev xs
     \<and> linked rt pid (n + int (length xs)) (if xs = [] then prev else ev_event_hash (last xs)) ys"
  by (induction xs arbitrary: n prev) (auto simp: add_ac)

lemma ledger_position:
  assumes "foldE (apply_event rt rv au) xs s0 = Inr s" "linked rt pid 1 [] xs"
    "st_project_id s0 = pid" "st_last_event_sequence s0 = 0"
  shows "st_project_id s = pid" "st_last_event_sequence s = int (length xs)"
    "xs \<noteq> [] \<Longrightarrow> st_last_event_hash s = ev_event_hash (last xs)"
proof -
  have "st_project_id s = pid \<and> st_last_event_sequence s = int (length xs)
      \<and> (xs \<noteq> [] \<longrightarrow> st_last_event_hash s = ev_event_hash (last xs))"
    using assms(1,2)
  proof (induction xs arbitrary: s rule: rev_induct)
    case Nil
    then show ?case using assms(3,4) by simp
  next
    case (snoc x xs)
    then obtain t where t: "foldE (apply_event rt rv au) xs s0 = Inr t" "apply_event rt rv au x t = Inr s"
      by (auto simp: foldE_append bindE_eq_Inr)
    have "linked rt pid 1 [] xs" "ev_sequence x = 1 + int (length xs)" using snoc.prems(2) by (simp_all add: linked_app)
    then show ?case
      using snoc.IH [OF t(1)] t(2) by (auto elim!: apply_eventE simp: lineage_def advance_def)
  qed
  then show "st_project_id s = pid" "st_last_event_sequence s = int (length xs)"
    "xs \<noteq> [] \<Longrightarrow> st_last_event_hash s = ev_event_hash (last xs)" by auto
qed

text \<open>
  C8. The reducer never refuses an event of a verified ledger for its project, its number, its chain
  or its digests: whatever it has replayed so far, the next event passes these checks.
\<close>

theorem verified_ledgers_pass_the_chain_checks:
  assumes "valid_scan (verify env pid dir)" and "replay env 1 dir = Inr (xs @ e # ys)"
    and "st_project_id s0 = pid" and "st_last_event_sequence s0 = 0"
    and "foldE (apply_event (le_rt env) rv au) xs s0 = Inr s"
  shows "check_chain e s = None \<and> check_digests (le_rt env) e = Inr ()"
proof -
  have "linked (le_rt env) pid 1 [] (xs @ e # ys)" using assms(1,2) by (auto simp: verify_linked)
  then have l: "linked (le_rt env) pid 1 [] xs" "ev_project_id e = pid" "ev_sequence e = 1 + int (length xs)"
    "xs \<noteq> [] \<Longrightarrow> ev_prev_event_hash e = ev_event_hash (last xs)"
    "compute_payload_digest (le_rt env) (ev_payload e) = Inr (ev_payload_digest e)"
    "event_hash_of (le_rt env) e = Inr (ev_event_hash e)"
    by (auto simp: linked_app)
  note pos = ledger_position [OF assms(5) l(1) assms(3,4)]
  have "check_chain e s = None"
    using pos l(2-4) by (cases "xs = []") (simp_all add: check_chain_def)
  then show ?thesis using l(5,6) by (simp add: check_digests_def)
qed

lemma sample_verified:
  "valid_scan (verify (ledger_env_of [first_note, second_note]) ''prj_demo'' (ledger_of [first_note, second_note]))"
  "replay (ledger_env_of [first_note, second_note]) 1 (ledger_of [first_note, second_note]) = Inr [first_note, second_note]"
proof -
  have "distinct (map ev_sequence [first_note, second_note])" by (simp add: first_note_def second_note_def)
  then show r: "replay (ledger_env_of [first_note, second_note]) 1 (ledger_of [first_note, second_note]) =
      Inr [first_note, second_note]"
    using sample_replay_ledger [of "[first_note, second_note]" "[]"] notes_plain(1) by simp
  have "distinct (map ev_event_id [first_note, second_note])"
    by code_simp
  then show "valid_scan (verify (ledger_env_of [first_note, second_note]) ''prj_demo''
      (ledger_of [first_note, second_note]))"
    using r note_linked(1) unfolding verify_linked by (auto simp: first_note_def second_note_def)
qed

lemma sample_first_step: "\<not> isl (apply_event sample_rt GOVERNANCE_RULES_VERSION None first_note sample_start)"
  by code_simp

theorem verified_ledgers_pass_the_chain_checks_witness:
  "\<exists>s. foldE (apply_event sample_rt GOVERNANCE_RULES_VERSION None) [first_note] sample_start = Inr s
    \<and> check_chain second_note s = None \<and> check_digests sample_rt second_note = Inr ()"
proof -
  obtain s where s: "apply_event sample_rt GOVERNANCE_RULES_VERSION None first_note sample_start = Inr s"
    using sample_first_step by (cases "apply_event sample_rt GOVERNANCE_RULES_VERSION None first_note sample_start") auto
  then have run: "foldE (apply_event sample_rt GOVERNANCE_RULES_VERSION None) [first_note] sample_start = Inr s"
    by simp
  have "check_chain second_note s = None \<and> check_digests (le_rt (ledger_env_of [first_note, second_note])) second_note = Inr ()"
    using verified_ledgers_pass_the_chain_checks [OF sample_verified(1), of "[first_note]" second_note "[]" sample_start
        GOVERNANCE_RULES_VERSION None s] sample_verified(2) run
    by (simp add: sample_start_def)
  then show ?thesis using run by auto
qed

subsection \<open>Append\<close>

lemma append_unchecked_files:
  assumes "append_unchecked env pid c ls lh s = (Inr e, s')"
  shows "ac_project_id c = pid" "append_files env pid c ls lh (ld_files s) = (Inr e, ld_files s')"
  using assms
  by (auto simp: append_unchecked_def with_project_lock_def Let_def split: if_splits sum.splits prod.splits)

text \<open>
  C5. An append refines the addition of one event to a list: on the ledger whose torn tail is cut off,
  it either finds its event already recorded and leaves the files, or the files then replay to the
  events from before and one more with the content of the returned event and the next number; the
  ledger stays valid exactly when the identifier of the event was not used before.
\<close>

theorem append_extends_the_ledger:
  assumes "append_unchecked env pid c ls lh s = (Inr e, s')" and "validate_command (le_rt env) c = Inr c"
    and "reads_back env e" and "readable_floats (le_rt env) (event_floats e)"
  shows "\<exists>dir1 es. recover_active env (ld_files s) = Inr dir1 \<and> valid_scan (verify env pid dir1)
    \<and> replay env 1 dir1 = Inr es
    \<and> (e \<in> set es \<and> ld_files s' = dir1
       \<or> (\<exists>e'. event_content e' = event_content e \<and> ev_sequence e = int (length es) + 1
            \<and> replay env 1 (ld_files s') = Inr (es @ [e'])
            \<and> (valid_scan (verify env pid (ld_files s')) \<longleftrightarrow> ev_event_id e \<notin> ev_event_id ` set es)))"
proof -
  note c = append_unchecked_files [OF assms(1)]
  show ?thesis
    using c(2)
  proof (cases rule: append_filesE)
    case (found dir1 es)
    then show ?thesis using verify_iff by blast
  next
    case (written dir1 es)
    note e = new_eventD [OF written(4) assms(2) c(1)]
    obtain e' where e': "event_content e' = event_content e" "replay env 1 (ld_files s') = Inr (es @ [e'])"
      by (rule replay_after_record [OF recover_active_complete [OF written(1)] written(2) e(7) assms(3,4),
            folded written(5)])
    have "valid_scan (verify env pid (ld_files s')) \<longleftrightarrow> ev_event_id e \<notin> ev_event_id ` set es"
      using next_event_valid [OF written(3) e'(1) e(2-6)] e'(2) by (simp add: verify_iff)
    moreover have "valid_scan (verify env pid dir1)" using written(2,3) verify_iff by blast
    ultimately show ?thesis using written(1,2) e(3) e' by blast
  qed
qed

definition empty_ledger :: ledger where
  "empty_ledger = \<lparr>ld_files = [], ld_locks = no_locks\<rparr>"

lemma note_command_valid:
  "validate_command sample_rt (note_command (Some derived_id) None) = Inr (note_command (Some derived_id) None)"
  "validate_command sample_rt (note_command None (Some ''k'')) = Inr (note_command None (Some ''k''))"
  by code_simp+

lemma note_command_print: "le_rt env = sample_rt \<Longrightarrow> command_print (le_rt env) (note_command i k) = Inr hex64"
proof -
  have "command_print sample_rt (note_command i k) = Inr hex64"
    unfolding command_print_def compute_command_fingerprint_def Let_def
    by (subst sample_digest) (simp_all add: note_command_def value_raise_def jstrs_def)
  then show "le_rt env = sample_rt \<Longrightarrow> ?thesis" by simp
qed

lemma first_append:
  assumes "le_rt env = sample_rt"
  shows "append_files env ''prj_demo'' (note_command (Some derived_id) None) None None [] =
    (Inr first_note, append_line (event_record (le_rt env) first_note) [])"
proof (rule append_files_new)
  show "recover_active env [] = Inr []" by (simp add: recover_active_def)
  show "replay env 1 [] = Inr []"
    by (simp add: replay_def ledger_lines_eq partitions_def map_filter_simps)
  show "good_run (le_rt env) ''prj_demo'' [] scan_start" by simp
  show "command_print (le_rt env) (note_command (Some derived_id) None) = Inr hex64"
    by (rule note_command_print [OF assms])
  show "find_recorded env (note_command (Some derived_id) None) hex64 (records []) = Inr None"
    by (simp add: records_def ledger_lines_eq partitions_def map_filter_simps)
  have "validate_event sample_rt first_note = Inr first_note" using notes_plain(1) by (simp add: plain_event_def)
  moreover have "new_event_id env ''prj_demo'' (note_command (Some derived_id) None) 1 = derived_id"
    by (simp add: new_event_id_def note_command_def derived_id_def)
  ultimately show "new_event env ''prj_demo'' (note_command (Some derived_id) None) (int (length []) + 1)
      (if [] = [] then [] else ev_event_hash (last [])) = Inr first_note"
    using note_written [of 1 derived_id None env "Some derived_id"] assms by (simp add: first_note_def)
  show "check_floats (JObj (event_dump first_note))" unfolding first_note_def by (rule note_digests)
qed

theorem append_extends_the_ledger_witness:
  "\<exists>s' e'. append_unchecked (ledger_env_of [first_note, second_note]) ''prj_demo'' (note_command (Some derived_id) None)
      None None empty_ledger = (Inr first_note, s')
    \<and> event_content e' = event_content first_note
    \<and> replay (ledger_env_of [first_note, second_note]) 1 (ld_files s') = Inr [e']"
proof -
  let ?env = "ledger_env_of [first_note, second_note]"
  have "push_level LEVEL_PROJECT (Some ''prj_demo'') no_locks \<noteq> Inl x" for x by (cases x) code_simp+
  then obtain h where "push_level LEVEL_PROJECT (Some ''prj_demo'') no_locks = Inr h"
    by (cases "push_level LEVEL_PROJECT (Some ''prj_demo'') no_locks") auto
  then obtain s' where run: "append_unchecked ?env ''prj_demo'' (note_command (Some derived_id) None)
      None None empty_ledger = (Inr first_note, s')"
    using first_append [of ?env]
    by (simp add: append_unchecked_def with_project_lock_def empty_ledger_def note_command_def)
  have "reads_back ?env first_note"
    by (rule sample_reads_back [OF _ notes_plain(1)]) (simp_all add: first_note_def second_note_def)
  moreover have "validate_command (le_rt ?env) (note_command (Some derived_id) None) =
      Inr (note_command (Some derived_id) None)" using note_command_valid(1) by simp
  moreover have "event_floats first_note = {}" using notes_plain(1) by (simp add: plain_event_def)
  ultimately obtain dir1 es where "recover_active ?env [] = Inr dir1" "replay ?env 1 dir1 = Inr es"
    "first_note \<in> set es \<and> ld_files s' = dir1
       \<or> (\<exists>e'. event_content e' = event_content first_note \<and> ev_sequence first_note = int (length es) + 1
            \<and> replay ?env 1 (ld_files s') = Inr (es @ [e'])
            \<and> (valid_scan (verify ?env ''prj_demo'' (ld_files s')) \<longleftrightarrow> ev_event_id first_note \<notin> ev_event_id ` set es))"
    using append_extends_the_ledger [OF run] by (auto simp: empty_ledger_def)
  moreover have "recover_active ?env [] = Inr []" by (simp add: recover_active_def)
  moreover have "replay ?env 1 [] = Inr []"
    by (simp add: replay_def ledger_lines_eq partitions_def map_filter_simps)
  ultimately show ?thesis using run by auto
qed



subsection \<open>Torn writes\<close>

text \<open>
  C33. A crash in the middle of an append, after any number of bytes of the record, is undone by the
  next append: once the tail is cut off, the ledger replays and verifies as before.
\<close>

theorem torn_append_is_undone:
  assumes "active_complete dir" and "readable_floats (le_rt env) (event_floats e)"
    and "0 < k" and "k \<le> length (event_record (le_rt env) e)"
  shows "\<exists>dir2. recover_active env (AList.update ACTIVE_FILE
        (active_text dir @ take k (event_record (le_rt env) e)) dir) = Inr dir2
    \<and> replay env from dir2 = replay env from dir
    \<and> (valid_scan (verify env pid dir2) \<longleftrightarrow> valid_scan (verify env pid dir))"
proof -
  let ?t = "take k (event_record (le_rt env) e)"
  have "clean_line (event_record (le_rt env) e)" using event_record_line(1) [OF assms(2)] .
  then have "CHR 0x0A \<notin> set ?t" by (auto simp: clean_line_def dest: in_set_takeD)
  moreover have "complete (active_text dir)"
    using assms(1) by (simp add: active_complete_def active_text_def complete_def split: option.splits)
  moreover have "?t \<noteq> []" using assms(3,4) by auto
  ultimately have "recover_torn_tail env (active_text dir @ ?t) = Inr (active_text dir)"
    by (intro recover_cut)
  then have "recover_active env (AList.update ACTIVE_FILE (active_text dir @ ?t) dir) =
      Inr (AList.update ACTIVE_FILE (active_text dir) dir)"
    by (simp add: recover_active_def update_conv')
  then show ?thesis
    using verify_records [of "AList.update ACTIVE_FILE (active_text dir) dir" dir env pid]
    by (simp add: replay_records)
qed

theorem torn_append_is_undone_witness:
  "\<exists>dir2. recover_active (ledger_env_of [first_note]) [(ACTIVE_FILE, ''{'')] = Inr dir2
    \<and> replay (ledger_env_of [first_note]) 1 dir2 = Inr []"
proof -
  obtain w where w: "event_record sample_rt first_note = CHR ''{'' # w" by (simp add: event_record_def)
  have "active_complete []" by (simp add: active_complete_def)
  moreover have "event_floats first_note = {}" using notes_plain(1) by (simp add: plain_event_def)
  moreover have "replay (ledger_env_of [first_note]) 1 [] = Inr []"
    by (simp add: replay_def ledger_lines_eq partitions_def map_filter_simps)
  ultimately show ?thesis
    using torn_append_is_undone [of "[]" "ledger_env_of [first_note]" first_note 1 1] w
    by (auto simp: active_text_def)
qed

subsection \<open>Rotation\<close>

text \<open>
  C18. A rotation keeps the events of the ledger in place while it makes at most the partition
  999999. The name of the next one has seven digits, which no reader takes for a partition: its
  events are missing from the ledger.
\<close>

theorem rotation_keeps_the_ledger:
  assumes "rotate_files a dir = (Inr (Some name), dir')"
  shows "replay env from dir' =
      replay env from (if length (rotation_indices dir) < 999999 then dir else AList.delete ACTIVE_FILE dir)
    \<and> verify env pid dir' =
      verify env pid (if length (rotation_indices dir) < 999999 then dir else AList.delete ACTIVE_FILE dir)"
proof (cases "length (rotation_indices dir) < 999999")
  case True
  then show ?thesis using empty_file_scan [OF event_files_after_rotation(1) [OF assms]] by simp
next
  case False
  then have "length (rotation_indices dir) = 999999" using partitions_bound [OF assms] by simp
  then show ?thesis using empty_file_scan [OF event_files_after_rotation(2) [OF assms]] by simp
qed

lemma sample_rotation:
  "rotate_files None [(ACTIVE_FILE, ''{'')] =
    (Inr (Some ''events_000001.jsonl''), [(''events_000001.jsonl'', ''{''), (ACTIVE_FILE, [])])"
  "rotation_indices [(ACTIVE_FILE, ''{'')] = []"
  by code_simp+

theorem rotation_keeps_the_ledger_witness:
  "verify (ledger_env_of []) ''prj_demo'' [(''events_000001.jsonl'', ''{''), (ACTIVE_FILE, [])] =
   verify (ledger_env_of []) ''prj_demo'' [(ACTIVE_FILE, ''{'')]"
  using rotation_keeps_the_ledger [OF sample_rotation(1), of "ledger_env_of []" 1 "''prj_demo''"]
  by (simp add: sample_rotation(2))

text \<open>
  A rotation does not look at the tail of the active file. If a crash has left a torn record
  there, the next append would cut it off; after a rotation it is inside the ledger for good, and no
  append on the ledger succeeds or changes its files.
\<close>

theorem rotating_a_torn_ledger_closes_it:
  assumes "rotate_files a dir = (Inr (Some name), dir')" and "length (rotation_indices dir) < 999999"
    and "map_of dir ACTIVE_FILE = Some (c @ torn)" and "complete c" and "no_newline torn"
    and "strip torn \<noteq> []" and "parse_line env (strip torn) = BadJson"
  shows "recover_active env dir = Inr (AList.update ACTIVE_FILE c dir)
    \<and> append_files env pid cmd ls lh dir' = (Inl LedgerIntegrity, dir')"
proof -
  have "torn \<noteq> []" "CHR 0x0A \<notin> set torn" using assms(5,6) by (auto simp: no_newline_def)
  then have cut: "recover_active env dir = Inr (AList.update ACTIVE_FILE c dir)"
    using recover_cut [OF assms(4)] assms(3) by (simp add: recover_active_def)
  have "replay env 1 dir' = replay env 1 dir"
    using empty_file_scan [OF event_files_after_rotation(1) [OF assms(1,2)]] by blast
  then have invalid: "\<not> valid_scan (verify env pid dir')"
    using torn_replay_fails [OF assms(3-7)] by (simp add: verify_iff)
  have empty: "map_of dir' ACTIVE_FILE = Some []"
    using assms(1) by (elim rotate_filesE) (simp add: update_conv')
  then have "recover_active env dir' = Inr dir'"
    by (simp add: recover_active_def recover_torn_tail_def update_triv)
  then show ?thesis using cut invalid by (simp add: append_files_def)
qed

theorem rotating_a_torn_ledger_closes_it_witness:
  "append_files (ledger_env_of []) ''prj_demo'' (note_command None None) None None
     [(''events_000001.jsonl'', ''{''), (ACTIVE_FILE, [])] =
   (Inl LedgerIntegrity, [(''events_000001.jsonl'', ''{''), (ACTIVE_FILE, [])])"
proof -
  have "map_of [(ACTIVE_FILE, ''{'')] ACTIVE_FILE = Some ([] @ ''{'')" by simp
  moreover have "strip ''{'' = ''{''" by code_simp
  then have "parse_line (ledger_env_of []) (strip ''{'') = BadJson" "strip ''{'' \<noteq> []"
    by (simp_all add: parse_line_def ledger_env_of_def)
  ultimately show ?thesis
    using rotating_a_torn_ledger_closes_it [OF sample_rotation(1), of "[]" "''{''" "ledger_env_of []" "''prj_demo''"
        "note_command None None" None None]
    by (simp add: sample_rotation(2) complete_def)
qed

end
