(* ===== verification/Temporal.thy ===== *)
theory Temporal
  imports Dependency_Cycles
begin

text \<open>
  The temporal semantics of notes (\<open>core/temporal.py\<close>): validity intervals, the graph of
  supersession, the notes that a current head supersedes, the search for cycles, and the resolved
  status of every note.

  Python iterates over a set in an order that depends on the hashes of its elements; \<open>te_order\<close> is
  that order, as a function of the elements in the order of their insertion. The clock and the
  parser of ISO dates are parameters too. A date is the triple of its year, month and day.
\<close>

subsection \<open>Dates, views and records\<close>

type_synonym date = "int \<times> int \<times> int"

record temporal_env =
  te_order :: "string list \<Rightarrow> string list"
  te_today :: date
  te_date_of :: "string \<Rightarrow> date option"

datatype temporal_status = TS_CURRENT | TS_HISTORICAL | TS_CONFLICTED

datatype temporal_view = TV_CURRENT | TV_HISTORICAL | TV_ALL

definition status_str :: "temporal_status \<Rightarrow> string" where
  "status_str s = (case s of TS_CURRENT \<Rightarrow> ''current'' | TS_HISTORICAL \<Rightarrow> ''historical''
     | TS_CONFLICTED \<Rightarrow> ''conflicted'')"

definition view_str :: "temporal_view \<Rightarrow> string" where
  "view_str v = (case v of TV_CURRENT \<Rightarrow> ''current'' | TV_HISTORICAL \<Rightarrow> ''historical'' | TV_ALL \<Rightarrow> ''all'')"

definition normalize_temporal_view :: "string \<Rightarrow> pse_error + temporal_view" where
  "normalize_temporal_view s =
     (if lower s = ''current'' then Inr TV_CURRENT
      else if lower s = ''historical'' then Inr TV_HISTORICAL
      else if lower s = ''all'' then Inr TV_ALL
      else Inl PyError)"

datatype as_of = NoBoundary | OnDate date | DateText string

definition normalize_as_of :: "temporal_env \<Rightarrow> as_of \<Rightarrow> pse_error + date" where
  "normalize_as_of env a = (case a of
       NoBoundary \<Rightarrow> Inr (te_today env)
     | OnDate d \<Rightarrow> Inr d
     | DateText s \<Rightarrow> (case te_date_of env s of Some d \<Rightarrow> Inr d | None \<Rightarrow> Inl PyError))"

text \<open>The fields of the memory metadata of a note that the resolution reads.\<close>

record memory_meta =
  mm_valid_from :: "date option"
  mm_valid_until :: "date option"
  mm_supersedes :: "string list"

type_synonym temporal_records = "memory_meta option dict"

subsection \<open>The graph of supersession\<close>

definition valid_at :: "date \<Rightarrow> memory_meta option \<Rightarrow> bool" where
  "valid_at b m = (case m of None \<Rightarrow> True | Some mm \<Rightarrow>
     (case mm_valid_from mm of None \<Rightarrow> True | Some d \<Rightarrow> d \<le> b)
     \<and> (case mm_valid_until mm of None \<Rightarrow> True | Some d \<Rightarrow> b \<le> d))"

definition active_paths :: "date \<Rightarrow> temporal_records \<Rightarrow> string list" where
  "active_paths b recs = map fst (filter (\<lambda>(p, m). valid_at b m) recs)"

text \<open>The targets of a note in the order in which they enter its set.\<close>

definition supersedes_of :: "temporal_records \<Rightarrow> string \<Rightarrow> string list" where
  "supersedes_of recs p = (case map_of recs p of
       Some (Some mm) \<Rightarrow> rev (remdups (rev (filter (\<lambda>t. has_key t recs) (mm_supersedes mm))))
     | _ \<Rightarrow> [])"

definition edge_dict :: "temporal_env \<Rightarrow> date \<Rightarrow> temporal_records \<Rightarrow> string list dict" where
  "edge_dict env b recs =
     filter (\<lambda>(p, ts). ts \<noteq> []) (map (\<lambda>p. (p, supersedes_of recs p)) (te_order env (active_paths b recs)))"

definition targets_of :: "temporal_env \<Rightarrow> string list dict \<Rightarrow> string \<Rightarrow> string list" where
  "targets_of env E p = (case map_of E p of None \<Rightarrow> [] | Some ts \<Rightarrow> te_order env ts)"

definition incoming :: "string list dict \<Rightarrow> string list" where
  "incoming E = concat (map snd E)"

definition heads_of :: "temporal_env \<Rightarrow> date \<Rightarrow> temporal_records \<Rightarrow> string list" where
  "heads_of env b recs =
     te_order env (filter (\<lambda>p. p \<notin> set (incoming (edge_dict env b recs))) (active_paths b recs))"

subsection \<open>The notes that a head reaches\<close>

definition graph_nodes :: "string list dict \<Rightarrow> string set" where
  "graph_nodes E = set (map fst E)"

lemma targets_of_outside: "t \<notin> graph_nodes E \<Longrightarrow> targets_of env E t = []"
  by (auto simp: targets_of_def graph_nodes_def split: option.split dest: map_of_SomeD)
    (metis fst_conv image_eqI map_of_SomeD)

text \<open>The loop over the queue; the last argument is the set \<open>seen\<close>.\<close>

function reach :: "temporal_env \<Rightarrow> string list dict \<Rightarrow> string list \<Rightarrow> string list \<Rightarrow> string list" where
  "reach env E [] seen = seen"
| "reach env E (t # q) seen =
     (if t \<in> set seen then reach env E q seen else reach env E (q @ targets_of env E t) (seen @ [t]))"
  by pat_completeness auto

termination
proof (relation "measures [\<lambda>(env, E, q, seen). card (graph_nodes E - set seen), \<lambda>(env, E, q, seen). length q]")
  fix env E t q and seen :: "string list"
  assume t: "t \<notin> set seen"
  show "((env, E, q @ targets_of env E t, seen @ [t]), env, E, t # q, seen) \<in>
      measures [\<lambda>(env, E, q, seen). card (graph_nodes E - set seen), \<lambda>(env, E, q, seen). length q]"
  proof (cases "t \<in> graph_nodes E")
    case True
    have "finite (graph_nodes E)" by (simp add: graph_nodes_def)
    then have "card (graph_nodes E - set (seen @ [t])) < card (graph_nodes E - set seen)"
      using True t by (intro psubset_card_mono) auto
    then show ?thesis by simp
  next
    case False
    then have "graph_nodes E - set (seen @ [t]) = graph_nodes E - set seen" by auto
    then show ?thesis by (simp add: targets_of_outside [OF False])
  qed
qed auto

definition holders :: "string list dict \<Rightarrow> string \<Rightarrow> string list" where
  "holders d t = (case map_of d t of None \<Rightarrow> [] | Some hs \<Rightarrow> hs)"

definition add_head :: "string \<Rightarrow> string \<Rightarrow> string list dict \<Rightarrow> string list dict" where
  "add_head h t d = AList.update t (if h \<in> set (holders d t) then holders d t else holders d t @ [h]) d"

definition reached_by :: "temporal_env \<Rightarrow> string list dict \<Rightarrow> string list \<Rightarrow> string list dict" where
  "reached_by env E hs = fold (\<lambda>h. fold (add_head h) (reach env E (targets_of env E h) [])) hs []"

text \<open>The targets with competing heads, and these heads.\<close>

definition contested :: "string list dict \<Rightarrow> string list" where
  "contested rb = concat (map (\<lambda>(t, hs). if 1 < length hs then t # hs else []) rb)"

subsection \<open>The search for cycles\<close>

text \<open>The notes being visited, those visited, and those found on a cycle. The recursion has a fuel.\<close>

type_synonym visit_state = "string list \<times> string list \<times> string list"

primrec visit :: "nat \<Rightarrow> temporal_env \<Rightarrow> string list dict \<Rightarrow> string list \<Rightarrow> string \<Rightarrow> visit_state \<Rightarrow> visit_state option" where
  "visit 0 env E trail p st = None"
| "visit (Suc n) env E trail p st =
     (case st of (visiting, visited, marks) \<Rightarrow>
       if p \<in> set visiting then Some (visiting, visited, marks @ drop (index_of p trail) trail)
       else if p \<in> set visited then Some st
       else map_option (\<lambda>(ing, ed, m). (remove1 p ing, p # ed, m))
         (foldO (\<lambda>t. visit n env E (trail @ [t]) t) (targets_of env E p) (p # visiting, visited, marks)))"

definition cycle_marks ::
  "nat \<Rightarrow> temporal_env \<Rightarrow> string list dict \<Rightarrow> string list \<Rightarrow> string list \<Rightarrow> string list option" where
  "cycle_marks n env E roots marks =
     map_option (\<lambda>(ing, ed, m). m) (foldO (\<lambda>p. visit n env E [p] p) roots ([], [], marks))"

subsection \<open>The statuses\<close>

definition settle :: "string list dict \<Rightarrow> string list \<Rightarrow> temporal_status dict \<Rightarrow> temporal_status dict" where
  "settle rb conf d =
     fold (\<lambda>p. AList.update p TS_CONFLICTED) conf
       (fold (\<lambda>(t, hs) e. if length hs = 1 \<and> t \<notin> set conf then AList.update t TS_HISTORICAL e else e) rb d)"

definition resolve_temporal_statuses ::
  "temporal_env \<Rightarrow> as_of \<Rightarrow> temporal_records \<Rightarrow> (pse_error + temporal_status dict) option" where
  "resolve_temporal_statuses env a recs = (case normalize_as_of env a of
       Inl x \<Rightarrow> Some (Inl x)
     | Inr b \<Rightarrow>
         let E = edge_dict env b recs;
             rb = reached_by env E (heads_of env b recs);
             statuses = map (\<lambda>(p, m). (p, if valid_at b m then TS_CURRENT else TS_HISTORICAL)) recs
         in map_option (\<lambda>conf. Inr (settle rb conf statuses))
              (cycle_marks (length recs + 1) env E (te_order env (active_paths b recs)) (contested rb)))"

definition includes_temporal_status :: "temporal_status \<Rightarrow> string \<Rightarrow> pse_error + bool" where
  "includes_temporal_status s view =
     bindE (normalize_temporal_view view) (\<lambda>v. Inr (v = TV_ALL \<or> status_str s = view_str v))"

end
