(* ===== verification/Temporal_Facts.thy ===== *)
theory Temporal_Facts
  imports Temporal
begin

text \<open>
  Facts on the resolution of temporal statuses: the queue computes reachability, the recorded heads of
  a note are the heads that reach it, and the search marks notes on cycles only, at least one when
  there is a cycle.
\<close>

subsection \<open>The graph\<close>

text \<open>Iterating over a set yields every element once.\<close>

definition fair_order :: "temporal_env \<Rightarrow> bool" where
  "fair_order env = (\<forall>xs. distinct xs \<longrightarrow> distinct (te_order env xs) \<and> set (te_order env xs) = set xs)"

lemma fair_orderD:
  "fair_order env \<Longrightarrow> distinct xs \<Longrightarrow> set (te_order env xs) = set xs"
  "fair_order env \<Longrightarrow> distinct xs \<Longrightarrow> distinct (te_order env xs)"
  unfolding fair_order_def by blast+

definition supersession :: "date \<Rightarrow> temporal_records \<Rightarrow> (string \<times> string) set" where
  "supersession b recs = {(u, v). u \<in> set (active_paths b recs) \<and> v \<in> set (supersedes_of recs u)}"

lemma distinct_supersedes [simp]: "distinct (supersedes_of recs p)"
  by (simp add: supersedes_of_def split: option.split)

lemma distinct_active: "dict_wf recs \<Longrightarrow> distinct (active_paths b recs)"
  by (simp add: active_paths_def distinct_map_filter)

definition graph_rel :: "string list dict \<Rightarrow> (string \<times> string) set" where
  "graph_rel E = {(u, v). v \<in> set (case map_of E u of None \<Rightarrow> [] | Some ts \<Rightarrow> ts)}"

definition set_valued :: "string list dict \<Rightarrow> bool" where
  "set_valued E = (\<forall>u ts. map_of E u = Some ts \<longrightarrow> distinct ts)"

lemma map_of_edge_dict:
  assumes "fair_order env" "dict_wf recs"
  shows "map_of (edge_dict env b recs) p =
    (if p \<in> set (active_paths b recs) \<and> supersedes_of recs p \<noteq> [] then Some (supersedes_of recs p) else None)"
proof -
  have "map_of (filter (\<lambda>(p, ts). ts \<noteq> []) (map (\<lambda>p. (p, f p)) xs)) p =
      (if p \<in> set xs \<and> f p \<noteq> [] then Some (f p) else None)" for f :: "string \<Rightarrow> string list" and xs
    by (induction xs) auto
  moreover have "set (te_order env (active_paths b recs)) = set (active_paths b recs)"
    by (rule fair_orderD(1) [OF assms(1) distinct_active [OF assms(2)]])
  ultimately show ?thesis by (simp add: edge_dict_def)
qed

lemma edge_dict_rel:
  assumes "fair_order env" "dict_wf recs"
  shows "graph_rel (edge_dict env b recs) = supersession b recs" "set_valued (edge_dict env b recs)"
  unfolding graph_rel_def supersession_def set_valued_def map_of_edge_dict [OF assms]
  by (auto split: if_splits)

lemma graph_rel_image: "graph_rel E `` {p} = set (case map_of E p of None \<Rightarrow> [] | Some ts \<Rightarrow> ts)"
  by (simp add: graph_rel_def Image_def)

lemma targets_set:
  assumes "fair_order env" "set_valued E"
  shows "set (targets_of env E p) = graph_rel E `` {p}"
proof (cases "map_of E p")
  case (Some ts)
  then have "distinct ts" using assms(2) unfolding set_valued_def by blast
  then have "set (te_order env ts) = set ts" by (rule fair_orderD(1) [OF assms(1)])
  then show ?thesis using Some by (simp add: targets_of_def graph_rel_image)
qed (simp add: targets_of_def graph_rel_image)

subsection \<open>Reachability\<close>

lemma cover_by: "T \<subseteq> S \<Longrightarrow> t \<in> S \<Longrightarrow> A \<subseteq> B \<union> {t} \<union> (Q \<union> T) \<Longrightarrow> A \<subseteq> B \<union> (S \<union> Q)"
  by blast

lemma reach_correct:
  assumes "fair_order env" "set_valued E"
    and "graph_rel E `` set seen \<subseteq> set seen \<union> set q"
  shows "set seen \<union> set q \<subseteq> set (reach env E q seen)
    \<and> graph_rel E `` set (reach env E q seen) \<subseteq> set (reach env E q seen)
    \<and> set (reach env E q seen) \<subseteq> set seen \<union> (graph_rel E)\<^sup>* `` set q"
  using assms
proof (induction env E q seen rule: reach.induct)
  case (2 env E t q seen)
  show ?case
  proof (cases "t \<in> set seen")
    case True
    then have "graph_rel E `` set seen \<subseteq> set seen \<union> set q" using 2(5) by auto
    then show ?thesis using 2(1) [OF True 2(3,4)] True by auto
  next
    case False
    note targets = targets_set [OF 2(3,4), of t]
    have "graph_rel E `` set (seen @ [t]) \<subseteq> set (seen @ [t]) \<union> set (q @ targets_of env E t)"
      using 2(5) targets by auto
    then have IH: "set (seen @ [t]) \<union> set (q @ targets_of env E t) \<subseteq> set (reach env E (t # q) seen)"
      "graph_rel E `` set (reach env E (t # q) seen) \<subseteq> set (reach env E (t # q) seen)"
      "set (reach env E (t # q) seen) \<subseteq> set (seen @ [t]) \<union> (graph_rel E)\<^sup>* `` set (q @ targets_of env E t)"
      using 2(2) [OF False 2(3,4)] False by simp_all
    have "(graph_rel E)\<^sup>* `` set (targets_of env E t) \<subseteq> (graph_rel E)\<^sup>* `` {t}"
      unfolding targets by (blast intro: converse_rtrancl_into_rtrancl)
    moreover have "t \<in> (graph_rel E)\<^sup>* `` {t}" by simp
    moreover have "set (reach env E (t # q) seen) \<subseteq> set seen \<union> {t} \<union>
        ((graph_rel E)\<^sup>* `` set q \<union> (graph_rel E)\<^sup>* `` set (targets_of env E t))"
      using IH(3) unfolding set_append Image_Un list.set .
    ultimately have cover: "set (reach env E (t # q) seen) \<subseteq>
        set seen \<union> ((graph_rel E)\<^sup>* `` {t} \<union> (graph_rel E)\<^sup>* `` set q)"
      by (rule cover_by)
    have "set (t # q) = {t} \<union> set q" by simp
    then have "set (reach env E (t # q) seen) \<subseteq> set seen \<union> (graph_rel E)\<^sup>* `` set (t # q)"
      using cover by (simp only: Image_Un)
    then show ?thesis using IH(1,2) by auto
  qed
qed auto

lemma closed_rtrancl: "R `` A \<subseteq> A \<Longrightarrow> R\<^sup>* `` A \<subseteq> A"
  using Image_closed_trancl [of R A] by simp

lemma reach_targets:
  assumes "fair_order env" "set_valued E"
  shows "set (reach env E (targets_of env E h) []) = (graph_rel E)\<^sup>+ `` {h}"
proof -
  let ?R = "set (reach env E (targets_of env E h) [])"
  have r: "set (targets_of env E h) \<subseteq> ?R" "graph_rel E `` ?R \<subseteq> ?R"
    "?R \<subseteq> (graph_rel E)\<^sup>* `` set (targets_of env E h)"
    using reach_correct [OF assms, of "[]" "targets_of env E h"] by auto
  have "(graph_rel E)\<^sup>* `` set (targets_of env E h) \<subseteq> (graph_rel E)\<^sup>* `` ?R" using r(1) by blast
  also have "\<dots> \<subseteq> ?R" by (rule closed_rtrancl [OF r(2)])
  finally have "?R = (graph_rel E)\<^sup>* `` (graph_rel E `` {h})"
    using r(3) targets_set [OF assms, of h] by auto
  then show ?thesis by (auto simp: trancl_unfold_left relcomp_unfold Image_def)
qed

subsection \<open>The heads of a note\<close>

lemma holders_add:
  "holders (add_head h t d) t' =
     (if t' = t then (if h \<in> set (holders d t) then holders d t else holders d t @ [h]) else holders d t')"
  by (simp add: add_head_def holders_def update_conv')

lemma holders_fold:
  "holders (fold (add_head h) ts d) t =
     (if t \<in> set ts \<and> h \<notin> set (holders d t) then holders d t @ [h] else holders d t)"
  by (induction ts arbitrary: d) (auto simp: holders_add)

lemma dict_wf_add_head: "dict_wf d \<Longrightarrow> dict_wf (fold (add_head h) ts d)"
  by (induction ts arbitrary: d) (simp_all add: add_head_def)

lemma present_add: "\<forall>t. map_of d t \<noteq> Some [] \<Longrightarrow> \<forall>t. map_of (add_head h u d) t \<noteq> Some []"
  by (auto simp: add_head_def update_conv' holders_def split: option.splits)

lemma present_fold:
  "\<forall>t. map_of d t \<noteq> Some [] \<Longrightarrow> \<forall>t. map_of (fold (add_head h) ts d) t \<noteq> Some []"
  by (induction ts arbitrary: d) (simp_all add: present_add)

lemma reached_by_holders:
  assumes "fair_order env" "set_valued E" "distinct hs"
  shows "holders (reached_by env E hs) t = filter (\<lambda>h. (h, t) \<in> (graph_rel E)\<^sup>+) hs
    \<and> dict_wf (reached_by env E hs) \<and> (\<forall>t. map_of (reached_by env E hs) t \<noteq> Some [])"
  using assms(3)
proof (induction hs arbitrary: t rule: rev_induct)
  case Nil
  show ?case by (simp add: reached_by_def holders_def)
next
  case (snoc h hs)
  have step: "reached_by env E (hs @ [h]) = fold (add_head h) (reach env E (targets_of env E h) []) (reached_by env E hs)"
    by (simp add: reached_by_def)
  have IH: "holders (reached_by env E hs) t = filter (\<lambda>h. (h, t) \<in> (graph_rel E)\<^sup>+) hs"
    "dict_wf (reached_by env E hs)" "\<forall>t. map_of (reached_by env E hs) t \<noteq> Some []"
    using snoc by simp_all
  show ?case
    using IH(1) reach_targets [OF assms(1,2), of h] snoc.prems dict_wf_add_head [OF IH(2)] present_fold [OF IH(3)]
    unfolding step by (simp add: holders_fold)
qed

subsection \<open>The search for cycles\<close>

text \<open>What a call keeps: the notes being visited, and growing lists of visited and marked notes.\<close>

definition grows :: "visit_state \<Rightarrow> visit_state \<Rightarrow> bool" where
  "grows st st' = (fst st' = fst st \<and> set (fst (snd st)) \<subseteq> set (fst (snd st')) \<and> (\<exists>m. snd (snd st') = snd (snd st) @ m))"

lemma grows_refl [simp]: "grows st st"
  by (simp add: grows_def)

lemma grows_trans: "grows a b \<Longrightarrow> grows b c \<Longrightarrow> grows a c"
  by (auto simp: grows_def)

lemma grows_same:
  assumes "grows a b" "grows b c" "snd (snd c) = snd (snd a)"
  shows "snd (snd b) = snd (snd a) \<and> snd (snd c) = snd (snd b)"
proof -
  obtain m where m: "snd (snd b) = snd (snd a) @ m" using assms(1) by (auto simp: grows_def)
  obtain k where k: "snd (snd c) = snd (snd b) @ k" using assms(2) by (auto simp: grows_def)
  have "snd (snd a) @ m @ k = snd (snd a)" using assms(3) unfolding k m by simp
  then show ?thesis using m k by simp
qed

lemma grows_pop:
  assumes "grows (p # ing, ed, m) t"
  shows "grows (ing, ed, m) (case t of (ing, ed, m) \<Rightarrow> (remove1 p ing, p # ed, m))"
  using assms by (cases t) (auto simp: grows_def)

lemma visit_grows: "visit n env E trail p st = Some st' \<Longrightarrow> grows st st'"
proof (induction n arbitrary: trail p st st')
  case (Suc n)
  obtain ing ed m where st: "st = (ing, ed, m)" by (cases st)
  show ?case
  proof (cases "p \<in> set ing \<or> p \<in> set ed")
    case True
    then show ?thesis using Suc.prems by (auto simp: st grows_def split: if_splits)
  next
    case False
    then obtain t where t: "foldO (\<lambda>x. visit n env E (trail @ [x]) x) (targets_of env E p) (p # ing, ed, m) = Some t"
      "st' = (case t of (ing, ed, m) \<Rightarrow> (remove1 p ing, p # ed, m))"
      using Suc.prems by (auto simp: st)
    have "grows (p # ing, ed, m) t"
    proof (rule foldO_inv [OF t(1)])
      fix x u v assume "grows (p # ing, ed, m) u" "visit n env E (trail @ [x]) x u = Some v"
      then show "grows (p # ing, ed, m) v" by (rule grows_trans [OF _ Suc.IH])
    qed simp
    then show ?thesis unfolding t(2) st by (rule grows_pop)
  qed
qed simp

text \<open>Enough fuel: the notes being visited are pairwise different.\<close>

lemma visit_total:
  assumes "finite V" "graph_rel E \<subseteq> V \<times> V" "fair_order env" "set_valued E"
    and "p \<in> V" "card (V - set (fst st)) < n"
  shows "\<exists>st'. visit n env E trail p st = Some st'"
  using assms(5,6)
proof (induction n arbitrary: trail p st)
  case (Suc n)
  obtain ing ed m where st: "st = (ing, ed, m)" by (cases st)
  show ?case
  proof (cases "p \<in> set ing \<or> p \<in> set ed")
    case True
    then show ?thesis by (auto simp: st)
  next
    case False
    have "\<exists>t. foldO (\<lambda>x. visit n env E (trail @ [x]) x) (targets_of env E p) (p # ing, ed, m) = Some t
        \<and> fst t = p # ing"
    proof (rule foldO_total)
      fix x and u :: visit_state assume x: "x \<in> set (targets_of env E p)" and u: "fst u = p # ing"
      have "x \<in> V" using x targets_set [OF assms(3,4), of p] assms(2) by auto
      moreover have "card (V - set (p # ing)) < card (V - set ing)"
        using False Suc.prems(1) assms(1) by (intro psubset_card_mono) auto
      then have "card (V - set (fst u)) < n" using Suc.prems(2) u by (simp add: st)
      ultimately obtain v where v: "visit n env E (trail @ [x]) x u = Some v" using Suc.IH by blast
      then show "\<exists>v. visit n env E (trail @ [x]) x u = Some v \<and> fst v = p # ing"
        using visit_grows [OF v] u by (simp add: grows_def)
    qed simp
    then show ?thesis using False by (auto simp: st)
  qed
qed simp

text \<open>Marked notes lie on a cycle: the trail is a path, and the notes on it are those being visited.\<close>

lemma path_trancl:
  "successively (\<lambda>u v. (u, v) \<in> R) (x # xs @ [y]) \<Longrightarrow> (x, y) \<in> R\<^sup>+"
proof (induction xs arbitrary: x)
  case (Cons z zs)
  then show ?case by (auto intro: trancl_into_trancl2)
qed auto

lemma path_marks:
  assumes "successively (\<lambda>u v. (u, v) \<in> R) (ps @ [p])" "p \<in> set ps" "x \<in> set (drop (index_of p (ps @ [p])) (ps @ [p]))"
  shows "(x, x) \<in> R\<^sup>+"
proof -
  obtain as bs where ps: "ps = as @ p # bs" "p \<notin> set as" using assms(2) by (meson split_list_first)
  have "takeWhile (\<lambda>y. y \<noteq> p) (ps @ [p]) = as"
    unfolding ps(1) using ps(2) by (auto simp: takeWhile_append)
  then have drop: "drop (index_of p (ps @ [p])) (ps @ [p]) = p # bs @ [p]"
    by (simp add: index_of_def ps(1))
  have path: "successively (\<lambda>u v. (u, v) \<in> R) (p # bs @ [p])"
    using assms(1) unfolding ps(1) by (auto simp: successively_append_iff)
  then have cycle: "(p, p) \<in> R\<^sup>+" by (rule path_trancl)
  show ?thesis
  proof (cases "x = p")
    case False
    have "x \<in> set (p # bs @ [p])" using assms(3) unfolding drop .
    then obtain cs ds where bs: "bs = cs @ x # ds" using False by (auto dest: split_list)
    have "successively (\<lambda>u v. (u, v) \<in> R) (p # cs @ [x])" "successively (\<lambda>u v. (u, v) \<in> R) (x # ds @ [p])"
    proof -
      have "successively (\<lambda>u v. (u, v) \<in> R) ((p # cs @ [x]) @ (ds @ [p]))"
        "successively (\<lambda>u v. (u, v) \<in> R) ((p # cs) @ (x # ds @ [p]))" using path unfolding bs by simp_all
      then show "successively (\<lambda>u v. (u, v) \<in> R) (p # cs @ [x])" "successively (\<lambda>u v. (u, v) \<in> R) (x # ds @ [p])"
        unfolding successively_append_iff by blast+
    qed
    then have "(p, x) \<in> R\<^sup>+" "(x, p) \<in> R\<^sup>+"
      using path_trancl [of R p cs x] path_trancl [of R x ds p] by simp_all
    then show ?thesis by (rule trancl_trans [rotated])
  qed (use cycle in simp)
qed

lemma visit_sound:
  assumes "fair_order env" "set_valued E"
    and "visit n env E (ps @ [p]) p st = Some st'" "set (fst st) = set ps"
    and "successively (\<lambda>u v. (u, v) \<in> graph_rel E) (ps @ [p])"
  shows "\<exists>k. snd (snd st') = snd (snd st) @ k \<and> set k \<subseteq> {x. (x, x) \<in> (graph_rel E)\<^sup>+}"
  using assms(3-5)
proof (induction n arbitrary: ps p st st')
  case (Suc n)
  obtain ing ed m where st: "st = (ing, ed, m)" by (cases st)
  consider "p \<in> set ing" | "p \<notin> set ing" "p \<in> set ed" | "p \<notin> set ing" "p \<notin> set ed" by blast
  then show ?case
  proof cases
    case 1
    then show ?thesis using Suc.prems path_marks [of "graph_rel E" ps p] by (auto simp: st)
  next
    case 2
    then show ?thesis using Suc.prems by (auto simp: st)
  next
    case 3
    then obtain t where t: "foldO (\<lambda>x. visit n env E ((ps @ [p]) @ [x]) x) (targets_of env E p) (p # ing, ed, m) = Some t"
      "snd (snd st') = snd (snd t)"
      using Suc.prems(1) by (auto simp: st)
    let ?P = "\<lambda>u. fst u = p # ing \<and> (\<exists>k. snd (snd u) = m @ k \<and> set k \<subseteq> {x. (x, x) \<in> (graph_rel E)\<^sup>+})"
    have "?P t"
    proof (rule foldO_inv [OF t(1)])
      fix x u v
      assume x: "x \<in> set (targets_of env E p)" and P: "?P u" and v: "visit n env E ((ps @ [p]) @ [x]) x u = Some v"
      have "successively (\<lambda>u v. (u, v) \<in> graph_rel E) ((ps @ [p]) @ [x])"
        using Suc.prems(3) x targets_set [OF assms(1,2), of p] by (auto simp: successively_append_iff)
      then obtain k where k: "snd (snd v) = snd (snd u) @ k" "set k \<subseteq> {x. (x, x) \<in> (graph_rel E)\<^sup>+}"
        using Suc.IH [OF v] P Suc.prems(2) by (auto simp: st)
      obtain j where j: "snd (snd u) = m @ j" "set j \<subseteq> {x. (x, x) \<in> (graph_rel E)\<^sup>+}" using P by blast
      have "snd (snd v) = m @ j @ k \<and> set (j @ k) \<subseteq> {x. (x, x) \<in> (graph_rel E)\<^sup>+}" using k j by simp
      moreover have "fst v = p # ing" using P visit_grows [OF v] by (simp add: grows_def)
      ultimately show "?P v" by (intro conjI exI [of _ "j @ k"]) simp_all
    qed simp
    then show ?thesis using t(2) by (simp add: st)
  qed
qed simp

text \<open>Without a new mark, the visited notes are closed under the edges and without a cycle.\<close>

definition settled :: "(string \<times> string) set \<Rightarrow> visit_state \<Rightarrow> bool" where
  "settled R st = (set (fst (snd st)) \<inter> set (fst st) = {} \<and> R `` set (fst (snd st)) \<subseteq> set (fst (snd st))
     \<and> acyclic (R \<inter> set (fst (snd st)) \<times> set (fst (snd st))))"

lemma visit_complete:
  assumes "fair_order env" "set_valued E"
    and "visit n env E trail p st = Some st'" "index_of p trail < length trail"
    and "settled (graph_rel E) st" "snd (snd st') = snd (snd st)"
  shows "settled (graph_rel E) st' \<and> p \<in> set (fst (snd st'))"
  using assms(3-6)
proof (induction n arbitrary: trail p st st')
  case (Suc n)
  obtain ing ed m where st: "st = (ing, ed, m)" by (cases st)
  consider "p \<in> set ing" | "p \<notin> set ing" "p \<in> set ed" | "p \<notin> set ing" "p \<notin> set ed" by blast
  then show ?case
  proof cases
    case 1
    then show ?thesis using Suc.prems by (auto simp: st)
  next
    case 2
    then show ?thesis using Suc.prems by (auto simp: st)
  next
    case 3
    then obtain t where t: "foldO (\<lambda>x. visit n env E (trail @ [x]) x) (targets_of env E p) (p # ing, ed, m) = Some t"
      "st' = (case t of (ing, ed, m) \<Rightarrow> (remove1 p ing, p # ed, m))"
      using Suc.prems(1) by (auto simp: st)
    have loop: "foldO (\<lambda>x. visit n env E (trail @ [x]) x) xs u = Some v \<Longrightarrow> settled (graph_rel E) u \<Longrightarrow>
        snd (snd v) = snd (snd u) \<Longrightarrow> grows u v \<and> settled (graph_rel E) v \<and> set xs \<subseteq> set (fst (snd v))" for xs u v
    proof (induction xs arbitrary: u)
      case (Cons x xs)
      then obtain w where w: "visit n env E (trail @ [x]) x u = Some w"
        "foldO (\<lambda>x. visit n env E (trail @ [x]) x) xs w = Some v" by (auto split: option.splits)
      have gw: "grows u w" by (rule visit_grows [OF w(1)])
      have gv: "grows w v" by (rule foldO_inv [OF w(2)]) (auto intro: grows_trans dest: visit_grows)
      have same: "snd (snd w) = snd (snd u)" "snd (snd v) = snd (snd w)"
        using grows_same [OF gw gv Cons.prems(3)] by simp_all
      have "index_of x (trail @ [x]) < length (trail @ [x])" using index_of_less [of x "trail @ [x]"] by simp
      then have "settled (graph_rel E) w" "x \<in> set (fst (snd w))"
        using Suc.IH [OF w(1) _ Cons.prems(2) same(1)] by auto
      then show ?case using Cons.IH [OF w(2) _ same(2)] grows_trans [OF gw gv] gv by (auto simp: grows_def)
    qed simp
    have "settled (graph_rel E) (p # ing, ed, m)" using Suc.prems(3) 3 by (simp add: st settled_def)
    then have L: "grows (p # ing, ed, m) t" "settled (graph_rel E) t" "set (targets_of env E p) \<subseteq> set (fst (snd t))"
      using loop [OF t(1)] Suc.prems(4) t(2) by (auto simp: st split: prod.splits)
    obtain ed2 m2 where t2: "t = (p # ing, ed2, m2)" using L(1) by (cases t) (auto simp: grows_def)
    have new: "p \<notin> set ed2" using L(2) by (auto simp: t2 settled_def)
    have into: "graph_rel E `` {p} \<subseteq> set ed2" using L(3) targets_set [OF assms(1,2), of p] by (simp add: t2)
    have "acyclic (graph_rel E \<inter> insert p (set ed2) \<times> insert p (set ed2))"
      by (rule acyclic_insert_source [OF _ _ new into]) (use L(2) in \<open>simp_all add: t2 settled_def\<close>)
    moreover have "graph_rel E `` insert p (set ed2) \<subseteq> insert p (set ed2)"
    proof -
      have "graph_rel E `` insert p (set ed2) = graph_rel E `` {p} \<union> graph_rel E `` set ed2" by blast
      also have "\<dots> \<subseteq> set ed2" using into L(2) by (simp add: t2 settled_def)
      finally show ?thesis by blast
    qed
    moreover have "insert p (set ed2) \<inter> set ing = {}" using L(2) 3(1) by (auto simp: t2 settled_def)
    ultimately show ?thesis by (simp add: t(2) t2 settled_def)
  qed
qed simp

text \<open>All the notes of the loop over the active ones.\<close>

lemma cycle_marks_correct:
  assumes "fair_order env" "set_valued E" "finite V" "graph_rel E \<subseteq> V \<times> V" "set roots \<subseteq> V" "card V < n"
    and "\<And>u v. (u, v) \<in> graph_rel E \<Longrightarrow> u \<in> set roots"
  obtains ms where "cycle_marks n env E roots marks = Some (marks @ ms)"
    "set ms \<subseteq> {x. (x, x) \<in> (graph_rel E)\<^sup>+}" "ms = [] \<Longrightarrow> acyclic (graph_rel E)"
proof -
  let ?f = "\<lambda>p. visit n env E [p] p" and ?s = "([], [], marks) :: visit_state"
  have total: "\<exists>st. foldO ?f xs st0 = Some st \<and> fst st = []" if "set xs \<subseteq> V" "fst st0 = []" for xs st0
    using that(2)
  proof (rule foldO_total)
    fix p and st :: visit_state assume "p \<in> set xs" "fst st = []"
    then have "\<exists>st'. ?f p st = Some st'"
      using that(1) assms(3-6) by (intro visit_total [OF assms(3,4,1,2)]) auto
    then show "\<exists>st'. ?f p st = Some st' \<and> fst st' = []" using visit_grows \<open>fst st = []\<close> by (fastforce simp: grows_def)
  qed
  then obtain st where st: "foldO ?f roots ?s = Some st" using assms(5) by fastforce
  have grow: "foldO ?f xs a = Some b \<Longrightarrow> grows a b" for xs a b
    by (rule foldO_inv [of ?f xs a b "grows a"]) (auto intro: grows_trans dest: visit_grows)
  let ?P = "\<lambda>u. fst u = [] \<and> (\<exists>k. snd (snd u) = marks @ k \<and> set k \<subseteq> {x. (x, x) \<in> (graph_rel E)\<^sup>+})"
  have "?P st"
  proof (rule foldO_inv [OF st])
    fix p u v
    assume u: "?P u" and v: "?f p u = Some v"
    have "visit n env E ([] @ [p]) p u = Some v" using v by simp
    then obtain k where k: "snd (snd v) = snd (snd u) @ k" "set k \<subseteq> {x. (x, x) \<in> (graph_rel E)\<^sup>+}"
      using visit_sound [OF assms(1,2), of n "[]" p u v] u by auto
    obtain j where j: "snd (snd u) = marks @ j" "set j \<subseteq> {x. (x, x) \<in> (graph_rel E)\<^sup>+}" using u by blast
    have "snd (snd v) = marks @ j @ k \<and> set (j @ k) \<subseteq> {x. (x, x) \<in> (graph_rel E)\<^sup>+}" using k j by simp
    moreover have "fst v = []" using u visit_grows [OF v] by (simp add: grows_def)
    ultimately show "?P v" by (intro conjI exI [of _ "j @ k"]) simp_all
  qed simp
  then obtain ms where ms: "snd (snd st) = marks @ ms" and sound: "set ms \<subseteq> {x. (x, x) \<in> (graph_rel E)\<^sup>+}"
    by blast
  have complete: "foldO ?f xs a = Some b \<Longrightarrow> settled (graph_rel E) a \<Longrightarrow> snd (snd b) = snd (snd a) \<Longrightarrow>
      settled (graph_rel E) b \<and> set xs \<subseteq> set (fst (snd b))" for xs a b
  proof (induction xs arbitrary: a)
    case (Cons p xs)
    then obtain c where c: "?f p a = Some c" "foldO ?f xs c = Some b" by (auto split: option.splits)
    note same = grows_same [OF visit_grows [OF c(1)] grow [OF c(2)] Cons.prems(3)]
    have "settled (graph_rel E) c \<and> p \<in> set (fst (snd c))"
      by (rule visit_complete [OF assms(1,2) c(1)]) (use Cons.prems(2) same in \<open>simp_all add: index_of_def\<close>)
    then show ?case using Cons.IH [OF c(2)] same grow [OF c(2)] by (auto simp: grows_def)
  qed simp
  have "acyclic (graph_rel E)" if "ms = []"
  proof -
    have start: "settled (graph_rel E) ?s" by (simp add: settled_def acyclic_def)
    have "settled (graph_rel E) st \<and> set roots \<subseteq> set (fst (snd st))"
      by (rule complete [OF st start]) (simp add: ms that)
    moreover from this have "graph_rel E \<subseteq> set (fst (snd st)) \<times> set (fst (snd st))"
    proof (intro subrelI SigmaI)
      fix u v assume uv: "(u, v) \<in> graph_rel E"
      show u: "u \<in> set (fst (snd st))" using assms(7) [OF uv] \<open>_ \<and> set roots \<subseteq> _\<close> by blast
      show "v \<in> set (fst (snd st))" using ImageI [OF uv u] \<open>_ \<and> set roots \<subseteq> _\<close> unfolding settled_def by blast
    qed
    then have "graph_rel E \<inter> set (fst (snd st)) \<times> set (fst (snd st)) = graph_rel E" by (rule Int_absorb2)
    ultimately show ?thesis by (simp add: settled_def)
  qed
  moreover have "cycle_marks n env E roots marks = Some (marks @ ms)"
    using st ms by (cases st) (simp add: cycle_marks_def)
  ultimately show thesis using that sound by blast
qed

subsection \<open>The statuses\<close>

lemma map_of_update_conf:
  "map_of (fold (\<lambda>p. AList.update p c) ps d) q = (if q \<in> set ps then Some c else map_of d q)"
  by (induction ps arbitrary: d) (auto simp: update_conv')

lemma map_of_update_hist:
  "map_of (fold (\<lambda>(t, hs) e. if Q t hs then AList.update t c e else e) rb d) q =
     (if \<exists>hs. (q, hs) \<in> set rb \<and> Q q hs then Some c else map_of d q)"
  by (induction rb arbitrary: d) (auto simp: update_conv')

lemma map_of_settle:
  assumes "dict_wf rb"
  shows "map_of (settle rb conf d) q =
    (if q \<in> set conf then Some TS_CONFLICTED
     else if length (holders rb q) = 1 then Some TS_HISTORICAL else map_of d q)"
proof -
  have "(\<exists>hs. (q, hs) \<in> set rb \<and> length hs = 1) \<longleftrightarrow> length (holders rb q) = 1"
  proof -
    have "(q, hs) \<in> set rb \<longleftrightarrow> map_of rb q = Some hs" for hs using assms by simp
    then show ?thesis by (auto simp: holders_def split: option.split)
  qed
  then show ?thesis by (simp add: settle_def map_of_update_conf map_of_update_hist)
qed

lemma keys_settle:
  assumes "set (map fst rb) \<union> set conf \<subseteq> set (map fst d)"
  shows "map fst (settle rb conf d) = map fst d"
proof -
  have keys: "p \<in> fst ` set e \<Longrightarrow> map fst (AList.update p c e) = map fst e" for p and c :: temporal_status and e
    by (simp add: update_keys)
  have dom: "p \<in> fst ` set e \<Longrightarrow> fst ` set (AList.update p c e) = fst ` set e" for p and c :: temporal_status and e
    by (auto simp: dom_update)
  have "set (map fst rb) \<subseteq> set (map fst e) \<Longrightarrow>
      map fst (fold (\<lambda>(t, hs) e. if length hs = 1 \<and> t \<notin> set conf then AList.update t TS_HISTORICAL e else e) rb e) = map fst e" for e
  proof (induction rb arbitrary: e)
    case (Cons a rb)
    obtain t hs where a: "a = (t, hs)" by force
    show ?case
      using Cons.IH [of e] Cons.IH [of "AList.update t TS_HISTORICAL e"] Cons.prems
        keys [of t e TS_HISTORICAL] dom [of t e TS_HISTORICAL] by (simp add: a)
  qed simp
  moreover have "set conf \<subseteq> set (map fst e) \<Longrightarrow> map fst (fold (\<lambda>p. AList.update p TS_CONFLICTED) conf e) = map fst e" for e
    by (induction conf arbitrary: e) (auto simp: keys dom)
  moreover have "map fst a = map fst b \<Longrightarrow> set conf \<subseteq> fst ` set b \<Longrightarrow> set conf \<subseteq> fst ` set a" for a b :: "temporal_status dict"
    by (metis list.set_map)
  ultimately show ?thesis using assms unfolding settle_def by simp
qed

lemma set_contested:
  assumes "dict_wf rb"
  shows "set (contested rb) = {t. 1 < length (holders rb t)} \<union> {h. \<exists>t. 1 < length (holders rb t) \<and> h \<in> set (holders rb t)}"
proof -
  have mem: "(t, hs) \<in> set rb \<longleftrightarrow> map_of rb t = Some hs" for t hs using assms by simp
  have "x \<in> set (contested rb) \<longleftrightarrow> (\<exists>t hs. (t, hs) \<in> set rb \<and> 1 < length hs \<and> (x = t \<or> x \<in> set hs))" for x
  proof -
    have "x \<in> set (contested rb) \<longleftrightarrow> (\<exists>a \<in> set rb. 1 < length (snd a) \<and> (x = fst a \<or> x \<in> set (snd a)))"
      unfolding contested_def by (induction rb) (auto split: prod.split)
    then show ?thesis by force
  qed
  then have member: "x \<in> set (contested rb) \<longleftrightarrow>
      (\<exists>t hs. map_of rb t = Some hs \<and> 1 < length hs \<and> (x = t \<or> x \<in> set hs))" for x
    unfolding mem .
  have long: "1 < length (holders rb t) \<Longrightarrow> map_of rb t = Some (holders rb t)" for t
    by (simp add: holders_def split: option.splits)
  have same: "map_of rb t = Some hs \<Longrightarrow> holders rb t = hs" for t hs by (simp add: holders_def)
  show ?thesis
  proof (intro set_eqI iffI)
    fix x assume "x \<in> set (contested rb)"
    then obtain t hs where "map_of rb t = Some hs" "1 < length hs" "x = t \<or> x \<in> set hs" unfolding member by blast
    then show "x \<in> {t. 1 < length (holders rb t)} \<union> {h. \<exists>t. 1 < length (holders rb t) \<and> h \<in> set (holders rb t)}"
      using same by auto
  next
    fix x assume "x \<in> {t. 1 < length (holders rb t)} \<union> {h. \<exists>t. 1 < length (holders rb t) \<and> h \<in> set (holders rb t)}"
    then obtain t where "1 < length (holders rb t)" "x = t \<or> x \<in> set (holders rb t)" by auto
    then show "x \<in> set (contested rb)" unfolding member using long by blast
  qed
qed

end
