(* ===== verification/Temporal_Properties.thy ===== *)
theory Temporal_Properties
  imports Temporal_Facts
begin

text \<open>
  What the resolution of temporal statuses computes: the statuses of a reference definition over the
  graph of supersession, as long as the graph has no cycle; with a cycle the result depends on the
  order in which Python iterates over its sets.
\<close>

subsection \<open>The reference definition\<close>

text \<open>The current heads, those that supersede a note directly or through others, and the disputes.\<close>

definition head_notes :: "date \<Rightarrow> temporal_records \<Rightarrow> string set" where
  "head_notes b recs = set (active_paths b recs) - Range (supersession b recs)"

definition claimants :: "date \<Rightarrow> temporal_records \<Rightarrow> string \<Rightarrow> string set" where
  "claimants b recs p = {h \<in> head_notes b recs. (h, p) \<in> (supersession b recs)\<^sup>+}"

definition disputed :: "date \<Rightarrow> temporal_records \<Rightarrow> string \<Rightarrow> bool" where
  "disputed b recs p = (\<exists>t. 1 < card (claimants b recs t) \<and> (p = t \<or> p \<in> claimants b recs t))"

definition status_spec :: "date \<Rightarrow> temporal_records \<Rightarrow> string set \<Rightarrow> string \<Rightarrow> temporal_status" where
  "status_spec b recs cyclic p =
     (if p \<in> cyclic \<or> disputed b recs p then TS_CONFLICTED
      else if card (claimants b recs p) = 1 then TS_HISTORICAL
      else if p \<in> set (active_paths b recs) then TS_CURRENT else TS_HISTORICAL)"

lemma range_supersession:
  assumes "fair_order env" "dict_wf recs"
  shows "set (incoming (edge_dict env b recs)) = Range (supersession b recs)"
proof -
  have wf: "dict_wf (edge_dict env b recs)"
    using fair_orderD(2) [OF assms(1) distinct_active [OF assms(2)]]
    by (simp add: edge_dict_def distinct_map_filter comp_def)
  have "set (incoming E) = Range (graph_rel E)" if "dict_wf E" for E
  proof -
    have mem: "(u, ts) \<in> set E \<longleftrightarrow> map_of E u = Some ts" for u ts using that by simp
    have "x \<in> set (incoming E) \<longleftrightarrow> (\<exists>u ts. (u, ts) \<in> set E \<and> x \<in> set ts)" for x
      by (force simp: incoming_def)
    moreover have "x \<in> Range (graph_rel E) \<longleftrightarrow> (\<exists>u ts. map_of E u = Some ts \<and> x \<in> set ts)" for x
    proof -
      have "(u, x) \<in> graph_rel E \<longleftrightarrow> (\<exists>ts. map_of E u = Some ts \<and> x \<in> set ts)" for u
        by (cases "map_of E u") (simp_all add: graph_rel_def)
      then show ?thesis by blast
    qed
    ultimately show ?thesis unfolding mem by blast
  qed
  then show ?thesis using wf edge_dict_rel(1) [OF assms] by metis
qed

lemma heads_are_head_notes:
  assumes "fair_order env" "dict_wf recs"
  shows "set (heads_of env b recs) = head_notes b recs" "distinct (heads_of env b recs)"
proof -
  have d: "distinct (filter (\<lambda>p. p \<notin> set (incoming (edge_dict env b recs))) (active_paths b recs))"
    using distinct_active [OF assms(2)] by simp
  show "distinct (heads_of env b recs)" unfolding heads_of_def by (rule fair_orderD(2) [OF assms(1) d])
  show "set (heads_of env b recs) = head_notes b recs"
    using fair_orderD(1) [OF assms(1) d]
    unfolding heads_of_def head_notes_def range_supersession [OF assms] by auto
qed

lemma supersession_nodes: "supersession b recs \<subseteq> fst ` set recs \<times> fst ` set recs"
proof -
  have "active_paths b recs = map fst (filter (\<lambda>(p, m). valid_at b m) recs)" by (simp add: active_paths_def)
  moreover have "v \<in> set (supersedes_of recs u) \<Longrightarrow> v \<in> fst ` set recs" for u v
    by (auto simp: supersedes_of_def split: option.splits) (metis fst_conv image_eqI map_of_SomeD)
  ultimately show ?thesis by (auto simp: supersession_def intro: rev_image_eqI)
qed

text \<open>The heads that the loop records for a note are its claimants; the disputed notes.\<close>

definition recorded :: "temporal_env \<Rightarrow> date \<Rightarrow> temporal_records \<Rightarrow> string list dict" where
  "recorded env b recs = reached_by env (edge_dict env b recs) (heads_of env b recs)"

lemma recorded_claimants:
  assumes "fair_order env" "dict_wf recs"
  shows "dict_wf (recorded env b recs)" "map_of (recorded env b recs) t \<noteq> Some []"
    "set (holders (recorded env b recs) t) = claimants b recs t"
    "length (holders (recorded env b recs) t) = card (claimants b recs t)"
    "set (contested (recorded env b recs)) = {p. disputed b recs p}"
proof -
  note rel = edge_dict_rel [OF assms, of b] and heads = heads_are_head_notes [OF assms, of b]
  have rb: "holders (recorded env b recs) t = filter (\<lambda>h. (h, t) \<in> (supersession b recs)\<^sup>+) (heads_of env b recs)"
      "dict_wf (recorded env b recs)" "map_of (recorded env b recs) t \<noteq> Some []" for t
    using reached_by_holders [OF assms(1) rel(2) heads(2)] unfolding recorded_def rel(1) by simp_all
  have set: "set (holders (recorded env b recs) t) = claimants b recs t" for t
    by (auto simp: rb(1) claimants_def heads(1))
  moreover have "distinct (holders (recorded env b recs) t)" for t using heads(2) by (simp add: rb(1))
  ultimately have len: "length (holders (recorded env b recs) t) = card (claimants b recs t)" for t
    by (metis distinct_card)
  show "dict_wf (recorded env b recs)" "map_of (recorded env b recs) t \<noteq> Some []"
    "set (holders (recorded env b recs) t) = claimants b recs t"
    "length (holders (recorded env b recs) t) = card (claimants b recs t)"
    by (fact rb set len)+
  show "set (contested (recorded env b recs)) = {p. disputed b recs p}"
    unfolding set_contested [OF rb(2)] set len disputed_def by auto
qed

lemma resolution_marks:
  assumes "fair_order env" "dict_wf recs"
  obtains ms where "cycle_marks (length recs + 1) env (edge_dict env b recs) (te_order env (active_paths b recs)) marks =
      Some (marks @ ms)"
    "set ms \<subseteq> {x. (x, x) \<in> (supersession b recs)\<^sup>+}" "set ms = {} \<longleftrightarrow> acyclic (supersession b recs)"
proof -
  note rel = edge_dict_rel [OF assms, of b]
  have active: "set (te_order env (active_paths b recs)) = set (active_paths b recs)"
    by (rule fair_orderD(1) [OF assms(1) distinct_active [OF assms(2)]])
  have n: "card (fst ` set recs) < length recs + 1"
    by (metis card_length length_map list.set_map less_Suc_eq_le Suc_eq_plus1)
  have roots: "set (te_order env (active_paths b recs)) \<subseteq> fst ` set recs"
    unfolding active by (auto simp: active_paths_def)
  have source: "u \<in> set (te_order env (active_paths b recs))" if "(u, v) \<in> graph_rel (edge_dict env b recs)" for u v
    using that unfolding active rel(1) by (simp add: supersession_def)
  have nodes: "graph_rel (edge_dict env b recs) \<subseteq> fst ` set recs \<times> fst ` set recs"
    unfolding rel(1) by (rule supersession_nodes)
  obtain ms where ms: "cycle_marks (length recs + 1) env (edge_dict env b recs)
      (te_order env (active_paths b recs)) marks = Some (marks @ ms)"
    "set ms \<subseteq> {x. (x, x) \<in> (supersession b recs)\<^sup>+}" "ms = [] \<Longrightarrow> acyclic (supersession b recs)"
    by (rule cycle_marks_correct [where marks = marks, OF assms(1) rel(2) _ nodes roots n source,
          unfolded rel(1)]) simp_all
  show thesis by (rule that [OF ms(1,2)]) (use ms(2,3) in \<open>auto simp: acyclic_def\<close>)
qed

text \<open>Every status that is written is the one of a known note.\<close>

lemma written_notes:
  assumes "fair_order env" "dict_wf recs" "set ms \<subseteq> {x. (x, x) \<in> (supersession b recs)\<^sup>+}"
  shows "set (map fst (recorded env b recs)) \<union> set (contested (recorded env b recs) @ ms) \<subseteq> fst ` set recs"
proof -
  note rec = recorded_claimants [OF assms(1,2), of b]
  have sub: "(supersession b recs)\<^sup>+ \<subseteq> fst ` set recs \<times> fst ` set recs"
    by (rule trancl_subset_Sigma [OF supersession_nodes])
  have "head_notes b recs \<subseteq> fst ` set recs" by (auto simp: head_notes_def active_paths_def)
  then have "claimants b recs t \<subseteq> fst ` set recs" "claimants b recs t \<noteq> {} \<Longrightarrow> t \<in> fst ` set recs" for t
    using sub by (auto simp: claimants_def)
  moreover have "1 < card (claimants b recs t) \<Longrightarrow> claimants b recs t \<noteq> {}" for t by force
  ultimately have "{p. disputed b recs p} \<subseteq> fst ` set recs" unfolding disputed_def by blast
  moreover have "fst ` set (recorded env b recs) \<subseteq> fst ` set recs"
  proof
    fix t assume "t \<in> fst ` set (recorded env b recs)"
    then obtain hs where "map_of (recorded env b recs) t = Some hs"
      using rec(1) by (metis imageE map_of_eq_None_iff not_Some_eq)
    then have "claimants b recs t \<noteq> {}" using rec(2) [of t] rec(3) [of t] by (auto simp: holders_def)
    then show "t \<in> fst ` set recs" using sub by (auto simp: claimants_def)
  qed
  moreover have "set ms \<subseteq> fst ` set recs" using assms(3) sub by blast
  ultimately show ?thesis unfolding set_append rec(5) by simp
qed

text \<open>
  C20. The statuses are those of the reference definition. A note is in conflict when it is marked as
  part of a cycle of supersession, when two current heads supersede it, or when it is one of such
  heads; a note superseded by one head is historical; any other note has the status of its interval
  of validity. The marked notes lie on cycles, and there are none exactly when there is no cycle:
  then the result does not depend on the order of iteration.
\<close>

theorem statuses_follow_the_reference:
  assumes "fair_order env" and "dict_wf recs" and "normalize_as_of env a = Inr b"
  shows "\<exists>d M. resolve_temporal_statuses env a recs = Some (Inr d) \<and> map fst d = map fst recs
    \<and> M \<subseteq> {p. (p, p) \<in> (supersession b recs)\<^sup>+} \<and> (M = {} \<longleftrightarrow> acyclic (supersession b recs))
    \<and> (\<forall>p \<in> fst ` set recs. map_of d p = Some (status_spec b recs M p))"
proof -
  note rec = recorded_claimants [OF assms(1,2), of b]
  let ?rb = "recorded env b recs"
  let ?s0 = "map (\<lambda>(p, m). (p, if valid_at b m then TS_CURRENT else TS_HISTORICAL)) recs"
  obtain ms where ms: "cycle_marks (length recs + 1) env (edge_dict env b recs)
      (te_order env (active_paths b recs)) (contested ?rb) = Some (contested ?rb @ ms)"
    "set ms \<subseteq> {x. (x, x) \<in> (supersession b recs)\<^sup>+}" "set ms = {} \<longleftrightarrow> acyclic (supersession b recs)"
    using resolution_marks [OF assms(1,2)] .
  let ?d = "settle ?rb (contested ?rb @ ms) ?s0"
  have run: "resolve_temporal_statuses env a recs = Some (Inr ?d)"
    using ms(1) unfolding resolve_temporal_statuses_def assms(3) sum.case Let_def recorded_def by simp
  have keys: "map fst ?s0 = map fst recs" by (simp add: comp_def case_prod_beta)
  have "map_of ?d p = Some (status_spec b recs (set ms) p)" if "p \<in> fst ` set recs" for p
  proof -
    have "map_of ?s0 p = Some (if p \<in> set (active_paths b recs) then TS_CURRENT else TS_HISTORICAL)"
      using that assms(2) by (auto simp: active_paths_def map_of_map distinct_map_filter)
    then show ?thesis by (simp add: map_of_settle [OF rec(1)] status_spec_def rec(4,5))
  qed
  moreover have "map fst ?d = map fst recs"
    using keys_settle [of ?rb "contested ?rb @ ms" ?s0] written_notes [OF assms(1,2) ms(2)] keys
    by (metis list.set_map)
  ultimately show ?thesis using run ms(2,3) by blast
qed

subsection \<open>Examples\<close>

definition order_env :: "(string list \<Rightarrow> string list) \<Rightarrow> temporal_env" where
  "order_env f = \<lparr>te_order = f, te_today = (2026, 1, 1), te_date_of = (\<lambda>_. None)\<rparr>"

definition superseding :: "string list \<Rightarrow> memory_meta option" where
  "superseding ts = Some \<lparr>mm_valid_from = None, mm_valid_until = None, mm_supersedes = ts\<rparr>"

lemma fair_orders: "fair_order (order_env (\<lambda>xs. xs))" "fair_order (order_env rev)"
  by (simp_all add: fair_order_def order_env_def)

definition knot :: temporal_records where
  "knot = [(''a.md'', superseding [''b.md'', ''d.md'']), (''b.md'', superseding [''c.md'']),
     (''c.md'', superseding [''a.md'']), (''d.md'', superseding [''b.md''])]"

theorem statuses_follow_the_reference_witness:
  "\<exists>d M. resolve_temporal_statuses (order_env rev) NoBoundary knot = Some (Inr d)
    \<and> map fst d = map fst knot \<and> M \<subseteq> {p. (p, p) \<in> (supersession (2026, 1, 1) knot)\<^sup>+}
    \<and> map_of d ''d.md'' = Some (status_spec (2026, 1, 1) knot M ''d.md'')"
proof -
  have "dict_wf knot" "''d.md'' \<in> fst ` set knot" by (simp_all add: knot_def)
  moreover have "normalize_as_of (order_env rev) NoBoundary = Inr (2026, 1, 1)"
    by (simp add: normalize_as_of_def order_env_def)
  ultimately show ?thesis using statuses_follow_the_reference [OF fair_orders(2), of knot NoBoundary] by blast
qed

text \<open>
  With a cycle the statuses depend on the order in which a set is iterated, which changes with the
  hash seed of the Python process: in a knot of two cycles that share notes, one order reports all
  four notes in conflict, the other reports the fourth, which lies on a cycle as well, as current.
\<close>

theorem cycles_depend_on_the_order:
  "fair_order (order_env (\<lambda>xs. xs)) \<and> fair_order (order_env rev)
   \<and> resolve_temporal_statuses (order_env (\<lambda>xs. xs)) NoBoundary knot =
       Some (Inr [(''a.md'', TS_CONFLICTED), (''b.md'', TS_CONFLICTED), (''c.md'', TS_CONFLICTED), (''d.md'', TS_CURRENT)])
   \<and> resolve_temporal_statuses (order_env rev) NoBoundary knot =
       Some (Inr [(''a.md'', TS_CONFLICTED), (''b.md'', TS_CONFLICTED), (''c.md'', TS_CONFLICTED), (''d.md'', TS_CONFLICTED)])"
proof (intro conjI)
  show "resolve_temporal_statuses (order_env (\<lambda>xs. xs)) NoBoundary knot =
       Some (Inr [(''a.md'', TS_CONFLICTED), (''b.md'', TS_CONFLICTED), (''c.md'', TS_CONFLICTED), (''d.md'', TS_CURRENT)])"
    by code_simp
  show "resolve_temporal_statuses (order_env rev) NoBoundary knot =
       Some (Inr [(''a.md'', TS_CONFLICTED), (''b.md'', TS_CONFLICTED), (''c.md'', TS_CONFLICTED), (''d.md'', TS_CONFLICTED)])"
    by code_simp
qed (rule fair_orders)+

end
