(* ===== verification/Decision_Service.thy ===== *)
theory Decision_Service
  imports Task_Service
begin

text \<open>
  Decisions and their receipts (\<open>core/decision_models.py\<close>) and the service that creates and
  resolves them (\<open>core/decision_service.py\<close>): approvals and structured inputs bound to one revision
  of a task, stored as one file each below the task store and written in its transactions.

  Constraints of the models are \<open>\<dots>_ok\<close> predicates, their \<open>model_dump\<close> is \<open>\<dots>_dump\<close>, their
  validation \<open>validate_\<dots>\<close>.
\<close>

subsection \<open>Identifiers and enumerations\<close>

definition re_decision_id :: "string \<Rightarrow> bool" where
  "re_decision_id s =
     (take 4 s = ''dec_'' \<and>
      (case drop 4 s of [] \<Rightarrow> False
       | c # r \<Rightarrow> is_alnum c \<and> length r \<le> 127 \<and> list_all (\<lambda>x. id_char x \<or> x = CHR '':'') r))"

definition re_dcr :: "string \<Rightarrow> bool" where
  "re_dcr s = re_receipt ''dcr_'' s"

definition is_alpha :: "char \<Rightarrow> bool" where
  "is_alpha c = (is_alnum c \<and> \<not> is_digit c)"

definition re_response_field :: "string \<Rightarrow> bool" where
  "re_response_field s = (case s of [] \<Rightarrow> False
     | c # r \<Rightarrow> is_alpha c \<and> length r \<le> 63 \<and> list_all (\<lambda>x. is_alnum x \<or> x = CHR ''_'') r)"

definition RESPONSE_TYPES :: "string list" where
  "RESPONSE_TYPES = [''string'', ''boolean'', ''number'']"

definition DECISION_ACTIONS :: "string list" where
  "DECISION_ACTIONS = [''approve'', ''reject'', ''provide_input'']"

definition DECISION_STATUSES :: "string list" where
  "DECISION_STATUSES = [''pending'', ''approved'', ''rejected'', ''expired'']"

definition DECISION_AUTHORITIES :: "string list" where
  "DECISION_AUTHORITIES = [''propose'', ''apply'']"

definition DECISION_RISKS :: "string list" where
  "DECISION_RISKS = [''low'', ''medium'', ''high'', ''critical'']"

subsection \<open>Decisions\<close>

record decision =
  dc_decision_id :: string
  dc_task_id :: string
  dc_task_revision :: int
  dc_proposal_id :: "string option"
  dc_proposal_sha256 :: "string option"
  dc_title :: string
  dc_description :: string
  dc_risk_level :: string
  dc_status :: string
  dc_requested_by :: string
  dc_required_authority :: string
  dc_allowed_actors :: "string list"
  dc_response_schema :: "string dict"
  dc_created_at :: string
  dc_expires_at :: "string option"
  dc_resolved_at :: "string option"
  dc_resolved_by :: "string option"
  dc_resolution_action :: "string option"
  dc_resolution_comment :: "string option"
  dc_resolution_input :: "payload option"
  dc_receipt_id :: "string option"

definition scalar :: "json \<Rightarrow> bool" where
  "scalar j = (case j of JStr _ \<Rightarrow> True | JBool _ \<Rightarrow> True | JInt _ \<Rightarrow> True | JFloat _ \<Rightarrow> True | _ \<Rightarrow> False)"

text \<open>The validators of the fields, and the binding checked after them.\<close>

definition valid_allowed_actors :: "string list \<Rightarrow> bool" where
  "valid_allowed_actors xs = (xs \<noteq> [] \<and> list_all (\<lambda>a. strip a \<noteq> [] \<and> char_count a \<le> 200) xs)"

definition valid_response_schema :: "string dict \<Rightarrow> bool" where
  "valid_response_schema d =
     (length d \<le> 32 \<and> list_all (\<lambda>(f, t). re_response_field f \<and> t \<in> set RESPONSE_TYPES) d)"

definition valid_binding :: "decision \<Rightarrow> bool" where
  "valid_binding d =
     (\<not> (dc_proposal_id d \<noteq> None \<and> dc_proposal_sha256 d = None)
      \<and> \<not> (dc_status d = ''pending'' \<and> dc_receipt_id d \<noteq> None)
      \<and> \<not> (dc_status d \<in> {''approved'', ''rejected''} \<and> dc_receipt_id d = None))"

definition decision_ok :: "decision \<Rightarrow> bool" where
  "decision_ok d =
     (re_decision_id (dc_decision_id d) \<and> re_task_id (dc_task_id d) \<and> 1 \<le> dc_task_revision d
      \<and> opt_len 128 (dc_proposal_id d)
      \<and> (case dc_proposal_sha256 d of None \<Rightarrow> True | Some h \<Rightarrow> re_hash h)
      \<and> len_between 1 256 (dc_title d) \<and> len_between 0 4096 (dc_description d)
      \<and> dc_risk_level d \<in> set DECISION_RISKS \<and> dc_status d \<in> set DECISION_STATUSES
      \<and> len_between 1 200 (dc_requested_by d) \<and> dc_required_authority d \<in> set DECISION_AUTHORITIES
      \<and> valid_allowed_actors (dc_allowed_actors d) \<and> valid_response_schema (dc_response_schema d)
      \<and> (case dc_resolution_action d of None \<Rightarrow> True | Some a \<Rightarrow> a \<in> set DECISION_ACTIONS)
      \<and> opt_len 4096 (dc_resolution_comment d)
      \<and> (case dc_resolution_input d of None \<Rightarrow> True | Some p \<Rightarrow> list_all (\<lambda>(_, v). scalar v) p)
      \<and> valid_binding d)"

definition mk_decision :: "decision \<Rightarrow> store_error + decision" where
  "mk_decision d = (if decision_ok d then Inr d else Inl PyValueError)"

definition decision_dump :: "decision \<Rightarrow> payload" where
  "decision_dump d =
    [(''decision_id'', JStr (dc_decision_id d)), (''task_id'', JStr (dc_task_id d)),
     (''task_revision'', JInt (dc_task_revision d)), (''proposal_id'', jopt (dc_proposal_id d)),
     (''proposal_sha256'', jopt (dc_proposal_sha256 d)), (''title'', JStr (dc_title d)),
     (''description'', JStr (dc_description d)), (''risk_level'', JStr (dc_risk_level d)),
     (''status'', JStr (dc_status d)), (''requested_by'', JStr (dc_requested_by d)),
     (''required_authority'', JStr (dc_required_authority d)),
     (''allowed_actors'', jstrs (dc_allowed_actors d)),
     (''response_schema'', jdict (dc_response_schema d)), (''created_at'', JStr (dc_created_at d)),
     (''expires_at'', jopt (dc_expires_at d)), (''resolved_at'', jopt (dc_resolved_at d)),
     (''resolved_by'', jopt (dc_resolved_by d)), (''resolution_action'', jopt (dc_resolution_action d)),
     (''resolution_comment'', jopt (dc_resolution_comment d)),
     (''resolution_input'', jobj_opt (dc_resolution_input d)), (''receipt_id'', jopt (dc_receipt_id d))]"

definition DECISION_FIELDS :: "string list" where
  "DECISION_FIELDS =
    [''decision_id'', ''task_id'', ''task_revision'', ''proposal_id'', ''proposal_sha256'', ''title'',
     ''description'', ''risk_level'', ''status'', ''requested_by'', ''required_authority'',
     ''allowed_actors'', ''response_schema'', ''created_at'', ''expires_at'', ''resolved_at'',
     ''resolved_by'', ''resolution_action'', ''resolution_comment'', ''resolution_input'', ''receipt_id'']"

definition need_int :: "pyrt \<Rightarrow> payload \<Rightarrow> string \<Rightarrow> pse_error + int" where
  "need_int rt d k = (case map_of d k of None \<Rightarrow> Inl PyError | Some _ \<Rightarrow> int_fld rt d k 0)"

definition strs_fld_or :: "payload \<Rightarrow> string \<Rightarrow> string list \<Rightarrow> pse_error + string list" where
  "strs_fld_or d k dflt = (case map_of d k of None \<Rightarrow> Inr dflt | Some _ \<Rightarrow> strs_fld d k)"

definition read_decision :: "pyrt \<Rightarrow> string \<Rightarrow> payload \<Rightarrow> pse_error + decision" where
  "read_decision rt now d =
     bindE (need_fld d ''decision_id'') (\<lambda>decision_id. bindE (need_fld d ''task_id'') (\<lambda>task_id.
     bindE (need_int rt d ''task_revision'') (\<lambda>task_revision.
     bindE (opt_fld d ''proposal_id'' None) (\<lambda>proposal_id.
     bindE (opt_fld d ''proposal_sha256'' None) (\<lambda>proposal_sha256.
     bindE (need_fld d ''title'') (\<lambda>title. bindE (str_fld d ''description'' []) (\<lambda>description.
     bindE (str_fld d ''risk_level'' ''medium'') (\<lambda>risk_level.
     bindE (str_fld d ''status'' ''pending'') (\<lambda>status.
     bindE (need_fld d ''requested_by'') (\<lambda>requested_by.
     bindE (str_fld d ''required_authority'' ''apply'') (\<lambda>required_authority.
     bindE (strs_fld_or d ''allowed_actors'' [''*'']) (\<lambda>allowed_actors.
     bindE (dict_fld d ''response_schema'') (\<lambda>response_schema.
     bindE (str_fld d ''created_at'' now) (\<lambda>created_at. bindE (opt_fld d ''expires_at'' None) (\<lambda>expires_at.
     bindE (opt_fld d ''resolved_at'' None) (\<lambda>resolved_at.
     bindE (opt_fld d ''resolved_by'' None) (\<lambda>resolved_by.
     bindE (opt_fld d ''resolution_action'' None) (\<lambda>resolution_action.
     bindE (opt_fld d ''resolution_comment'' None) (\<lambda>resolution_comment.
     bindE (obj_fld d ''resolution_input'') (\<lambda>resolution_input.
     bindE (opt_fld d ''receipt_id'' None) (\<lambda>receipt_id.
     Inr \<lparr>dc_decision_id = decision_id, dc_task_id = task_id, dc_task_revision = task_revision,
       dc_proposal_id = proposal_id, dc_proposal_sha256 = proposal_sha256, dc_title = title,
       dc_description = description, dc_risk_level = risk_level, dc_status = status,
       dc_requested_by = requested_by, dc_required_authority = required_authority,
       dc_allowed_actors = allowed_actors, dc_response_schema = response_schema,
       dc_created_at = created_at, dc_expires_at = expires_at, dc_resolved_at = resolved_at,
       dc_resolved_by = resolved_by, dc_resolution_action = resolution_action,
       dc_resolution_comment = resolution_comment, dc_resolution_input = resolution_input,
       dc_receipt_id = receipt_id\<rparr>)))))))))))))))))))))"

definition validate_decision :: "pyrt \<Rightarrow> string \<Rightarrow> json \<Rightarrow> store_error + decision" where
  "validate_decision rt now j = (case j of
       JObj d \<Rightarrow>
         if \<not> list_all (\<lambda>(k, _). k \<in> set DECISION_FIELDS) d then Inl PyValueError
         else bindE (value_error (read_decision rt now d)) mk_decision
     | _ \<Rightarrow> Inl PyValueError)"

subsection \<open>Receipts of decisions\<close>

record decision_receipt =
  dr_receipt_id :: string
  dr_decision_id :: string
  dr_task_id :: string
  dr_task_revision :: int
  dr_action :: string
  dr_actor :: string
  dr_response_sha256 :: string
  dr_created_at :: string

definition decision_receipt_ok :: "decision_receipt \<Rightarrow> bool" where
  "decision_receipt_ok r =
     (re_dcr (dr_receipt_id r) \<and> re_decision_id (dr_decision_id r) \<and> re_task_id (dr_task_id r)
      \<and> 1 \<le> dr_task_revision r \<and> dr_action r \<in> set DECISION_ACTIONS \<and> len_between 1 200 (dr_actor r)
      \<and> re_hash (dr_response_sha256 r))"

definition mk_decision_receipt :: "decision_receipt \<Rightarrow> store_error + decision_receipt" where
  "mk_decision_receipt r = (if decision_receipt_ok r then Inr r else Inl PyValueError)"

definition decision_receipt_dump :: "decision_receipt \<Rightarrow> payload" where
  "decision_receipt_dump r =
    [(''receipt_id'', JStr (dr_receipt_id r)), (''decision_id'', JStr (dr_decision_id r)),
     (''task_id'', JStr (dr_task_id r)), (''task_revision'', JInt (dr_task_revision r)),
     (''action'', JStr (dr_action r)), (''actor'', JStr (dr_actor r)),
     (''response_sha256'', JStr (dr_response_sha256 r)), (''created_at'', JStr (dr_created_at r))]"

definition DECISION_RECEIPT_FIELDS :: "string list" where
  "DECISION_RECEIPT_FIELDS = [''receipt_id'', ''decision_id'', ''task_id'', ''task_revision'', ''action'',
     ''actor'', ''response_sha256'', ''created_at'']"

definition read_decision_receipt :: "pyrt \<Rightarrow> string \<Rightarrow> payload \<Rightarrow> pse_error + decision_receipt" where
  "read_decision_receipt rt now d =
     bindE (need_fld d ''receipt_id'') (\<lambda>receipt_id. bindE (need_fld d ''decision_id'') (\<lambda>decision_id.
     bindE (need_fld d ''task_id'') (\<lambda>task_id. bindE (need_int rt d ''task_revision'') (\<lambda>task_revision.
     bindE (need_fld d ''action'') (\<lambda>action. bindE (need_fld d ''actor'') (\<lambda>actor.
     bindE (need_fld d ''response_sha256'') (\<lambda>response_sha256.
     bindE (str_fld d ''created_at'' now) (\<lambda>created_at.
     Inr \<lparr>dr_receipt_id = receipt_id, dr_decision_id = decision_id, dr_task_id = task_id,
       dr_task_revision = task_revision, dr_action = action, dr_actor = actor,
       dr_response_sha256 = response_sha256, dr_created_at = created_at\<rparr>))))))))"

definition validate_decision_receipt :: "pyrt \<Rightarrow> string \<Rightarrow> json \<Rightarrow> store_error + decision_receipt" where
  "validate_decision_receipt rt now j = (case j of
       JObj d \<Rightarrow>
         if \<not> list_all (\<lambda>(k, _). k \<in> set DECISION_RECEIPT_FIELDS) d then Inl PyValueError
         else bindE (value_error (read_decision_receipt rt now d)) mk_decision_receipt
     | _ \<Rightarrow> Inl PyValueError)"

definition digest_payload ::
  "pyrt \<Rightarrow> string \<Rightarrow> string \<Rightarrow> int \<Rightarrow> string \<Rightarrow> string \<Rightarrow> json \<Rightarrow> string" where
  "digest_payload rt decision_id task_id task_revision action actor response =
     sha256_hex rt (json_line rt (sort_keys (JObj
       [(''decision_id'', JStr decision_id), (''task_id'', JStr task_id),
        (''task_revision'', JInt task_revision), (''action'', JStr action),
        (''actor'', JStr actor), (''response'', response)])))"

subsection \<open>The surroundings of the service\<close>

text \<open>
  Beside the surroundings of the store: the parser behind \<open>model_validate_json\<close> on the bytes of a
  file, \<open>datetime.fromisoformat(\<dots>).astimezone(UTC)\<close> of a text with a zone (\<open>None\<close> when it is out of
  range) and the current time, both as counts of one unit of time.
\<close>

record decision_env =
  de_store :: store_env
  de_parse :: "string \<Rightarrow> json option"
  de_utc :: "string \<Rightarrow> int option"
  de_clock :: int

abbreviation de_rt :: "decision_env \<Rightarrow> pyrt" where "de_rt env \<equiv> se_rt (de_store env)"
abbreviation de_now :: "decision_env \<Rightarrow> string" where "de_now env \<equiv> se_now (de_store env)"

definition parse_timestamp :: "decision_env \<Rightarrow> string \<Rightarrow> store_error + int" where
  "parse_timestamp env s = (case se_fromiso (de_store env) s of
       None \<Rightarrow> Inl PyValueError
     | Some False \<Rightarrow> Inl PyValueError
     | Some True \<Rightarrow> (case de_utc env s of None \<Rightarrow> Inl OtherError | Some t \<Rightarrow> Inr t))"

definition effective_decision :: "decision_env \<Rightarrow> decision \<Rightarrow> store_error + decision" where
  "effective_decision env d =
     (if dc_status d \<noteq> ''pending'' then Inr d
      else case dc_expires_at d of
          None \<Rightarrow> Inr d
        | Some x \<Rightarrow> bindE (parse_timestamp env x) (\<lambda>t.
            if de_clock env < t then Inr d
            else validate_decision (de_rt env) (de_now env)
              (JObj (AList.update ''status'' (JStr ''expired'') (decision_dump d)))))"

subsection \<open>Files and reading\<close>

definition decisions_root :: path where "decisions_root = tasks_root @ [''decisions'']"

definition decision_path :: "string \<Rightarrow> path" where
  "decision_path did = decisions_root @ [did @ ''.json'']"

definition decision_receipt_path :: "string \<Rightarrow> path" where
  "decision_receipt_path rid = decisions_root @ [''receipts'', rid @ ''.json'']"

text \<open>\<open>except (OSError, UnicodeError, ValueError)\<close>: any other exception passes.\<close>

definition malformed :: "store_error + 'a \<Rightarrow> store_error + 'a" where
  "malformed m = (case m of
       Inl e \<Rightarrow> if e \<in> {PyValueError, PyFileNotFound, PyPermissionError} then Inl PyValueError else Inl e
     | Inr x \<Rightarrow> Inr x)"

definition parse_file :: "decision_env \<Rightarrow> string \<Rightarrow> store_error + json" where
  "parse_file env c = bindE (read_secure c) (\<lambda>b.
     case de_parse env b of None \<Rightarrow> Inl PyValueError | Some j \<Rightarrow> Inr j)"

definition get_decision :: "decision_env \<Rightarrow> filesystem \<Rightarrow> string \<Rightarrow> store_error + decision option" where
  "get_decision env fs did =
     (if \<not> re_decision_id did then Inl PyValueError
      else case fs (decision_path did) of
          None \<Rightarrow> Inr None
        | Some c \<Rightarrow> malformed (
            bindE (parse_file env c) (\<lambda>j.
            bindE (validate_decision (de_rt env) (de_now env) j) (\<lambda>d.
            bindE (effective_decision env d) (\<lambda>d'. Inr (Some d'))))))"

definition get_decision_receipt ::
  "decision_env \<Rightarrow> filesystem \<Rightarrow> string \<Rightarrow> store_error + decision_receipt option" where
  "get_decision_receipt env fs rid =
     (if rid = [] then Inr None
      else if \<not> re_dcr rid then Inl PyValueError
      else case fs (decision_receipt_path rid) of
          None \<Rightarrow> Inr None
        | Some c \<Rightarrow> malformed (
            bindE (parse_file env c) (\<lambda>j.
            bindE (validate_decision_receipt (de_rt env) (de_now env) j) (\<lambda>r.
            if dr_receipt_id r \<noteq> ''dcr_'' @ dr_response_sha256 r then Inl PyValueError
            else Inr (Some r)))))"

text \<open>
  \<open>list_decisions\<close>; \<open>stems\<close> are the stems of the files that \<open>glob\<close> yields, in its order (none where
  the directory does not exist). The sort is stable and descending.
\<close>

definition selects :: "string option \<Rightarrow> string option \<Rightarrow> decision \<Rightarrow> bool" where
  "selects status task_id d =
     ((case status of None \<Rightarrow> True | Some s \<Rightarrow> dc_status d = s)
      \<and> (case task_id of None \<Rightarrow> True | Some t \<Rightarrow> dc_task_id d = t))"

definition newest_first :: "decision list \<Rightarrow> decision list" where
  "newest_first ds = rev (sort_key dc_created_at (rev ds))"

definition read_all :: "decision_env \<Rightarrow> filesystem \<Rightarrow> string list \<Rightarrow> store_error + decision list" where
  "read_all env fs stems =
     bindE (mapE (get_decision env fs) stems) (\<lambda>ds. Inr (List.map_filter id ds))"

definition list_decisions ::
  "decision_env \<Rightarrow> filesystem \<Rightarrow> string list \<Rightarrow> string option \<Rightarrow> string option \<Rightarrow> int \<Rightarrow> int \<Rightarrow>
   store_error + decision list" where
  "list_decisions env fs stems status task_id limit offset =
     (if \<not> (1 \<le> limit \<and> limit \<le> 500) then Inl PyValueError
      else if offset < 0 then Inl PyValueError
      else if (case task_id of None \<Rightarrow> False | Some t \<Rightarrow> \<not> re_task_id t) then Inl PyValueError
      else bindE (read_all env fs stems) (\<lambda>ds.
        Inr (take (nat limit) (drop (nat offset)
          (newest_first (filter (selects status task_id) ds))))))"

subsection \<open>Creation\<close>

record decision_args =
  da_decision_id :: string
  da_task_id :: string
  da_title :: string
  da_requested_by :: string
  da_task_revision :: "int option"
  da_proposal_id :: "string option"
  da_proposal_sha256 :: "string option"
  da_description :: string
  da_risk_level :: string
  da_required_authority :: string
  da_allowed_actors :: "string list option"
  da_response_schema :: "string dict option"
  da_expires_at :: "string option"

definition new_decision :: "string \<Rightarrow> decision_args \<Rightarrow> int \<Rightarrow> decision" where
  "new_decision now a revision =
     \<lparr>dc_decision_id = da_decision_id a, dc_task_id = da_task_id a, dc_task_revision = revision,
      dc_proposal_id = da_proposal_id a, dc_proposal_sha256 = da_proposal_sha256 a,
      dc_title = da_title a, dc_description = da_description a, dc_risk_level = da_risk_level a,
      dc_status = ''pending'', dc_requested_by = da_requested_by a,
      dc_required_authority = da_required_authority a,
      dc_allowed_actors = (case da_allowed_actors a of None \<Rightarrow> [''*''] | Some xs \<Rightarrow> if xs = [] then [''*''] else xs),
      dc_response_schema = (case da_response_schema a of None \<Rightarrow> [] | Some d \<Rightarrow> d),
      dc_created_at = now, dc_expires_at = da_expires_at a, dc_resolved_at = None, dc_resolved_by = None,
      dc_resolution_action = None, dc_resolution_comment = None, dc_resolution_input = None,
      dc_receipt_id = None\<rparr>"

definition check_expiry :: "decision_env \<Rightarrow> string option \<Rightarrow> store_error + unit" where
  "check_expiry env x = (case x of
       None \<Rightarrow> Inr ()
     | Some s \<Rightarrow> bindE (parse_timestamp env s) (\<lambda>t.
         if t \<le> de_clock env then Inl PyValueError else Inr ()))"

definition plan_decision :: "decision_env \<Rightarrow> filesystem \<Rightarrow> decision_args \<Rightarrow> store_error + decision" where
  "plan_decision env fs a =
     bindE (get_task (de_store env) fs (da_task_id a)) (\<lambda>found.
     case found of None \<Rightarrow> Inl PyFileNotFound | Some t \<Rightarrow>
     (let revision = (case da_task_revision a of None \<Rightarrow> pt_revision t | Some r \<Rightarrow> r) in
      if revision \<noteq> pt_revision t then Inl PyValueError
      else bindE (check_expiry env (da_expires_at a)) (\<lambda>_.
        bindE (mk_decision (new_decision (de_now env) a revision)) (\<lambda>d.
        if fs (decision_path (da_decision_id a)) \<noteq> None then Inl PyValueError else Inr d))))"

definition decision_text :: "decision_env \<Rightarrow> decision \<Rightarrow> string" where
  "decision_text env d = json_indent (de_rt env) 0 (sort_keys (JObj (decision_dump d)))"

definition decision_receipt_text :: "decision_env \<Rightarrow> decision_receipt \<Rightarrow> string" where
  "decision_receipt_text env r = json_indent (de_rt env) 0 (sort_keys (JObj (decision_receipt_dump r)))"

definition create_decision ::
  "decision_env \<Rightarrow> string \<Rightarrow> store_error option \<Rightarrow> decision_args \<Rightarrow> task_store \<Rightarrow>
   (store_error + decision) \<times> task_store" where
  "create_decision env tx_id fault a st = with_lock (de_store env) (\<lambda>s.
     case plan_decision env (files s) a of
       Inl e \<Rightarrow> (Inl e, s)
     | Inr d \<Rightarrow>
         (case as_result (transaction (de_store env) tx_id ''decision_create'' None None
                 [(decision_path (da_decision_id a), ''decision'')] fault
                 [(decision_path (da_decision_id a), Some (decision_text env d))] Returns s) of
            (Inl e, s') \<Rightarrow> (Inl e, s')
          | (Inr _, s') \<Rightarrow> (Inr d, s'))) st"

subsection \<open>Resolution\<close>

definition matches_type :: "json \<Rightarrow> string \<Rightarrow> bool" where
  "matches_type v expected =
     (if expected = ''string'' then (case v of JStr _ \<Rightarrow> True | _ \<Rightarrow> False)
      else if expected = ''boolean'' then (case v of JBool _ \<Rightarrow> True | _ \<Rightarrow> False)
      else (case v of JInt _ \<Rightarrow> True | JFloat _ \<Rightarrow> True | _ \<Rightarrow> False))"

definition validate_field :: "payload \<Rightarrow> string \<times> string \<Rightarrow> store_error + (string \<times> json)" where
  "validate_field input ft =
     (if \<not> matches_type (jget input (fst ft)) (snd ft) then Inl PyValueError
      else if (case jget input (fst ft) of JStr s \<Rightarrow> 4096 < char_count s | _ \<Rightarrow> False) then Inl PyValueError
      else Inr (fst ft, jget input (fst ft)))"

definition validate_response ::
  "decision \<Rightarrow> string \<Rightarrow> payload option \<Rightarrow> store_error + payload option" where
  "validate_response d action input =
     (if action \<noteq> ''provide_input'' then
        (if input \<noteq> None \<and> input \<noteq> Some [] then Inl PyValueError else Inr None)
      else if dc_response_schema d = [] then Inl PyValueError
      else (case input of
          None \<Rightarrow> Inl PyValueError
        | Some p \<Rightarrow>
            if set (map fst p) \<noteq> set (map fst (dc_response_schema d)) then Inl PyValueError
            else bindE (mapE (validate_field p) (dc_response_schema d)) (\<lambda>v. Inr (Some v))))"

definition AUTHORITY_RANK :: "string \<Rightarrow> int" where
  "AUTHORITY_RANK a =
     (if a = ''read-only'' then 0 else if a = ''propose'' then 1 else if a = ''apply'' then 2 else -1)"

record resolve_args =
  ra_decision_id :: string
  ra_action :: string
  ra_actor :: string
  ra_authority :: string
  ra_proposal_sha256 :: "string option"
  ra_input_data :: "payload option"
  ra_comment :: "string option"

definition response_digest :: "pyrt \<Rightarrow> resolve_args \<Rightarrow> decision \<Rightarrow> string" where
  "response_digest rt a d =
     digest_payload rt (dc_decision_id d) (dc_task_id d) (dc_task_revision d) (ra_action a) (ra_actor a)
       (JObj [(''comment'', jopt (ra_comment a)), (''input_data'', jobj_opt (ra_input_data a))])"

text \<open>The guards on the actor, the authority, the proposal and the revision of the task.\<close>

definition guard_resolution ::
  "decision_env \<Rightarrow> filesystem \<Rightarrow> resolve_args \<Rightarrow> decision \<Rightarrow> store_error + unit" where
  "guard_resolution env fs a d =
     (if ''*'' \<notin> set (dc_allowed_actors d) \<and> ra_actor a \<notin> set (dc_allowed_actors d)
        then Inl PyPermissionError
      else if AUTHORITY_RANK (ra_authority a) < AUTHORITY_RANK (dc_required_authority d)
        then Inl PyPermissionError
      else if dc_proposal_sha256 d \<noteq> None \<and> ra_proposal_sha256 a \<noteq> dc_proposal_sha256 d
        then Inl ConflictError
      else bindE (get_task (de_store env) fs (dc_task_id d)) (\<lambda>found. case found of
          None \<Rightarrow> Inl PyFileNotFound
        | Some t \<Rightarrow> if pt_revision t \<noteq> dc_task_revision d then Inl ConflictError else Inr ()))"

definition new_decision_receipt :: "decision_env \<Rightarrow> resolve_args \<Rightarrow> decision \<Rightarrow> decision_receipt" where
  "new_decision_receipt env a d =
     \<lparr>dr_receipt_id = ''dcr_'' @ response_digest (de_rt env) a d, dr_decision_id = dc_decision_id d,
      dr_task_id = dc_task_id d, dr_task_revision = dc_task_revision d, dr_action = ra_action a,
      dr_actor = ra_actor a, dr_response_sha256 = response_digest (de_rt env) a d,
      dr_created_at = de_now env\<rparr>"

definition resolved_decision ::
  "resolve_args \<Rightarrow> payload option \<Rightarrow> decision_receipt \<Rightarrow> decision \<Rightarrow> decision" where
  "resolved_decision a input r d =
     d\<lparr>dc_status := (if ra_action a \<in> {''approve'', ''provide_input''} then ''approved'' else ''rejected''),
       dc_resolved_at := Some (dr_created_at r), dc_resolved_by := Some (ra_actor a),
       dc_resolution_action := Some (ra_action a), dc_resolution_comment := ra_comment a,
       dc_resolution_input := input, dc_receipt_id := Some (dr_receipt_id r)\<rparr>"

datatype resolution = Settled decision decision_receipt | Resolve decision decision_receipt

definition settled_resolution ::
  "decision_env \<Rightarrow> filesystem \<Rightarrow> resolve_args \<Rightarrow> decision \<Rightarrow> store_error + resolution" where
  "settled_resolution env fs a d =
     bindE (get_decision_receipt env fs (case dc_receipt_id d of None \<Rightarrow> [] | Some r \<Rightarrow> r)) (\<lambda>found.
       case found of
         None \<Rightarrow> Inl ConflictError
       | Some r \<Rightarrow>
           if dr_receipt_id r = ''dcr_'' @ response_digest (de_rt env) a d
              \<and> dc_resolution_action d = Some (ra_action a) \<and> dc_resolved_by d = Some (ra_actor a)
           then Inr (Settled d r) else Inl ConflictError)"

definition plan_resolution ::
  "decision_env \<Rightarrow> filesystem \<Rightarrow> resolve_args \<Rightarrow> store_error + resolution" where
  "plan_resolution env fs a =
     bindE (get_decision env fs (ra_decision_id a)) (\<lambda>found.
     case found of None \<Rightarrow> Inl PyFileNotFound | Some d \<Rightarrow>
     if dc_status d = ''expired'' then Inl PyValueError
     else if dc_status d \<noteq> ''pending'' then settled_resolution env fs a d
     else
       bindE (guard_resolution env fs a d) (\<lambda>_.
       bindE (validate_response d (ra_action a) (ra_input_data a)) (\<lambda>input.
       bindE (mk_decision_receipt (new_decision_receipt env a d)) (\<lambda>r.
       bindE (validate_decision (de_rt env) (de_now env)
           (JObj (decision_dump (resolved_decision a input r d)))) (\<lambda>d'.
       Inr (Resolve d' r))))))"

definition resolve_decision ::
  "decision_env \<Rightarrow> string \<Rightarrow> store_error option \<Rightarrow> resolve_args \<Rightarrow> task_store \<Rightarrow>
   (store_error + decision \<times> decision_receipt) \<times> task_store" where
  "resolve_decision env tx_id fault a st =
     (if strip (ra_actor a) = [] then (Inl PyValueError, st)
      else with_lock (de_store env) (\<lambda>s.
        case plan_resolution env (files s) a of
          Inl e \<Rightarrow> (Inl e, s)
        | Inr (Settled d r) \<Rightarrow> (Inr (d, r), s)
        | Inr (Resolve d r) \<Rightarrow>
            (case as_result (transaction (de_store env) tx_id ''decision_resolve'' None None
                   [(decision_path (ra_decision_id a), ''decision''),
                    (decision_receipt_path (dr_receipt_id r), ''receipt'')] fault
                   [(decision_path (ra_decision_id a), Some (decision_text env d)),
                    (decision_receipt_path (dr_receipt_id r), Some (decision_receipt_text env r))] Returns s) of
               (Inl e, s') \<Rightarrow> (Inl e, s')
             | (Inr _, s') \<Rightarrow> (Inr (d, r), s'))) st)"

end
