(* ===== verification/Decision_Facts.thy ===== *)
theory Decision_Facts
  imports Decision_Service Service_Facts Canonical_Json_Facts Ledger_Records
begin

text \<open>
  Facts on the decision service: what is written is read back up to the order of keys, the effect
  of a creation and of a resolution on the files, and the files that neither touches.
\<close>

subsection \<open>Reading back\<close>

text \<open>A decision as it is read from its file, whose keys are sorted.\<close>

definition key_sorted :: "decision \<Rightarrow> decision" where
  "key_sorted d = d\<lparr>dc_response_schema := sort_dict (dc_response_schema d),
     dc_resolution_input := map_option (\<lambda>p. sort_dict (sort_keys_items p)) (dc_resolution_input d)\<rparr>"

lemma key_sorted_simps [simp]:
  "dc_decision_id (key_sorted d) = dc_decision_id d" "dc_task_id (key_sorted d) = dc_task_id d"
  "dc_task_revision (key_sorted d) = dc_task_revision d" "dc_status (key_sorted d) = dc_status d"
  "dc_receipt_id (key_sorted d) = dc_receipt_id d" "dc_expires_at (key_sorted d) = dc_expires_at d"
  "dc_resolution_action (key_sorted d) = dc_resolution_action d"
  "dc_resolved_by (key_sorted d) = dc_resolved_by d"
  "dc_resolution_comment (key_sorted d) = dc_resolution_comment d"
  "dc_allowed_actors (key_sorted d) = dc_allowed_actors d"
  "dc_required_authority (key_sorted d) = dc_required_authority d"
  "dc_proposal_sha256 (key_sorted d) = dc_proposal_sha256 d"
  by (simp_all add: key_sorted_def)

lemma scalar_sort_keys: "scalar j \<Longrightarrow> sort_keys j = j" "scalar (sort_keys j) = scalar j"
  by (cases j; simp add: scalar_def)+

lemma scalars_sorted:
  "list_all (\<lambda>(_, v). scalar v) (sort_dict (sort_keys_items p)) = list_all (\<lambda>(_, v). scalar v) p"
proof -
  have "list_all (\<lambda>(_, v). scalar v) (sort_keys_items p) = list_all (\<lambda>(_, v). scalar v) p"
    by (induction p) (auto simp: scalar_sort_keys)
  then show ?thesis by (simp add: list_all_iff)
qed

lemma decision_ok_sorted [simp]: "decision_ok (key_sorted d) = decision_ok d"
proof -
  have "length (sort_dict s) = length s" for s :: "string dict" by (simp add: sort_dict_def)
  then have "valid_response_schema (sort_dict s) = valid_response_schema s" for s
    by (simp add: valid_response_schema_def list_all_iff)
  moreover have "valid_binding (key_sorted d) = valid_binding d"
    by (simp add: valid_binding_def key_sorted_def)
  ultimately show ?thesis
    by (simp add: decision_ok_def) (simp add: key_sorted_def scalars_sorted split: option.split)
qed

lemma sort_keys_jdict [simp]: "sort_keys (jdict d) = jdict (sort_dict d)"
proof -
  have "sort_keys_items (map (\<lambda>(k, v). (k, JStr v)) d) = map (\<lambda>(k, v). (k, JStr v)) d"
    by (induction d) auto
  moreover have "sort_dict (map (\<lambda>(k, v). (k, JStr v)) d) = map (\<lambda>(k, v). (k, JStr v)) (sort_dict d)"
  proof -
    have "fst \<circ> (\<lambda>(k, v :: string). (k, JStr v)) = fst" by (auto simp: fun_eq_iff)
    then show ?thesis unfolding sort_dict_def sort_key_map by (rule ssubst) (rule refl)
  qed
  ultimately show ?thesis by (simp add: jdict_def)
qed

lemma sort_keys_jobj_opt [simp]:
  "sort_keys (jobj_opt x) = jobj_opt (map_option (\<lambda>p. sort_dict (sort_keys_items p)) x)"
  by (cases x) (simp_all add: jobj_opt_def)

text \<open>Any payload with the fields of a decision reads as that decision.\<close>

lemma fld_more:
  "map_of d k = Some (JInt i) \<Longrightarrow> need_int rt d k = Inr i"
  "map_of d k = Some (jstrs xs) \<Longrightarrow> strs_fld_or d k ys = Inr xs"
  by (simp_all add: need_int_def strs_fld_or_def fld_simps)

lemma read_decision_fields:
  assumes "\<And>k. k \<in> set DECISION_FIELDS \<Longrightarrow> map_of e k = map_of (decision_dump d) k"
  shows "read_decision rt now e = Inr d"
proof -
  note get = assms [unfolded DECISION_FIELDS_def decision_dump_def, simplified]
  show ?thesis by (simp add: read_decision_def fld_simps fld_more get)
qed

lemma decision_dump_keys: "map fst (decision_dump d) = DECISION_FIELDS"
  by (simp add: decision_dump_def DECISION_FIELDS_def)

lemma decision_dump_wf: "dict_wf (decision_dump d)"
  unfolding decision_dump_keys by (simp add: DECISION_FIELDS_def)

lemma keys_in_fields:
  "map fst e = ks \<Longrightarrow> list_all (\<lambda>(k, _). k \<in> set ks) e"
  by (force simp: list_all_iff)

lemma validate_decision_dump: "validate_decision rt now (JObj (decision_dump d)) = mk_decision d"
  using keys_in_fields [OF decision_dump_keys] read_decision_fields [of "decision_dump d" d]
  by (simp add: validate_decision_def)

lemma sorted_decision_dump:
  "map_of (sort_dict (sort_keys_items (decision_dump d))) k = map_of (decision_dump (key_sorted d)) k"
  unfolding map_of_sorted [OF decision_dump_wf]
  by (simp add: decision_dump_def key_sorted_def)

lemma validate_sorted_decision:
  "validate_decision rt now (sort_keys (JObj (decision_dump d)))
     = (if decision_ok d then Inr (key_sorted d) else Inl PyValueError)"
proof -
  let ?e = "sort_dict (sort_keys_items (decision_dump d))"
  have "fst ` set ?e = set DECISION_FIELDS"
    by (simp add: decision_dump_keys [of d, symmetric] del: set_map) (simp add: sort_keys_items_map image_image split_def)
  then have "list_all (\<lambda>(k, _). k \<in> set DECISION_FIELDS) ?e" by (force simp: list_all_iff)
  moreover have "read_decision rt now ?e = Inr (key_sorted d)"
    by (rule read_decision_fields) (rule sorted_decision_dump)
  ultimately show ?thesis by (simp add: validate_decision_def mk_decision_def)
qed

lemma read_receipt_fields:
  assumes "\<And>k. k \<in> set DECISION_RECEIPT_FIELDS \<Longrightarrow> map_of e k = map_of (decision_receipt_dump r) k"
  shows "read_decision_receipt rt now e = Inr r"
proof -
  note get = assms [unfolded DECISION_RECEIPT_FIELDS_def decision_receipt_dump_def, simplified]
  show ?thesis by (simp add: read_decision_receipt_def fld_simps fld_more get)
qed

lemma validate_sorted_receipt:
  "validate_decision_receipt rt now (sort_keys (JObj (decision_receipt_dump r)))
     = (if decision_receipt_ok r then Inr r else Inl PyValueError)"
proof -
  let ?e = "sort_dict (sort_keys_items (decision_receipt_dump r))"
  have keys: "map fst (decision_receipt_dump r) = DECISION_RECEIPT_FIELDS"
    by (simp add: decision_receipt_dump_def DECISION_RECEIPT_FIELDS_def)
  have "dict_wf (decision_receipt_dump r)" unfolding keys by (simp add: DECISION_RECEIPT_FIELDS_def)
  note get = map_of_sorted [OF this]
  have "fst ` set ?e = set DECISION_RECEIPT_FIELDS"
    by (simp add: keys [symmetric] del: set_map) (simp add: sort_keys_items_map image_image split_def)
  then have "list_all (\<lambda>(k, _). k \<in> set DECISION_RECEIPT_FIELDS) ?e" by (force simp: list_all_iff)
  moreover have "map_of ?e k = map_of (decision_receipt_dump r) k" for k
    unfolding get by (simp add: decision_receipt_dump_def)
  then have "read_decision_receipt rt now ?e = Inr r" by (rule read_receipt_fields)
  ultimately show ?thesis by (simp add: validate_decision_receipt_def mk_decision_receipt_def)
qed

subsection \<open>Paths\<close>

lemma decision_paths [simp]:
  "decision_path a = decision_path b \<longleftrightarrow> a = b"
  "decision_receipt_path r = decision_receipt_path s \<longleftrightarrow> r = s"
  "decision_path a \<noteq> decision_receipt_path r" "decision_receipt_path r \<noteq> decision_path a"
  by (simp_all add: decision_path_def decision_receipt_path_def)

lemma decision_task_paths [simp]:
  "decision_path d \<noteq> task_file t" "decision_path d \<noteq> events_file t" "decision_path d \<noteq> checkpoint_file e"
  "decision_path d \<noteq> receipt_file r" "decision_receipt_path s \<noteq> task_file t"
  "decision_receipt_path s \<noteq> events_file t" "decision_receipt_path s \<noteq> checkpoint_file e"
  "decision_receipt_path s \<noteq> receipt_file r"
  by (simp_all add: decision_path_def decision_receipt_path_def decisions_root_def task_file_def
      events_file_def checkpoint_file_def receipt_file_def)

lemma colon_name: "name_char (CHR '':'')"
  by code_simp

lemma re_decision_id_names: "re_decision_id s \<Longrightarrow> s \<noteq> [] \<and> list_all name_char s"
proof -
  assume s: "re_decision_id s"
  then obtain c r where r: "take 4 s = ''dec_''" "drop 4 s = c # r" "is_alnum c"
      "list_all (\<lambda>x. id_char x \<or> x = CHR '':'') r"
    by (auto simp: re_decision_id_def split: list.splits)
  have "list_all name_char ''dec_''" by code_simp
  moreover have "list_all name_char (c # r)"
    using r(3,4) id_char_name_char colon_name by (auto simp: list_all_iff id_char_def)
  ultimately have "list_all name_char (take 4 s @ drop 4 s)" unfolding list_all_append r by blast
  then have "list_all name_char s" by (simp only: append_take_drop_id)
  then show ?thesis using r by auto
qed

lemma re_dcr_names: "re_dcr s \<Longrightarrow> s \<noteq> [] \<and> list_all name_char s"
proof -
  assume s: "re_dcr s"
  then have "list_all is_hex (drop 4 s)" "take 4 s = ''dcr_''" by (simp_all add: re_dcr_def re_receipt_def re_hash_def)
  moreover have "list_all name_char ''dcr_''" by code_simp
  moreover have "is_hex c \<Longrightarrow> name_char c" for c
    using id_char_name_char [of c]
    by (auto simp: is_hex_def id_char_def is_alnum_def is_lower_def is_digit_def Let_def)
  ultimately have "list_all name_char (take 4 s @ drop 4 s)"
    unfolding list_all_append by (simp only: list_all_iff) blast
  then show ?thesis using s by (auto simp: re_dcr_def re_receipt_def simp del: list_all_append)
qed

lemma decision_names: "list_all name_char ''decisions''" "list_all name_char ''receipts''" "list_all name_char ''.json''"
  by code_simp+

lemma name_char_slash: "list_all name_char s \<Longrightarrow> CHR ''/'' \<notin> set s"
proof -
  have "\<not> name_char (CHR ''/'')" by code_simp
  then show "list_all name_char s \<Longrightarrow> CHR ''/'' \<notin> set s" by (auto simp: list_all_iff)
qed

lemma decision_paths_proper:
  "re_decision_id did \<Longrightarrow> proper_path (decision_path did)"
  "re_dcr rid \<Longrightarrow> proper_path (decision_receipt_path rid)"
  using name_char_slash [OF conjunct2 [OF re_decision_id_names]] name_char_slash [OF conjunct2 [OF re_dcr_names]]
  by (auto simp: decision_path_def decision_receipt_path_def decisions_root_def tasks_root_def proper_path_def)

subsection \<open>The effect of the operations\<close>

text \<open>A transaction inside one acquisition of the lock.\<close>

lemma decision_transaction:
  assumes st: "usable st" and labels: "well_labelled touched" and scope: "fst ` set writes \<subseteq> fst ` set touched"
  obtains r st' where
    "as_result (transaction env tx_id op key command touched fault writes Returns (locked 1 st)) = (r, locked 1 st')"
    "\<And>e. r = Inl e \<Longrightarrow> files st' = files st"
    "r = Inr () \<Longrightarrow> files st' = run_writes writes (files st) \<and> usable (locked 0 st')"
proof -
  have open': "\<not> recovery_blocked st" "tx_dir st = []" using st by (simp_all add: usable_def)
  obtain out st' where run: "transaction_locked env tx_id op key command touched fault writes Returns st = (out, st')"
    by (rule prod.exhaust)
  have outside: "run_writes writes (files st) p = files st p" if "p \<notin> fst ` set touched" for p
    by (rule run_writes_outside) (use that scope in auto)
  note effect = transaction_effect [OF labels open'(2) outside _ run, simplified]
  have "as_result (transaction env tx_id op key command touched fault writes Returns (locked 1 st))
      = (case out of Returns \<Rightarrow> Inr () | Raises e \<Rightarrow> Inl e | Interrupted \<Rightarrow> Inl OtherError, locked 1 st')"
    by (simp add: transaction_level [OF _ open'(1) run] as_result_def split: body_exit.split)
  then show thesis
    by (rule that) (use effect open'(1) in \<open>auto simp: usable_def no_locks_eq split: body_exit.splits\<close>)
qed

lemma plan_decisionD:
  assumes "plan_decision env fs a = Inr d"
  obtains t where "get_task (de_store env) fs (da_task_id a) = Inr (Some t)"
    "da_task_revision a = None \<or> da_task_revision a = Some (pt_revision t)"
    "check_expiry env (da_expires_at a) = Inr ()"
    "d = new_decision (de_now env) a (pt_revision t)" "decision_ok d"
    "re_decision_id (da_decision_id a)" "fs (decision_path (da_decision_id a)) = None"
proof -
  obtain found where found: "get_task (de_store env) fs (da_task_id a) = Inr found"
    and rest: "(case found of None \<Rightarrow> Inl PyFileNotFound | Some t \<Rightarrow>
     (let revision = (case da_task_revision a of None \<Rightarrow> pt_revision t | Some r \<Rightarrow> r) in
      if revision \<noteq> pt_revision t then Inl PyValueError
      else bindE (check_expiry env (da_expires_at a)) (\<lambda>_.
        bindE (mk_decision (new_decision (de_now env) a revision)) (\<lambda>d.
        if fs (decision_path (da_decision_id a)) \<noteq> None then Inl PyValueError else Inr d)))) = Inr d"
    using assms unfolding plan_decision_def bindE_eq_Inr by blast
  from rest obtain t where t: "found = Some t" by (cases found) auto
  let ?r = "case da_task_revision a of None \<Rightarrow> pt_revision t | Some r \<Rightarrow> r"
  let ?d = "new_decision (de_now env) a ?r"
  from rest t have revision: "?r = pt_revision t" by (auto simp: Let_def split: if_splits)
  with rest t have "bindE (check_expiry env (da_expires_at a)) (\<lambda>_. bindE (mk_decision ?d) (\<lambda>d.
      if fs (decision_path (da_decision_id a)) \<noteq> None then Inl PyValueError else Inr d)) = Inr d" by (simp add: Let_def)
  then have expiry: "check_expiry env (da_expires_at a) = Inr ()" and made: "mk_decision ?d = Inr d"
    and fresh: "fs (decision_path (da_decision_id a)) = None"
    unfolding bindE_eq_Inr by (auto split: if_splits)
  from made have d: "d = ?d" "decision_ok ?d" by (auto simp: mk_decision_def split: if_splits)
  from d(2) have "re_decision_id (da_decision_id a)" by (simp add: decision_ok_def new_decision_def)
  then show thesis
    using that found t revision expiry fresh d by (cases "da_task_revision a") auto
qed

lemma create_decision_effect:
  assumes st: "usable st" and run: "create_decision env tx_id fault a st = (result, st')"
  shows "\<And>e. result = Inl e \<Longrightarrow> files st' = files st"
    and "result = Inr d \<Longrightarrow> plan_decision env (files st) a = Inr d
      \<and> files st' = (files st)(decision_path (da_decision_id a) \<mapsto> decision_text env d) \<and> usable st'"
proof -
  let ?p = "decision_path (da_decision_id a)"
  have "(\<forall>e. result = Inl e \<longrightarrow> files st' = files st) \<and> (\<forall>d. result = Inr d \<longrightarrow>
      plan_decision env (files st) a = Inr d \<and> files st' = (files st)(?p \<mapsto> decision_text env d) \<and> usable st')"
  proof (cases "plan_decision env (files st) a")
    case (Inl e)
    have "create_decision env tx_id fault a st = (Inl e, locked 0 st)"
      unfolding create_decision_def by (rule with_lock_usable [OF st]) (simp add: Inl)
    then show ?thesis using run by auto
  next
    case (Inr d)
    have labels: "well_labelled [(?p, ''decision'')]"
      using plan_decisionD [OF Inr] decision_paths_proper(1) by (auto simp: well_labelled_def)
    have writes: "fst ` set [(?p, Some (decision_text env d))] \<subseteq> fst ` set [(?p, ''decision'')]" by simp
    obtain r s where step: "as_result (transaction (de_store env) tx_id ''decision_create'' None None
        [(?p, ''decision'')] fault [(?p, Some (decision_text env d))] Returns (locked 1 st)) = (r, locked 1 s)"
      and fail: "\<And>e. r = Inl e \<Longrightarrow> files s = files st"
      and ok: "r = Inr () \<Longrightarrow> files s = run_writes [(?p, Some (decision_text env d))] (files st) \<and> usable (locked 0 s)"
      by (rule decision_transaction [OF st labels writes]) blast
    have "create_decision env tx_id fault a st = (case r of Inl e \<Rightarrow> Inl e | Inr _ \<Rightarrow> Inr d, locked 0 s)"
      unfolding create_decision_def
      by (rule with_lock_usable [OF st]) (use step in \<open>simp add: Inr split: sum.split\<close>)
    then show ?thesis using run fail ok Inr by (cases r) (auto simp: run_writes_def)
  qed
  then show "\<And>e. result = Inl e \<Longrightarrow> files st' = files st"
    "result = Inr d \<Longrightarrow> plan_decision env (files st) a = Inr d
      \<and> files st' = (files st)(?p \<mapsto> decision_text env d) \<and> usable st'"
    by blast+
qed

end
