(* ===== verification/Decision_Steps.thy ===== *)
theory Decision_Steps
  imports Decision_Facts
begin

text \<open>
  The effect of a resolution, creations and resolutions that succeed, and the steps of the task
  and decision services on one store.
\<close>

subsection \<open>The effect of a resolution\<close>

text \<open>What a resolution that is accepted has passed.\<close>

lemma plan_resolution_resolveD:
  assumes "plan_resolution env fs a = Inr (Resolve d' r)"
  obtains d input where "get_decision env fs (ra_decision_id a) = Inr (Some d)" "dc_status d = ''pending''"
    "guard_resolution env fs a d = Inr ()" "validate_response d (ra_action a) (ra_input_data a) = Inr input"
    "r = new_decision_receipt env a d" "decision_receipt_ok r"
    "d' = resolved_decision a input r d" "decision_ok d'"
proof -
  obtain found where found: "get_decision env fs (ra_decision_id a) = Inr found"
    using assms unfolding plan_resolution_def bindE_eq_Inr by blast
  then obtain d where d: "found = Some d"
    using assms by (cases found) (simp_all add: plan_resolution_def)
  have pending: "dc_status d = ''pending''"
  proof (rule ccontr)
    assume "dc_status d \<noteq> ''pending''"
    then have "settled_resolution env fs a d = Inr (Resolve d' r)"
      using assms found d by (auto simp: plan_resolution_def split: if_splits)
    then show False by (auto simp: settled_resolution_def bindE_eq_Inr split: option.splits if_splits)
  qed
  have "bindE (guard_resolution env fs a d) (\<lambda>_.
       bindE (validate_response d (ra_action a) (ra_input_data a)) (\<lambda>input.
       bindE (mk_decision_receipt (new_decision_receipt env a d)) (\<lambda>r.
       bindE (validate_decision (de_rt env) (de_now env)
           (JObj (decision_dump (resolved_decision a input r d)))) (\<lambda>d'.
       Inr (Resolve d' r))))) = Inr (Resolve d' r)"
    using assms found d pending by (simp add: plan_resolution_def)
  then obtain input where "guard_resolution env fs a d = Inr ()"
    "validate_response d (ra_action a) (ra_input_data a) = Inr input"
    "mk_decision_receipt (new_decision_receipt env a d) = Inr r"
    "mk_decision (resolved_decision a input r d) = Inr d'"
    unfolding bindE_eq_Inr validate_decision_dump by auto
  then show thesis
    using that found d pending by (auto simp: mk_decision_receipt_def mk_decision_def split: if_splits)
qed

lemma get_decision_id: "get_decision env fs did = Inr (Some d) \<Longrightarrow> re_decision_id did"
  by (auto simp: get_decision_def split: if_splits)

lemma resolve_decision_effect:
  assumes st: "usable st" and run: "resolve_decision env tx_id fault a st = (result, st')"
  shows "\<And>e. result = Inl e \<Longrightarrow> files st' = files st"
    and "result = Inr (d, r) \<Longrightarrow> strip (ra_actor a) \<noteq> [] \<and> usable st' \<and>
      ((plan_resolution env (files st) a = Inr (Settled d r) \<and> files st' = files st)
       \<or> (plan_resolution env (files st) a = Inr (Resolve d r)
          \<and> files st' = (files st)(decision_path (ra_decision_id a) \<mapsto> decision_text env d,
              decision_receipt_path (dr_receipt_id r) \<mapsto> decision_receipt_text env r)))"
proof -
  let ?p = "decision_path (ra_decision_id a)"
  have "(\<forall>e. result = Inl e \<longrightarrow> files st' = files st) \<and> (\<forall>d r. result = Inr (d, r) \<longrightarrow>
      strip (ra_actor a) \<noteq> [] \<and> usable st' \<and>
      ((plan_resolution env (files st) a = Inr (Settled d r) \<and> files st' = files st)
       \<or> (plan_resolution env (files st) a = Inr (Resolve d r)
          \<and> files st' = (files st)(?p \<mapsto> decision_text env d,
              decision_receipt_path (dr_receipt_id r) \<mapsto> decision_receipt_text env r))))"
  proof (cases "strip (ra_actor a) = []")
    case True
    then show ?thesis using run by (auto simp: resolve_decision_def)
  next
    case actor: False
    show ?thesis
    proof (cases "plan_resolution env (files st) a")
      case (Inl e)
      have "resolve_decision env tx_id fault a st = (Inl e, locked 0 st)"
        unfolding resolve_decision_def if_not_P [OF actor] by (rule with_lock_usable [OF st]) (simp add: Inl)
      then show ?thesis using run by auto
    next
      case (Inr p)
      show ?thesis
      proof (cases p)
        case (Settled d r)
        have "resolve_decision env tx_id fault a st = (Inr (d, r), locked 0 st)"
          unfolding resolve_decision_def if_not_P [OF actor]
          by (rule with_lock_usable [OF st]) (simp add: Inr Settled)
        then show ?thesis using run Inr Settled actor locked_0 [OF st] by auto
      next
        case (Resolve d r)
        let ?q = "decision_receipt_path (dr_receipt_id r)"
        let ?ws = "[(?p, Some (decision_text env d)), (?q, Some (decision_receipt_text env r))]"
        have "decision_receipt_ok r" "re_decision_id (ra_decision_id a)"
          using plan_resolution_resolveD [OF Inr [unfolded Resolve]] get_decision_id by metis+
        then have labels: "well_labelled [(?p, ''decision''), (?q, ''receipt'')]"
          using decision_paths_proper by (simp add: well_labelled_def decision_receipt_ok_def)
        have writes: "fst ` set ?ws \<subseteq> fst ` set [(?p, ''decision''), (?q, ''receipt'')]" by simp
        obtain x s where step: "as_result (transaction (de_store env) tx_id ''decision_resolve'' None None
            [(?p, ''decision''), (?q, ''receipt'')] fault ?ws Returns (locked 1 st)) = (x, locked 1 s)"
          and fail: "\<And>e. x = Inl e \<Longrightarrow> files s = files st"
          and ok: "x = Inr () \<Longrightarrow> files s = run_writes ?ws (files st) \<and> usable (locked 0 s)"
          by (rule decision_transaction [OF st labels writes]) blast
        have "resolve_decision env tx_id fault a st
            = (case x of Inl e \<Rightarrow> Inl e | Inr _ \<Rightarrow> Inr (d, r), locked 0 s)"
          unfolding resolve_decision_def if_not_P [OF actor]
          by (rule with_lock_usable [OF st]) (use step in \<open>simp add: Inr Resolve split: sum.split\<close>)
        then show ?thesis using run fail ok Inr Resolve actor by (cases x) (auto simp: run_writes_def)
      qed
    qed
  qed
  then show "\<And>e. result = Inl e \<Longrightarrow> files st' = files st"
    "result = Inr (d, r) \<Longrightarrow> strip (ra_actor a) \<noteq> [] \<and> usable st' \<and>
      ((plan_resolution env (files st) a = Inr (Settled d r) \<and> files st' = files st)
       \<or> (plan_resolution env (files st) a = Inr (Resolve d r)
          \<and> files st' = (files st)(?p \<mapsto> decision_text env d,
              decision_receipt_path (dr_receipt_id r) \<mapsto> decision_receipt_text env r)))"
    by blast+
qed

subsection \<open>Operations that succeed\<close>

lemma decision_labels: "re_label 63 ''decision''" "re_label 63 ''receipt''"
  by code_simp+

lemma decision_files_allowed:
  shows "re_label 127 did \<Longrightarrow> op \<in> {''decision_create'', ''decision_resolve''} \<Longrightarrow>
      allowed_recovery_path (JStr ''decision'') (JStr (as_posix (decision_path did))) (JStr op) = Inr (decision_path did)"
    and "re_dcr rid \<Longrightarrow>
      allowed_recovery_path (JStr ''receipt'') (JStr (as_posix (decision_receipt_path rid))) (JStr ''decision_resolve'')
        = Inr (decision_receipt_path rid)"
proof -
  assume did: "re_label 127 did" and op: "op \<in> {''decision_create'', ''decision_resolve''}"
  obtain labels where labels: "map_of RECOVERY_OPERATION_LABELS op = Some labels" "''decision'' \<in> set labels"
    using op by (auto simp: RECOVERY_OPERATION_LABELS_def)
  have "tasks_file_allowed op ''decision'' [''decisions'', did @ ''.json'']"
    using re_label_removesuffix [OF did]
    by (simp add: tasks_file_allowed_def rel_name_def removesuffix_append ends_with_append)
  then show "allowed_recovery_path (JStr ''decision'') (JStr (as_posix (decision_path did))) (JStr op)
      = Inr (decision_path did)"
    using allowed_tasks_file(2) [OF decision_labels(1) labels, of "[''decisions'', did @ ''.json'']"]
      re_label_names [OF did] decision_names
    by (simp add: decision_path_def decisions_root_def)
next
  assume rid: "re_dcr rid"
  have labels: "map_of RECOVERY_OPERATION_LABELS ''decision_resolve'' = Some [''decision'', ''receipt'']"
    "''receipt'' \<in> set [''decision'', ''receipt'']"
    by (simp_all add: RECOVERY_OPERATION_LABELS_def)
  have "length (drop 4 rid) = 64" using rid by (simp add: re_dcr_def re_receipt_def re_hash_def)
  then have "length rid = 68" unfolding length_drop by arith
  have "\<not> ends_with rid ''.jsonl''"
  proof
    assume "ends_with rid ''.jsonl''"
    then obtain u where u: "rid = u @ ''.jsonl''" by (rule ends_withE)
    have "length u = 62" using \<open>length rid = 68\<close> u by simp
    then have "CHR ''l'' \<in> set (drop 4 rid)" by (simp add: u)
    moreover have "\<not> is_hex (CHR ''l'')" by code_simp
    ultimately show False using rid by (auto simp: re_dcr_def re_receipt_def re_hash_def list_all_iff)
  qed
  then have "tasks_file_allowed ''decision_resolve'' ''receipt'' [''decisions'', ''receipts'', rid @ ''.json'']"
    using rid by (simp add: tasks_file_allowed_def rel_name_def removesuffix_append removesuffix_def [of rid] re_dcr_def)
  then show "allowed_recovery_path (JStr ''receipt'') (JStr (as_posix (decision_receipt_path rid)))
      (JStr ''decision_resolve'') = Inr (decision_receipt_path rid)"
    using allowed_tasks_file(2) [OF decision_labels(2) labels, of "[''decisions'', ''receipts'', rid @ ''.json'']"]
      re_dcr_names [OF rid] decision_names
    by (simp add: decision_receipt_path_def decisions_root_def)
qed

lemma decision_commits:
  assumes st: "usable st"
    and touched: "\<forall>(p, l) \<in> set touched. re_label 63 l \<and> allowed_recovery_path (JStr l) (JStr (as_posix p)) (JStr op) = Inr p
      \<and> bounded_file (files st p) \<and> bounded_file (run_writes writes (files st) p)"
  shows "as_result (transaction env tx_id op None None touched None writes Returns (locked 1 st))
    = (Inr (), locked 1 (st\<lparr>files := run_writes writes (files st)\<rparr>))"
    and "usable (locked 0 (st\<lparr>files := run_writes writes (files st)\<rparr>))"
proof -
  let ?st = "st\<lparr>files := run_writes writes (files st)\<rparr>"
  have open': "\<not> recovery_blocked st" "tx_dir st = []" using st by (simp_all add: usable_def)
  have "transaction_locked env tx_id op None None touched None writes Returns st = (Returns, ?st)"
    by (rule transaction_succeeds [OF touched open'(2)])
  then show "as_result (transaction env tx_id op None None touched None writes Returns (locked 1 st))
      = (Inr (), locked 1 ?st)"
    using transaction_level [OF _ open'(1), of 1] by (simp add: as_result_def)
  show "usable (locked 0 ?st)" using open' by (simp add: usable_def no_locks_eq)
qed

lemma create_decision_succeeds:
  assumes st: "usable st" and plan: "plan_decision env (files st) a = Inr d"
    and did: "re_label 127 (da_decision_id a)" and short: "length (decision_text env d) \<le> MAX_TASK_STATE_BYTES"
  defines "st' \<equiv> st\<lparr>files := (files st)(decision_path (da_decision_id a) \<mapsto> decision_text env d)\<rparr>"
  shows "create_decision env tx_id None a st = (Inr d, locked 0 st')" "usable (locked 0 st')"
proof -
  let ?p = "decision_path (da_decision_id a)"
  let ?w = "[(?p, Some (decision_text env d))]"
  have w: "run_writes ?w (files st) = (files st)(?p \<mapsto> decision_text env d)" by (simp add: run_writes_def)
  have "files st ?p = None" using plan by (rule plan_decisionD)
  then have touched: "\<forall>(p, l) \<in> set [(?p, ''decision'')]. re_label 63 l
      \<and> allowed_recovery_path (JStr l) (JStr (as_posix p)) (JStr ''decision_create'') = Inr p
      \<and> bounded_file (files st p) \<and> bounded_file (run_writes ?w (files st) p)"
    using short did by (simp add: decision_labels decision_files_allowed bounded_file_def w)
  note done' = decision_commits [OF st touched, unfolded w, folded st'_def]
  show "create_decision env tx_id None a st = (Inr d, locked 0 st')"
    unfolding create_decision_def by (rule with_lock_usable [OF st]) (simp add: plan done'(1) [unfolded One_nat_def])
  show "usable (locked 0 st')" by (rule done'(2))
qed

lemma resolve_decision_succeeds:
  assumes st: "usable st" and actor: "strip (ra_actor a) \<noteq> []"
    and plan: "plan_resolution env (files st) a = Inr (Resolve d r)"
    and did: "re_label 127 (ra_decision_id a)"
    and short: "length (decision_text env d) \<le> MAX_TASK_STATE_BYTES"
      "length (decision_receipt_text env r) \<le> MAX_TASK_STATE_BYTES"
      "bounded_file (files st (decision_path (ra_decision_id a)))"
      "bounded_file (files st (decision_receipt_path (dr_receipt_id r)))"
  defines "st' \<equiv> st\<lparr>files := (files st)(decision_path (ra_decision_id a) \<mapsto> decision_text env d,
      decision_receipt_path (dr_receipt_id r) \<mapsto> decision_receipt_text env r)\<rparr>"
  shows "resolve_decision env tx_id None a st = (Inr (d, r), locked 0 st')" "usable (locked 0 st')"
proof -
  let ?p = "decision_path (ra_decision_id a)" and ?q = "decision_receipt_path (dr_receipt_id r)"
  let ?w = "[(?p, Some (decision_text env d)), (?q, Some (decision_receipt_text env r))]"
  have w: "run_writes ?w (files st) = (files st)(?p \<mapsto> decision_text env d, ?q \<mapsto> decision_receipt_text env r)"
    by (simp add: run_writes_def)
  have "re_dcr (dr_receipt_id r)"
    using plan by (rule plan_resolution_resolveD) (simp add: decision_receipt_ok_def)
  then have touched: "\<forall>(p, l) \<in> set [(?p, ''decision''), (?q, ''receipt'')]. re_label 63 l
      \<and> allowed_recovery_path (JStr l) (JStr (as_posix p)) (JStr ''decision_resolve'') = Inr p
      \<and> bounded_file (files st p) \<and> bounded_file (run_writes ?w (files st) p)"
    using short did by (simp add: decision_labels decision_files_allowed w) (simp add: bounded_file_def)
  note done' = decision_commits [OF st touched, unfolded w, folded st'_def]
  show "resolve_decision env tx_id None a st = (Inr (d, r), locked 0 st')"
    unfolding resolve_decision_def if_not_P [OF actor]
    by (rule with_lock_usable [OF st]) (simp add: plan done'(1) [unfolded One_nat_def])
  show "usable (locked 0 st')" by (rule done'(2))
qed

end
