(* ===== verification/Sample_Decision.thy ===== *)
theory Sample_Decision
  imports Decision_Steps Sample_Service
begin

text \<open>
  A decision on the sample task, asked for and granted with an input, on which the theorems on the
  decision service are exercised. The parser of its environment reads back its three texts.
\<close>

definition ask_args :: "string \<Rightarrow> decision_args" where
  "ask_args did = \<lparr>da_decision_id = did, da_task_id = ''t1'', da_title = ''Budget'',
     da_requested_by = ''local'', da_task_revision = Some 1, da_proposal_id = None,
     da_proposal_sha256 = Some hex_b, da_description = [], da_risk_level = ''high'',
     da_required_authority = ''apply'', da_allowed_actors = Some [''olena''],
     da_response_schema = Some [(''budget'', ''number'')], da_expires_at = Some ''2026-02-01T00:00:00Z''\<rparr>"

definition asked :: "string \<Rightarrow> decision" where
  "asked did = new_decision (se_now sample_env) (ask_args did) 1"

definition grant_args :: resolve_args where
  "grant_args = \<lparr>ra_decision_id = ''dec_1'', ra_action = ''provide_input'', ra_actor = ''olena'',
     ra_authority = ''apply'', ra_proposal_sha256 = Some hex_b,
     ra_input_data = Some [(''budget'', JInt 5)], ra_comment = Some ''fine''\<rparr>"

definition grant_receipt :: decision_receipt where
  "grant_receipt = \<lparr>dr_receipt_id = ''dcr_'' @ hex_b, dr_decision_id = ''dec_1'', dr_task_id = ''t1'',
     dr_task_revision = 1, dr_action = ''provide_input'', dr_actor = ''olena'',
     dr_response_sha256 = hex_b, dr_created_at = se_now sample_env\<rparr>"

definition granted :: decision where
  "granted = resolved_decision grant_args (Some [(''budget'', JInt 5)]) grant_receipt (asked ''dec_1'')"

definition bare_env :: decision_env where
  "bare_env = \<lparr>de_store = service_env blocked_task blocked_event, de_parse = (\<lambda>_. None),
     de_utc = (\<lambda>_. Some 10), de_clock = 0\<rparr>"

definition decision_sample :: decision_env where
  "decision_sample = bare_env\<lparr>de_parse := map_of
     [(decision_text bare_env (asked ''dec_1''), sort_keys (JObj (decision_dump (asked ''dec_1'')))),
      (decision_text bare_env granted, sort_keys (JObj (decision_dump granted))),
      (decision_receipt_text bare_env grant_receipt, sort_keys (JObj (decision_receipt_dump grant_receipt)))]\<rparr>"

definition asked_store :: task_store where
  "asked_store = locked 0 (service_store\<lparr>files := (files service_store)
     (decision_path ''dec_1'' \<mapsto> decision_text bare_env (asked ''dec_1''))\<rparr>)"

definition granted_store :: task_store where
  "granted_store = locked 0 (asked_store\<lparr>files := (files asked_store)
     (decision_path ''dec_1'' \<mapsto> decision_text bare_env granted,
      decision_receipt_path (dr_receipt_id grant_receipt) \<mapsto> decision_receipt_text bare_env grant_receipt)\<rparr>)"

lemma decision_sample_simps [simp]:
  "de_store bare_env = service_env blocked_task blocked_event" "de_store decision_sample = de_store bare_env"
  "de_utc decision_sample = (\<lambda>_. Some 10)" "de_clock decision_sample = 0"
  by (simp_all add: decision_sample_def bare_env_def)

lemma decision_sample_texts [simp]:
  "decision_text decision_sample = decision_text bare_env"
  "decision_receipt_text decision_sample = decision_receipt_text bare_env"
  by (simp_all only: fun_eq_iff decision_text_def decision_receipt_text_def decision_sample_simps simp_thms)

subsection \<open>Its texts\<close>

lemma decision_plain:
  "plain_json (sort_keys (JObj (decision_dump (asked ''dec_1''))))"
  "plain_json (sort_keys (JObj (decision_dump granted)))"
  "plain_json (sort_keys (JObj (decision_receipt_dump grant_receipt)))"
  by code_simp+

lemma decision_apart:
  "apart [indent_len 0 (sort_keys (JObj (decision_dump (asked ''dec_1'')))),
     indent_len 0 (sort_keys (JObj (decision_dump granted))),
     indent_len 0 (sort_keys (JObj (decision_receipt_dump grant_receipt)))]"
  by code_simp

lemma indent_text_len: "plain_json j \<Longrightarrow> len (json_indent rt 0 j) = indent_len 0 j"
  using json_indent_plain(1) [of j rt 0] by simp

lemma decision_lens:
  "plain_json (sort_keys (JObj (decision_dump d))) \<Longrightarrow>
     len (decision_text env d) = indent_len 0 (sort_keys (JObj (decision_dump d)))"
  "plain_json (sort_keys (JObj (decision_receipt_dump r))) \<Longrightarrow>
     len (decision_receipt_text env r) = indent_len 0 (sort_keys (JObj (decision_receipt_dump r)))"
  unfolding decision_text_def decision_receipt_text_def by (erule indent_text_len)+

lemma decision_short:
  "length (decision_text bare_env (asked ''dec_1'')) \<le> MAX_TASK_STATE_BYTES"
  "length (decision_text bare_env granted) \<le> MAX_TASK_STATE_BYTES"
  "length (decision_receipt_text bare_env grant_receipt) \<le> MAX_TASK_STATE_BYTES"
proof -
  have "len (decision_text bare_env (asked ''dec_1'')) \<le> 9000" "len (decision_text bare_env granted) \<le> 9000"
    "len (decision_receipt_text bare_env grant_receipt) \<le> 9000"
    using decision_apart unfolding apart_def decision_lens(1) [OF decision_plain(1)]
      decision_lens(1) [OF decision_plain(2)] decision_lens(2) [OF decision_plain(3)] by simp_all
  then show "length (decision_text bare_env (asked ''dec_1'')) \<le> MAX_TASK_STATE_BYTES"
    "length (decision_text bare_env granted) \<le> MAX_TASK_STATE_BYTES"
    "length (decision_receipt_text bare_env grant_receipt) \<le> MAX_TASK_STATE_BYTES"
    unfolding len_length MAX_TASK_STATE_BYTES_def by simp_all
qed

lemma decision_parses:
  "de_parse decision_sample (decision_text bare_env (asked ''dec_1'')) = Some (sort_keys (JObj (decision_dump (asked ''dec_1''))))"
  "de_parse decision_sample (decision_text bare_env granted) = Some (sort_keys (JObj (decision_dump granted)))"
  "de_parse decision_sample (decision_receipt_text bare_env grant_receipt)
     = Some (sort_keys (JObj (decision_receipt_dump grant_receipt)))"
proof -
  have "distinct (map len [decision_text bare_env (asked ''dec_1''), decision_text bare_env granted,
      decision_receipt_text bare_env grant_receipt])"
    using decision_apart unfolding apart_def list.map decision_lens(1) [OF decision_plain(1)]
      decision_lens(1) [OF decision_plain(2)] decision_lens(2) [OF decision_plain(3)] by (rule conjunct1)
  then have "decision_text bare_env (asked ''dec_1'') \<noteq> decision_text bare_env granted"
    "decision_text bare_env (asked ''dec_1'') \<noteq> decision_receipt_text bare_env grant_receipt"
    "decision_text bare_env granted \<noteq> decision_receipt_text bare_env grant_receipt" by auto
  then show "de_parse decision_sample (decision_text bare_env (asked ''dec_1'')) = Some (sort_keys (JObj (decision_dump (asked ''dec_1''))))"
    "de_parse decision_sample (decision_text bare_env granted) = Some (sort_keys (JObj (decision_dump granted)))"
    "de_parse decision_sample (decision_receipt_text bare_env grant_receipt)
       = Some (sort_keys (JObj (decision_receipt_dump grant_receipt)))"
    unfolding decision_sample_def by (simp_all del: sort_keys.simps)
qed

subsection \<open>Asking and granting\<close>

lemma sample_ids_ok:
  "re_decision_id ''dec_1''" "re_decision_id ''dec_a:b''" "re_label 127 ''dec_1''"
  "decision_ok (asked ''dec_1'')" "decision_ok (asked ''dec_a:b'')" "decision_ok granted"
  "decision_receipt_ok grant_receipt" "key_sorted (asked ''dec_1'') = asked ''dec_1''"
  "strip ''olena'' \<noteq> []"
  "validate_response (asked ''dec_1'') ''provide_input'' (Some [(''budget'', JInt 5)]) = Inr (Some [(''budget'', JInt 5)])"
  by code_simp+

lemma sample_paths:
  "decision_path did \<noteq> task_file tid" "decision_path did \<noteq> events_file tid" "decision_path did \<noteq> [''plan.md'']"
  "decision_receipt_path rid \<noteq> task_file tid" "decision_receipt_path rid \<noteq> decision_path did"
  "decision_receipt_path rid \<noteq> events_file tid" "decision_receipt_path rid \<noteq> [''plan.md'']"
  by (simp_all add: decision_path_def decision_receipt_path_def decisions_root_def tasks_root_def task_file_def
      events_file_def)

lemma sample_task_read:
  assumes "fs (task_file ''t1'') = files service_store (task_file ''t1'')"
  shows "get_task (de_store decision_sample) fs ''t1'' = Inr (Some plan_task)"
proof -
  have "stored (service_env blocked_task blocked_event) (files service_store) ''t1'' plan_task [plan_created]"
    by (rule service_stored [OF blocked_texts])
  then show ?thesis
    using get_task_durable [of "service_env blocked_task blocked_event" plan_task fs] assms
    by (simp add: stored_def)
qed

lemma service_decisions: "files service_store (decision_path did) = None" "files service_store (decision_receipt_path rid) = None"
  by (simp_all add: service_store_def sample_paths empty_store_def)

lemma sample_expiry: "check_expiry decision_sample (Some x) = Inr ()"
  by (simp add: check_expiry_def parse_timestamp_def service_env_def plain_env_def sample_env_def)

lemma ask_args_simps [simp]:
  "da_decision_id (ask_args did) = did" "da_task_id (ask_args did) = ''t1''"
  "da_task_revision (ask_args did) = Some 1" "da_expires_at (ask_args did) = Some ''2026-02-01T00:00:00Z''"
  by (simp_all add: ask_args_def)

lemma ask_planned:
  assumes "did \<in> {''dec_1'', ''dec_a:b''}"
  shows "plan_decision decision_sample (files service_store) (ask_args did) = Inr (asked did)"
proof -
  have "decision_ok (asked did)" using assms sample_ids_ok by auto
  moreover have "new_decision (de_now decision_sample) (ask_args did) 1 = asked did" by (simp add: asked_def sample_ids)
  ultimately show ?thesis
    using sample_task_read [of "files service_store"] sample_expiry
    by (simp add: plan_decision_def mk_decision_def service_decisions)
qed

lemma asked_created:
  "create_decision decision_sample tx_id None (ask_args ''dec_1'') service_store
     = (Inr (asked ''dec_1''), asked_store)" "usable asked_store"
  using create_decision_succeeds(1) [OF service_usable ask_planned [of "''dec_1''"], of tx_id]
    create_decision_succeeds(2) [OF service_usable ask_planned [of "''dec_1''"]] decision_short(1) sample_ids_ok(3)
  by (simp_all add: asked_store_def)

lemma asked_store_files:
  "files asked_store = (files service_store)(decision_path ''dec_1'' \<mapsto> decision_text bare_env (asked ''dec_1''))"
  by (simp add: asked_store_def)

lemma asked_read: "get_decision decision_sample (files asked_store) ''dec_1'' = Inr (Some (asked ''dec_1''))"
proof -
  let ?c = "decision_text bare_env (asked ''dec_1'')"
  have parsed: "parse_file decision_sample ?c = Inr (sort_keys (JObj (decision_dump (asked ''dec_1''))))"
    using decision_parses(1) decision_short(1) by (simp add: parse_file_def read_secure_def del: sort_keys.simps)
  have "effective_decision decision_sample (asked ''dec_1'') = Inr (asked ''dec_1'')"
    by (simp add: effective_decision_def parse_timestamp_def service_env_def plain_env_def sample_env_def
        split: option.split)
  then show ?thesis
    unfolding get_decision_def
    by (simp add: asked_store_files sample_ids_ok parsed validate_sorted_decision malformed_def del: sort_keys.simps)
qed

lemma grant_args_simps [simp]:
  "ra_decision_id grant_args = ''dec_1''" "ra_action grant_args = ''provide_input''"
  "ra_actor grant_args = ''olena''" "ra_authority grant_args = ''apply''"
  "ra_proposal_sha256 grant_args = Some hex_b" "ra_input_data grant_args = Some [(''budget'', JInt 5)]"
  by (simp_all add: grant_args_def)

lemma asked_simps [simp]:
  "dc_status (asked did) = ''pending''" "dc_allowed_actors (asked did) = [''olena'']"
  "dc_required_authority (asked did) = ''apply''" "dc_proposal_sha256 (asked did) = Some hex_b"
  "dc_task_id (asked did) = ''t1''" "dc_task_revision (asked did) = 1" "dc_decision_id (asked did) = did"
  by (simp_all add: asked_def new_decision_def ask_args_def)

lemma grant_planned: "plan_resolution decision_sample (files asked_store) grant_args = Inr (Resolve granted grant_receipt)"
proof -
  have receipt: "new_decision_receipt decision_sample grant_args (asked ''dec_1'') = grant_receipt"
    by (simp add: new_decision_receipt_def response_digest_def digest_payload_def grant_receipt_def sample_ids)
  have task: "get_task (de_store decision_sample) (files asked_store) ''t1'' = Inr (Some plan_task)"
    by (rule sample_task_read) (simp add: asked_store_files sample_paths [symmetric])
  have guard: "guard_resolution decision_sample (files asked_store) grant_args (asked ''dec_1'') = Inr ()"
    unfolding guard_resolution_def asked_simps task by simp
  have "validate_decision rt now (JObj (decision_dump granted)) = Inr granted" for rt now
    by (simp add: validate_decision_dump mk_decision_def sample_ids_ok)
  then show ?thesis
    unfolding plan_resolution_def
    by (simp add: asked_read guard sample_ids_ok receipt mk_decision_receipt_def granted_def [symmetric])
qed

lemma grant_resolved:
  "resolve_decision decision_sample tx_id None grant_args asked_store = (Inr (granted, grant_receipt), granted_store)"
  "usable granted_store"
proof -
  have "strip (ra_actor grant_args) \<noteq> []" "re_label 127 (ra_decision_id grant_args)"
    "bounded_file (files asked_store (decision_path (ra_decision_id grant_args)))"
    "bounded_file (files asked_store (decision_receipt_path (dr_receipt_id grant_receipt)))"
    using decision_short(1) by (simp_all add: sample_ids_ok bounded_file_def sample_paths service_decisions asked_store_files)
  note done' = resolve_decision_succeeds [OF asked_created(2) this(1) grant_planned this(2) _ _ this(3,4)]
  show "resolve_decision decision_sample tx_id None grant_args asked_store = (Inr (granted, grant_receipt), granted_store)"
    "usable granted_store"
    using done'(1) [of tx_id] done'(2) decision_short by (simp_all add: granted_store_def)
qed

end
