(* ===== verification/Decision_Properties.thy ===== *)
theory Decision_Properties
  imports Sample_Decision "HOL-Library.Multiset"
begin

text \<open>
  The properties of the decision service: what a resolution requires, that it happens once and
  stays, that it can be repeated, the identifiers the store cannot hold, and the pages of a listing.
\<close>

subsection \<open>What a resolution requires\<close>

text \<open>
  The input of a resolution against the response schema: exactly the fields of the schema, each
  of its type and no text longer than 4096 characters; the decision keeps these values.
\<close>

definition answers :: "decision \<Rightarrow> string \<Rightarrow> payload option \<Rightarrow> payload option \<Rightarrow> bool" where
  "answers d action input kept =
     (if action \<noteq> ''provide_input'' then (input = None \<or> input = Some []) \<and> kept = None
      else \<exists>p q. input = Some p \<and> kept = Some q \<and> p \<noteq> []
        \<and> set (map fst p) = set (map fst (dc_response_schema d))
        \<and> map fst q = map fst (dc_response_schema d)
        \<and> (\<forall>(f, t) \<in> set (dc_response_schema d). \<exists>v. map_of p f = Some v \<and> (f, v) \<in> set q \<and> matches_type v t
             \<and> (\<forall>s. v = JStr s \<longrightarrow> char_count s \<le> 4096)))"

lemma validate_fields:
  assumes "mapE (validate_field p) fs = Inr q"
  shows "q = map (\<lambda>(f, t). (f, jget p f)) fs"
    "\<forall>(f, t) \<in> set fs. matches_type (jget p f) t \<and> (\<forall>s. jget p f = JStr s \<longrightarrow> char_count s \<le> 4096)"
proof -
  have "q = map (\<lambda>(f, t). (f, jget p f)) fs \<and>
    (\<forall>(f, t) \<in> set fs. matches_type (jget p f) t \<and> (\<forall>s. jget p f = JStr s \<longrightarrow> char_count s \<le> 4096))"
    using assms
  proof (induction fs arbitrary: q)
    case (Cons x fs)
    then obtain y ys where "validate_field p x = Inr y" "mapE (validate_field p) fs = Inr ys" "q = y # ys"
      by (auto simp: bindE_eq_Inr)
    moreover have "y = (fst x, jget p (fst x)) \<and> matches_type (jget p (fst x)) (snd x)
        \<and> (\<forall>s. jget p (fst x) = JStr s \<longrightarrow> char_count s \<le> 4096)"
      using calculation(1) by (auto simp: validate_field_def split: if_splits)
    ultimately show ?case using Cons.IH [of ys] by (cases x) simp
  qed simp
  then show "q = map (\<lambda>(f, t). (f, jget p f)) fs"
    "\<forall>(f, t) \<in> set fs. matches_type (jget p f) t \<and> (\<forall>s. jget p f = JStr s \<longrightarrow> char_count s \<le> 4096)"
    by blast+
qed

lemma validate_response_answers:
  assumes "validate_response d action input = Inr kept"
  shows "answers d action input kept"
proof (cases "action = ''provide_input''")
  case False
  then show ?thesis using assms by (auto simp: validate_response_def answers_def split: if_splits)
next
  case True
  let ?fs = "dc_response_schema d"
  obtain p q where p: "input = Some p" "kept = Some q" "?fs \<noteq> []" "set (map fst p) = set (map fst ?fs)"
    "mapE (validate_field p) ?fs = Inr q"
    using assms True by (auto simp: validate_response_def bindE_eq_Inr split: if_splits option.splits)
  note q = validate_fields [OF p(5)]
  have "\<exists>v. map_of p f = Some v \<and> (f, v) \<in> set q \<and> matches_type v t \<and> (\<forall>s. v = JStr s \<longrightarrow> char_count s \<le> 4096)"
    if "(f, t) \<in> set ?fs" for f t
  proof -
    have "f \<in> set (map fst p)" unfolding p(4) using that by force
    then obtain v where v: "map_of p f = Some v" by (metis map_of_eq_None_iff not_None_eq set_map)
    then have "jget p f = v" by (simp add: jget_def)
    with q that v show ?thesis by force
  qed
  moreover have "map fst q = map fst ?fs" unfolding q(1) by (auto simp: comp_def split_def)
  moreover have "p \<noteq> []" using p(3,4) by (cases p) auto
  ultimately show ?thesis using True p by (auto simp: answers_def)
qed

lemma guard_resolutionD:
  assumes "guard_resolution env fs a d = Inr ()"
  shows "''*'' \<in> set (dc_allowed_actors d) \<or> ra_actor a \<in> set (dc_allowed_actors d)"
    "AUTHORITY_RANK (dc_required_authority d) \<le> AUTHORITY_RANK (ra_authority a)"
    "dc_proposal_sha256 d = None \<or> ra_proposal_sha256 a = dc_proposal_sha256 d"
    "\<exists>t. get_task (de_store env) fs (dc_task_id d) = Inr (Some t) \<and> pt_revision t = dc_task_revision d"
  using assms by (auto simp: guard_resolution_def bindE_eq_Inr split: if_splits option.splits)

lemma pending_unexpired:
  assumes "get_decision env fs did = Inr (Some d)" "dc_status d = ''pending''" "dc_expires_at d = Some x"
  shows "\<exists>t. parse_timestamp env x = Inr t \<and> de_clock env < t"
proof -
  obtain d0 where d0: "effective_decision env d0 = Inr d"
    using assms(1) by (auto simp: get_decision_def malformed_def bindE_eq_Inr split: if_splits option.splits sum.splits)
  have expired: "dc_status y = ''expired''"
    if "mk_decision (z\<lparr>dc_status := ''expired''\<rparr>) = Inr y" for y z
    using that by (auto simp: mk_decision_def split: if_splits)
  have dump: "AList.update ''status'' (JStr s) (decision_dump z) = decision_dump (z\<lparr>dc_status := s\<rparr>)" for s z
    by (simp add: decision_dump_def)
  show ?thesis
    using d0 assms(2,3) expired
    by (force simp: effective_decision_def bindE_eq_Inr dump validate_decision_dump split: if_splits option.splits)
qed

text \<open>
  C13. A resolution takes effect only when every binding of the decision still holds. When it changes
  a file, the stored decision was pending and not expired, the actor was allowed and had the required
  authority, the proposal was the one of the decision, the task was at the revision of the decision,
  and the input answered the response schema; the files that change are the decision, now with its
  outcome, and the receipt named by the digest of the response, both well-formed.
\<close>

theorem resolution_holds_every_binding:
  assumes "usable st" "resolve_decision env tx_id fault a st = (Inr (d', r), st')" "files st' \<noteq> files st"
  shows "\<exists>d. get_decision env (files st) (ra_decision_id a) = Inr (Some d) \<and> dc_status d = ''pending''
    \<and> (\<forall>x. dc_expires_at d = Some x \<longrightarrow> (\<exists>t. parse_timestamp env x = Inr t \<and> de_clock env < t))
    \<and> (''*'' \<in> set (dc_allowed_actors d) \<or> ra_actor a \<in> set (dc_allowed_actors d))
    \<and> AUTHORITY_RANK (dc_required_authority d) \<le> AUTHORITY_RANK (ra_authority a)
    \<and> (dc_proposal_sha256 d = None \<or> ra_proposal_sha256 a = dc_proposal_sha256 d)
    \<and> (\<exists>t. get_task (de_store env) (files st) (dc_task_id d) = Inr (Some t) \<and> pt_revision t = dc_task_revision d)
    \<and> answers d (ra_action a) (ra_input_data a) (dc_resolution_input d')
    \<and> dr_receipt_id r = ''dcr_'' @ response_digest (de_rt env) a d
    \<and> dc_status d' = (if ra_action a = ''reject'' then ''rejected'' else ''approved'')
    \<and> dc_receipt_id d' = Some (dr_receipt_id r) \<and> decision_ok d' \<and> decision_receipt_ok r
    \<and> files st' = (files st)(decision_path (ra_decision_id a) \<mapsto> decision_text env d',
        decision_receipt_path (dr_receipt_id r) \<mapsto> decision_receipt_text env r)"
proof -
  from resolve_decision_effect(2) [OF assms(1,2)] assms(3)
  have plan: "plan_resolution env (files st) a = Inr (Resolve d' r)"
    and files: "files st' = (files st)(decision_path (ra_decision_id a) \<mapsto> decision_text env d',
        decision_receipt_path (dr_receipt_id r) \<mapsto> decision_receipt_text env r)" by auto
  from plan obtain d input where d: "get_decision env (files st) (ra_decision_id a) = Inr (Some d)"
    "dc_status d = ''pending''" "guard_resolution env (files st) a d = Inr ()"
    "validate_response d (ra_action a) (ra_input_data a) = Inr input"
    "r = new_decision_receipt env a d" "decision_receipt_ok r"
    "d' = resolved_decision a input r d" "decision_ok d'" by (rule plan_resolution_resolveD)
  have action: "ra_action a \<in> {''approve'', ''reject'', ''provide_input''}"
    using d(5,6) by (simp add: decision_receipt_ok_def new_decision_receipt_def DECISION_ACTIONS_def)
  have same: "dc_resolution_input d' = input" "dc_receipt_id d' = Some (dr_receipt_id r)"
    "dr_receipt_id r = ''dcr_'' @ response_digest (de_rt env) a d"
    "dc_status d' = (if ra_action a = ''reject'' then ''rejected'' else ''approved'')"
    using action by (auto simp: d(5,7) resolved_decision_def new_decision_receipt_def)
  have answered: "answers d (ra_action a) (ra_input_data a) (dc_resolution_input d')"
    unfolding same by (rule validate_response_answers [OF d(4)])
  show ?thesis
    by (intro exI [of _ d] conjI allI impI)
      (fact d guard_resolutionD [OF d(3)] answered same files | erule pending_unexpired [OF d(1,2)])+
qed

lemma granted_files: "files granted_store \<noteq> files asked_store"
proof -
  have "files granted_store (decision_receipt_path (dr_receipt_id grant_receipt)) \<noteq> None"
    by (simp add: granted_store_def)
  moreover have "files asked_store (decision_receipt_path (dr_receipt_id grant_receipt)) = None"
    by (simp add: asked_store_files sample_paths service_decisions)
  ultimately show ?thesis by metis
qed

theorem resolution_holds_every_binding_witness:
  "\<exists>d. get_decision decision_sample (files asked_store) ''dec_1'' = Inr (Some d)
     \<and> dc_status d = ''pending'' \<and> ''olena'' \<in> set (dc_allowed_actors d)
     \<and> answers d ''provide_input'' (Some [(''budget'', JInt 5)]) (dc_resolution_input granted)"
  using resolution_holds_every_binding [OF asked_created(2) grant_resolved(1) granted_files] asked_read by force

subsection \<open>Decisions are resolved once\<close>

text \<open>
  The commands of the two services on one vault, one after the other. They may use different clocks
  and times; the parsers of files and the runtime stay the same.
\<close>

definition same_reader :: "decision_env \<Rightarrow> decision_env \<Rightarrow> bool" where
  "same_reader env env' = (de_parse env' = de_parse env \<and> de_rt env' = de_rt env)"

inductive service_step :: "decision_env \<Rightarrow> task_store \<Rightarrow> task_store \<Rightarrow> bool" for env where
  created: "usable st \<Longrightarrow> same_reader env env' \<Longrightarrow> create_decision env' tx_id fault a st = (x, st') \<Longrightarrow>
    service_step env st st'"
| resolved: "usable st \<Longrightarrow> same_reader env env' \<Longrightarrow> resolve_decision env' tx_id fault b st = (y, st') \<Longrightarrow>
    service_step env st st'"
| task_created: "usable st \<Longrightarrow> create_task tenv tx_id fault c st = (z, st') \<Longrightarrow> service_step env st st'"
| task_moved: "usable st \<Longrightarrow> transition_task tenv tx_id fault m st = (z, st') \<Longrightarrow> service_step env st st'"

text \<open>The status that a file holds does not depend on the environment that reads it.\<close>

lemma read_decision_status:
  assumes "read_decision rt now e = Inr d"
  shows "str_fld e ''status'' ''pending'' = Inr (dc_status d)"
proof -
  from assms obtain s where "str_fld e ''status'' ''pending'' = Inr s" "dc_status d = s"
    unfolding read_decision_def bindE_eq_Inr by (elim exE conjE) (simp, metis decision.select_convs(9))
  then show ?thesis by simp
qed

definition stored_status :: "decision_env \<Rightarrow> filesystem \<Rightarrow> string \<Rightarrow> string option" where
  "stored_status env fs did = (case fs (decision_path did) of None \<Rightarrow> None | Some c \<Rightarrow>
     (case parse_file env c of Inr (JObj e) \<Rightarrow>
        (case str_fld e ''status'' ''pending'' of Inr s \<Rightarrow> Some s | _ \<Rightarrow> None) | _ \<Rightarrow> None))"

lemma effective_status:
  assumes "effective_decision env d0 = Inr d"
  shows "dc_status d0 = dc_status d \<or> dc_status d0 = ''pending'' \<and> dc_status d = ''expired''"
proof (cases "d = d0")
  case False
  have dump: "AList.update ''status'' (JStr s) (decision_dump z) = decision_dump (z\<lparr>dc_status := s\<rparr>)" for s z
    by (simp add: decision_dump_def)
  have "mk_decision (d0\<lparr>dc_status := ''expired''\<rparr>) = Inr d \<and> dc_status d0 = ''pending''"
    using assms False unfolding effective_decision_def dump validate_decision_dump
    by (auto simp: bindE_eq_Inr split: if_splits option.splits)
  then show ?thesis by (auto simp: mk_decision_def split: if_splits)
qed simp

lemma get_decision_stored:
  assumes "get_decision env fs did = Inr (Some d)"
  obtains s where "stored_status env fs did = Some s"
    "s = dc_status d \<or> s = ''pending'' \<and> dc_status d = ''expired''"
proof -
  obtain c j d0 where c: "fs (decision_path did) = Some c" "parse_file env c = Inr j"
    "validate_decision (de_rt env) (de_now env) j = Inr d0" "effective_decision env d0 = Inr d"
    using assms by (auto simp: get_decision_def malformed_def bindE_eq_Inr split: if_splits option.splits sum.splits)
  obtain e where e: "j = JObj e" "read_decision (de_rt env) (de_now env) e = Inr d0"
    using c(3) by (auto simp: validate_decision_def bindE_eq_Inr value_error_eq_Inr mk_decision_def
        split: json.splits if_splits)
  have "stored_status env fs did = Some (dc_status d0)"
    using read_decision_status [OF e(2)] c(1,2) e(1) by (simp add: stored_status_def)
  then show thesis using that effective_status [OF c(4)] by blast
qed

lemma stored_status_reader: "same_reader env env' \<Longrightarrow> stored_status env' fs did = stored_status env fs did"
proof -
  assume "same_reader env env'"
  then have "parse_file env' = parse_file env" by (simp add: fun_eq_iff parse_file_def same_reader_def)
  then show ?thesis unfolding stored_status_def by (rule ssubst) (rule refl)
qed

lemma pending_stored:
  assumes "get_decision env fs did = Inr (Some d)" "dc_status d = ''pending''"
  shows "stored_status env fs did = Some ''pending''"
  by (rule get_decision_stored [OF assms(1)]) (use assms(2) in simp)

lemma plan_resolution_pending:
  assumes "plan_resolution env fs a = Inr (Resolve d' r)"
  shows "stored_status env fs (ra_decision_id a) = Some ''pending''"
  by (rule plan_resolution_resolveD [OF assms]) (rule pending_stored)

lemma run_plan_keeps_decisions:
  assumes st: "usable st" and seq: "\<And>t e r. plan (files st) = Inr (Save t e r) \<Longrightarrow> 0 \<le> te_sequence e"
    and run: "run_plan env tx_id key command fault plan st = (z, st')"
  shows "files st' (decision_path did) = files st (decision_path did)"
proof (cases z)
  case (Inl x)
  have "files st' = files st" by (rule run_plan_effect(1) [OF st _ run Inl]) (rule seq)
  then show ?thesis by simp
next
  case (Inr t)
  have "decision_path did \<notin> fst ` set (save_touched t (Some e) r)" for e r
    by (cases r) (auto simp: save_touched_def)
  then have "run_writes (fst (save_body env (files st) t (Some e) r)) (files st) (decision_path did)
      = files st (decision_path did)" for e r
    by (rule save_body_scope)
  moreover have "files st' = files st
      \<or> (\<exists>e r. files st' = run_writes (fst (save_body env (files st) t (Some e) r)) (files st))"
    using run_plan_effect(2) [OF st _ run Inr] seq by blast
  ultimately show ?thesis by auto
qed

lemma task_commands_keep_decisions:
  "usable st \<Longrightarrow> create_task env tx_id fault a st = (z, st') \<Longrightarrow>
     files st' (decision_path did) = files st (decision_path did)"
  "usable st \<Longrightarrow> transition_task env tx_id fault m st = (z, st') \<Longrightarrow>
     files st' (decision_path did) = files st (decision_path did)"
  unfolding create_task_def transition_task_def
  by (auto split: if_splits elim!: run_plan_keeps_decisions [rotated 2]
      intro: plan_create_sequence plan_transition_sequence)

lemma step_keeps_resolved:
  assumes "service_step env st st'" "stored_status env (files st) did \<in> {Some ''approved'', Some ''rejected''}"
  shows "files st' (decision_path did) = files st (decision_path did)"
proof -
  have there: "files st (decision_path did) \<noteq> None"
    using assms(2) by (auto simp: stored_status_def split: option.splits)
  show ?thesis
    using assms(1)
  proof cases
    case (created env' tx_id fault a x)
    have "da_decision_id a \<noteq> did" if "plan_decision env' (files st) a = Inr d" for d
      using that there by (auto elim: plan_decisionD)
    then show ?thesis
      using create_decision_effect [OF created(1,3)] by (cases x) auto
  next
    case (resolved env' tx_id fault b y)
    have "ra_decision_id b \<noteq> did" if "plan_resolution env' (files st) b = Inr (Resolve d r)" for d r
    proof
      assume did: "ra_decision_id b = did"
      have "stored_status env' (files st) did = Some ''pending''"
        using plan_resolution_pending [OF that] did by simp
      then show False using assms(2) stored_status_reader [OF resolved(2)] by auto
    qed
    then show ?thesis
      using resolve_decision_effect [OF resolved(1,3)] by (cases y) auto
  next
    case (task_created tenv tx_id fault c z)
    then show ?thesis using task_commands_keep_decisions(1) by blast
  next
    case (task_moved tenv tx_id fault m z)
    then show ?thesis using task_commands_keep_decisions(2) by blast
  qed
qed

lemma stored_status_cong:
  "fs' (decision_path did) = fs (decision_path did) \<Longrightarrow> stored_status env fs' did = stored_status env fs did"
  by (simp add: stored_status_def)

lemma get_decision_cong:
  "fs' (decision_path did) = fs (decision_path did) \<Longrightarrow> get_decision env fs' did = get_decision env fs did"
  by (simp add: get_decision_def)

lemma steps_keep_resolved:
  assumes "(service_step env)\<^sup>*\<^sup>* st st'"
    and "stored_status env (files st) did \<in> {Some ''approved'', Some ''rejected''}"
  shows "files st' (decision_path did) = files st (decision_path did)"
  using assms
proof (induction rule: rtranclp_induct)
  case (step t u)
  then have same: "files t (decision_path did) = files st (decision_path did)" by simp
  then have "stored_status env (files t) did \<in> {Some ''approved'', Some ''rejected''}"
    using step.prems unfolding stored_status_cong [of "files t" did "files st" env, OF same] by blast
  from step_keeps_resolved [OF step.hyps(2) this] same show ?case by (rule trans)
qed simp

text \<open>The texts of a decision and of its receipt that are read back.\<close>

definition decision_durable :: "decision_env \<Rightarrow> decision \<Rightarrow> decision_receipt \<Rightarrow> bool" where
  "decision_durable env d r =
     (length (decision_text env d) \<le> MAX_TASK_STATE_BYTES
      \<and> length (decision_receipt_text env r) \<le> MAX_TASK_STATE_BYTES
      \<and> de_parse env (decision_text env d) = Some (sort_keys (JObj (decision_dump d)))
      \<and> de_parse env (decision_receipt_text env r) = Some (sort_keys (JObj (decision_receipt_dump r))))"

lemma parse_file_short: "length c \<le> MAX_TASK_STATE_BYTES \<Longrightarrow> de_parse env c = Some j \<Longrightarrow> parse_file env c = Inr j"
  by (simp add: parse_file_def read_secure_def)

lemma stored_decision_read:
  assumes "decision_durable env d r" "same_reader env env'" "decision_ok d" "dc_status d \<noteq> ''pending''"
    and "fs (decision_path did) = Some (decision_text env d)" "re_decision_id did"
  shows "get_decision env' fs did = Inr (Some (key_sorted d))"
proof -
  have parsed: "parse_file env' (decision_text env d) = Inr (sort_keys (JObj (decision_dump d)))"
    using assms(1,2) by (intro parse_file_short) (simp_all add: decision_durable_def same_reader_def)
  show ?thesis
    unfolding get_decision_def
    by (simp add: assms(5,6) parsed validate_sorted_decision assms(3) effective_decision_def assms(4) malformed_def
        del: sort_keys.simps)
qed

lemma stored_receipt_read:
  assumes "decision_durable env d r" "same_reader env env'" "decision_receipt_ok r"
    and "dr_receipt_id r = ''dcr_'' @ dr_response_sha256 r"
    and "fs (decision_receipt_path (dr_receipt_id r)) = Some (decision_receipt_text env r)"
  shows "get_decision_receipt env' fs (dr_receipt_id r) = Inr (Some r)"
proof -
  have parsed: "parse_file env' (decision_receipt_text env r) = Inr (sort_keys (JObj (decision_receipt_dump r)))"
    using assms(1,2) by (intro parse_file_short) (simp_all add: decision_durable_def same_reader_def)
  have "re_dcr (dr_receipt_id r)" using assms(3) by (simp add: decision_receipt_ok_def)
  then show ?thesis
    using re_dcr_names [of "dr_receipt_id r"] unfolding get_decision_receipt_def
    by (simp add: assms(5) parsed validate_sorted_receipt assms(3) malformed_def del: sort_keys.simps)
      (simp add: assms(4))
qed

lemma granted_durable: "decision_durable decision_sample granted grant_receipt"
  using decision_short decision_parses by (simp add: decision_durable_def del: sort_keys.simps)

lemma granted_read: "get_decision decision_sample (files granted_store) ''dec_1'' = Inr (Some (key_sorted granted))"
  by (rule stored_decision_read [OF granted_durable])
    (simp_all add: same_reader_def sample_ids_ok granted_store_def sample_paths [symmetric] sample_paths,
     simp add: granted_def resolved_decision_def)

text \<open>
  C12. A decision is resolved once, as long as no transaction is left behind. Once it reads as approved
  or rejected, it reads the same after any sequence of commands of the decision service and of the
  task service on the vault, each of which starts on a usable store (not blocked, and without the
  directory of an interrupted transaction), whatever their clocks, faults and outcomes; and on a
  usable store no further resolution of it changes a file. The condition matters: a store object that
  has recovered once does not look for transactions again, so it can resolve a decision while the
  transaction of a killed process is pending, whose recovery by the next process undoes the resolution.
\<close>

theorem resolved_decisions_are_final:
  assumes "(service_step env)\<^sup>*\<^sup>* st st'" "get_decision env (files st) did = Inr (Some d)"
    and "dc_status d \<in> {''approved'', ''rejected''}"
  shows "get_decision env (files st') did = Inr (Some d)
    \<and> (\<forall>env' tx_id fault a x st''. usable st' \<and> same_reader env env' \<and> ra_decision_id a = did
         \<and> resolve_decision env' tx_id fault a st' = (x, st'') \<longrightarrow> files st'' = files st')"
proof -
  obtain s where "stored_status env (files st) did = Some s" "s = dc_status d"
    by (rule get_decision_stored [OF assms(2)]) (use assms(3) in auto)
  then have resolved: "stored_status env (files st) did \<in> {Some ''approved'', Some ''rejected''}"
    using assms(3) by auto
  note same = steps_keep_resolved [OF assms(1) this]
  have "files st'' = files st'" if st': "usable st'" "same_reader env env'" "ra_decision_id a = did"
    "resolve_decision env' tx_id fault a st' = (x, st'')" for env' tx_id fault a x st''
  proof (rule ccontr)
    assume "files st'' \<noteq> files st'"
    then obtain d' r where "plan_resolution env' (files st') a = Inr (Resolve d' r)"
      using resolve_decision_effect [OF st'(1,4)] by (cases x) auto
    then have "stored_status env' (files st') did = Some ''pending''"
      using plan_resolution_pending st'(3) by blast
    then show False
      using resolved stored_status_reader [OF st'(2)] stored_status_cong [of "files st'" did "files st", OF same] by auto
  qed
  then show ?thesis
    using get_decision_cong [of "files st'" did "files st", OF same] assms(2) by auto
qed

theorem resolved_decisions_are_final_witness:
  "get_decision decision_sample
     (files (snd (resolve_decision decision_sample ''tx2'' None (grant_args\<lparr>ra_action := ''reject''\<rparr>) granted_store)))
     ''dec_1'' = Inr (Some (key_sorted granted))"
proof -
  let ?st = "snd (resolve_decision decision_sample ''tx2'' None (grant_args\<lparr>ra_action := ''reject''\<rparr>) granted_store)"
  have "service_step decision_sample granted_store ?st"
    by (rule service_step.resolved [OF grant_resolved(2) _ surjective_pairing]) (simp add: same_reader_def)
  then have "(service_step decision_sample)\<^sup>*\<^sup>* granted_store ?st" by simp
  moreover have "dc_status (key_sorted granted) \<in> {''approved'', ''rejected''}"
    by (simp add: granted_def resolved_decision_def)
  ultimately show ?thesis
    using resolved_decisions_are_final [of decision_sample granted_store ?st "''dec_1''" "key_sorted granted"]
      granted_read by blast
qed

subsection \<open>Repeated resolutions\<close>

lemma response_digest_same:
  "dc_decision_id d = dc_decision_id e \<Longrightarrow> dc_task_id d = dc_task_id e \<Longrightarrow>
   dc_task_revision d = dc_task_revision e \<Longrightarrow> response_digest rt a d = response_digest rt a e"
  by (simp add: response_digest_def)

text \<open>
  C24. A resolution that took effect can be repeated. Afterwards a resolution of the same decision
  changes no file and does not depend on the clock: with the response, action and actor of the first
  it returns the decision and receipt as they are stored, with any other it reports a conflict.
\<close>

theorem resolution_is_idempotent:
  assumes "usable st" "resolve_decision env tx_id fault a st = (Inr (d, r), st')" "files st' \<noteq> files st"
    and durable: "decision_durable env d r" and later: "same_reader env env'"
    and b: "ra_decision_id b = ra_decision_id a" "strip (ra_actor b) \<noteq> []"
  shows "fst (resolve_decision env' tx_id' fault' b st') =
      (if response_digest (de_rt env) b d = response_digest (de_rt env) a d
          \<and> ra_action b = ra_action a \<and> ra_actor b = ra_actor a
       then Inr (key_sorted d, r) else Inl ConflictError)
    \<and> files (snd (resolve_decision env' tx_id' fault' b st')) = files st'"
proof -
  from resolve_decision_effect(2) [OF assms(1,2)] assms(3)
  have plan: "plan_resolution env (files st) a = Inr (Resolve d r)" and st': "usable st'"
    and files: "files st' = (files st)(decision_path (ra_decision_id a) \<mapsto> decision_text env d,
        decision_receipt_path (dr_receipt_id r) \<mapsto> decision_receipt_text env r)" by auto
  from plan obtain d0 input where d0: "get_decision env (files st) (ra_decision_id a) = Inr (Some d0)"
    and r: "r = new_decision_receipt env a d0" "decision_receipt_ok r"
    and d: "d = resolved_decision a input r d0" "decision_ok d" by (rule plan_resolution_resolveD)
  have pending: "dc_status d \<noteq> ''pending''" by (auto simp: d(1) resolved_decision_def)
  have ids: "dc_receipt_id d = Some (dr_receipt_id r)" "dc_resolution_action d = Some (ra_action a)"
    "dc_resolved_by d = Some (ra_actor a)" "dr_receipt_id r = ''dcr_'' @ dr_response_sha256 r"
    by (simp_all add: d(1) r(1) resolved_decision_def new_decision_receipt_def)
  have "dr_receipt_id r = ''dcr_'' @ response_digest (de_rt env) a d0"
    by (simp add: r(1) new_decision_receipt_def)
  also have "response_digest (de_rt env) a d0 = response_digest (de_rt env) a d"
    by (rule response_digest_same) (simp_all add: d(1) resolved_decision_def)
  finally have rid: "dr_receipt_id r = ''dcr_'' @ response_digest (de_rt env) a d" .
  have sorted: "response_digest (de_rt env') b (key_sorted d) = response_digest (de_rt env) b d"
    using later by (simp add: same_reader_def response_digest_def)
  have "get_decision env' (files st') (ra_decision_id b) = Inr (Some (key_sorted d))"
    by (rule stored_decision_read [OF durable later d(2) pending]) (simp_all add: files b get_decision_id [OF d0])
  moreover have "get_decision_receipt env' (files st') (dr_receipt_id r) = Inr (Some r)"
    by (rule stored_receipt_read [OF durable later r(2) ids(4)]) (simp add: files)
  moreover have "dc_status d \<noteq> ''expired''" by (auto simp: d(1) resolved_decision_def)
  ultimately have "plan_resolution env' (files st') b =
      (if response_digest (de_rt env) b d = response_digest (de_rt env) a d
          \<and> ra_action b = ra_action a \<and> ra_actor b = ra_actor a
       then Inr (Settled (key_sorted d) r) else Inl ConflictError)"
    using pending by (auto simp: plan_resolution_def settled_resolution_def ids(1-3) rid sorted)
  then have "resolve_decision env' tx_id' fault' b st' =
      (if response_digest (de_rt env) b d = response_digest (de_rt env) a d
          \<and> ra_action b = ra_action a \<and> ra_actor b = ra_actor a
       then Inr (key_sorted d, r) else Inl ConflictError, locked 0 st')"
    unfolding resolve_decision_def if_not_P [OF b(2)]
    by (intro with_lock_usable [OF st']) auto
  then show ?thesis by simp
qed

theorem resolution_is_idempotent_witness:
  "fst (resolve_decision decision_sample ''tx2'' None grant_args granted_store) = Inr (key_sorted granted, grant_receipt)
   \<and> fst (resolve_decision decision_sample ''tx2'' None (grant_args\<lparr>ra_actor := ''petro''\<rparr>) granted_store)
      = Inl ConflictError"
proof -
  have b: "ra_decision_id (grant_args\<lparr>ra_actor := ''petro''\<rparr>) = ra_decision_id grant_args"
    "strip (ra_actor (grant_args\<lparr>ra_actor := ''petro''\<rparr>)) \<noteq> []" "strip (ra_actor grant_args) \<noteq> []"
    by (simp_all add: sample_ids_ok) code_simp
  have reader: "same_reader decision_sample decision_sample" by (simp add: same_reader_def)
  note again = resolution_is_idempotent [OF asked_created(2) grant_resolved(1) granted_files granted_durable reader]
  show ?thesis using again [OF refl b(3)] again [OF b(1,2)] by simp
qed

subsection \<open>Identifiers that the store cannot hold\<close>

lemma colon_not_allowed:
  assumes did: "re_decision_id did" "CHR '':'' \<in> set did"
  shows "allowed_recovery_path (JStr ''decision'') (JStr (as_posix (decision_path did))) (JStr op) = Inl PyValueError"
proof (cases "map_of RECOVERY_OPERATION_LABELS op")
  case None
  then show ?thesis using decision_labels by (simp add: allowed_recovery_path_def recovery_label_def)
next
  case (Some labels)
  have names: "list_all (\<lambda>w. w \<notin> {[], ''.'', ''..''} \<and> list_all name_char w) (decision_path did)"
    using re_decision_id_names [OF did(1)] decision_names
    by (simp add: decision_path_def decisions_root_def tasks_root_def) code_simp
  have path: "recovery_path (JStr (as_posix (decision_path did))) = Inr (decision_path did)"
    by (rule recovery_path_names(2) [OF _ names]) (simp add: decision_path_def)
  have "CHR '':'' \<in> set (removesuffix did ''.jsonl'')"
  proof (cases "ends_with did ''.jsonl''")
    case True
    then obtain u where "did = u @ ''.jsonl''" by (rule ends_withE)
    then show ?thesis using did(2) by auto
  qed (simp add: removesuffix_def did(2))
  moreover have "\<not> id_char (CHR '':'') \<and> \<not> is_alnum (CHR '':'')" by code_simp
  ultimately have "\<not> re_label 127 (removesuffix did ''.jsonl'')"
    by (auto simp: re_label_def list_all_iff split: list.splits)
  then have "\<not> tasks_file_allowed op ''decision'' [''decisions'', did @ ''.json'']"
    by (simp add: tasks_file_allowed_def rel_name_def)
  moreover have "tasks_relative (decision_path did) = Some [''decisions'', did @ ''.json'']"
    by (simp add: tasks_relative_def decision_path_def decisions_root_def tasks_root_def)
  moreover have "\<not> vault_file_allowed op ''decision'' p" for p by (simp add: vault_file_allowed_def)
  ultimately show ?thesis
    using Some path decision_labels by (simp add: allowed_recovery_path_def recovery_label_def)
qed

text \<open>
  C31. A decision identifier with a colon closes the store. The identifier is valid, and the request
  passes every check, but the recovery protocol does not admit the name of the file: the creation
  raises, no file changes, and the transaction directory it leaves without a manifest makes the task
  store refuse every use after the next start of a process.
\<close>

theorem unstorable_decision_closes_the_store:
  assumes "usable st" "plan_decision env (files st) a = Inr d" "CHR '':'' \<in> set (da_decision_id a)"
    and "create_decision env tx_id fault a st = (x, st')"
  shows "x = Inl PyValueError \<and> files st' = files st
    \<and> fst (with_lock env' body (restart st')) = Inl PyRuntimeError"
proof -
  let ?p = "decision_path (da_decision_id a)"
  let ?tx = "\<lparr>tx_manifest = NoFile, tx_backups = []\<rparr>"
  have did: "re_decision_id (da_decision_id a)" by (rule plan_decisionD [OF assms(2)])
  have open': "\<not> recovery_blocked st" "tx_dir st = []" using assms(1) by (simp_all add: usable_def)
  have "take_preimages rt op fs [(?p, ''decision'')] [] [] = (Some PyValueError, [], [])" for rt op fs
    using colon_not_allowed [OF did assms(3)] decision_labels by (simp add: recovery_label_def)
  then have "transaction_locked (de_store env) tx_id ''decision_create'' None None [(?p, ''decision'')] fault
      [(?p, Some (decision_text env d))] Returns st = (Raises PyValueError, put_tx tx_id ?tx st)"
    by (simp add: transaction_locked_def)
  then have "as_result (transaction (de_store env) tx_id ''decision_create'' None None [(?p, ''decision'')] fault
      [(?p, Some (decision_text env d))] Returns (locked 1 st)) = (Inl PyValueError, locked 1 (put_tx tx_id ?tx st))"
    using transaction_level [OF _ open'(1), of 1] by (simp add: as_result_def)
  then have "create_decision env tx_id fault a st = (Inl PyValueError, locked 0 (put_tx tx_id ?tx st))"
    unfolding create_decision_def
    by (intro with_lock_usable [OF assms(1)]) (simp add: assms(2) One_nat_def)
  then have st': "x = Inl PyValueError" "st' = locked 0 (put_tx tx_id ?tx st)" using assms(4) by simp_all
  let ?s = "(restart st')\<lparr>held := \<lparr>held_levels = [LEVEL_TASK], held_projects = []\<rparr>\<rparr>"
  have "recover env' ?s = ([], block_store ?s)"
    using open'(2) by (simp add: recover_def st'(2) restart_def put_tx_def recover_entry_def)
  then have "with_lock env' body (restart st') = (Inl PyRuntimeError, (block_store ?s)\<lparr>held := no_locks\<rparr>)"
    by (rule with_lock_closed) (simp_all add: block_store_def)
  then show ?thesis using st' by (simp add: put_tx_def)
qed

theorem unstorable_decision_closes_the_store_witness:
  "fst (create_decision decision_sample ''tx1'' None (ask_args ''dec_a:b'') service_store) = Inl PyValueError
   \<and> fst (with_lock (de_store decision_sample) (\<lambda>s. (Inr (), s))
        (restart (snd (create_decision decision_sample ''tx1'' None (ask_args ''dec_a:b'') service_store))))
      = Inl PyRuntimeError"
proof -
  have "CHR '':'' \<in> set (da_decision_id (ask_args ''dec_a:b''))" by simp
  note closed = unstorable_decision_closes_the_store [OF service_usable ask_planned [of "''dec_a:b''"] this surjective_pairing]
  show ?thesis using closed by blast
qed

subsection \<open>Pages of a listing\<close>

lemma newest_first_props:
  "mset (newest_first ds) = mset ds"
  "sorted_wrt (\<lambda>d e. dc_created_at e \<le> dc_created_at d) (newest_first ds)"
proof -
  show "mset (newest_first ds) = mset ds" by (simp add: newest_first_def)
  have "sorted (map dc_created_at (sort_key dc_created_at (rev ds)))" by (rule sorted_sort_key)
  then show "sorted_wrt (\<lambda>d e. dc_created_at e \<le> dc_created_at d) (newest_first ds)"
    unfolding newest_first_def sorted_wrt_rev sorted_wrt_map .
qed

theorem listing_pages_are_complete:
  assumes "read_all env fs stems = Inr ds" "\<And>t. task_id = Some t \<Longrightarrow> re_task_id t"
  shows "\<exists>full. mset full = mset (filter (selects status task_id) ds)
    \<and> sorted_wrt (\<lambda>d e. dc_created_at e \<le> dc_created_at d) full
    \<and> (\<forall>limit offset. 1 \<le> limit \<and> limit \<le> 500 \<and> 0 \<le> offset \<longrightarrow>
         list_decisions env fs stems status task_id limit offset = Inr (take (nat limit) (drop (nat offset) full)))
    \<and> (\<forall>limit. 1 \<le> limit \<and> limit \<le> 500 \<longrightarrow>
         concat (map (\<lambda>i. projr (list_decisions env fs stems status task_id limit (int i * limit)))
           [0..<Suc (length full)]) = full)"
proof -
  let ?full = "newest_first (filter (selects status task_id) ds)"
  have page: "list_decisions env fs stems status task_id limit offset
      = Inr (take (nat limit) (drop (nat offset) ?full))"
    if "1 \<le> limit" "limit \<le> 500" "0 \<le> offset" for limit offset
    using that assms by (simp add: list_decisions_def split: option.split)
  have tiles: "concat (map (\<lambda>i. take n (drop (i * n) xs)) [0..<m]) = take (m * n) xs" for m n and xs :: "decision list"
  proof (induction m)
    case (Suc m)
    have "take (m * n + n) xs = take (m * n) xs @ take n (drop (m * n) xs)" by (rule take_add)
    then show ?case using Suc by (simp add: add.commute)
  qed simp
  have "concat (map (\<lambda>i. projr (list_decisions env fs stems status task_id limit (int i * limit)))
      [0..<Suc (length ?full)]) = ?full" if limit: "1 \<le> limit" "limit \<le> 500" for limit
  proof -
    have "nat (int i * limit) = i * nat limit" for i using limit by (simp add: nat_mult_distrib)
    then have "map (\<lambda>i. projr (list_decisions env fs stems status task_id limit (int i * limit)))
        [0..<Suc (length ?full)] = map (\<lambda>i. take (nat limit) (drop (i * nat limit) ?full)) [0..<Suc (length ?full)]"
      using limit by (intro map_cong refl) (simp add: page)
    moreover have "length ?full * 1 \<le> Suc (length ?full) * nat limit"
      using limit by (intro mult_le_mono) simp_all
    ultimately show ?thesis by (simp only: tiles take_all mult_1_right)
  qed
  then show ?thesis
    using page newest_first_props [of "filter (selects status task_id) ds"] by (intro exI [of _ ?full]) simp
qed

theorem listing_pages_are_complete_witness:
  "list_decisions decision_sample (files asked_store) [''dec_1''] (Some ''pending'') (Some ''t1'') 5 0 = Inr [asked ''dec_1'']"
proof -
  have "re_task_id ''t1''" by code_simp
  moreover have "read_all decision_sample (files asked_store) [''dec_1''] = Inr [asked ''dec_1'']"
    by (simp add: read_all_def asked_read List.map_filter_simps)
  ultimately obtain full where "mset full = {#asked ''dec_1''#}"
    "list_decisions decision_sample (files asked_store) [''dec_1''] (Some ''pending'') (Some ''t1'') 5 0
       = Inr (take 5 full)"
    using listing_pages_are_complete [of decision_sample "files asked_store" "[''dec_1'']" "[asked ''dec_1'']"
        "Some ''t1''" "Some ''pending''"]
    by (force simp: selects_def)
  then show ?thesis by simp
qed

end
