(* ===== verification/State_Service.thy ===== *)
theory State_Service
  imports Decision_Service Project_Ledger Reducer
begin

text \<open>
  The trusted state service (\<open>core/state_service.py\<close>): it composes the verified ledger of a project,
  the task store and the decision service into the authority of a historical replay, rebuilds the
  state, restores snapshots against the ledger, and writes governance evaluations and gate overrides.

  Tasks and decisions are read from one file system, the events from the ledger of the project. The
  service verifies before it reads; the lock that the verified replay takes is released again, so
  only the operations that append return the ledger. Its reducer has the default rules version.
\<close>

subsection \<open>Surroundings and exceptions\<close>

text \<open>
  The first twelve digits of the two random identifiers of an operation: the one of a preview event
  and the one of the event that is written.
\<close>

record state_env =
  sv_ledger :: ledger_env
  sv_decisions :: decision_env
  sv_preview_uuid :: string
  sv_uuid :: string

abbreviation sv_rt :: "state_env \<Rightarrow> pyrt" where "sv_rt env \<equiv> le_rt (sv_ledger env)"
abbreviation sv_store :: "state_env \<Rightarrow> store_env" where "sv_store env \<equiv> de_store (sv_decisions env)"

datatype state_error =
    LedgerFault ledger_error | StoreFault store_error | EngineFault pse_error
  | AuthoritativeState | StateValue | StatePermission

definition raised :: "('e \<Rightarrow> state_error) \<Rightarrow> 'e + 'a \<Rightarrow> state_error + 'a" where
  "raised f m = (case m of Inl e \<Rightarrow> Inl (f e) | Inr x \<Rightarrow> Inr x)"

subsection \<open>The projects of a vault\<close>

text \<open>The directories below \<open>.power/projects\<close>, each with whether it holds a ledger file.\<close>

definition listed_project :: "string \<Rightarrow> bool" where
  "listed_project s = (s \<noteq> [] \<and> s \<noteq> ''.'' \<and> s \<noteq> ''..'' \<and> CHR ''/'' \<notin> set s \<and> CHR 0x5C \<notin> set s
     \<and> \<not> contains ''..'' s \<and> re_label 63 s)"

definition list_project_ids :: "(string \<times> bool) list \<Rightarrow> string list" where
  "list_project_ids entries =
     take 1000 (sort (take 1000 (map fst (filter (\<lambda>(s, ledger). listed_project s \<and> ledger) (sort_key fst entries)))))"

subsection \<open>The canonical events\<close>

definition check_payload_digest :: "pyrt \<Rightarrow> project_event \<Rightarrow> state_error + unit" where
  "check_payload_digest rt e =
     bindE (raised EngineFault (compute_payload_digest rt (ev_payload e))) (\<lambda>d.
       if d \<noteq> ev_payload_digest e then Inl (EngineFault (IntegrityError PayloadDigestMismatch)) else Inr ())"

definition read_canonical_events :: "state_env \<Rightarrow> string \<Rightarrow> ledger \<Rightarrow> state_error + project_event list" where
  "read_canonical_events env pid led =
     (if \<not> validate_project_id pid then Inl StateValue
      else if \<not> valid_scan (verify (sv_ledger env) pid (ld_files led)) then Inl (LedgerFault LedgerIntegrity)
      else bindE (raised LedgerFault (fst (read_verified_replay (sv_ledger env) pid 1 led))) (\<lambda>(_, es).
        bindE (mapE (check_payload_digest (sv_rt env)) es) (\<lambda>_. Inr es)))"

definition ledger_head :: "state_env \<Rightarrow> string \<Rightarrow> ledger \<Rightarrow> state_error + int \<times> string" where
  "ledger_head env pid led =
     (if \<not> validate_project_id pid then Inl StateValue
      else let v = verify (sv_ledger env) pid (ld_files led) in
        if \<not> valid_scan v then Inl (LedgerFault LedgerIntegrity)
        else Inr (sc_last_sequence v, sc_last_hash v))"

text \<open>The position of the last of the events that were read.\<close>

definition head_of :: "project_event list \<Rightarrow> int \<times> string" where
  "head_of es = (if es = [] then (0, []) else (ev_sequence (last es), ev_event_hash (last es)))"

subsection \<open>Active relationships\<close>

text \<open>The sets are lists without duplicates.\<close>

definition named_id :: "payload \<Rightarrow> string \<Rightarrow> string option" where
  "named_id p k = (if nonblank (jget p k) then Some (strip (jstr (jget p k))) else None)"

definition add_id :: "string option \<Rightarrow> string list \<Rightarrow> string list" where
  "add_id x ids = (case x of None \<Rightarrow> ids | Some i \<Rightarrow> list_add i ids)"

definition drop_id :: "string option \<Rightarrow> string list \<Rightarrow> string list" where
  "drop_id x ids = (case x of None \<Rightarrow> ids | Some i \<Rightarrow> filter (\<lambda>j. j \<noteq> i) ids)"

definition collect_id :: "project_event \<Rightarrow> string list \<times> string list \<Rightarrow> string list \<times> string list" where
  "collect_id e ids =
     (let (ts, ds) = ids; p = ev_payload e; et = ev_event_type e in
      if et = ''task.associated'' then (add_id (named_id p ''task_id'') ts, ds)
      else if et = ''task.disassociated'' then (drop_id (named_id p ''task_id'') ts, ds)
      else if et = ''decision.associated'' then (ts, add_id (named_id p ''decision_id'') ds)
      else if et = ''decision.disassociated'' then (ts, drop_id (named_id p ''decision_id'') ds)
      else (ts, ds))"

definition collect_ids :: "project_event list \<Rightarrow> string list \<times> string list" where
  "collect_ids es = fold collect_id es ([], [])"

subsection \<open>Live tasks and decisions\<close>

definition from_power_task :: "pyrt \<Rightarrow> power_task \<Rightarrow> pse_error + task_view" where
  "from_power_task rt t =
     mk_task_view \<lparr>tv_task_id = pt_task_id t, tv_state = task_state_str (pt_state t), tv_revision = pt_revision t,
       tv_digest = task_view_digest rt (pt_task_id t) (task_state_str (pt_state t)) (pt_revision t)
         (pt_dependencies t) (pt_open_gates t) (pt_receipt_ids t),
       tv_source_identity = ''TaskStore:v2'', tv_dependencies = sort (pt_dependencies t),
       tv_open_gates = sort (pt_open_gates t), tv_receipt_ids = sort (pt_receipt_ids t)\<rparr>"

definition from_decision :: "pyrt \<Rightarrow> decision \<Rightarrow> pse_error + decision_view" where
  "from_decision rt d =
     mk_decision_view \<lparr>dv_decision_id = dc_decision_id d, dv_status = dc_status d,
       dv_task_id = Some (dc_task_id d), dv_task_revision = dc_task_revision d, dv_revision = 1,
       dv_digest = decision_view_digest rt (dc_decision_id d) (dc_status d) (Some (dc_task_id d))
         (dc_task_revision d) 1 (dc_receipt_id d),
       dv_source_identity = ''DecisionService:v1'', dv_receipt_id = dc_receipt_id d\<rparr>"

definition live_task :: "state_env \<Rightarrow> filesystem \<Rightarrow> string \<Rightarrow> state_error + (string \<times> task_view) option" where
  "live_task env fs tid =
     bindE (raised StoreFault (get_task (sv_store env) fs tid)) (\<lambda>found. case found of
         None \<Rightarrow> Inr None
       | Some t \<Rightarrow> bindE (raised EngineFault (from_power_task (sv_rt env) t)) (\<lambda>v. Inr (Some (tid, v))))"

definition resolve_live_tasks ::
  "state_env \<Rightarrow> filesystem \<Rightarrow> string list \<Rightarrow> state_error + task_view dict" where
  "resolve_live_tasks env fs ids =
     bindE (mapE (live_task env fs) (sort ids)) (\<lambda>found. Inr (List.map_filter id found))"

text \<open>The receipt of an approval that counts.\<close>

definition approves :: "string \<Rightarrow> decision \<Rightarrow> decision_receipt \<Rightarrow> bool" where
  "approves did d r =
     (Some (dr_receipt_id r) = dc_receipt_id d \<and> dr_decision_id r = did \<and> dr_task_id r = dc_task_id d
      \<and> dr_task_revision r = dc_task_revision d \<and> dr_action r \<in> {''approve'', ''provide_input''})"

definition canonical_approval ::
  "state_env \<Rightarrow> filesystem \<Rightarrow> string \<Rightarrow> decision \<Rightarrow> state_error + bool" where
  "canonical_approval env fs did d =
     (if dc_status d = ''approved'' \<and> dc_receipt_id d \<notin> {None, Some []} then
        bindE (raised StoreFault (get_decision_receipt (sv_decisions env) fs (the (dc_receipt_id d)))) (\<lambda>found.
          Inr (case found of None \<Rightarrow> False | Some r \<Rightarrow> approves did d r))
      else Inr False)"

definition live_decision ::
  "state_env \<Rightarrow> filesystem \<Rightarrow> string \<Rightarrow> state_error + (string \<times> decision_view \<times> bool) option" where
  "live_decision env fs did =
     bindE (raised StoreFault (get_decision (sv_decisions env) fs did)) (\<lambda>found. case found of
         None \<Rightarrow> Inr None
       | Some d \<Rightarrow>
           bindE (raised EngineFault (from_decision (sv_rt env) d)) (\<lambda>v.
           bindE (canonical_approval env fs did d) (\<lambda>a. Inr (Some (did, v, a)))))"

definition resolve_live_decisions ::
  "state_env \<Rightarrow> filesystem \<Rightarrow> string list \<Rightarrow> state_error + decision_view dict \<times> string list" where
  "resolve_live_decisions env fs ids =
     bindE (mapE (live_decision env fs) (sort ids)) (\<lambda>found.
       let ds = List.map_filter id found
       in Inr (map (\<lambda>(did, v, a). (did, v)) ds, map fst (filter (\<lambda>(did, v, a). a) ds)))"

text \<open>The receipts of the completed tasks; a \<open>ValueError\<close> of one receipt skips it.\<close>

definition verified_receipt ::
  "state_env \<Rightarrow> filesystem \<Rightarrow> string \<Rightarrow> power_task \<Rightarrow> string \<Rightarrow> state_error + string list" where
  "verified_receipt env fs tid t rid =
     (if \<not> starts_with ''tcr_'' rid then Inr []
      else case get_completion_receipt (sv_store env) fs rid of
          Inl e \<Rightarrow> if e = PyValueError then Inr [] else Inl (StoreFault e)
        | Inr None \<Rightarrow> Inr []
        | Inr (Some r) \<Rightarrow>
            Inr (if cr_task_id r = tid \<and> pt_state t \<in> set TERMINAL_STATES \<and> cr_task_revision r = pt_revision t
                 then [rid] else []))"

definition task_receipts :: "state_env \<Rightarrow> filesystem \<Rightarrow> string \<Rightarrow> state_error + string list" where
  "task_receipts env fs tid =
     bindE (raised StoreFault (get_task (sv_store env) fs tid)) (\<lambda>found. case found of
         None \<Rightarrow> Inr []
       | Some t \<Rightarrow> bindE (mapE (verified_receipt env fs tid t) (pt_receipt_ids t)) (\<lambda>rs. Inr (concat rs)))"

definition verified_task_receipts ::
  "state_env \<Rightarrow> filesystem \<Rightarrow> string list \<Rightarrow> state_error + string list" where
  "verified_task_receipts env fs ids = bindE (mapE (task_receipts env fs) ids) (\<lambda>rs. Inr (concat rs))"

subsection \<open>Historical evaluations against their owners\<close>

definition check_task_receipt ::
  "state_env \<Rightarrow> filesystem \<Rightarrow> task_view \<Rightarrow> string \<Rightarrow> state_error + unit" where
  "check_task_receipt env fs v rid =
     (if \<not> starts_with ''tcr_'' rid then Inr ()
      else bindE (raised StoreFault (get_completion_receipt (sv_store env) fs rid)) (\<lambda>found. case found of
          None \<Rightarrow> Inl AuthoritativeState
        | Some r \<Rightarrow>
            if cr_task_id r \<noteq> tv_task_id v \<or> cr_task_revision r \<noteq> tv_revision v then Inl AuthoritativeState
            else if cr_receipt_id r \<noteq> derive_receipt_id (se_rt (sv_store env)) (cr_task_id r)
                (cr_task_revision r) (cr_completion_policy r) (cr_postcondition_sha256 r)
                (cr_artifact_digests r) (cr_actor r) then Inl AuthoritativeState
            else Inr ()))"

text \<open>Equality of the fields that are compared: all but the source identity.\<close>

definition same_task_view :: "task_view \<Rightarrow> task_view \<Rightarrow> bool" where
  "same_task_view h v =
     (tv_task_id h = tv_task_id v \<and> tv_state h = tv_state v \<and> tv_revision h = tv_revision v
      \<and> tv_dependencies h = tv_dependencies v \<and> tv_open_gates h = tv_open_gates v
      \<and> tv_receipt_ids h = tv_receipt_ids v \<and> tv_digest h = tv_digest v)"

text \<open>Whether an event of the journal holds the viewed state of the task.\<close>

fun journal_has_view :: "state_env \<Rightarrow> task_view \<Rightarrow> task_event list \<Rightarrow> state_error + bool" where
  "journal_has_view env v [] = Inr False"
| "journal_has_view env v (e # es) = (case jget (te_payload e) ''result'' of
       JObj d \<Rightarrow> (case validate_task (se_rt (sv_store env)) (se_now (sv_store env)) (JObj d) of
           Inl x \<Rightarrow> if x = PyValueError then journal_has_view env v es else Inl (StoreFault x)
         | Inr t \<Rightarrow> bindE (raised EngineFault (from_power_task (sv_rt env) t)) (\<lambda>h.
             if same_task_view h v then Inr True else journal_has_view env v es))
     | _ \<Rightarrow> journal_has_view env v es)"

definition get_events :: "store_env \<Rightarrow> filesystem \<Rightarrow> string \<Rightarrow> store_error + task_event list" where
  "get_events env fs tid = bindE (get_task env fs tid) (\<lambda>found.
     if found = None then Inl PyFileNotFound else get_task_events env fs tid 0 False)"

definition check_task_view :: "state_env \<Rightarrow> filesystem \<Rightarrow> task_view \<Rightarrow> state_error + unit" where
  "check_task_view env fs v =
     bindE (raised StoreFault (get_task (sv_store env) fs (tv_task_id v))) (\<lambda>found.
       if found = None then Inr ()
       else
         bindE (mapE (check_task_receipt env fs v) (tv_receipt_ids v)) (\<lambda>_.
         bindE (raised StoreFault (get_events (sv_store env) fs (tv_task_id v))) (\<lambda>es.
         bindE (journal_has_view env v es) (\<lambda>matched.
           if matched then Inr () else Inl AuthoritativeState))))"

text \<open>\<open>x or y\<close> for an optional string \<open>x\<close>.\<close>

definition str_or :: "string option \<Rightarrow> string \<Rightarrow> string" where
  "str_or x y = (if x \<in> {None, Some []} then y else the x)"

definition expected_response :: "pyrt \<Rightarrow> decision \<Rightarrow> decision_receipt \<Rightarrow> string" where
  "expected_response rt d r =
     digest_payload rt (dc_decision_id d) (dc_task_id d) (dc_task_revision d)
       (str_or (dc_resolution_action d) (dr_action r)) (str_or (dc_resolved_by d) (dr_actor r))
       (JObj [(''comment'', jopt (dc_resolution_comment d)), (''input_data'', jobj_opt (dc_resolution_input d))])"

definition check_approved_view ::
  "state_env \<Rightarrow> filesystem \<Rightarrow> decision_view \<Rightarrow> decision \<Rightarrow> state_error + unit" where
  "check_approved_view env fs v d =
     bindE (raised StoreFault (get_decision_receipt (sv_decisions env) fs
         (case dv_receipt_id v of None \<Rightarrow> [] | Some r \<Rightarrow> r))) (\<lambda>found. case found of
         None \<Rightarrow> Inl AuthoritativeState
       | Some r \<Rightarrow>
           if dr_decision_id r \<noteq> dv_decision_id v \<or> Some (dr_task_id r) \<noteq> dv_task_id v
              \<or> dr_task_revision r \<noteq> dv_task_revision v \<or> dr_action r \<notin> {''approve'', ''provide_input''}
           then Inl AuthoritativeState
           else if dc_status d = ''approved''
              \<and> (Some (dr_actor r) \<noteq> dc_resolved_by d
                 \<or> dr_response_sha256 r \<noteq> expected_response (de_rt (sv_decisions env)) d r
                 \<or> dr_receipt_id r \<noteq> ''dcr_'' @ expected_response (de_rt (sv_decisions env)) d r)
           then Inl AuthoritativeState
           else Inr ())"

definition check_decision_view :: "state_env \<Rightarrow> filesystem \<Rightarrow> decision_view \<Rightarrow> state_error + unit" where
  "check_decision_view env fs v =
     (if dv_status v \<notin> set CANONICAL_DECISION_STATUSES then Inl AuthoritativeState
      else bindE (raised StoreFault (get_decision (sv_decisions env) fs (dv_decision_id v))) (\<lambda>found.
        case found of
          None \<Rightarrow> Inr ()
        | Some d \<Rightarrow>
            if dv_status v \<in> set RESOLVED_DECISION_STATUSES \<and> dv_status v = ''approved''
            then check_approved_view env fs v d else Inr ()))"

definition check_evaluation :: "state_env \<Rightarrow> filesystem \<Rightarrow> project_event \<Rightarrow> state_error + unit" where
  "check_evaluation env fs e =
     (if ev_event_type e \<notin> {''dor.evaluated'', ''dod.evaluated''} then Inr ()
      else case validate_hist_eval (sv_rt env) (ev_payload e) of
          Inl _ \<Rightarrow> Inl AuthoritativeState
        | Inr h \<Rightarrow>
            if ev_source e \<noteq> ''pse_governance'' then Inl AuthoritativeState
            else
              bindE (mapE (check_task_view env fs) (he_task_views h)) (\<lambda>_.
              bindE (mapE (check_decision_view env fs) (he_decision_views h)) (\<lambda>_. Inr ())))"

definition validate_historical_evaluations ::
  "state_env \<Rightarrow> filesystem \<Rightarrow> project_event list \<Rightarrow> state_error + unit" where
  "validate_historical_evaluations env fs es = bindE (mapE (check_evaluation env fs) es) (\<lambda>_. Inr ())"

subsection \<open>The authority\<close>

definition attached_by :: "project_event list \<Rightarrow> string set" where
  "attached_by es = set (concat (map collect_evidence_refs (filter (\<lambda>e.
     ev_event_type e = ''evidence.attached'' \<or> starts_with ''artifact.'' (ev_event_type e)) es)))"

definition raci_event :: "project_event \<Rightarrow> string list dict \<Rightarrow> string list dict" where
  "raci_event e raci =
     (let role = jget (ev_payload e) ''role''; actor = jget (ev_payload e) ''actor'';
          cr = canonical_raci_role (jstr role) in
      if ev_event_type e = ''raci.assigned'' then
        (if nonblank role \<and> nonblank actor
         then AList.update cr (list_add (strip (jstr actor)) (raci_get cr raci)) raci else raci)
      else if ev_event_type e = ''raci.revoked'' then
        (if nonblank role \<and> has_key cr raci then
           (let left = (if nonblank actor
                then filter (\<lambda>x. x \<noteq> strip (jstr actor)) (raci_get cr raci) else [])
            in if left = [] then AList.delete cr raci else AList.update cr left raci)
         else raci)
      else raci)"

definition assigned_raci :: "project_event list \<Rightarrow> string list dict" where
  "assigned_raci es = fold raci_event es []"

definition assemble_authority ::
  "state_env \<Rightarrow> filesystem \<Rightarrow> project_event list \<Rightarrow>
   state_error + authority_context \<times> task_view dict \<times> decision_view dict" where
  "assemble_authority env fs es =
     bindE (validate_historical_evaluations env fs es) (\<lambda>_.
     let (ts, ds) = collect_ids es in
     bindE (resolve_live_tasks env fs ts) (\<lambda>tasks.
     bindE (resolve_live_decisions env fs ds) (\<lambda>(decisions, approved).
     bindE (verified_task_receipts env fs ts) (\<lambda>receipts.
     let raci = assigned_raci es;
         acc = sorted_set (concat (map snd (filter (\<lambda>(role, actors). is_accountable_role role) raci)))
     in Inr (\<lparr>au_attached_evidence = attached_by es, au_approved_decision_ids = set approved,
            au_raci = map (\<lambda>(role, actors). (role, sort actors)) raci,
            au_accountable_actor = (case acc of [x] \<Rightarrow> Some x | _ \<Rightarrow> None),
            au_verified_task_receipts = set receipts, au_permit_accountable_approval = True,
            au_historical = True, au_charter_evidence_refs = {},
            au_cardinality_valid = (length acc \<le> 1)\<rparr>, tasks, decisions)))))"

subsection \<open>Rebuilding\<close>

text \<open>The historical replay of canonical events under their authority.\<close>

definition historical_state ::
  "state_env \<Rightarrow> string \<Rightarrow> authority_context \<Rightarrow> project_event list \<Rightarrow> state_error + project_state" where
  "historical_state env pid au es = raised EngineFault
     (reduce_internal (sv_rt env) GOVERNANCE_RULES_VERSION es None [] [] (Some pid) (Some au))"

definition mark_stale :: "'a dict \<Rightarrow> 'b dict \<Rightarrow> project_state \<Rightarrow> project_state" where
  "mark_stale known live s =
     (if list_all (\<lambda>(k, _). has_key k live) known then s
      else s\<lparr>st_health_flags := st_health_flags s @ [''STALE_AUTHORITATIVE_PROJECTION'']\<rparr>)"

definition overlay ::
  "task_view dict \<Rightarrow> decision_view dict \<Rightarrow> project_state \<Rightarrow> project_state" where
  "overlay tasks decisions s =
     (let s1 = mark_stale (st_tasks s) tasks s;
          s2 = mark_stale (st_decisions s1) decisions s1;
          s3 = s2\<lparr>st_tasks := fold (\<lambda>(k, v). AList.update k v) tasks (st_tasks s2)\<rparr>
      in s3\<lparr>st_decisions := fold (\<lambda>(k, v). AList.update k v) decisions (st_decisions s3)\<rparr>)"

definition apply_current_overlay ::
  "state_env \<Rightarrow> project_state \<Rightarrow> task_view dict \<Rightarrow> decision_view dict \<Rightarrow> authority_context \<Rightarrow>
   state_error + project_state" where
  "apply_current_overlay env s tasks decisions au =
     raised EngineFault (compute_projections (sv_rt env) (Some au) (overlay tasks decisions s))"

definition rebuild_events ::
  "state_env \<Rightarrow> string \<Rightarrow> filesystem \<Rightarrow> project_event list \<Rightarrow> state_error + project_state" where
  "rebuild_events env pid fs es =
     bindE (assemble_authority env fs es) (\<lambda>(au, tasks, decisions).
     bindE (historical_state env pid au es) (\<lambda>s. apply_current_overlay env s tasks decisions au))"

definition rebuild_project_state ::
  "state_env \<Rightarrow> string \<Rightarrow> filesystem \<Rightarrow> ledger \<Rightarrow> state_error + project_state" where
  "rebuild_project_state env pid fs led =
     bindE (read_canonical_events env pid led) (rebuild_events env pid fs)"

definition rebuild_historical_governance_state ::
  "state_env \<Rightarrow> string \<Rightarrow> filesystem \<Rightarrow> ledger \<Rightarrow> state_error + project_state" where
  "rebuild_historical_governance_state env pid fs led =
     bindE (read_canonical_events env pid led) (\<lambda>es.
     bindE (assemble_authority env fs es) (\<lambda>(au, _, _). historical_state env pid au es))"

end
