(* ===== verification/State_Governance.thy ===== *)
theory State_Governance
  imports State_Service
begin

text \<open>
  The operations of the trusted state service (\<open>core/state_service.py\<close>) that take material from a
  caller: candidate events, snapshots, governance evaluations and gate overrides.
\<close>

subsection \<open>Candidate events\<close>

text \<open>
  \<open>==\<close> on the values of \<open>model_dump\<close>: numbers are compared across their types, dictionaries without
  their order.
\<close>

definition num_of :: "json \<Rightarrow> pyfloat option" where
  "num_of j = (case j of
       JBool b \<Rightarrow> Some (Fin (if b then 1 else 0))
     | JInt i \<Rightarrow> Some (Fin (of_int i))
     | JFloat f \<Rightarrow> Some (if f = NegZero then Fin 0 else f)
     | _ \<Rightarrow> None)"

definition same_number :: "json \<Rightarrow> json \<Rightarrow> bool" where
  "same_number j k = (num_of j \<noteq> None \<and> num_of j = num_of k \<and> num_of j \<noteq> Some NaN)"

fun py_eq :: "json \<Rightarrow> json \<Rightarrow> bool" and py_eq_list :: "json list \<Rightarrow> json list \<Rightarrow> bool"
  and py_eq_items :: "(string \<times> json) list \<Rightarrow> payload \<Rightarrow> bool" where
  "py_eq JNull k = (k = JNull)"
| "py_eq (JStr s) k = (k = JStr s)"
| "py_eq (JList xs) k = (case k of JList ys \<Rightarrow> py_eq_list xs ys | _ \<Rightarrow> False)"
| "py_eq (JObj d) k = (case k of JObj e \<Rightarrow> length d = length e \<and> py_eq_items d e | _ \<Rightarrow> False)"
| "py_eq (JBool b) k = same_number (JBool b) k"
| "py_eq (JInt i) k = same_number (JInt i) k"
| "py_eq (JFloat f) k = same_number (JFloat f) k"
| "py_eq_list [] ys = (ys = [])"
| "py_eq_list (x # xs) ys = (case ys of [] \<Rightarrow> False | y # zs \<Rightarrow> py_eq x y \<and> py_eq_list xs zs)"
| "py_eq_items [] e = True"
| "py_eq_items ((k, v) # d) e = ((case map_of e k of None \<Rightarrow> False | Some w \<Rightarrow> py_eq v w) \<and> py_eq_items d e)"

definition same_event :: "project_event \<Rightarrow> project_event \<Rightarrow> bool" where
  "same_event e f = py_eq (JObj (event_dump e)) (JObj (event_dump f))"

text \<open>A candidate is an event or the object of one.\<close>

definition supplied_event :: "pyrt \<Rightarrow> project_event + payload \<Rightarrow> state_error + project_event" where
  "supplied_event rt c = (case c of Inl e \<Rightarrow> Inr e | Inr d \<Rightarrow> raised (\<lambda>_. StateValue) (read_event rt d))"

definition rebuild_from_candidates ::
  "state_env \<Rightarrow> string \<Rightarrow> (project_event + payload) list \<Rightarrow> filesystem \<Rightarrow> ledger \<Rightarrow>
   state_error + project_state" where
  "rebuild_from_candidates env pid candidates fs led =
     bindE (read_canonical_events env pid led) (\<lambda>es.
     bindE (mapE (supplied_event (sv_rt env)) candidates) (\<lambda>supplied.
       if length supplied \<noteq> length es then Inl AuthoritativeState
       else if \<not> list_all2 same_event supplied es then Inl AuthoritativeState
       else rebuild_events env pid fs es))"

subsection \<open>Snapshots\<close>

text \<open>Equality of dictionaries, whose keys are distinct.\<close>

definition same_dict :: "'a dict \<Rightarrow> 'a dict \<Rightarrow> bool" where
  "same_dict d e = (sort_dict d = sort_dict e)"

definition same_history :: "project_state \<Rightarrow> project_state \<Rightarrow> bool" where
  "same_history s t =
     (st_current_phase s = st_current_phase t \<and> st_owner s = st_owner t
      \<and> st_phase_history s = st_phase_history t \<and> same_dict (st_raci s) (st_raci t)
      \<and> st_attached_evidence s = st_attached_evidence t
      \<and> same_dict (st_evidence_kinds s) (st_evidence_kinds t)
      \<and> same_dict (st_hist_approved s) (st_hist_approved t)
      \<and> same_dict (st_hist_receipts s) (st_hist_receipts t)
      \<and> st_hist_evaluations s = st_hist_evaluations t
      \<and> same_dict (st_hist_gates s) (st_hist_gates t)
      \<and> same_dict (st_hist_origins s) (st_hist_origins t)
      \<and> st_overridden_gates s = st_overridden_gates t
      \<and> same_dict (st_risks s) (st_risks t) \<and> same_dict (st_issues s) (st_issues t)
      \<and> same_dict (st_assumptions s) (st_assumptions t)
      \<and> same_dict (st_dependencies s) (st_dependencies t)
      \<and> st_contributing_events s = st_contributing_events t
      \<and> st_last_event_sequence s = st_last_event_sequence t
      \<and> st_last_event_hash s = st_last_event_hash t
      \<and> st_schema_version s = st_schema_version t \<and> st_rules_version s = st_rules_version t
      \<and> st_rules_digest s = st_rules_digest t)"

definition snapshot_bound :: "pyrt \<Rightarrow> snapshot \<Rightarrow> bool" where
  "snapshot_bound rt n =
     (sn_schema_version n = STATE_SCHEMA_VERSION \<and> sn_rules_version n = GOVERNANCE_RULES_VERSION
      \<and> st_schema_version (sn_state n) = sn_schema_version n
      \<and> st_rules_version (sn_state n) = sn_rules_version n
      \<and> st_rules_digest (sn_state n) \<noteq> [] \<and> st_rules_digest (sn_state n) = RULES_DIGEST rt)"

text \<open>The end of the prefix that the snapshot stands for.\<close>

definition prefix_matches :: "snapshot \<Rightarrow> project_event list \<Rightarrow> bool" where
  "prefix_matches n prefix =
     (if prefix \<noteq> [] then ev_sequence (last prefix) = sn_last_event_sequence n
        \<and> ev_event_hash (last prefix) = sn_last_event_hash n
      else sn_last_event_sequence n = 0 \<and> sn_last_event_hash n = [])"

abbreviation refused :: "state_error + 'a" where
  "refused \<equiv> Inl (EngineFault SnapshotIntegrity)"

definition restore_snapshot_authoritative ::
  "state_env \<Rightarrow> snapshot \<Rightarrow> filesystem \<Rightarrow> ledger \<Rightarrow> state_error + project_state" where
  "restore_snapshot_authoritative env n fs led =
     bindE (raised EngineFault (verify_integrity (sv_rt env) n)) (\<lambda>ok.
     if \<not> ok then refused
     else if \<not> snapshot_bound (sv_rt env) n then refused
     else bindE (read_canonical_events env (sn_project_id n) led) (\<lambda>es.
       if fst (head_of es) < sn_last_event_sequence n then refused
       else bindE (assemble_authority env fs es) (\<lambda>(au, tasks, decisions).
         let prefix = filter (\<lambda>e. ev_sequence e \<le> sn_last_event_sequence n) es;
             tail = filter (\<lambda>e. sn_last_event_sequence n < ev_sequence e) es
         in if \<not> prefix_matches n prefix then refused
            else bindE (historical_state env (sn_project_id n) au prefix) (\<lambda>s.
              if \<not> same_history (sn_state n) s then refused
              else bindE (if tail = [] then Inr s
                  else raised EngineFault (reduce_internal (sv_rt env) GOVERNANCE_RULES_VERSION tail (Some s) [] []
                         (Some (sn_project_id n)) (Some au))) (\<lambda>t.
                apply_current_overlay env t tasks decisions au)))))"

subsection \<open>Governance evaluations\<close>

definition evaluation_target :: "string \<Rightarrow> project_phase \<Rightarrow> project_phase" where
  "evaluation_target ty phase =
     (if ty = ''dor'' then (if phase = DISCOVERY then PLANNING else EXECUTION)
      else (if phase = CLOSING then CLOSED else CLOSING))"

text \<open>An event of the service at a position, and \<open>event_id or f"evt_{project_id}_{\<dots>}"\<close>.\<close>

definition governed_event ::
  "state_env \<Rightarrow> string \<Rightarrow> string \<Rightarrow> int \<times> string \<Rightarrow> string \<Rightarrow> string \<Rightarrow> payload \<Rightarrow> string list \<Rightarrow>
   state_error + project_event" where
  "governed_event env pid eid head actor et p refs =
     bindE (raised (\<lambda>_. StateValue) (compute_payload_digest (sv_rt env) p)) (\<lambda>d.
     let raw = \<lparr>ev_event_id = eid, ev_schema_version = ''power.project-event.v1'', ev_project_id = pid,
           ev_sequence = fst head + 1, ev_timestamp = le_now (sv_ledger env), ev_actor = actor,
           ev_source = ''pse_governance'', ev_session_id = None, ev_event_type = et, ev_payload = p,
           ev_payload_digest = d, ev_prev_event_hash = snd head, ev_event_hash = [], ev_artifact_refs = [],
           ev_evidence_refs = refs, ev_correlation_id = None, ev_causation_id = None,
           ev_idempotency_key = None\<rparr>
     in bindE (raised (\<lambda>_. StateValue) (event_hash_of (sv_rt env) raw)) (\<lambda>h.
        raised (\<lambda>_. StateValue) (validate_event (sv_rt env) (raw\<lparr>ev_event_hash := h\<rparr>))))"

definition event_name :: "string \<Rightarrow> string option \<Rightarrow> string \<Rightarrow> string" where
  "event_name pid eid uuid = str_or eid (''evt_'' @ pid @ ''_'' @ uuid)"

definition clean_refs :: "string list \<Rightarrow> string list" where
  "clean_refs refs = sorted_set (filter (\<lambda>r. r \<noteq> []) (map strip refs))"

text \<open>Whether the gate passes; a Definition of Done is evaluated with a preview of the transition.\<close>

definition gate_passes ::
  "state_env \<Rightarrow> string \<Rightarrow> string \<Rightarrow> string \<Rightarrow> string option \<Rightarrow> string list \<Rightarrow> int \<times> string \<Rightarrow>
   project_state \<Rightarrow> project_phase \<Rightarrow> authority_context \<Rightarrow> state_error + bool" where
  "gate_passes env pid ty actor eid refs head s target au =
     (if ty = ''dor'' then Inr (dor_passed (evaluate_dor s target))
      else bindE (governed_event env pid (event_name pid eid (sv_preview_uuid env)) head actor
          ''project.phase.changed''
          [(''target_phase'', JStr (phase_str target)), (''evidence_refs'', jstrs refs)] refs) (\<lambda>e.
        Inr (dod_passed (evaluate_dod s target (Some e) (Some au)))))"

definition hist_eval_dump :: "hist_eval \<Rightarrow> payload" where
  "hist_eval_dump h =
    [(''evaluation_type'', JStr (he_evaluation_type h)), (''result'', JStr (he_result h)),
     (''evaluated_from_phase'', JStr (phase_str (he_evaluated_from_phase h))),
     (''evaluated_phase'', JStr (phase_str (he_evaluated_phase h))),
     (''evaluation_event_id'', JStr (he_evaluation_event_id h)),
     (''task_views'', JList (map task_view_json (he_task_views h))),
     (''decision_views'', JList (map decision_view_json (he_decision_views h))),
     (''approved_decision_ids'', jstrs (he_approved_decision_ids h)),
     (''verified_task_receipts'', jstrs (he_verified_task_receipts h)),
     (''required_evidence_refs'', jstrs (he_required_evidence_refs h)),
     (''accountable_actor'', jopt (he_accountable_actor h)),
     (''rules_version'', JStr (he_rules_version h)), (''rules_digest'', JStr (he_rules_digest h))]"

definition new_evaluation ::
  "pyrt \<Rightarrow> string \<Rightarrow> project_phase \<Rightarrow> project_phase \<Rightarrow> string \<Rightarrow> task_view dict \<Rightarrow> decision_view dict \<Rightarrow>
   authority_context \<Rightarrow> string list \<Rightarrow> hist_eval" where
  "new_evaluation rt ty from_phase target eid tasks decisions au refs =
     \<lparr>he_evaluation_type = ty, he_result = ''passed'', he_evaluated_from_phase = from_phase,
      he_evaluated_phase = target, he_evaluation_event_id = eid,
      he_task_views = map snd (sort_dict tasks), he_decision_views = map snd (sort_dict decisions),
      he_approved_decision_ids = sort (map fst (filter (\<lambda>(did, v).
         dv_status v = ''approved'' \<and> did \<in> au_approved_decision_ids au) decisions)),
      he_verified_task_receipts = sorted_list_of_set (au_verified_task_receipts au),
      he_required_evidence_refs = refs, he_accountable_actor = au_accountable_actor au,
      he_rules_version = GOVERNANCE_RULES_VERSION, he_rules_digest = RULES_DIGEST rt\<rparr>"

definition governance_append_command ::
  "pyrt \<Rightarrow> string \<Rightarrow> string \<Rightarrow> payload \<Rightarrow> string \<Rightarrow> string \<Rightarrow> string option \<Rightarrow> string list \<Rightarrow>
   state_error + append_command" where
  "governance_append_command rt pid et p actor eid time refs = raised (\<lambda>_. StateValue) (validate_command rt
     \<lparr>ac_project_id = pid, ac_event_type = et, ac_payload = p, ac_actor = actor,
      ac_source = ''pse_governance'', ac_session_id = None, ac_artifact_refs = [], ac_evidence_refs = refs,
      ac_correlation_id = None, ac_causation_id = None, ac_idempotency_key = None, ac_event_id = Some eid,
      ac_timestamp = time\<rparr>)"

text \<open>The command of an evaluation and the head it expects, or why there is none.\<close>

definition plan_evaluation ::
  "state_env \<Rightarrow> string \<Rightarrow> string \<Rightarrow> string \<Rightarrow> string list \<Rightarrow> string option \<Rightarrow> filesystem \<Rightarrow> ledger \<Rightarrow>
   state_error + append_command \<times> int \<times> string" where
  "plan_evaluation env pid ty actor evidence eid fs led =
     (if strip actor = [] then Inl StateValue
      else if is_untrusted_actor actor then Inl StatePermission
      else
        bindE (read_canonical_events env pid led) (\<lambda>es.
        bindE (assemble_authority env fs es) (\<lambda>(au, tasks, decisions).
        bindE (historical_state env pid au es) (\<lambda>h.
        bindE (apply_current_overlay env h tasks decisions au) (\<lambda>s.
        let refs = clean_refs evidence; target = evaluation_target ty (st_current_phase s);
            name = event_name pid eid (sv_uuid env); active = fst (collect_ids es)
        in if \<not> set refs \<subseteq> set (st_attached_evidence s) then Inl StateValue
           else bindE (gate_passes env pid ty actor eid refs (head_of es) s target au) (\<lambda>passed.
             if \<not> passed then Inl StateValue
             else if target \<noteq> PLANNING \<and> set (map fst tasks) \<noteq> set active then Inl StateValue
             else let h = new_evaluation (sv_rt env) ty (st_current_phase s) target name tasks decisions au refs
               in if \<not> hist_eval_ok h then Inl StateValue
                  else bindE (governance_append_command (sv_rt env) pid (ty @ ''.evaluated'')
                      (hist_eval_dump h) actor name None refs) (\<lambda>c.
                    Inr (c, head_of es))))))))"

definition append_governance_evaluation ::
  "state_env \<Rightarrow> string \<Rightarrow> string \<Rightarrow> string \<Rightarrow> string list \<Rightarrow> string option \<Rightarrow> filesystem \<Rightarrow> ledger \<Rightarrow>
   (state_error + project_event) \<times> ledger" where
  "append_governance_evaluation env pid ty actor evidence eid fs led =
     (case plan_evaluation env pid ty actor evidence eid fs led of
        Inl x \<Rightarrow> (Inl x, led)
      | Inr (c, n, h) \<Rightarrow>
          (case append_governed (sv_ledger env) pid c (Some n) (Some h) led of
             (r, led') \<Rightarrow> (raised LedgerFault r, led')))"

subsection \<open>Gate overrides\<close>

definition plan_override ::
  "state_env \<Rightarrow> string \<Rightarrow> string \<Rightarrow> string \<Rightarrow> string \<Rightarrow> string \<Rightarrow> string list \<Rightarrow> filesystem \<Rightarrow> ledger \<Rightarrow>
   state_error + append_command \<times> int \<times> string" where
  "plan_override env pid gate actor reason approved_by evidence fs led =
     (if strip gate = [] \<or> strip reason = [] \<or> strip approved_by = [] then Inl StateValue
      else
        bindE (read_canonical_events env pid led) (\<lambda>es.
        bindE (assemble_authority env fs es) (\<lambda>(au, _, _).
        bindE (historical_state env pid au es) (\<lambda>s.
        let refs = clean_refs evidence; v = verify (sv_ledger env) pid (ld_files led);
            head = (sc_last_sequence v, sc_last_hash v); name = event_name pid None (sv_uuid env);
            p = [(''gate'', JStr gate), (''overridden_by'', JStr actor), (''reason'', JStr reason),
                 (''approved_by'', JStr approved_by), (''evidence_refs'', jstrs refs)]
        in if refs = [] \<or> \<not> set refs \<subseteq> set (st_attached_evidence s) then Inl StateValue
           else
             bindE (governed_event env pid name head actor ''gate.overridden'' p refs) (\<lambda>e.
             bindE (raised EngineFault (evaluate_gate_override GOVERNANCE_RULES_VERSION e
                 (effective_authority s (Some au)))) (\<lambda>g.
             if ge_decision g \<noteq> ALLOW then Inl AuthoritativeState
             else bindE (governance_append_command (sv_rt env) pid ''gate.overridden'' p actor name
                 (Some (le_now (sv_ledger env))) refs) (\<lambda>c. Inr (c, head))))))))"

definition append_governed_gate_override ::
  "state_env \<Rightarrow> string \<Rightarrow> string \<Rightarrow> string \<Rightarrow> string \<Rightarrow> string \<Rightarrow> string list \<Rightarrow> filesystem \<Rightarrow> ledger \<Rightarrow>
   (state_error + project_event) \<times> ledger" where
  "append_governed_gate_override env pid gate actor reason approved_by evidence fs led =
     (case plan_override env pid gate actor reason approved_by evidence fs led of
        Inl x \<Rightarrow> (Inl x, led)
      | Inr (c, n, h) \<Rightarrow>
          (case append_governed (sv_ledger env) pid c (Some n) (Some h) led of
             (r, led') \<Rightarrow> (raised LedgerFault r, led')))"

end
