(* ===== verification/State_Facts.thy ===== *)
theory State_Facts
  imports State_Governance Ledger_Steps Replay_Properties
begin

text \<open>
  Facts on the trusted state service: what the canonical events satisfy, which part of an authority
  a historical replay uses, the views of a store, and what the overlay leaves alone.
\<close>

lemma raised_Inr [simp]: "raised f m = Inr x \<longleftrightarrow> m = Inr x"
  by (simp add: raised_def split: sum.split)

lemma raised_simps [simp]: "raised f (Inr x) = Inr x" "raised f (Inl e) = Inl (f e)"
  by (simp_all add: raised_def)

lemma mapE_Inr_iff: "mapE f xs = Inr ys \<longleftrightarrow> list_all2 (\<lambda>x y. f x = Inr y) xs ys"
proof (induction xs arbitrary: ys)
  case (Cons x xs)
  then show ?case by (cases ys) (auto simp: bindE_eq_Inr)
qed auto

subsection \<open>Canonical events\<close>

lemma canonical_events:
  assumes "read_canonical_events env pid led = Inr es"
  shows "replay (sv_ledger env) 1 (ld_files led) = Inr es" "linked (sv_rt env) pid 1 [] es"
    "distinct (map ev_event_id es)" "validate_project_id pid"
    "verify (sv_ledger env) pid (ld_files led) = fold scan_event es scan_start"
proof -
  have valid: "valid_scan (verify (sv_ledger env) pid (ld_files led))" and pid: "validate_project_id pid"
    using assms by (auto simp: read_canonical_events_def split: if_splits)
  have es: "replay (sv_ledger env) 1 (ld_files led) = Inr es"
    using assms
    by (auto simp: read_canonical_events_def read_verified_replay_def with_project_lock_def bindE_eq_Inr Let_def
        split: if_splits sum.splits prod.splits)
  with valid have run: "good_run (sv_rt env) pid es scan_start" by (auto simp: verify_iff)
  then show "linked (sv_rt env) pid 1 [] es" "distinct (map ev_event_id es)"
    by (simp_all add: good_run_iff scan_start_def)
  show "validate_project_id pid" by (rule pid)
  show "verify (sv_ledger env) pid (ld_files led) = fold scan_event es scan_start" by (rule verify_eq [OF es run])
  show "replay (sv_ledger env) 1 (ld_files led) = Inr es" by (rule es)
qed

lemma linked_sorted: "linked rt pid n prev es \<Longrightarrow> sorted (map ev_sequence es) \<and> (\<forall>e \<in> set es. n \<le> ev_sequence e)"
  by (induction es arbitrary: n prev) (auto, fastforce+)

lemma split_at: "sorted (map f es) \<Longrightarrow> filter (\<lambda>e. f e \<le> (k :: int)) es @ filter (\<lambda>e. k < f e) es = es"
proof (induction es)
  case (Cons e es)
  have none: "filter (\<lambda>x. f x \<le> k) es = []" "filter (\<lambda>x. k < f x) es = es" if "\<not> f e \<le> k"
    using that Cons.prems by (auto simp: filter_empty_conv filter_id_conv)
  show ?case by (cases "f e \<le> k") (use Cons none in auto)
qed simp

lemma linked_prefix:
  assumes "linked rt pid 1 [] (es1 @ es2)"
  shows "filter (\<lambda>e. ev_sequence e \<le> int (length es1)) (es1 @ es2) = es1"
    "filter (\<lambda>e. int (length es1) < ev_sequence e) (es1 @ es2) = es2"
proof -
  have two: "(\<forall>e \<in> set es1. ev_sequence e < n + int (length es1)) \<and> (\<forall>e \<in> set es2. n + int (length es1) \<le> ev_sequence e)"
    if "linked rt pid n prev (es1 @ es2)" for n prev
    using that
  proof (induction es1 arbitrary: n prev)
    case Nil
    then show ?case using linked_sorted [of rt pid n prev es2] by simp
  next
    case (Cons e es1)
    then have "linked rt pid (n + 1) (ev_event_hash e) (es1 @ es2)" "ev_sequence e = n" by simp_all
    then show ?case using Cons.IH by fastforce
  qed
  have "filter (\<lambda>e. ev_sequence e \<le> int (length es1)) es1 = es1" "filter (\<lambda>e. int (length es1) < ev_sequence e) es1 = []"
    "filter (\<lambda>e. ev_sequence e \<le> int (length es1)) es2 = []" "filter (\<lambda>e. int (length es1) < ev_sequence e) es2 = es2"
    unfolding filter_id_conv filter_empty_conv using two [OF assms] by fastforce+
  then show "filter (\<lambda>e. ev_sequence e \<le> int (length es1)) (es1 @ es2) = es1"
    "filter (\<lambda>e. int (length es1) < ev_sequence e) (es1 @ es2) = es2"
    by simp_all
qed

subsection \<open>Historical replays\<close>

text \<open>A historical replay reads no more of its authority than that it is historical, and whether an
  accountable approval is permitted.\<close>

definition same_history_authority :: "authority_context \<Rightarrow> authority_context \<Rightarrow> bool" where
  "same_history_authority a b = (au_historical a \<and> au_historical b
     \<and> au_permit_accountable_approval a = au_permit_accountable_approval b)"

lemma historical_checks:
  assumes "same_history_authority a b"
  shows "historical (Some a)" "historical (Some b)"
    "effective_authority s (Some a) = effective_authority s (Some b)"
    "missing_evaluation (Some a) = missing_evaluation (Some b)"
    "commit_transition (Some a) = commit_transition (Some b)"
    "settle_rules rt (Some a) = settle_rules rt (Some b)"
    "check_provenance (Some a) = check_provenance (Some b)"
proof -
  show h: "historical (Some a)" "historical (Some b)"
    using assms by (simp_all add: historical_def same_history_authority_def)
  show "effective_authority s (Some a) = effective_authority s (Some b)"
    using assms by (simp add: effective_authority_def same_history_authority_def Let_def)
  have same: "historical (Some a) = historical (Some b)" using h by simp
  show "missing_evaluation (Some a) = missing_evaluation (Some b)"
    "commit_transition (Some a) = commit_transition (Some b)"
    "settle_rules rt (Some a) = settle_rules rt (Some b)"
    "check_provenance (Some a) = check_provenance (Some b)"
    unfolding fun_eq_iff missing_evaluation_def commit_transition_def settle_rules_def check_provenance_def same
    by (intro allI refl)+
qed

lemma historical_dispatch:
  assumes "same_history_authority a b"
  shows "apply_event rt rv (Some a) = apply_event rt rv (Some b)"
proof -
  note eq = historical_checks [OF assms]
  have changes: "handle_phase_transition rt rv (Some a) = handle_phase_transition rt rv (Some b)"
    "handle_gate_override rt rv (Some a) = handle_gate_override rt rv (Some b)"
    "handle_historical_evaluation rt rv (Some a) = handle_historical_evaluation rt rv (Some b)"
    unfolding fun_eq_iff handle_phase_transition_def handle_gate_override_def handle_historical_evaluation_def
      eq(3-5) using eq(1,2) by simp_all
  have none: "(Some x = None) = False" for x :: authority_context by simp
  have observations: "handle_task_observed rt (Some a) = handle_task_observed rt (Some b)"
    "handle_decision_observed rt (Some a) = handle_decision_observed rt (Some b)"
    unfolding fun_eq_iff handle_task_observed_def handle_decision_observed_def none by (intro allI refl)+
  have run: "dispatch rt rv (Some a) = dispatch rt rv (Some b)"
    unfolding fun_eq_iff dispatch_def changes observations by (intro allI refl)
  show ?thesis unfolding fun_eq_iff apply_event_def eq(7) run by (intro allI refl)
qed

lemma historical_projections:
  assumes "same_history_authority a b"
  shows "compute_projections rt (Some a) = compute_projections rt (Some b)"
  unfolding fun_eq_iff compute_projections_def historical_checks [OF assms] by simp

lemma historical_reduce:
  assumes "same_history_authority a b"
  shows "reduce_internal rt rv es init tvs dvs pid (Some a) = reduce_internal rt rv es init tvs' dvs' pid (Some b)"
  unfolding reduce_internal_def historical_checks(6) [OF assms] historical_dispatch [OF assms]
    historical_projections [OF assms]
  using historical_checks(1,2) [OF assms] by simp

lemma assembled_historical:
  "assemble_authority env fs es = Inr (au, tasks, decisions) \<Longrightarrow>
   au_historical au \<and> au_permit_accountable_approval au"
  by (auto simp: assemble_authority_def bindE_eq_Inr Let_def split: prod.splits)

lemma assembled_same:
  "assemble_authority env fs es = Inr (au, ts, ds) \<Longrightarrow> assemble_authority env' fs' es' = Inr (au', ts', ds') \<Longrightarrow>
   same_history_authority au au'"
  using assembled_historical by (fastforce simp: same_history_authority_def)

text \<open>Replaying the rest of a ledger on the state of a prefix.\<close>

lemma reduce_from_prefix:
  assumes "reduce_internal rt rv es1 None [] [] (Some pid) au = Inr s" "pid \<noteq> []" "RULES_DIGEST rt \<noteq> []"
  shows "reduce_internal rt rv es2 (Some s) [] [] (Some pid) au
    = reduce_internal rt rv (es1 @ es2) None [] [] (Some pid) au"
proof -
  have target: "target_project es i (Some pid) = Inr pid" for es i
    using assms(2) by (cases pid) (simp_all add: target_project_def)
  obtain s0 u where u: "fresh rt rv pid s0" "replay_start rt rv pid [] [] au = Inr s0"
    "foldE (apply_event rt rv au) es1 s0 = Inr u" "compute_projections rt au u = Inr s"
    using assms(1) target by (elim reduceE) simp
  have sim: "sim u s" by (rule run_agrees [OF u(1,3,4)])
  have digest: "st_rules_digest s = RULES_DIGEST rt" "st_project_id s = pid"
    using compute_projections_header [OF sim] projected_fields [OF u(4)] fold_header [OF u(3)] u(1)
    by (simp_all add: fresh_def lineage_def)
  then have start: "start_state rt rv (Some s) pid = Inr s" "settle_rules rt au s = Inr s"
    using assms(3) by (simp_all add: start_state_def settle_rules_def)
  have "reduce_internal rt rv es2 (Some s) [] [] (Some pid) au =
      bindE (foldE (apply_event rt rv au) es2 s) (compute_projections rt au)"
    by (simp add: reduce_internal_def target start)
  also have "\<dots> = bindE (foldE (apply_event rt rv au) es2 u) (compute_projections rt au)"
    by (rule replay_from_agreeing [OF sim])
  also have "\<dots> = reduce_internal rt rv (es1 @ es2) None [] [] (Some pid) au"
    by (simp add: reduce_internal_eq target u(2,3) foldE_append)
  finally show ?thesis .
qed

subsection \<open>Views of a store\<close>

text \<open>
  What the two resolutions of live objects share: each identifier is looked up in sorted order, an
  unknown one is skipped, and a found one is paired with what its owner says of it.
\<close>

locale live_source =
  fixes live :: "string \<Rightarrow> state_error + (string \<times> 'v) option" and owner_says :: "string \<Rightarrow> 'v \<Rightarrow> bool"
  assumes live_found: "live k = Inr (Some (k', v)) \<Longrightarrow> k' = k \<and> owner_says k v"
begin

lemma resolved:
  assumes "mapE live ks = Inr found"
  shows "map fst (List.map_filter id found) = filter (\<lambda>k. live k \<noteq> Inr None) ks"
    "\<forall>(k, v) \<in> set (List.map_filter id found). k \<in> set ks \<and> owner_says k v"
proof -
  have "list_all2 (\<lambda>k y. live k = Inr y) ks found" using assms by (simp only: mapE_Inr_iff)
  then have "map fst (List.map_filter id found) = filter (\<lambda>k. live k \<noteq> Inr None) ks
    \<and> (\<forall>(k, v) \<in> set (List.map_filter id found). k \<in> set ks \<and> owner_says k v)"
  proof (induction rule: list_all2_induct)
    case (Cons k ks y ys)
    then show ?case
      by (cases y) (auto simp: List.map_filter_simps dest: live_found)
  qed (simp add: List.map_filter_simps)
  then show "map fst (List.map_filter id found) = filter (\<lambda>k. live k \<noteq> Inr None) ks"
    "\<forall>(k, v) \<in> set (List.map_filter id found). k \<in> set ks \<and> owner_says k v" by blast+
qed

lemma resolved_keys:
  assumes "mapE live (sort ids) = Inr found" "distinct ids"
  shows "sorted (map fst (List.map_filter id found))" "distinct (map fst (List.map_filter id found))"
    "set (map fst (List.map_filter id found)) = {k \<in> set ids. live k \<noteq> Inr None}"
  unfolding resolved(1) [OF assms(1)] using assms(2) by (auto simp: sorted_filter [where f = id, simplified])

end

definition task_owner_says :: "state_env \<Rightarrow> filesystem \<Rightarrow> string \<Rightarrow> task_view \<Rightarrow> bool" where
  "task_owner_says env fs k v = (\<exists>t. get_task (sv_store env) fs k = Inr (Some t) \<and> from_power_task (sv_rt env) t = Inr v)"

definition decision_owner_says :: "state_env \<Rightarrow> filesystem \<Rightarrow> string \<Rightarrow> decision_view \<times> bool \<Rightarrow> bool" where
  "decision_owner_says env fs k w = (\<exists>d. get_decision (sv_decisions env) fs k = Inr (Some d)
     \<and> from_decision (sv_rt env) d = Inr (fst w) \<and> canonical_approval env fs k d = Inr (snd w))"

interpretation task_views: live_source "live_task env fs" "task_owner_says env fs" for env fs
  by unfold_locales
    (auto simp: live_task_def task_owner_says_def bindE_eq_Inr split: option.splits)

interpretation decision_views: live_source "live_decision env fs" "decision_owner_says env fs" for env fs
  by unfold_locales
    (auto simp: live_decision_def decision_owner_says_def bindE_eq_Inr split: option.splits)

lemma live_unknown:
  "live_task env fs k = Inr None \<longleftrightarrow> get_task (sv_store env) fs k = Inr None"
  "live_decision env fs k = Inr None \<longleftrightarrow> get_decision (sv_decisions env) fs k = Inr None"
  by (auto simp: live_task_def live_decision_def bindE_eq_Inr raised_def split: option.splits sum.splits)

text \<open>Active relationships.\<close>

lemma collect_distinct: "distinct (fst (collect_ids es)) \<and> distinct (snd (collect_ids es))"
proof -
  have "distinct (fst (fold collect_id es ids)) \<and> distinct (snd (fold collect_id es ids))"
    if "distinct (fst ids) \<and> distinct (snd ids)" for ids
    using that
  proof (induction es arbitrary: ids)
    case (Cons e es)
    have "distinct (fst (collect_id e ids)) \<and> distinct (snd (collect_id e ids))"
      using Cons.prems by (auto simp: collect_id_def Let_def add_id_def drop_id_def split: prod.splits option.splits)
    then show ?case using Cons.IH by simp
  qed simp
  from this [of "([], [])"] show ?thesis by (simp add: collect_ids_def)
qed

lemma from_power_task_view:
  assumes "from_power_task rt t = Inr v"
  shows "task_view_ok v" "tv_digest v = task_view_expected rt v" "tv_task_id v = pt_task_id t"
    "tv_source_identity v = ''TaskStore:v2''" "tv_state v = task_state_str (pt_state t)"
    "tv_receipt_ids v = sort (pt_receipt_ids t)"
proof -
  have digest: "task_view_digest rt i s n (sort ds) (sort gs) (sort rs) = task_view_digest rt i s n ds gs rs"
    for i s n ds gs rs by (simp add: task_view_digest_def sorted_sort_id)
  show "task_view_ok v" "tv_digest v = task_view_expected rt v" "tv_task_id v = pt_task_id t"
    "tv_source_identity v = ''TaskStore:v2''" "tv_state v = task_state_str (pt_state t)"
    "tv_receipt_ids v = sort (pt_receipt_ids t)"
    using assms digest by (auto simp: from_power_task_def mk_task_view_def task_view_expected_def split: if_splits)
qed

lemma from_decision_view:
  assumes "from_decision rt d = Inr v"
  shows "decision_view_ok v" "dv_digest v = decision_view_expected rt v" "dv_decision_id v = dc_decision_id d"
    "dv_source_identity v = ''DecisionService:v1''" "dv_status v = dc_status d" "dv_receipt_id v = dc_receipt_id d"
  using assms by (auto simp: from_decision_def mk_decision_view_def decision_view_expected_def split: if_splits)

lemma assembledE:
  assumes "assemble_authority env fs es = Inr (au, tasks, decisions)"
  obtains approved receipts where
    "validate_historical_evaluations env fs es = Inr ()"
    "resolve_live_tasks env fs (fst (collect_ids es)) = Inr tasks"
    "resolve_live_decisions env fs (snd (collect_ids es)) = Inr (decisions, approved)"
    "verified_task_receipts env fs (fst (collect_ids es)) = Inr receipts"
    "au_approved_decision_ids au = set approved" "au_verified_task_receipts au = set receipts"
    "au_attached_evidence au = attached_by es"
    "au_raci au = map (\<lambda>(role, actors). (role, sort actors)) (assigned_raci es)"
  using assms by (auto simp: assemble_authority_def bindE_eq_Inr Let_def split: prod.splits)

lemma resolved_tasks:
  assumes "resolve_live_tasks env fs ids = Inr tasks" "distinct ids"
  shows "sorted (map fst tasks)" "distinct (map fst tasks)"
    "set (map fst tasks) = {k \<in> set ids. get_task (sv_store env) fs k \<noteq> Inr None}"
    "\<forall>(k, v) \<in> set tasks. k \<in> set ids \<and> task_owner_says env fs k v"
proof -
  obtain found where found: "mapE (live_task env fs) (sort ids) = Inr found" "tasks = List.map_filter id found"
    using assms(1) by (auto simp: resolve_live_tasks_def bindE_eq_Inr)
  note keys = task_views.resolved_keys [OF found(1) assms(2), unfolded live_unknown] task_views.resolved(2) [OF found(1)]
  show "sorted (map fst tasks)" "distinct (map fst tasks)"
    "set (map fst tasks) = {k \<in> set ids. get_task (sv_store env) fs k \<noteq> Inr None}"
    "\<forall>(k, v) \<in> set tasks. k \<in> set ids \<and> task_owner_says env fs k v"
    using keys by (simp_all add: found(2))
qed

lemma resolved_decisions:
  assumes "resolve_live_decisions env fs ids = Inr (decisions, approved)" "distinct ids"
  shows "sorted (map fst decisions)" "distinct (map fst decisions)"
    "set (map fst decisions) = {k \<in> set ids. get_decision (sv_decisions env) fs k \<noteq> Inr None}"
    "\<forall>(k, v) \<in> set decisions. k \<in> set ids \<and> (\<exists>a. decision_owner_says env fs k (v, a))"
    "\<forall>k \<in> set approved. k \<in> set ids \<and> (\<exists>v. decision_owner_says env fs k (v, True))"
proof -
  obtain found where found: "mapE (live_decision env fs) (sort ids) = Inr found"
    "decisions = map (\<lambda>(k, v, a). (k, v)) (List.map_filter id found)"
    "approved = map fst (filter (\<lambda>(k, v, a). a) (List.map_filter id found))"
    using assms(1) by (auto simp: resolve_live_decisions_def bindE_eq_Inr Let_def)
  note keys = decision_views.resolved_keys [OF found(1) assms(2), unfolded live_unknown]
    decision_views.resolved(2) [OF found(1)]
  have fst: "map fst decisions = map fst (List.map_filter id found)" by (simp add: found(2) split_def comp_def)
  show "sorted (map fst decisions)" "distinct (map fst decisions)"
    "set (map fst decisions) = {k \<in> set ids. get_decision (sv_decisions env) fs k \<noteq> Inr None}"
    unfolding fst using keys(1-3) by simp_all
  show "\<forall>(k, v) \<in> set decisions. k \<in> set ids \<and> (\<exists>a. decision_owner_says env fs k (v, a))"
    "\<forall>k \<in> set approved. k \<in> set ids \<and> (\<exists>v. decision_owner_says env fs k (v, True))"
    using keys(4) by (fastforce simp: found(2,3))+
qed

lemma approval_from_owner:
  assumes "decision_owner_says env fs k (v, True)"
  obtains d r where "get_decision (sv_decisions env) fs k = Inr (Some d)" "dc_status d = ''approved''"
    "get_decision_receipt (sv_decisions env) fs (dr_receipt_id r) = Inr (Some r)" "approves k d r"
  using assms
  by (auto simp: decision_owner_says_def canonical_approval_def bindE_eq_Inr approves_def split: if_splits option.splits)

lemma receipt_from_owner:
  assumes "verified_task_receipts env fs ids = Inr receipts" "rid \<in> set receipts"
  obtains tid t r where "tid \<in> set ids" "get_task (sv_store env) fs tid = Inr (Some t)" "rid \<in> set (pt_receipt_ids t)"
    "get_completion_receipt (sv_store env) fs rid = Inr (Some r)" "cr_task_id r = tid"
    "pt_state t \<in> set TERMINAL_STATES" "cr_task_revision r = pt_revision t"
proof -
  obtain rs where rs: "mapE (task_receipts env fs) ids = Inr rs" "receipts = concat rs"
    using assms(1) by (auto simp: verified_task_receipts_def bindE_eq_Inr)
  then obtain tid xs where tid: "tid \<in> set ids" "task_receipts env fs tid = Inr xs" "rid \<in> set xs"
    using assms(2) by (auto simp: mapE_Inr_iff list_all2_conv_all_nth set_conv_nth [of rs]) (metis nth_mem)
  then obtain t ys where t: "get_task (sv_store env) fs tid = Inr (Some t)"
    "mapE (verified_receipt env fs tid t) (pt_receipt_ids t) = Inr ys" "xs = concat ys"
    by (auto simp: task_receipts_def bindE_eq_Inr split: option.splits)
  then obtain x zs where "x \<in> set (pt_receipt_ids t)" "verified_receipt env fs tid t x = Inr zs" "rid \<in> set zs"
    using tid(3) by (auto simp: mapE_Inr_iff list_all2_conv_all_nth set_conv_nth [of ys]) (metis nth_mem)
  then show thesis
    using that [OF tid(1) t(1)] by (auto simp: verified_receipt_def split: if_splits sum.splits option.splits)
qed

end
