(* ===== verification/State_Snapshots.thy ===== *)
theory State_Snapshots
  imports State_Facts
begin

text \<open>
  What the current overlay leaves of a historical state, and which snapshots the trusted state
  service accepts.
\<close>

subsection \<open>The overlay\<close>

text \<open>The state without the fields that the overlay writes.\<close>

definition overlay_core :: "project_state \<Rightarrow> project_state" where
  "overlay_core s = s\<lparr>st_tasks := [], st_decisions := [], st_health_flags := []\<rparr>"

lemma overlay_frame: "overlay_core (overlay tasks decisions s) = overlay_core s"
  by (simp add: overlay_def overlay_core_def mark_stale_def Let_def)

lemma overlay_keeps:
  assumes "\<And>u. f (overlay_core u) = f u"
  shows "f (overlay tasks decisions s) = f s"
  by (metis assms overlay_frame)

lemma overlay_fields:
  "st_current_phase (overlay ts ds s) = st_current_phase s" "st_owner (overlay ts ds s) = st_owner s"
  "st_phase_history (overlay ts ds s) = st_phase_history s" "st_raci (overlay ts ds s) = st_raci s"
  "st_attached_evidence (overlay ts ds s) = st_attached_evidence s"
  "st_evidence_kinds (overlay ts ds s) = st_evidence_kinds s"
  "st_hist_approved (overlay ts ds s) = st_hist_approved s" "st_hist_receipts (overlay ts ds s) = st_hist_receipts s"
  "st_hist_evaluations (overlay ts ds s) = st_hist_evaluations s" "st_hist_gates (overlay ts ds s) = st_hist_gates s"
  "st_hist_origins (overlay ts ds s) = st_hist_origins s" "st_overridden_gates (overlay ts ds s) = st_overridden_gates s"
  "st_risks (overlay ts ds s) = st_risks s" "st_issues (overlay ts ds s) = st_issues s"
  "st_assumptions (overlay ts ds s) = st_assumptions s" "st_dependencies (overlay ts ds s) = st_dependencies s"
  "st_contributing_events (overlay ts ds s) = st_contributing_events s"
  "st_last_event_sequence (overlay ts ds s) = st_last_event_sequence s"
  "st_last_event_hash (overlay ts ds s) = st_last_event_hash s" "st_schema_version (overlay ts ds s) = st_schema_version s"
  "st_rules_version (overlay ts ds s) = st_rules_version s" "st_rules_digest (overlay ts ds s) = st_rules_digest s"
  "st_project_id (overlay ts ds s) = st_project_id s"
  by (rule overlay_keeps, simp add: overlay_core_def)+

text \<open>What the projections make of these fields.\<close>

lemma projected_history:
  assumes "compute_projections rt au u = Inr s"
  shows "st_owner s = st_owner u" "st_evidence_kinds s = sort_dict (st_evidence_kinds u)"
    "st_hist_approved s = sort_dict (st_hist_approved u)" "st_hist_receipts s = sort_dict (st_hist_receipts u)"
    "st_hist_evaluations s = sorted_set (st_hist_evaluations u)" "st_hist_gates s = sort_dict (st_hist_gates u)"
    "st_hist_origins s = sort_dict (st_hist_origins u)" "st_schema_version s = st_schema_version u"
    "st_rules_version s = st_rules_version u" "st_rules_digest s \<in> {st_rules_digest u, RULES_DIGEST rt}"
  using assms
  by (auto simp: compute_projections_def seal_revision_def bindE_eq_Inr project_health_def settle_rules_def
      project_registers_def project_decisions_def project_tasks_def Let_def split: if_splits)

lemma sort_dict_values: "sort_dict (map (\<lambda>(k, v). (k, f v)) d) = map (\<lambda>(k, v). (k, f v)) (sort_dict d)"
  unfolding sort_dict_def by (simp add: sort_key_map comp_def split_def)

lemma overlay_same_history:
  assumes h: "compute_projections rt au u = Inr h" "st_rules_digest h = RULES_DIGEST rt"
    and s: "compute_projections rt au' (overlay tasks decisions h) = Inr s"
  shows "same_history s h" "st_project_id s = st_project_id h" "st_rules_digest s = RULES_DIGEST rt"
    "st_schema_version s = st_schema_version h" "st_rules_version s = st_rules_version h"
    "st_last_event_sequence s = st_last_event_sequence h" "st_last_event_hash s = st_last_event_hash h"
proof -
  note fields = projected_history [OF s, unfolded overlay_fields] projected_fields [OF s, unfolded overlay_fields]
  note sorted = projected_history [OF h(1)] projected_fields [OF h(1)]
  have twice: "(\<lambda>(k, v). (k, sorted_set v)) \<circ> (\<lambda>(k, v). (k, sorted_set v)) = (\<lambda>(k :: string, v :: string list). (k, sorted_set v))"
    by (simp add: fun_eq_iff)
  show "st_rules_digest s = RULES_DIGEST rt" using fields(10) h(2) by auto
  then show "same_history s h"
    by (simp add: same_history_def same_dict_def fields sorted h(2) sort_dict_values twice)
  show "st_project_id s = st_project_id h" "st_schema_version s = st_schema_version h"
    "st_rules_version s = st_rules_version h" "st_last_event_sequence s = st_last_event_sequence h"
    "st_last_event_hash s = st_last_event_hash h" by (simp_all only: fields)
qed

subsection \<open>Historical states\<close>

lemma historical_state_facts:
  assumes "historical_state env pid au es = Inr h" "pid \<noteq> []" "linked (sv_rt env) pid 1 [] es"
  obtains u where "compute_projections (sv_rt env) (Some au) u = Inr h" "st_rules_digest h = RULES_DIGEST (sv_rt env)"
    "st_project_id h = pid" "st_schema_version h = STATE_SCHEMA_VERSION" "st_rules_version h = GOVERNANCE_RULES_VERSION"
    "st_last_event_sequence h = int (length es)" "st_last_event_hash h = snd (head_of es)"
proof -
  let ?red = "reduce_internal (sv_rt env) GOVERNANCE_RULES_VERSION es None [] [] (Some pid) (Some au)"
  have red: "?red = Inr h" using assms(1) by (simp add: historical_state_def)
  obtain target s0 u where u: "target_project es None (Some pid) = Inr target"
    "fresh (sv_rt env) GOVERNANCE_RULES_VERSION target s0"
    "foldE (apply_event (sv_rt env) GOVERNANCE_RULES_VERSION (Some au)) es s0 = Inr u"
    "compute_projections (sv_rt env) (Some au) u = Inr h"
    using red by (elim reduceE)
  have target: "target = pid" using u(1) assms(2) by (cases pid) (auto simp: target_project_def)
  note sim = run_agrees [OF u(2,3,4)]
  have "st_last_event_hash u = ev_event_hash (last es)" if "es \<noteq> []"
    using that ledger.run_head [of _ _ _ "butlast es" "last es" s0 u] u(3) by simp
  then have "st_last_event_sequence u = int (length es) \<and> (es \<noteq> [] \<longrightarrow> st_last_event_hash u = ev_event_hash (last es))
    \<and> (es = [] \<longrightarrow> st_last_event_hash u = [])"
    using ledger.run_position [OF u(3)] u(2,3) by (auto simp: fresh_def lineage_def)
  then show thesis
    using that [OF u(4)] u(2) compute_projections_header [OF sim] fold_header [OF u(3)] projected_fields(6) [OF u(4)]
      projected_history(8,9) [OF u(4)]
    by (auto simp: fresh_def lineage_def target head_of_def)
qed

subsection \<open>Restoring\<close>

text \<open>The replay of the events after a position, on the historical state of the events up to it.\<close>

definition resume ::
  "state_env \<Rightarrow> string \<Rightarrow> authority_context \<Rightarrow> project_event list \<Rightarrow> project_state \<Rightarrow> state_error + project_state" where
  "resume env pid au tail s = (if tail = [] then Inr s
     else raised EngineFault (reduce_internal (sv_rt env) GOVERNANCE_RULES_VERSION tail (Some s) [] [] (Some pid) (Some au)))"

lemma resume_history:
  assumes "historical_state env pid au es1 = Inr s" "pid \<noteq> []" "RULES_DIGEST (sv_rt env) \<noteq> []"
  shows "resume env pid au es2 s = historical_state env pid au (es1 @ es2)"
  using reduce_from_prefix [of "sv_rt env" GOVERNANCE_RULES_VERSION es1 pid "Some au" s es2] assms
  by (cases "es2 = []") (simp_all add: resume_def historical_state_def)

lemma project_id_nonempty: "validate_project_id pid \<Longrightarrow> pid \<noteq> []"
  by (auto simp: validate_project_id_def py_dollar_def re_project_id_def)

text \<open>A restore once the snapshot, the events and the authority are at hand.\<close>

lemma restore_unfold:
  assumes "verify_integrity (sv_rt env) n = Inr True" "snapshot_bound (sv_rt env) n"
    and "read_canonical_events env (sn_project_id n) led = Inr es"
    and "sn_last_event_sequence n \<le> fst (head_of es)"
  shows "restore_snapshot_authoritative env n fs led =
    bindE (assemble_authority env fs es) (\<lambda>(au, tasks, decisions).
      if \<not> prefix_matches n (filter (\<lambda>e. ev_sequence e \<le> sn_last_event_sequence n) es) then refused
      else bindE (historical_state env (sn_project_id n) au (filter (\<lambda>e. ev_sequence e \<le> sn_last_event_sequence n) es)) (\<lambda>s.
        if \<not> same_history (sn_state n) s then refused
        else bindE (resume env (sn_project_id n) au (filter (\<lambda>e. sn_last_event_sequence n < ev_sequence e) es) s) (\<lambda>t.
          apply_current_overlay env t tasks decisions au)))"
proof -
  have "raised EngineFault (verify_integrity (sv_rt env) n) = Inr True"
    "(fst (head_of es) < sn_last_event_sequence n) = False" "snapshot_bound (sv_rt env) n = True"
    using assms by simp_all
  note checks = this
  show ?thesis
    unfolding restore_snapshot_authoritative_def resume_def Let_def checks assms(3) bindE_Inr not_True_eq_False if_False
    by (rule refl)
qed

lemma restored_is_rebuilt:
  assumes "restore_snapshot_authoritative env n fs led = Inr t"
  shows "rebuild_project_state env (sn_project_id n) fs led = Inr t"
proof -
  obtain es where n: "verify_integrity (sv_rt env) n = Inr True" "snapshot_bound (sv_rt env) n"
    "read_canonical_events env (sn_project_id n) led = Inr es" "sn_last_event_sequence n \<le> fst (head_of es)"
    using assms by (auto simp: restore_snapshot_authoritative_def bindE_eq_Inr split: if_splits)
  let ?prefix = "filter (\<lambda>e. ev_sequence e \<le> sn_last_event_sequence n) es"
  let ?tail = "filter (\<lambda>e. sn_last_event_sequence n < ev_sequence e) es"
  obtain au tasks decisions s u where a: "assemble_authority env fs es = Inr (au, tasks, decisions)"
    "historical_state env (sn_project_id n) au ?prefix = Inr s" "resume env (sn_project_id n) au ?tail s = Inr u"
    "apply_current_overlay env u tasks decisions au = Inr t"
    using assms unfolding restore_unfold [OF n] by (auto simp: bindE_eq_Inr split: if_splits)
  note es = canonical_events [OF n(3)]
  have "?prefix @ ?tail = es" by (rule split_at) (use linked_sorted [OF es(2)] in blast)
  moreover have "RULES_DIGEST (sv_rt env) \<noteq> []" using n(2) by (auto simp: snapshot_bound_def)
  ultimately have "historical_state env (sn_project_id n) au es = Inr u"
    using resume_history [OF a(2) project_id_nonempty [OF es(4)], of ?tail] a(3) by simp
  then show ?thesis by (simp add: rebuild_project_state_def rebuild_events_def n(3) a(1,4))
qed

lemma rebuiltE:
  assumes "rebuild_project_state env pid fs led = Inr s"
  obtains es au tasks decisions h where "read_canonical_events env pid led = Inr es"
    "assemble_authority env fs es = Inr (au, tasks, decisions)" "historical_state env pid au es = Inr h"
    "compute_projections (sv_rt env) (Some au) (overlay tasks decisions h) = Inr s"
  using assms
  by (auto simp: rebuild_project_state_def rebuild_events_def apply_current_overlay_def bindE_eq_Inr)

lemma historical_state_same:
  assumes "same_history_authority a b" "sv_rt env = sv_rt env'"
  shows "historical_state env pid a es = historical_state env' pid b es"
  unfolding historical_state_def assms(2)
  by (rule arg_cong [where f = "raised EngineFault"], rule historical_reduce [OF assms(1)])

lemma sealed_state_restores:
  assumes s: "rebuild_project_state env0 pid fs0 led0 = Inr s" and n: "create_snapshot (sv_rt env0) s = Inr n"
    and es1: "read_canonical_events env0 pid led0 = Inr es1" and es: "read_canonical_events env pid led = Inr (es1 @ es2)"
    and rt: "sv_rt env0 = sv_rt env" "RULES_DIGEST (sv_rt env) \<noteq> []"
  shows "restore_snapshot_authoritative env n fs led = rebuild_project_state env pid fs led"
proof -
  obtain au0 ts0 ds0 h where h: "assemble_authority env0 fs0 es1 = Inr (au0, ts0, ds0)"
    "historical_state env0 pid au0 es1 = Inr h"
    "compute_projections (sv_rt env) (Some au0) (overlay ts0 ds0 h) = Inr s"
    using s es1 rt(1) by (elim rebuiltE) simp
  note c1 = canonical_events [OF es1] and c = canonical_events [OF es]
  note pid = project_id_nonempty [OF c1(4)]
  obtain u where u: "compute_projections (sv_rt env) (Some au0) u = Inr h" "st_rules_digest h = RULES_DIGEST (sv_rt env)"
    "st_project_id h = pid" "st_schema_version h = STATE_SCHEMA_VERSION" "st_rules_version h = GOVERNANCE_RULES_VERSION"
    "st_last_event_sequence h = int (length es1)" "st_last_event_hash h = snd (head_of es1)"
    using historical_state_facts [OF h(2) pid c1(2)] unfolding rt(1) by blast
  note o = overlay_same_history [OF u(1,2) h(3)] and m = create_snapshotD [OF n]
  have bound: "snapshot_bound (sv_rt env) n" "sn_project_id n = pid" "sn_last_event_sequence n = int (length es1)"
    "sn_last_event_hash n = snd (head_of es1)" "sn_state n = s"
    using rt(2) by (simp_all add: snapshot_bound_def m o u)
  have "int (length es1) \<le> fst (head_of (es1 @ es2))"
    using linked_last [OF c(2)] by (auto simp: head_of_def split: if_splits)
  then have "sn_last_event_sequence n \<le> fst (head_of (es1 @ es2))" by (simp only: bound(3))
  moreover have "verify_integrity (sv_rt env) n = Inr True" using create_snapshot_verifies [OF n] rt(1) by simp
  moreover have "read_canonical_events env (sn_project_id n) led = Inr (es1 @ es2)" using es by (simp only: bound(2))
  ultimately have "restore_snapshot_authoritative env n fs led = bindE (assemble_authority env fs (es1 @ es2)) (\<lambda>(au, tasks, decisions).
      if \<not> prefix_matches n es1 then refused
      else bindE (historical_state env pid au es1) (\<lambda>s'. if \<not> same_history (sn_state n) s' then refused
        else bindE (resume env pid au es2 s') (\<lambda>t. apply_current_overlay env t tasks decisions au)))"
    using restore_unfold [OF _ bound(1), of led "es1 @ es2" fs] unfolding bound(2,3) linked_prefix [OF c(2)] by blast
  moreover have "prefix_matches n es1"
    using linked_last [OF c1(2)] by (auto simp: prefix_matches_def bound head_of_def)
  moreover have "historical_state env pid au es1 = Inr h \<and> resume env pid au es2 h = historical_state env pid au (es1 @ es2)"
    if "assemble_authority env fs (es1 @ es2) = Inr (au, tasks, decisions)" for au tasks decisions
  proof -
    have "historical_state env pid au es1 = Inr h"
      using historical_state_same [OF assembled_same [OF that h(1)], of env env0] rt(1) h(2) by simp
    then show ?thesis using resume_history [OF _ pid rt(2)] by blast
  qed
  ultimately show ?thesis
    using o(1) by (cases "assemble_authority env fs (es1 @ es2)")
      (auto simp: rebuild_project_state_def rebuild_events_def es bound(5))
qed

end
