(* ===== verification/State_Evaluations.thy ===== *)
theory State_Evaluations
  imports State_Snapshots
begin

text \<open>
  What an appended governance evaluation leaves in the ledger, and how a replay reads it back.
\<close>

subsection \<open>The plan and the event\<close>

lemma plan_evaluationE:
  assumes "plan_evaluation env pid ty actor evidence eid fs led = Inr (c, n, h)"
  obtains es au tasks decisions hs s where
    "read_canonical_events env pid led = Inr es" "assemble_authority env fs es = Inr (au, tasks, decisions)"
    "historical_state env pid au es = Inr hs" "apply_current_overlay env hs tasks decisions au = Inr s"
    "strip actor \<noteq> []" "\<not> is_untrusted_actor actor" "set (clean_refs evidence) \<subseteq> set (st_attached_evidence s)"
    "gate_passes env pid ty actor eid (clean_refs evidence) (head_of es) s
       (evaluation_target ty (st_current_phase s)) au = Inr True"
    "evaluation_target ty (st_current_phase s) \<noteq> PLANNING \<longrightarrow> set (map fst tasks) = set (fst (collect_ids es))"
    "governance_append_command (sv_rt env) pid (ty @ ''.evaluated'')
       (hist_eval_dump (new_evaluation (sv_rt env) ty (st_current_phase s)
         (evaluation_target ty (st_current_phase s)) (event_name pid eid (sv_uuid env)) tasks decisions au
         (clean_refs evidence))) actor (event_name pid eid (sv_uuid env)) None (clean_refs evidence) = Inr c"
    "(n, h) = head_of es"
  using assms
  by (auto simp: plan_evaluation_def bindE_eq_Inr Let_def split: if_splits)

text \<open>The command carries the evaluation as it was planned.\<close>

lemma governed_command:
  assumes "governance_append_command rt pid (ty @ ''.evaluated'') p actor eid time refs = Inr c" "ty \<in> {''dor'', ''dod''}"
  shows "c = \<lparr>ac_project_id = pid, ac_event_type = ty @ ''.evaluated'', ac_payload = p, ac_actor = actor,
      ac_source = ''pse_governance'', ac_session_id = None, ac_artifact_refs = [], ac_evidence_refs = refs,
      ac_correlation_id = None, ac_causation_id = None, ac_idempotency_key = None, ac_event_id = Some eid,
      ac_timestamp = time\<rparr>" "validate_command rt c = Inr c"
proof -
  have none: "saga_fields (ty @ ''.evaluated'') = None" using assms(2) by (auto simp: saga_fields_def Let_def)
  show c: "c = \<lparr>ac_project_id = pid, ac_event_type = ty @ ''.evaluated'', ac_payload = p, ac_actor = actor,
      ac_source = ''pse_governance'', ac_session_id = None, ac_artifact_refs = [], ac_evidence_refs = refs,
      ac_correlation_id = None, ac_causation_id = None, ac_idempotency_key = None, ac_event_id = Some eid,
      ac_timestamp = time\<rparr>"
    using assms(1) none
    by (auto simp: governance_append_command_def validate_command_def saga_payload_def bindE_eq_Inr split: if_splits)
  show "validate_command rt c = Inr c"
    using assms(1) unfolding governance_append_command_def raised_Inr c by simp
qed

lemma new_event_fields:
  assumes "new_event env pid c n prev = Inr e" "validate_command (le_rt env) c = Inr c" "ac_project_id c = pid"
  shows "ev_event_type e = ac_event_type c" "ev_source e = ac_source c" "ev_actor e = ac_actor c"
    "ev_payload e = ac_payload c" "ev_evidence_refs e = ac_evidence_refs c"
proof -
  obtain d h where d: "validate_event (le_rt env) ((draft_event env pid c n prev d)\<lparr>ev_event_hash := h\<rparr>) = Inr e"
    using assms(1) unfolding new_event_eq bindE_eq_Inr value_raise_Inr by blast
  have "e = (draft_event env pid c n prev d)\<lparr>ev_event_hash := h\<rparr>"
    using d command_saga [OF assms(2)] assms(3)
    by (auto simp: validate_event_def draft_event_def bindE_eq_Inr split: if_splits)
  then show "ev_event_type e = ac_event_type c" "ev_source e = ac_source c" "ev_actor e = ac_actor c"
    "ev_payload e = ac_payload c" "ev_evidence_refs e = ac_evidence_refs c"
    by (simp_all add: draft_event_def)
qed

text \<open>A new evaluation in the ledger.\<close>

lemma appended_evaluationE:
  assumes "append_governance_evaluation env pid ty actor evidence eid fs led = (Inr e, led')" "ty \<in> {''dor'', ''dod''}"
    and "read_canonical_events env pid led = Inr es" "active_complete (ld_files led)" "e \<notin> set es"
  obtains au tasks decisions hs s h where
    "assemble_authority env fs es = Inr (au, tasks, decisions)"
    "historical_state env pid au es = Inr hs" "apply_current_overlay env hs tasks decisions au = Inr s"
    "\<not> is_untrusted_actor actor" "set (clean_refs evidence) \<subseteq> set (st_attached_evidence s)"
    "gate_passes env pid ty actor eid (clean_refs evidence) (head_of es) s
       (evaluation_target ty (st_current_phase s)) au = Inr True"
    "evaluation_target ty (st_current_phase s) \<noteq> PLANNING \<longrightarrow> set (map fst tasks) = set (fst (collect_ids es))"
    "h = new_evaluation (sv_rt env) ty (st_current_phase s) (evaluation_target ty (st_current_phase s))
       (event_name pid eid (sv_uuid env)) tasks decisions au (clean_refs evidence)"
    "ev_event_type e = ty @ ''.evaluated''" "ev_payload e = hist_eval_dump h" "ev_source e = ''pse_governance''"
    "ev_actor e = actor" "ev_evidence_refs e = clean_refs evidence" "ev_sequence e = int (length es) + 1" "ev_prev_event_hash e = snd (head_of es)"
    "validate_event (sv_rt env) e = Inr e"
    "ld_files led' = append_line (event_record (sv_rt env) e) (ld_files led)"
proof -
  obtain c n h where plan: "plan_evaluation env pid ty actor evidence eid fs led = Inr (c, n, h)"
    using assms(1) by (auto simp: append_governance_evaluation_def split: sum.splits)
  then obtain es' au tasks decisions hs s where p: "read_canonical_events env pid led = Inr es'"
    "assemble_authority env fs es' = Inr (au, tasks, decisions)"
    "historical_state env pid au es' = Inr hs" "apply_current_overlay env hs tasks decisions au = Inr s"
    "strip actor \<noteq> []" "\<not> is_untrusted_actor actor" "set (clean_refs evidence) \<subseteq> set (st_attached_evidence s)"
    "gate_passes env pid ty actor eid (clean_refs evidence) (head_of es') s
       (evaluation_target ty (st_current_phase s)) au = Inr True"
    "evaluation_target ty (st_current_phase s) \<noteq> PLANNING \<longrightarrow> set (map fst tasks) = set (fst (collect_ids es'))"
    "governance_append_command (sv_rt env) pid (ty @ ''.evaluated'')
       (hist_eval_dump (new_evaluation (sv_rt env) ty (st_current_phase s)
         (evaluation_target ty (st_current_phase s)) (event_name pid eid (sv_uuid env)) tasks decisions au
         (clean_refs evidence))) actor (event_name pid eid (sv_uuid env)) None (clean_refs evidence) = Inr c"
    "(n, h) = head_of es'"
    by (rule plan_evaluationE)
  have es: "es' = es" using p(1) assms(3) by simp
  note p = p [unfolded es] and c = governed_command [OF p(10) assms(2)]
  have "append_unchecked (sv_ledger env) pid c (Some n) (Some h) led = (Inr e, led')"
    using assms(1) plan
    by (auto simp: append_governance_evaluation_def append_governed_def split: if_splits prod.splits)
  then have files: "append_files (sv_ledger env) pid c (Some n) (Some h) (ld_files led) = (Inr e, ld_files led')"
    and pid: "ac_project_id c = pid"
    by (auto simp: append_unchecked_def with_project_lock_def Let_def split: if_splits sum.splits prod.splits)
  show thesis
    using files
  proof (cases rule: append_filesE)
    case (found dir1 es1)
    have "dir1 = ld_files led" by (rule recover_complete_same [OF assms(4) found(1)])
    then show thesis using found(2,4) canonical_events(1) [OF assms(3)] assms(5) by simp
  next
    case (written dir1 es1)
    have same: "dir1 = ld_files led" "es1 = es"
      using written(2) recover_complete_same [OF assms(4) written(1)] canonical_events(1) [OF assms(3)] by simp_all
    note e = new_eventD [OF written(4) c(2) pid] new_event_fields [OF written(4) c(2) pid]
    show thesis
      by (rule that [OF p(2-4,6-9) refl]) (use e written(5) same c(1) in \<open>simp_all add: head_of_def\<close>)
  qed
qed

subsection \<open>Evaluations without tasks\<close>

text \<open>A passed evaluation of a later phase that lists no task, as the payload of an event.\<close>

definition taskless_evaluation :: "project_event \<Rightarrow> bool" where
  "taskless_evaluation e =
     (ev_event_type e \<in> {''dor.evaluated'', ''dod.evaluated''}
      \<and> map_of (ev_payload e) ''result'' = Some (JStr ''passed'')
      \<and> map_of (ev_payload e) ''task_views'' = Some (JList [])
      \<and> (\<exists>p \<in> {EXECUTION, CLOSING, CLOSED}. map_of (ev_payload e) ''evaluated_phase'' = Some (JStr (phase_str p))))"

lemma validated_fields:
  assumes "validate_hist_eval rt d = Inr h"
  shows "rd_str d ''result'' = Inr (he_result h)" "rd_phase d ''evaluated_phase'' = Inr (he_evaluated_phase h)"
    "rd_list (validate_task_view rt) d ''task_views'' = Inr (he_task_views h)"
  using assms by (auto simp: validate_hist_eval_def bindE_eq_Inr Let_def split: if_splits)

lemma taskless_read:
  assumes "taskless_evaluation e" "validate_hist_eval rt (ev_payload e) = Inr h"
  shows "he_result h = ''passed''" "he_task_views h = []" "he_evaluated_phase h \<in> {EXECUTION, CLOSING, CLOSED}"
proof -
  note v = validated_fields [OF assms(2)]
  show "he_result h = ''passed''" "he_task_views h = []"
    using v(1,3) assms(1) by (simp_all add: taskless_evaluation_def rd_str_def rd_list_def)
  obtain p where p: "p \<in> {EXECUTION, CLOSING, CLOSED}" "map_of (ev_payload e) ''evaluated_phase'' = Some (JStr (phase_str p))"
    using assms(1) unfolding taskless_evaluation_def by blast
  then have "he_evaluated_phase h = p" using v(2) by (simp add: rd_phase_def rd_str_def)
  then show "he_evaluated_phase h \<in> {EXECUTION, CLOSING, CLOSED}" using p(1) by simp
qed

lemma taskless_refused:
  assumes "taskless_evaluation e" "au_historical au"
  shows "\<exists>x. apply_event rt rv (Some au) e s = Inl x"
proof -
  have "handle_historical_evaluation rt rv (Some au) e s \<noteq> Inr t" for t
  proof
    assume "handle_historical_evaluation rt rv (Some au) e s = Inr t"
    then have run: "handle_historical_evaluation rt rv (Some au) e s = Inr t" .
    then obtain h where h: "validate_hist_eval rt (ev_payload e) = Inr h"
      by (cases "validate_hist_eval rt (ev_payload e)")
        (simp_all add: handle_historical_evaluation_def split: if_splits)
    note read = taskless_read [OF assms(1) h]
    then have "record_passed e h s2 = Inl (IntegrityError EvalNoTasks)" for s2
      by (simp add: record_passed_def)
    then show False
      using run read(1) by (simp add: handle_historical_evaluation_def h bindE_eq_Inr split: if_splits option.splits)
  qed
  moreover have "dispatch rt rv (Some au) e s = handle_historical_evaluation rt rv (Some au) e s"
    using assms(1) by (auto simp: taskless_evaluation_def dispatch_def Let_def)
  ultimately have "apply_event rt rv (Some au) e s \<noteq> Inr t" for t
    by (auto simp: apply_event_def bindE_eq_Inr split: option.splits)
  then show ?thesis by (cases "apply_event rt rv (Some au) e s") auto
qed

lemma taskless_history:
  assumes "e \<in> set es" "taskless_evaluation e" "au_historical au"
  shows "\<exists>x. historical_state env pid au es = Inl x"
proof -
  obtain es1 es2 where es: "es = es1 @ e # es2" using assms(1) by (auto simp: in_set_conv_decomp)
  have "foldE (apply_event rt rv (Some au)) es s \<noteq> Inr t" for rt rv s t
    using taskless_refused [OF assms(2,3), of rt rv]
    by (auto simp: es foldE_append bindE_eq_Inr) (metis Inl_Inr_False)
  then have "reduce_internal rt rv es None [] [] p (Some au) \<noteq> Inr t" for rt rv p t
    by (auto elim!: reduceE)
  then have "historical_state env pid au es \<noteq> Inr t" for t by (simp add: historical_state_def)
  then show ?thesis by (cases "historical_state env pid au es") auto
qed

text \<open>It is the same after a round through the ledger.\<close>

lemma sorted_leaf: "sort_keys j = JStr s \<longleftrightarrow> j = JStr s" "sort_keys j = JList [] \<longleftrightarrow> j = JList []"
proof -
  have "sort_keys_list xs = [] \<longleftrightarrow> xs = []" for xs by (cases xs) simp_all
  then show "sort_keys j = JStr s \<longleftrightarrow> j = JStr s" "sort_keys j = JList [] \<longleftrightarrow> j = JList []"
    by (cases j; simp)+
qed

lemma taskless_content:
  assumes "event_content e' = event_content e" "taskless_evaluation e" "dict_wf (ev_payload e)"
  shows "taskless_evaluation e'"
proof -
  have sorted: "sort_dict (sort_keys_items (ev_payload e')) = sort_dict (sort_keys_items (ev_payload e))"
    and ty: "ev_event_type e' = ev_event_type e"
    using assms(1) [THEN arg_cong, of ev_payload] assms(1) [THEN arg_cong, of ev_event_type]
    by (simp_all add: event_content_def)
  have wf: "dict_wf d \<longleftrightarrow> dict_wf (sort_dict (sort_keys_items d))" for d :: payload
    by (simp add: fst_sort_keys_items)
  then have "dict_wf (ev_payload e')" using assms(3) sorted by metis
  then have get: "map_option sort_keys (map_of (ev_payload e') k) = map_option sort_keys (map_of (ev_payload e) k)" for k
    using map_of_sorted [of "ev_payload e'" k] map_of_sorted [OF assms(3), of k] sorted by simp
  have leaf: "map_of (ev_payload e') k = Some j" if "map_of (ev_payload e) k = Some j" "j \<in> insert (JList []) (range JStr)" for k j
    using get [of k] that by (auto simp: sorted_leaf)
  obtain p where p: "p \<in> {EXECUTION, CLOSING, CLOSED}" "map_of (ev_payload e) ''evaluated_phase'' = Some (JStr (phase_str p))"
    using assms(2) unfolding taskless_evaluation_def by blast
  have "map_of (ev_payload e') ''evaluated_phase'' = Some (JStr (phase_str p))" by (rule leaf [OF p(2)]) simp
  moreover have "map_of (ev_payload e') ''result'' = Some (JStr ''passed'')"
    "map_of (ev_payload e') ''task_views'' = Some (JList [])"
    using assms(2) by (auto simp: taskless_evaluation_def intro!: leaf)
  moreover have "ev_event_type e' \<in> {''dor.evaluated'', ''dod.evaluated''}"
    using assms(2) unfolding taskless_evaluation_def ty by blast
  ultimately show ?thesis using p(1) unfolding taskless_evaluation_def by blast
qed

lemma new_evaluation_taskless:
  assumes "ev_event_type e = ''dod.evaluated''" "ev_payload e = hist_eval_dump h"
    "h = new_evaluation rt ''dod'' p (evaluation_target ''dod'' p) i [] decisions au refs"
  shows "taskless_evaluation e" "dict_wf (ev_payload e)"
  using assms by (auto simp: taskless_evaluation_def hist_eval_dump_def new_evaluation_def evaluation_target_def sort_dict_def)

text \<open>Neither rebuild gets past such an event.\<close>

lemma taskless_rebuild:
  assumes "read_canonical_events env pid led = Inr es" "e \<in> set es" "taskless_evaluation e"
  shows "(\<exists>x. rebuild_project_state env pid fs led = Inl x) \<and> (\<exists>x. rebuild_historical_governance_state env pid fs led = Inl x)"
proof (cases "assemble_authority env fs es")
  case (Inr a)
  obtain au tasks decisions where a: "a = (au, tasks, decisions)" using prod_cases3 .
  then have "au_historical au" using assembled_historical [of env fs es] Inr by simp
  then obtain x where "historical_state env pid au es = Inl x" using taskless_history [OF assms(2,3)] by blast
  then show ?thesis
    by (simp add: rebuild_project_state_def rebuild_events_def rebuild_historical_governance_state_def assms(1) Inr a)
qed (simp add: rebuild_project_state_def rebuild_events_def rebuild_historical_governance_state_def assms(1))

subsection \<open>Passed gates\<close>

lemma map_of_overlaid:
  "distinct (map fst vs) \<Longrightarrow> (k, v) \<in> set vs \<Longrightarrow> map_of (fold (\<lambda>(k, v). AList.update k v) vs d) k = Some v"
proof (induction vs arbitrary: d)
  case (Cons w vs)
  have "map_of (fold (\<lambda>(k, v). AList.update k v) vs d) k = map_of d k" if "k \<notin> fst ` set vs" for d
    using that by (induction vs arbitrary: d) (auto simp: update_conv')
  then show ?case using Cons by (auto simp: update_conv')
qed simp

lemma overlaid_views:
  assumes "compute_projections rt au (overlay tasks decisions h) = Inr s"
  shows "distinct (map fst tasks) \<Longrightarrow> (k, v) \<in> set tasks \<Longrightarrow> (k, v) \<in> set (st_tasks s)"
    "distinct (map fst decisions) \<Longrightarrow> (k, w) \<in> set decisions \<Longrightarrow> (k, w) \<in> set (st_decisions s)"
proof -
  have s: "st_tasks s = st_tasks (overlay tasks decisions h)" "st_decisions s = st_decisions (overlay tasks decisions h)"
    using projected_fields [OF assms] by simp_all
  show "distinct (map fst tasks) \<Longrightarrow> (k, v) \<in> set tasks \<Longrightarrow> (k, v) \<in> set (st_tasks s)"
    using map_of_SomeD [OF map_of_overlaid [of tasks k v]] by (simp add: s overlay_def mark_stale_def Let_def)
  show "distinct (map fst decisions) \<Longrightarrow> (k, w) \<in> set decisions \<Longrightarrow> (k, w) \<in> set (st_decisions s)"
    using map_of_SomeD [OF map_of_overlaid [of decisions k w]] by (simp add: s overlay_def mark_stale_def Let_def)
qed

lemma gate_passes_done:
  assumes "gate_passes env pid ''dod'' actor eid refs head s target au = Inr True" "\<not> dod_overridden s"
  shows "(tid, v) \<in> set (st_tasks s) \<Longrightarrow> terminal_str (tv_state v)"
    "(did, w) \<in> set (st_decisions s) \<Longrightarrow> dv_status w \<in> set RESOLVED_DECISION_STATUSES"
    "i \<in> set (st_open_issues s) \<Longrightarrow> \<not> blocking_issue s i"
proof -
  obtain e where "dod_passed (evaluate_dod s target (Some e) (Some au))"
    using assms(1) by (auto simp: gate_passes_def bindE_eq_Inr)
  then show "(tid, v) \<in> set (st_tasks s) \<Longrightarrow> terminal_str (tv_state v)"
    "(did, w) \<in> set (st_decisions s) \<Longrightarrow> dv_status w \<in> set RESOLVED_DECISION_STATUSES"
    "i \<in> set (st_open_issues s) \<Longrightarrow> \<not> blocking_issue s i"
    using assms(2) by (auto simp: dod_passed_iff)
qed

text \<open>What the stores hold when a Definition of Done passes.\<close>

lemma done_in_the_stores:
  assumes "assemble_authority env fs es = Inr (au, tasks, decisions)"
    and "apply_current_overlay env h tasks decisions au = Inr s"
    and "gate_passes env pid ''dod'' actor eid refs head s target au = Inr True" "\<not> dod_overridden s"
    and "set (map fst tasks) = set (fst (collect_ids es))"
  shows "k \<in> set (fst (collect_ids es)) \<Longrightarrow>
      \<exists>t. get_task (sv_store env) fs k = Inr (Some t) \<and> pt_state t \<in> set TERMINAL_STATES"
    "k \<in> set (snd (collect_ids es)) \<Longrightarrow> get_decision (sv_decisions env) fs k \<noteq> Inr None \<Longrightarrow>
      \<exists>d. get_decision (sv_decisions env) fs k = Inr (Some d) \<and> dc_status d \<in> set RESOLVED_DECISION_STATUSES"
proof -
  obtain approved receipts where a: "resolve_live_tasks env fs (fst (collect_ids es)) = Inr tasks"
    "resolve_live_decisions env fs (snd (collect_ids es)) = Inr (decisions, approved)"
    using assms(1) by (rule assembledE)
  note ids = collect_distinct [of es, THEN conjunct1] collect_distinct [of es, THEN conjunct2]
  note t = resolved_tasks [OF a(1) ids(1)] and d = resolved_decisions [OF a(2) ids(2)]
  note over = overlaid_views [OF assms(2) [unfolded apply_current_overlay_def raised_Inr]]
  note done' = gate_passes_done [OF assms(3,4)]
  show "\<exists>t. get_task (sv_store env) fs k = Inr (Some t) \<and> pt_state t \<in> set TERMINAL_STATES"
    if "k \<in> set (fst (collect_ids es))"
  proof -
    have "k \<in> set (map fst tasks)" unfolding assms(5) by (rule that)
    then obtain v where v: "(k, v) \<in> set tasks" by auto
    then obtain t where "get_task (sv_store env) fs k = Inr (Some t)" "from_power_task (sv_rt env) t = Inr v"
      using bspec [OF t(4) v] by (auto simp: task_owner_says_def)
    moreover have "terminal_str (tv_state v)" using done'(1) over(1) [OF t(2) v] by blast
    ultimately show ?thesis using from_power_task_view(5) terminal_str_iff by metis
  qed
  show "\<exists>d. get_decision (sv_decisions env) fs k = Inr (Some d) \<and> dc_status d \<in> set RESOLVED_DECISION_STATUSES"
    if "k \<in> set (snd (collect_ids es))" "get_decision (sv_decisions env) fs k \<noteq> Inr None"
  proof -
    have "k \<in> set (map fst decisions)" unfolding d(3) using that by blast
    then obtain v where v: "(k, v) \<in> set decisions" by auto
    then obtain dc where "get_decision (sv_decisions env) fs k = Inr (Some dc)" "from_decision (sv_rt env) dc = Inr v"
      using bspec [OF d(4) v] by (auto simp: decision_owner_says_def)
    moreover have "dv_status v \<in> set RESOLVED_DECISION_STATUSES" using done'(2) over(2) [OF d(2) v] by blast
    ultimately show ?thesis using from_decision_view(5) by metis
  qed
qed

end
