(* ===== verification/Sample_State.thy ===== *)
theory Sample_State
  imports State_Evaluations Sample_Ledger Decision_Properties
begin

text \<open>
  A vault on which the theorems on the trusted state service are exercised: the events of the sample
  project in a ledger file, the decisions and tasks of the sample stores, and Definitions of Done
  for the project without tasks and for the project with the finished sample task.
\<close>

definition sample_service :: "project_event list \<Rightarrow> state_env" where
  "sample_service es = \<lparr>sv_ledger = ledger_env_of es, sv_decisions = decision_sample,
     sv_preview_uuid = replicate 12 CHR ''a'', sv_uuid = replicate 12 CHR ''b''\<rparr>"

definition sample_vault :: "project_event list \<Rightarrow> ledger" where
  "sample_vault es = \<lparr>ld_files = ledger_of es, ld_locks = no_locks\<rparr>"

lemma sample_service_simps [simp]:
  "sv_ledger (sample_service es) = ledger_env_of es" "sv_decisions (sample_service es) = decision_sample"
  "ld_files (sample_vault es) = ledger_of es" "ld_locks (sample_vault es) = no_locks"
  by (simp_all add: sample_service_def sample_vault_def)

subsection \<open>The ledger\<close>

lemma sample_event_digests:
  assumes "check_floats_items p"
  shows "compute_payload_digest sample_rt p = Inr hex64"
    "event_hash_of sample_rt (sample_event n i et p refs) = Inr hex64"
    "check_floats (JObj (event_dump (sample_event n i et p refs)))"
proof -
  have "check_floats (jopt x)" for x by (simp add: jopt_def split: option.split)
  moreover have "check_floats_list (map JStr xs)" for xs by (induction xs) simp_all
  ultimately have "check_floats_items (event_dump (sample_event n i et p refs))"
    using assms by (simp add: event_dump_def sample_event_def jstrs_def)
  then show "check_floats (JObj (event_dump (sample_event n i et p refs)))"
    "event_hash_of sample_rt (sample_event n i et p refs) = Inr hex64"
    unfolding event_hash_of_def compute_event_hash_def
    by (simp, intro sample_digest) (auto simp: check_floats_items_all)
  show "compute_payload_digest sample_rt p = Inr hex64"
    unfolding compute_payload_digest_def using assms by (intro sample_digest) simp
qed

lemma sample_canonical:
  assumes "list_all plain_event es" "list_all (\<lambda>e. event_floats e = {}) fs" "distinct (map ev_sequence (es @ fs))"
    and "linked sample_rt ''prj_demo'' 1 [] es" "distinct (map ev_event_id es)"
    and "es = [] \<or> ev_event_hash (last es) = hex64"
  shows "read_canonical_events (sample_service (es @ fs)) ''prj_demo'' (sample_vault es) = Inr es"
proof -
  let ?env = "ledger_env_of (es @ fs)"
  have replay: "replay ?env 1 (ledger_of es) = Inr es" by (rule sample_replay_ledger [OF assms(1-3)])
  moreover have "good_run sample_rt ''prj_demo'' es scan_start"
    using assms(4,5) by (simp add: good_run_iff scan_start_def)
  ultimately have valid: "valid_scan (verify ?env ''prj_demo'' (ledger_of es))" by (auto simp: verify_iff)
  have digests: "mapE (check_payload_digest sample_rt) xs = Inr (replicate (length xs) ())"
    if "linked sample_rt ''prj_demo'' n prev xs" for n prev xs
    using that
  proof (induction xs arbitrary: n prev)
    case (Cons x xs)
    then have "mapE (check_payload_digest sample_rt) xs = Inr (replicate (length xs) ())"
      "compute_payload_digest sample_rt (ev_payload x) = Inr (ev_payload_digest x)"
      using Cons.IH [of "n + 1" "ev_event_hash x"] by simp_all
    moreover from this(2) have "check_payload_digest sample_rt x = Inr ()" by (simp add: check_payload_digest_def)
    ultimately show ?case by simp
  qed simp
  have small: "validate_project_id ''prj_demo''" "re_project_id ''prj_demo''" "re_prev_hash []" "re_prev_hash hex64"
    "re_timestamp ''2026-01-01T00:00:00Z''" "push_level LEVEL_PROJECT (Some ''prj_demo'') no_locks
      = Inr \<lparr>held_levels = [LEVEL_PROJECT], held_projects = [Some ''prj_demo'']\<rparr>"
    by code_simp+
  have head: "re_prev_hash (if es = [] then [] else ev_event_hash (last es))" using assms(6) small(3,4) by auto
  have "fst (read_verified_replay ?env ''prj_demo'' 1 (sample_vault es)) = Inr x \<Longrightarrow> snd x = es" for x
    using replay by (auto simp: read_verified_replay_def with_project_lock_def small valid Let_def split: if_splits)
  moreover have "\<exists>x. fst (read_verified_replay ?env ''prj_demo'' 1 (sample_vault es)) = Inr x"
    using replay head
    by (simp add: read_verified_replay_def with_project_lock_def small valid Let_def, simp add: ledger_env_of_def small)
  ultimately obtain r where "fst (read_verified_replay ?env ''prj_demo'' 1 (sample_vault es)) = Inr (r, es)" by fastforce
  then show ?thesis
    unfolding read_canonical_events_def using valid small(1) digests [OF assms(4)] by simp
qed

lemma sample_ledger_plain: "list_all plain_event sample_ledger"
proof -
  have "list_all (\<lambda>e. validate_event sample_rt e = Inr e) sample_ledger" by code_simp
  moreover have "list_all (\<lambda>e. event_content e = e \<and> event_floats e = {}) sample_ledger"
    by (simp add: sample_ledger_def sample_prefix_def sample_evaluation_def sample_transition_def event_content_def
        sample_event_def sort_dict_def event_floats_def)
  ultimately show ?thesis by (simp add: list_all_iff plain_event_def)
qed

lemma sample_ledger_linked: "linked sample_rt ''prj_demo'' 1 [] sample_ledger"
proof -
  have fields: "ev_project_id (sample_event n i et p refs) = ''prj_demo''" "ev_sequence (sample_event n i et p refs) = n"
    "ev_event_hash (sample_event n i et p refs) = hex64" "ev_payload_digest (sample_event n i et p refs) = hex64"
    "ev_prev_event_hash (sample_event n i et p refs) = (if n = 1 then [] else hex64)"
    "ev_payload (sample_event n i et p refs) = p" for n i et p refs
    by (simp_all add: sample_event_def)
  show ?thesis
    by (simp add: sample_ledger_def sample_prefix_def sample_evaluation_def sample_transition_def
        sample_event_digests fields)
qed

lemma sample_ledger_ids: "distinct (map ev_sequence sample_ledger)" "distinct (map ev_event_id sample_ledger)"
  by code_simp+

lemma sample_canonical_events:
  "read_canonical_events (sample_service sample_ledger) ''prj_demo'' (sample_vault sample_ledger) = Inr sample_ledger"
  "read_canonical_events (sample_service (sample_prefix @ fs)) ''prj_demo'' (sample_vault sample_prefix) = Inr sample_prefix"
  if "list_all (\<lambda>e. event_floats e = {}) fs" "distinct (map ev_sequence (sample_prefix @ fs))"
proof -
  have hashes: "ev_event_hash (last sample_ledger) = hex64" "ev_event_hash (last sample_prefix) = hex64" by code_simp+
  show "read_canonical_events (sample_service sample_ledger) ''prj_demo'' (sample_vault sample_ledger) = Inr sample_ledger"
    using sample_canonical [of sample_ledger "[]"] sample_ledger_plain sample_ledger_linked sample_ledger_ids hashes by simp
  have split: "sample_ledger = sample_prefix @ [sample_evaluation, sample_transition]" by (simp add: sample_ledger_def)
  have "linked rt pid n prev (xs @ ys) \<Longrightarrow> linked rt pid n prev xs" for rt pid n prev xs ys
    by (induction xs arbitrary: n prev) simp_all
  then have "list_all plain_event sample_prefix" "linked sample_rt ''prj_demo'' 1 [] sample_prefix"
    "distinct (map ev_event_id sample_prefix)"
    using sample_ledger_plain sample_ledger_linked sample_ledger_ids(2) unfolding split by (auto simp del: linked.simps)
  then show "read_canonical_events (sample_service (sample_prefix @ fs)) ''prj_demo'' (sample_vault sample_prefix) = Inr sample_prefix"
    using sample_canonical [of sample_prefix fs] that hashes(2) by simp
qed

subsection \<open>Authority and states\<close>

lemma sample_assembled:
  "\<exists>au. assemble_authority (sample_service xs) fs sample_prefix = Inr (au, [], []) \<and> au_attached_evidence au = {''charter-1''}
    \<and> au_accountable_actor au = Some ''olena'' \<and> au_verified_task_receipts au = {}"
  "\<exists>au. assemble_authority (sample_service xs) fs sample_ledger = Inr (au, [], [])"
proof -
  have "ev_event_type sample_evaluation = ''dor.evaluated''" "ev_source sample_evaluation = ''pse_governance''"
    by (simp_all add: sample_evaluation_def sample_event_def)
  then have evaluation: "check_evaluation (sample_service xs) fs sample_evaluation = Inr ()"
    by (simp add: check_evaluation_def sample_validate sample_hist_eval_def)
  have others: "check_evaluation (sample_service xs) fs e = Inr ()" if "e \<in> set sample_prefix \<union> {sample_transition}" for e
    using that by (auto simp: check_evaluation_def sample_prefix_def sample_transition_def sample_event_def)
  have checked: "validate_historical_evaluations (sample_service xs) fs es = Inr ()" if "set es \<subseteq> set sample_ledger" for es
  proof -
    have "mapE (check_evaluation (sample_service xs) fs) es = Inr (replicate (length es) ())"
      using that evaluation others by (induction es) (auto simp: sample_ledger_def)
    then show ?thesis by (simp add: validate_historical_evaluations_def)
  qed
  have ids: "collect_ids sample_ledger = ([], [])" "collect_ids sample_prefix = ([], [])" by code_simp+
  have parts: "attached_by sample_prefix = {''charter-1''}" "assigned_raci sample_prefix = [(''Accountable'', [''olena''])]"
    "is_accountable_role ''Accountable''"
    by code_simp+
  have none: "resolve_live_tasks (sample_service xs) fs [] = Inr []" "resolve_live_decisions (sample_service xs) fs [] = Inr ([], [])"
    "verified_task_receipts (sample_service xs) fs [] = Inr []"
    by (simp_all add: resolve_live_tasks_def resolve_live_decisions_def verified_task_receipts_def List.map_filter_simps)
  have subs: "set sample_prefix \<subseteq> set sample_ledger" by (auto simp: sample_ledger_def)
  show "\<exists>au. assemble_authority (sample_service xs) fs sample_prefix = Inr (au, [], []) \<and> au_attached_evidence au = {''charter-1''}
    \<and> au_accountable_actor au = Some ''olena'' \<and> au_verified_task_receipts au = {}"
    using checked [OF subs] by (simp add: assemble_authority_def ids none parts Let_def sorted_set_def)
  show "\<exists>au. assemble_authority (sample_service xs) fs sample_ledger = Inr (au, [], [])"
    using checked [of sample_ledger] by (simp add: assemble_authority_def ids none Let_def)
qed

lemma sample_history:
  assumes "au_historical au" "au_permit_accountable_approval au"
  shows "historical_state (sample_service xs) ''prj_demo'' au sample_prefix = Inr (sealed sample_chartered)"
    "historical_state (sample_service xs) ''prj_demo'' au sample_ledger = Inr (sealed sample_planning)"
proof -
  have same: "same_history_authority au (sample_authority True)"
    using assms by (simp add: same_history_authority_def sample_authority_def)
  have target: "target_project es None (Some ''prj_demo'') = target_project es None None"
    if "es \<in> {sample_prefix, sample_ledger}" for es
    using that by (auto simp: target_project_def sample_ledger_def sample_prefix_def sample_event_def)
  have red: "reduce_internal sample_rt GOVERNANCE_RULES_VERSION es None [] [] (Some ''prj_demo'') (Some au)
      = reduce_internal sample_rt GOVERNANCE_RULES_VERSION es None [] [] None (Some (sample_authority True))"
    if "es \<in> {sample_prefix, sample_ledger}" for es
    by (rule trans [OF historical_reduce [OF same]]) (simp add: reduce_internal_eq target [OF that])
  show "historical_state (sample_service xs) ''prj_demo'' au sample_prefix = Inr (sealed sample_chartered)"
    "historical_state (sample_service xs) ''prj_demo'' au sample_ledger = Inr (sealed sample_planning)"
    using red by (simp_all add: historical_state_def sample_reduced)
qed

lemma sample_overlaid:
  "apply_current_overlay (sample_service xs) (sealed sample_chartered) [] [] au = Inr (sealed sample_chartered)"
  "apply_current_overlay (sample_service xs) (sealed sample_planning) [] [] au = Inr (sealed sample_planning)"
proof -
  have "overlay [] [] s = s" if "st_tasks s = []" "st_decisions s = []" for s
    using that by (simp add: overlay_def mark_stale_def)
  moreover have "st_tasks (sealed sample_chartered) = []" "st_decisions (sealed sample_chartered) = []"
    "st_tasks (sealed sample_planning) = []" "st_decisions (sealed sample_planning) = []" by code_simp+
  moreover have "compute_projections sample_rt au (sealed sample_chartered) = Inr (sealed sample_chartered)"
    "compute_projections sample_rt au (sealed sample_planning) = Inr (sealed sample_planning)" for au
    by (rule sample_projections; code_simp)+
  ultimately show "apply_current_overlay (sample_service xs) (sealed sample_chartered) [] [] au = Inr (sealed sample_chartered)"
    "apply_current_overlay (sample_service xs) (sealed sample_planning) [] [] au = Inr (sealed sample_planning)"
    by (simp_all add: apply_current_overlay_def)
qed

lemma sample_split_events:
  "read_canonical_events (sample_service sample_ledger) ''prj_demo'' (sample_vault sample_prefix) = Inr sample_prefix"
  "read_canonical_events (sample_service sample_ledger) ''prj_demo'' (sample_vault sample_ledger)
    = Inr (sample_prefix @ [sample_evaluation, sample_transition])"
proof -
  have "list_all (\<lambda>e. event_floats e = {}) [sample_evaluation, sample_transition]"
    using plain_floatless [OF sample_ledger_plain] by (simp add: sample_ledger_def)
  note events = sample_canonical_events [OF this, folded sample_ledger_def, OF sample_ledger_ids(1)]
  show "read_canonical_events (sample_service sample_ledger) ''prj_demo'' (sample_vault sample_prefix) = Inr sample_prefix"
    by (rule events(2))
  show "read_canonical_events (sample_service sample_ledger) ''prj_demo'' (sample_vault sample_ledger)
    = Inr (sample_prefix @ [sample_evaluation, sample_transition])"
    using events(1) by (simp only: sample_ledger_def)
qed

lemma sample_rebuilt:
  "rebuild_project_state (sample_service sample_ledger) ''prj_demo'' fs (sample_vault sample_prefix) = Inr (sealed sample_chartered)"
  "rebuild_project_state (sample_service sample_ledger) ''prj_demo'' fs (sample_vault sample_ledger) = Inr (sealed sample_planning)"
proof -
  note events = sample_split_events [folded sample_ledger_def]
  obtain au where "assemble_authority (sample_service sample_ledger) fs sample_prefix = Inr (au, [], [])"
    using sample_assembled(1) by blast
  then show "rebuild_project_state (sample_service sample_ledger) ''prj_demo'' fs (sample_vault sample_prefix) = Inr (sealed sample_chartered)"
    using sample_history(1) assembled_historical sample_overlaid(1)
    by (simp add: rebuild_project_state_def rebuild_events_def events)
  obtain au where "assemble_authority (sample_service sample_ledger) fs sample_ledger = Inr (au, [], [])"
    using sample_assembled(2) by blast
  then show "rebuild_project_state (sample_service sample_ledger) ''prj_demo'' fs (sample_vault sample_ledger) = Inr (sealed sample_planning)"
    using sample_history(2) assembled_historical sample_overlaid(2)
    by (simp add: rebuild_project_state_def rebuild_events_def events)
qed

subsection \<open>A Definition of Done\<close>

lemma ledger_of_lines:
  assumes "list_all plain_event es"
  shows "file_lines (concat (map (\<lambda>e. event_record sample_rt e @ [CHR 0x0A]) es)) = map (event_record sample_rt) es @ [[]]"
    "es \<noteq> [] \<Longrightarrow> ledger_of es = [(ACTIVE_FILE, concat (map (\<lambda>e. event_record sample_rt e @ [CHR 0x0A]) es))]"
proof -
  let ?text = "\<lambda>es. concat (map (\<lambda>e. event_record sample_rt e @ [CHR 0x0A]) es)"
  have clean: "CHR 0x0A \<notin> set (event_record sample_rt e) \<and> CHR 0x0D \<notin> set (event_record sample_rt e)" if "e \<in> set es" for e
  proof -
    have "clean_line (event_record sample_rt e)"
      using that assms by (intro event_record_line) (simp add: plain_event_def list_all_iff)
    then show ?thesis by (simp add: clean_line_def)
  qed
  have "CHR 0x0D \<notin> set (?text es)" using clean by auto
  moreover have "split_on (CHR 0x0A) (?text xs) = map (event_record sample_rt) xs @ [[]]" if "set xs \<subseteq> set es" for xs
    using that
  proof (induction xs)
    case (Cons x xs)
    then show ?case
      using clean [of x] split_on_whole [of "CHR 0x0A" "event_record sample_rt x"]
        split_on_delim [of "CHR 0x0A" "event_record sample_rt x" "?text xs"] by simp
  qed (simp add: split_on_whole)
  ultimately show "file_lines (?text es) = map (event_record sample_rt) es @ [[]]"
    by (simp add: file_lines_def newlines_plain)
  show "ledger_of es = [(ACTIVE_FILE, ?text es)]" if "es \<noteq> []"
    using that
  proof (induction es rule: rev_induct)
    case (snoc e es)
    then show ?case by (cases "es = []") (auto simp: ledger_of_snoc append_line_def ledger_of_one)
  qed simp
qed

lemma linked_snoc:
  assumes "linked rt pid 1 [] (ds @ [e])"
  shows "compute_payload_digest rt (ev_payload e) = Inr (ev_payload_digest e)"
    "event_hash_of rt e = Inr (ev_event_hash e)"
    "ds \<noteq> [] \<Longrightarrow> ev_sequence e = ev_sequence (last ds) + 1 \<and> ev_prev_event_hash e = ev_event_hash (last ds)"
proof -
  have "linked rt pid n prev (ds @ [e]) \<longleftrightarrow> linked rt pid n prev ds
      \<and> linked rt pid (n + int (length ds)) (if ds = [] then prev else ev_event_hash (last ds)) [e]" for n prev
  proof (induction ds arbitrary: n prev)
    case (Cons d ds)
    show ?case unfolding append_Cons linked.simps(2) [of _ _ _ _ d] Cons.IH by (auto simp: algebra_simps)
  qed simp
  from this [of 1 "[]"] assms have parts: "linked rt pid 1 [] ds"
    "linked rt pid (1 + int (length ds)) (if ds = [] then [] else ev_event_hash (last ds)) [e]" by blast+
  show "compute_payload_digest rt (ev_payload e) = Inr (ev_payload_digest e)"
    "event_hash_of rt e = Inr (ev_event_hash e)" using parts(2) by simp_all
  show "ds \<noteq> [] \<Longrightarrow> ev_sequence e = ev_sequence (last ds) + 1 \<and> ev_prev_event_hash e = ev_event_hash (last ds)"
    using parts(2) linked_last [OF parts(1)] by simp
qed

lemma ledger_of_recovers:
  assumes plain: "list_all plain_event es" "list_all (\<lambda>e. event_floats e = {}) fs" "distinct (map ev_sequence (es @ fs))"
    and "linked sample_rt ''prj_demo'' 1 [] es"
  shows "recover_active (ledger_env_of (es @ fs)) (ledger_of es) = Inr (ledger_of es)"
proof (cases es rule: rev_cases)
  case Nil
  then show ?thesis by (simp add: ledger_of_def recover_active_def)
next
  case (snoc ds e)
  let ?env = "ledger_env_of (es @ fs)" and ?text = "concat (map (\<lambda>e. event_record sample_rt e @ [CHR 0x0A]) es)"
  have recs: "event_record sample_rt x \<noteq> [] \<and> \<not> list_all is_byte_space (event_record sample_rt x)
      \<and> parsed_event ?env (event_record sample_rt x) = Inr x" if "x \<in> set es" for x
  proof -
    have x: "plain_event x" "x \<in> set (es @ fs)" using that plain(1) by (auto simp: list_all_iff)
    have "hd (event_record sample_rt x) = CHR ''{''" "event_record sample_rt x \<noteq> []"
      by (simp_all add: event_record_def)
    then have "\<not> list_all is_byte_space (event_record sample_rt x)"
      by (cases "event_record sample_rt x") (auto simp: is_byte_space_def)
    moreover have "strip (event_record sample_rt x) = event_record sample_rt x"
      using x(1) by (intro event_record_line) (simp add: plain_event_def)
    moreover have "list_all (\<lambda>e. event_floats e = {}) (es @ fs)" using plain_floatless [OF plain(1)] plain(2) by simp
    ultimately show ?thesis
      using sample_parse [OF x(2) _ plain(3) x(1)] \<open>event_record sample_rt x \<noteq> []\<close> by (simp add: parsed_event_def)
  qed
  have "filter (\<lambda>l. \<not> list_all is_byte_space l) (file_lines ?text) = map (event_record sample_rt) es"
    unfolding ledger_of_lines(1) [OF plain(1)] using recs by (simp add: filter_map comp_def cong: filter_cong)
  moreover have "check_complete ?env (map (event_record sample_rt) es) = Inr ()"
  proof -
    note e = linked_snoc [OF assms(4) [unfolded snoc]]
    have lines: "map (event_record sample_rt) es = map (event_record sample_rt) ds @ [event_record sample_rt e]"
      by (simp add: snoc)
    have parsed: "parsed_event ?env (event_record sample_rt x) = Inr x" if "x \<in> set (ds @ [e])" for x
      using recs that unfolding snoc by blast
    show ?thesis
    proof (cases ds rule: rev_cases)
      case Nil
      then show ?thesis using e parsed [of e] by (simp add: check_complete_def lines value_raise_def)
    next
      case (snoc cs d)
      then show ?thesis
        using e parsed [of e] parsed [of d] by (simp add: check_complete_def lines value_raise_def)
    qed
  qed
  moreover have "last ?text = CHR 0x0A" "?text \<noteq> []" using snoc by simp_all
  ultimately have "recover_torn_tail ?env ?text = Inr ?text" by (simp add: recover_torn_tail_def)
  then show ?thesis using ledger_of_lines(2) [OF plain(1)] snoc by (simp add: recover_active_def)
qed

definition done_eval :: "task_view list \<Rightarrow> hist_eval" where
  "done_eval vs = \<lparr>he_evaluation_type = ''dod'', he_result = ''passed'', he_evaluated_from_phase = DISCOVERY,
     he_evaluated_phase = CLOSING, he_evaluation_event_id = ''evt_9'', he_task_views = vs, he_decision_views = [],
     he_approved_decision_ids = [], he_verified_task_receipts = [], he_required_evidence_refs = [''charter-1''],
     he_accountable_actor = Some ''olena'', he_rules_version = GOVERNANCE_RULES_VERSION, he_rules_digest = hex64\<rparr>"

definition done_event :: "int \<Rightarrow> task_view list \<Rightarrow> project_event" where
  "done_event n vs = sample_event n ''evt_9'' ''dod.evaluated'' (hist_eval_dump (done_eval vs)) [''charter-1'']"

definition done_command :: "task_view list \<Rightarrow> append_command" where
  "done_command vs = \<lparr>ac_project_id = ''prj_demo'', ac_event_type = ''dod.evaluated'',
     ac_payload = hist_eval_dump (done_eval vs), ac_actor = ''olena'', ac_source = ''pse_governance'',
     ac_session_id = None, ac_artifact_refs = [], ac_evidence_refs = [''charter-1''], ac_correlation_id = None,
     ac_causation_id = None, ac_idempotency_key = None, ac_event_id = Some ''evt_9'', ac_timestamp = None\<rparr>"

lemma done_floats: "check_floats_items (hist_eval_dump (done_eval vs))" "event_floats (done_event n vs) = {}"
proof -
  have views: "check_floats_list (map task_view_json vs)" "floats_of_list (map task_view_json vs) = {}"
  proof (induction vs)
    case (Cons v vs)
    have "check_floats_list (map JStr xs)" "floats_of_list (map JStr xs) = {}" for xs by (induction xs) simp_all
    then have "check_floats (task_view_json v)" "floats_of (task_view_json v) = {}"
      by (simp_all add: task_view_json_def jstrs_def)
    then show "check_floats_list (map task_view_json (v # vs))" "floats_of_list (map task_view_json (v # vs)) = {}"
      using Cons by simp_all
  qed simp_all
  show "check_floats_items (hist_eval_dump (done_eval vs))"
    using views by (simp add: hist_eval_dump_def done_eval_def jstrs_def jopt_def)
  show "event_floats (done_event n vs) = {}"
    using views by (simp add: event_floats_def done_event_def sample_event_def hist_eval_dump_def done_eval_def jstrs_def jopt_def)
qed

lemma done_valid:
  assumes "1 < n"
  shows "validate_event sample_rt (done_event n vs) = Inr (done_event n vs)"
    "validate_command sample_rt (done_command vs) = Inr (done_command vs)"
    "command_print sample_rt (done_command vs) = Inr hex64"
proof -
  have small: "saga_fields ''dod.evaluated'' = None" "re_event_id ''evt_9''" "validate_event_id ''evt_9''"
    "re_project_id ''prj_demo''" "validate_project_id ''prj_demo''" "re_timestamp ''2026-01-01T00:00:00Z''"
    "''dod.evaluated'' \<in> set PROJECT_EVENT_TYPES" "re_hash hex64" "re_prev_hash hex64"
    "len_between 1 128 ''olena''" "len_between 1 64 ''pse_governance''" "opt_len 128 None"
    by code_simp+
  show "validate_event sample_rt (done_event n vs) = Inr (done_event n vs)"
    using assms small by (simp add: validate_event_def done_event_def sample_event_def saga_payload_def)
  show "validate_command sample_rt (done_command vs) = Inr (done_command vs)"
    using small by (simp add: validate_command_def done_command_def saga_payload_def)
  show "command_print sample_rt (done_command vs) = Inr hex64"
    unfolding command_print_def compute_command_fingerprint_def Let_def
    by (subst sample_digest) (use done_floats in \<open>simp_all add: done_command_def value_raise_def jstrs_def\<close>)
qed

text \<open>The preview of the transition, and the plan.\<close>

definition done_preview :: "int \<Rightarrow> project_event" where
  "done_preview n = sample_event n ''evt_9'' ''project.phase.changed''
     [(''target_phase'', JStr ''CLOSING''), (''evidence_refs'', JList [JStr ''charter-1''])] [''charter-1'']"

lemma done_previewed:
  assumes "sv_rt env = sample_rt" "le_now (sv_ledger env) = ''2026-01-01T00:00:00Z''" "1 \<le> n"
  shows "governed_event env ''prj_demo'' ''evt_9'' (n, hex64) ''olena'' ''project.phase.changed''
      [(''target_phase'', JStr ''CLOSING''), (''evidence_refs'', jstrs [''charter-1''])] [''charter-1''] = Inr (done_preview (n + 1))"
proof -
  let ?p = "[(''target_phase'', JStr ''CLOSING''), (''evidence_refs'', JList [JStr ''charter-1''])]"
  define raw where "raw = (done_preview (n + 1))\<lparr>ev_event_hash := []\<rparr>"
  have raw: "raw = \<lparr>ev_event_id = ''evt_9'', ev_schema_version = ''power.project-event.v1'', ev_project_id = ''prj_demo'',
           ev_sequence = n + 1, ev_timestamp = ''2026-01-01T00:00:00Z'', ev_actor = ''olena'',
           ev_source = ''pse_governance'', ev_session_id = None, ev_event_type = ''project.phase.changed'', ev_payload = ?p,
           ev_payload_digest = hex64, ev_prev_event_hash = hex64, ev_event_hash = [], ev_artifact_refs = [],
           ev_evidence_refs = [''charter-1''], ev_correlation_id = None, ev_causation_id = None,
           ev_idempotency_key = None\<rparr>"
    using assms(3) by (simp add: raw_def done_preview_def sample_event_def)
  have floats: "check_floats_items ?p" by simp
  have "event_hash_of sample_rt raw = event_hash_of sample_rt (done_preview (n + 1))" by (simp add: raw_def)
  then have hash: "event_hash_of sample_rt raw = Inr hex64"
    using sample_event_digests(2) [OF floats] by (simp add: done_preview_def)
  have small: "saga_fields ''project.phase.changed'' = None" "re_event_id ''evt_9''" "validate_event_id ''evt_9''"
    "re_project_id ''prj_demo''" "validate_project_id ''prj_demo''" "re_timestamp ''2026-01-01T00:00:00Z''"
    "''project.phase.changed'' \<in> set PROJECT_EVENT_TYPES" "re_hash hex64" "re_prev_hash hex64"
    "len_between 1 128 ''olena''" "len_between 1 64 ''pse_governance''" "opt_len 128 None"
    by code_simp+
  have "raw\<lparr>ev_event_hash := hex64\<rparr> = done_preview (n + 1)" by (simp add: raw_def done_preview_def sample_event_def)
  moreover have "validate_event sample_rt (done_preview (n + 1)) = Inr (done_preview (n + 1))"
    using assms(3) small by (simp add: validate_event_def done_preview_def sample_event_def saga_payload_def)
  moreover have "governed_event env ''prj_demo'' ''evt_9'' (n, hex64) ''olena'' ''project.phase.changed''
      [(''target_phase'', JStr ''CLOSING''), (''evidence_refs'', jstrs [''charter-1''])] [''charter-1'']
    = bindE (raised (\<lambda>_. StateValue) (event_hash_of sample_rt raw)) (\<lambda>h.
        raised (\<lambda>_. StateValue) (validate_event sample_rt (raw\<lparr>ev_event_hash := h\<rparr>)))"
    unfolding governed_event_def assms(1,2) Let_def jstrs_def list.map sample_event_digests(1) [OF floats]
      raised_simps bindE_Inr fst_conv snd_conv raw [symmetric] by (rule refl)
  ultimately show ?thesis using hash by simp
qed

lemma done_passes:
  assumes "au_attached_evidence au = {''charter-1''}" "st_decisions s = []" "st_open_issues s = []"
    "\<forall>(k, v) \<in> set (st_tasks s). terminal_str (tv_state v)"
  shows "dod_passed (evaluate_dod s CLOSING (Some (done_preview n)) (Some au))"
proof -
  have untrusted: "\<not> is_untrusted_actor ''olena''" by code_simp
  have "\<not> is_untrusted_event (Some (done_preview n))"
    using untrusted by (simp add: is_untrusted_event_def done_preview_def sample_event_def jget_def)
  moreover have "dod_evidence_present s (Some (done_preview n)) (Some au)"
    using assms(1) by (simp add: dod_evidence_present_def done_preview_def sample_event_def jget_def)
  ultimately show ?thesis using assms(2-4) by (simp add: dod_passed_iff)
qed

lemma done_planned:
  assumes env: "sv_rt env = sample_rt" "le_now (sv_ledger env) = ''2026-01-01T00:00:00Z''"
    and es: "read_canonical_events env ''prj_demo'' led = Inr es" "head_of es = (n, hex64)" "1 \<le> n"
    and au: "assemble_authority env fs es = Inr (au, tasks, [])" "au_attached_evidence au = {''charter-1''}"
      "au_accountable_actor au = Some ''olena''" "au_verified_task_receipts au = {}"
    and s: "historical_state env ''prj_demo'' au es = Inr h" "apply_current_overlay env h tasks [] au = Inr s"
      "st_attached_evidence s = [''charter-1'']" "st_current_phase s = DISCOVERY" "st_decisions s = []"
      "st_open_issues s = []" "\<forall>(k, v) \<in> set (st_tasks s). terminal_str (tv_state v)"
    and tasks: "set (map fst tasks) = set (fst (collect_ids es))" "hist_eval_ok (done_eval (map snd (sort_dict tasks)))"
  shows "plan_evaluation env ''prj_demo'' ''dod'' ''olena'' [''charter-1''] (Some ''evt_9'') fs led
    = Inr (done_command (map snd (sort_dict tasks)), n, hex64)"
proof -
  have small: "strip ''olena'' \<noteq> []" "\<not> is_untrusted_actor ''olena''" "clean_refs [''charter-1''] = [''charter-1'']"
    "evaluation_target ''dod'' DISCOVERY = CLOSING" "event_name ''prj_demo'' (Some ''evt_9'') u = ''evt_9''" for u
    by code_simp+
  have gate: "gate_passes env ''prj_demo'' ''dod'' ''olena'' (Some ''evt_9'') [''charter-1''] (n, hex64) s CLOSING au = Inr True"
    using done_previewed [OF env es(3)] done_passes [OF au(2) s(5-7)]
    by (simp add: gate_passes_def small)
  have eval: "new_evaluation sample_rt ''dod'' DISCOVERY CLOSING ''evt_9'' tasks [] au [''charter-1''] = done_eval (map snd (sort_dict tasks))"
    using au(3,4) by (simp add: new_evaluation_def done_eval_def sort_dict_def sample_rules_digest)
  have command: "governance_append_command sample_rt ''prj_demo'' (''dod'' @ ''.evaluated'')
      (hist_eval_dump (done_eval (map snd (sort_dict tasks)))) ''olena'' ''evt_9'' None [''charter-1'']
      = Inr (done_command (map snd (sort_dict tasks)))"
    using done_valid(2) [of 2 "map snd (sort_dict tasks)"] by (simp add: governance_append_command_def done_command_def)
  show ?thesis
    unfolding plan_evaluation_def
    using small gate eval command tasks s(3)
    by (simp add: es(1,2) au(1) s(1,2,4) env(1) Let_def)
qed

text \<open>Its append, on a ledger whose events have other identifiers.\<close>

lemma done_appended:
  assumes es: "list_all plain_event es" "linked sample_rt ''prj_demo'' 1 [] es" "distinct (map ev_event_id es)"
    "es \<noteq> []" "ev_event_hash (last es) = hex64" "list_all (\<lambda>e. ev_event_id e \<noteq> ''evt_9'') es"
    and seqs: "distinct (map ev_sequence (es @ [done_event n vs]))" and n: "n = int (length es) + 1"
  shows "append_governed (ledger_env_of (es @ [done_event n vs])) ''prj_demo'' (done_command vs) (Some (n - 1)) (Some hex64)
      (sample_vault es) = (Inr (done_event n vs),
        \<lparr>ld_files = append_line (event_record sample_rt (done_event n vs)) (ledger_of es), ld_locks = no_locks\<rparr>)"
proof -
  let ?env = "ledger_env_of (es @ [done_event n vs])" and ?e = "done_event n vs"
  have floats: "list_all (\<lambda>e. event_floats e = {}) [?e]" by (simp add: done_floats)
  have all: "list_all (\<lambda>e. event_floats e = {}) (es @ [?e])" using plain_floatless [OF es(1)] floats by simp
  have big: "1 < n" using n es(4) by (cases es) simp_all
  have parse: "parse_line ?env (strip (event_record sample_rt x)) = Parsed x \<and> strip (event_record sample_rt x) \<noteq> []"
    if "x \<in> set es" for x
  proof -
    have "strip (event_record sample_rt x) = event_record sample_rt x" "event_record sample_rt x \<noteq> []"
      using that es(1) event_record_line [of sample_rt x] by (auto simp: plain_event_def list_all_iff clean_line_def)
    then show ?thesis using sample_parse [OF _ all seqs, of x] that es(1) by (simp add: list_all_iff)
  qed
  have none: "find_recorded ?env (done_command vs) hex64 (map (event_record sample_rt) xs) = Inr None" if "set xs \<subseteq> set es" for xs
    using that
  proof (induction xs)
    case (Cons x xs)
    have "ev_event_id x \<noteq> ''evt_9''" using Cons.prems es(6) by (auto simp: list_all_iff)
    then show ?case using Cons parse [of x] by (simp add: given_def done_command_def)
  qed simp
  have "new_event ?env ''prj_demo'' (done_command vs) n hex64 = Inr ?e"
  proof -
    let ?d = "draft_event ?env ''prj_demo'' (done_command vs) n hex64 hex64"
    have d: "?d\<lparr>ev_event_hash := hex64\<rparr> = ?e"
      using big by (simp add: draft_event_def done_command_def done_event_def sample_event_def new_event_id_def)
        (simp add: ledger_env_of_def)
    have "event_hash_of sample_rt ?d = event_hash_of sample_rt (?d\<lparr>ev_event_hash := hex64\<rparr>)" by simp
    then have "event_hash_of sample_rt ?d = Inr hex64"
      unfolding d using sample_event_digests(2) [OF done_floats(1)] by (simp add: done_event_def)
    moreover have "compute_payload_digest sample_rt (ac_payload (done_command vs)) = Inr hex64"
      using sample_event_digests(1) [OF done_floats(1)] by (simp add: done_command_def)
    ultimately show ?thesis using done_valid(1) [OF big] by (simp add: new_event_eq value_raise_def d)
  qed
  moreover have "find_recorded ?env (done_command vs) hex64 (records (ledger_of es)) = Inr None"
    using none [of es] ledger_of_records [OF es(1)] by simp
  moreover have "check_floats (JObj (event_dump ?e))" unfolding done_event_def by (rule sample_event_digests(3) [OF done_floats(1)])
  moreover have "recover_active ?env (ledger_of es) = Inr (ledger_of es)" by (rule ledger_of_recovers [OF es(1) floats seqs es(2)])
  moreover have "replay ?env 1 (ledger_of es) = Inr es" by (rule sample_replay_ledger [OF es(1) floats seqs])
  moreover have "good_run sample_rt ''prj_demo'' es scan_start" using es(2,3) by (simp add: good_run_iff scan_start_def)
  ultimately have "append_files ?env ''prj_demo'' (done_command vs) (Some (n - 1)) (Some hex64) (ledger_of es)
      = (Inr ?e, append_line (event_record (le_rt ?env) ?e) (ledger_of es))"
    using done_valid(3) [OF big, of vs] es(4,5) n by (intro append_files_next) auto
  moreover have "push_level LEVEL_PROJECT (Some ''prj_demo'') no_locks
      = Inr \<lparr>held_levels = [LEVEL_PROJECT], held_projects = [Some ''prj_demo'']\<rparr>"
    "pop_level LEVEL_PROJECT \<lparr>held_levels = [LEVEL_PROJECT], held_projects = [Some ''prj_demo'']\<rparr> = no_locks"
    "''dod.evaluated'' \<in> set PSE_GOVERNANCE_EVENT_TYPES"
    by code_simp+
  ultimately show ?thesis
    by (simp add: append_governed_def append_unchecked_def with_project_lock_def)
      (simp add: done_command_def sample_vault_def)
qed

subsection \<open>The project without tasks\<close>

abbreviation poor_service :: state_env where "poor_service \<equiv> sample_service (sample_prefix @ [done_event 4 []])"

lemma poor_ledger:
  "list_all plain_event sample_prefix" "linked sample_rt ''prj_demo'' 1 [] sample_prefix"
  "distinct (map ev_event_id sample_prefix)" "list_all (\<lambda>e. event_floats e = {}) [done_event 4 []]"
  "distinct (map ev_sequence (sample_prefix @ [done_event 4 []]))"
  "read_canonical_events poor_service ''prj_demo'' (sample_vault sample_prefix) = Inr sample_prefix"
proof -
  have "linked rt pid n prev (xs @ ys) \<Longrightarrow> linked rt pid n prev xs" for rt pid n prev xs ys
    by (induction xs arbitrary: n prev) simp_all
  then show "list_all plain_event sample_prefix" "linked sample_rt ''prj_demo'' 1 [] sample_prefix"
    using sample_ledger_plain sample_ledger_linked unfolding sample_ledger_def by (auto simp del: linked.simps)
  show "distinct (map ev_event_id sample_prefix)" using sample_ledger_ids(2) by (simp add: sample_ledger_def)
  show floats: "list_all (\<lambda>e. event_floats e = {}) [done_event 4 []]" by (simp add: done_floats)
  show seqs: "distinct (map ev_sequence (sample_prefix @ [done_event 4 []]))"
    by (simp add: sample_prefix_def sample_event_def done_event_def)
  show "read_canonical_events poor_service ''prj_demo'' (sample_vault sample_prefix) = Inr sample_prefix"
    by (rule sample_canonical_events(2) [OF floats seqs])
qed

lemma poor_done:
  "append_governance_evaluation poor_service ''prj_demo'' ''dod'' ''olena'' [''charter-1''] (Some ''evt_9'') fs (sample_vault sample_prefix)
    = (Inr (done_event 4 []),
       \<lparr>ld_files = append_line (event_record sample_rt (done_event 4 [])) (ledger_of sample_prefix), ld_locks = no_locks\<rparr>)"
proof -
  obtain au where au: "assemble_authority poor_service fs sample_prefix = Inr (au, [], [])"
    "au_attached_evidence au = {''charter-1''}" "au_accountable_actor au = Some ''olena''" "au_verified_task_receipts au = {}"
    using sample_assembled(1) by blast
  note h = sample_history(1) [of au] assembled_historical [OF au(1)]
  have state: "st_attached_evidence (sealed sample_chartered) = [''charter-1'']" "st_current_phase (sealed sample_chartered) = DISCOVERY"
    "st_decisions (sealed sample_chartered) = []" "st_open_issues (sealed sample_chartered) = []"
    "st_tasks (sealed sample_chartered) = []" "head_of sample_prefix = (3, hex64)"
    "fst (collect_ids sample_prefix) = []" "hist_eval_ok (done_eval [])" by code_simp+
  have env: "sv_rt poor_service = sample_rt" "le_now (sv_ledger poor_service) = ''2026-01-01T00:00:00Z''"
    by simp (simp add: ledger_env_of_def)
  have "plan_evaluation poor_service ''prj_demo'' ''dod'' ''olena'' [''charter-1''] (Some ''evt_9'') fs (sample_vault sample_prefix)
      = Inr (done_command (map snd (sort_dict ([] :: task_view dict))), 3, hex64)"
    by (rule done_planned [OF env poor_ledger(6) state(6) _ au _ sample_overlaid(1)])
      (use h state in \<open>simp_all add: sort_dict_def\<close>)
  then have plan: "plan_evaluation poor_service ''prj_demo'' ''dod'' ''olena'' [''charter-1''] (Some ''evt_9'') fs (sample_vault sample_prefix)
      = Inr (done_command [], 3, hex64)" by (simp add: sort_dict_def)
  have "sample_prefix \<noteq> []" "ev_event_hash (last sample_prefix) = hex64" "list_all (\<lambda>e. ev_event_id e \<noteq> ''evt_9'') sample_prefix"
    "(4 :: int) = int (length sample_prefix) + 1"
    by (simp_all add: sample_prefix_def sample_event_def)
  then have "append_governed (ledger_env_of (sample_prefix @ [done_event 4 []])) ''prj_demo'' (done_command []) (Some (4 - 1)) (Some hex64)
      (sample_vault sample_prefix) = (Inr (done_event 4 []),
        \<lparr>ld_files = append_line (event_record sample_rt (done_event 4 [])) (ledger_of sample_prefix), ld_locks = no_locks\<rparr>)"
    by (intro done_appended poor_ledger)
  then show ?thesis by (simp add: append_governance_evaluation_def plan)
qed

subsection \<open>The project with the finished task\<close>

definition joined :: project_event where
  "joined = sample_event 4 ''evt_4'' ''task.associated'' [(''project_id'', JStr ''prj_demo''), (''task_id'', JStr ''t1''),
     (''relation'', JStr ''contributes_to''), (''correlation_id'', JNull), (''idempotency_key'', JNull)] []"

definition joined_state :: project_state where
  "joined_state = sample_chartered\<lparr>st_tasks := [(''t1'', \<lparr>tv_task_id = ''t1'', tv_state = ''backlog'', tv_revision = 1,
       tv_digest = hex64, tv_source_identity = ''evt_4'', tv_dependencies = [], tv_open_gates = [], tv_receipt_ids = []\<rparr>)],
     st_last_event_sequence := 4, st_contributing_events := [''evt_1'', ''evt_2'', ''evt_3'', ''evt_4'']\<rparr>"

definition finished_view :: task_view where
  "finished_view = \<lparr>tv_task_id = ''t1'', tv_state = ''completed'', tv_revision = 2, tv_digest = hex64,
     tv_source_identity = ''TaskStore:v2'', tv_dependencies = [], tv_open_gates = [],
     tv_receipt_ids = [cr_receipt_id finish_receipt]\<rparr>"

definition projected :: "project_state \<Rightarrow> project_state" where
  "projected s = (project_health (project_registers (project_decisions (project_tasks s))))\<lparr>st_state_revision := hex64\<rparr>"

abbreviation rich_ledger :: "project_event list" where "rich_ledger \<equiv> sample_prefix @ [joined]"

definition rich_service :: state_env where
  "rich_service = (sample_service (rich_ledger @ [done_event 5 [finished_view]]))
     \<lparr>sv_decisions := decision_sample\<lparr>de_store := service_env finished_task finished_event\<rparr>\<rparr>"

definition rich_files :: filesystem where
  "rich_files = [task_file ''t1'' \<mapsto> snapshot_text plain_env finished_task]"

lemma projected_state:
  assumes "st_rules_digest s = hex64" "check_floats_items (state_dump (projected s))"
  shows "compute_projections sample_rt au s = Inr (projected s)"
  by (rule sample_projections [OF assms(1) _ assms(2)]) (simp add: projected_def)

lemma joined_step: "sample_step joined sample_chartered = Inr joined_state"
  by (rule sample_apply; (simp add: dispatch_def)?; code_simp)

lemma joined_states:
  "compute_projections sample_rt au joined_state = Inr (projected joined_state)"
  "compute_projections sample_rt au (overlay [(''t1'', finished_view)] [] (projected joined_state))
     = Inr (projected (overlay [(''t1'', finished_view)] [] (projected joined_state)))"
  by (rule projected_state; code_simp)+

lemma rich_state:
  "st_attached_evidence (projected (overlay [(''t1'', finished_view)] [] (projected joined_state))) = [''charter-1'']"
  "st_current_phase (projected (overlay [(''t1'', finished_view)] [] (projected joined_state))) = DISCOVERY"
  "st_decisions (projected (overlay [(''t1'', finished_view)] [] (projected joined_state))) = []"
  "st_open_issues (projected (overlay [(''t1'', finished_view)] [] (projected joined_state))) = []"
  "st_tasks (projected (overlay [(''t1'', finished_view)] [] (projected joined_state))) = [(''t1'', finished_view)]"
  "st_overridden_gates (projected (overlay [(''t1'', finished_view)] [] (projected joined_state))) = []"
  by code_simp+

lemma rich_simps:
  "sv_ledger rich_service = ledger_env_of (rich_ledger @ [done_event 5 [finished_view]])"
  "sv_store rich_service = service_env finished_task finished_event"
  by (simp_all add: rich_service_def)

lemma rich_ledger_facts:
  "list_all plain_event rich_ledger" "linked sample_rt ''prj_demo'' 1 [] rich_ledger" "distinct (map ev_event_id rich_ledger)"
  "list_all (\<lambda>e. event_floats e = {}) [done_event 5 [finished_view]]"
  "distinct (map ev_sequence (rich_ledger @ [done_event 5 [finished_view]]))"
  "read_canonical_events rich_service ''prj_demo'' (sample_vault rich_ledger) = Inr rich_ledger"
proof -
  have joined: "validate_event sample_rt (event_content joined) = Inr joined" "validate_event sample_rt joined = Inr joined"
    by code_simp+
  moreover have "event_floats joined = {}" by (simp add: event_floats_def joined_def sample_event_def)
  ultimately show plain: "list_all plain_event rich_ledger" using poor_ledger(1) by (simp add: plain_event_def)
  have fields: "ev_project_id (sample_event n i et p refs) = ''prj_demo''" "ev_sequence (sample_event n i et p refs) = n"
    "ev_event_hash (sample_event n i et p refs) = hex64" "ev_payload_digest (sample_event n i et p refs) = hex64"
    "ev_prev_event_hash (sample_event n i et p refs) = (if n = 1 then [] else hex64)"
    "ev_payload (sample_event n i et p refs) = p" for n i et p refs
    by (simp_all add: sample_event_def)
  show linked: "linked sample_rt ''prj_demo'' 1 [] rich_ledger"
    by (simp add: sample_prefix_def joined_def sample_event_digests fields)
  show ids: "distinct (map ev_event_id rich_ledger)" by code_simp
  show floats: "list_all (\<lambda>e. event_floats e = {}) [done_event 5 [finished_view]]" by (simp add: done_floats)
  show seqs: "distinct (map ev_sequence (rich_ledger @ [done_event 5 [finished_view]]))"
    by (simp add: sample_prefix_def joined_def sample_event_def done_event_def)
  have "ev_event_hash (last rich_ledger) = hex64" by (simp add: joined_def sample_event_def)
  then have "read_canonical_events (sample_service (rich_ledger @ [done_event 5 [finished_view]])) ''prj_demo''
      (sample_vault rich_ledger) = Inr rich_ledger"
    by (intro sample_canonical plain floats seqs linked ids) simp
  moreover have "read_canonical_events rich_service
      = read_canonical_events (sample_service (rich_ledger @ [done_event 5 [finished_view]]))"
    unfolding fun_eq_iff read_canonical_events_def rich_simps(1) sample_service_simps(1) by (intro allI refl)
  ultimately show "read_canonical_events rich_service ''prj_demo'' (sample_vault rich_ledger) = Inr rich_ledger"
    by (simp only:)
qed

lemma rich_assembled:
  "\<exists>au. assemble_authority rich_service rich_files rich_ledger = Inr (au, [(''t1'', finished_view)], [])
    \<and> au_attached_evidence au = {''charter-1''} \<and> au_accountable_actor au = Some ''olena'' \<and> au_verified_task_receipts au = {}"
proof -
  have "check_evaluation rich_service rich_files e = Inr ()" if "e \<in> set rich_ledger" for e
    using that by (auto simp: check_evaluation_def sample_prefix_def joined_def sample_event_def)
  then have "mapE (check_evaluation rich_service rich_files) es = Inr (replicate (length es) ())" if "set es \<subseteq> set rich_ledger" for es
    using that by (induction es) auto
  then have checked: "validate_historical_evaluations rich_service rich_files rich_ledger = Inr ()"
    by (simp add: validate_historical_evaluations_def)
  have parts: "collect_ids rich_ledger = ([''t1''], [])" "attached_by rich_ledger = {''charter-1''}"
    "assigned_raci rich_ledger = [(''Accountable'', [''olena''])]" "is_accountable_role ''Accountable''"
    "pt_receipt_ids finished_task = [cr_receipt_id finish_receipt]" "task_ok finished_task" "pt_task_id finished_task = ''t1''"
    "Task_Objects.re_task_id ''t1''"
    by code_simp+
  have task: "get_task (service_env finished_task finished_event) rich_files ''t1'' = Inr (Some finished_task)"
    using service_loads(3) [OF finished_texts] service_short(2) [OF finished_texts] parts(6-8)
    by (simp add: get_task_def with_task_id_def rich_files_def read_json_def read_secure_def validate_task_dump)
  have "from_power_task sample_rt finished_task = Inr finished_view" by code_simp
  then have live: "resolve_live_tasks rich_service rich_files [''t1''] = Inr [(''t1'', finished_view)]"
    using task by (simp add: resolve_live_tasks_def live_task_def rich_simps List.map_filter_simps)
  have "rich_files (receipt_file rid) = None" for rid
    by (simp add: rich_files_def task_file_def receipt_file_def tasks_root_def)
  then have "verified_receipt rich_service rich_files ''t1'' finished_task rid = Inr []" for rid
    by (simp add: verified_receipt_def rich_simps get_completion_receipt_def)
  then have "verified_task_receipts rich_service rich_files [''t1''] = Inr []"
    using task by (simp add: verified_task_receipts_def task_receipts_def rich_simps parts)
  moreover have "resolve_live_decisions rich_service rich_files [] = Inr ([], [])"
    by (simp add: resolve_live_decisions_def List.map_filter_simps)
  ultimately show ?thesis
    using checked live by (simp add: assemble_authority_def parts Let_def sorted_set_def)
qed

lemma rich_history:
  assumes "au_historical au" "au_permit_accountable_approval au"
  shows "historical_state rich_service ''prj_demo'' au rich_ledger = Inr (projected joined_state)"
proof -
  have same: "same_history_authority au (sample_authority True)"
    using assms by (simp add: same_history_authority_def sample_authority_def)
  have hd: "rich_ledger \<noteq> []" "ev_project_id (hd rich_ledger) = ''prj_demo''"
    by (simp_all add: sample_prefix_def sample_event_def)
  have "target_project rich_ledger None (Some ''prj_demo'') = target_project rich_ledger None None"
    by (simp add: target_project_def sample_prefix_def sample_event_def)
  then have "reduce_internal sample_rt GOVERNANCE_RULES_VERSION rich_ledger None [] [] (Some ''prj_demo'') (Some au)
      = reduce_internal sample_rt GOVERNANCE_RULES_VERSION rich_ledger None [] [] None (Some (sample_authority True))"
    by (intro trans [OF historical_reduce [OF same]]) (simp add: reduce_internal_eq)
  also have "\<dots> = Inr (projected joined_state)"
    unfolding sample_reduce [OF hd] foldE_append sample_run_prefix bindE_Inr
    by (simp add: joined_step joined_states(1))
  finally show ?thesis by (simp add: historical_state_def rich_simps)
qed

abbreviation rich_result :: project_state where
  "rich_result \<equiv> projected (overlay [(''t1'', finished_view)] [] (projected joined_state))"

lemma rich_done:
  "append_governance_evaluation rich_service ''prj_demo'' ''dod'' ''olena'' [''charter-1''] (Some ''evt_9'') rich_files (sample_vault rich_ledger)
    = (Inr (done_event 5 [finished_view]),
       \<lparr>ld_files = append_line (event_record sample_rt (done_event 5 [finished_view])) (ledger_of rich_ledger), ld_locks = no_locks\<rparr>)"
  "rebuild_project_state rich_service ''prj_demo'' rich_files (sample_vault rich_ledger) = Inr rich_result"
proof -
  obtain au where au: "assemble_authority rich_service rich_files rich_ledger = Inr (au, [(''t1'', finished_view)], [])"
    "au_attached_evidence au = {''charter-1''}" "au_accountable_actor au = Some ''olena''" "au_verified_task_receipts au = {}"
    using rich_assembled by blast
  have h: "historical_state rich_service ''prj_demo'' au rich_ledger = Inr (projected joined_state)"
    using rich_history assembled_historical [OF au(1)] by blast
  have over: "apply_current_overlay rich_service (projected joined_state) [(''t1'', finished_view)] [] au = Inr rich_result"
    by (simp add: apply_current_overlay_def rich_simps joined_states(2))
  have facts: "head_of rich_ledger = (4, hex64)" "fst (collect_ids rich_ledger) = [''t1'']" "hist_eval_ok (done_eval [finished_view])"
    "terminal_str (tv_state finished_view)" by code_simp+
  have env: "sv_rt rich_service = sample_rt" "le_now (sv_ledger rich_service) = ''2026-01-01T00:00:00Z''"
    by (simp add: rich_simps) (simp add: rich_simps ledger_env_of_def)
  have "plan_evaluation rich_service ''prj_demo'' ''dod'' ''olena'' [''charter-1''] (Some ''evt_9'') rich_files (sample_vault rich_ledger)
      = Inr (done_command (map snd (sort_dict [(''t1'', finished_view)])), 4, hex64)"
    by (rule done_planned [OF env rich_ledger_facts(6) facts(1) _ au h over rich_state(1-4)])
      (use facts rich_state(5) in \<open>simp_all add: sort_dict_def\<close>)
  then have plan: "plan_evaluation rich_service ''prj_demo'' ''dod'' ''olena'' [''charter-1''] (Some ''evt_9'') rich_files (sample_vault rich_ledger)
      = Inr (done_command [finished_view], 4, hex64)" by (simp add: sort_dict_def)
  have "rich_ledger \<noteq> []" "ev_event_hash (last rich_ledger) = hex64" "list_all (\<lambda>e. ev_event_id e \<noteq> ''evt_9'') rich_ledger"
    "(5 :: int) = int (length rich_ledger) + 1"
    by (simp_all add: sample_prefix_def joined_def sample_event_def)
  then have "append_governed (ledger_env_of (rich_ledger @ [done_event 5 [finished_view]])) ''prj_demo'' (done_command [finished_view])
      (Some (5 - 1)) (Some hex64) (sample_vault rich_ledger) = (Inr (done_event 5 [finished_view]),
        \<lparr>ld_files = append_line (event_record sample_rt (done_event 5 [finished_view])) (ledger_of rich_ledger), ld_locks = no_locks\<rparr>)"
    by (intro done_appended rich_ledger_facts)
  then show "append_governance_evaluation rich_service ''prj_demo'' ''dod'' ''olena'' [''charter-1''] (Some ''evt_9'') rich_files (sample_vault rich_ledger)
    = (Inr (done_event 5 [finished_view]),
       \<lparr>ld_files = append_line (event_record sample_rt (done_event 5 [finished_view])) (ledger_of rich_ledger), ld_locks = no_locks\<rparr>)"
    unfolding append_governance_evaluation_def plan rich_simps(1) by simp
  show "rebuild_project_state rich_service ''prj_demo'' rich_files (sample_vault rich_ledger) = Inr rich_result"
    by (simp add: rebuild_project_state_def rebuild_events_def rich_ledger_facts(6) au(1) h over)
qed

subsection \<open>A task and a granted decision\<close>

definition chosen :: project_event where
  "chosen = sample_event 5 ''evt_5'' ''decision.associated'' [(''decision_id'', JStr ''dec_1'')] []"

lemma owners_assembled:
  "\<exists>au v w. assemble_authority (sample_service []) (files granted_store) [joined, chosen]
      = Inr (au, [(''t1'', v)], [(''dec_1'', w)]) \<and> au_approved_decision_ids au = {''dec_1''}"
proof -
  let ?env = "sample_service []" and ?fs = "files granted_store"
  have parts: "collect_ids [joined, chosen] = ([''t1''], [''dec_1''])" "pt_receipt_ids plan_task = []"
    "dc_status (key_sorted granted) = ''approved''" "dc_receipt_id (key_sorted granted) = Some (dr_receipt_id grant_receipt)"
    "dr_receipt_id grant_receipt \<noteq> []" "approves ''dec_1'' (key_sorted granted) grant_receipt"
    "ev_event_type joined = ''task.associated''" "ev_event_type chosen = ''decision.associated''"
    by code_simp+
  have "\<exists>v. from_power_task sample_rt plan_task = Inr v" "\<exists>w. from_decision sample_rt (key_sorted granted) = Inr w"
    by (simp_all add: from_power_task_def from_decision_def mk_task_view_def mk_decision_view_def) code_simp+
  then obtain v w where views: "from_power_task sample_rt plan_task = Inr v" "from_decision sample_rt (key_sorted granted) = Inr w"
    by blast
  have task: "get_task (service_env blocked_task blocked_event) ?fs ''t1'' = Inr (Some plan_task)"
    using sample_task_read [of ?fs] by (simp add: granted_store_def asked_store_files sample_paths [symmetric])
  have "get_decision_receipt decision_sample ?fs (dr_receipt_id grant_receipt) = Inr (Some grant_receipt)"
    by (rule stored_receipt_read [OF granted_durable])
      (simp_all add: same_reader_def sample_ids_ok granted_store_def, simp add: grant_receipt_def)
  then have approval: "canonical_approval ?env ?fs ''dec_1'' (key_sorted granted) = Inr True"
    using parts(3-6) by (simp add: canonical_approval_def)
  have "check_evaluation ?env ?fs joined = Inr ()" "check_evaluation ?env ?fs chosen = Inr ()"
    by (simp_all add: check_evaluation_def parts)
  then have "validate_historical_evaluations ?env ?fs [joined, chosen] = Inr ()"
    by (simp add: validate_historical_evaluations_def)
  moreover have "resolve_live_tasks ?env ?fs [''t1''] = Inr [(''t1'', v)]"
    using task views(1) by (simp add: resolve_live_tasks_def live_task_def List.map_filter_simps)
  moreover have "resolve_live_decisions ?env ?fs [''dec_1''] = Inr ([(''dec_1'', w)], [''dec_1''])"
    using granted_read views(2) approval
    by (simp add: resolve_live_decisions_def live_decision_def List.map_filter_simps)
  moreover have "verified_task_receipts ?env ?fs [''t1''] = Inr []"
    using task by (simp add: verified_task_receipts_def task_receipts_def parts)
  ultimately show ?thesis by (simp add: assemble_authority_def parts(1) Let_def)
qed

end
