(* ===== verification/State_Properties.thy ===== *)
theory State_Properties
  imports Sample_State
begin

text \<open>
  The properties of the trusted state service: its views are built by the owners of the objects, a
  historical state does not depend on the live stores, candidates and snapshots are accepted only
  when they are the ledger, and what an appended evaluation stands for.
\<close>

subsection \<open>The authority\<close>

definition authority_typed ::
  "state_env \<Rightarrow> project_event list \<Rightarrow> authority_context \<Rightarrow> task_view dict \<Rightarrow> decision_view dict \<Rightarrow> bool" where
  "authority_typed env es au tasks decisions =
     (sorted (map fst tasks) \<and> distinct (map fst tasks) \<and> set (map fst tasks) \<subseteq> set (fst (collect_ids es))
      \<and> sorted (map fst decisions) \<and> distinct (map fst decisions)
      \<and> set (map fst decisions) \<subseteq> set (snd (collect_ids es))
      \<and> list_all (\<lambda>v. task_view_ok v \<and> tv_digest v = task_view_expected (sv_rt env) v
          \<and> tv_source_identity v = ''TaskStore:v2'') (map snd tasks)
      \<and> list_all (\<lambda>v. decision_view_ok v \<and> dv_digest v = decision_view_expected (sv_rt env) v
          \<and> dv_source_identity v = ''DecisionService:v1'' \<and> dv_status v \<in> set CANONICAL_DECISION_STATUSES)
        (map snd decisions)
      \<and> au_historical au \<and> au_approved_decision_ids au \<subseteq> set (map fst decisions)
      \<and> (au_accountable_actor au \<noteq> None \<longrightarrow> au_cardinality_valid au))"

lemma approved_known:
  assumes "resolve_live_decisions env fs ids = Inr (decisions, approved)"
  shows "set approved \<subseteq> set (map fst decisions)"
  using assms by (auto simp: resolve_live_decisions_def bindE_eq_Inr Let_def) force

lemma accountable_cardinality:
  "assemble_authority env fs es = Inr (au, tasks, decisions) \<Longrightarrow>
   au_accountable_actor au \<noteq> None \<Longrightarrow> au_cardinality_valid au"
  by (auto simp: assemble_authority_def bindE_eq_Inr Let_def split: prod.splits list.splits)

text \<open>
  C34. An assembled authority is well formed: the views of tasks and of decisions are listed once each in
  the order of their identifiers, only for objects that are associated with the project, and each
  satisfies the constraints of its model, names the store it comes from, and carries the digest
  recomputed from its own fields; the approved decisions are among the listed ones, and an
  accountable actor is named only when there is one.
\<close>

theorem authority_views_are_well_formed:
  assumes "assemble_authority env fs es = Inr (au, tasks, decisions)"
  shows "authority_typed env es au tasks decisions"
proof -
  obtain approved receipts where a: "resolve_live_tasks env fs (fst (collect_ids es)) = Inr tasks"
    "resolve_live_decisions env fs (snd (collect_ids es)) = Inr (decisions, approved)"
    "au_approved_decision_ids au = set approved"
    using assms by (rule assembledE)
  note ids = collect_distinct [of es, THEN conjunct1] collect_distinct [of es, THEN conjunct2]
  note t = resolved_tasks [OF a(1) ids(1)] and d = resolved_decisions [OF a(2) ids(2)]
  have "task_view_ok v \<and> tv_digest v = task_view_expected (sv_rt env) v \<and> tv_source_identity v = ''TaskStore:v2''"
    if "(k, v) \<in> set tasks" for k v
    using t(4) that by (auto simp: task_owner_says_def from_power_task_view)
  moreover have "decision_view_ok v \<and> dv_digest v = decision_view_expected (sv_rt env) v
      \<and> dv_source_identity v = ''DecisionService:v1'' \<and> dv_status v \<in> set CANONICAL_DECISION_STATUSES"
    if v: "(k, v) \<in> set decisions" for k v
  proof -
    obtain dc where "from_decision (sv_rt env) dc = Inr v"
      using bspec [OF d(4) v] by (auto simp: decision_owner_says_def)
    note view = from_decision_view [OF this]
    then show ?thesis unfolding decision_view_ok_def by blast
  qed
  ultimately show ?thesis
    using t(1-3) d(1-3) approved_known [OF a(2)] a(3) assembled_historical [OF assms]
      accountable_cardinality [OF assms]
    by (auto simp: authority_typed_def list_all_iff)
qed

theorem authority_views_are_well_formed_witness:
  "\<exists>au v w. assemble_authority (sample_service []) (files granted_store) [joined, chosen]
      = Inr (au, [(''t1'', v)], [(''dec_1'', w)])
    \<and> authority_typed (sample_service []) [joined, chosen] au [(''t1'', v)] [(''dec_1'', w)]"
proof -
  obtain au v w where au: "assemble_authority (sample_service []) (files granted_store) [joined, chosen]
      = Inr (au, [(''t1'', v)], [(''dec_1'', w)])"
    using owners_assembled by (elim exE conjE)
  show ?thesis by (intro exI conjI, rule au, rule authority_views_are_well_formed [OF au])
qed

text \<open>
  C15. Authority comes only from the owning stores. The views are exactly those of the associated objects
  that their stores know, as the stores hold them; an approval counts only for a decision that is
  stored as approved, with a stored receipt of that approval bound to the task and its revision; a
  task receipt counts only when a stored terminal task lists it and it is bound to that task and its
  revision; and evidence counts only when an event of the ledger attached it.
\<close>

theorem authority_comes_from_the_owners:
  assumes "assemble_authority env fs es = Inr (au, tasks, decisions)"
  shows "set (map fst tasks) = {k \<in> set (fst (collect_ids es)). get_task (sv_store env) fs k \<noteq> Inr None}
    \<and> (\<forall>(k, v) \<in> set tasks. task_owner_says env fs k v)
    \<and> set (map fst decisions) = {k \<in> set (snd (collect_ids es)). get_decision (sv_decisions env) fs k \<noteq> Inr None}
    \<and> (\<forall>(k, v) \<in> set decisions. \<exists>a. decision_owner_says env fs k (v, a))
    \<and> (\<forall>k \<in> au_approved_decision_ids au. \<exists>d r. get_decision (sv_decisions env) fs k = Inr (Some d)
        \<and> dc_status d = ''approved''
        \<and> get_decision_receipt (sv_decisions env) fs (dr_receipt_id r) = Inr (Some r) \<and> approves k d r)
    \<and> (\<forall>k \<in> au_verified_task_receipts au. \<exists>tid t r. tid \<in> set (fst (collect_ids es))
        \<and> get_task (sv_store env) fs tid = Inr (Some t) \<and> k \<in> set (pt_receipt_ids t)
        \<and> pt_state t \<in> set TERMINAL_STATES \<and> get_completion_receipt (sv_store env) fs k = Inr (Some r)
        \<and> cr_task_id r = tid \<and> cr_task_revision r = pt_revision t)
    \<and> (\<forall>k \<in> au_attached_evidence au. \<exists>e \<in> set es. k \<in> set (collect_evidence_refs e)
        \<and> (ev_event_type e = ''evidence.attached'' \<or> starts_with ''artifact.'' (ev_event_type e)))"
proof -
  obtain approved receipts where a: "resolve_live_tasks env fs (fst (collect_ids es)) = Inr tasks"
    "resolve_live_decisions env fs (snd (collect_ids es)) = Inr (decisions, approved)"
    "verified_task_receipts env fs (fst (collect_ids es)) = Inr receipts"
    "au_approved_decision_ids au = set approved" "au_verified_task_receipts au = set receipts"
    "au_attached_evidence au = attached_by es"
    using assms by (rule assembledE)
  note ids = collect_distinct [of es, THEN conjunct1] collect_distinct [of es, THEN conjunct2]
  note t = resolved_tasks [OF a(1) ids(1)] and d = resolved_decisions [OF a(2) ids(2)]
  have views: "\<forall>(k, v) \<in> set tasks. task_owner_says env fs k v"
    "\<forall>(k, v) \<in> set decisions. \<exists>a. decision_owner_says env fs k (v, a)"
    using t(4) d(4) by (simp_all only: split_def) blast+
  have approvals: "\<exists>d r. get_decision (sv_decisions env) fs k = Inr (Some d) \<and> dc_status d = ''approved''
      \<and> get_decision_receipt (sv_decisions env) fs (dr_receipt_id r) = Inr (Some r) \<and> approves k d r"
    if "k \<in> au_approved_decision_ids au" for k
  proof -
    have "k \<in> set approved" using that a(4) by simp
    then obtain v where "decision_owner_says env fs k (v, True)" using bspec [OF d(5)] by blast
    then show ?thesis by (rule approval_from_owner) blast
  qed
  have receipts: "\<exists>tid t r. tid \<in> set (fst (collect_ids es)) \<and> get_task (sv_store env) fs tid = Inr (Some t)
      \<and> k \<in> set (pt_receipt_ids t) \<and> pt_state t \<in> set TERMINAL_STATES
      \<and> get_completion_receipt (sv_store env) fs k = Inr (Some r)
      \<and> cr_task_id r = tid \<and> cr_task_revision r = pt_revision t"
    if "k \<in> au_verified_task_receipts au" for k
  proof -
    have "k \<in> set receipts" using that a(5) by simp
    with a(3) show ?thesis by (rule receipt_from_owner) blast
  qed
  have evidence: "\<exists>e \<in> set es. k \<in> set (collect_evidence_refs e)
      \<and> (ev_event_type e = ''evidence.attached'' \<or> starts_with ''artifact.'' (ev_event_type e))"
    if "k \<in> au_attached_evidence au" for k
    using that unfolding a(6) attached_by_def by auto
  show ?thesis
    by (rule conjI [OF t(3) conjI [OF views(1) conjI [OF d(3) conjI [OF views(2)]]]])
      (rule conjI [OF ballI conjI [OF ballI ballI]], fact approvals, fact receipts, fact evidence)
qed

theorem authority_comes_from_the_owners_witness:
  "\<exists>d r. get_decision decision_sample (files granted_store) ''dec_1'' = Inr (Some d) \<and> dc_status d = ''approved''
    \<and> get_decision_receipt decision_sample (files granted_store) (dr_receipt_id r) = Inr (Some r)
    \<and> approves ''dec_1'' d r"
proof -
  obtain au v w where au: "assemble_authority (sample_service []) (files granted_store) [joined, chosen]
      = Inr (au, [(''t1'', v)], [(''dec_1'', w)])" "au_approved_decision_ids au = {''dec_1''}"
    using owners_assembled by (elim exE conjE)
  note owners = authority_comes_from_the_owners [OF au(1), THEN conjunct2, THEN conjunct2, THEN conjunct2, THEN conjunct2, THEN conjunct1]
  show ?thesis using bspec [OF owners, of "''dec_1''"] au(2) by simp
qed

subsection \<open>Historical states\<close>

text \<open>
  C40. A historical state does not depend on the live stores: two rebuilds of it from the same canonical
  events agree, whatever the stores of tasks and decisions held and however the two ledgers were
  split into files. The stores can only refuse a rebuild, when they contradict a recorded evaluation.
\<close>

theorem history_ignores_the_live_stores:
  assumes "read_canonical_events env pid led = Inr es" "read_canonical_events env' pid led' = Inr es"
    and "sv_rt env = sv_rt env'"
    and "rebuild_historical_governance_state env pid fs led = Inr s"
    and "rebuild_historical_governance_state env' pid fs' led' = Inr s'"
  shows "s = s'"
proof -
  obtain au ts ds where a: "assemble_authority env fs es = Inr (au, ts, ds)" "historical_state env pid au es = Inr s"
    using assms(1,4) by (auto simp: rebuild_historical_governance_state_def bindE_eq_Inr)
  obtain au' ts' ds' where b: "assemble_authority env' fs' es = Inr (au', ts', ds')"
    "historical_state env' pid au' es = Inr s'"
    using assms(2,5) by (auto simp: rebuild_historical_governance_state_def bindE_eq_Inr)
  have "Inr s = (Inr s' :: state_error + project_state)"
    using historical_state_same [OF assembled_same [OF a(1) b(1)] assms(3), of pid es] a(2) b(2) by simp
  then show ?thesis by simp
qed

theorem history_ignores_the_live_stores_witness:
  "\<exists>s. rebuild_historical_governance_state (sample_service sample_ledger) ''prj_demo'' (\<lambda>_. None) (sample_vault sample_ledger) = Inr s
    \<and> (\<forall>s'. rebuild_historical_governance_state (sample_service sample_ledger) ''prj_demo'' (files granted_store)
          (sample_vault sample_ledger) = Inr s' \<longrightarrow> s' = s)"
proof -
  have events: "read_canonical_events (sample_service sample_ledger) ''prj_demo'' (sample_vault sample_ledger) = Inr sample_ledger"
    using sample_canonical_events(1) [of "[]"] sample_ledger_ids(1) by (simp add: sample_ledger_def)
  have "\<exists>s. rebuild_historical_governance_state (sample_service sample_ledger) ''prj_demo'' fs (sample_vault sample_ledger) = Inr s" for fs
  proof -
    obtain au where "assemble_authority (sample_service sample_ledger) fs sample_ledger = Inr (au, [], [])"
      using sample_assembled(2) by blast
    then show ?thesis
      using sample_history(2) assembled_historical
      by (simp add: rebuild_historical_governance_state_def events)
  qed
  then show ?thesis using history_ignores_the_live_stores [OF events events refl] by blast
qed

subsection \<open>Candidates and snapshots\<close>

text \<open>
  C25. A caller's events are accepted only as a copy of the ledger: as many events, each equal to the
  recorded one at its place; the result is then the state rebuilt from the ledger alone. Nothing
  that the caller supplies reaches the state.
\<close>

theorem candidates_must_be_the_ledger:
  assumes "rebuild_from_candidates env pid candidates fs led = Inr s"
  shows "(\<exists>es supplied. read_canonical_events env pid led = Inr es
      \<and> mapE (supplied_event (sv_rt env)) candidates = Inr supplied \<and> list_all2 same_event supplied es)
    \<and> rebuild_project_state env pid fs led = Inr s"
  using assms
  by (auto simp: rebuild_from_candidates_def rebuild_project_state_def bindE_eq_Inr split: if_splits)

theorem candidates_must_be_the_ledger_witness:
  "rebuild_from_candidates (sample_service sample_ledger) ''prj_demo'' (map Inl sample_ledger) (\<lambda>_. None) (sample_vault sample_ledger)
      = Inr (sealed sample_planning)
    \<and> rebuild_project_state (sample_service sample_ledger) ''prj_demo'' (\<lambda>_. None) (sample_vault sample_ledger)
      = Inr (sealed sample_planning)"
proof -
  have events: "read_canonical_events (sample_service sample_ledger) ''prj_demo'' (sample_vault sample_ledger) = Inr sample_ledger"
    using sample_canonical_events(1) [of "[]"] sample_ledger_ids(1) by (simp add: sample_ledger_def)
  have "mapE (supplied_event rt) (map Inl es) = Inr es" for rt es
    by (induction es) (simp_all add: supplied_event_def)
  moreover have "list_all2 same_event sample_ledger sample_ledger" by code_simp
  ultimately have run: "rebuild_from_candidates (sample_service sample_ledger) ''prj_demo'' (map Inl sample_ledger) (\<lambda>_. None)
      (sample_vault sample_ledger) = Inr (sealed sample_planning)"
    using sample_rebuilt(2) by (simp add: rebuild_from_candidates_def events rebuild_project_state_def)
  show ?thesis using run candidates_must_be_the_ledger [OF run] by blast
qed

text \<open>
  C3. Restoring a snapshot refines rebuilding: whatever the snapshot holds, a restore that succeeds
  returns the state that a rebuild from the ledger returns, and the history in the snapshot is then
  the one that the events up to its position replay to.
\<close>

theorem authoritative_restore_is_rebuild:
  assumes "restore_snapshot_authoritative env n fs led = Inr t"
  shows "rebuild_project_state env (sn_project_id n) fs led = Inr t
    \<and> (\<exists>es au tasks decisions s. read_canonical_events env (sn_project_id n) led = Inr es
      \<and> assemble_authority env fs es = Inr (au, tasks, decisions)
      \<and> historical_state env (sn_project_id n) au (filter (\<lambda>e. ev_sequence e \<le> sn_last_event_sequence n) es) = Inr s
      \<and> same_history (sn_state n) s)"
proof
  show "rebuild_project_state env (sn_project_id n) fs led = Inr t" using assms by (rule restored_is_rebuilt)
  show "\<exists>es au tasks decisions s. read_canonical_events env (sn_project_id n) led = Inr es
      \<and> assemble_authority env fs es = Inr (au, tasks, decisions)
      \<and> historical_state env (sn_project_id n) au (filter (\<lambda>e. ev_sequence e \<le> sn_last_event_sequence n) es) = Inr s
      \<and> same_history (sn_state n) s"
    using assms unfolding restore_snapshot_authoritative_def Let_def bindE_eq_Inr
    by (auto simp: bindE_eq_Inr split: if_splits)
qed

theorem authoritative_restore_is_rebuild_witness:
  "restore_snapshot_authoritative (sample_service sample_ledger) sample_snapshot (\<lambda>_. None) (sample_vault sample_ledger)
      = Inr (sealed sample_planning)
    \<and> rebuild_project_state (sample_service sample_ledger) ''prj_demo'' (\<lambda>_. None) (sample_vault sample_ledger)
      = Inr (sealed sample_planning)"
proof -
  have run: "restore_snapshot_authoritative (sample_service sample_ledger) sample_snapshot (\<lambda>_. None) (sample_vault sample_ledger)
      = Inr (sealed sample_planning)"
    using sealed_state_restores [OF sample_rebuilt(1) _ sample_split_events, of sample_snapshot] sample_snapshot_created
      sample_rebuilt(2) by (simp add: sample_rules_digest hex64_def)
  moreover have "sn_project_id sample_snapshot = ''prj_demo''" by code_simp
  ultimately show ?thesis using authoritative_restore_is_rebuild [OF run] by simp
qed

text \<open>
  C30. Every sealed state can be restored: the snapshot of a rebuilt state is accepted on any later ledger
  that extends the events it was taken from, and restoring it gives exactly what rebuilding from the
  whole ledger gives, the refusals included.
\<close>

theorem sealed_snapshots_restore:
  assumes "rebuild_project_state env0 pid fs0 led0 = Inr s" and "create_snapshot (sv_rt env0) s = Inr n"
    and "read_canonical_events env0 pid led0 = Inr es1" and "read_canonical_events env pid led = Inr (es1 @ es2)"
    and "sv_rt env0 = sv_rt env" and "RULES_DIGEST (sv_rt env) \<noteq> []"
  shows "restore_snapshot_authoritative env n fs led = rebuild_project_state env pid fs led"
  using assms by (rule sealed_state_restores)

theorem sealed_snapshots_restore_witness:
  "restore_snapshot_authoritative (sample_service sample_ledger) sample_snapshot (\<lambda>_. None) (sample_vault sample_ledger)
    = Inr (sealed sample_planning)"
  using sealed_snapshots_restore [OF sample_rebuilt(1) _ sample_split_events, of sample_snapshot] sample_snapshot_created
    sample_rebuilt(2) by (simp add: sample_rules_digest hex64_def)

subsection \<open>Governance evaluations\<close>

text \<open>
  C9. A Definition of Done is earned or its gate was overridden. When the service writes a new one to a
  ledger whose last line is complete, then either the ledger has overridden the gate of the closing, or every task that is associated with the
  project is stored in a final state, every decision that its store knows is resolved, and no blocking
  issue is open. In both cases the evidence it names was attached before, and it is the next event of
  the ledger, from the governance source, by a trusted actor.
\<close>

theorem definition_of_done_is_earned:
  assumes "append_governance_evaluation env pid ''dod'' actor evidence eid fs led = (Inr e, led')"
    and "read_canonical_events env pid led = Inr es" and "active_complete (ld_files led)" and "e \<notin> set es"
    and "rebuild_project_state env pid fs led = Inr s"
  shows "(dod_overridden s
      \<or> (\<forall>k \<in> set (fst (collect_ids es)). \<exists>t. get_task (sv_store env) fs k = Inr (Some t) \<and> pt_state t \<in> set TERMINAL_STATES)
        \<and> (\<forall>k \<in> set (snd (collect_ids es)). get_decision (sv_decisions env) fs k = Inr None
            \<or> (\<exists>d. get_decision (sv_decisions env) fs k = Inr (Some d) \<and> dc_status d \<in> set RESOLVED_DECISION_STATUSES))
        \<and> (\<forall>i \<in> set (st_open_issues s). \<not> blocking_issue s i))
    \<and> set (ev_evidence_refs e) \<subseteq> set (st_attached_evidence s)
    \<and> ev_sequence e = int (length es) + 1 \<and> ev_prev_event_hash e = snd (head_of es)
    \<and> ev_event_type e = ''dod.evaluated'' \<and> ev_source e = ''pse_governance''
    \<and> ev_actor e = actor \<and> \<not> is_untrusted_actor actor"
proof (rule appended_evaluationE [OF assms(1) insertI2 [OF insertI1] assms(2-4)])
  fix au tasks decisions hs s' h
  assume a: "assemble_authority env fs es = Inr (au, tasks, decisions)"
    "historical_state env pid au es = Inr hs" "apply_current_overlay env hs tasks decisions au = Inr s'"
    "\<not> is_untrusted_actor actor" "set (clean_refs evidence) \<subseteq> set (st_attached_evidence s')"
    "gate_passes env pid ''dod'' actor eid (clean_refs evidence) (head_of es) s'
       (evaluation_target ''dod'' (st_current_phase s')) au = Inr True"
    "evaluation_target ''dod'' (st_current_phase s') \<noteq> PLANNING \<longrightarrow> set (map fst tasks) = set (fst (collect_ids es))"
    and e: "ev_event_type e = ''dod'' @ ''.evaluated''" "ev_source e = ''pse_governance''" "ev_actor e = actor"
    "ev_sequence e = int (length es) + 1" "ev_prev_event_hash e = snd (head_of es)"
    "ev_evidence_refs e = clean_refs evidence"
  have s: "s' = s" using assms(2,5) a(1-3) by (simp add: rebuild_project_state_def rebuild_events_def)
  note a = a [unfolded s]
  have "set (map fst tasks) = set (fst (collect_ids es))" using a(7) by (simp add: evaluation_target_def split: if_splits)
  note tasks = this
  have "(\<forall>k \<in> set (fst (collect_ids es)). \<exists>t. get_task (sv_store env) fs k = Inr (Some t) \<and> pt_state t \<in> set TERMINAL_STATES)
      \<and> (\<forall>k \<in> set (snd (collect_ids es)). get_decision (sv_decisions env) fs k = Inr None
          \<or> (\<exists>d. get_decision (sv_decisions env) fs k = Inr (Some d) \<and> dc_status d \<in> set RESOLVED_DECISION_STATUSES))
      \<and> (\<forall>i \<in> set (st_open_issues s). \<not> blocking_issue s i)" if open_gate: "\<not> dod_overridden s"
    using done_in_the_stores [OF a(1,3,6) open_gate tasks] gate_passes_done(3) [OF a(6) open_gate] by blast
  then show ?thesis using a(4,5) e by auto
qed

theorem definition_of_done_is_earned_witness:
  "(\<exists>t. get_task (sv_store rich_service) rich_files ''t1'' = Inr (Some t) \<and> pt_state t \<in> set TERMINAL_STATES)
    \<and> ev_evidence_refs (done_event 5 [finished_view]) = [''charter-1'']"
proof -
  have facts: "\<not> dod_overridden rich_result" "active_complete (ld_files (sample_vault rich_ledger))"
    "done_event 5 [finished_view] \<notin> set rich_ledger" "''t1'' \<in> set (fst (collect_ids rich_ledger))"
    using rich_state(6) rich_ledger_facts(5) ledger_of_complete by (auto simp: dod_overridden_def) code_simp
  show ?thesis
    using definition_of_done_is_earned [OF rich_done(1) rich_ledger_facts(6) facts(2,3) rich_done(2)] facts(1,4)
    by (simp add: done_event_def sample_event_def)
qed

text \<open>
  C23. A Definition of Done on a project without tasks closes the project. The service writes it, with an
  empty list of task views, and the reducer refuses every passed evaluation of that kind without
  tasks: from then on no state can be rebuilt from any ledger that holds the event, whatever is
  appended after it and whatever the stores hold.
\<close>

theorem evaluation_without_tasks_closes_the_project:
  assumes "append_governance_evaluation env pid ''dod'' actor evidence eid fs led = (Inr e, led')"
    and "read_canonical_events env pid led = Inr es" and "active_complete (ld_files led)" and "e \<notin> set es"
    and "fst (collect_ids es) = []" and "reads_back (sv_ledger env) e"
    and "readable_floats (sv_rt env) (event_floats e)"
  shows "\<exists>e'. event_content e' = event_content e \<and> replay (sv_ledger env) 1 (ld_files led') = Inr (es @ [e'])
    \<and> (\<forall>env2 fs2 led2 es2. read_canonical_events env2 pid led2 = Inr es2 \<and> e' \<in> set es2 \<longrightarrow>
        (\<exists>x. rebuild_project_state env2 pid fs2 led2 = Inl x)
        \<and> (\<exists>x. rebuild_historical_governance_state env2 pid fs2 led2 = Inl x))"
proof (rule appended_evaluationE [OF assms(1) insertI2 [OF insertI1] assms(2-4)])
  fix au tasks decisions s h hs
  assume a: "assemble_authority env fs es = Inr (au, tasks, decisions)"
    "h = new_evaluation (sv_rt env) ''dod'' (st_current_phase s) (evaluation_target ''dod'' (st_current_phase s))
       (event_name pid eid (sv_uuid env)) tasks decisions au (clean_refs evidence)"
    and e: "ev_event_type e = ''dod'' @ ''.evaluated''" "ev_payload e = hist_eval_dump h"
    "validate_event (sv_rt env) e = Inr e" "ld_files led' = append_line (event_record (sv_rt env) e) (ld_files led)"
  obtain approved receipts where "resolve_live_tasks env fs (fst (collect_ids es)) = Inr tasks"
    using a(1) by (rule assembledE)
  then have none: "tasks = []" by (simp add: assms(5) resolve_live_tasks_def List.map_filter_simps)
  have t: "taskless_evaluation e" "dict_wf (ev_payload e)"
    using new_evaluation_taskless [OF _ e(2) a(2) [unfolded none]] e(1) by simp_all
  obtain e' where e': "event_content e' = event_content e" "replay (sv_ledger env) 1 (ld_files led') = Inr (es @ [e'])"
    by (rule replay_after_record [OF assms(3) canonical_events(1) [OF assms(2)] e(3) assms(6,7), folded e(4)])
  then show ?thesis using taskless_rebuild taskless_content [OF e'(1) t] by blast
qed

theorem evaluation_without_tasks_closes_the_project_witness:
  "\<exists>led' e'. append_governance_evaluation poor_service ''prj_demo'' ''dod'' ''olena'' [''charter-1''] (Some ''evt_9'')
      (\<lambda>_. None) (sample_vault sample_prefix) = (Inr (done_event 4 []), led')
    \<and> replay (sv_ledger poor_service) 1 (ld_files led') = Inr (sample_prefix @ [e'])
    \<and> event_content e' = event_content (done_event 4 [])"
proof -
  have facts: "active_complete (ld_files (sample_vault sample_prefix))" "done_event 4 [] \<notin> set sample_prefix"
    "fst (collect_ids sample_prefix) = []"
    using poor_ledger(5) ledger_of_complete by auto code_simp
  have reads: "reads_back (sv_ledger poor_service) (done_event 4 [])"
    using floatless_reads_back [OF _ _ poor_ledger(5)] plain_floatless [OF poor_ledger(1)] poor_ledger(4) by simp
  show ?thesis
    using evaluation_without_tasks_closes_the_project [OF poor_done poor_ledger(6) facts(1,2,3) reads] poor_done
    by (simp add: done_floats) blast
qed

end
