(* ===== verification/Lock_Waiting.thy ===== *)
theory Lock_Waiting
  imports Lock_Tracker
begin

text \<open>
  The locks behind the levels of the tracker: what a thread waits for when it enters the mutation lock
  of a vault (\<open>core/mutation.py\<close>), the writer lock of a \<open>TaskStore\<close> (\<open>core/task_store.py\<close>) or the lock
  of a project (\<open>core/project_store.py\<close>), and what it owns until it leaves.

  Each lock is a lock of the process, which its owner may enter again, and an advisory lock on a file,
  which belongs to one open descriptor: the mutation lock opens a new one on every entry, the other two
  only on the first. The contract \<open>wait_order\<close> is what excludes a circle of waiting threads; threads
  that ask the tracker, work on one vault through one \<open>TaskStore\<close> and do not nest the mutation lock
  keep it. Without these two habits the tracker does not prevent a circle.
\<close>

subsection \<open>Locks\<close>

text \<open>A vault; a vault and a \<open>TaskStore\<close> object; a vault and a project.\<close>

datatype lock_target = MutationLock string | TaskLock string nat | ProjectLock string string

fun target_level :: "lock_target \<Rightarrow> int" where
  "target_level (MutationLock v) = LEVEL_MUTATION"
| "target_level (TaskLock v i) = LEVEL_TASK"
| "target_level (ProjectLock v p) = LEVEL_PROJECT"

fun lock_project :: "lock_target \<Rightarrow> string option" where
  "lock_project (ProjectLock v p) = Some p"
| "lock_project _ = None"

fun target_vault :: "lock_target \<Rightarrow> string" where
  "target_vault (MutationLock v) = v"
| "target_vault (TaskLock v i) = v"
| "target_vault (ProjectLock v p) = v"

fun target_store :: "lock_target \<Rightarrow> nat option" where
  "target_store (TaskLock v i) = Some i"
| "target_store _ = None"

text \<open>The locks of a process (the first argument, but for the one of an object) and the locks on files.\<close>

datatype resource =
    MutationThread nat string | MutationFile string
  | TaskThread nat | TaskFile string
  | ProjectThread nat string string | ProjectFile string string

fun rank :: "resource \<Rightarrow> int" where
  "rank (MutationThread pr v) = 1"
| "rank (MutationFile v) = 2"
| "rank (TaskThread i) = 3"
| "rank (TaskFile v) = 4"
| "rank (ProjectThread pr v p) = 5"
| "rank (ProjectFile v p) = 6"

text \<open>What the entry of a lock waits for, in this order, by a thread of process \<open>pr\<close> that owns \<open>rs\<close>.\<close>

definition mutation_lock_steps :: "nat \<Rightarrow> resource list \<Rightarrow> string \<Rightarrow> resource list" where
  "mutation_lock_steps pr rs v =
     (if MutationThread pr v \<in> set rs then [] else [MutationThread pr v]) @ [MutationFile v]"

definition task_lock_steps :: "resource list \<Rightarrow> string \<Rightarrow> nat \<Rightarrow> resource list" where
  "task_lock_steps rs v i = (if TaskThread i \<in> set rs then [] else [TaskThread i, TaskFile v])"

definition project_lock_steps :: "nat \<Rightarrow> resource list \<Rightarrow> string \<Rightarrow> string \<Rightarrow> resource list" where
  "project_lock_steps pr rs v p =
     (if ProjectFile v p \<in> set rs then [] else [ProjectThread pr v p, ProjectFile v p])"

definition lock_steps :: "nat \<Rightarrow> resource list \<Rightarrow> lock_target \<Rightarrow> resource list" where
  "lock_steps pr rs t = (case t of
       MutationLock v \<Rightarrow> mutation_lock_steps pr rs v
     | TaskLock v i \<Rightarrow> task_lock_steps rs v i
     | ProjectLock v p \<Rightarrow> project_lock_steps pr rs v p)"

subsection \<open>Threads\<close>

text \<open>
  A thread: its process, its tracker, the locks it is inside, each with what its entry took, and the
  lock it is entering, with what it has taken and what it still has to wait for.
\<close>

record lock_thread =
  lt_process :: nat
  lt_tracker :: lock_state
  lt_inside :: "(lock_target \<times> resource list) list"
  lt_entering :: "(lock_target \<times> resource list \<times> resource list) option"

definition taken :: "(lock_target \<times> resource list) list \<Rightarrow> resource list" where
  "taken hs = concat (map snd hs)"

definition owned :: "lock_thread \<Rightarrow> resource list" where
  "owned th = taken (lt_inside th) @ (case lt_entering th of None \<Rightarrow> [] | Some (_, got, _) \<Rightarrow> got)"

definition targets :: "lock_thread \<Rightarrow> lock_target list" where
  "targets th = map fst (lt_inside th) @ (case lt_entering th of None \<Rightarrow> [] | Some (t, _, _) \<Rightarrow> [t])"

definition idle_thread :: "nat \<Rightarrow> lock_thread" where
  "idle_thread pr = \<lparr>lt_process = pr, lt_tracker = no_locks, lt_inside = [], lt_entering = None\<rparr>"

text \<open>
  The steps of a thread: it asks the tracker and starts to enter, gets the next lock, is inside when
  it has them all, gives up, or leaves the lock that it entered last.
\<close>

inductive thread_step :: "lock_thread \<Rightarrow> lock_thread \<Rightarrow> bool" where
  asks: "lt_entering th = None \<Longrightarrow> push_level (target_level t) (lock_project t) (lt_tracker th) = Inr tr \<Longrightarrow>
    thread_step th (th\<lparr>lt_tracker := tr,
      lt_entering := Some (t, [], lock_steps (lt_process th) (taken (lt_inside th)) t)\<rparr>)"
| gets: "lt_entering th = Some (t, got, r # rest) \<Longrightarrow>
    thread_step th (th\<lparr>lt_entering := Some (t, got @ [r], rest)\<rparr>)"
| enters: "lt_entering th = Some (t, got, []) \<Longrightarrow>
    thread_step th (th\<lparr>lt_inside := lt_inside th @ [(t, got)], lt_entering := None\<rparr>)"
| gives_up: "lt_entering th = Some (t, got, rest) \<Longrightarrow>
    thread_step th (th\<lparr>lt_tracker := pop_level (target_level t) (lt_tracker th), lt_entering := None\<rparr>)"
| leaves: "lt_entering th = None \<Longrightarrow> lt_inside th = hs @ [(t, got)] \<Longrightarrow>
    thread_step th (th\<lparr>lt_tracker := pop_level (target_level t) (lt_tracker th), lt_inside := hs\<rparr>)"

definition reachable_thread :: "lock_thread \<Rightarrow> bool" where
  "reachable_thread th \<longleftrightarrow> (\<exists>pr. thread_step\<^sup>*\<^sup>* (idle_thread pr) th)"

definition waits_for :: "lock_thread \<Rightarrow> resource \<Rightarrow> bool" where
  "waits_for th r \<longleftrightarrow> (case lt_entering th of Some (_, _, x # _) \<Rightarrow> x = r | _ \<Rightarrow> False)"

definition owns :: "lock_thread \<Rightarrow> resource \<Rightarrow> bool" where
  "owns th r \<longleftrightarrow> r \<in> set (owned th)"

text \<open>One vault, one \<open>TaskStore\<close>, and no mutation lock inside another one.\<close>

definition one_vault :: "lock_thread \<Rightarrow> bool" where
  "one_vault th \<longleftrightarrow>
     (\<forall>t \<in> set (targets th). \<forall>u \<in> set (targets th). target_vault t = target_vault u
        \<and> (target_store t \<noteq> None \<and> target_store u \<noteq> None \<longrightarrow> target_store t = target_store u))
     \<and> (case lt_entering th of Some (MutationLock v, _, _) \<Rightarrow> MutationLock v \<notin> set (map fst (lt_inside th))
        | _ \<Rightarrow> True)"

subsection \<open>What a thread owns\<close>

lemma taken_simps [simp]: "taken [] = []" "taken (h # hs) = snd h @ taken hs" "taken (hs @ gs) = taken hs @ taken gs"
  by (simp_all add: taken_def)

abbreviation push_target :: "lock_target \<Rightarrow> lock_state \<Rightarrow> lock_violation + lock_state" where
  "push_target t s \<equiv> push_level (target_level t) (lock_project t) s"

text \<open>The tracker has seen the locks in their order, and each entry took what its steps say.\<close>

definition entered_in_order :: "nat \<Rightarrow> (lock_target \<times> resource list) list \<Rightarrow> bool" where
  "entered_in_order pr hs \<longleftrightarrow> (\<forall>xs t got ys. hs = xs @ (t, got) # ys \<longrightarrow> got = lock_steps pr (taken xs) t)"

definition thread_inv :: "lock_thread \<Rightarrow> bool" where
  "thread_inv th \<longleftrightarrow> foldE push_target (targets th) no_locks = Inr (lt_tracker th)
     \<and> entered_in_order (lt_process th) (lt_inside th)
     \<and> (\<forall>t got rest. lt_entering th = Some (t, got, rest) \<longrightarrow>
          got @ rest = lock_steps (lt_process th) (taken (lt_inside th)) t)"

lemma entered_snoc:
  "entered_in_order pr (hs @ [(t, got)]) \<longleftrightarrow> entered_in_order pr hs \<and> got = lock_steps pr (taken hs) t"
proof
  assume a: "entered_in_order pr (hs @ [(t, got)])"
  then have "got = lock_steps pr (taken hs) t" unfolding entered_in_order_def by blast
  moreover have "entered_in_order pr hs"
    unfolding entered_in_order_def
  proof (intro allI impI)
    fix xs u g ys
    assume "hs = xs @ (u, g) # ys"
    then have "hs @ [(t, got)] = xs @ (u, g) # (ys @ [(t, got)])" by simp
    then show "g = lock_steps pr (taken xs) u" using a unfolding entered_in_order_def by blast
  qed
  ultimately show "entered_in_order pr hs \<and> got = lock_steps pr (taken hs) t" by simp
next
  assume a: "entered_in_order pr hs \<and> got = lock_steps pr (taken hs) t"
  show "entered_in_order pr (hs @ [(t, got)])"
    unfolding entered_in_order_def
  proof (intro allI impI)
    fix xs u g ys
    assume "hs @ [(t, got)] = xs @ (u, g) # ys"
    then show "g = lock_steps pr (taken xs) u"
      using a by (cases ys rule: rev_cases) (auto simp: entered_in_order_def)
  qed
qed

lemma push_run_snoc:
  assumes "foldE push_target (ts @ [t]) no_locks = Inr tr"
  shows "foldE push_target ts no_locks = Inr (pop_level (target_level t) tr)"
proof -
  obtain s where "foldE push_target ts no_locks = Inr s" "push_target t s = Inr tr"
    using assms by (auto simp: foldE_append bindE_eq_Inr)
  then show ?thesis using pop_push by simp
qed

lemma thread_step_inv: "thread_step th th' \<Longrightarrow> thread_inv th \<Longrightarrow> thread_inv th'"
proof (induction rule: thread_step.induct)
  case (leaves th hs t got)
  have "foldE push_target (map fst hs @ [t]) no_locks = Inr (lt_tracker th)"
    using leaves by (simp add: thread_inv_def targets_def)
  from push_run_snoc [OF this] show ?case
    using leaves by (simp add: thread_inv_def targets_def entered_snoc)
next
  case (gives_up th t got rest)
  have "foldE push_target (map fst (lt_inside th) @ [t]) no_locks = Inr (lt_tracker th)"
    using gives_up by (simp add: thread_inv_def targets_def)
  from push_run_snoc [OF this] show ?case
    using gives_up by (simp add: thread_inv_def targets_def)
qed (auto simp: thread_inv_def targets_def entered_snoc foldE_append)

lemma reachable_inv: "reachable_thread th \<Longrightarrow> thread_inv th"
proof -
  have "thread_step\<^sup>*\<^sup>* a th \<Longrightarrow> thread_inv a \<Longrightarrow> thread_inv th" for a
    by (induction rule: rtranclp_induct) (auto intro: thread_step_inv)
  moreover have "thread_inv (idle_thread pr)" for pr
    by (simp add: thread_inv_def idle_thread_def targets_def entered_in_order_def)
  ultimately show "reachable_thread th \<Longrightarrow> thread_inv th" unfolding reachable_thread_def by blast
qed

lemma lock_project_level: "target_level t = LEVEL_PROJECT \<longrightarrow> lock_project t \<noteq> None"
  by (cases t) (simp_all add: LEVEL_MUTATION_def LEVEL_TASK_def LEVEL_PROJECT_def)

text \<open>The levels ascend, and project locks are for one project.\<close>

lemma push_run:
  assumes "foldE push_target ts no_locks = Inr tr"
  shows "held_levels tr = map target_level ts" "disciplined tr"
    "t \<in> set ts \<Longrightarrow> target_level t = LEVEL_PROJECT \<Longrightarrow> lock_project t \<in> set (held_projects tr)"
proof -
  have "held_levels tr = map target_level ts \<and> disciplined tr
      \<and> (\<forall>t \<in> set ts. target_level t = LEVEL_PROJECT \<longrightarrow> lock_project t \<in> set (held_projects tr))"
    using assms
  proof (induction ts arbitrary: tr rule: rev_induct)
    case Nil
    then show ?case by (auto simp: no_locks_def disciplined_def)
  next
    case (snoc t ts)
    then obtain s where s: "foldE push_target ts no_locks = Inr s" "push_target t s = Inr tr"
      by (auto simp: foldE_append bindE_eq_Inr)
    note IH = snoc.IH [OF s(1)]
    show ?case
      using IH push_held(1) [OF s(2)] push_disciplined [OF s(2) lock_project_level] push_projects [OF s(2)] by auto
  qed
  then show "held_levels tr = map target_level ts" "disciplined tr"
    "t \<in> set ts \<Longrightarrow> target_level t = LEVEL_PROJECT \<Longrightarrow> lock_project t \<in> set (held_projects tr)" by auto
qed

lemma steps_rank:
  "r \<in> set (lock_steps pr rs t) \<Longrightarrow> 2 * target_level t - 1 \<le> rank r \<and> rank r \<le> 2 * target_level t"
  "sorted_wrt (\<lambda>a b. rank a < rank b) (lock_steps pr rs t)"
  by (cases t; auto simp: lock_steps_def mutation_lock_steps_def task_lock_steps_def project_lock_steps_def
      LEVEL_MUTATION_def LEVEL_TASK_def LEVEL_PROJECT_def split: if_splits)+

text \<open>A thread that is inside a lock owns it.\<close>

lemma inside_taken:
  assumes "entered_in_order pr hs" "t \<in> set (map fst hs)"
  shows "\<And>v i. t = TaskLock v i \<Longrightarrow> TaskThread i \<in> set (taken hs)"
    "\<And>v p. t = ProjectLock v p \<Longrightarrow> ProjectFile v p \<in> set (taken hs)"
proof -
  obtain xs got ys where hs: "hs = xs @ (t, got) # ys" using assms(2) by (auto dest: split_list)
  then have "got = lock_steps pr (taken xs) t" using assms(1) unfolding entered_in_order_def by blast
  then show "\<And>v i. t = TaskLock v i \<Longrightarrow> TaskThread i \<in> set (taken hs)"
    "\<And>v p. t = ProjectLock v p \<Longrightarrow> ProjectFile v p \<in> set (taken hs)"
    using hs by (auto simp: lock_steps_def task_lock_steps_def project_lock_steps_def split: if_splits)
qed

lemma taken_entry:
  assumes "entered_in_order pr hs" "k \<in> set (taken hs)"
  obtains t where "t \<in> set (map fst hs)" "2 * target_level t - 1 \<le> rank k" "rank k \<le> 2 * target_level t"
proof -
  obtain t got where "(t, got) \<in> set hs" "k \<in> set got" using assms(2) by (auto simp: taken_def)
  then obtain xs ys where hs: "hs = xs @ (t, got) # ys" by (auto dest: split_list)
  then have "got = lock_steps pr (taken xs) t" using assms(1) unfolding entered_in_order_def by blast
  then show thesis using that [of t] steps_rank(1) [of k] \<open>k \<in> set got\<close> hs by auto
qed

text \<open>What a disciplined thread waits for ranks above everything it owns.\<close>

lemma waits_above:
  assumes "reachable_thread th" "one_vault th" "waits_for th r" "owns th k"
  shows "rank k < rank r"
proof -
  obtain t got rest where e: "lt_entering th = Some (t, got, r # rest)"
    using assms(3) by (auto simp: waits_for_def split: option.splits prod.splits list.splits)
  let ?hs = "lt_inside th" and ?pr = "lt_process th"
  have run: "foldE push_target (map fst ?hs @ [t]) no_locks = Inr (lt_tracker th)"
    and order: "entered_in_order ?pr ?hs" and steps: "got @ r # rest = lock_steps ?pr (taken ?hs) t"
    using reachable_inv [OF assms(1)] e by (auto simp: thread_inv_def targets_def)
  have r: "r \<in> set (lock_steps ?pr (taken ?hs) t)" "lock_steps ?pr (taken ?hs) t \<noteq> []"
    by (simp_all flip: steps)
  consider "k \<in> set got" | "k \<in> set (taken ?hs)" using assms(4) e by (auto simp: owns_def owned_def)
  then show ?thesis
  proof cases
    case 1
    then show ?thesis using steps_rank(2) [of ?pr "taken ?hs" t] unfolding steps [symmetric]
      by (auto simp: sorted_wrt_append)
  next
    case 2
    obtain u where u: "u \<in> set (map fst ?hs)" "2 * target_level u - 1 \<le> rank k" "rank k \<le> 2 * target_level u"
      using taken_entry [OF order 2] .
    have "sorted (map target_level (map fst ?hs @ [t]))"
      using push_run(1,2) [OF run] by (simp add: disciplined_def)
    then have le: "target_level u \<le> target_level t" using u(1) by (auto simp: sorted_append)
    have "target_level u \<noteq> target_level t"
    proof
      assume eq: "target_level u = target_level t"
      have both: "u \<in> set (targets th)" "t \<in> set (targets th)" using u(1) e by (auto simp: targets_def)
      then have vault: "target_vault u = target_vault t"
        "target_store u \<noteq> None \<Longrightarrow> target_store t \<noteq> None \<Longrightarrow> target_store u = target_store t"
        using assms(2) unfolding one_vault_def by blast+
      show False
      proof (cases t)
        case (MutationLock v)
        then have "u = MutationLock v"
          using eq vault(1) by (cases u) (auto simp: LEVEL_MUTATION_def LEVEL_TASK_def LEVEL_PROJECT_def)
        then show False using assms(2) e MutationLock u(1) by (auto simp: one_vault_def)
      next
        case (TaskLock v i)
        then obtain w where "u = TaskLock w i"
          using eq vault(2) by (cases u) (auto simp: LEVEL_MUTATION_def LEVEL_TASK_def LEVEL_PROJECT_def)
        then have "TaskThread i \<in> set (taken ?hs)" using inside_taken(1) [OF order u(1)] by blast
        then show False using r(2) TaskLock by (simp add: lock_steps_def task_lock_steps_def)
      next
        case (ProjectLock v p)
        then obtain q where q: "u = ProjectLock v q"
          using eq vault(1) by (cases u) (auto simp: LEVEL_MUTATION_def LEVEL_TASK_def LEVEL_PROJECT_def)
        have "{Some q, Some p} \<subseteq> set (held_projects (lt_tracker th))"
          using push_run(3) [OF run, of u] push_run(3) [OF run, of t] u(1) q ProjectLock by simp
        then have "q = p" using push_run(2) [OF run] by (auto simp: disciplined_def)
        then have "ProjectFile v p \<in> set (taken ?hs)" using inside_taken(2) [OF order u(1)] q by blast
        then show False using r(2) ProjectLock by (simp add: lock_steps_def project_lock_steps_def)
      qed
    qed
    then show ?thesis using le u(3) steps_rank(1) [OF r(1)] by linarith
  qed
qed

subsection \<open>The contract\<close>

locale wait_order =
  fixes thread_ok :: "'s \<Rightarrow> bool"
    and waiting :: "'s \<Rightarrow> 'r \<Rightarrow> bool"
    and owning :: "'s \<Rightarrow> 'r \<Rightarrow> bool"
    and height :: "'r \<Rightarrow> int"
  assumes waits_upwards: "thread_ok s \<Longrightarrow> waiting s r \<Longrightarrow> owning s k \<Longrightarrow> height k < height r"
begin

text \<open>No circle of threads, each waiting for something that the next one owns.\<close>

lemma no_wait_cycle:
  assumes "0 < n" and "\<And>i. i < n \<Longrightarrow> thread_ok (th i)" and "\<And>i. i < n \<Longrightarrow> waiting (th i) (want i)"
  shows "\<exists>i < n. \<not> owning (th (Suc i mod n)) (want i)"
proof (rule ccontr)
  assume cycle: "\<not> (\<exists>i < n. \<not> owning (th (Suc i mod n)) (want i))"
  let ?h = "\<lambda>i. height (want i)"
  have fin: "finite (?h ` {..<n})" "?h ` {..<n} \<noteq> {}" using assms(1) by auto
  obtain i where i: "i < n" "?h i = Max (?h ` {..<n})"
    using Max_in [OF fin] by (metis (no_types, lifting) imageE lessThan_iff)
  let ?j = "Suc i mod n"
  have j: "?j < n" using assms(1) by simp
  have "?h ?j \<le> ?h i" unfolding i(2) by (rule Max_ge) (use fin j in auto)
  moreover have "?h i < ?h ?j"
    using waits_upwards [OF assms(2) [OF j] assms(3) [OF j]] cycle i(1) by blast
  ultimately show False by simp
qed

end

interpretation locks: wait_order "\<lambda>th. reachable_thread th \<and> one_vault th" waits_for owns rank
  by unfold_locales (rule waits_above; simp)

subsection \<open>Properties\<close>

text \<open>
  C17. Deadlock freedom of the lock hierarchy. Whatever number of threads, in whatever processes,
  enter the locks through the tracker, when each of them works on one vault through one \<open>TaskStore\<close>
  and enters no mutation lock while it is inside one, they never wait in a circle, each for a lock
  of a process or a file that the next one owns; in particular none waits for itself.
\<close>

theorem lock_hierarchy_has_no_deadlock:
  assumes "0 < n" and "\<forall>i < n. reachable_thread (th i) \<and> one_vault (th i)"
    and "\<forall>i < n. waits_for (th i) (want i)"
  shows "\<exists>i < n. \<not> owns (th (Suc i mod n)) (want i)"
  using locks.no_wait_cycle [of n th want] assms by blast

text \<open>A thread of a process that is inside one lock and enters another one.\<close>

definition nested_thread :: "nat \<Rightarrow> lock_target \<Rightarrow> lock_target \<Rightarrow> nat \<Rightarrow> lock_thread" where
  "nested_thread pr a b k =
    \<lparr>lt_process = pr,
     lt_tracker = (case bindE (push_target a no_locks) (push_target b) of Inr tr \<Rightarrow> tr | Inl _ \<Rightarrow> no_locks),
     lt_inside = [(a, lock_steps pr [] a)],
     lt_entering = Some (b, take k (lock_steps pr (lock_steps pr [] a) b), drop k (lock_steps pr (lock_steps pr [] a) b))\<rparr>"

lemma gets_all:
  "thread_step\<^sup>*\<^sup>* (th\<lparr>lt_entering := Some (t, got, xs @ rest)\<rparr>) (th\<lparr>lt_entering := Some (t, got @ xs, rest)\<rparr>)"
proof (induction xs arbitrary: got)
  case (Cons x xs)
  have "thread_step (th\<lparr>lt_entering := Some (t, got, x # xs @ rest)\<rparr>) (th\<lparr>lt_entering := Some (t, got @ [x], xs @ rest)\<rparr>)"
    using thread_step.gets [of "th\<lparr>lt_entering := Some (t, got, x # xs @ rest)\<rparr>" t got x "xs @ rest"] by simp
  then show ?case using Cons.IH [of "got @ [x]"] by (simp add: converse_rtranclp_into_rtranclp)
qed simp

lemma asks_and_gets:
  assumes "lt_entering th = None" "push_target t (lt_tracker th) = Inr tr"
    "lock_steps (lt_process th) (taken (lt_inside th)) t = xs @ rest"
  shows "thread_step\<^sup>*\<^sup>* th (th\<lparr>lt_tracker := tr, lt_entering := Some (t, xs, rest)\<rparr>)"
proof -
  have "thread_step th (th\<lparr>lt_tracker := tr, lt_entering := Some (t, [], xs @ rest)\<rparr>)"
    using thread_step.asks [OF assms(1,2)] assms(3) by simp
  then show ?thesis using gets_all [where th = "th\<lparr>lt_tracker := tr\<rparr>" and t = t and got = "[]" and xs = xs and rest = rest]
    by (simp add: converse_rtranclp_into_rtranclp)
qed

lemma nested_reachable:
  assumes "\<not> isl (bindE (push_target a no_locks) (push_target b))"
  shows "reachable_thread (nested_thread pr a b k)"
proof -
  obtain tr tr' where push: "push_target a no_locks = Inr tr" "push_target b tr = Inr tr'"
    using assms by (cases "push_target a no_locks"; cases "bindE (push_target a no_locks) (push_target b)") auto
  let ?a = "lock_steps pr [] a"
  let ?th = "\<lparr>lt_process = pr, lt_tracker = tr, lt_inside = [], lt_entering = Some (a, ?a, [])\<rparr>"
  let ?in = "\<lparr>lt_process = pr, lt_tracker = tr, lt_inside = [(a, ?a)], lt_entering = None\<rparr>"
  have "thread_step\<^sup>*\<^sup>* (idle_thread pr) ?th"
    using asks_and_gets [of "idle_thread pr" a tr ?a "[]"] push(1) by (simp add: idle_thread_def)
  moreover have "thread_step ?th ?in" using thread_step.enters [of ?th a ?a] by simp
  moreover have "thread_step\<^sup>*\<^sup>* ?in (nested_thread pr a b k)"
    using asks_and_gets [of ?in b tr' "take k (lock_steps pr ?a b)" "drop k (lock_steps pr ?a b)"] push
    by (simp add: nested_thread_def)
  ultimately show ?thesis unfolding reachable_thread_def
    by (meson rtranclp.rtrancl_into_rtrancl rtranclp_trans)
qed

text \<open>
  A writer of process 1 is inside the mutation lock and waits for the tasks, which a thread of process 2
  is inside of while it waits for a project: that thread cannot be waiting for the first one.
\<close>

theorem lock_hierarchy_has_no_deadlock_witness:
  "waits_for (nested_thread 1 (MutationLock ''v'') (TaskLock ''v'' 1) 1) (TaskFile ''v'')
   \<and> owns (nested_thread 2 (TaskLock ''v'' 2) (ProjectLock ''v'' ''prj_demo'') 1) (TaskFile ''v'')
   \<and> waits_for (nested_thread 2 (TaskLock ''v'' 2) (ProjectLock ''v'' ''prj_demo'') 1) (ProjectFile ''v'' ''prj_demo'')
   \<and> \<not> owns (nested_thread 1 (MutationLock ''v'') (TaskLock ''v'' 1) 1) (ProjectFile ''v'' ''prj_demo'')"
proof -
  let ?a = "nested_thread 1 (MutationLock ''v'') (TaskLock ''v'' 1) 1"
  let ?b = "nested_thread 2 (TaskLock ''v'' 2) (ProjectLock ''v'' ''prj_demo'') 1"
  let ?th = "\<lambda>i :: nat. if i = 0 then ?a else ?b"
  let ?want = "\<lambda>i :: nat. if i = 0 then TaskFile ''v'' else ProjectFile ''v'' ''prj_demo''"
  have ok: "reachable_thread ?a" "reachable_thread ?b"
    by (rule nested_reachable, code_simp)+
  have vault: "one_vault ?a" "one_vault ?b"
    by code_simp+
  have waits: "waits_for ?a (TaskFile ''v'')" "waits_for ?b (ProjectFile ''v'' ''prj_demo'')"
    "owns ?b (TaskFile ''v'')"
    by code_simp+
  have "\<exists>i < 2. \<not> owns (?th (Suc i mod 2)) (?want i)"
    by (rule lock_hierarchy_has_no_deadlock) (use ok vault waits in \<open>auto simp: less_2_cases_iff\<close>)
  then show ?thesis using waits by (auto simp: less_2_cases_iff)
qed

text \<open>
  The two habits matter, and the tracker enforces neither. Two threads on two vaults may enter the
  mutation locks in opposite orders, and a mutation of a vault inside a mutation of the same vault
  waits for the lock on the file that its own thread owns.
\<close>

lemma two_vaults_can_wait_in_a_circle:
  fixes a b :: lock_thread
  defines "a \<equiv> nested_thread 1 (MutationLock ''v'') (MutationLock ''w'') 0"
    and "b \<equiv> nested_thread 1 (MutationLock ''w'') (MutationLock ''v'') 0"
  shows "reachable_thread a \<and> reachable_thread b
    \<and> waits_for a (MutationThread 1 ''w'') \<and> owns b (MutationThread 1 ''w'')
    \<and> waits_for b (MutationThread 1 ''v'') \<and> owns a (MutationThread 1 ''v'')"
  unfolding a_def b_def
  by (intro conjI nested_reachable; code_simp)

lemma nested_mutation_waits_for_itself:
  fixes a :: lock_thread
  defines "a \<equiv> nested_thread 1 (MutationLock ''v'') (MutationLock ''v'') 0"
  shows "reachable_thread a \<and> waits_for a (MutationFile ''v'') \<and> owns a (MutationFile ''v'')"
  unfolding a_def
  by (intro conjI nested_reachable; code_simp)

end
