(* ===== verification/Spec2Isabelle.thy ===== *)
theory Spec2Isabelle
  imports Work_Properties Event_Properties Recovery_Properties Service_Properties Ledger_Properties
    Temporal_Properties Decision_Properties State_Properties Lock_Waiting
begin

text \<open>
  A verification library for the project state engine of POWER, the Python package under
  \<open>src/src/power_framework/core\<close>. All file names below are relative to it.

  \<^bold>\<open>The program.\<close> POWER keeps the state of a project as the replay of an append-only ledger.
  An event (\<open>project_models.py\<close>) is hashed over its canonical JSON text (\<open>canonical_json.py\<close>) and chained
  to the one before; the event store of the project (\<open>project_store.py\<close>) appends it, repairs a torn
  tail, rotates the file and verifies the chain. The reducer (\<open>state_reducer.py\<close>) replays the events
  to a state (\<open>state_models.py\<close>) under the rules of the governance engine (\<open>governance_engine.py\<close>). Tasks
  (\<open>task_models.py\<close>, \<open>task_service.py\<close>) and decisions (\<open>decision_models.py\<close>, \<open>decision_service.py\<close>) live in
  files of their own, written in the transactions of the task store (\<open>task_store.py\<close>). The trusted state
  service (\<open>state_service.py\<close>) puts the three together: it resolves what the ledger associates with the
  project from the owning stores into an authority, rebuilds the state, restores snapshots and writes
  the evaluations of quality gates back into the ledger. The locks of the stores are taken in the order
  that \<open>lock_tracker.py\<close> enforces. Beside the engine, \<open>temporal.py\<close> decides which notes of a vault are
  current.

  \<^bold>\<open>The theories of the model\<close>, in the order of the calls; records, functions and constructors have the
  names of the code.

  \<^item> \<open>Prelude\<close>: results that may be errors (a sum, \<open>bindE\<close>, \<open>foldE\<close>, \<open>mapE\<close>), Python dictionaries as lists
    of pairs in insertion order, Python strings as lists of bytes. \<open>Interfaces\<close>: the contracts of a
    chained event stream and of a register of entities.
  \<^item> \<open>Py_Json\<close>: JSON values and \<open>canonical_json.py\<close>. \<open>Project_Event\<close>: \<open>ProjectEvent\<close>, \<open>AppendCommand\<close> and the
    saga payloads. \<open>Semantic_Entities\<close>: provenance and the RAID entities of \<open>semantic_models.py\<close>.
  \<^item> \<open>State_Model\<close>, \<open>Project_State\<close>: the schemas of \<open>state_models.py\<close>, the revision and the snapshot.
    \<open>Governance_Rules\<close>, \<open>Dependency_Cycles\<close>, \<open>Governance_Engine\<close>: the transition table, the search for
    cycles and the verdicts of \<open>governance_engine.py\<close>. \<open>Raid_Registers\<close>, \<open>State_Handlers\<close>, \<open>Reducer\<close>, \<open>Explain\<close>:
    the handlers, \<open>reduce_internal\<close>, \<open>restore_from_snapshot\<close> and \<open>explain\<close> of \<open>state_reducer.py\<close>.
  \<^item> \<open>Lock_Tracker\<close>: \<open>lock_tracker.py\<close>. \<open>Lock_Waiting\<close>: the process and file locks behind its levels, in
    \<open>mutation.py\<close>, \<open>task_store.py\<close> and \<open>project_store.py\<close>. \<open>Project_Ledger\<close>: the operations of \<open>ProjectEventStore\<close>.
  \<^item> \<open>Task_Model\<close>, \<open>Task_Objects\<close>: \<open>task_models.py\<close>. \<open>Task_Recovery\<close>, \<open>Task_Files\<close>: \<open>task_store.py\<close>, its
    transactions with their recovery and its files. \<open>Task_Service\<close>: \<open>create_task\<close> and \<open>transition_task\<close>.
  \<^item> \<open>Decision_Service\<close>: \<open>decision_models.py\<close> and \<open>decision_service.py\<close>.
  \<^item> \<open>State_Service\<close>, \<open>State_Governance\<close>: \<open>state_service.py\<close>.
  \<^item> \<open>Temporal\<close>: \<open>temporal.py\<close>.

  \<^bold>\<open>State and errors.\<close> The state of the reducer is the record \<open>project_state\<close>. A vault is a partial
  function from paths to contents; the task store adds the transaction directories and the lock
  counters (\<open>task_store\<close>), the ledger is the list of the files of its directory with the locks of the
  thread (\<open>ledger\<close>). An operation that may raise returns the error or the result, and the new state
  with either; each component has its type of errors, one constructor for each exception that a caller
  can tell apart. A crash is a state that a transaction or a write passes through.

  \<^bold>\<open>What the lemmas show.\<close>

  \<^item> \<open>Canonical_Json_Facts\<close>, \<open>Event_Properties\<close>: the canonical text determines the value, so that a digest
    stands for one value as long as SHA-256 does not collide on the texts compared; validation is stable.
  \<^item> \<open>Replay_Simulation\<close>, \<open>Reducer_Facts\<close>, \<open>Replay_Properties\<close>: the projections do not influence a replay; a
    snapshot and the tail give the full replay; an accepted stream is numbered, chained and determined by
    its head. \<open>Lifecycle_Facts\<close>, \<open>Governance_Facts\<close>, \<open>Lifecycle_Properties\<close>: phases, gates, overrides, RACI and
    RAID. \<open>Work_Facts\<close>, \<open>Work_Properties\<close>: cycles, readiness, progress, closing and explanations.
  \<^item> \<open>Ledger_Facts\<close>, \<open>Ledger_Records\<close>, \<open>Ledger_Steps\<close>, \<open>Ledger_Properties\<close>: a record is one line that reads
    back; verification, append, repair and rotation against the list of events they stand for.
  \<^item> \<open>Recovery_Facts\<close>, \<open>Recovery_Properties\<close>: transactions, crashes, interrupts and recovery. \<open>Store_Facts\<close>,
    \<open>Service_Facts\<close>, \<open>Service_Properties\<close>: the commands of the task service. \<open>Decision_Facts\<close>,
    \<open>Decision_Steps\<close>, \<open>Decision_Properties\<close>: creation and resolution of decisions, also among the commands of
    the task service on the same store.
  \<^item> \<open>State_Facts\<close>, \<open>State_Snapshots\<close>, \<open>State_Evaluations\<close>, \<open>State_Properties\<close>: the authority is what the owning
    stores say; a historical state depends on the ledger alone; snapshots and candidates are accepted only
    when they agree with the ledger; a Definition of Done is earned, and without tasks closes the project.
  \<^item> \<open>Lock_Waiting\<close>: threads that keep to one vault and one \<open>TaskStore\<close> and do not nest the mutation lock never
    wait in a circle; two vaults, or a nested mutation, can make a circle.
  \<^item> \<open>Temporal_Facts\<close>, \<open>Temporal_Properties\<close>: the statuses of notes against a reference by reachability.

  The theories \<open>Sample_Project\<close>, \<open>Sample_Fork\<close>, \<open>Sample_Service\<close>, \<open>Sample_Ledger\<close>, \<open>Sample_Decision\<close> and \<open>Sample_State\<close> hold
  one small vault; every theorem with a hypothesis is applied to it by the theorem \<open>_witness\<close> after it.

  \<^bold>\<open>Interfaces.\<close> Six contracts are locales, each interpreted on the definitions of the model:
  \<open>event_sourced\<close> (the reducer), \<open>raid_register\<close> (risks, issues, assumptions, dependencies),
  \<open>wait_order\<close> (the threads that take locks through the tracker), \<open>undo_log\<close> (the backups of a transaction), \<open>journalled_item\<close> (the
  files of a task) and \<open>live_source\<close> (the task views and the decision views of the state service).

  \<^bold>\<open>Loops.\<close> Most are structural recursion. The depth-first search for dependency cycles recurses with a
  bound on the depth, for which the number of tasks is shown to be enough whatever the graph; the one
  over notes has the number of notes and one more, and every note is visited once. The search of the
  reachable notes has a measure.

  \<^bold>\<open>Parameters.\<close> What the code calls outside itself is in the environment records: \<open>pyrt\<close> (SHA-256, the
  text of a double, the parsing of numbers, \<open>repr\<close>), \<open>store_env\<close>, \<open>ledger_env\<close>, \<open>decision_env\<close>, \<open>state_env\<close> (the
  JSON parser, the clock, random identifiers, the conversion of timestamps) and \<open>temporal_env\<close> (the
  order in which a set is iterated). Theorems assume of them what is documented: that the parser reads
  back a text that was written, that the texts of two doubles differ, and, where two values are
  compared by their digests, that the digests of these values differ.

  \<^bold>\<open>Limits of the model.\<close> Strings are lists of bytes and their lengths are counted in characters of
  UTF-8; case mapping and white space are those of ASCII. Doubles are rationals with the special values.
  There are no symbolic links, file descriptors or permissions, so that the checks against them are left
  out. The stores run one operation at a time; how threads wait for the locks of the stores is modelled
  apart from what they do inside, and a timeout is a thread that gives up. An operation reads the clock once, and a directory is listed in the
  order of the names. Integers are those of Python, without bounds; the limit on the depth of recursion
  of the interpreter is not modelled. The engine is used with its default rules.

  \<^bold>\<open>Not modelled.\<close> The rest of the package has other concerns, and the model takes nothing from it:

  \<^item> of the modelled files, the migration of version 1 work packets and its rollback in \<open>task_service.py\<close>,
    the listing and deletion of tasks in \<open>task_store.py\<close>, the entities of \<open>semantic_models.py\<close> beyond the
    RAID registers, and the scan of the vault in \<open>temporal.py\<close>, which read directories or a database;
  \<^item> \<open>state_migration.py\<close>, a conversion of old files, and \<open>project_ingestion.py\<close>, the filter before the ledger;
  \<^item> \<open>semantic_compiler.py\<close>, heuristics on free text, whose proposals enter the engine as events;
  \<^item> retrieval, search and their evaluation, which are queries of SQLite and numerical ranking;
  \<^item> the maintenance of Markdown notes, the command line, the applications and integrations, the broker of
    operating system services, and the policies on networks and identities, which are text processing,
    formatting and calls of the operating system.
\<close>

end
